(* ===== verification/Rigel_Prelude.thy ===== *)
theory Rigel_Prelude
  imports Main "HOL-Library.Word"
begin

text \<open>
  Shared material of the development: the integer types of
  \<^verbatim>\<open>include/rigel/rigel_types.h\<close>, the C idioms that every component uses (testing a
  mask, the Amiga SET/CLR register write, the two 16-bit halves of a 32-bit DMA
  pointer) and the bit-level lemmas about them.  The locale \<open>setclr_register\<close> is the
  contract of a SET/CLR register; the components interpret it on their own write
  functions.
\<close>

unbundle bit_operations_syntax

section \<open>Integer types\<close>

type_synonym u8 = "8 word"
type_synonym u16 = "16 word"
type_synonym u32 = "32 word"
type_synonym u64 = "64 word"
type_synonym i16 = "16 word"

text \<open>
  A C value of type \<^verbatim>\<open>int16_t\<close> is stored in a 16-bit word and read with
  \<^term>\<open>sint\<close>.  C conversions between the unsigned types are \<^term>\<open>ucast\<close>, and
  the sign-extending conversion of an \<^verbatim>\<open>int16_t\<close> to 32 bits is \<^term>\<open>scast\<close>.
\<close>

section \<open>Automation collections\<close>

named_theorems reg_defs "definitions of the register-level operations"
named_theorems mask_simps "C mask tests as tests of single bits"

section \<open>Masks as bits\<close>

text \<open>
  The C test \<^verbatim>\<open>(w & m) != 0\<close> with a one-bit mask is a test of that bit.  The
  equations rewrite the zero test; the simplifier obtains the other one by negation.
\<close>

lemma and_mask16_bit [mask_simps]:
  "(w AND 0x0001 = 0) = (\<not> bit w 0)" "(w AND 0x0002 = 0) = (\<not> bit w 1)"
  "(w AND 0x0004 = 0) = (\<not> bit w 2)" "(w AND 0x0008 = 0) = (\<not> bit w 3)"
  "(w AND 0x0010 = 0) = (\<not> bit w 4)" "(w AND 0x0020 = 0) = (\<not> bit w 5)"
  "(w AND 0x0040 = 0) = (\<not> bit w 6)" "(w AND 0x0080 = 0) = (\<not> bit w 7)"
  "(w AND 0x0100 = 0) = (\<not> bit w 8)" "(w AND 0x0200 = 0) = (\<not> bit w 9)"
  "(w AND 0x0400 = 0) = (\<not> bit w 10)" "(w AND 0x0800 = 0) = (\<not> bit w 11)"
  "(w AND 0x1000 = 0) = (\<not> bit w 12)" "(w AND 0x2000 = 0) = (\<not> bit w 13)"
  "(w AND 0x4000 = 0) = (\<not> bit w 14)" "(w AND 0x8000 = 0) = (\<not> bit w 15)"
  for w :: u16
  using and_exp_eq_0_iff_not_bit [of w 0] and_exp_eq_0_iff_not_bit [of w 1]
    and_exp_eq_0_iff_not_bit [of w 2] and_exp_eq_0_iff_not_bit [of w 3]
    and_exp_eq_0_iff_not_bit [of w 4] and_exp_eq_0_iff_not_bit [of w 5]
    and_exp_eq_0_iff_not_bit [of w 6] and_exp_eq_0_iff_not_bit [of w 7]
    and_exp_eq_0_iff_not_bit [of w 8] and_exp_eq_0_iff_not_bit [of w 9]
    and_exp_eq_0_iff_not_bit [of w 10] and_exp_eq_0_iff_not_bit [of w 11]
    and_exp_eq_0_iff_not_bit [of w 12] and_exp_eq_0_iff_not_bit [of w 13]
    and_exp_eq_0_iff_not_bit [of w 14] and_exp_eq_0_iff_not_bit [of w 15]
  by simp_all

lemma and_mask8_bit [mask_simps]:
  "(w AND 0x01 = 0) = (\<not> bit w 0)" "(w AND 0x02 = 0) = (\<not> bit w 1)"
  "(w AND 0x04 = 0) = (\<not> bit w 2)" "(w AND 0x08 = 0) = (\<not> bit w 3)"
  "(w AND 0x10 = 0) = (\<not> bit w 4)" "(w AND 0x20 = 0) = (\<not> bit w 5)"
  "(w AND 0x40 = 0) = (\<not> bit w 6)" "(w AND 0x80 = 0) = (\<not> bit w 7)"
  for w :: u8
  using and_exp_eq_0_iff_not_bit [of w 0] and_exp_eq_0_iff_not_bit [of w 1]
    and_exp_eq_0_iff_not_bit [of w 2] and_exp_eq_0_iff_not_bit [of w 3]
    and_exp_eq_0_iff_not_bit [of w 4] and_exp_eq_0_iff_not_bit [of w 5]
    and_exp_eq_0_iff_not_bit [of w 6] and_exp_eq_0_iff_not_bit [of w 7]
  by simp_all

text \<open>
  Contiguous masks.  The simplifier reduces a bit of a word numeral to a bit of the
  integer numeral, so the equations are stated on integers.
\<close>

lemma bit_int_low_mask [simp]:
  "bit (0x1f :: int) n \<longleftrightarrow> n < 5"
  "bit (0x3f :: int) n \<longleftrightarrow> n < 6"
  "bit (0x7f :: int) n \<longleftrightarrow> n < 7"
  "bit (0xff :: int) n \<longleftrightarrow> n < 8"
  "bit (0x3ff :: int) n \<longleftrightarrow> n < 10"
  "bit (0x7fff :: int) n \<longleftrightarrow> n < 15"
  "bit (0xffff :: int) n \<longleftrightarrow> n < 16"
  "bit (0xffffff :: int) n \<longleftrightarrow> n < 24"
proof -
  have "(0x1f :: int) = mask 5" "(0x3f :: int) = mask 6" "(0x7f :: int) = mask 7"
    "(0xff :: int) = mask 8" "(0x3ff :: int) = mask 10" "(0x7fff :: int) = mask 15"
    "(0xffff :: int) = mask 16" "(0xffffff :: int) = mask 24"
    by (simp_all add: mask_eq_exp_minus_1)
  then show "bit (0x1f :: int) n \<longleftrightarrow> n < 5" "bit (0x3f :: int) n \<longleftrightarrow> n < 6"
    "bit (0x7f :: int) n \<longleftrightarrow> n < 7" "bit (0xff :: int) n \<longleftrightarrow> n < 8"
    "bit (0x3ff :: int) n \<longleftrightarrow> n < 10" "bit (0x7fff :: int) n \<longleftrightarrow> n < 15"
    "bit (0xffff :: int) n \<longleftrightarrow> n < 16" "bit (0xffffff :: int) n \<longleftrightarrow> n < 24"
    by (simp_all only: bit_mask_iff possible_bit_int simp_thms)
qed

lemma bit_int_high_mask [simp]:
  "bit (0xffff0000 :: int) n \<longleftrightarrow> 16 \<le> n \<and> n < 32"
  "bit (0xff00 :: int) n \<longleftrightarrow> 8 \<le> n \<and> n < 16"
proof -
  have "(0xffff0000 :: int) = push_bit 16 0xffff" "(0xff00 :: int) = push_bit 8 0xff"
    by (simp_all add: push_bit_eq_mult)
  moreover have "bit (push_bit 16 0xffff :: int) n \<longleftrightarrow> 16 \<le> n \<and> n < 32"
    "bit (push_bit 8 0xff :: int) n \<longleftrightarrow> 8 \<le> n \<and> n < 16"
    by (auto simp add: bit_push_bit_iff simp del: push_bit_numeral)
  ultimately show "bit (0xffff0000 :: int) n \<longleftrightarrow> 16 \<le> n \<and> n < 32"
    "bit (0xff00 :: int) n \<longleftrightarrow> 8 \<le> n \<and> n < 16"
    by (simp_all only:)
qed

lemma bit_or_push1: "n < LENGTH('a) \<Longrightarrow> bit (w OR push_bit k 1) n = (bit w n \<or> n = k)"
  for w :: "'a::len word"
  by (auto simp: bit_or_iff bit_push_bit_iff bit_1_iff simp del: push_bit_of_1)

section \<open>Conversions between widths\<close>

lemma unat_ucast_small: "unat w < 2 ^ LENGTH('b) \<Longrightarrow> unat (ucast w :: 'b::len word) = unat w"
  for w :: "'a::len word"
  by (simp add: unsigned_ucast_eq unsigned_take_bit_eq take_bit_nat_eq_self)

lemma unat_ucast_up: "LENGTH('a) \<le> LENGTH('b) \<Longrightarrow> unat (ucast w :: 'b::len word) = unat w"
  for w :: "'a::len word"
proof (rule unat_ucast_small)
  assume "LENGTH('a) \<le> LENGTH('b)"
  then have "(2::nat) ^ LENGTH('a) \<le> 2 ^ LENGTH('b)" by (rule power_increasing) simp
  then show "unat w < 2 ^ LENGTH('b)" using unsigned_less [of w] by (rule less_le_trans [rotated])
qed

lemma unat_ucast_up_simps [simp]:
  "unat (ucast (a :: u8) :: u16) = unat a" "unat (ucast (a :: u8) :: u32) = unat a"
  "unat (ucast (b :: u16) :: u32) = unat b" "unat (ucast (b :: u16) :: u64) = unat b"
  "unat (ucast (c :: u32) :: u64) = unat c"
  by (simp_all add: unat_ucast_up)

lemma ucast_diff_down: "LENGTH('b) \<le> LENGTH('a) \<Longrightarrow>
    (ucast (a - b) :: 'b::len word) = ucast a - ucast b" for a b :: "'a::len word"
proof (transfer, goal_cases)
  case (1 a b)
  then show ?case
    by (simp add: min_absorb1) (metis min_absorb1 take_bit_diff take_bit_take_bit)
qed

lemma ucast_add_down: "LENGTH('b) \<le> LENGTH('a) \<Longrightarrow>
    (ucast (a + b) :: 'b::len word) = ucast a + ucast b" for a b :: "'a::len word"
proof (transfer, goal_cases)
  case (1 a b)
  then show ?case
    by (simp add: min_absorb1) (metis min_absorb1 take_bit_add take_bit_take_bit)
qed

lemma ucast_ucast_down: "LENGTH('c) \<le> LENGTH('b) \<Longrightarrow>
    (ucast (ucast w :: 'b::len word) :: 'c::len word) = ucast w" for w :: "'a::len word"
  by (rule bit_word_eqI) (simp add: bit_simps)

lemma word_of_nat_unat: "word_of_nat (unat w) = w" for w :: "'a::len word"
  by simp

lemma unat_of_nat_small: "n < 2 ^ LENGTH('a) \<Longrightarrow> unat (word_of_nat n :: 'a::len word) = n"
  by (simp add: unat_of_nat take_bit_nat_eq_self)

lemma ucast_via_nat: "ucast w = word_of_nat (unat w)" for w :: "'a::len word"
  by simp

lemma unat_inc: "Suc (unat w) < 2 ^ LENGTH('a) \<Longrightarrow> unat (w + 1) = Suc (unat w)"
  for w :: "'a::len word"
  by (simp add: unat_word_ariths)

lemma unat_dec: "0 < unat w \<Longrightarrow> unat (w - 1) = unat w - 1" for w :: "'a::len word"
  by (rule unat_minus_one) auto

lemma even_unat: "even (unat w) \<longleftrightarrow> even w" for w :: "'a::len word"
proof -
  have "bit (unat w) 0 \<longleftrightarrow> bit w 0" by (simp only: bit_unsigned_iff possible_bit_nat) simp
  then show ?thesis by (simp add: bit_0)
qed

lemma not_bit_if_unat_less: "unat w < 2 ^ k \<Longrightarrow> k \<le> n \<Longrightarrow> \<not> bit w n" for w :: "'a::len word"
proof
  assume *: "unat w < 2 ^ k" "k \<le> n" "bit w n"
  then have "bit (take_bit k (unat w)) n"
    by (simp add: take_bit_nat_eq_self bit_unsigned_iff)
  then show False using *(2) by (simp add: bit_take_bit_iff)
qed

lemma unat_and_le: "unat (w AND m) \<le> unat m" for w m :: "'a::len word"
  by (simp add: word_and_le1 flip: word_le_nat_alt)

lemma unat_less_if_bits:
  fixes w :: "'a::len word"
  assumes "\<And>n. bit w n \<Longrightarrow> n < k"
  shows "unat w < 2 ^ k"
proof -
  have "take_bit k w = w"
    by (intro bit_word_eqI) (auto simp: bit_take_bit_iff assms)
  then have "unat w = take_bit k (unat w)"
    by (metis unsigned_take_bit_eq)
  then show ?thesis
    by (metis take_bit_nat_less_exp)
qed

lemma bit_imp_less_if_unat_less: "unat w < 2 ^ k \<Longrightarrow> bit w n \<Longrightarrow> n < k" for w :: "'a::len word"
  using not_bit_if_unat_less [of w k n] by (cases "k \<le> n") auto

lemma unat_bounds:
  "unat (a :: u8) < 256" "unat (b :: u16) < 65536" "unat (c :: u32) < 4294967296"
  "unat (d :: u64) < 18446744073709551616"
  using unsigned_less [of a, where ?'a = nat] unsigned_less [of b, where ?'a = nat]
    unsigned_less [of c, where ?'a = nat] unsigned_less [of d, where ?'a = nat] by simp_all

lemma unat_drop_bit1: "unat (drop_bit 1 a) = unat a div 2" for a :: "'a::len word"
  by (subst unat_drop_bit_eq) (simp add: drop_bit_eq_div)

lemma unat_clear_bit0: "unat (a AND NOT 1) = 2 * (unat a div 2)" for a :: "'a::len word"
proof -
  have "a AND NOT 1 = push_bit 1 (drop_bit 1 a)"
  proof (rule bit_word_eqI)
    fix n
    assume "n < LENGTH('a)"
    then show "bit (a AND NOT 1) n = bit (push_bit 1 (drop_bit 1 a)) n"
      by (simp only: bit_and_iff bit_not_iff bit_push_bit_iff bit_drop_bit_eq bit_1_iff o_def
          possible_bit_word) auto
  qed
  moreover have "unat (push_bit 1 (drop_bit 1 a)) = 2 * (unat a div 2)"
  proof -
    have "2 * (unat a div 2) \<le> unat a" by simp
    then have "2 * (unat a div 2) < 2 ^ LENGTH('a)"
      using unsigned_less [of a, where ?'a = nat] by (rule le_less_trans)
    then show ?thesis
      by (simp only: unsigned_push_bit_eq unat_drop_bit1)
        (simp add: push_bit_eq_mult take_bit_nat_eq_self mult.commute)
  qed
  ultimately show ?thesis by simp
qed

lemma sint_eq_unat: "unat w < 2 ^ (LENGTH('a) - 1) \<Longrightarrow> sint w = int (unat w)" for w :: "'a::len word"
proof -
  assume *: "unat w < 2 ^ (LENGTH('a) - 1)"
  then have "uint w < 2 ^ (LENGTH('a) - Suc 0)"
    by (metis One_nat_def of_nat_less_iff of_nat_numeral of_nat_power of_nat_unat)
  moreover have "- (2 ^ (LENGTH('a) - Suc 0)) \<le> uint w"
    by (rule order_trans [of _ 0]) simp_all
  ultimately show ?thesis
    by (simp add: sint_uint signed_take_bit_int_eq_self)
qed

section \<open>Iteration\<close>

lemma funpow_invariant: "P x \<Longrightarrow> (\<And>x. P x \<Longrightarrow> P (f x)) \<Longrightarrow> P ((f ^^ n) x)"
  by (induction n) auto

section \<open>SET/CLR registers\<close>

text \<open>
  INTENA, INTREQ, ADKCON, DMACON and the CIA interrupt mask share one write protocol:
  the top bit of the value written selects whether the one bits of the value are set or
  cleared, and bits outside the writable field never change.
\<close>

locale setclr_register =
  fixes apply_write :: "'a::len word \<Rightarrow> 'a word \<Rightarrow> 'a word"
    and flag :: nat
    and width :: nat
  assumes write_bit: "bit (apply_write cur v) n =
      (if n < width \<and> bit v n then bit v flag else bit cur n)"
    and flag_width: "width \<le> flag"
begin

lemma write_idem: "apply_write (apply_write cur v) v = apply_write cur v"
  by (rule bit_word_eqI) (simp add: write_bit)

lemma write_set_then_clear:
  assumes "bit v flag" and "\<not> bit v' flag"
    and "\<And>n. n < width \<Longrightarrow> bit v' n = bit v n"
    and "\<And>n. n < width \<Longrightarrow> bit v n \<Longrightarrow> \<not> bit cur n"
  shows "apply_write (apply_write cur v) v' = cur"
  by (rule bit_word_eqI) (auto simp: write_bit assms)

lemma write_outside: "width \<le> n \<Longrightarrow> bit (apply_write cur v) n = bit cur n"
  by (simp add: write_bit)

lemma write_commute:
  assumes "bit v flag = bit v' flag"
  shows "apply_write (apply_write cur v) v' = apply_write (apply_write cur v') v"
  by (rule bit_word_eqI) (auto simp: write_bit assms)

end

text \<open>The 16-bit form of the write, as every chipset register spells it.\<close>

lemma setclr16_bit:
  "bit (if v AND 0x8000 \<noteq> 0 then cur OR (v AND 0x7fff) else cur AND NOT (v AND 0x7fff)) n =
     (if n < 15 \<and> bit v n then bit v 15 else bit cur n)" for cur v :: u16
  by (auto simp: mask_simps bit_simps dest: bit_imp_le_length)

lemma and_or_eq_0_iff: "w AND (a OR b) = 0 \<longleftrightarrow> w AND a = 0 \<and> w AND b = 0"
  for w :: "'a::len word"
  by (auto simp: bit_eq_iff bit_simps)

section \<open>Halves of a DMA pointer\<close>

text \<open>
  \<^verbatim>\<open>(p & 0x0000ffff) | (v << 16)\<close> and \<^verbatim>\<open>(p & 0xffff0000) | v\<close>, the two
  writes with which every pointer register pair is loaded.
\<close>

definition ptr_set_hi :: "u32 \<Rightarrow> u16 \<Rightarrow> u32" where
  "ptr_set_hi p v = (p AND 0x0000ffff) OR push_bit 16 (ucast v)"

definition ptr_set_lo :: "u32 \<Rightarrow> u16 \<Rightarrow> u32" where
  "ptr_set_lo p v = (p AND 0xffff0000) OR ucast v"

lemma bit_ptr_set_hi: "bit (ptr_set_hi p v) n =
    (if n < 16 then bit p n else bit v (n - 16))"
  by (auto simp: ptr_set_hi_def bit_simps dest: bit_imp_le_length)

lemma bit_ptr_set_lo: "bit (ptr_set_lo p v) n =
    (if n < 16 then bit v n else bit p n)"
  by (auto simp: ptr_set_lo_def bit_simps dest: bit_imp_le_length)

lemma ptr_halves_commute: "ptr_set_lo (ptr_set_hi p h) l = ptr_set_hi (ptr_set_lo p l) h"
  by (rule bit_word_eqI) (simp add: bit_ptr_set_hi bit_ptr_set_lo)

lemma ptr_halves_overwrite: "ptr_set_lo (ptr_set_hi p h) l = ptr_set_lo (ptr_set_hi q h) l"
  by (rule bit_word_eqI) (simp add: bit_ptr_set_hi bit_ptr_set_lo)

lemma ptr_hi_read: "ucast (drop_bit 16 (ptr_set_lo (ptr_set_hi p h) l)) = h"
  by (rule bit_word_eqI) (simp add: bit_ptr_set_hi bit_ptr_set_lo bit_simps)

lemma ptr_lo_read: "ucast (ptr_set_lo (ptr_set_hi p h) l AND 0xffff) = l"
  by (rule bit_word_eqI) (auto simp: bit_ptr_set_hi bit_ptr_set_lo bit_simps)

end
