(* ===== verification/Interrupts.thy ===== *)
theory Interrupts
  imports Rigel_Prelude
begin

text \<open>
  Paula's interrupt controller: \<^verbatim>\<open>src/domains/interrupt/interrupt_domain.c\<close>, the
  forwarding layer \<^verbatim>\<open>src/chipset/paula/paula_interrupts.c\<close> and the register
  helpers of \<^verbatim>\<open>src/irq\<close>.  The state is the record \<open>RigelInterruptDomain\<close>; a record
  value stands for the non-null pointer the C functions receive, so their
  \<^verbatim>\<open>irq == NULL\<close> guards, which return without effect, have no counterpart.  Trace
  output to stderr is left out.
\<close>

unbundle bit_operations_syntax

section \<open>State and register numbers\<close>

abbreviation RIGEL_PAULA_INT_TBE :: u16 where "RIGEL_PAULA_INT_TBE \<equiv> 0x0001"
abbreviation RIGEL_PAULA_INT_DSKBLK :: u16 where "RIGEL_PAULA_INT_DSKBLK \<equiv> 0x0002"
abbreviation RIGEL_PAULA_INT_SOFT :: u16 where "RIGEL_PAULA_INT_SOFT \<equiv> 0x0004"
abbreviation RIGEL_PAULA_INT_PORTS :: u16 where "RIGEL_PAULA_INT_PORTS \<equiv> 0x0008"
abbreviation RIGEL_PAULA_INT_COPER :: u16 where "RIGEL_PAULA_INT_COPER \<equiv> 0x0010"
abbreviation RIGEL_PAULA_INT_VERTB :: u16 where "RIGEL_PAULA_INT_VERTB \<equiv> 0x0020"
abbreviation RIGEL_PAULA_INT_BLIT :: u16 where "RIGEL_PAULA_INT_BLIT \<equiv> 0x0040"
abbreviation RIGEL_PAULA_INT_AUD0 :: u16 where "RIGEL_PAULA_INT_AUD0 \<equiv> 0x0080"
abbreviation RIGEL_PAULA_INT_AUD1 :: u16 where "RIGEL_PAULA_INT_AUD1 \<equiv> 0x0100"
abbreviation RIGEL_PAULA_INT_AUD2 :: u16 where "RIGEL_PAULA_INT_AUD2 \<equiv> 0x0200"
abbreviation RIGEL_PAULA_INT_AUD3 :: u16 where "RIGEL_PAULA_INT_AUD3 \<equiv> 0x0400"
abbreviation RIGEL_PAULA_INT_RBF :: u16 where "RIGEL_PAULA_INT_RBF \<equiv> 0x0800"
abbreviation RIGEL_PAULA_INT_DSKSYN :: u16 where "RIGEL_PAULA_INT_DSKSYN \<equiv> 0x1000"
abbreviation RIGEL_PAULA_INT_EXTER :: u16 where "RIGEL_PAULA_INT_EXTER \<equiv> 0x2000"
abbreviation RIGEL_PAULA_INT_INTEN :: u16 where "RIGEL_PAULA_INT_INTEN \<equiv> 0x4000"
abbreviation RIGEL_PAULA_INT_SETCLR :: u16 where "RIGEL_PAULA_INT_SETCLR \<equiv> 0x8000"

abbreviation RIGEL_REG_INTENAR :: u32 where "RIGEL_REG_INTENAR \<equiv> 0x01c"
abbreviation RIGEL_REG_INTREQR :: u32 where "RIGEL_REG_INTREQR \<equiv> 0x01e"
abbreviation RIGEL_REG_INTENA :: u32 where "RIGEL_REG_INTENA \<equiv> 0x09a"
abbreviation RIGEL_REG_INTREQ :: u32 where "RIGEL_REG_INTREQ \<equiv> 0x09c"

record RigelInterruptDomain =
  intena :: u16
  intreq :: u16
  ipl :: u8

section \<open>Operations\<close>

definition rigel_interrupt_domain_owns_reg :: "u32 \<Rightarrow> bool" where
  "rigel_interrupt_domain_owns_reg addr \<longleftrightarrow>
     addr = RIGEL_REG_INTENA \<or> addr = RIGEL_REG_INTREQ \<or>
     addr = RIGEL_REG_INTENAR \<or> addr = RIGEL_REG_INTREQR"

definition rigel_interrupt_domain_compute_ipl :: "RigelInterruptDomain \<Rightarrow> u8" where
  "rigel_interrupt_domain_compute_ipl irq =
     (let pending = intreq irq AND intena irq in
      if intena irq AND RIGEL_PAULA_INT_INTEN = 0 then 0
      else if pending AND RIGEL_PAULA_INT_EXTER \<noteq> 0 then 6
      else if pending AND (RIGEL_PAULA_INT_DSKSYN OR RIGEL_PAULA_INT_RBF) \<noteq> 0 then 5
      else if pending AND (RIGEL_PAULA_INT_AUD0 OR RIGEL_PAULA_INT_AUD1 OR
                           RIGEL_PAULA_INT_AUD2 OR RIGEL_PAULA_INT_AUD3) \<noteq> 0 then 4
      else if pending AND (RIGEL_PAULA_INT_BLIT OR RIGEL_PAULA_INT_VERTB OR
                           RIGEL_PAULA_INT_COPER) \<noteq> 0 then 3
      else if pending AND RIGEL_PAULA_INT_PORTS \<noteq> 0 then 2
      else if pending AND (RIGEL_PAULA_INT_TBE OR RIGEL_PAULA_INT_DSKBLK OR
                           RIGEL_PAULA_INT_SOFT) \<noteq> 0 then 1
      else 0)"

definition rigel_interrupt_domain_update ::
    "RigelInterruptDomain \<Rightarrow> RigelInterruptDomain" where
  "rigel_interrupt_domain_update irq = irq\<lparr>ipl := rigel_interrupt_domain_compute_ipl irq\<rparr>"

definition rigel_interrupt_domain_reset ::
    "RigelInterruptDomain \<Rightarrow> RigelInterruptDomain" where
  "rigel_interrupt_domain_reset irq = irq\<lparr>intena := 0, intreq := 0, ipl := 0\<rparr>"

definition rigel_interrupt_domain_write_intena ::
    "RigelInterruptDomain \<Rightarrow> u16 \<Rightarrow> RigelInterruptDomain" where
  "rigel_interrupt_domain_write_intena irq value =
     (let msk = value AND 0x7fff in
      rigel_interrupt_domain_update
        (if value AND RIGEL_PAULA_INT_SETCLR \<noteq> 0
         then irq\<lparr>intena := intena irq OR msk\<rparr>
         else irq\<lparr>intena := intena irq AND NOT msk\<rparr>))"

definition rigel_interrupt_domain_write_intreq ::
    "RigelInterruptDomain \<Rightarrow> u16 \<Rightarrow> RigelInterruptDomain" where
  "rigel_interrupt_domain_write_intreq irq value =
     (let msk = value AND 0x7fff in
      rigel_interrupt_domain_update
        (if value AND RIGEL_PAULA_INT_SETCLR \<noteq> 0
         then irq\<lparr>intreq := intreq irq OR msk\<rparr>
         else irq\<lparr>intreq := intreq irq AND NOT msk\<rparr>))"

definition rigel_interrupt_domain_raise ::
    "RigelInterruptDomain \<Rightarrow> u16 \<Rightarrow> RigelInterruptDomain" where
  "rigel_interrupt_domain_raise irq msk =
     rigel_interrupt_domain_update (irq\<lparr>intreq := intreq irq OR (msk AND 0x7fff)\<rparr>)"

definition rigel_interrupt_domain_clear ::
    "RigelInterruptDomain \<Rightarrow> u16 \<Rightarrow> RigelInterruptDomain" where
  "rigel_interrupt_domain_clear irq msk =
     rigel_interrupt_domain_update (irq\<lparr>intreq := intreq irq AND NOT (msk AND 0x7fff)\<rparr>)"

definition rigel_interrupt_domain_read_intena :: "RigelInterruptDomain \<Rightarrow> u16" where
  "rigel_interrupt_domain_read_intena irq = intena irq"

definition rigel_interrupt_domain_read_intreq :: "RigelInterruptDomain \<Rightarrow> u16" where
  "rigel_interrupt_domain_read_intreq irq = intreq irq"

definition rigel_interrupt_domain_current_ipl :: "RigelInterruptDomain \<Rightarrow> u8" where
  "rigel_interrupt_domain_current_ipl irq = ipl irq"

definition rigel_interrupt_domain_pending :: "RigelInterruptDomain \<Rightarrow> u16 \<Rightarrow> bool" where
  "rigel_interrupt_domain_pending irq msk \<longleftrightarrow> intreq irq AND msk \<noteq> 0"

definition rigel_interrupt_domain_read_reg :: "RigelInterruptDomain \<Rightarrow> u32 \<Rightarrow> u16" where
  "rigel_interrupt_domain_read_reg irq addr =
     (if addr = RIGEL_REG_INTENA \<or> addr = RIGEL_REG_INTENAR
      then rigel_interrupt_domain_read_intena irq
      else if addr = RIGEL_REG_INTREQ \<or> addr = RIGEL_REG_INTREQR
      then rigel_interrupt_domain_read_intreq irq
      else 0)"

definition rigel_interrupt_domain_write_reg ::
    "RigelInterruptDomain \<Rightarrow> u32 \<Rightarrow> u16 \<Rightarrow> RigelInterruptDomain" where
  "rigel_interrupt_domain_write_reg irq addr value =
     (if addr = RIGEL_REG_INTENA then rigel_interrupt_domain_write_intena irq value
      else if addr = RIGEL_REG_INTREQ then rigel_interrupt_domain_write_intreq irq value
      else irq)"

text \<open>The register helpers of \<^verbatim>\<open>src/irq/intena.c\<close> and \<^verbatim>\<open>src/irq/intreq.c\<close>.\<close>

definition intena_apply_write :: "u16 \<Rightarrow> u16 \<Rightarrow> u16" where
  "intena_apply_write current value =
     (let msk = value AND 0x7fff in
      if value AND 0x8000 \<noteq> 0 then current OR msk else current AND NOT msk)"

definition intreq_apply_write :: "u16 \<Rightarrow> u16 \<Rightarrow> u16" where
  "intreq_apply_write current value =
     (let msk = value AND 0x7fff in
      if value AND 0x8000 \<noteq> 0 then current OR msk else current AND NOT msk)"

text \<open>
  The forwarding functions of \<^verbatim>\<open>paula_interrupts.c\<close>, \<^verbatim>\<open>paula_state.c\<close> and
  \<^verbatim>\<open>paula.c\<close> through which the CIAs and the chipset reach the controller.
\<close>

definition rigel_paula_interrupts_raise ::
    "RigelInterruptDomain \<Rightarrow> u16 \<Rightarrow> RigelInterruptDomain" where
  "rigel_paula_interrupts_raise irq msk = rigel_interrupt_domain_raise irq msk"

definition rigel_paula_interrupts_clear ::
    "RigelInterruptDomain \<Rightarrow> u16 \<Rightarrow> RigelInterruptDomain" where
  "rigel_paula_interrupts_clear irq msk = rigel_interrupt_domain_clear irq msk"

definition paula_irq_raise :: "RigelInterruptDomain \<Rightarrow> u16 \<Rightarrow> RigelInterruptDomain" where
  "paula_irq_raise irq msk = rigel_paula_interrupts_raise irq msk"

definition paula_irq_clear :: "RigelInterruptDomain \<Rightarrow> u16 \<Rightarrow> RigelInterruptDomain" where
  "paula_irq_clear irq msk = rigel_paula_interrupts_clear irq msk"

text \<open>
  Components that reach the controller through a callback (\<^verbatim>\<open>irq.raise\<close>) report the
  masks they raise as a list; delivering the list raises them in order.
\<close>

definition raise_all :: "RigelInterruptDomain \<Rightarrow> u16 list \<Rightarrow> RigelInterruptDomain" where
  "raise_all irq masks = fold (\<lambda>m d. paula_irq_raise d m) masks irq"

lemmas interrupt_defs [reg_defs] =
  rigel_interrupt_domain_update_def rigel_interrupt_domain_reset_def
  rigel_interrupt_domain_write_intena_def rigel_interrupt_domain_write_intreq_def
  rigel_interrupt_domain_raise_def rigel_interrupt_domain_clear_def
  rigel_interrupt_domain_write_reg_def
  rigel_paula_interrupts_raise_def rigel_paula_interrupts_clear_def
  paula_irq_raise_def paula_irq_clear_def

section \<open>SET/CLR writes\<close>

interpretation intena_reg: setclr_register intena_apply_write 15 15
  by unfold_locales (simp_all only: intena_apply_write_def Let_def setclr16_bit order_refl)

interpretation intreq_reg: setclr_register intreq_apply_write 15 15
  by unfold_locales (simp_all only: intreq_apply_write_def Let_def setclr16_bit order_refl)

lemma write_intena_eq: "intena (rigel_interrupt_domain_write_intena irq v) =
    intena_apply_write (intena irq) v"
  by (simp add: interrupt_defs intena_apply_write_def Let_def)

lemma write_intreq_eq: "intreq (rigel_interrupt_domain_write_intreq irq v) =
    intreq_apply_write (intreq irq) v"
  by (simp add: interrupt_defs intreq_apply_write_def Let_def)

section \<open>Priority encoder\<close>

text \<open>
  Specification: every source has a level, and the controller presents the highest
  level among the sources that are both requested and enabled, provided the master
  enable bit is set.
\<close>

definition source_level :: "nat \<Rightarrow> nat" where
  "source_level n =
     (if n \<le> 2 then 1 else if n = 3 then 2 else if n \<le> 6 then 3
      else if n \<le> 10 then 4 else if n \<le> 12 then 5 else if n = 13 then 6 else 0)"

definition active_sources :: "RigelInterruptDomain \<Rightarrow> nat set" where
  "active_sources irq = {n. n < 14 \<and> bit (intena irq) n \<and> bit (intreq irq) n}"

definition ipl_spec :: "RigelInterruptDomain \<Rightarrow> nat" where
  "ipl_spec irq =
     (if bit (intena irq) 14 then Max (insert 0 (source_level ` active_sources irq)) else 0)"

lemma finite_active_sources [simp]: "finite (active_sources irq)"
  by (simp add: active_sources_def)

lemma compute_ipl_bits: "rigel_interrupt_domain_compute_ipl irq =
    (let p = (\<lambda>n. n \<in> active_sources irq) in
     if \<not> bit (intena irq) 14 then 0
     else if p 13 then 6
     else if p 12 \<or> p 11 then 5
     else if p 7 \<or> p 8 \<or> p 9 \<or> p 10 then 4
     else if p 6 \<or> p 5 \<or> p 4 then 3
     else if p 3 then 2
     else if p 0 \<or> p 1 \<or> p 2 then 1
     else 0)"
  by (simp only: rigel_interrupt_domain_compute_ipl_def Let_def and_or_eq_0_iff mask_simps
        bit_and_iff active_sources_def mem_Collect_eq de_Morgan_conj not_not)
     (simp add: conj_commute)

lemma ipl_spec_eqI:
  assumes "bit (intena irq) 14" and "m \<in> active_sources irq" and "source_level m = k"
    and "active_sources irq \<subseteq> {..b}" and "\<And>n. n \<le> b \<Longrightarrow> source_level n \<le> k"
  shows "ipl_spec irq = k"
proof -
  have "Max (insert 0 (source_level ` active_sources irq)) = k"
    by (rule Max_eqI) (use assms in auto)
  then show ?thesis using assms(1) by (simp add: ipl_spec_def)
qed

lemma subset_atMost_drop: "A \<subseteq> {..Suc k} \<Longrightarrow> Suc k \<notin> A \<Longrightarrow> A \<subseteq> {..k}" for A :: "nat set"
  using le_Suc_eq by auto

lemma active_sources_bounds:
  defines "A \<equiv> active_sources"
  shows "A irq \<subseteq> {..13}"
    and "13 \<notin> A irq \<Longrightarrow> A irq \<subseteq> {..12}"
    and "13 \<notin> A irq \<Longrightarrow> 12 \<notin> A irq \<Longrightarrow> 11 \<notin> A irq \<Longrightarrow> A irq \<subseteq> {..10}"
    and "A irq \<subseteq> {..10} \<Longrightarrow> 10 \<notin> A irq \<Longrightarrow> 9 \<notin> A irq \<Longrightarrow> 8 \<notin> A irq \<Longrightarrow> 7 \<notin> A irq \<Longrightarrow>
         A irq \<subseteq> {..6}"
    and "A irq \<subseteq> {..6} \<Longrightarrow> 6 \<notin> A irq \<Longrightarrow> 5 \<notin> A irq \<Longrightarrow> 4 \<notin> A irq \<Longrightarrow> A irq \<subseteq> {..3}"
    and "A irq \<subseteq> {..3} \<Longrightarrow> 3 \<notin> A irq \<Longrightarrow> A irq \<subseteq> {..2}"
    and "A irq \<subseteq> {..2} \<Longrightarrow> 2 \<notin> A irq \<Longrightarrow> 1 \<notin> A irq \<Longrightarrow> 0 \<notin> A irq \<Longrightarrow> A irq = {}"
proof -
  show 13: "A irq \<subseteq> {..13}" by (auto simp: A_def active_sources_def)
  show 12: "A irq \<subseteq> {..12}" if "13 \<notin> A irq"
    using 13 that subset_atMost_drop [of "A irq" 12] by simp
  show "A irq \<subseteq> {..10}" if "13 \<notin> A irq" "12 \<notin> A irq" "11 \<notin> A irq"
    using 12 that subset_atMost_drop [of "A irq" 11] subset_atMost_drop [of "A irq" 10] by simp
  show "A irq \<subseteq> {..6}" if "A irq \<subseteq> {..10}" "10 \<notin> A irq" "9 \<notin> A irq" "8 \<notin> A irq" "7 \<notin> A irq"
    using that subset_atMost_drop [of "A irq" 9] subset_atMost_drop [of "A irq" 8]
      subset_atMost_drop [of "A irq" 7] subset_atMost_drop [of "A irq" 6] by simp
  show "A irq \<subseteq> {..3}" if "A irq \<subseteq> {..6}" "6 \<notin> A irq" "5 \<notin> A irq" "4 \<notin> A irq"
    using that subset_atMost_drop [of "A irq" 5] subset_atMost_drop [of "A irq" 4]
      subset_atMost_drop [of "A irq" 3] by simp
  show "A irq \<subseteq> {..2}" if "A irq \<subseteq> {..3}" "3 \<notin> A irq"
    using that subset_atMost_drop [of "A irq" 2] by simp
  show "A irq = {}" if "A irq \<subseteq> {..2}" "2 \<notin> A irq" "1 \<notin> A irq" "0 \<notin> A irq"
    using that subset_atMost_drop [of "A irq" 1] subset_atMost_drop [of "A irq" 0]
    by (auto simp: numeral_2_eq_2)
qed

lemma source_level_bound:
  "n \<le> 2 \<Longrightarrow> source_level n = 1" "n \<le> 3 \<Longrightarrow> source_level n \<le> 2" "n \<le> 6 \<Longrightarrow> source_level n \<le> 3"
  "n \<le> 10 \<Longrightarrow> source_level n \<le> 4" "n \<le> 12 \<Longrightarrow> source_level n \<le> 5" "n \<le> 13 \<Longrightarrow> source_level n \<le> 6"
  by (simp_all add: source_level_def)

lemma ipl_spec_level:
  assumes "bit (intena irq) 14"
  shows "ipl_spec irq =
    (let p = (\<lambda>n. n \<in> active_sources irq) in
     if p 13 then 6
     else if p 12 \<or> p 11 then 5
     else if p 7 \<or> p 8 \<or> p 9 \<or> p 10 then 4
     else if p 6 \<or> p 5 \<or> p 4 then 3
     else if p 3 then 2
     else if p 0 \<or> p 1 \<or> p 2 then 1
     else 0)"
proof -
  let ?A = "active_sources irq"
  note intro = ipl_spec_eqI [OF assms]
  note bounds = active_sources_bounds [of irq]
  consider "13 \<in> ?A" | "13 \<notin> ?A" "12 \<in> ?A \<or> 11 \<in> ?A"
    | "?A \<subseteq> {..10}" "7 \<in> ?A \<or> 8 \<in> ?A \<or> 9 \<in> ?A \<or> 10 \<in> ?A"
    | "?A \<subseteq> {..6}" "6 \<in> ?A \<or> 5 \<in> ?A \<or> 4 \<in> ?A"
    | "?A \<subseteq> {..3}" "3 \<in> ?A"
    | "?A \<subseteq> {..2}" "0 \<in> ?A \<or> 1 \<in> ?A \<or> 2 \<in> ?A"
    | "?A = {}"
    using bounds by blast
  then show ?thesis
  proof cases
    case 1
    then show ?thesis
      using intro [of 13 6 13] bounds(1) by (simp add: source_level_def)
  next
    case 2
    then show ?thesis
      using intro [of 12 5 12] intro [of 11 5 12] bounds(2) by (auto simp: source_level_def)
  next
    case 3
    then show ?thesis
      using intro [of 7 4 10] intro [of 8 4 10] intro [of 9 4 10] intro [of 10 4 10]
      by (auto simp: source_level_def)
  next
    case 4
    then show ?thesis
      using intro [of 4 3 6] intro [of 5 3 6] intro [of 6 3 6] by (auto simp: source_level_def)
  next
    case 5
    then show ?thesis
      using intro [of 3 2 3] by (auto simp: source_level_def)
  next
    case 6
    then obtain m where "m \<in> ?A" "m \<le> 2" by auto
    with 6(1) have "ipl_spec irq = 1"
      using intro [of m 1 2] source_level_bound(1) by (metis order_refl)
    moreover have "\<And>k. 2 < k \<Longrightarrow> k \<notin> ?A" using 6(1) by auto
    ultimately show ?thesis using 6(2) by simp
  next
    case 7
    then show ?thesis by (simp add: ipl_spec_def)
  qed
qed

lemma compute_ipl_spec: "unat (rigel_interrupt_domain_compute_ipl irq) = ipl_spec irq"
proof (cases "bit (intena irq) 14")
  case True
  then show ?thesis
    by (simp add: compute_ipl_bits ipl_spec_level Let_def if_distrib [of unat]
        cong: if_cong split del: if_split)
next
  case False
  then show ?thesis by (simp add: compute_ipl_bits ipl_spec_def)
qed

section \<open>Contract of an interrupt line, and its invariant\<close>

text \<open>
  What a device relies on when it drives a request line of the controller: raising sets
  exactly the bits of the mask, clearing resets exactly them, and bit 15 is never touched.
\<close>

locale irq_controller =
  fixes raise_line :: "'p \<Rightarrow> u16 \<Rightarrow> 'p"
    and clear_line :: "'p \<Rightarrow> u16 \<Rightarrow> 'p"
    and requested :: "'p \<Rightarrow> u16"
  assumes requested_raise: "requested (raise_line p m) = requested p OR (m AND 0x7fff)"
    and requested_clear: "requested (clear_line p m) = requested p AND NOT (m AND 0x7fff)"
begin

lemma requested_drive:
  "bit (requested (if level then raise_line p m else clear_line p m)) n =
     (if n < 15 \<and> bit m n then level else bit (requested p) n)"
  by (auto simp: requested_raise requested_clear bit_simps dest: bit_imp_le_length)

lemma drive_twice:
  "requested (if b then raise_line (if a then raise_line p m else clear_line p m) m
              else clear_line (if a then raise_line p m else clear_line p m) m) =
   requested (if b then raise_line p m else clear_line p m)"
  by (rule bit_word_eqI) (simp only: requested_drive, simp)

lemma requested_fold_raise:
  "bit (requested (fold (\<lambda>m d. raise_line d m) ms p)) n =
     (bit (requested p) n \<or> (n < 15 \<and> (\<exists>m \<in> set ms. bit m n)))"
  by (induction ms arbitrary: p) (auto simp: requested_raise bit_simps)

end

interpretation paula_irq: irq_controller paula_irq_raise paula_irq_clear intreq
  by unfold_locales (simp_all add: interrupt_defs)

section \<open>Reachable controller states\<close>

text \<open>
  Every operation that can change the controller, as one step: a reset, a register write
  at any address, a raise and a clear with any mask.  \<open>irq_wf\<close> is the invariant: the cached
  priority level is the one computed from the registers, and bit 15 of both registers,
  the SET/CLR flag, is never stored.
\<close>

inductive irq_step :: "RigelInterruptDomain \<Rightarrow> RigelInterruptDomain \<Rightarrow> bool" where
  irq_step_reset: "irq_step irq (rigel_interrupt_domain_reset irq)"
| irq_step_write: "irq_step irq (rigel_interrupt_domain_write_reg irq addr v)"
| irq_step_raise: "irq_step irq (paula_irq_raise irq m)"
| irq_step_clear: "irq_step irq (paula_irq_clear irq m)"

inductive_cases irq_stepE: "irq_step irq irq'"

definition irq_wf :: "RigelInterruptDomain \<Rightarrow> bool" where
  "irq_wf irq \<longleftrightarrow> ipl irq = rigel_interrupt_domain_compute_ipl irq \<and>
     \<not> bit (intena irq) 15 \<and> \<not> bit (intreq irq) 15"

lemma compute_ipl_update [simp]:
  "rigel_interrupt_domain_compute_ipl (irq\<lparr>ipl := l\<rparr>) = rigel_interrupt_domain_compute_ipl irq"
  by (simp add: rigel_interrupt_domain_compute_ipl_def)

lemma irq_wf_update:
  "irq_wf (rigel_interrupt_domain_update irq) \<longleftrightarrow>
     \<not> bit (intena irq) 15 \<and> \<not> bit (intreq irq) 15"
  by (simp add: irq_wf_def rigel_interrupt_domain_update_def)

lemma irq_wf_reset: "irq_wf (rigel_interrupt_domain_reset irq)"
  by (simp add: irq_wf_def rigel_interrupt_domain_reset_def
      rigel_interrupt_domain_compute_ipl_def)

lemma irq_wf_write_reg:
  "irq_wf irq \<Longrightarrow> irq_wf (rigel_interrupt_domain_write_reg irq addr v)"
  by (simp add: rigel_interrupt_domain_write_reg_def rigel_interrupt_domain_write_intena_def
      rigel_interrupt_domain_write_intreq_def irq_wf_update Let_def bit_simps)
     (simp add: irq_wf_def)

lemma irq_wf_raise: "irq_wf irq \<Longrightarrow> irq_wf (paula_irq_raise irq m)"
  by (simp add: paula_irq_raise_def rigel_paula_interrupts_raise_def
      rigel_interrupt_domain_raise_def irq_wf_update bit_simps) (simp add: irq_wf_def)

lemma irq_wf_clear: "irq_wf irq \<Longrightarrow> irq_wf (paula_irq_clear irq m)"
  by (simp add: paula_irq_clear_def rigel_paula_interrupts_clear_def
      rigel_interrupt_domain_clear_def irq_wf_update bit_simps) (simp add: irq_wf_def)

lemmas irq_wf_intros [intro] = irq_wf_reset irq_wf_write_reg irq_wf_raise irq_wf_clear

lemma irq_wf_step: "irq_step irq irq' \<Longrightarrow> irq_wf irq \<Longrightarrow> irq_wf irq'"
  by (erule irq_stepE) auto

lemma irq_wf_reachable:
  "irq_step\<^sup>*\<^sup>* irq irq' \<Longrightarrow> irq_wf irq \<Longrightarrow> irq_wf irq'"
  by (induction rule: rtranclp_induct) (auto intro: irq_wf_step)

text \<open>
  C3: From reset, whatever sequence of register writes, raises and clears the chipset
  performs, the level the CPU reads is the highest level among the sources that are both
  requested and enabled (and 0 when the master enable bit is off), and the SET/CLR flag is
  never visible when INTENAR or INTREQR is read back.
\<close>

theorem ipl_reachable:
  assumes "irq_step\<^sup>*\<^sup>* (rigel_interrupt_domain_reset irq0) irq"
  shows "unat (rigel_interrupt_domain_current_ipl irq) = ipl_spec irq \<and>
    \<not> bit (rigel_interrupt_domain_read_reg irq RIGEL_REG_INTENAR) 15 \<and>
    \<not> bit (rigel_interrupt_domain_read_reg irq RIGEL_REG_INTREQR) 15"
  using irq_wf_reachable [OF assms irq_wf_reset]
  by (simp add: irq_wf_def rigel_interrupt_domain_current_ipl_def compute_ipl_spec
      rigel_interrupt_domain_read_reg_def rigel_interrupt_domain_read_intena_def
      rigel_interrupt_domain_read_intreq_def)

theorem ipl_reachable_witness:
  "unat (rigel_interrupt_domain_current_ipl
     (paula_irq_raise (rigel_interrupt_domain_write_reg
        (rigel_interrupt_domain_reset \<lparr>intena = 0, intreq = 0, ipl = 0\<rparr>)
        RIGEL_REG_INTENA 0xc028) 0x0020)) = 3"
proof -
  let ?r = "rigel_interrupt_domain_reset \<lparr>intena = 0, intreq = 0, ipl = 0\<rparr>"
  let ?w = "rigel_interrupt_domain_write_reg ?r RIGEL_REG_INTENA 0xc028"
  have "irq_step\<^sup>*\<^sup>* ?r (paula_irq_raise ?w 0x0020)"
    by (meson irq_step_raise irq_step_write rtranclp.rtrancl_into_rtrancl rtranclp.rtrancl_refl)
  from ipl_reachable [OF this]
  have "unat (rigel_interrupt_domain_current_ipl (paula_irq_raise ?w 0x0020)) =
    ipl_spec (paula_irq_raise ?w 0x0020)" by simp
  moreover have "ipl_spec (paula_irq_raise ?w 0x0020) = 3"
    by (subst compute_ipl_spec [symmetric])
       (simp add: interrupt_defs rigel_interrupt_domain_compute_ipl_def)
  ultimately show ?thesis by simp
qed

end
