(* ===== verification/Cia_Core.thy ===== *)
theory Cia_Core
  imports Interrupts
begin

text \<open>
  State of a CIA 8520 (\<^verbatim>\<open>src/cia/cia.h\<close>), its interrupt section
  (\<^verbatim>\<open>cia_interrupt.c\<close>), its parallel ports (\<^verbatim>\<open>cia_ports.c\<close>) and its serial
  port (\<^verbatim>\<open>cia_serial.c\<close>).

  The C structure holds a pointer to Paula, which is \<^verbatim>\<open>NULL\<close> until
  \<^verbatim>\<open>cia_attach_paula\<close>; through it the CIA drives one request line of the interrupt
  controller.  The model keeps in the record whether a Paula is attached and passes the
  controller beside the CIA, as the pair \<open>cia_sys\<close>.  Flags the C code stores in a
  \<^verbatim>\<open>uint8_t\<close> stay 8-bit words.  Log output is left out.
\<close>

unbundle bit_operations_syntax

section \<open>State\<close>

abbreviation CIA_REG_PRA :: u8 where "CIA_REG_PRA \<equiv> 0x0"
abbreviation CIA_REG_PRB :: u8 where "CIA_REG_PRB \<equiv> 0x1"
abbreviation CIA_REG_DDRA :: u8 where "CIA_REG_DDRA \<equiv> 0x2"
abbreviation CIA_REG_DDRB :: u8 where "CIA_REG_DDRB \<equiv> 0x3"
abbreviation CIA_REG_TALO :: u8 where "CIA_REG_TALO \<equiv> 0x4"
abbreviation CIA_REG_TAHI :: u8 where "CIA_REG_TAHI \<equiv> 0x5"
abbreviation CIA_REG_TBLO :: u8 where "CIA_REG_TBLO \<equiv> 0x6"
abbreviation CIA_REG_TBHI :: u8 where "CIA_REG_TBHI \<equiv> 0x7"
abbreviation CIA_REG_TODLO :: u8 where "CIA_REG_TODLO \<equiv> 0x8"
abbreviation CIA_REG_TODMID :: u8 where "CIA_REG_TODMID \<equiv> 0x9"
abbreviation CIA_REG_TODHI :: u8 where "CIA_REG_TODHI \<equiv> 0xA"
abbreviation CIA_REG_UNUSED :: u8 where "CIA_REG_UNUSED \<equiv> 0xB"
abbreviation CIA_REG_SDR :: u8 where "CIA_REG_SDR \<equiv> 0xC"
abbreviation CIA_REG_ICR :: u8 where "CIA_REG_ICR \<equiv> 0xD"
abbreviation CIA_REG_CRA :: u8 where "CIA_REG_CRA \<equiv> 0xE"
abbreviation CIA_REG_CRB :: u8 where "CIA_REG_CRB \<equiv> 0xF"

abbreviation CIA_ICR_TA :: u8 where "CIA_ICR_TA \<equiv> 0x01"
abbreviation CIA_ICR_TB :: u8 where "CIA_ICR_TB \<equiv> 0x02"
abbreviation CIA_ICR_ALRM :: u8 where "CIA_ICR_ALRM \<equiv> 0x04"
abbreviation CIA_ICR_SP :: u8 where "CIA_ICR_SP \<equiv> 0x08"
abbreviation CIA_ICR_FLG :: u8 where "CIA_ICR_FLG \<equiv> 0x10"
abbreviation CIA_ICR_SETCLR :: u8 where "CIA_ICR_SETCLR \<equiv> 0x80"

abbreviation CIA_CRA_START :: u8 where "CIA_CRA_START \<equiv> 0x01"
abbreviation CIA_CRA_PBON :: u8 where "CIA_CRA_PBON \<equiv> 0x02"
abbreviation CIA_CRA_OUTMODE :: u8 where "CIA_CRA_OUTMODE \<equiv> 0x04"
abbreviation CIA_CRA_RUNMODE :: u8 where "CIA_CRA_RUNMODE \<equiv> 0x08"
abbreviation CIA_CRA_LOAD :: u8 where "CIA_CRA_LOAD \<equiv> 0x10"
abbreviation CIA_CRA_INMODE :: u8 where "CIA_CRA_INMODE \<equiv> 0x20"
abbreviation CIA_CRA_SPMODE :: u8 where "CIA_CRA_SPMODE \<equiv> 0x40"
abbreviation CIA_CRB_START :: u8 where "CIA_CRB_START \<equiv> 0x01"
abbreviation CIA_CRB_PBON :: u8 where "CIA_CRB_PBON \<equiv> 0x02"
abbreviation CIA_CRB_RUNMODE :: u8 where "CIA_CRB_RUNMODE \<equiv> 0x08"
abbreviation CIA_CRB_LOAD :: u8 where "CIA_CRB_LOAD \<equiv> 0x10"
abbreviation CIA_CRB_ALARM :: u8 where "CIA_CRB_ALARM \<equiv> 0x80"

abbreviation CIA_A_TOD_TICKS_PER_INCREMENT :: u32 where
  "CIA_A_TOD_TICKS_PER_INCREMENT \<equiv> 0"
abbreviation CIA_B_TOD_TICKS_PER_INCREMENT :: u32 where
  "CIA_B_TOD_TICKS_PER_INCREMENT \<equiv> 0"

datatype CIA_ID = CIA_PORT_A | CIA_PORT_B

record CIA_TOD_State =
  tod_counter :: u32
  tod_alarm :: u32
  tod_latch :: u32
  tod_latched :: bool
  tod_stopped :: bool
  tod_subticks :: u32
  ticks_per_inc :: u32

record CIA_State =
  cia_id :: CIA_ID
  pra :: u8
  prb :: u8
  ddra :: u8
  ddrb :: u8
  ext_pra :: u8
  ext_prb :: u8
  sdr :: u8
  sdr_full :: u8
  sp_input_level :: u8
  sp_output_level :: u8
  cnt_output_level :: u8
  serial_in_shift :: u8
  serial_in_bits :: u8
  serial_out_shift :: u8
  serial_out_bits :: u8
  serial_out_busy :: u8
  serial_out_buffer :: u8
  serial_out_buffer_full :: u8
  icr_mask :: u8
  icr_data :: u8
  cra :: u8
  crb :: u8
  ta_latch :: u16
  ta_counter :: u16
  tb_latch :: u16
  tb_counter :: u16
  pb_timer_out :: u8
  pb_pulse_mask :: u8
  cnt_level :: u8
  flag_level :: u8
  cia_tod :: CIA_TOD_State
  irq_level :: u8
  paula_irq_bit :: u16
  cia_paula :: bool
  irq_asserted :: u8

type_synonym cia_sys = "CIA_State \<times> RigelInterruptDomain"

section \<open>Interrupt section\<close>

definition cia_irq_pending :: "CIA_State \<Rightarrow> bool" where
  "cia_irq_pending cia \<longleftrightarrow> icr_data cia AND icr_mask cia \<noteq> 0"

definition cia_compute_ipl :: "CIA_State \<Rightarrow> u8" where
  "cia_compute_ipl cia = (if cia_irq_pending cia then irq_level cia else 0)"

fun cia_interrupt_sync_irq_line :: "cia_sys \<Rightarrow> cia_sys" where
  "cia_interrupt_sync_irq_line (cia, irq) =
     (if \<not> cia_paula cia then (cia, irq)
      else if cia_irq_pending cia
      then (cia\<lparr>irq_asserted := 1\<rparr>, paula_irq_raise irq (paula_irq_bit cia))
      else (cia\<lparr>irq_asserted := 0\<rparr>, paula_irq_clear irq (paula_irq_bit cia)))"

definition cia_interrupt_reset :: "CIA_State \<Rightarrow> CIA_State" where
  "cia_interrupt_reset cia = cia\<lparr>icr_mask := 0, icr_data := 0, irq_asserted := 0\<rparr>"

fun cia_interrupt_raise :: "cia_sys \<Rightarrow> u8 \<Rightarrow> cia_sys" where
  "cia_interrupt_raise (cia, irq) msk =
     cia_interrupt_sync_irq_line (cia\<lparr>icr_data := icr_data cia OR (msk AND 0x1f)\<rparr>, irq)"

fun cia_interrupt_read_icr :: "cia_sys \<Rightarrow> u8 \<times> cia_sys" where
  "cia_interrupt_read_icr (cia, irq) =
     (let value = icr_data cia;
          value = (if cia_irq_pending cia then value OR 0x80 else value)
      in (value, cia_interrupt_sync_irq_line (cia\<lparr>icr_data := 0\<rparr>, irq)))"

fun cia_interrupt_write_icr :: "cia_sys \<Rightarrow> u8 \<Rightarrow> cia_sys" where
  "cia_interrupt_write_icr (cia, irq) value =
     cia_interrupt_sync_irq_line
       (if value AND CIA_ICR_SETCLR \<noteq> 0
        then cia\<lparr>icr_mask := icr_mask cia OR (value AND 0x1f)\<rparr>
        else cia\<lparr>icr_mask := icr_mask cia AND NOT (value AND 0x1f)\<rparr>, irq)"

section \<open>Serial port\<close>

definition cia_serial_start_output :: "CIA_State \<Rightarrow> CIA_State" where
  "cia_serial_start_output cia =
     (if serial_out_busy cia \<noteq> 0 \<or> serial_out_buffer_full cia = 0 then cia
      else cia\<lparr>serial_out_shift := serial_out_buffer cia,
               serial_out_bits := 8,
               serial_out_busy := 1,
               serial_out_buffer_full := 0\<rparr>)"

definition cia_serial_reset :: "CIA_State \<Rightarrow> CIA_State" where
  "cia_serial_reset cia = cia\<lparr>sdr := 0, sdr_full := 0, sp_input_level := 1,
     sp_output_level := 1, cnt_output_level := 1, serial_in_shift := 0, serial_in_bits := 0,
     serial_out_shift := 0, serial_out_bits := 0, serial_out_busy := 0,
     serial_out_buffer := 0, serial_out_buffer_full := 0\<rparr>"

definition cia_serial_set_sp_input :: "CIA_State \<Rightarrow> u8 \<Rightarrow> CIA_State" where
  "cia_serial_set_sp_input cia level = cia\<lparr>sp_input_level := (if level \<noteq> 0 then 1 else 0)\<rparr>"

fun cia_serial_on_cnt_rising :: "cia_sys \<Rightarrow> cia_sys" where
  "cia_serial_on_cnt_rising (cia, irq) =
     (if serial_out_busy cia \<noteq> 0 \<or> serial_out_buffer_full cia \<noteq> 0 then (cia, irq)
      else
        let cia = cia\<lparr>serial_in_shift := push_bit 1 (serial_in_shift cia) OR
                        (if sp_input_level cia \<noteq> 0 then 1 else 0),
                      serial_in_bits := serial_in_bits cia + 1\<rparr>
        in if serial_in_bits cia < 8 then (cia, irq)
           else cia_interrupt_raise
                  (cia\<lparr>sdr := serial_in_shift cia, sdr_full := 1,
                       serial_in_shift := 0, serial_in_bits := 0\<rparr>, irq) CIA_ICR_SP)"

fun cia_serial_on_timer_a_underflow :: "cia_sys \<Rightarrow> cia_sys" where
  "cia_serial_on_timer_a_underflow (cia, irq) =
     (if cra cia AND CIA_CRA_SPMODE = 0 then (cia, irq)
      else
        let cia = cia_serial_start_output cia
        in if serial_out_busy cia = 0 then (cia, irq)
           else
             let cia = cia\<lparr>sp_output_level := drop_bit 7 (serial_out_shift cia) AND 1\<rparr>;
                 cia = cia\<lparr>cnt_output_level := 0\<rparr>;
                 cia = cia\<lparr>cnt_output_level := 1\<rparr>;
                 cia = cia\<lparr>serial_out_shift := push_bit 1 (serial_out_shift cia),
                           serial_out_bits := serial_out_bits cia - 1\<rparr>
             in if serial_out_bits cia \<noteq> 0 then (cia, irq)
                else
                  let (cia, irq) = cia_interrupt_raise
                        (cia\<lparr>serial_out_busy := 0, sp_output_level := 1\<rparr>, irq) CIA_ICR_SP
                  in (cia_serial_start_output cia, irq))"

definition cia_serial_write_sdr :: "CIA_State \<Rightarrow> u8 \<Rightarrow> CIA_State" where
  "cia_serial_write_sdr cia value =
     (let cia = cia\<lparr>sdr := value\<rparr>
      in if cra cia AND CIA_CRA_SPMODE = 0 then cia
         else cia_serial_start_output
                (cia\<lparr>serial_out_buffer := value, serial_out_buffer_full := 1\<rparr>))"

fun cia_serial_receive_byte :: "cia_sys \<Rightarrow> u8 \<Rightarrow> bool \<times> cia_sys" where
  "cia_serial_receive_byte (cia, irq) value =
     (if sdr_full cia \<noteq> 0 then (False, (cia, irq))
      else (True, cia_interrupt_raise (cia\<lparr>sdr := value, sdr_full := 1\<rparr>, irq) CIA_ICR_SP))"

definition cia_serial_sp_output_level :: "CIA_State \<Rightarrow> u8" where
  "cia_serial_sp_output_level cia = (if sp_output_level cia \<noteq> 0 then 1 else 0)"

definition cia_serial_cnt_output_level :: "CIA_State \<Rightarrow> u8" where
  "cia_serial_cnt_output_level cia = (if cnt_output_level cia \<noteq> 0 then 1 else 0)"

section \<open>Parallel ports\<close>

definition cia_ports_reset :: "CIA_State \<Rightarrow> CIA_State" where
  "cia_ports_reset cia = cia\<lparr>pra := 0xff, prb := 0xff, ddra := 0, ddrb := 0,
     ext_pra := 0xff, ext_prb := 0xff\<rparr>"

definition cia_ports_apply_defaults :: "CIA_State \<Rightarrow> CIA_State" where
  "cia_ports_apply_defaults cia =
     (case cia_id cia of
        CIA_PORT_A \<Rightarrow> cia\<lparr>ext_pra := 0xff, ext_prb := 0xff\<rparr>
      | CIA_PORT_B \<Rightarrow> cia\<lparr>ext_pra := 0xff, ext_prb := 0xff\<rparr>)"

definition cia_set_external_pra :: "CIA_State \<Rightarrow> u8 \<Rightarrow> CIA_State" where
  "cia_set_external_pra cia value = cia\<lparr>ext_pra := value\<rparr>"

definition cia_set_external_prb :: "CIA_State \<Rightarrow> u8 \<Rightarrow> CIA_State" where
  "cia_set_external_prb cia value = cia\<lparr>ext_prb := value\<rparr>"

definition cia_set_sp_level :: "CIA_State \<Rightarrow> u8 \<Rightarrow> CIA_State" where
  "cia_set_sp_level cia level = cia_serial_set_sp_input cia level"

fun cia_set_flag_level :: "cia_sys \<Rightarrow> u8 \<Rightarrow> cia_sys" where
  "cia_set_flag_level (cia, irq) level =
     (let new_level = (if level \<noteq> 0 then 1 else 0);
          old_level = flag_level cia;
          cia = cia\<lparr>flag_level := new_level\<rparr>
      in if old_level \<noteq> 0 \<and> new_level = 0 then cia_interrupt_raise (cia, irq) CIA_ICR_FLG
         else (cia, irq))"

definition cia_port_a_value :: "CIA_State \<Rightarrow> u8" where
  "cia_port_a_value cia =
     (if cia_id cia = CIA_PORT_A then
        let low = (pra cia AND ddra cia AND 0x03) OR (ext_pra cia AND NOT (ddra cia) AND 0x03)
        in low OR (ext_pra cia AND 0xfc)
      else (pra cia AND ddra cia) OR (ext_pra cia AND NOT (ddra cia)))"

definition cia_port_b_value :: "CIA_State \<Rightarrow> u8" where
  "cia_port_b_value cia =
     (let value = (prb cia AND ddrb cia) OR (ext_prb cia AND NOT (ddrb cia));
          value = (if cra cia AND CIA_CRA_PBON \<noteq> 0
                   then (if pb_timer_out cia AND 0x40 \<noteq> 0 then value OR 0x40
                         else value AND NOT 0x40)
                   else value);
          value = (if crb cia AND CIA_CRB_PBON \<noteq> 0
                   then (if pb_timer_out cia AND 0x80 \<noteq> 0 then value OR 0x80
                         else value AND NOT 0x80)
                   else value)
      in value)"

text \<open>
  The register accessors return \<^verbatim>\<open>0\<close> for a register that is not theirs; that is
  \<^term>\<open>None\<close> here.
\<close>

definition cia_ports_read_reg :: "CIA_State \<Rightarrow> u8 \<Rightarrow> u8 option" where
  "cia_ports_read_reg cia reg =
     (let r = reg AND 0x0f in
      if r = CIA_REG_PRA then Some (cia_port_a_value cia)
      else if r = CIA_REG_PRB then Some (cia_port_b_value cia)
      else if r = CIA_REG_DDRA then Some (ddra cia)
      else if r = CIA_REG_DDRB then Some (ddrb cia)
      else None)"

definition cia_ports_write_reg :: "CIA_State \<Rightarrow> u8 \<Rightarrow> u8 \<Rightarrow> CIA_State option" where
  "cia_ports_write_reg cia reg value =
     (let r = reg AND 0x0f in
      if r = CIA_REG_PRA then Some (cia\<lparr>pra := value\<rparr>)
      else if r = CIA_REG_PRB then Some (cia\<lparr>prb := value\<rparr>)
      else if r = CIA_REG_DDRA then Some (cia\<lparr>ddra := value\<rparr>)
      else if r = CIA_REG_DDRB then Some (cia\<lparr>ddrb := value\<rparr>)
      else None)"

end
