(* ===== verification/Cia_Timers.thy ===== *)
theory Cia_Timers
  imports Cia_Core
begin

text \<open>
  The two interval timers of a CIA (\<^verbatim>\<open>src/cia/cia_timers.c\<close>).  A C \<^verbatim>\<open>int\<close> is a
  HOL integer here; where the code converts a wider count to \<^verbatim>\<open>int\<close> the conversion is
  written out as the signed reading of the low 32 bits.  The loop of
  \<^verbatim>\<open>cia_timer_advance_events\<close> ends because every round consumes at least one event.

  The two routines that advance a timer, the closed form used for E-clock ticks and the
  loop used for CNT edges and cascaded underflows, are both shown equal to ticking a
  down-counter once per event.
\<close>

unbundle bit_operations_syntax

section \<open>Advancing a counter\<close>

definition cia_timer_advance :: "u16 \<Rightarrow> u16 \<Rightarrow> bool \<Rightarrow> u64 \<Rightarrow> u16 \<times> int" where
  "cia_timer_advance counter latch continuous ticks =
     (if ticks = 0 then (counter, 0)
      else
        let c = ucast counter :: u32 in
        if ticks \<le> ucast c then (ucast (c - ucast ticks), 0)
        else
          let ticks = ticks - (ucast c + 1) in
          if \<not> continuous then (0, 1)
          else
            let cycle = ucast latch + 1 :: u32;
                underflows = 1 + ticks div ucast cycle;
                rem = ucast (ticks mod ucast cycle) :: u32;
                counter = (if rem = 0 then latch else ucast (ucast latch - rem))
            in (counter, sint (ucast underflows :: 32 word)))"

function cia_timer_advance_events_loop ::
    "u16 \<Rightarrow> u16 \<Rightarrow> bool \<Rightarrow> u32 \<Rightarrow> int \<Rightarrow> u16 \<times> int" where
  "cia_timer_advance_events_loop counter latch continuous events underflows =
     (if events > 0 then
        let until_underflow = ucast counter + 1 :: u32 in
        if events < until_underflow
        then (counter - ucast events, underflows)
        else
          let events = events - until_underflow;
              underflows = underflows + 1
          in if \<not> continuous then (0, underflows)
             else cia_timer_advance_events_loop latch latch continuous events underflows
      else (counter, underflows))"
  by pat_completeness auto

lemma unat_ucast_suc16: "unat (ucast (w :: u16) + 1 :: u32) = unat w + 1"
proof -
  have "unat w < 65536" using unsigned_less [of w] by simp
  then show ?thesis by (simp add: unat_word_ariths unsigned_ucast_eq take_bit_nat_eq_self)
qed

termination cia_timer_advance_events_loop
proof (relation "measure (\<lambda>(_, _, _, events, _). unat events)", goal_cases)
  case (2 counter latch continuous events underflows x xa xb)
  then show ?case
    using unat_ucast_suc16 [of counter] unat_sub [of x events]
    by (simp add: not_less word_le_nat_alt)
qed simp

definition cia_timer_advance_events :: "u16 \<Rightarrow> u16 \<Rightarrow> bool \<Rightarrow> u32 \<Rightarrow> u16 \<times> int" where
  "cia_timer_advance_events counter latch continuous events =
     cia_timer_advance_events_loop counter latch continuous events 0"

declare cia_timer_advance_events_loop.simps [simp del]

section \<open>Timer operations\<close>

definition cia_timers_reset :: "CIA_State \<Rightarrow> CIA_State" where
  "cia_timers_reset cia = cia\<lparr>cra := 0, crb := 0, ta_latch := 0xffff, ta_counter := 0xffff,
     tb_latch := 0xffff, tb_counter := 0xffff, pb_timer_out := 0xc0, pb_pulse_mask := 0\<rparr>"

definition cia_timer_apply_underflow_output :: "CIA_State \<Rightarrow> u8 \<Rightarrow> int \<Rightarrow> CIA_State" where
  "cia_timer_apply_underflow_output cia control underflows =
     (let msk = (if control = cra cia then 0x40 else 0x80) in
      if control AND CIA_CRA_PBON = 0 then cia
      else if control AND CIA_CRA_OUTMODE \<noteq> 0 then
        (let cia = (if underflows AND 1 \<noteq> 0
                    then cia\<lparr>pb_timer_out := pb_timer_out cia XOR msk\<rparr> else cia)
         in cia\<lparr>pb_pulse_mask := pb_pulse_mask cia AND NOT msk\<rparr>)
      else cia\<lparr>pb_timer_out := pb_timer_out cia AND NOT msk,
               pb_pulse_mask := pb_pulse_mask cia OR msk\<rparr>)"

definition cia_timers_advance_pb_outputs :: "CIA_State \<Rightarrow> CIA_State" where
  "cia_timers_advance_pb_outputs cia =
     (let cia = (if pb_pulse_mask cia AND 0x40 \<noteq> 0
                 then cia\<lparr>pb_timer_out := pb_timer_out cia OR 0x40\<rparr> else cia);
          cia = (if pb_pulse_mask cia AND 0x80 \<noteq> 0
                 then cia\<lparr>pb_timer_out := pb_timer_out cia OR 0x80\<rparr> else cia)
      in cia\<lparr>pb_pulse_mask := 0\<rparr>)"

text \<open>
  What both stepping functions do once timer A (or B) has underflowed: the block guarded
  by \<^verbatim>\<open>uf_a > 0\<close> (or \<^verbatim>\<open>uf_b > 0\<close>), which the source spells out twice.
\<close>

fun cia_timer_a_underflowed :: "cia_sys \<Rightarrow> int \<Rightarrow> cia_sys" where
  "cia_timer_a_underflowed s uf_a =
     (if uf_a > 0 then
        let (cia, irq) = cia_interrupt_raise s CIA_ICR_TA;
            cia = cia_timer_apply_underflow_output cia (cra cia) uf_a;
            (cia, irq) = (cia_serial_on_timer_a_underflow ^^ nat uf_a) (cia, irq)
        in if cra cia AND CIA_CRA_RUNMODE \<noteq> 0
           then (cia\<lparr>cra := cra cia AND NOT CIA_CRA_START\<rparr>, irq) else (cia, irq)
      else s)"

fun cia_timer_b_underflowed :: "cia_sys \<Rightarrow> int \<Rightarrow> cia_sys" where
  "cia_timer_b_underflowed s uf_b =
     (if uf_b > 0 then
        let (cia, irq) = cia_interrupt_raise s CIA_ICR_TB;
            cia = cia_timer_apply_underflow_output cia (crb cia) uf_b
        in if crb cia AND CIA_CRB_RUNMODE \<noteq> 0
           then (cia\<lparr>crb := crb cia AND NOT CIA_CRB_START\<rparr>, irq) else (cia, irq)
      else s)"

fun cia_timers_step :: "cia_sys \<Rightarrow> u64 \<Rightarrow> cia_sys" where
  "cia_timers_step (cia, irq) ticks =
     (if ticks = 0 then (cia, irq)
      else
        let (uf_a, (cia, irq)) =
              (if cra cia AND CIA_CRA_START \<noteq> 0 \<and> cra cia AND CIA_CRA_INMODE = 0 then
                 let continuous = (cra cia AND CIA_CRA_RUNMODE = 0);
                     (counter, uf_a) =
                       cia_timer_advance (ta_counter cia) (ta_latch cia) continuous ticks
                 in (uf_a, cia_timer_a_underflowed (cia\<lparr>ta_counter := counter\<rparr>, irq) uf_a)
               else (0, (cia, irq)))
        in if crb cia AND CIA_CRB_START \<noteq> 0 then
             let inmode = drop_bit 5 (crb cia) AND 0x03;
                 continuous = (crb cia AND CIA_CRB_RUNMODE = 0);
                 (counter, uf_b) =
                   (if inmode = 0 then
                      cia_timer_advance (tb_counter cia) (tb_latch cia) continuous ticks
                    else if (inmode = 2 \<or> inmode = 3) \<and> uf_a > 0 \<and>
                            (inmode \<noteq> 3 \<or> cnt_level cia \<noteq> 0) then
                      cia_timer_advance_events (tb_counter cia) (tb_latch cia) continuous
                        (word_of_int uf_a)
                    else (tb_counter cia, 0))
             in cia_timer_b_underflowed (cia\<lparr>tb_counter := counter\<rparr>, irq) uf_b
           else (cia, irq))"

fun cia_timers_count_cnt :: "cia_sys \<Rightarrow> u32 \<Rightarrow> cia_sys" where
  "cia_timers_count_cnt (cia, irq) pulses =
     (if pulses = 0 then (cia, irq)
      else
        let (uf_a, (cia, irq)) =
              (if cra cia AND CIA_CRA_START \<noteq> 0 \<and> cra cia AND CIA_CRA_INMODE \<noteq> 0 then
                 let continuous = (cra cia AND CIA_CRA_RUNMODE = 0);
                     (counter, uf_a) =
                       cia_timer_advance_events (ta_counter cia) (ta_latch cia) continuous pulses
                 in (uf_a, cia_timer_a_underflowed (cia\<lparr>ta_counter := counter\<rparr>, irq) uf_a)
               else (0, (cia, irq)))
        in if crb cia AND CIA_CRB_START \<noteq> 0 then
             let inmode = drop_bit 5 (crb cia) AND 0x03;
                 continuous = (crb cia AND CIA_CRB_RUNMODE = 0);
                 (counter, uf_b) =
                   (if inmode = 1 then
                      cia_timer_advance_events (tb_counter cia) (tb_latch cia) continuous pulses
                    else if inmode = 3 \<and> uf_a > 0 then
                      cia_timer_advance_events (tb_counter cia) (tb_latch cia) continuous
                        (word_of_int uf_a)
                    else (tb_counter cia, 0))
             in cia_timer_b_underflowed (cia\<lparr>tb_counter := counter\<rparr>, irq) uf_b
           else (cia, irq))"

text \<open>The two pin functions of \<^verbatim>\<open>cia_ports.c\<close> that clock the timers.\<close>

fun cia_set_cnt_level :: "cia_sys \<Rightarrow> u8 \<Rightarrow> cia_sys" where
  "cia_set_cnt_level (cia, irq) level =
     (let new_level = (if level \<noteq> 0 then 1 else 0);
          old_level = cnt_level cia;
          cia = cia\<lparr>cnt_level := new_level\<rparr>
      in if old_level = 0 \<and> new_level \<noteq> 0
         then cia_timers_count_cnt (cia_serial_on_cnt_rising (cia, irq)) 1
         else (cia, irq))"

definition cia_pulse_cnt :: "cia_sys \<Rightarrow> u32 \<Rightarrow> cia_sys" where
  "cia_pulse_cnt s pulses = cia_timers_count_cnt s pulses"

definition cia_timers_read_reg :: "CIA_State \<Rightarrow> u8 \<Rightarrow> u8 option" where
  "cia_timers_read_reg cia reg =
     (let r = reg AND 0x0f in
      if r = CIA_REG_TALO then Some (ucast (ta_counter cia AND 0x00ff))
      else if r = CIA_REG_TAHI then Some (ucast (drop_bit 8 (ta_counter cia) AND 0x00ff))
      else if r = CIA_REG_TBLO then Some (ucast (tb_counter cia AND 0x00ff))
      else if r = CIA_REG_TBHI then Some (ucast (drop_bit 8 (tb_counter cia) AND 0x00ff))
      else if r = CIA_REG_CRA then Some (cra cia)
      else if r = CIA_REG_CRB then Some (crb cia)
      else None)"

definition cia_timers_write_reg :: "CIA_State \<Rightarrow> u8 \<Rightarrow> u8 \<Rightarrow> CIA_State option" where
  "cia_timers_write_reg cia reg val =
     (let r = reg AND 0x0f in
      if r = CIA_REG_TALO then
        Some (cia\<lparr>ta_latch := (ta_latch cia AND 0xff00) OR ucast val\<rparr>)
      else if r = CIA_REG_TAHI then
        (let cia = cia\<lparr>ta_latch := (ta_latch cia AND 0x00ff) OR push_bit 8 (ucast val)\<rparr>
         in Some (if cra cia AND CIA_CRA_START = 0 then
                    let cia = cia\<lparr>ta_counter := ta_latch cia\<rparr>
                    in if cra cia AND CIA_CRA_RUNMODE \<noteq> 0
                       then cia\<lparr>cra := cra cia OR CIA_CRA_START\<rparr> else cia
                  else cia))
      else if r = CIA_REG_TBLO then
        Some (cia\<lparr>tb_latch := (tb_latch cia AND 0xff00) OR ucast val\<rparr>)
      else if r = CIA_REG_TBHI then
        (let cia = cia\<lparr>tb_latch := (tb_latch cia AND 0x00ff) OR push_bit 8 (ucast val)\<rparr>
         in Some (if crb cia AND CIA_CRB_START = 0 then
                    let cia = cia\<lparr>tb_counter := tb_latch cia\<rparr>
                    in if crb cia AND CIA_CRB_RUNMODE \<noteq> 0
                       then cia\<lparr>crb := crb cia OR CIA_CRB_START\<rparr> else cia
                  else cia))
      else if r = CIA_REG_CRA then
        (let cia = cia\<lparr>cra := val AND NOT CIA_CRA_LOAD\<rparr>;
             cia = (if cra cia AND CIA_CRA_PBON \<noteq> 0
                    then cia\<lparr>pb_timer_out := pb_timer_out cia OR 0x40\<rparr> else cia)
         in Some (if val AND CIA_CRA_LOAD \<noteq> 0 then cia\<lparr>ta_counter := ta_latch cia\<rparr> else cia))
      else if r = CIA_REG_CRB then
        (let cia = cia\<lparr>crb := val AND NOT CIA_CRB_LOAD\<rparr>;
             cia = (if crb cia AND CIA_CRB_PBON \<noteq> 0
                    then cia\<lparr>pb_timer_out := pb_timer_out cia OR 0x80\<rparr> else cia)
         in Some (if val AND CIA_CRB_LOAD \<noteq> 0 then cia\<lparr>tb_counter := tb_latch cia\<rparr> else cia))
      else None)"

section \<open>The reference counter\<close>

text \<open>
  The specification ticks a counter one event at a time.  The state is the counter, the
  number of underflows so far and whether the timer still runs: an event at zero is an
  underflow, which reloads the latch in continuous mode and stops the timer otherwise.
\<close>

fun timer_tick :: "nat \<Rightarrow> bool \<Rightarrow> nat \<times> nat \<times> bool \<Rightarrow> nat \<times> nat \<times> bool" where
  "timer_tick latch continuous (c, u, run) =
     (if \<not> run then (c, u, run)
      else if c = 0 then (if continuous then (latch, u + 1, True) else (0, u + 1, False))
      else (c - 1, u, True))"

definition timer_ref :: "nat \<Rightarrow> nat \<Rightarrow> bool \<Rightarrow> nat \<Rightarrow> nat \<times> nat \<times> bool" where
  "timer_ref c latch continuous n = (timer_tick latch continuous ^^ n) (c, 0, True)"

lemma timer_tick_below: "n \<le> c \<Longrightarrow> (timer_tick l k ^^ n) (c, u, True) = (c - n, u, True)"
  by (induction n) auto

lemma timer_tick_stopped: "(timer_tick l k ^^ n) (c, u, False) = (c, u, False)"
  by (induction n) auto

lemma timer_tick_split:
  assumes "c < n"
  shows "(timer_tick l k ^^ n) (c, u, True) =
    (timer_tick l k ^^ (n - Suc c)) (if k then (l, Suc u, True) else (0, Suc u, False))"
proof -
  have "n = (n - Suc c) + Suc c" using assms by simp
  then have "(timer_tick l k ^^ n) (c, u, True) =
      (timer_tick l k ^^ (n - Suc c)) ((timer_tick l k ^^ Suc c) (c, u, True))"
    by (metis comp_apply funpow_add)
  then show ?thesis by (simp add: timer_tick_below)
qed

lemma timer_tick_closed:
  "(timer_tick l True ^^ n) (l, u, True) = (l - n mod (l + 1), u + n div (l + 1), True)"
proof (induction n arbitrary: u rule: less_induct)
  case (less n)
  show ?case
  proof (cases "n \<le> l")
    case True
    then show ?thesis by (simp add: timer_tick_below)
  next
    case False
    then have "(timer_tick l True ^^ n) (l, u, True) =
        (timer_tick l True ^^ (n - Suc l)) (l, Suc u, True)"
      by (simp add: timer_tick_split)
    also have "\<dots> = (l - (n - Suc l) mod (l + 1), Suc u + (n - Suc l) div (l + 1), True)"
      using False by (intro less.IH) simp
    also have "(n - Suc l) mod (l + 1) = n mod (l + 1)"
      using False by (simp add: le_mod_geq)
    also have "Suc u + (n - Suc l) div (l + 1) = u + n div (l + 1)"
      using False by (simp add: le_div_geq)
    finally show ?thesis .
  qed
qed

lemma timer_ref_eq: "timer_ref c l k n =
    (if n \<le> c then (c - n, 0, True)
     else if \<not> k then (0, 1, False)
     else (l - (n - Suc c) mod (l + 1), 1 + (n - Suc c) div (l + 1), True))"
  by (simp add: timer_ref_def timer_tick_below timer_tick_split timer_tick_stopped
      timer_tick_closed)

section \<open>Both routines implement the reference counter\<close>

definition timer_result :: "nat \<times> nat \<times> bool \<Rightarrow> u16 \<times> int" where
  "timer_result r = (case r of (c, u, _) \<Rightarrow> (word_of_nat c, int u))"

lemma word_of_nat_diff_unat: "b \<le> unat a \<Longrightarrow> word_of_nat (unat a - b) = a - word_of_nat b"
  for a :: "'a::len word"
  by simp

lemma timer_ref_latch: "timer_ref l l True m = (l - m mod (l + 1), m div (l + 1), True)"
  by (simp add: timer_ref_def timer_tick_closed)

lemma advance_events_loop_ref:
  "cia_timer_advance_events_loop counter latch k events uf =
     (let r = timer_result (timer_ref (unat counter) (unat latch) k (unat events))
      in (fst r, uf + snd r))"
proof (induction counter latch k events uf rule: cia_timer_advance_events_loop.induct)
  case (1 counter latch k events uf)
  let ?c = "unat counter" and ?e = "unat events"
  consider "?e \<le> ?c" | "?c < ?e" "\<not> k" | "?c < ?e" k by linarith
  then show ?case
  proof cases
    case 1
    then have "events < ucast counter + 1"
      by (simp add: word_less_nat_alt unat_ucast_suc16)
    with 1 show ?thesis
      by (subst cia_timer_advance_events_loop.simps)
         (simp add: timer_ref_eq timer_result_def word_of_nat_diff_unat word_gt_0)
  next
    case 2
    then have "\<not> events < ucast counter + 1" "events > 0"
      by (simp_all add: word_less_nat_alt unat_ucast_suc16)
    with 2 show ?thesis
      by (subst cia_timer_advance_events_loop.simps) (simp add: timer_ref_eq timer_result_def)
  next
    case 3
    then have *: "\<not> events < ucast counter + 1" "events > 0"
      by (simp_all add: word_less_nat_alt unat_ucast_suc16)
    have e: "unat (events - (ucast counter + 1)) = ?e - Suc ?c"
      using * unat_sub [of "ucast counter + 1" events] unat_ucast_suc16 [of counter]
      by (simp add: not_less)
    have IH: "cia_timer_advance_events_loop latch latch True (events - (ucast counter + 1)) (uf + 1) =
      (word_of_nat (unat latch - (?e - Suc ?c) mod (unat latch + 1)),
       uf + 1 + int ((?e - Suc ?c) div (unat latch + 1)))"
      using "1.IH" [OF *(2) refl *(1) refl refl] 3(2)
      by (simp add: e timer_ref_latch timer_result_def)
    show ?thesis using 3 *
      by (subst cia_timer_advance_events_loop.simps)
         (simp add: IH timer_ref_eq timer_result_def)
  qed
qed

lemma advance_events_ref:
  "cia_timer_advance_events counter latch k events =
     timer_result (timer_ref (unat counter) (unat latch) k (unat events))"
  by (simp add: cia_timer_advance_events_def advance_events_loop_ref Let_def)

lemma advance_ref:
  assumes "ticks < 2 ^ 31"
  shows "cia_timer_advance counter latch k ticks =
     timer_result (timer_ref (unat counter) (unat latch) k (unat ticks))"
proof -
  let ?c = "unat counter" and ?t = "unat ticks" and ?l = "unat latch"
  have t: "?t < 2 ^ 31" using assms by (simp add: word_less_nat_alt)
  have bounds: "?c < 65536" "?l < 65536"
    using unsigned_less [of counter] unsigned_less [of latch] by simp_all
  have c64: "unat (ucast (ucast counter :: u32) + 1 :: u64) = Suc ?c"
    "unat (ucast (ucast counter :: u32) :: u64) = ?c"
    using bounds by (simp_all add: unat_word_ariths)
  consider "?t \<le> ?c" | "?c < ?t" "\<not> k" | "?c < ?t" k by linarith
  then show ?thesis
  proof cases
    case 1
    then show ?thesis
      by (simp add: cia_timer_advance_def timer_ref_eq timer_result_def word_le_nat_alt
          Let_def ucast_diff_down ucast_ucast_down)
  next
    case 2
    then show ?thesis
      by (auto simp add: cia_timer_advance_def timer_ref_eq timer_result_def word_le_nat_alt c64 Let_def)
  next
    case 3
    let ?ticks = "ticks - (ucast (ucast counter :: u32) + 1)" and ?cyc = "ucast (ucast latch + 1 :: u32) :: u64"
    have d: "unat ?ticks = ?t - Suc ?c"
      using 3 c64(1) unat_sub [of "ucast (ucast counter :: u32) + 1" ticks]
      by (simp add: word_le_nat_alt)
    have cyc: "unat ?cyc = Suc ?l"
      by (simp add: unat_ucast_suc16)
    have m: "(?t - Suc ?c) mod Suc ?l < 65536"
      using bounds(2) mod_less_divisor [of "Suc ?l" "?t - Suc ?c"] by linarith
    have r: "unat (ucast (?ticks mod ?cyc) :: u32) = (?t - Suc ?c) mod Suc ?l"
      using m by (subst unat_ucast_small) (simp_all add: unat_mod d unat_ucast_suc16)
    have q: "Suc ((?t - Suc ?c) div Suc ?l) < 2 ^ 31"
      using t 3(1) div_le_dividend [of "?t - Suc ?c" "Suc ?l"] by linarith
    have dv: "unat (?ticks div ?cyc) = (?t - Suc ?c) div Suc ?l"
      by (simp add: unat_div d unat_ucast_suc16)
    with q have u: "unat (1 + ?ticks div ?cyc) = Suc ((?t - Suc ?c) div Suc ?l)"
      by (simp add: unat_word_ariths(1) dv del: unat_div)
    have s: "sint (ucast (1 + ?ticks div ?cyc) :: 32 word) = int (1 + (?t - Suc ?c) div Suc ?l)"
      using q by (subst sint_eq_unat) (simp_all add: unat_ucast_small u)
    have dn: "ucast (ucast latch - x) = latch - ucast x" for x :: u32
      by (simp add: ucast_diff_down ucast_ucast_down)
    have w: "ucast (ucast (?ticks mod ?cyc) :: u32) = (word_of_nat ((?t - Suc ?c) mod Suc ?l) :: u16)"
      by (metis r of_nat_unat)
    have z: "(ucast (?ticks mod ?cyc) :: u32) = 0 \<longleftrightarrow> (?t - Suc ?c) mod Suc ?l = 0"
      by (metis r unsigned_eq_0_iff)
    have "ticks \<noteq> 0" "\<not> ticks \<le> ucast (ucast counter :: u32)"
      using 3(1) by (auto simp: word_le_nat_alt)
    moreover have "(if (ucast (?ticks mod ?cyc) :: u32) = 0 then latch
        else ucast (ucast latch - (ucast (?ticks mod ?cyc) :: u32))) =
        word_of_nat (?l - (?t - Suc ?c) mod Suc ?l)"
      by (simp only: z dn w) simp
    ultimately show ?thesis
      using 3 by (simp only: cia_timer_advance_def timer_ref_eq timer_result_def Let_def s) simp
  qed
qed

text \<open>
  C4: Advancing a CIA timer by \<open>n\<close> events, whether with the closed form of
  \<^verbatim>\<open>cia_timer_advance\<close> (division and remainder by the latch period) or with the loop of
  \<^verbatim>\<open>cia_timer_advance_events\<close>, leaves the counter and reports the number of underflows
  that ticking the hardware down-counter \<open>n\<close> times gives, in one-shot and in continuous
  mode, for every latch and every \<open>n\<close> below \<^verbatim>\<open>2^31\<close> (beyond which the C \<^verbatim>\<open>int\<close> result
  cannot hold the count).
\<close>

theorem timer_advance_correct:
  assumes "n < 2 ^ 31"
  shows "cia_timer_advance counter latch continuous (word_of_nat n) =
           timer_result (timer_ref (unat counter) (unat latch) continuous n) \<and>
         cia_timer_advance_events counter latch continuous (word_of_nat n) =
           timer_result (timer_ref (unat counter) (unat latch) continuous n)"
proof -
  have n: "unat (word_of_nat n :: u64) = n" "unat (word_of_nat n :: u32) = n"
    using assms by (simp_all add: unat_of_nat)
  then have "(word_of_nat n :: u64) < 2 ^ 31"
    using assms by (simp add: word_less_nat_alt)
  from advance_ref [OF this] advance_events_ref show ?thesis by (simp add: n)
qed

theorem timer_advance_correct_witness:
  "cia_timer_advance 5 2 True (word_of_nat 9) = (2, 2) \<and>
   cia_timer_advance_events 5 2 True (word_of_nat 9) = (2, 2)"
  using timer_advance_correct [of 9 5 2 True]
  by (simp add: timer_ref_eq timer_result_def)

end
