(* ===== verification/Cia.thy ===== *)
theory Cia
  imports Cia_Timers
begin

text \<open>
  Time-of-day counter (\<^verbatim>\<open>src/cia/cia_tod.c\<close>) and top level of a CIA
  (\<^verbatim>\<open>src/cia/cia.c\<close>): life cycle, stepping and register access.  The step relation
  \<open>cia_op\<close> closes the component under every operation of its interface, and \<open>cia_wf\<close>
  is the invariant of the states it reaches.
\<close>

unbundle bit_operations_syntax

section \<open>Time of day\<close>

definition cia_tod_lo :: "u32 \<Rightarrow> u8" where
  "cia_tod_lo v = ucast (v AND 0xff)"

definition cia_tod_mid :: "u32 \<Rightarrow> u8" where
  "cia_tod_mid v = ucast (drop_bit 8 v AND 0xff)"

definition cia_tod_hi :: "u32 \<Rightarrow> u8" where
  "cia_tod_hi v = ucast (drop_bit 16 v AND 0xff)"

definition cia_tod_raise_alarm :: "cia_sys \<Rightarrow> cia_sys" where
  "cia_tod_raise_alarm s = cia_interrupt_raise s CIA_ICR_ALRM"

definition cia_tod_reset :: "CIA_TOD_State \<Rightarrow> u32 \<Rightarrow> CIA_TOD_State" where
  "cia_tod_reset tod tpi = tod\<lparr>tod_counter := 0, tod_alarm := 0x00ffff, tod_latch := 0,
     tod_latched := False, tod_stopped := False, tod_subticks := 0, ticks_per_inc := tpi\<rparr>"

text \<open>One round of the loop of \<^verbatim>\<open>cia_tod_increment\<close>, and the loop.\<close>

fun cia_tod_increment_once :: "cia_sys \<Rightarrow> cia_sys" where
  "cia_tod_increment_once (cia, irq) =
     (let tod = cia_tod cia;
          tod = tod\<lparr>tod_counter := (tod_counter tod + 1) AND 0x00ffffff\<rparr>;
          cia = cia\<lparr>cia_tod := tod\<rparr>
      in if tod_counter tod = tod_alarm tod then cia_tod_raise_alarm (cia, irq)
         else (cia, irq))"

definition cia_tod_increment :: "cia_sys \<Rightarrow> u32 \<Rightarrow> cia_sys" where
  "cia_tod_increment s increments = (cia_tod_increment_once ^^ unat increments) s"

fun cia_tod_step :: "cia_sys \<Rightarrow> u64 \<Rightarrow> cia_sys" where
  "cia_tod_step (cia, irq) ticks =
     (let tod = cia_tod cia in
      if ticks = 0 \<or> ticks_per_inc tod = 0 \<or> tod_stopped tod then (cia, irq)
      else
        let tod = tod\<lparr>tod_subticks := tod_subticks tod + ucast ticks\<rparr> in
        if tod_subticks tod \<ge> ticks_per_inc tod then
          let inc = tod_subticks tod div ticks_per_inc tod;
              tod = tod\<lparr>tod_subticks := tod_subticks tod mod ticks_per_inc tod\<rparr>
          in cia_tod_increment (cia\<lparr>cia_tod := tod\<rparr>, irq) inc
        else (cia\<lparr>cia_tod := tod\<rparr>, irq))"

definition cia_tod_pulse :: "cia_sys \<Rightarrow> u32 \<Rightarrow> cia_sys" where
  "cia_tod_pulse s pulses = (if pulses = 0 then s else cia_tod_increment s pulses)"

definition cia_tod_read :: "CIA_State \<Rightarrow> u8 \<Rightarrow> u8 \<times> CIA_State" where
  "cia_tod_read cia reg =
     (let tod = cia_tod cia in
      if reg = CIA_REG_TODLO then
        (if tod_latched tod
         then (cia_tod_lo (tod_latch tod), cia\<lparr>cia_tod := tod\<lparr>tod_latched := False\<rparr>\<rparr>)
         else (cia_tod_lo (tod_counter tod), cia))
      else if reg = CIA_REG_TODMID then
        (if tod_latched tod then (cia_tod_mid (tod_latch tod), cia)
         else (cia_tod_mid (tod_counter tod), cia))
      else if reg = CIA_REG_TODHI then
        (cia_tod_hi (tod_counter tod),
         cia\<lparr>cia_tod := tod\<lparr>tod_latch := tod_counter tod, tod_latched := True\<rparr>\<rparr>)
      else (0xff, cia))"

text \<open>
  \<^verbatim>\<open>cia_tod_write\<close> goes through a pointer that is either the alarm or the counter,
  chosen once by CRB bit 7; \<open>upd\<close> is a store through that pointer.
\<close>

definition cia_tod_write :: "CIA_State \<Rightarrow> u8 \<Rightarrow> u8 \<Rightarrow> CIA_State" where
  "cia_tod_write cia reg val =
     (let alarm = (crb cia AND CIA_CRB_ALARM \<noteq> 0);
          tod = cia_tod cia;
          target = (if alarm then tod_alarm tod else tod_counter tod);
          tod = (if \<not> alarm then tod\<lparr>tod_stopped := True\<rparr> else tod);
          upd = (\<lambda>t v. if alarm then t\<lparr>tod_alarm := v\<rparr> else t\<lparr>tod_counter := v\<rparr>)
      in cia\<lparr>cia_tod :=
        (if reg = CIA_REG_TODLO then
           let tod = upd tod ((target AND 0xffff00) OR ucast val)
           in if \<not> alarm then tod\<lparr>tod_stopped := False\<rparr> else tod
         else if reg = CIA_REG_TODMID then
           upd tod ((target AND 0xff00ff) OR push_bit 8 (ucast val))
         else if reg = CIA_REG_TODHI then
           upd tod ((target AND 0x00ffff) OR push_bit 16 (ucast val))
         else tod)\<rparr>)"

section \<open>Life cycle and stepping\<close>

definition cia_reset_core_state :: "CIA_State \<Rightarrow> CIA_State" where
  "cia_reset_core_state cia =
     (let cia = cia_ports_reset cia;
          cia = cia\<lparr>cnt_level := 1, flag_level := 1\<rparr>;
          cia = cia_serial_reset cia;
          cia = cia_interrupt_reset cia
      in cia_timers_reset cia)"

fun cia_reset :: "cia_sys \<Rightarrow> cia_sys" where
  "cia_reset (cia, irq) =
     (let saved_id = cia_id cia;
          saved_irq = irq_level cia;
          saved_paulabit = paula_irq_bit cia;
          saved_paula = cia_paula cia;
          cia = cia_reset_core_state cia;
          cia = cia\<lparr>cia_id := saved_id, irq_level := saved_irq,
                    paula_irq_bit := saved_paulabit, cia_paula := saved_paula\<rparr>;
          cia = cia\<lparr>cia_tod := cia_tod_reset (cia_tod cia)
                  (if cia_id cia = CIA_PORT_A then CIA_A_TOD_TICKS_PER_INCREMENT
                   else CIA_B_TOD_TICKS_PER_INCREMENT)\<rparr>;
          cia = cia_ports_apply_defaults cia
      in cia_interrupt_sync_irq_line (cia, irq))"

text \<open>The all-zero structure that \<^verbatim>\<open>memset\<close> leaves in \<^verbatim>\<open>cia_init\<close>.\<close>

definition cia_zero :: CIA_State where
  "cia_zero = \<lparr>cia_id = CIA_PORT_A, pra = 0, prb = 0, ddra = 0, ddrb = 0, ext_pra = 0,
     ext_prb = 0, sdr = 0, sdr_full = 0, sp_input_level = 0, sp_output_level = 0,
     cnt_output_level = 0, serial_in_shift = 0, serial_in_bits = 0, serial_out_shift = 0,
     serial_out_bits = 0, serial_out_busy = 0, serial_out_buffer = 0,
     serial_out_buffer_full = 0, icr_mask = 0, icr_data = 0, cra = 0, crb = 0, ta_latch = 0,
     ta_counter = 0, tb_latch = 0, tb_counter = 0, pb_timer_out = 0, pb_pulse_mask = 0,
     cnt_level = 0, flag_level = 0,
     cia_tod = \<lparr>tod_counter = 0, tod_alarm = 0, tod_latch = 0, tod_latched = False,
       tod_stopped = False, tod_subticks = 0, ticks_per_inc = 0\<rparr>,
     irq_level = 0, paula_irq_bit = 0, cia_paula = False, irq_asserted = 0\<rparr>"

definition cia_init :: "RigelInterruptDomain \<Rightarrow> CIA_ID \<Rightarrow> cia_sys" where
  "cia_init irq i =
     cia_reset (cia_zero\<lparr>cia_id := i,
        irq_level := (if i = CIA_PORT_A then 2 else 6),
        paula_irq_bit := (if i = CIA_PORT_A then RIGEL_PAULA_INT_PORTS
                          else RIGEL_PAULA_INT_EXTER),
        cia_paula := False\<rparr>, irq)"

text \<open>Attaching a Paula (\<^term>\<open>True\<close>) or detaching it (a null pointer).\<close>

fun cia_attach_paula :: "cia_sys \<Rightarrow> bool \<Rightarrow> cia_sys" where
  "cia_attach_paula (cia, irq) attached =
     cia_interrupt_sync_irq_line (cia\<lparr>cia_paula := attached\<rparr>, irq)"

fun cia_step :: "cia_sys \<Rightarrow> u64 \<Rightarrow> cia_sys" where
  "cia_step (cia, irq) ticks =
     cia_tod_step (cia_timers_step (cia_timers_advance_pb_outputs cia, irq) ticks) ticks"

section \<open>Register access\<close>

fun cia_read_reg :: "cia_sys \<Rightarrow> u8 \<Rightarrow> u8 \<times> cia_sys" where
  "cia_read_reg (cia, irq) reg =
     (let r = reg AND 0x0f in
      if r = CIA_REG_PRA \<or> r = CIA_REG_PRB \<or> r = CIA_REG_DDRA \<or> r = CIA_REG_DDRB then
        (case cia_ports_read_reg cia reg of None \<Rightarrow> (0xff, (cia, irq)) | Some v \<Rightarrow> (v, (cia, irq)))
      else if r = CIA_REG_TALO \<or> r = CIA_REG_TAHI \<or> r = CIA_REG_TBLO \<or> r = CIA_REG_TBHI \<or>
              r = CIA_REG_CRA \<or> r = CIA_REG_CRB then
        (case cia_timers_read_reg cia reg of Some v \<Rightarrow> (v, (cia, irq)) | None \<Rightarrow> (0xff, (cia, irq)))
      else if r = CIA_REG_TODLO \<or> r = CIA_REG_TODMID \<or> r = CIA_REG_TODHI then
        (let (v, cia) = cia_tod_read cia (reg AND 0x0f) in (v, (cia, irq)))
      else if r = CIA_REG_UNUSED then (0xff, (cia, irq))
      else if r = CIA_REG_SDR then (sdr cia, (cia\<lparr>sdr_full := 0\<rparr>, irq))
      else if r = CIA_REG_ICR then cia_interrupt_read_icr (cia, irq)
      else (0xff, (cia, irq)))"

definition cia_receive_sdr :: "cia_sys \<Rightarrow> u8 \<Rightarrow> bool \<times> cia_sys" where
  "cia_receive_sdr s val = cia_serial_receive_byte s val"

fun cia_write_reg :: "cia_sys \<Rightarrow> u8 \<Rightarrow> u8 \<Rightarrow> cia_sys" where
  "cia_write_reg (cia, irq) reg val =
     (let r = reg AND 0x0f in
      if r = CIA_REG_PRA \<or> r = CIA_REG_PRB \<or> r = CIA_REG_DDRA \<or> r = CIA_REG_DDRB then
        (case cia_ports_write_reg cia reg val of None \<Rightarrow> (cia, irq) | Some cia' \<Rightarrow> (cia', irq))
      else if r = CIA_REG_TALO \<or> r = CIA_REG_TAHI \<or> r = CIA_REG_TBLO \<or> r = CIA_REG_TBHI \<or>
              r = CIA_REG_CRA \<or> r = CIA_REG_CRB then
        (case cia_timers_write_reg cia reg val of None \<Rightarrow> (cia, irq) | Some cia' \<Rightarrow> (cia', irq))
      else if r = CIA_REG_TODLO \<or> r = CIA_REG_TODMID \<or> r = CIA_REG_TODHI then
        (cia_tod_write cia (reg AND 0x0f) val, irq)
      else if r = CIA_REG_UNUSED then (cia, irq)
      else if r = CIA_REG_SDR then (cia_serial_write_sdr cia val, irq)
      else if r = CIA_REG_ICR then cia_interrupt_write_icr (cia, irq) val
      else (cia, irq))"

section \<open>All operations as one step relation\<close>

inductive cia_op :: "cia_sys \<Rightarrow> cia_sys \<Rightarrow> bool" where
  "cia_op s (cia_reset s)"
| "cia_op s (cia_attach_paula s True)"
| "cia_op s (cia_step s ticks)"
| "cia_op s (snd (cia_read_reg s reg))"
| "cia_op s (cia_write_reg s reg v)"
| "cia_op s (snd (cia_receive_sdr s v))"
| "cia_op s (cia_tod_pulse s pulses)"
| "cia_op s (cia_pulse_cnt s pulses)"
| "cia_op s (cia_set_cnt_level s level)"
| "cia_op s (cia_set_flag_level s level)"
| "cia_op (cia, irq) (cia_set_sp_level cia level, irq)"
| "cia_op (cia, irq) (cia_set_external_pra cia v, irq)"
| "cia_op (cia, irq) (cia_set_external_prb cia v, irq)"

inductive_cases cia_opE: "cia_op s s'"

section \<open>Invariant\<close>

text \<open>
  The interrupt line: when a Paula is attached, \<open>irq_asserted\<close> and the CIA's request bit in
  INTREQ both say whether an unmasked interrupt is pending.  The registers: only the five
  interrupt sources can be set, the serial bit counters stay in range, the output shifter
  is busy exactly while bits are left, and the time of day is a 24-bit number.
\<close>

definition cia_line_ok :: "cia_sys \<Rightarrow> bool" where
  "cia_line_ok s \<longleftrightarrow> (case s of (cia, irq) \<Rightarrow> cia_paula cia \<longrightarrow>
     irq_asserted cia = (if cia_irq_pending cia then 1 else 0) \<and>
     (\<forall>n < 15. bit (paula_irq_bit cia) n \<longrightarrow> bit (intreq irq) n = cia_irq_pending cia))"

definition cia_regs_ok :: "CIA_State \<Rightarrow> bool" where
  "cia_regs_ok cia \<longleftrightarrow>
     icr_data cia AND 0xe0 = 0 \<and> icr_mask cia AND 0xe0 = 0 \<and>
     serial_in_bits cia < 8 \<and> serial_out_bits cia \<le> 8 \<and>
     (serial_out_busy cia \<noteq> 0 \<longleftrightarrow> serial_out_bits cia \<noteq> 0) \<and>
     tod_counter (cia_tod cia) < 2 ^ 24 \<and> tod_alarm (cia_tod cia) < 2 ^ 24"

definition cia_wf :: "cia_sys \<Rightarrow> bool" where
  "cia_wf s \<longleftrightarrow> cia_line_ok s \<and> cia_regs_ok (fst s)"

lemmas cia_wf_defs = cia_wf_def cia_line_ok_def cia_regs_ok_def cia_irq_pending_def

lemma cia_wf_frame [simp]:
  "cia_wf (cia\<lparr>pra := b\<rparr>, irq) = cia_wf (cia, irq)"
  "cia_wf (cia\<lparr>prb := b\<rparr>, irq) = cia_wf (cia, irq)"
  "cia_wf (cia\<lparr>ddra := b\<rparr>, irq) = cia_wf (cia, irq)"
  "cia_wf (cia\<lparr>ddrb := b\<rparr>, irq) = cia_wf (cia, irq)"
  "cia_wf (cia\<lparr>ext_pra := b\<rparr>, irq) = cia_wf (cia, irq)"
  "cia_wf (cia\<lparr>ext_prb := b\<rparr>, irq) = cia_wf (cia, irq)"
  "cia_wf (cia\<lparr>sdr := b\<rparr>, irq) = cia_wf (cia, irq)"
  "cia_wf (cia\<lparr>sdr_full := b\<rparr>, irq) = cia_wf (cia, irq)"
  "cia_wf (cia\<lparr>sp_input_level := b\<rparr>, irq) = cia_wf (cia, irq)"
  "cia_wf (cia\<lparr>sp_output_level := b\<rparr>, irq) = cia_wf (cia, irq)"
  "cia_wf (cia\<lparr>cnt_output_level := b\<rparr>, irq) = cia_wf (cia, irq)"
  "cia_wf (cia\<lparr>serial_in_shift := b\<rparr>, irq) = cia_wf (cia, irq)"
  "cia_wf (cia\<lparr>serial_out_shift := b\<rparr>, irq) = cia_wf (cia, irq)"
  "cia_wf (cia\<lparr>serial_out_buffer := b\<rparr>, irq) = cia_wf (cia, irq)"
  "cia_wf (cia\<lparr>serial_out_buffer_full := b\<rparr>, irq) = cia_wf (cia, irq)"
  "cia_wf (cia\<lparr>cra := b\<rparr>, irq) = cia_wf (cia, irq)"
  "cia_wf (cia\<lparr>crb := b\<rparr>, irq) = cia_wf (cia, irq)"
  "cia_wf (cia\<lparr>ta_latch := w\<rparr>, irq) = cia_wf (cia, irq)"
  "cia_wf (cia\<lparr>ta_counter := w\<rparr>, irq) = cia_wf (cia, irq)"
  "cia_wf (cia\<lparr>tb_latch := w\<rparr>, irq) = cia_wf (cia, irq)"
  "cia_wf (cia\<lparr>tb_counter := w\<rparr>, irq) = cia_wf (cia, irq)"
  "cia_wf (cia\<lparr>pb_timer_out := b\<rparr>, irq) = cia_wf (cia, irq)"
  "cia_wf (cia\<lparr>pb_pulse_mask := b\<rparr>, irq) = cia_wf (cia, irq)"
  "cia_wf (cia\<lparr>cnt_level := b\<rparr>, irq) = cia_wf (cia, irq)"
  "cia_wf (cia\<lparr>flag_level := b\<rparr>, irq) = cia_wf (cia, irq)"
  "cia_wf (cia\<lparr>irq_level := b\<rparr>, irq) = cia_wf (cia, irq)"
  by (simp_all add: cia_wf_defs)

lemma cia_line_ok_sync: "cia_line_ok (cia_interrupt_sync_irq_line s)"
  by (cases s) (auto simp: cia_line_ok_def cia_irq_pending_def
      paula_irq.requested_raise paula_irq.requested_clear bit_simps)

lemma cia_regs_ok_sync: "cia_regs_ok (fst (cia_interrupt_sync_irq_line (cia, irq))) = cia_regs_ok cia"
  by (simp add: cia_regs_ok_def)

lemma cia_wf_sync: "cia_wf (cia_interrupt_sync_irq_line (cia, irq)) = cia_regs_ok cia"
  by (simp only: cia_wf_def cia_line_ok_sync cia_regs_ok_sync simp_thms)

lemma and_or_low5: "(d OR (m AND 0x1f)) AND 0xe0 = d AND 0xe0" for d m :: u8
proof -
  have "(m AND 0x1f) AND (0xe0 :: u8) = m AND (0x1f AND 0xe0)" by (simp only: and.assoc)
  then show ?thesis by (simp add: bit.conj_disj_distrib2)
qed

lemma cia_wf_raise: "cia_regs_ok cia \<Longrightarrow> cia_wf (cia_interrupt_raise (cia, irq) m)"
  by (simp only: cia_interrupt_raise.simps cia_wf_sync)
     (simp add: cia_regs_ok_def and_or_low5)

lemma cia_wf_regs: "cia_wf (cia, irq) \<Longrightarrow> cia_regs_ok cia"
  by (simp add: cia_wf_def)

subsection \<open>Preservation\<close>

lemma cia_wf_irq_frame:
  assumes "cia_wf (cia, irq)"
    and "icr_data cia' = icr_data cia" "icr_mask cia' = icr_mask cia"
    and "irq_asserted cia' = irq_asserted cia" "cia_paula cia' = cia_paula cia"
    and "paula_irq_bit cia' = paula_irq_bit cia" and "cia_regs_ok cia'"
  shows "cia_wf (cia', irq)"
  using assms by (simp add: cia_wf_def cia_line_ok_def cia_irq_pending_def)

lemma cia_regs_ok_start_output:
  "cia_regs_ok cia \<Longrightarrow> cia_regs_ok (cia_serial_start_output cia)"
  by (simp add: cia_regs_ok_def cia_serial_start_output_def)

lemma cia_wf_start_output:
  "cia_wf (cia, irq) \<Longrightarrow> cia_wf (cia_serial_start_output cia, irq)"
proof -
  assume wf: "cia_wf (cia, irq)"
  from cia_regs_ok_start_output [OF cia_wf_regs [OF wf]] show ?thesis
    by (intro cia_wf_irq_frame [OF wf]) (simp_all add: cia_serial_start_output_def)
qed

lemma word8_succ_bound: "w < 8 \<Longrightarrow> \<not> w + 1 < 8 \<Longrightarrow> w + 1 = 8" for w :: u8
  by unat_arith

lemma word8_pred_bound: "w \<le> 8 \<Longrightarrow> w \<noteq> 0 \<Longrightarrow> w - 1 \<le> 8" for w :: u8
  by unat_arith

lemma cia_wf_cnt_rising: "cia_wf s \<Longrightarrow> cia_wf (cia_serial_on_cnt_rising s)"
proof (cases s)
  case (Pair cia irq)
  assume "cia_wf s"
  with Pair have wf: "cia_wf (cia, irq)" "cia_regs_ok cia" by (simp_all add: cia_wf_regs)
  let ?cia = "cia\<lparr>serial_in_shift := push_bit 1 (serial_in_shift cia) OR
      (if sp_input_level cia \<noteq> 0 then 1 else 0), serial_in_bits := serial_in_bits cia + 1\<rparr>"
  have "cia_wf (?cia, irq)" if "serial_in_bits cia + 1 < 8"
    by (rule cia_wf_irq_frame [OF wf(1)]) (use wf(2) that in \<open>simp_all add: cia_regs_ok_def\<close>)
  moreover have "cia_regs_ok (?cia\<lparr>sdr := x, sdr_full := 1, serial_in_shift := 0,
      serial_in_bits := 0\<rparr>)" for x
    using wf(2) by (simp add: cia_regs_ok_def)
  ultimately show ?thesis
    using Pair wf(1) by (simp add: Let_def cia_wf_raise del: cia_interrupt_raise.simps)
qed

lemma cia_wf_timer_a_underflow: "cia_wf s \<Longrightarrow> cia_wf (cia_serial_on_timer_a_underflow s)"
proof (cases s)
  case (Pair cia irq)
  assume "cia_wf s"
  let ?c = "cia_serial_start_output cia"
  let ?d = "?c\<lparr>sp_output_level := drop_bit 7 (serial_out_shift ?c) AND 1, cnt_output_level := 1,
       serial_out_shift := push_bit 1 (serial_out_shift ?c),
       serial_out_bits := serial_out_bits ?c - 1\<rparr>"
  let ?e = "?d\<lparr>serial_out_busy := 0, sp_output_level := 1\<rparr>"
  from Pair \<open>cia_wf s\<close> have wf: "cia_wf (?c, irq)" "cia_regs_ok ?c"
    by (auto simp: cia_wf_start_output intro: cia_wf_regs cia_regs_ok_start_output)
  have 1: "cia_wf (?d, irq)" if "serial_out_busy ?c \<noteq> 0" "serial_out_bits ?d \<noteq> 0"
    by (rule cia_wf_irq_frame [OF wf(1)])
       (use wf(2) that in \<open>simp_all add: cia_regs_ok_def word8_pred_bound\<close>)
  have "cia_regs_ok ?e" if "serial_out_busy ?c \<noteq> 0" "serial_out_bits ?d = 0"
    using wf(2) that by (simp add: cia_regs_ok_def)
  then have 2: "cia_wf (cia_serial_start_output (fst (cia_interrupt_raise (?e, irq) CIA_ICR_SP)),
      snd (cia_interrupt_raise (?e, irq) CIA_ICR_SP))"
    if "serial_out_busy ?c \<noteq> 0" "serial_out_bits ?d = 0"
    using that by (intro cia_wf_start_output) (simp only: prod.collapse, blast intro: cia_wf_raise)
  have "cia_serial_on_timer_a_underflow (cia, irq) =
    (if cra cia AND CIA_CRA_SPMODE = 0 then (cia, irq)
     else if serial_out_busy ?c = 0 then (?c, irq)
     else if serial_out_bits ?d \<noteq> 0 then (?d, irq)
     else (cia_serial_start_output (fst (cia_interrupt_raise (?e, irq) CIA_ICR_SP)),
           snd (cia_interrupt_raise (?e, irq) CIA_ICR_SP)))"
    by (simp add: Let_def split_beta del: cia_interrupt_raise.simps)
  then show ?thesis
    using Pair \<open>cia_wf s\<close> wf(1) 1 2 by (simp only: split: if_split) blast
qed

lemma cia_wf_underflow_output:
  "cia_wf (cia_timer_apply_underflow_output cia control uf, irq) = cia_wf (cia, irq)"
  by (simp add: cia_timer_apply_underflow_output_def Let_def)

lemma cia_wf_pb_outputs: "cia_wf (cia_timers_advance_pb_outputs cia, irq) = cia_wf (cia, irq)"
  by (simp add: cia_timers_advance_pb_outputs_def Let_def)

lemma cia_wf_raise': "cia_wf s \<Longrightarrow> cia_wf (cia_interrupt_raise s m)"
  by (cases s) (simp only: cia_wf_raise cia_wf_regs)

lemma cia_wf_a_underflowed: "cia_wf s \<Longrightarrow> cia_wf (cia_timer_a_underflowed s uf)"
proof -
  assume wf: "cia_wf s"
  let ?s = "cia_interrupt_raise s CIA_ICR_TA"
  let ?t = "(cia_timer_apply_underflow_output (fst ?s) (cra (fst ?s)) uf, snd ?s)"
  let ?u = "(cia_serial_on_timer_a_underflow ^^ nat uf) ?t"
  have "cia_wf ?t" using wf by (simp only: cia_wf_underflow_output prod.collapse cia_wf_raise')
  then have "cia_wf ?u"
    by (rule funpow_invariant) (rule cia_wf_timer_a_underflow)
  then show ?thesis using wf by (simp add: Let_def split_beta del: cia_interrupt_raise.simps)
qed

lemma cia_wf_b_underflowed: "cia_wf s \<Longrightarrow> cia_wf (cia_timer_b_underflowed s uf)"
  using cia_wf_raise' [of s CIA_ICR_TB]
  by (cases "cia_interrupt_raise s CIA_ICR_TB")
     (simp add: Let_def cia_wf_underflow_output del: cia_interrupt_raise.simps)

lemmas cia_wf_steps = cia_wf_a_underflowed cia_wf_b_underflowed

lemma cia_wf_timers_step: "cia_wf s \<Longrightarrow> cia_wf (cia_timers_step s ticks)"
  by (cases s) (simp add: Let_def split_beta cia_wf_b_underflowed cia_wf_a_underflowed
      del: cia_timer_a_underflowed.simps cia_timer_b_underflowed.simps)

lemma cia_wf_count_cnt: "cia_wf s \<Longrightarrow> cia_wf (cia_timers_count_cnt s pulses)"
  by (cases s) (simp add: Let_def split_beta cia_wf_b_underflowed cia_wf_a_underflowed
      del: cia_timer_a_underflowed.simps cia_timer_b_underflowed.simps)

lemma cia_wf_set_cnt_level: "cia_wf s \<Longrightarrow> cia_wf (cia_set_cnt_level s level)"
  by (cases s) (simp add: Let_def cia_wf_count_cnt cia_wf_cnt_rising
      del: cia_timers_count_cnt.simps cia_serial_on_cnt_rising.simps)

lemma cia_wf_set_flag_level: "cia_wf s \<Longrightarrow> cia_wf (cia_set_flag_level s level)"
  by (cases s) (simp add: Let_def cia_wf_raise' del: cia_interrupt_raise.simps)

lemma cia_wf_receive: "cia_wf s \<Longrightarrow> cia_wf (snd (cia_serial_receive_byte s v))"
  by (cases s) (simp add: cia_wf_raise' del: cia_interrupt_raise.simps)

lemma cia_wf_read_icr: "cia_wf s \<Longrightarrow> cia_wf (snd (cia_interrupt_read_icr s))"
  by (cases s) (simp add: Let_def cia_wf_sync del: cia_interrupt_sync_irq_line.simps,
      simp add: cia_wf_def cia_regs_ok_def)

lemma cia_wf_write_icr: "cia_wf s \<Longrightarrow> cia_wf (cia_interrupt_write_icr s v)"
proof (cases s)
  case (Pair cia irq)
  assume "cia_wf s"
  moreover have "(m AND NOT (v AND 0x1f)) AND 0xe0 = 0" if "m AND 0xe0 = 0" for m :: u8
    using that by (metis and.assoc and.commute and_zero_eq)
  ultimately show ?thesis
    using Pair by (simp add: cia_wf_sync del: cia_interrupt_sync_irq_line.simps)
       (simp add: cia_wf_def cia_regs_ok_def and_or_low5)
qed

lemma tod_inc_bound: "(w + 1) AND 0x00ffffff < (2 :: u32) ^ 24"
proof -
  have "unat ((w + 1) AND mask 24) < 2 ^ 24"
    using take_bit_nat_less_exp [of 24 "unat (w + 1)"]
    by (simp only: unsigned_take_bit_eq flip: take_bit_eq_mask)
  then show ?thesis by (simp add: word_less_nat_alt mask_eq_exp_minus_1)
qed

lemma cia_wf_tod_once: "cia_wf s \<Longrightarrow> cia_wf (cia_tod_increment_once s)"
proof (cases s)
  case (Pair cia irq)
  assume "cia_wf s"
  let ?c = "cia\<lparr>cia_tod := (cia_tod cia)\<lparr>tod_counter := (tod_counter (cia_tod cia) + 1) AND 0x00ffffff\<rparr>\<rparr>"
  from \<open>cia_wf s\<close> Pair have wf: "cia_wf (cia, irq)" by simp
  then have "cia_wf (?c, irq)"
    using tod_inc_bound [of "tod_counter (cia_tod cia)"]
    by (intro cia_wf_irq_frame [OF wf]) (simp_all add: cia_wf_def cia_regs_ok_def)
  then have "cia_wf (cia_interrupt_raise (?c, irq) CIA_ICR_ALRM)" "cia_wf (?c, irq)"
    by (simp_all only: cia_wf_raise')
  then show ?thesis
    unfolding Pair cia_tod_increment_once.simps Let_def cia_tod_raise_alarm_def
    by (simp only: split: if_split) simp
qed

lemma cia_wf_tod_frame:
  assumes "cia_wf (cia, irq)" and "tod_counter t < 2 ^ 24" "tod_alarm t < 2 ^ 24"
  shows "cia_wf (cia\<lparr>cia_tod := t\<rparr>, irq)"
  by (rule cia_wf_irq_frame [OF assms(1)])
     (use cia_wf_regs [OF assms(1)] assms(2,3) in \<open>simp_all add: cia_regs_ok_def\<close>)

lemma cia_wf_tod_bounds:
  "cia_wf (cia, irq) \<Longrightarrow> tod_counter (cia_tod cia) < 2 ^ 24 \<and> tod_alarm (cia_tod cia) < 2 ^ 24"
  by (simp add: cia_wf_def cia_regs_ok_def)

lemma cia_wf_tod_increment: "cia_wf s \<Longrightarrow> cia_wf (cia_tod_increment s n)"
  unfolding cia_tod_increment_def by (erule funpow_invariant) (rule cia_wf_tod_once)

lemma cia_wf_tod_step: "cia_wf s \<Longrightarrow> cia_wf (cia_tod_step s ticks)"
proof (cases s)
  case (Pair cia irq)
  assume "cia_wf s"
  with Pair have wf: "cia_wf (cia, irq)" by simp
  then have "cia_wf (cia\<lparr>cia_tod := (cia_tod cia)\<lparr>tod_subticks := x\<rparr>\<rparr>, irq)" for x
    using cia_wf_tod_bounds by (intro cia_wf_tod_frame) auto
  then show ?thesis
    using Pair wf by (simp add: Let_def cia_wf_tod_increment)
qed

lemma cia_wf_tod_read: "cia_wf (cia, irq) \<Longrightarrow> cia_wf (snd (cia_tod_read cia reg), irq)"
  using cia_wf_tod_bounds by (auto simp: cia_tod_read_def Let_def intro!: cia_wf_tod_frame)

text \<open>Replacing one byte of a 24-bit value keeps it a 24-bit value.\<close>

lemma lt_2p24_iff: "w < 2 ^ 24 \<longleftrightarrow> (\<forall>n \<ge> 24. \<not> bit w n)" for w :: u32
proof -
  have "w < 2 ^ 24 \<longleftrightarrow> take_bit 24 w = w"
    by (simp add: word_less_nat_alt word_eq_iff_unsigned [where ?'a = nat] unsigned_take_bit_eq
        take_bit_nat_eq_self_iff)
  also have "\<dots> \<longleftrightarrow> (\<forall>n \<ge> 24. \<not> bit w n)"
    using bit_imp_le_length [of w] by (simp add: bit_eq_iff bit_simps) (metis not_le)
  finally show ?thesis .
qed

lemma tod_byte_bounds:
  assumes "w < (2 :: u32) ^ 24"
  shows "(w AND 0xffff00) OR ucast (v :: u8) < 2 ^ 24"
    "(w AND 0xff00ff) OR push_bit 8 (ucast v) < 2 ^ 24"
    "(w AND 0x00ffff) OR push_bit 16 (ucast v) < 2 ^ 24"
  using assms unfolding lt_2p24_iff
  by (auto simp: bit_simps dest: bit_imp_le_length)

lemma cia_wf_tod_write: "cia_wf (cia, irq) \<Longrightarrow> cia_wf (cia_tod_write cia reg v, irq)"
  using cia_wf_tod_bounds [of cia irq] unfolding cia_tod_write_def Let_def
  by (intro cia_wf_tod_frame) (auto simp: tod_byte_bounds simp del: power_numeral)

lemma cia_wf_reset: "cia_wf (cia_reset s)"
proof (cases s)
  case (Pair cia irq)
  show ?thesis
    unfolding Pair cia_reset.simps Let_def cia_wf_sync
    by (simp add: cia_regs_ok_def cia_ports_apply_defaults_def cia_reset_core_state_def
        cia_ports_reset_def cia_serial_reset_def cia_interrupt_reset_def cia_timers_reset_def
        cia_tod_reset_def split: CIA_ID.split)
qed

lemma cia_wf_attach: "cia_wf s \<Longrightarrow> cia_wf (cia_attach_paula s attached)"
  by (cases s) (simp add: cia_wf_sync del: cia_interrupt_sync_irq_line.simps,
      simp add: cia_wf_def cia_regs_ok_def)

lemma cia_wf_ports_write:
  "cia_wf (cia, irq) \<Longrightarrow> cia_ports_write_reg cia reg v = Some cia' \<Longrightarrow> cia_wf (cia', irq)"
  by (auto simp: cia_ports_write_reg_def Let_def split: if_splits)

lemma cia_wf_timers_write:
  "cia_wf (cia, irq) \<Longrightarrow> cia_timers_write_reg cia reg v = Some cia' \<Longrightarrow> cia_wf (cia', irq)"
  by (auto simp: cia_timers_write_reg_def Let_def split: if_splits)

lemma cia_wf_write_sdr: "cia_wf (cia, irq) \<Longrightarrow> cia_wf (cia_serial_write_sdr cia v, irq)"
  by (simp add: cia_serial_write_sdr_def Let_def cia_wf_start_output)

lemma cia_wf_step: "cia_wf s \<Longrightarrow> cia_wf (cia_step s ticks)"
  by (cases s) (simp add: cia_wf_tod_step cia_wf_timers_step cia_wf_pb_outputs
      del: cia_tod_step.simps cia_timers_step.simps)

lemma cia_wf_read_reg: "cia_wf s \<Longrightarrow> cia_wf (snd (cia_read_reg s reg))"
  by (cases s) (simp add: Let_def split_beta cia_wf_tod_read cia_wf_read_icr
      del: cia_interrupt_read_icr.simps split: option.split)

lemma cia_wf_write_reg: "cia_wf s \<Longrightarrow> cia_wf (cia_write_reg s reg v)"
proof (cases s)
  case (Pair cia irq)
  assume "cia_wf s"
  then have "cia_wf (cia, irq)" using Pair by simp
  then have "cia_wf (case cia_ports_write_reg cia reg v of None \<Rightarrow> (cia, irq) | Some c \<Rightarrow> (c, irq))"
    "cia_wf (case cia_timers_write_reg cia reg v of None \<Rightarrow> (cia, irq) | Some c \<Rightarrow> (c, irq))"
    "cia_wf (cia_tod_write cia (reg AND 0x0f) v, irq)"
    "cia_wf (cia_interrupt_write_icr (cia, irq) v)" "cia_wf (cia_serial_write_sdr cia v, irq)"
    by (auto simp del: cia_interrupt_write_icr.simps split: option.split
        intro: cia_wf_ports_write cia_wf_timers_write cia_wf_tod_write cia_wf_write_icr
          cia_wf_write_sdr)
  then show ?thesis
    unfolding Pair cia_write_reg.simps Let_def using \<open>cia_wf (cia, irq)\<close>
    by (simp only: split: if_split) simp
qed

lemma cia_wf_pins:
  "cia_wf (cia_set_sp_level cia l, irq) = cia_wf (cia, irq)"
  "cia_wf (cia_set_external_pra cia v, irq) = cia_wf (cia, irq)"
  "cia_wf (cia_set_external_prb cia v, irq) = cia_wf (cia, irq)"
  by (simp_all add: cia_set_sp_level_def cia_serial_set_sp_input_def cia_set_external_pra_def
      cia_set_external_prb_def)

lemma cia_wf_op: "cia_op s s' \<Longrightarrow> cia_wf s \<Longrightarrow> cia_wf s'"
  by (induction rule: cia_op.induct)
     (simp_all only: cia_wf_reset cia_wf_attach cia_wf_step cia_wf_read_reg
      cia_wf_write_reg cia_wf_receive cia_receive_sdr_def cia_tod_pulse_def cia_pulse_cnt_def
      cia_wf_count_cnt cia_wf_set_cnt_level cia_wf_set_flag_level cia_wf_tod_increment
      cia_wf_pins split: if_split, simp)

lemma cia_wf_reachable: "cia_op\<^sup>*\<^sup>* s s' \<Longrightarrow> cia_wf s \<Longrightarrow> cia_wf s'"
  by (induction rule: rtranclp_induct) (auto intro: cia_wf_op)

text \<open>
  C16: After \<^verbatim>\<open>cia_init\<close>, whatever sequence of register accesses, clock steps, pulses
  and pin changes follows, once a Paula is attached the flag \<open>irq_asserted\<close> and the CIA's
  request bit in INTREQ both equal "some unmasked interrupt source is pending"; the ICR
  only ever holds the five sources, the serial counters stay within a byte, the output
  shifter is busy exactly while bits remain, and the time of day stays below
  \<^verbatim>\<open>2^24\<close>.
\<close>

theorem cia_reachable_wf:
  assumes "cia_op\<^sup>*\<^sup>* (cia_init irq0 i) (cia, irq)"
  shows "(cia_paula cia \<longrightarrow>
       (irq_asserted cia = 1 \<longleftrightarrow> icr_data cia AND icr_mask cia \<noteq> 0) \<and>
       (\<forall>n < 15. bit (paula_irq_bit cia) n \<longrightarrow>
          bit (intreq irq) n = (icr_data cia AND icr_mask cia \<noteq> 0))) \<and>
     icr_data cia AND 0xe0 = 0 \<and> serial_in_bits cia < 8 \<and> serial_out_bits cia \<le> 8 \<and>
     (serial_out_busy cia \<noteq> 0 \<longleftrightarrow> serial_out_bits cia \<noteq> 0) \<and>
     tod_counter (cia_tod cia) < 2 ^ 24"
proof -
  have "cia_wf (cia_init irq0 i)" by (simp only: cia_init_def cia_wf_reset)
  from cia_wf_reachable [OF assms this] show ?thesis by (simp add: cia_wf_defs)
qed

theorem cia_reachable_wf_witness:
  "let irq0 = \<lparr>intena = 0, intreq = 0, ipl = 0\<rparr>;
       (cia, irq) = cia_set_flag_level
         (cia_write_reg (cia_attach_paula (cia_init irq0 CIA_PORT_B) True) CIA_REG_ICR 0x90) 0
   in irq_asserted cia = 1 \<and> bit (intreq irq) 13"
proof -
  let ?irq = "\<lparr>intena = 0, intreq = 0, ipl = 0\<rparr> :: RigelInterruptDomain"
  let ?s0 = "cia_init ?irq CIA_PORT_B"
  let ?s2 = "cia_write_reg (cia_attach_paula ?s0 True) CIA_REG_ICR 0x90"
  let ?s3 = "cia_set_flag_level ?s2 0"
  have "cia_op\<^sup>*\<^sup>* ?s0 (fst ?s3, snd ?s3)"
    unfolding prod.collapse
    by (meson cia_op.intros rtranclp.rtrancl_into_rtrancl rtranclp.rtrancl_refl)
  from cia_reachable_wf [OF this]
  have "cia_paula (fst ?s3) \<longrightarrow>
       (irq_asserted (fst ?s3) = 1 \<longleftrightarrow> icr_data (fst ?s3) AND icr_mask (fst ?s3) \<noteq> 0) \<and>
       (\<forall>n < 15. bit (paula_irq_bit (fst ?s3)) n \<longrightarrow>
          bit (intreq (snd ?s3)) n = (icr_data (fst ?s3) AND icr_mask (fst ?s3) \<noteq> 0))"
    by blast
  moreover have "cia_paula (fst ?s3) \<and> icr_data (fst ?s3) AND icr_mask (fst ?s3) \<noteq> 0 \<and>
      bit (paula_irq_bit (fst ?s3)) 13"
    by code_simp
  ultimately show ?thesis by (simp add: Let_def split_beta)
qed

end
