(* ===== verification/Cia_Behaviour.thy ===== *)
theory Cia_Behaviour
  imports Cia
begin

text \<open>
  Functional behaviour of the CIA's time-of-day counter and serial port, on top of the
  model of \<^verbatim>\<open>Cia\<close>: what a run of pulses does to the counter and the alarm, that the
  three-byte read of the counter is atomic, and which byte the shift registers receive
  and send.
\<close>

unbundle bit_operations_syntax

section \<open>Time-of-day pulses\<close>

lemma raise_fields [simp]:
  "cia_tod (fst (cia_interrupt_raise s m)) = cia_tod (fst s)"
  "icr_data (fst (cia_interrupt_raise s m)) = icr_data (fst s) OR (m AND 0x1f)"
  "serial_out_buffer_full (fst (cia_interrupt_raise s m)) = serial_out_buffer_full (fst s)"
  "serial_out_busy (fst (cia_interrupt_raise s m)) = serial_out_busy (fst s)"
  "serial_out_bits (fst (cia_interrupt_raise s m)) = serial_out_bits (fst s)"
  "sp_output_level (fst (cia_interrupt_raise s m)) = sp_output_level (fst s)"
  "serial_in_bits (fst (cia_interrupt_raise s m)) = serial_in_bits (fst s)"
  "sdr (fst (cia_interrupt_raise s m)) = sdr (fst s)"
  "sdr_full (fst (cia_interrupt_raise s m)) = sdr_full (fst s)"
  "cra (fst (cia_interrupt_raise s m)) = cra (fst s)"
  by (cases s; simp)+

lemma tod_counter_succ:
  assumes "w < (2 :: u32) ^ 24"
  shows "unat ((w + 1) AND 0xffffff) = (unat w + 1) mod 2 ^ 24"
proof -
  have "(0xffffff :: u32) = mask 24" by (simp add: mask_eq_exp_minus_1)
  then have "unat ((w + 1) AND 0xffffff) = unat (w + 1) mod 2 ^ 24"
    by (simp only: unsigned_take_bit_eq flip: take_bit_eq_mask) (simp only: take_bit_eq_mod)
  moreover have "unat (w + 1) = unat w + 1"
    using assms by (simp add: word_less_nat_alt unat_word_ariths)
  ultimately show ?thesis by simp
qed

lemma tod_once_fields:
  fixes s :: cia_sys
  defines "t \<equiv> cia_tod (fst s)" and "t' \<equiv> cia_tod (fst (cia_tod_increment_once s))"
  shows "t' = t\<lparr>tod_counter := (tod_counter t + 1) AND 0xffffff\<rparr>"
    and "icr_data (fst (cia_tod_increment_once s)) =
      (if tod_counter t' = tod_alarm t then icr_data (fst s) OR CIA_ICR_ALRM else icr_data (fst s))"
proof -
  obtain cia irq where s: "s = (cia, irq)" by (cases s)
  show 1: "t' = t\<lparr>tod_counter := (tod_counter t + 1) AND 0xffffff\<rparr>"
    by (simp only: t_def t'_def s cia_tod_increment_once.simps Let_def cia_tod_raise_alarm_def
        raise_fields fst_conv CIA_State.simps if_distrib [of fst] if_distrib [of cia_tod] if_cancel) simp
  show "icr_data (fst (cia_tod_increment_once s)) =
      (if tod_counter t' = tod_alarm t then icr_data (fst s) OR CIA_ICR_ALRM else icr_data (fst s))"
    unfolding 1 by (simp add: t_def s Let_def cia_tod_raise_alarm_def del: cia_interrupt_raise.simps)
qed

definition tod_of :: "cia_sys \<Rightarrow> CIA_TOD_State" where
  "tod_of s = cia_tod (fst s)"

lemma tod_iterate:
  fixes n :: nat
  assumes "tod_counter (tod_of s) < 2 ^ 24" and "tod_alarm (tod_of s) < 2 ^ 24"
  defines "s' \<equiv> (cia_tod_increment_once ^^ n) s"
  shows "tod_of s' = (tod_of s)\<lparr>tod_counter := word_of_nat ((unat (tod_counter (tod_of s)) + n) mod 2 ^ 24)\<rparr>
    \<and> (bit (icr_data (fst s')) 2 \<longleftrightarrow> bit (icr_data (fst s)) 2 \<or>
       (\<exists>k \<in> {1..n}. (unat (tod_counter (tod_of s)) + k) mod 2 ^ 24 = unat (tod_alarm (tod_of s))))"
  unfolding s'_def
proof (induction n)
  case 0
  have "unat (tod_counter (tod_of s)) mod 2 ^ 24 = unat (tod_counter (tod_of s))"
    using assms(1) by (simp add: word_less_nat_alt)
  then show ?case by simp
next
  case (Suc n)
  let ?c = "unat (tod_counter (tod_of s))" and ?t = "tod_of ((cia_tod_increment_once ^^ n) s)"
  have u: "unat (word_of_nat (m mod 2 ^ 24) :: u32) = m mod 2 ^ 24" for m :: nat
    by (simp add: unat_of_nat)
  have c: "tod_counter ?t = word_of_nat ((?c + n) mod 2 ^ 24)" using Suc.IH by simp
  then have "tod_counter ?t < 2 ^ 24" by (simp only: word_less_nat_alt u) simp
  from tod_counter_succ [OF this]
  have "unat ((tod_counter ?t + 1) AND 0xffffff) = (?c + Suc n) mod 2 ^ 24"
    by (simp only: c u) (simp add: mod_Suc_eq)
  then have w: "(tod_counter ?t + 1) AND 0xffffff = word_of_nat ((?c + Suc n) mod 2 ^ 24)"
    by (metis word_of_nat_unat)
  note step = tod_once_fields [of "(cia_tod_increment_once ^^ n) s", folded tod_of_def]
  have "word_of_nat ((?c + Suc n) mod 2 ^ 24) = tod_alarm (tod_of s) \<longleftrightarrow>
      (?c + Suc n) mod 2 ^ 24 = unat (tod_alarm (tod_of s))"
    by (metis u word_of_nat_unat)
  then show ?case
    using Suc.IH step w
    by (auto simp: bit_simps atLeastAtMostSuc_conv simp del: cia_tod_increment_once.simps)
qed

lemma tod_of_pulse:
  assumes "tod_counter (tod_of s) < 2 ^ 24" and "tod_alarm (tod_of s) < 2 ^ 24"
  shows "tod_of (cia_tod_pulse s p) = (tod_of s)\<lparr>tod_counter :=
    word_of_nat ((unat (tod_counter (tod_of s)) + unat p) mod 2 ^ 24)\<rparr>"
  using tod_iterate [OF assms, of "unat p"] tod_iterate [OF assms, of 0]
  by (cases "p = 0") (simp_all add: cia_tod_pulse_def cia_tod_increment_def)

text \<open>
  C17: A burst of \<open>p\<close> pulses on the time-of-day input advances the 24-bit counter by \<open>p\<close>
  modulo \<^verbatim>\<open>2^24\<close> and sets the alarm interrupt bit exactly when one of the values
  passed on the way is the alarm value.
\<close>

theorem tod_pulse_correct:
  assumes "tod_counter (cia_tod cia) < 2 ^ 24" and "tod_alarm (cia_tod cia) < 2 ^ 24"
  shows "let c = unat (tod_counter (cia_tod cia)); (cia', irq') = cia_tod_pulse (cia, irq) p
    in unat (tod_counter (cia_tod cia')) = (c + unat p) mod 2 ^ 24 \<and>
       (bit (icr_data cia') 2 \<longleftrightarrow> bit (icr_data cia) 2 \<or>
          (\<exists>k \<in> {1..unat p}. (c + k) mod 2 ^ 24 = unat (tod_alarm (cia_tod cia))))"
proof -
  have "bit (icr_data (fst (cia_tod_pulse (cia, irq) p))) 2 \<longleftrightarrow> bit (icr_data cia) 2 \<or>
      (\<exists>k \<in> {1..unat p}. (unat (tod_counter (cia_tod cia)) + k) mod 2 ^ 24 =
         unat (tod_alarm (cia_tod cia)))"
    using tod_iterate [of "(cia, irq)" "unat p"] assms
    by (cases "p = 0") (simp_all add: cia_tod_pulse_def cia_tod_increment_def tod_of_def)
  moreover have "unat (tod_counter (tod_of (cia_tod_pulse (cia, irq) p))) =
      (unat (tod_counter (cia_tod cia)) + unat p) mod 2 ^ 24"
    by (subst tod_of_pulse) (use assms in \<open>simp_all add: tod_of_def unat_of_nat\<close>)
  ultimately show ?thesis by (simp add: Let_def split_beta tod_of_def)
qed

theorem tod_pulse_correct_witness:
  "let c = cia_zero\<lparr>cia_tod := (cia_tod cia_zero)\<lparr>tod_counter := 0xfffffe, tod_alarm := 1\<rparr>\<rparr>;
       (cia', irq') = cia_tod_pulse (c, \<lparr>intena = 0, intreq = 0, ipl = 0\<rparr>) 4
   in unat (tod_counter (cia_tod cia')) = 2 \<and> bit (icr_data cia') 2"
proof -
  let ?c = "cia_zero\<lparr>cia_tod := (cia_tod cia_zero)\<lparr>tod_counter := 0xfffffe, tod_alarm := 1\<rparr>\<rparr>"
  have "\<exists>k \<in> {1..unat (4 :: u32)}. (0xfffffe + k) mod 2 ^ 24 = (1 :: nat)"
    by (rule bexI [of _ 3]) simp_all
  then show ?thesis
    using tod_pulse_correct [of ?c "\<lparr>intena = 0, intreq = 0, ipl = 0\<rparr>" 4]
    by (simp add: Let_def split_beta)
qed

section \<open>Reading the time of day\<close>

lemma tod_bytes:
  assumes "w < (2 :: u32) ^ 24"
  shows "unat (cia_tod_hi w) * 65536 + unat (cia_tod_mid w) * 256 + unat (cia_tod_lo w) = unat w"
proof -
  have b: "unat (ucast (v AND 0xff :: u32) :: u8) = unat v mod 256" for v :: u32
  proof -
    have "(ucast (v AND 0xff :: u32) :: u8) = ucast v"
      by (rule bit_word_eqI) (simp add: bit_simps)
    then show ?thesis by (simp add: unsigned_ucast_eq unsigned_take_bit_eq take_bit_eq_mod)
  qed
  have bytes: "n div 65536 * 65536 + n div 256 mod 256 * 256 + n mod 256 = n" for n :: nat
  proof -
    have "n div 65536 = n div 256 div 256" using div_mult2_eq [of n 256 256] by simp
    then show ?thesis
      using div_mult_mod_eq [of "n div 256" 256] div_mult_mod_eq [of n 256] by linarith
  qed
  have "unat w < 2 ^ 24" using assms by (simp add: word_less_nat_alt)
  then show ?thesis
    by (simp add: cia_tod_hi_def cia_tod_mid_def cia_tod_lo_def b drop_bit_eq_div
        unat_div bytes)
qed

lemma tod_read_hi:
  "fst (cia_read_reg s CIA_REG_TODHI) = cia_tod_hi (tod_counter (tod_of s))"
  "tod_of (snd (cia_read_reg s CIA_REG_TODHI)) =
     (tod_of s)\<lparr>tod_latch := tod_counter (tod_of s), tod_latched := True\<rparr>"
  by (cases s, simp add: cia_tod_read_def tod_of_def Let_def)
     (cases s, simp add: cia_tod_read_def tod_of_def Let_def)

lemma tod_read_mid:
  "tod_latched (tod_of s) \<Longrightarrow>
     cia_read_reg s CIA_REG_TODMID = (cia_tod_mid (tod_latch (tod_of s)), s)"
  by (cases s) (simp add: cia_tod_read_def tod_of_def)

lemma tod_read_lo:
  assumes "tod_latched (tod_of s)"
  shows "fst (cia_read_reg s CIA_REG_TODLO) = cia_tod_lo (tod_latch (tod_of s))"
    and "tod_of (snd (cia_read_reg s CIA_REG_TODLO)) = (tod_of s)\<lparr>tod_latched := False\<rparr>"
  using assms
  by (cases s, simp add: cia_tod_read_def tod_of_def Let_def)
     (use assms in \<open>cases s, simp add: cia_tod_read_def tod_of_def Let_def\<close>)

text \<open>
  C18: Reading TODHI, TODMID and TODLO in that order yields the three bytes of one and the
  same counter value, the one at the time of the first read, whatever number of pulses
  arrives between the reads; the last read releases the latch.
\<close>

theorem tod_read_atomic:
  assumes "tod_counter (cia_tod cia) < 2 ^ 24" and "tod_alarm (cia_tod cia) < 2 ^ 24"
  shows "let (h, s1) = cia_read_reg (cia, irq) CIA_REG_TODHI;
             (m, s2) = cia_read_reg (cia_tod_pulse s1 p) CIA_REG_TODMID;
             (l, s3) = cia_read_reg (cia_tod_pulse s2 q) CIA_REG_TODLO
         in unat h * 65536 + unat m * 256 + unat l = unat (tod_counter (cia_tod cia)) \<and>
            \<not> tod_latched (cia_tod (fst s3)) \<and>
            unat (tod_counter (cia_tod (fst s3))) =
              (unat (tod_counter (cia_tod cia)) + unat p + unat q) mod 2 ^ 24"
proof -
  let ?c = "tod_counter (cia_tod cia)"
  let ?t1 = "(cia_tod cia)\<lparr>tod_latch := ?c, tod_latched := True\<rparr>"
  obtain h s1 where r1: "cia_read_reg (cia, irq) CIA_REG_TODHI = (h, s1)"
    and h: "h = cia_tod_hi ?c" and t1: "tod_of s1 = ?t1"
    using tod_read_hi [of "(cia, irq)"] unfolding tod_of_def fst_conv by (metis prod.collapse)
  define s1' where "s1' = cia_tod_pulse s1 p"
  have t1': "tod_of s1' = ?t1\<lparr>tod_counter := word_of_nat ((unat ?c + unat p) mod 2 ^ 24)\<rparr>"
    using tod_of_pulse [of s1 p] assms by (simp add: t1 s1'_def)
  then obtain m where r2: "cia_read_reg s1' CIA_REG_TODMID = (m, s1')" and m: "m = cia_tod_mid ?c"
    using tod_read_mid [of s1'] by simp
  define s2' where "s2' = cia_tod_pulse s1' q"
  have u: "unat (word_of_nat (k mod 2 ^ 24) :: u32) = k mod 2 ^ 24" for k :: nat
    by (simp add: unat_of_nat)
  have b: "word_of_nat ((unat ?c + unat p) mod 2 ^ 24) < (2 :: u32) ^ 24"
    by (simp only: word_less_nat_alt u) simp
  have t2': "tod_of s2' = ?t1\<lparr>tod_counter :=
      word_of_nat ((unat ?c + unat p + unat q) mod 2 ^ 24)\<rparr>"
    using tod_of_pulse [of s1' q] b assms(2) u [of "unat ?c + unat p"]
    by (simp add: t1' s2'_def mod_add_left_eq)
  have "tod_latched (tod_of s2')" "tod_latch (tod_of s2') = ?c" by (simp_all add: t2')
  then obtain l s3 where r3: "cia_read_reg s2' CIA_REG_TODLO = (l, s3)"
    and l: "l = cia_tod_lo ?c" and t3: "tod_of s3 = (tod_of s2')\<lparr>tod_latched := False\<rparr>"
    using tod_read_lo [of s2'] by (metis prod.collapse)
  have "unat (tod_counter (tod_of s3)) = (unat ?c + unat p + unat q) mod 2 ^ 24"
    "\<not> tod_latched (tod_of s3)"
    using u [of "unat ?c + unat p + unat q"] by (simp_all add: t3 t2')
  then show ?thesis
    using tod_bytes [OF assms(1)]
    by (simp only: Let_def split r1 r2 r3 s1'_def [symmetric] s2'_def [symmetric] h m l
        tod_of_def simp_thms)
qed

theorem tod_read_atomic_witness:
  "let c = cia_zero\<lparr>cia_tod := (cia_tod cia_zero)\<lparr>tod_counter := 0x12ffff\<rparr>\<rparr>;
       (h, s1) = cia_read_reg (c, \<lparr>intena = 0, intreq = 0, ipl = 0\<rparr>) CIA_REG_TODHI;
       (m, s2) = cia_read_reg (cia_tod_pulse s1 1) CIA_REG_TODMID;
       (l, s3) = cia_read_reg (cia_tod_pulse s2 0) CIA_REG_TODLO
   in unat h * 65536 + unat m * 256 + unat l = 0x12ffff"
  using tod_read_atomic [of "cia_zero\<lparr>cia_tod := (cia_tod cia_zero)\<lparr>tod_counter := 0x12ffff\<rparr>\<rparr>"
      "\<lparr>intena = 0, intreq = 0, ipl = 0\<rparr>" 1 0]
  by (simp only: Let_def split_beta cia_zero_def CIA_State.simps CIA_TOD_State.simps) simp

section \<open>Serial input\<close>

text \<open>One bit from a peripheral: the SP pin is set, then CNT rises.\<close>

fun clock_in :: "bool \<Rightarrow> cia_sys \<Rightarrow> cia_sys" where
  "clock_in b (cia, irq) =
     cia_serial_on_cnt_rising (cia_serial_set_sp_input cia (if b then 1 else 0), irq)"

definition shift_in :: "bool \<Rightarrow> u8 \<Rightarrow> u8" where
  "shift_in b w = push_bit 1 w OR (if b then 1 else 0)"

definition input_ready :: "CIA_State \<Rightarrow> bool" where
  "input_ready cia \<longleftrightarrow> serial_out_busy cia = 0 \<and> serial_out_buffer_full cia = 0"

lemma clock_in_shift:
  assumes "input_ready cia" and "unat (serial_in_bits cia) < 7"
  shows "\<exists>cia'. clock_in b (cia, irq) = (cia', irq) \<and> input_ready cia' \<and>
    serial_in_shift cia' = shift_in b (serial_in_shift cia) \<and>
    unat (serial_in_bits cia') = Suc (unat (serial_in_bits cia))"
proof -
  have "serial_in_bits cia + 1 < 8" "unat (serial_in_bits cia + 1) = Suc (unat (serial_in_bits cia))"
    using assms(2) unat_inc [of "serial_in_bits cia"] by (simp_all add: word_less_nat_alt)
  then show ?thesis
    using assms(1) by (simp add: input_ready_def cia_serial_set_sp_input_def Let_def shift_in_def
        del: cia_interrupt_raise.simps)
qed

lemma clock_in_last:
  assumes "input_ready cia" and "unat (serial_in_bits cia) = 7"
  shows "let cia' = fst (clock_in b (cia, irq))
    in sdr cia' = shift_in b (serial_in_shift cia) \<and> sdr_full cia' = 1 \<and>
       serial_in_bits cia' = 0 \<and> bit (icr_data cia') 3"
proof -
  have "\<not> serial_in_bits cia + 1 < 8" 
    using assms(2) unat_inc [of "serial_in_bits cia"] by (simp add: word_less_nat_alt)
  then show ?thesis
    using assms(1)
    by (simp add: input_ready_def cia_serial_set_sp_input_def Let_def bit_simps shift_in_def
        del: cia_interrupt_raise.simps)
qed

declare clock_in.simps [simp del]

lemma clock_in_run:
  assumes "input_ready cia" and "unat (serial_in_bits cia) + length bs \<le> 7"
  shows "\<exists>cia'. fold clock_in bs (cia, irq) = (cia', irq) \<and> input_ready cia' \<and>
    serial_in_shift cia' = fold shift_in bs (serial_in_shift cia) \<and>
    unat (serial_in_bits cia') = unat (serial_in_bits cia) + length bs"
  using assms
proof (induction bs arbitrary: cia)
  case (Cons b bs)
  from Cons.prems have "unat (serial_in_bits cia) < 7" by simp
  from clock_in_shift [OF Cons.prems(1) this, of b irq] obtain cia1 where 1:
    "clock_in b (cia, irq) = (cia1, irq)" "input_ready cia1"
    "serial_in_shift cia1 = shift_in b (serial_in_shift cia)"
    "unat (serial_in_bits cia1) = Suc (unat (serial_in_bits cia))" by blast
  then have "unat (serial_in_bits cia1) + length bs \<le> 7" using Cons.prems(2) by simp
  from Cons.IH [OF 1(2) this] 1 show ?case by simp
qed simp

definition msb_first :: "u8 \<Rightarrow> bool list" where
  "msb_first v = map (bit v) [7, 6, 5, 4, 3, 2, 1, 0]"

lemma bit_shift_in: "n < 8 \<Longrightarrow> bit (shift_in b w) n = (if n = 0 then b else bit w (n - 1))"
  by (simp only: shift_in_def bit_or_iff bit_push_bit_iff)
     (auto simp: bit_simps not_less_eq_eq)

lemma bit_fold_shift_in:
  "n < 8 \<Longrightarrow> bit (fold shift_in bs w) n =
     (if n < length bs then rev bs ! n else bit w (n - length bs))"
proof (induction bs arbitrary: n rule: rev_induct)
  case (snoc b bs)
  then show ?case by (cases n) (simp_all add: bit_shift_in)
qed simp

lemma shift_in_msb_first: "fold shift_in (msb_first v) w = v"
proof (rule bit_word_eqI)
  fix n assume "n < LENGTH(8)"
  then have "n < 8" by simp
  moreover have "rev (msb_first v) = map (bit v) [0..<8]"
    by (simp add: msb_first_def eval_nat_numeral)
  moreover have "length (msb_first v) = 8" by (simp add: msb_first_def)
  ultimately show "bit (fold shift_in (msb_first v) w) n = bit v n"
    by (simp add: bit_fold_shift_in)
qed

text \<open>
  When the output shifter is idle, eight rising CNT edges that present the bits of a
  byte on SP, most significant bit first, deliver exactly that byte in the serial data
  register, mark it full, raise the SP interrupt source and leave the input bit counter at
  zero for the next byte, whatever the shift register held before.
\<close>

theorem serial_in_byte:
  assumes "serial_out_busy cia = 0" and "serial_out_buffer_full cia = 0"
    and "serial_in_bits cia = 0"
  shows "let (cia', irq') = fold clock_in (msb_first v) (cia, irq)
    in sdr cia' = v \<and> sdr_full cia' = 1 \<and> serial_in_bits cia' = 0 \<and> bit (icr_data cia') 3"
proof -
  let ?bs = "map (bit v) [7, 6, 5, 4, 3, 2, 1]"
  have split: "msb_first v = ?bs @ [bit v 0]" by (simp add: msb_first_def)
  have "input_ready cia" "unat (serial_in_bits cia) + length ?bs \<le> 7"
    using assms by (simp_all add: input_ready_def)
  from clock_in_run [OF this, of irq] obtain cia1 where 1:
    "fold clock_in ?bs (cia, irq) = (cia1, irq)" "input_ready cia1"
    "serial_in_shift cia1 = fold shift_in ?bs (serial_in_shift cia)"
    "unat (serial_in_bits cia1) = 7"
    using assms(3) by auto
  have "shift_in (bit v 0) (serial_in_shift cia1) = v"
    using shift_in_msb_first [of v "serial_in_shift cia"] unfolding split 1(3) fold_append
    by (simp only: fold_simps comp_apply)
  then have v: "shift_in (bit v 0) (serial_in_shift cia1) = v" by simp
  show ?thesis
    using clock_in_last [OF 1(2,4), of "bit v 0" irq]
    by (simp only: split fold_append comp_apply 1(1) fold_simps Let_def v split_beta simp_thms)
qed

theorem serial_in_byte_witness:
  "let (cia', irq') = fold clock_in (msb_first 0xa5)
         (cia_zero, \<lparr>intena = 0, intreq = 0, ipl = 0\<rparr>)
   in sdr cia' = 0xa5 \<and> sdr_full cia' = 1 \<and> serial_in_bits cia' = 0 \<and> bit (icr_data cia') 3"
  by (rule serial_in_byte) (simp_all add: cia_zero_def)

section \<open>Serial output\<close>

definition output_at :: "u8 \<Rightarrow> nat \<Rightarrow> CIA_State \<Rightarrow> bool" where
  "output_at v k cia \<longleftrightarrow> cra cia AND CIA_CRA_SPMODE \<noteq> 0 \<and> serial_out_busy cia = 1 \<and>
     unat (serial_out_bits cia) = 8 - k \<and> serial_out_shift cia = push_bit k v \<and>
     serial_out_buffer_full cia = 0"

lemma shift_out_step:
  assumes "output_at v k cia" and "k < 7"
  shows "\<exists>cia'. cia_serial_on_timer_a_underflow (cia, irq) = (cia', irq) \<and>
    output_at v (Suc k) cia' \<and> sp_output_level cia' = (if bit v (7 - k) then 1 else 0)"
proof -
  have b: "drop_bit 7 (push_bit k v) AND 1 = (if bit v (7 - k) then 1 else 0)"
    using assms(2) by (simp add: and_one_eq mod2_eq_if even_drop_bit_iff_not_bit bit_push_bit_iff)
  have "unat (serial_out_bits cia) = 8 - k" using assms(1) by (simp add: output_at_def)
  then have "serial_out_bits cia \<noteq> 1" "unat (serial_out_bits cia - 1) = 7 - k"
    using assms(2) unat_dec [of "serial_out_bits cia"] by (auto simp: unat_1)
  moreover have "push_bit 1 (push_bit k v) = push_bit (Suc k) v"
    by (simp only: push_bit_push_bit) simp
  ultimately show ?thesis
    using assms(1) by (simp add: output_at_def cia_serial_start_output_def b Let_def
        del: cia_interrupt_raise.simps push_bit_Suc)
qed

lemma shift_out_run:
  assumes "output_at v 0 cia" and "k \<le> 7"
  shows "\<exists>cia'. (cia_serial_on_timer_a_underflow ^^ k) (cia, irq) = (cia', irq) \<and>
    output_at v k cia' \<and> (0 < k \<longrightarrow> sp_output_level cia' = (if bit v (8 - k) then 1 else 0))"
  using assms(2)
proof (induction k)
  case 0
  then show ?case using assms(1) by simp
next
  case (Suc k)
  then obtain c1 where 1: "(cia_serial_on_timer_a_underflow ^^ k) (cia, irq) = (c1, irq)"
    "output_at v k c1" by auto
  from Suc.prems have "k < 7" by simp
  from shift_out_step [OF 1(2) this, of irq] 1(1) show ?case
    by (auto simp del: cia_serial_on_timer_a_underflow.simps)
qed

lemma shift_out_last:
  assumes "output_at v 7 cia"
  shows "let cia' = fst (cia_serial_on_timer_a_underflow (cia, irq))
    in serial_out_busy cia' = 0 \<and> sp_output_level cia' = 1 \<and> bit (icr_data cia') 3"
proof -
  have "unat (serial_out_bits cia) = 1" using assms by (simp add: output_at_def)
  then have "serial_out_bits cia = 1" by (metis unat_1 word_unat_eq_iff)
  then show ?thesis
    using assms by (simp add: output_at_def cia_serial_start_output_def Let_def split_beta bit_simps
        del: cia_interrupt_raise.simps)
qed

text \<open>
  C19: In serial output mode with an idle shifter, a byte written to the serial data
  register appears on SP one bit per timer A underflow, most significant bit first, for
  the first seven underflows.  The eighth underflow raises the SP interrupt source and
  frees the shifter; in the same call it returns SP to its idle level 1, so the least
  significant bit is not visible on the pin afterwards.
\<close>

theorem serial_out_byte:
  fixes cia :: CIA_State and irq :: RigelInterruptDomain and v :: u8
  assumes "cra cia AND CIA_CRA_SPMODE \<noteq> 0" and "serial_out_busy cia = 0"
  defines "s \<equiv> (\<lambda>k. (cia_serial_on_timer_a_underflow ^^ k) (cia_serial_write_sdr cia v, irq))"
  shows "(\<forall>k \<in> {1..7}. cia_serial_sp_output_level (fst (s k)) = (if bit v (8 - k) then 1 else 0)) \<and>
    cia_serial_sp_output_level (fst (s 8)) = 1 \<and> serial_out_busy (fst (s 8)) = 0 \<and>
    bit (icr_data (fst (s 8))) 3"
proof -
  let ?c = "cia_serial_write_sdr cia v"
  have 0: "output_at v 0 ?c"
    using assms(1,2) by (simp add: output_at_def cia_serial_write_sdr_def cia_serial_start_output_def)
  have 1: "cia_serial_sp_output_level (fst (s k)) = (if bit v (8 - k) then 1 else 0)"
    if "k \<in> {1..7}" for k
    using shift_out_run [OF 0, of k irq] that
    by (auto simp: s_def cia_serial_sp_output_level_def split: if_splits)
  obtain c7 where "s 7 = (c7, irq)" "output_at v 7 c7"
    using shift_out_run [OF 0, of 7 irq] by (auto simp: s_def)
  moreover have "s 8 = cia_serial_on_timer_a_underflow (s 7)"
    by (simp add: s_def eval_nat_numeral del: cia_serial_on_timer_a_underflow.simps)
  ultimately show ?thesis
    using 1 shift_out_last [of v c7 irq]
    by (simp add: Let_def cia_serial_sp_output_level_def del: cia_serial_on_timer_a_underflow.simps)
qed

theorem serial_out_byte_witness:
  "let s = (cia_serial_write_sdr (cia_zero\<lparr>cra := 0x40\<rparr>) 0x80, \<lparr>intena = 0, intreq = 0, ipl = 0\<rparr>)
   in cia_serial_sp_output_level (fst ((cia_serial_on_timer_a_underflow ^^ 1) s)) = 1 \<and>
      cia_serial_sp_output_level (fst ((cia_serial_on_timer_a_underflow ^^ 7) s)) = 0 \<and>
      cia_serial_sp_output_level (fst ((cia_serial_on_timer_a_underflow ^^ 8) s)) = 1"
proof -
  let ?c = "cia_zero\<lparr>cra := 0x40\<rparr>"
  have "cra ?c AND CIA_CRA_SPMODE \<noteq> 0" "serial_out_busy ?c = 0"
    by (simp_all add: cia_zero_def)
  note T = serial_out_byte [OF this, where v = "0x80" and irq = "\<lparr>intena = 0, intreq = 0, ipl = 0\<rparr>"]
  from bspec [OF conjunct1 [OF T], of 1] bspec [OF conjunct1 [OF T], of 7] conjunct2 [OF T]
  show ?thesis
    by (simp add: Let_def bit_simps del: cia_serial_on_timer_a_underflow.simps)
qed

end
