(* ===== verification/Chip_Ram.thy ===== *)
theory Chip_Ram
  imports Rigel_Prelude
begin

text \<open>
  Chip RAM.  The chipset never owns the memory: the host passes two callbacks and an
  opaque pointer (\<^verbatim>\<open>rigel_chip_ram_if_t\<close> in \<^verbatim>\<open>include/rigel/rigel_config.h\<close>), and
  either callback may be null.  The model keeps the memory as a value of any type \<open>'m\<close>
  threaded through the operations.  What the components rely on is the locale
  \<open>chip_memory\<close>; it is interpreted on the callbacks of the repository's own host,
  \<^verbatim>\<open>harness/harness.c\<close>.
\<close>

unbundle bit_operations_syntax

section \<open>The interface\<close>

record 'm rigel_chip_ram_if =
  read16 :: "('m \<Rightarrow> u32 \<Rightarrow> u16) option"
  write16 :: "('m \<Rightarrow> u32 \<Rightarrow> u16 \<Rightarrow> 'm) option"

section \<open>Contract of a word memory\<close>

text \<open>A sequence of stores, in order.\<close>

fun ram_stores :: "('m \<Rightarrow> u32 \<Rightarrow> u16 \<Rightarrow> 'm) \<Rightarrow> (u32 \<times> u16) list \<Rightarrow> 'm \<Rightarrow> 'm" where
  "ram_stores wr [] m = m"
| "ram_stores wr ((a, v) # ws) m = ram_stores wr ws (wr m a v)"

lemma ram_stores_append: "ram_stores wr (xs @ ys) m = ram_stores wr ys (ram_stores wr xs m)"
  by (induction wr xs m rule: ram_stores.induct) simp_all

text \<open>
  Word accesses at even addresses behave like an array: a read returns the last value
  written there, and a write changes nothing else.  \<open>mapped\<close> says which addresses are
  backed by memory; writes do not change it.
\<close>

locale chip_memory =
  fixes rd :: "'m \<Rightarrow> u32 \<Rightarrow> u16"
    and wr :: "'m \<Rightarrow> u32 \<Rightarrow> u16 \<Rightarrow> 'm"
    and mapped :: "'m \<Rightarrow> u32 \<Rightarrow> bool"
  assumes rd_wr_same: "mapped m a \<Longrightarrow> even a \<Longrightarrow> rd (wr m a v) a = v"
    and rd_wr_other: "even a \<Longrightarrow> even b \<Longrightarrow> a \<noteq> b \<Longrightarrow> rd (wr m a v) b = rd m b"
    and mapped_wr: "mapped (wr m a v) b = mapped m b"
begin

lemma mapped_stores: "mapped (ram_stores wr ws m) a = mapped m a"
proof (induction ws arbitrary: m)
  case (Cons w ws)
  then show ?case by (cases w) (simp add: mapped_wr)
qed simp

lemma rd_stores_other:
  "\<forall>w \<in> set ws. even (fst w) \<and> fst w \<noteq> b \<Longrightarrow> even b \<Longrightarrow> rd (ram_stores wr ws m) b = rd m b"
proof (induction ws arbitrary: m)
  case (Cons w ws)
  then show ?case by (cases w) (simp add: rd_wr_other)
qed simp

lemma rd_stores_distinct:
  assumes "distinct (map fst ws)" and "\<forall>w \<in> set ws. even (fst w) \<and> mapped m (fst w)"
    and "(b, u) \<in> set ws"
  shows "rd (ram_stores wr ws m) b = u"
  using assms
proof (induction ws arbitrary: m)
  case (Cons w ws)
  obtain a v where w: "w = (a, v)" by (cases w)
  show ?case
  proof (cases "(b, u) = (a, v)")
    case True
    have "\<forall>w \<in> set ws. even (fst w) \<and> fst w \<noteq> a" using Cons.prems(1,2) w by auto
    moreover have "even a" "mapped m a" using Cons.prems(2) w by auto
    ultimately show ?thesis using True w by (simp add: rd_stores_other rd_wr_same)
  next
    case False
    then have "(b, u) \<in> set ws" using Cons.prems(3) w by auto
    then have "rd (ram_stores wr ws (wr m a v)) b = u"
      using Cons.prems by (intro Cons.IH) (auto simp: mapped_wr)
    then show ?thesis using w by simp
  qed
qed simp

end

section \<open>The harness's memory\<close>

text \<open>
  The host of the repository keeps chip RAM as a byte array in big-endian order; its size
  is the length of the list.
\<close>

type_synonym harness_ram = "u8 list"

definition chip_ram_read16 :: "harness_ram \<Rightarrow> u32 \<Rightarrow> u16" where
  "chip_ram_read16 ram addr =
     (if unat (addr + 1) \<ge> length ram then 0
      else push_bit 8 (ucast (ram ! unat addr)) OR ucast (ram ! unat (addr + 1)))"

definition chip_ram_write16 :: "harness_ram \<Rightarrow> u32 \<Rightarrow> u16 \<Rightarrow> harness_ram" where
  "chip_ram_write16 ram addr value =
     (if unat (addr + 1) \<ge> length ram then ram
      else ram[unat addr := ucast (drop_bit 8 value), unat (addr + 1) := ucast (value AND 0xff)])"

definition harness_mapped :: "harness_ram \<Rightarrow> u32 \<Rightarrow> bool" where
  "harness_mapped ram addr \<longleftrightarrow> unat (addr + 1) < length ram"

definition harness_chip_ram :: "harness_ram rigel_chip_ram_if" where
  "harness_chip_ram = \<lparr>read16 = Some chip_ram_read16, write16 = Some chip_ram_write16\<rparr>"

lemma even_addr_inc: "even a \<Longrightarrow> unat (a + 1) = Suc (unat a)" for a :: u32
proof -
  assume "even a"
  then have "even (unat a)" by (simp add: even_unat)
  then have "odd (Suc (unat a))" by simp
  moreover have "even (2 ^ 32 :: nat)" by simp
  ultimately have "Suc (unat a) \<noteq> 2 ^ 32" by metis
  then show ?thesis using unat_inc [of a] unat_bounds(3) [of a] by simp
qed

lemma join_bytes: "push_bit 8 (ucast (ucast (drop_bit 8 v) :: u8)) OR
    ucast (ucast (v AND 0xff) :: u8) = v" for v :: u16
  by (rule bit_word_eqI) (auto simp: bit_simps)

interpretation harness_mem: chip_memory chip_ram_read16 chip_ram_write16 harness_mapped
proof
  fix m :: harness_ram and a b :: u32 and v :: u16
  show "chip_ram_read16 (chip_ram_write16 m a v) a = v" if "harness_mapped m a" "even a"
    using that by (simp add: chip_ram_read16_def chip_ram_write16_def harness_mapped_def
        even_addr_inc join_bytes)
  show "chip_ram_read16 (chip_ram_write16 m a v) b = chip_ram_read16 m b"
    if "even a" "even b" "a \<noteq> b"
  proof -
    have "unat a \<noteq> unat b" using that(3) by (metis word_of_nat_unat)
    moreover have "even (unat a)" "even (unat b)" using that by (simp_all add: even_unat)
    ultimately have "unat a \<noteq> Suc (unat b)" "Suc (unat a) \<noteq> unat b" "unat a \<noteq> unat b"
      by presburger+
    then show ?thesis
      using that by (auto simp: chip_ram_read16_def chip_ram_write16_def even_addr_inc)
  qed
  show "harness_mapped (chip_ram_write16 m a v) b = harness_mapped m b"
    by (simp add: harness_mapped_def chip_ram_write16_def)
qed

end
