(* ===== verification/Blitter_Regs.thy ===== *)
theory Blitter_Regs
  imports Chip_Ram
begin

text \<open>
  The blitter's state (\<^verbatim>\<open>src/chipset/agnus/blitter/blitter_types.h\<close>,
  \<^verbatim>\<open>blitter.h\<close>), its register file (\<^verbatim>\<open>blitter_regs.c\<close>), the command frozen when
  the size register is written (\<^verbatim>\<open>blitter_command.c\<close>) and its cost model
  (\<^verbatim>\<open>blitter_timing.c\<close>).  Signed 16-bit modulos are 16-bit words.  Environment-gated
  trace output is left out.
\<close>

unbundle bit_operations_syntax

section \<open>State\<close>

abbreviation BLITTER_CHIP_ADDR_MASK :: u32 where "BLITTER_CHIP_ADDR_MASK \<equiv> 0x001ffffe"
abbreviation BLITTER_INTREQ_BLIT :: u16 where "BLITTER_INTREQ_BLIT \<equiv> 0x8040"
abbreviation BLITTER_DMACON_BLTNZERO :: u16 where "BLITTER_DMACON_BLTNZERO \<equiv> 0x2000"
abbreviation BLITTER_DMACON_BLTBUSY :: u16 where "BLITTER_DMACON_BLTBUSY \<equiv> 0x4000"

datatype BlitterMode = BLITTER_MODE_COPY | BLITTER_MODE_LINE
datatype BlitterFillMode = BLITTER_FILL_NONE | BLITTER_FILL_INCLUSIVE | BLITTER_FILL_EXCLUSIVE
datatype BlitterExecState = BLITTER_EXEC_IDLE | BLITTER_EXEC_PENDING | BLITTER_EXEC_RUNNING

record BlitterLineState =
  ls_error :: i16
  ls_pattern :: u16
  ls_cpt :: u32
  ls_step_index :: u16
  ls_x_shift :: u8
  ls_one_dot_count :: u8
  ls_last_cdat :: u16
  ls_last_ddat :: u16
  ls_zero :: bool
  ls_sign :: bool
  ls_initialized :: bool
  ls_pixel_slot_phase :: u8

record BlitterRegs =
  bltcon0 :: u16
  bltcon1 :: u16
  bltapt :: u32
  bltbpt :: u32
  bltcpt :: u32
  bltdpt :: u32
  bltamod :: i16
  bltbmod :: i16
  bltcmod :: i16
  bltdmod :: i16
  bltadat :: u16
  bltbdat :: u16
  bltcdat :: u16
  bltddat :: u16
  bltbhold :: u16
  bltafwm :: u16
  bltalwm :: u16
  bltsize :: u16
  bltsizh :: u16
  bltsizv :: u16

record BlitCommand =
  cmd_apt :: u32
  cmd_bpt :: u32
  cmd_cpt :: u32
  cmd_dpt :: u32
  amod :: i16
  bmod :: i16
  cmod :: i16
  dmod :: i16
  adat :: u16
  bdat :: u16
  cdat :: u16
  bhold :: u16
  afwm :: u16
  alwm :: u16
  width_words :: u16
  height_lines :: u16
  minterm :: u8
  ashift :: u8
  bshift :: u8
  use_a :: bool
  use_b :: bool
  use_c :: bool
  use_d :: bool
  descending :: bool
  fill_carry_in :: bool
  line_octant :: u8
  line_start_bit :: u8
  line_single_dot :: bool
  line_initial_sign :: bool
  cmd_mode :: BlitterMode
  fill_mode :: BlitterFillMode

record BlitterResult =
  final_apt :: u32
  final_bpt :: u32
  final_cpt :: u32
  final_dpt :: u32
  final_adat :: u16
  final_bdat :: u16
  final_cdat :: u16
  final_ddat :: u16
  final_bhold :: u16
  result_zero :: bool

record BlitterState =
  blt_regs :: BlitterRegs
  blt_cmd :: BlitCommand
  blt_result :: BlitterResult
  exec_state :: BlitterExecState
  command_valid :: bool
  blt_busy :: bool
  cycles_remaining :: u32
  dma_slots_consumed :: u32
  debug_trace :: bool
  blt_cycle_exact :: bool
  line_state :: BlitterLineState

text \<open>The all-zero structures that \<^verbatim>\<open>memset\<close> produces.\<close>

definition zero_line_state :: BlitterLineState where
  "zero_line_state = \<lparr>ls_error = 0, ls_pattern = 0, ls_cpt = 0, ls_step_index = 0,
     ls_x_shift = 0, ls_one_dot_count = 0, ls_last_cdat = 0, ls_last_ddat = 0,
     ls_zero = False, ls_sign = False, ls_initialized = False, ls_pixel_slot_phase = 0\<rparr>"

definition zero_regs :: BlitterRegs where
  "zero_regs = \<lparr>bltcon0 = 0, bltcon1 = 0, bltapt = 0, bltbpt = 0, bltcpt = 0, bltdpt = 0,
     bltamod = 0, bltbmod = 0, bltcmod = 0, bltdmod = 0, bltadat = 0, bltbdat = 0,
     bltcdat = 0, bltddat = 0, bltbhold = 0, bltafwm = 0, bltalwm = 0, bltsize = 0,
     bltsizh = 0, bltsizv = 0\<rparr>"

definition zero_command :: BlitCommand where
  "zero_command = \<lparr>cmd_apt = 0, cmd_bpt = 0, cmd_cpt = 0, cmd_dpt = 0, amod = 0, bmod = 0,
     cmod = 0, dmod = 0, adat = 0, bdat = 0, cdat = 0, bhold = 0, afwm = 0, alwm = 0,
     width_words = 0, height_lines = 0, minterm = 0, ashift = 0, bshift = 0,
     use_a = False, use_b = False, use_c = False, use_d = False, descending = False,
     fill_carry_in = False, line_octant = 0, line_start_bit = 0, line_single_dot = False,
     line_initial_sign = False, cmd_mode = BLITTER_MODE_COPY, fill_mode = BLITTER_FILL_NONE\<rparr>"

definition zero_result :: BlitterResult where
  "zero_result = \<lparr>final_apt = 0, final_bpt = 0, final_cpt = 0, final_dpt = 0,
     final_adat = 0, final_bdat = 0, final_cdat = 0, final_ddat = 0, final_bhold = 0,
     result_zero = False\<rparr>"

section \<open>Command decoding\<close>

definition decode_mode :: "u16 \<Rightarrow> BlitterMode" where
  "decode_mode con1 = (if con1 AND 0x0001 \<noteq> 0 then BLITTER_MODE_LINE else BLITTER_MODE_COPY)"

definition decode_fill_mode :: "u16 \<Rightarrow> BlitterFillMode" where
  "decode_fill_mode con1 =
     (let f = drop_bit 3 con1 AND 0x03 in
      if f = 1 then BLITTER_FILL_INCLUSIVE
      else if f = 2 then BLITTER_FILL_EXCLUSIVE
      else BLITTER_FILL_NONE)"

definition blitter_build_command :: "BlitterState \<Rightarrow> BlitterState" where
  "blitter_build_command b =
     (let r = blt_regs b in
      b\<lparr>blt_cmd := \<lparr>
          cmd_apt = bltapt r AND BLITTER_CHIP_ADDR_MASK,
          cmd_bpt = bltbpt r AND BLITTER_CHIP_ADDR_MASK,
          cmd_cpt = bltcpt r AND BLITTER_CHIP_ADDR_MASK,
          cmd_dpt = bltdpt r AND BLITTER_CHIP_ADDR_MASK,
          amod = bltamod r, bmod = bltbmod r, cmod = bltcmod r, dmod = bltdmod r,
          adat = bltadat r, bdat = bltbdat r, cdat = bltcdat r, bhold = bltbhold r,
          afwm = bltafwm r, alwm = bltalwm r,
          width_words = bltsizh r, height_lines = bltsizv r,
          minterm = ucast (bltcon0 r AND 0x00ff),
          ashift = ucast (drop_bit 12 (bltcon0 r) AND 0x0f),
          bshift = ucast (drop_bit 12 (bltcon1 r) AND 0x0f),
          use_a = (bltcon0 r AND 0x0800 \<noteq> 0),
          use_b = (bltcon0 r AND 0x0400 \<noteq> 0),
          use_c = (bltcon0 r AND 0x0200 \<noteq> 0),
          use_d = (bltcon0 r AND 0x0100 \<noteq> 0),
          descending = (bltcon1 r AND 0x0002 \<noteq> 0),
          fill_carry_in = (bltcon1 r AND 0x0004 \<noteq> 0),
          line_octant = ucast (drop_bit 2 (bltcon1 r) AND 0x07),
          line_start_bit = ucast (drop_bit 12 (bltcon0 r) AND 0x0f),
          line_single_dot = (bltcon1 r AND 0x0002 \<noteq> 0),
          line_initial_sign = (bltcon1 r AND 0x0040 \<noteq> 0),
          cmd_mode = decode_mode (bltcon1 r),
          fill_mode = decode_fill_mode (bltcon1 r)\<rparr>,
        command_valid := True\<rparr>)"

section \<open>Cost model and publication\<close>

definition blitter_active_channel_count :: "BlitCommand \<Rightarrow> u32" where
  "blitter_active_channel_count cmd =
     (let channels = (if use_a cmd then 1 else 0) + (if use_b cmd then 1 else 0)
                   + (if use_c cmd then 1 else 0) + (if use_d cmd then 1 else 0)
      in if channels = 0 then 1 else channels)"

definition blitter_word_cost :: "BlitCommand \<Rightarrow> u32" where
  "blitter_word_cost cmd =
     (let cost = blitter_active_channel_count cmd
      in if use_d cmd \<and> \<not> use_c cmd then cost + 1 else cost)"

definition blitter_estimate_cycles :: "BlitCommand \<Rightarrow> bool \<Rightarrow> u32" where
  "blitter_estimate_cycles cmd cycle_exact =
     (let cycles =
        (if cmd_mode cmd = BLITTER_MODE_LINE then
           (let cycles = ucast (height_lines cmd) :: u32
            in if cycle_exact then cycles * 2 else cycles)
         else
           (let words = ucast (width_words cmd) * ucast (height_lines cmd) :: u32
            in if cycle_exact then words * blitter_word_cost cmd else words))
      in if cycles = 0 then 1 else cycles)"

definition blitter_start_timing :: "BlitterState \<Rightarrow> BlitterState" where
  "blitter_start_timing b =
     (let b = b\<lparr>blt_busy := True,
                exec_state := BLITTER_EXEC_PENDING,
                blt_result := zero_result,
                line_state := zero_line_state,
                dma_slots_consumed := 0,
                cycles_remaining := blitter_estimate_cycles (blt_cmd b) (blt_cycle_exact b)\<rparr>
      in b\<lparr>blt_result := (blt_result b)\<lparr>result_zero := True\<rparr>\<rparr>)"

definition blitter_begin_command :: "BlitterState \<Rightarrow> BlitterState" where
  "blitter_begin_command b = blitter_start_timing (blitter_build_command b)"

definition blitter_publish_result :: "BlitterState \<Rightarrow> BlitterState" where
  "blitter_publish_result b =
     (let r = blt_result b in
      b\<lparr>blt_regs := (blt_regs b)\<lparr>
          bltapt := final_apt r, bltbpt := final_bpt r,
          bltcpt := final_cpt r, bltdpt := final_dpt r,
          bltadat := final_adat r, bltbdat := final_bdat r,
          bltcdat := final_cdat r, bltddat := final_ddat r,
          bltbhold := final_bhold r\<rparr>\<rparr>)"

text \<open>
  Finishing raises the blitter interrupt through the sink, when there is one; the masks
  raised are returned as a list.
\<close>

definition blitter_force_finish :: "bool \<Rightarrow> BlitterState \<Rightarrow> BlitterState \<times> u16 list" where
  "blitter_force_finish sink b =
     (b\<lparr>blt_busy := False, exec_state := BLITTER_EXEC_IDLE, cycles_remaining := 0\<rparr>,
      if sink then [BLITTER_INTREQ_BLIT] else [])"

section \<open>Register file\<close>

definition make_ptr :: "u32 \<Rightarrow> u16 \<Rightarrow> bool \<Rightarrow> u32" where
  "make_ptr old_value value high =
     (if high then push_bit 16 (ucast value) OR (old_value AND 0x0000ffff)
      else (old_value AND 0xffff0000) OR ucast (value AND 0xfffe))"

definition make_b_hold :: "BlitterRegs \<Rightarrow> u16 \<Rightarrow> u16" where
  "make_b_hold r value =
     (let shift = ucast (drop_bit 12 (bltcon1 r) AND 0x0f) :: u8 in
      if shift = 0 then value
      else if bltcon1 r AND 0x0002 \<noteq> 0 then
        ucast (drop_bit (16 - unat shift) ((push_bit 16 (ucast value) :: u32) OR ucast (bltbdat r)))
      else
        ucast (drop_bit (unat shift) ((push_bit 16 (ucast (bltbdat r)) :: u32) OR ucast value)))"

definition blitter_init :: BlitterState where
  "blitter_init = \<lparr>blt_regs = zero_regs\<lparr>bltafwm := 0xffff, bltalwm := 0xffff\<rparr>,
     blt_cmd = zero_command, blt_result = zero_result\<lparr>result_zero := True\<rparr>,
     exec_state = BLITTER_EXEC_IDLE, command_valid = False, blt_busy = False,
     cycles_remaining = 0, dma_slots_consumed = 0, debug_trace = False,
     blt_cycle_exact = False, line_state = zero_line_state\<rparr>"

definition blitter_reset :: "BlitterState \<Rightarrow> BlitterState" where
  "blitter_reset b = blitter_init"

definition blitter_is_busy :: "BlitterState \<Rightarrow> bool" where
  "blitter_is_busy b = blt_busy b"

definition blitter_read_reg16 :: "BlitterState \<Rightarrow> u32 \<Rightarrow> u16" where
  "blitter_read_reg16 b offset =
     (let r = blt_regs b in
      if offset = 0x040 then bltcon0 r
      else if offset = 0x042 then bltcon1 r
      else if offset = 0x044 then bltafwm r
      else if offset = 0x046 then bltalwm r
      else if offset = 0x064 then bltamod r
      else if offset = 0x062 then bltbmod r
      else if offset = 0x060 then bltcmod r
      else if offset = 0x066 then bltdmod r
      else if offset = 0x074 then bltadat r
      else if offset = 0x072 then bltbdat r
      else if offset = 0x070 then bltcdat r
      else if offset = 0x000 then bltddat r
      else if offset = 0x058 then bltsize r
      else if offset = 0x002 then
        (let value = (if blt_busy b then BLITTER_DMACON_BLTBUSY else 0)
         in if result_zero (blt_result b) then value OR BLITTER_DMACON_BLTNZERO else value)
      else 0)"

definition blitter_write_reg16 :: "BlitterState \<Rightarrow> u32 \<Rightarrow> u16 \<Rightarrow> BlitterState" where
  "blitter_write_reg16 b offset value =
     (let r = blt_regs b; set = (\<lambda>r. b\<lparr>blt_regs := r\<rparr>) in
      if offset = 0x040 then set (r\<lparr>bltcon0 := value\<rparr>)
      else if offset = 0x042 then set (r\<lparr>bltcon1 := value\<rparr>)
      else if offset = 0x05A then
        set (r\<lparr>bltcon0 := (bltcon0 r AND 0xff00) OR (value AND 0x00ff)\<rparr>)
      else if offset = 0x044 then set (r\<lparr>bltafwm := value\<rparr>)
      else if offset = 0x046 then set (r\<lparr>bltalwm := value\<rparr>)
      else if offset = 0x064 then set (r\<lparr>bltamod := value\<rparr>)
      else if offset = 0x062 then set (r\<lparr>bltbmod := value\<rparr>)
      else if offset = 0x060 then set (r\<lparr>bltcmod := value\<rparr>)
      else if offset = 0x066 then set (r\<lparr>bltdmod := value\<rparr>)
      else if offset = 0x074 then set (r\<lparr>bltadat := value\<rparr>)
      else if offset = 0x072 then set (r\<lparr>bltbhold := make_b_hold r value, bltbdat := value\<rparr>)
      else if offset = 0x070 then set (r\<lparr>bltcdat := value\<rparr>)
      else if offset = 0x000 then set (r\<lparr>bltddat := value\<rparr>)
      else if offset = 0x050 then set (r\<lparr>bltapt := make_ptr (bltapt r) value True\<rparr>)
      else if offset = 0x052 then set (r\<lparr>bltapt := make_ptr (bltapt r) value False\<rparr>)
      else if offset = 0x04C then set (r\<lparr>bltbpt := make_ptr (bltbpt r) value True\<rparr>)
      else if offset = 0x04E then set (r\<lparr>bltbpt := make_ptr (bltbpt r) value False\<rparr>)
      else if offset = 0x048 then set (r\<lparr>bltcpt := make_ptr (bltcpt r) value True\<rparr>)
      else if offset = 0x04A then set (r\<lparr>bltcpt := make_ptr (bltcpt r) value False\<rparr>)
      else if offset = 0x054 then set (r\<lparr>bltdpt := make_ptr (bltdpt r) value True\<rparr>)
      else if offset = 0x056 then set (r\<lparr>bltdpt := make_ptr (bltdpt r) value False\<rparr>)
      else if offset = 0x058 then
        (let sizh = value AND 0x003f; sizv = drop_bit 6 value AND 0x03ff in
         blitter_begin_command (set (r\<lparr>bltsize := value,
           bltsizh := (if sizh = 0 then 64 else sizh),
           bltsizv := (if sizv = 0 then 1024 else sizv)\<rparr>)))
      else if offset = 0x05C then
        (let sizv = value AND 0x7fff in
         set (r\<lparr>bltsizv := (if sizv = 0 then 32768 else sizv)\<rparr>))
      else if offset = 0x05E then
        (let sizh = value AND 0x07ff in
         blitter_begin_command (set (r\<lparr>bltsizh := (if sizh = 0 then 2048 else sizh)\<rparr>)))
      else b)"

definition rigel_blitter_domain_owns_reg :: "u32 \<Rightarrow> bool" where
  "rigel_blitter_domain_owns_reg addr \<longleftrightarrow>
     addr \<in> set [0x000, 0x002, 0x040, 0x042, 0x044, 0x046, 0x048, 0x04a, 0x04c, 0x04e,
       0x050, 0x052, 0x054, 0x056, 0x058, 0x05A, 0x05C, 0x05E, 0x060, 0x062, 0x064, 0x066,
       0x070, 0x072, 0x074]"

definition rigel_blitter_domain_reset :: "BlitterState \<Rightarrow> BlitterState" where
  "rigel_blitter_domain_reset b = blitter_reset b"

definition rigel_blitter_domain_read_reg :: "BlitterState \<Rightarrow> u32 \<Rightarrow> u16" where
  "rigel_blitter_domain_read_reg b addr = blitter_read_reg16 b addr"

definition rigel_blitter_domain_write_reg :: "BlitterState \<Rightarrow> u32 \<Rightarrow> u16 \<Rightarrow> BlitterState" where
  "rigel_blitter_domain_write_reg b addr value = blitter_write_reg16 b addr value"

end
