(* ===== verification/Blitter_Exec.thy ===== *)
theory Blitter_Exec
  imports Blitter_Regs
begin

text \<open>
  Execution of a blit: the reference backend (\<^verbatim>\<open>blitter_ref.c\<close>), the incremental line
  drawer (\<^verbatim>\<open>blitter_line.c\<close>), the minterm table of \<^verbatim>\<open>blitter_logic.c\<close> and the
  stepping by DMA slots (\<^verbatim>\<open>blitter_dma.c\<close>).  Chip RAM is the callback record of
  \<^verbatim>\<open>Chip_Ram\<close> together with the memory value.
\<close>

unbundle bit_operations_syntax

section \<open>Memory access and the function generator\<close>

definition chip_read16 :: "'m rigel_chip_ram_if \<Rightarrow> 'm \<Rightarrow> u32 \<Rightarrow> u16" where
  "chip_read16 mem m addr =
     (let addr = addr AND BLITTER_CHIP_ADDR_MASK in
      case read16 mem of None \<Rightarrow> 0 | Some rd \<Rightarrow> rd m addr)"

definition chip_write16 :: "'m rigel_chip_ram_if \<Rightarrow> 'm \<Rightarrow> u32 \<Rightarrow> u16 \<Rightarrow> 'm" where
  "chip_write16 mem m addr value =
     (let addr = addr AND BLITTER_CHIP_ADDR_MASK in
      case write16 mem of None \<Rightarrow> m | Some wr \<Rightarrow> wr m addr value)"

definition blitter_logic :: "u8 \<Rightarrow> u16 \<Rightarrow> u16 \<Rightarrow> u16 \<Rightarrow> u16" where
  "blitter_logic mt A B C =
     (let na = NOT A; nb = NOT B; nc = NOT C; D = 0;
          D = (if mt AND 0x80 \<noteq> 0 then D OR (A AND B AND C) else D);
          D = (if mt AND 0x40 \<noteq> 0 then D OR (A AND B AND nc) else D);
          D = (if mt AND 0x20 \<noteq> 0 then D OR (A AND nb AND C) else D);
          D = (if mt AND 0x10 \<noteq> 0 then D OR (A AND nb AND nc) else D);
          D = (if mt AND 0x08 \<noteq> 0 then D OR (na AND B AND C) else D);
          D = (if mt AND 0x04 \<noteq> 0 then D OR (na AND B AND nc) else D);
          D = (if mt AND 0x02 \<noteq> 0 then D OR (na AND nb AND C) else D);
          D = (if mt AND 0x01 \<noteq> 0 then D OR (na AND nb AND nc) else D)
      in D)"

text \<open>\<^verbatim>\<open>blitter_logic.c\<close> computes the same function bit by bit from a table index.\<close>

definition blitter_logic_bit :: "u8 \<Rightarrow> u16 \<Rightarrow> u16 \<Rightarrow> u16 \<Rightarrow> nat \<Rightarrow> u16 \<Rightarrow> u16" where
  "blitter_logic_bit mt a b c n result =
     (let ab = drop_bit n a AND 1; bb = drop_bit n b AND 1; cb = drop_bit n c AND 1;
          idx = push_bit 2 ab OR push_bit 1 bb OR cb
      in if drop_bit (unat idx) mt AND 1 \<noteq> 0 then result OR push_bit n 1 else result)"

definition blitter_logic_minterm :: "u8 \<Rightarrow> u16 \<Rightarrow> u16 \<Rightarrow> u16 \<Rightarrow> u16" where
  "blitter_logic_minterm mt a b c = fold (blitter_logic_bit mt a b c) [0..<16] 0"

section \<open>Shifting, masking, filling\<close>

definition shift_ascending :: "u16 \<Rightarrow> u16 \<Rightarrow> u8 \<Rightarrow> u16" where
  "shift_ascending previous current shift =
     (if shift = 0 then current
      else push_bit (16 - unat shift) previous OR drop_bit (unat shift) current)"

definition shift_descending :: "u16 \<Rightarrow> u16 \<Rightarrow> u8 \<Rightarrow> u16" where
  "shift_descending previous current shift =
     (if shift = 0 then current
      else drop_bit (16 - unat shift) previous OR push_bit (unat shift) current)"

text \<open>One round of either loop of \<^verbatim>\<open>blitter_fill_word\<close>, at bit \<open>i\<close>.\<close>

definition blitter_fill_bit :: "u16 \<Rightarrow> bool \<Rightarrow> nat \<Rightarrow> u16 \<times> u8 \<Rightarrow> u16 \<times> u8" where
  "blitter_fill_bit d inclusive i acc =
     (case acc of (result, c) \<Rightarrow>
        let b = ucast (drop_bit i d AND 1) :: u8 in
        if inclusive then
          let c = (if b \<noteq> 0 then c XOR 1 else c)
          in (if c \<noteq> 0 then result OR push_bit i 1 else result, c)
        else
          (if c XOR b \<noteq> 0 then result OR push_bit i 1 else result,
           if b \<noteq> 0 then c XOR 1 else c))"

definition blitter_fill_word :: "u16 \<Rightarrow> u8 \<Rightarrow> bool \<Rightarrow> bool \<Rightarrow> u16 \<times> u8" where
  "blitter_fill_word d carry inclusive desc =
     (if \<not> desc then fold (blitter_fill_bit d inclusive) (rev [0..<16]) (0, carry)
      else fold (blitter_fill_bit d inclusive) [0..<16] (0, carry))"

definition blitter_apply_shift :: "bool \<Rightarrow> u16 \<Rightarrow> u16 \<Rightarrow> u8 \<Rightarrow> u16" where
  "blitter_apply_shift desc previous current shift =
     (if desc then shift_descending previous current shift
      else shift_ascending previous current shift)"

definition blitter_apply_a_masks :: "BlitCommand \<Rightarrow> u16 \<Rightarrow> u32 \<Rightarrow> u16" where
  "blitter_apply_a_masks cmd value word_index =
     (let value = (if word_index = 0 then value AND afwm cmd else value)
      in if word_index + 1 = ucast (width_words cmd) then value AND alwm cmd else value)"

definition blitter_apply_fill :: "BlitCommand \<Rightarrow> u16 \<Rightarrow> u8 \<Rightarrow> u16 \<times> u8" where
  "blitter_apply_fill cmd value carry =
     (case fill_mode cmd of
        BLITTER_FILL_INCLUSIVE \<Rightarrow> blitter_fill_word value carry True (descending cmd)
      | BLITTER_FILL_EXCLUSIVE \<Rightarrow> blitter_fill_word value carry False (descending cmd)
      | BLITTER_FILL_NONE \<Rightarrow> (value, carry))"

text \<open>
  \<^verbatim>\<open>blitter_fetch_word\<close> returns the word and updates the pointer and the last observed
  value in place; here it returns all three.
\<close>

definition blitter_fetch_word ::
    "'m rigel_chip_ram_if \<Rightarrow> 'm \<Rightarrow> bool \<Rightarrow> u32 \<Rightarrow> u32 \<Rightarrow> u16 \<Rightarrow> u16 \<Rightarrow> u16 \<times> u32 \<times> u16" where
  "blitter_fetch_word mem m enabled ptr increment latched last_observed =
     (if \<not> enabled then (latched, ptr, last_observed)
      else let value = chip_read16 mem m ptr in (value, ptr + increment, value))"

section \<open>Copy mode\<close>

record BlitterCopyState =
  cs_apt :: u32
  cs_bpt :: u32
  cs_cpt :: u32
  cs_dpt :: u32
  previous_a :: u16
  previous_b :: u16
  cs_bhold :: u16
  last_adat :: u16
  last_bdat :: u16
  last_cdat :: u16
  last_ddat :: u16
  fill_carry :: u8
  cs_zero :: bool

definition blitter_copy_state_init :: "BlitCommand \<Rightarrow> BlitterCopyState" where
  "blitter_copy_state_init cmd = \<lparr>cs_apt = cmd_apt cmd, cs_bpt = cmd_bpt cmd,
     cs_cpt = cmd_cpt cmd, cs_dpt = cmd_dpt cmd, previous_a = 0, previous_b = 0,
     cs_bhold = bhold cmd, last_adat = adat cmd, last_bdat = bdat cmd,
     last_cdat = cdat cmd, last_ddat = 0,
     fill_carry = (if fill_carry_in cmd then 1 else 0), cs_zero = True\<rparr>"

definition blitter_copy_advance_line :: "BlitCommand \<Rightarrow> BlitterCopyState \<Rightarrow> BlitterCopyState" where
  "blitter_copy_advance_line cmd st =
     (if descending cmd then
        st\<lparr>cs_apt := cs_apt st - scast (amod cmd), cs_bpt := cs_bpt st - scast (bmod cmd),
           cs_cpt := cs_cpt st - scast (cmod cmd), cs_dpt := cs_dpt st - scast (dmod cmd)\<rparr>
      else
        st\<lparr>cs_apt := cs_apt st + scast (amod cmd), cs_bpt := cs_bpt st + scast (bmod cmd),
           cs_cpt := cs_cpt st + scast (cmod cmd), cs_dpt := cs_dpt st + scast (dmod cmd)\<rparr>)"

definition blitter_copy_publish_result :: "BlitterCopyState \<Rightarrow> BlitterResult" where
  "blitter_copy_publish_result st = \<lparr>final_apt = cs_apt st, final_bpt = cs_bpt st,
     final_cpt = cs_cpt st, final_dpt = cs_dpt st, final_adat = last_adat st,
     final_bdat = last_bdat st, final_cdat = last_cdat st, final_ddat = last_ddat st,
     final_bhold = cs_bhold st, result_zero = cs_zero st\<rparr>"

text \<open>
  The loop state of \<^verbatim>\<open>execute_copy_mode\<close>: the copy state, the D word waiting to be
  written (\<^verbatim>\<open>pending_d\<close> with its address and data) and the memory.
\<close>

type_synonym 'm copy_loop = "BlitterCopyState \<times> (u32 \<times> u16) option \<times> 'm"

definition copy_increment :: "BlitCommand \<Rightarrow> u32" where
  "copy_increment cmd = (if descending cmd then - 2 else 2)"

definition flush_pending :: "'m rigel_chip_ram_if \<Rightarrow> (u32 \<times> u16) option \<Rightarrow> 'm \<Rightarrow> 'm" where
  "flush_pending mem pending m =
     (case pending of None \<Rightarrow> m | Some (dpt, ddat) \<Rightarrow> chip_write16 mem m dpt ddat)"

definition copy_word ::
    "'m rigel_chip_ram_if \<Rightarrow> BlitCommand \<Rightarrow> u32 \<Rightarrow> 'm copy_loop \<Rightarrow> 'm copy_loop" where
  "copy_word mem cmd x loop =
     (let (st, pending, m) = loop;
          increment = copy_increment cmd;
          (raw_adat, apt, la) =
            blitter_fetch_word mem m (use_a cmd) (cs_apt st) increment (adat cmd) (last_adat st);
          a = blitter_apply_a_masks cmd raw_adat x;
          (b, bpt, lb) =
            blitter_fetch_word mem m (use_b cmd) (cs_bpt st) increment (bdat cmd) (last_bdat st);
          (c, cpt, lc) =
            blitter_fetch_word mem m (use_c cmd) (cs_cpt st) increment (cdat cmd) (last_cdat st);
          A = blitter_apply_shift (descending cmd) (previous_a st) a (ashift cmd);
          B = cs_bhold st;
          C = c;
          st = st\<lparr>cs_apt := apt, cs_bpt := bpt, cs_cpt := cpt, last_adat := la,
                  last_bdat := lb, last_cdat := lc, previous_a := a\<rparr>;
          st = (if use_b cmd
                then st\<lparr>cs_bhold := blitter_apply_shift (descending cmd) (previous_b st) b
                                     (bshift cmd),
                        previous_b := b\<rparr>
                else st);
          B = (if use_b cmd then cs_bhold st else B);
          m = flush_pending mem pending m;
          D = blitter_logic (minterm cmd) A B C;
          (D, carry) = blitter_apply_fill cmd D (fill_carry st);
          st = st\<lparr>fill_carry := carry, cs_zero := (if D \<noteq> 0 then False else cs_zero st)\<rparr>;
          (st, pending) =
            (if use_d cmd
             then (st\<lparr>cs_dpt := cs_dpt st + increment\<rparr>, Some (cs_dpt st, D))
             else (st, None));
          st = st\<lparr>last_ddat := D\<rparr>
      in (st, pending, m))"

definition copy_row ::
    "'m rigel_chip_ram_if \<Rightarrow> BlitCommand \<Rightarrow> 'm copy_loop \<Rightarrow> 'm copy_loop" where
  "copy_row mem cmd loop =
     (let (st, pending, m) = loop;
          st = st\<lparr>fill_carry := (if fill_carry_in cmd then 1 else 0)\<rparr>;
          (st, pending, m) =
            fold (\<lambda>x. copy_word mem cmd (word_of_nat x)) [0..<unat (width_words cmd)]
              (st, pending, m)
      in (blitter_copy_advance_line cmd st, pending, m))"

definition execute_copy_mode ::
    "'m rigel_chip_ram_if \<Rightarrow> BlitterState \<Rightarrow> 'm \<Rightarrow> BlitterState \<times> 'm" where
  "execute_copy_mode mem b m =
     (let cmd = blt_cmd b;
          (st, pending, m) =
            (copy_row mem cmd ^^ unat (height_lines cmd)) (blitter_copy_state_init cmd, None, m);
          m = flush_pending mem pending m
      in (b\<lparr>blt_result := blitter_copy_publish_result st\<rparr>, m))"

section \<open>Line mode, reference\<close>

text \<open>The local variables of \<^verbatim>\<open>execute_line_mode\<close>; \<open>ll_ddat\<close> is \<^verbatim>\<open>result->final_ddat\<close>.\<close>

record line_locals =
  ll_error :: i16
  ll_x_shift :: u8
  ll_one_dot_count :: u8
  ll_pattern :: u16
  ll_cpt :: u32
  ll_zero :: bool
  ll_sign :: bool
  ll_last_cdat :: u16
  ll_ddat :: u16

definition line_iteration ::
    "'m rigel_chip_ram_if \<Rightarrow> BlitCommand \<Rightarrow> line_locals \<times> 'm \<Rightarrow> line_locals \<times> 'm" where
  "line_iteration mem cmd lm =
     (let (l, m) = lm;
          cval = (if use_c cmd then chip_read16 mem m (ll_cpt l) else cdat cmd);
          l = l\<lparr>ll_last_cdat := cval\<rparr>;
          ahold = drop_bit (unat (ll_x_shift l)) (adat cmd AND afwm cmd);
          bh = (if ll_pattern l AND 1 \<noteq> 0 then 0xffff else 0);
          dval = blitter_logic (minterm cmd) ahold bh cval;
          write_pixel = (\<not> line_single_dot cmd \<or> ll_one_dot_count l = 0);
          m = (if use_c cmd \<and> write_pixel then chip_write16 mem m (ll_cpt l) dval else m);
          l = (if dval \<noteq> 0 then l\<lparr>ll_zero := False\<rparr> else l);
          l = l\<lparr>ll_ddat := dval, ll_one_dot_count := ll_one_dot_count l + 1\<rparr>;
          l = (if use_a cmd then
                 (if ll_sign l then l\<lparr>ll_error := ll_error l + bmod cmd\<rparr>
                  else l\<lparr>ll_error := ll_error l + amod cmd\<rparr>)
               else l);
          l = (if \<not> ll_sign l then
                 (if line_octant cmd AND 0x04 \<noteq> 0 then
                    (if line_octant cmd AND 0x02 \<noteq> 0
                     then l\<lparr>ll_cpt := (ll_cpt l - scast (cmod cmd)) AND BLITTER_CHIP_ADDR_MASK,
                            ll_one_dot_count := 0\<rparr>
                     else l\<lparr>ll_cpt := (ll_cpt l + scast (cmod cmd)) AND BLITTER_CHIP_ADDR_MASK,
                            ll_one_dot_count := 0\<rparr>)
                  else if line_octant cmd AND 0x02 \<noteq> 0 then
                    (if ll_x_shift l = 0
                     then l\<lparr>ll_x_shift := 15, ll_cpt := (ll_cpt l - 2) AND BLITTER_CHIP_ADDR_MASK\<rparr>
                     else l\<lparr>ll_x_shift := ll_x_shift l - 1\<rparr>)
                  else
                    (let l = l\<lparr>ll_x_shift := ll_x_shift l + 1\<rparr> in
                     if ll_x_shift l = 16
                     then l\<lparr>ll_x_shift := 0, ll_cpt := (ll_cpt l + 2) AND BLITTER_CHIP_ADDR_MASK\<rparr>
                     else l))
               else l);
          l = (if line_octant cmd AND 0x04 \<noteq> 0 then
                 (if line_octant cmd AND 0x01 \<noteq> 0 then
                    (if ll_x_shift l = 0
                     then l\<lparr>ll_x_shift := 15, ll_cpt := (ll_cpt l - 2) AND BLITTER_CHIP_ADDR_MASK\<rparr>
                     else l\<lparr>ll_x_shift := ll_x_shift l - 1\<rparr>)
                  else
                    (let l = l\<lparr>ll_x_shift := ll_x_shift l + 1\<rparr> in
                     if ll_x_shift l = 16
                     then l\<lparr>ll_x_shift := 0, ll_cpt := (ll_cpt l + 2) AND BLITTER_CHIP_ADDR_MASK\<rparr>
                     else l))
               else if line_octant cmd AND 0x01 \<noteq> 0 then
                 l\<lparr>ll_cpt := (ll_cpt l - scast (cmod cmd)) AND BLITTER_CHIP_ADDR_MASK,
                   ll_one_dot_count := 0\<rparr>
               else
                 l\<lparr>ll_cpt := (ll_cpt l + scast (cmod cmd)) AND BLITTER_CHIP_ADDR_MASK,
                   ll_one_dot_count := 0\<rparr>);
          l = l\<lparr>ll_sign := sint (ll_error l) < 0\<rparr>;
          l = l\<lparr>ll_pattern := push_bit 1 (ll_pattern l) OR drop_bit 15 (ll_pattern l)\<rparr>
      in (l, m))"

definition line_locals_init :: "BlitCommand \<Rightarrow> line_locals" where
  "line_locals_init cmd =
     (let pattern_shift = unat (bshift cmd); pattern = bdat cmd in
      \<lparr>ll_error = ucast (cmd_apt cmd AND 0xffff), ll_x_shift = line_start_bit cmd AND 0x0f,
       ll_one_dot_count = 0,
       ll_pattern = (if pattern_shift \<noteq> 0
                     then drop_bit pattern_shift pattern OR push_bit (16 - pattern_shift) pattern
                     else pattern),
       ll_cpt = cmd_cpt cmd AND BLITTER_CHIP_ADDR_MASK, ll_zero = True,
       ll_sign = line_initial_sign cmd, ll_last_cdat = cdat cmd, ll_ddat = 0\<rparr>)"

definition execute_line_mode ::
    "'m rigel_chip_ram_if \<Rightarrow> BlitterState \<Rightarrow> 'm \<Rightarrow> BlitterState \<times> 'm" where
  "execute_line_mode mem b m =
     (let cmd = blt_cmd b in
      if height_lines cmd = 0 then
        (b\<lparr>blt_result := \<lparr>final_apt = cmd_apt cmd, final_bpt = cmd_bpt cmd,
             final_cpt = cmd_cpt cmd, final_dpt = cmd_dpt cmd, final_adat = adat cmd,
             final_bdat = bdat cmd, final_cdat = cdat cmd, final_ddat = 0,
             final_bhold = bhold cmd, result_zero = True\<rparr>\<rparr>, m)
      else
        let (l, m) = (line_iteration mem cmd ^^ unat (height_lines cmd)) (line_locals_init cmd, m)
        in (b\<lparr>blt_result := \<lparr>final_apt = (cmd_apt cmd AND 0xffff0000) OR ucast (ll_error l),
             final_bpt = cmd_bpt cmd, final_cpt = ll_cpt l, final_dpt = ll_cpt l,
             final_adat = adat cmd, final_bdat = bdat cmd, final_cdat = ll_last_cdat l,
             final_ddat = ll_ddat l, final_bhold = bhold cmd, result_zero = ll_zero l\<rparr>\<rparr>, m))"

text \<open>
  The reference backend returns whether it ran a command; the result starts zeroed.
\<close>

definition blitter_execute_reference ::
    "'m rigel_chip_ram_if \<Rightarrow> BlitterState \<Rightarrow> 'm \<Rightarrow> bool \<times> BlitterState \<times> 'm" where
  "blitter_execute_reference mem b m =
     (if \<not> command_valid b then (False, b, m)
      else
        let b = b\<lparr>blt_result := zero_result\<rparr> in
        case cmd_mode (blt_cmd b) of
          BLITTER_MODE_COPY \<Rightarrow> (True, execute_copy_mode mem b m)
        | BLITTER_MODE_LINE \<Rightarrow> (True, execute_line_mode mem b m))"

section \<open>Line mode, one pixel at a time\<close>

definition line_chip_read16 :: "'m rigel_chip_ram_if \<Rightarrow> 'm \<Rightarrow> u32 \<Rightarrow> u16" where
  "line_chip_read16 mem m addr =
     (let addr = addr AND BLITTER_CHIP_ADDR_MASK in
      case read16 mem of Some rd \<Rightarrow> rd m addr | None \<Rightarrow> 0)"

definition line_chip_write16 :: "'m rigel_chip_ram_if \<Rightarrow> 'm \<Rightarrow> u32 \<Rightarrow> u16 \<Rightarrow> 'm" where
  "line_chip_write16 mem m addr value =
     (let addr = addr AND BLITTER_CHIP_ADDR_MASK in
      case write16 mem of Some wr \<Rightarrow> wr m addr value | None \<Rightarrow> m)"

definition line_blitter_logic :: "u8 \<Rightarrow> u16 \<Rightarrow> u16 \<Rightarrow> u16 \<Rightarrow> u16" where
  "line_blitter_logic mt A B C =
     (let na = NOT A; nb = NOT B; nc = NOT C; D = 0;
          D = (if mt AND 0x80 \<noteq> 0 then D OR (A AND B AND C) else D);
          D = (if mt AND 0x40 \<noteq> 0 then D OR (A AND B AND nc) else D);
          D = (if mt AND 0x20 \<noteq> 0 then D OR (A AND nb AND C) else D);
          D = (if mt AND 0x10 \<noteq> 0 then D OR (A AND nb AND nc) else D);
          D = (if mt AND 0x08 \<noteq> 0 then D OR (na AND B AND C) else D);
          D = (if mt AND 0x04 \<noteq> 0 then D OR (na AND B AND nc) else D);
          D = (if mt AND 0x02 \<noteq> 0 then D OR (na AND nb AND C) else D);
          D = (if mt AND 0x01 \<noteq> 0 then D OR (na AND nb AND nc) else D)
      in D)"

definition line_rotate_pattern :: "u16 \<Rightarrow> u8 \<Rightarrow> u16" where
  "line_rotate_pattern pattern shift =
     (if shift = 0 then pattern
      else drop_bit (unat shift) pattern OR push_bit (16 - unat shift) pattern)"

definition line_incx :: "BlitterLineState \<Rightarrow> BlitterLineState" where
  "line_incx s =
     (let s = s\<lparr>ls_x_shift := ls_x_shift s + 1\<rparr> in
      if ls_x_shift s = 16
      then s\<lparr>ls_x_shift := 0, ls_cpt := (ls_cpt s + 2) AND BLITTER_CHIP_ADDR_MASK\<rparr>
      else s)"

definition line_decx :: "BlitterLineState \<Rightarrow> BlitterLineState" where
  "line_decx s =
     (if ls_x_shift s = 0
      then s\<lparr>ls_x_shift := 15, ls_cpt := (ls_cpt s - 2) AND BLITTER_CHIP_ADDR_MASK\<rparr>
      else s\<lparr>ls_x_shift := ls_x_shift s - 1\<rparr>)"

definition line_incy :: "i16 \<Rightarrow> BlitterLineState \<Rightarrow> BlitterLineState" where
  "line_incy md s = s\<lparr>ls_cpt := (ls_cpt s + scast md) AND BLITTER_CHIP_ADDR_MASK,
     ls_one_dot_count := 0\<rparr>"

definition line_decy :: "i16 \<Rightarrow> BlitterLineState \<Rightarrow> BlitterLineState" where
  "line_decy md s = s\<lparr>ls_cpt := (ls_cpt s - scast md) AND BLITTER_CHIP_ADDR_MASK,
     ls_one_dot_count := 0\<rparr>"

definition line_advance :: "BlitCommand \<Rightarrow> BlitterLineState \<Rightarrow> BlitterLineState" where
  "line_advance cmd s =
     (let s = (if use_a cmd then
                 (if ls_sign s then s\<lparr>ls_error := ls_error s + bmod cmd\<rparr>
                  else s\<lparr>ls_error := ls_error s + amod cmd\<rparr>)
               else s);
          s = (if \<not> ls_sign s then
                 (if line_octant cmd AND 0x04 \<noteq> 0 then
                    (if line_octant cmd AND 0x02 \<noteq> 0 then line_decy (cmod cmd) s
                     else line_incy (cmod cmd) s)
                  else
                    (if line_octant cmd AND 0x02 \<noteq> 0 then line_decx s else line_incx s))
               else s);
          s = (if line_octant cmd AND 0x04 \<noteq> 0 then
                 (if line_octant cmd AND 0x01 \<noteq> 0 then line_decx s else line_incx s)
               else
                 (if line_octant cmd AND 0x01 \<noteq> 0 then line_decy (cmod cmd) s
                  else line_incy (cmod cmd) s))
      in s\<lparr>ls_sign := sint (ls_error s) < 0\<rparr>)"

definition line_state_init :: "BlitterState \<Rightarrow> BlitterState" where
  "line_state_init b =
     (let cmd = blt_cmd b in
      if ls_initialized (line_state b) then b
      else b\<lparr>line_state := \<lparr>ls_error = ucast (cmd_apt cmd AND 0xffff),
             ls_pattern = line_rotate_pattern (bdat cmd) (bshift cmd),
             ls_cpt = cmd_cpt cmd AND BLITTER_CHIP_ADDR_MASK,
             ls_step_index = 0,
             ls_x_shift = line_start_bit cmd AND 0x0f,
             ls_one_dot_count = 0,
             ls_last_cdat = cdat cmd,
             ls_last_ddat = 0,
             ls_zero = True,
             ls_sign = line_initial_sign cmd,
             ls_initialized = True,
             ls_pixel_slot_phase = 0\<rparr>\<rparr>)"

definition line_publish_partial_result :: "BlitterState \<Rightarrow> BlitterState" where
  "line_publish_partial_result b =
     (let cmd = blt_cmd b; s = line_state b in
      b\<lparr>blt_result := \<lparr>final_apt = (cmd_apt cmd AND 0xffff0000) OR ucast (ls_error s),
          final_bpt = cmd_bpt cmd, final_cpt = ls_cpt s, final_dpt = ls_cpt s,
          final_adat = adat cmd, final_bdat = bdat cmd, final_cdat = ls_last_cdat s,
          final_ddat = ls_last_ddat s, final_bhold = bhold cmd, result_zero = ls_zero s\<rparr>\<rparr>)"

definition blitter_line_step ::
    "'m rigel_chip_ram_if \<Rightarrow> BlitterState \<times> 'm \<Rightarrow> BlitterState \<times> 'm" where
  "blitter_line_step mem bm =
     (let (b, m) = bm in
      if cmd_mode (blt_cmd b) \<noteq> BLITTER_MODE_LINE then (b, m)
      else
        let cmd = blt_cmd b;
            b = line_state_init b;
            s = line_state b
        in if ls_step_index s \<ge> height_lines cmd then (b, m)
           else
             let cval = (if use_c cmd then line_chip_read16 mem m (ls_cpt s) else cdat cmd);
                 s = s\<lparr>ls_last_cdat := cval\<rparr>;
                 ahold = drop_bit (unat (ls_x_shift s)) (adat cmd AND afwm cmd);
                 bh = (if ls_pattern s AND 1 \<noteq> 0 then 0xffff else 0);
                 dval = line_blitter_logic (minterm cmd) ahold bh cval;
                 write_pixel = (\<not> line_single_dot cmd \<or> ls_one_dot_count s = 0);
                 m = (if use_c cmd \<and> write_pixel then line_chip_write16 mem m (ls_cpt s) dval else m);
                 s = (if dval \<noteq> 0 then s\<lparr>ls_zero := False\<rparr> else s);
                 s = s\<lparr>ls_last_ddat := dval, ls_step_index := ls_step_index s + 1,
                       ls_one_dot_count := ls_one_dot_count s + 1\<rparr>;
                 s = line_advance cmd s;
                 s = s\<lparr>ls_pattern := push_bit 1 (ls_pattern s) OR drop_bit 15 (ls_pattern s)\<rparr>
             in (line_publish_partial_result (b\<lparr>line_state := s\<rparr>), m))"

definition blitter_line_done :: "BlitterState \<Rightarrow> bool" where
  "blitter_line_done b \<longleftrightarrow>
     cmd_mode (blt_cmd b) \<noteq> BLITTER_MODE_LINE \<or>
     (ls_initialized (line_state b) \<and> ls_step_index (line_state b) \<ge> height_lines (blt_cmd b))"

end
