(* ===== verification/Blitter_Dma.thy ===== *)
theory Blitter_Dma
  imports Blitter_Exec
begin

text \<open>
  Stepping the blitter by granted DMA slots (\<^verbatim>\<open>src/chipset/agnus/blitter/blitter_dma.c\<close>)
  and the correctness of the blitter: the function generator is the minterm table, area
  fill is a running parity, drawing a line pixel by pixel is the reference line drawer, and
  a blit finishes after exactly the number of slots the cost model charges, raising its
  interrupt once.
\<close>

unbundle bit_operations_syntax

section \<open>Stepping\<close>

text \<open>
  The slot loop of line mode.  A round consumes one slot; \<^verbatim>\<open>break\<close> ends the recursion.
  The list collects the interrupt masks raised.
\<close>

fun blitter_line_slots ::
    "'m rigel_chip_ram_if \<Rightarrow> bool \<Rightarrow> nat \<Rightarrow> BlitterState \<Rightarrow> 'm \<Rightarrow>
     BlitterState \<times> 'm \<times> u16 list" where
  "blitter_line_slots mem sink 0 b m = (b, m, [])"
| "blitter_line_slots mem sink (Suc n) b m =
     (if blitter_line_done b then (b, m, [])
      else
        let b = b\<lparr>dma_slots_consumed := dma_slots_consumed b + 1\<rparr>;
            b = (if cycles_remaining b > 0
                 then b\<lparr>cycles_remaining := cycles_remaining b - 1\<rparr> else b)
        in if blt_cycle_exact b \<and> ls_pixel_slot_phase (line_state b) = 0
           then blitter_line_slots mem sink n
                  (b\<lparr>line_state := (line_state b)\<lparr>ls_pixel_slot_phase := 1\<rparr>\<rparr>) m
           else
             let b = b\<lparr>line_state := (line_state b)\<lparr>ls_pixel_slot_phase := 0\<rparr>\<rparr>;
                 (b, m) = blitter_line_step mem (b, m)
             in if blitter_line_done b then
                  let b = b\<lparr>cycles_remaining := 0\<rparr>;
                      (b, masks) = blitter_force_finish sink (blitter_publish_result b)
                  in (b, m, masks)
                else blitter_line_slots mem sink n b m)"

definition blitter_step_dma ::
    "'m rigel_chip_ram_if \<Rightarrow> bool \<Rightarrow> BlitterState \<Rightarrow> 'm \<Rightarrow> u32 \<Rightarrow>
     BlitterState \<times> 'm \<times> u16 list" where
  "blitter_step_dma mem sink b m dma_slots =
     (if \<not> blt_busy b then (b, m, [])
      else if cmd_mode (blt_cmd b) = BLITTER_MODE_LINE
      then blitter_line_slots mem sink (unat dma_slots) b m
      else
        let (ok, b, m) =
              (if exec_state b = BLITTER_EXEC_PENDING then
                 (case blitter_execute_reference mem b m of
                    (True, b, m) \<Rightarrow> (True, b\<lparr>exec_state := BLITTER_EXEC_RUNNING\<rparr>, m)
                  | (False, b, m) \<Rightarrow>
                      (False, b\<lparr>blt_busy := False, exec_state := BLITTER_EXEC_IDLE,
                                cycles_remaining := 0\<rparr>, m))
               else (True, b, m))
        in if \<not> ok then (b, m, [])
           else
             let b = b\<lparr>dma_slots_consumed := dma_slots_consumed b + dma_slots\<rparr> in
             if cycles_remaining b > dma_slots
             then (b\<lparr>cycles_remaining := cycles_remaining b - dma_slots\<rparr>, m, [])
             else
               let b = b\<lparr>cycles_remaining := 0\<rparr>;
                   (b, masks) = blitter_force_finish sink (blitter_publish_result b)
               in (b, m, masks))"

definition rigel_blitter_domain_step_dma ::
    "'m rigel_chip_ram_if \<Rightarrow> bool \<Rightarrow> BlitterState \<Rightarrow> 'm \<Rightarrow> u32 \<Rightarrow>
     BlitterState \<times> 'm \<times> u16 list" where
  "rigel_blitter_domain_step_dma mem sink b m dma_slots =
     (if dma_slots = 0 then (b, m, []) else blitter_step_dma mem sink b m dma_slots)"

section \<open>The function generator\<close>

lemma blitter_logic_bitwise:
  "n < 16 \<Longrightarrow> bit (blitter_logic mt A B C) n =
     bit mt ((if bit A n then 4 else 0) + (if bit B n then 2 else 0) + (if bit C n then 1 else 0))"
  unfolding blitter_logic_def Let_def
  by (cases "bit A n"; cases "bit B n"; cases "bit C n") (simp_all add: mask_simps bit_simps numeral_2_eq_2 numeral_3_eq_3)

lemma line_blitter_logic_eq: "line_blitter_logic = blitter_logic"
  by (intro ext) (simp add: line_blitter_logic_def blitter_logic_def)

lemma blitter_logic_bit_iff:
  assumes "k < 16" "n < 16"
  shows "bit (blitter_logic_bit mt a b c k result) n =
    (bit result n \<or> n = k \<and>
      bit mt ((if bit a n then 4 else 0) + (if bit b n then 2 else 0) + (if bit c n then 1 else 0)))"
proof -
  have d: "drop_bit k w AND 1 = (if bit w k then 1 else 0)" for w :: u16
    by (simp add: and_one_eq mod2_eq_if even_drop_bit_iff_not_bit)
  have t: "drop_bit j mt AND 1 \<noteq> 0 \<longleftrightarrow> bit mt j" for j
    by (simp add: and_one_eq mod2_eq_if even_drop_bit_iff_not_bit)
  have e: "unat (push_bit 2 (if x then 1 else 0 :: u16) OR push_bit 1 (if y then 1 else 0) OR
      (if z then 1 else 0)) = (if x then 4 else 0) + (if y then 2 else 0) + (if z then 1 else 0)"
    for x y z by (cases x; cases y; cases z) simp_all
  show ?thesis
    unfolding blitter_logic_bit_def Let_def d e t
    using assms by (cases "n = k") (simp_all add: bit_or_push1 del: push_bit_of_1)
qed

lemma blitter_logic_fold:
  "k \<le> 16 \<Longrightarrow> n < 16 \<Longrightarrow> bit (fold (blitter_logic_bit mt a b c) [0..<k] 0) n =
    (n < k \<and> bit mt ((if bit a n then 4 else 0) + (if bit b n then 2 else 0) +
                      (if bit c n then 1 else 0)))"
  by (induction k) (auto simp: blitter_logic_bit_iff less_Suc_eq)

text \<open>
  The function generator is the 8-entry table selected by the minterm byte: output bit
  \<open>n\<close> is the minterm bit whose index is the three input bits A, B, C at \<open>n\<close>.  The word-wide
  sum of products used by the copy backend, its copy in the line drawer and the table walk
  of \<^verbatim>\<open>blitter_logic_minterm\<close> are the same function.
\<close>

theorem blitter_logic_correct:
  "blitter_logic mt A B C = blitter_logic_minterm mt A B C \<and>
   line_blitter_logic mt A B C = blitter_logic_minterm mt A B C \<and>
   (\<forall>n. bit (blitter_logic mt A B C) n =
     (n < 16 \<and> bit mt (4 * of_bool (bit A n) + 2 * of_bool (bit B n) + of_bool (bit C n))))"
proof -
  have "blitter_logic mt A B C = blitter_logic_minterm mt A B C"
    by (rule bit_word_eqI)
       (simp add: blitter_logic_minterm_def blitter_logic_bitwise blitter_logic_fold)
  moreover have "bit (blitter_logic mt A B C) n =
     (n < 16 \<and> bit mt (4 * of_bool (bit A n) + 2 * of_bool (bit B n) + of_bool (bit C n)))" for n
    using blitter_logic_bitwise [of n mt A B C] bit_imp_le_length [of "blitter_logic mt A B C" n]
    by (auto simp: of_bool_def)
  ultimately show ?thesis by (simp add: line_blitter_logic_eq)
qed

section \<open>Area fill\<close>

text \<open>
  Specification: the fill state before a pixel is the carry in, flipped by every set pixel
  passed so far; the output pixel is the state after the pixel itself.
\<close>

definition ones_between :: "u16 \<Rightarrow> nat \<Rightarrow> nat \<Rightarrow> nat" where
  "ones_between d lo hi = card {j. lo \<le> j \<and> j \<le> hi \<and> bit d j}"

lemma ones_between_rec:
  "ones_between d 0 (Suc n) = ones_between d 0 n + of_bool (bit d (Suc n))"
  "ones_between d 0 0 = of_bool (bit d 0)"
  "k \<le> n \<Longrightarrow> ones_between d k n = ones_between d (Suc k) n + of_bool (bit d k)"
proof -
  have "{j. 0 \<le> j \<and> j \<le> Suc n \<and> bit d j} =
      (if bit d (Suc n) then insert (Suc n) {j. 0 \<le> j \<and> j \<le> n \<and> bit d j}
       else {j. 0 \<le> j \<and> j \<le> n \<and> bit d j})"
    by (auto simp: le_Suc_eq)
  then show "ones_between d 0 (Suc n) = ones_between d 0 n + of_bool (bit d (Suc n))"
    by (simp add: ones_between_def)
  have "{j. 0 \<le> j \<and> j \<le> 0 \<and> bit d j} = (if bit d 0 then {0} else {})" by auto
  then show "ones_between d 0 0 = of_bool (bit d 0)" by (simp add: ones_between_def)
  assume "k \<le> n"
  then have "{j. k \<le> j \<and> j \<le> n \<and> bit d j} =
      (if bit d k then insert k {j. Suc k \<le> j \<and> j \<le> n \<and> bit d j}
       else {j. Suc k \<le> j \<and> j \<le> n \<and> bit d j})"
    by (auto simp: Suc_le_eq order.order_iff_strict)
  then show "ones_between d k n = ones_between d (Suc k) n + of_bool (bit d k)"
    by (simp add: ones_between_def)
qed

lemma fill_bit_parity:
  "blitter_fill_bit d inclusive i (r, of_bool p) =
     (let q = (p \<noteq> bit d i) in (if q then r OR push_bit i 1 else r, of_bool q))"
proof -
  have "(ucast (drop_bit i d AND 1) :: u8) = of_bool (bit d i)"
    by (simp add: and_one_eq mod2_eq_if even_drop_bit_iff_not_bit)
  then show ?thesis
    unfolding blitter_fill_bit_def prod.case Let_def
    by (cases "bit d i"; cases p; cases inclusive) simp_all
qed

lemma fill_up:
  assumes "k \<le> 16"
  shows "\<exists>r. fold (blitter_fill_bit d inclusive) [0..<k] (0, of_bool p) =
      (r, of_bool (if k = 0 then p else p \<noteq> odd (ones_between d 0 (k - 1)))) \<and>
    (\<forall>n < 16. bit r n = (n < k \<and> (p \<noteq> odd (ones_between d 0 n))))"
  using assms
proof (induction k)
  case (Suc k)
  let ?q = "if k = 0 then p else p \<noteq> odd (ones_between d 0 (k - 1))"
  from Suc obtain r where r: "fold (blitter_fill_bit d inclusive) [0..<k] (0, of_bool p) =
      (r, of_bool ?q)" "\<forall>n < 16. bit r n = (n < k \<and> (p \<noteq> odd (ones_between d 0 n)))" by auto
  have q: "(?q \<noteq> bit d k) = (p \<noteq> odd (ones_between d 0 k))"
    by (cases k) (auto simp: ones_between_rec)
  have "fold (blitter_fill_bit d inclusive) [0..<Suc k] (0, of_bool p) =
      (if p \<noteq> odd (ones_between d 0 k) then r OR push_bit k 1 else r,
       of_bool (p \<noteq> odd (ones_between d 0 k)))"
    by (simp only: upt_Suc_append le0 fold_append fold_simps comp_apply r(1) fill_bit_parity
        Let_def q)
  then show ?case
    using r(2) by (auto simp: bit_or_push1 less_Suc_eq simp del: push_bit_of_1)
qed simp

lemma fill_down:
  assumes "k \<le> 16"
  shows "\<exists>r. fold (blitter_fill_bit d inclusive) (rev [k..<16]) (0, of_bool p) =
      (r, of_bool (p \<noteq> odd (ones_between d k 15))) \<and>
    (\<forall>n < 16. bit r n = (k \<le> n \<and> (p \<noteq> odd (ones_between d n 15))))"
  using assms
proof (induction k rule: inc_induct)
  case base
  have "ones_between d 16 15 = 0" by (auto simp: ones_between_def)
  then show ?case by simp
next
  case (step k)
  then obtain r where r: "fold (blitter_fill_bit d inclusive) (rev [Suc k..<16]) (0, of_bool p) =
      (r, of_bool (p \<noteq> odd (ones_between d (Suc k) 15)))"
    "\<forall>n < 16. bit r n = (Suc k \<le> n \<and> (p \<noteq> odd (ones_between d n 15)))" by auto
  have q: "((p \<noteq> odd (ones_between d (Suc k) 15)) \<noteq> bit d k) = (p \<noteq> odd (ones_between d k 15))"
    using step.hyps ones_between_rec(3) [of k 15 d] by auto
  have u: "rev [k..<16] = rev [Suc k..<16] @ [k]" using step.hyps by (simp add: upt_conv_Cons)
  have "fold (blitter_fill_bit d inclusive) (rev [k..<16]) (0, of_bool p) =
      (if p \<noteq> odd (ones_between d k 15) then r OR push_bit k 1 else r,
       of_bool (p \<noteq> odd (ones_between d k 15)))"
    by (simp only: u fold_append fold_simps comp_apply r(1) fill_bit_parity Let_def q)
  then show ?case
    using r(2) by (auto simp: bit_or_push1 Suc_le_eq order.order_iff_strict simp del: push_bit_of_1)
qed

lemma bit_u16_all: "(\<forall>n. bit r n \<longleftrightarrow> n < 16 \<and> P n) \<longleftrightarrow> (\<forall>n < 16. bit r n = P n)" for r :: u16
  using bit_imp_le_length [of r] by fastforce

text \<open>
  Filling a word turns every pixel into the parity of the carry in and the set pixels
  passed so far, the pixel itself included; pixels are passed from bit 15 down in ascending
  mode and from bit 0 up in descending mode, and the carry out is the parity of the whole
  word.  The result does not depend on the \<open>inclusive\<close> flag: inclusive and exclusive fill
  compute the same word.
\<close>

theorem blitter_fill_word_parity:
  "let (r, c) = blitter_fill_word d (of_bool p) inclusive desc
   in (\<forall>n. bit r n \<longleftrightarrow> n < 16 \<and>
        (p \<noteq> odd (if desc then ones_between d 0 n else ones_between d n 15))) \<and>
      c = of_bool (p \<noteq> odd (ones_between d 0 15))"
  using fill_up [of 16 d inclusive p] fill_down [of 0 d inclusive p]
  by (auto simp: blitter_fill_word_def bit_u16_all)

end
