(* ===== verification/Blitter_Line.thy ===== *)
theory Blitter_Line
  imports Blitter_Dma
begin

text \<open>
  Line mode: drawing a line with \<^verbatim>\<open>blitter_line_step\<close>, one pixel per call, computes the
  memory and the result of the reference drawer \<^verbatim>\<open>execute_line_mode\<close>.
\<close>

unbundle bit_operations_syntax

section \<open>The stages of one pixel\<close>

text \<open>
  The reference loop body is one long sequence of updates of its local variables.  The
  stages below name the pieces, on the locals and on the line state of the incremental
  drawer; \<open>line_abs\<close> relates the two.
\<close>

definition L_err :: "BlitCommand \<Rightarrow> line_locals \<Rightarrow> line_locals" where
  "L_err cmd l = (if use_a cmd then
       (if ll_sign l then l\<lparr>ll_error := ll_error l + bmod cmd\<rparr>
        else l\<lparr>ll_error := ll_error l + amod cmd\<rparr>)
     else l)"

definition L_minor :: "BlitCommand \<Rightarrow> line_locals \<Rightarrow> line_locals" where
  "L_minor cmd l = (if \<not> ll_sign l then
       (if line_octant cmd AND 0x04 \<noteq> 0 then
          (if line_octant cmd AND 0x02 \<noteq> 0
           then l\<lparr>ll_cpt := (ll_cpt l - scast (cmod cmd)) AND BLITTER_CHIP_ADDR_MASK,
                  ll_one_dot_count := 0\<rparr>
           else l\<lparr>ll_cpt := (ll_cpt l + scast (cmod cmd)) AND BLITTER_CHIP_ADDR_MASK,
                  ll_one_dot_count := 0\<rparr>)
        else if line_octant cmd AND 0x02 \<noteq> 0 then
          (if ll_x_shift l = 0
           then l\<lparr>ll_x_shift := 15, ll_cpt := (ll_cpt l - 2) AND BLITTER_CHIP_ADDR_MASK\<rparr>
           else l\<lparr>ll_x_shift := ll_x_shift l - 1\<rparr>)
        else
          (let l = l\<lparr>ll_x_shift := ll_x_shift l + 1\<rparr> in
           if ll_x_shift l = 16
           then l\<lparr>ll_x_shift := 0, ll_cpt := (ll_cpt l + 2) AND BLITTER_CHIP_ADDR_MASK\<rparr>
           else l))
     else l)"

definition L_major :: "BlitCommand \<Rightarrow> line_locals \<Rightarrow> line_locals" where
  "L_major cmd l = (if line_octant cmd AND 0x04 \<noteq> 0 then
       (if line_octant cmd AND 0x01 \<noteq> 0 then
          (if ll_x_shift l = 0
           then l\<lparr>ll_x_shift := 15, ll_cpt := (ll_cpt l - 2) AND BLITTER_CHIP_ADDR_MASK\<rparr>
           else l\<lparr>ll_x_shift := ll_x_shift l - 1\<rparr>)
        else
          (let l = l\<lparr>ll_x_shift := ll_x_shift l + 1\<rparr> in
           if ll_x_shift l = 16
           then l\<lparr>ll_x_shift := 0, ll_cpt := (ll_cpt l + 2) AND BLITTER_CHIP_ADDR_MASK\<rparr>
           else l))
     else if line_octant cmd AND 0x01 \<noteq> 0 then
       l\<lparr>ll_cpt := (ll_cpt l - scast (cmod cmd)) AND BLITTER_CHIP_ADDR_MASK,
         ll_one_dot_count := 0\<rparr>
     else
       l\<lparr>ll_cpt := (ll_cpt l + scast (cmod cmd)) AND BLITTER_CHIP_ADDR_MASK,
         ll_one_dot_count := 0\<rparr>)"

definition line_pixel :: "'m rigel_chip_ram_if \<Rightarrow> BlitCommand \<Rightarrow> u32 \<Rightarrow> u8 \<Rightarrow> u16 \<Rightarrow> 'm \<Rightarrow> u16 \<times> u16" where
  "line_pixel mem cmd cpt xs pattern m =
     (let cval = (if use_c cmd then chip_read16 mem m cpt else cdat cmd) in
      (cval, blitter_logic (minterm cmd) (drop_bit (unat xs) (adat cmd AND afwm cmd))
               (if pattern AND 1 \<noteq> 0 then 0xffff else 0) cval))"

definition L_draw :: "u16 \<times> u16 \<Rightarrow> line_locals \<Rightarrow> line_locals" where
  "L_draw px l = l\<lparr>ll_last_cdat := fst px, ll_zero := (ll_zero l \<and> snd px = 0),
     ll_ddat := snd px, ll_one_dot_count := ll_one_dot_count l + 1\<rparr>"

definition L_close :: "line_locals \<Rightarrow> line_locals" where
  "L_close l = l\<lparr>ll_sign := sint (ll_error l) < 0,
     ll_pattern := push_bit 1 (ll_pattern l) OR drop_bit 15 (ll_pattern l)\<rparr>"

lemma line_iteration_stages:
  "line_iteration mem cmd (l, m) =
     (let px = line_pixel mem cmd (ll_cpt l) (ll_x_shift l) (ll_pattern l) m in
      (L_close (L_major cmd (L_minor cmd (L_err cmd (L_draw px l)))),
       if use_c cmd \<and> (\<not> line_single_dot cmd \<or> ll_one_dot_count l = 0)
       then chip_write16 mem m (ll_cpt l) (snd px) else m))"
proof -
  have "line_iteration mem cmd (l, m) =
     (let (l, m) = (l, m);
          cval = (if use_c cmd then chip_read16 mem m (ll_cpt l) else cdat cmd);
          l = l\<lparr>ll_last_cdat := cval\<rparr>;
          ahold = drop_bit (unat (ll_x_shift l)) (adat cmd AND afwm cmd);
          bh = (if ll_pattern l AND 1 \<noteq> 0 then 0xffff else 0);
          dval = blitter_logic (minterm cmd) ahold bh cval;
          write_pixel = (\<not> line_single_dot cmd \<or> ll_one_dot_count l = 0);
          m = (if use_c cmd \<and> write_pixel then chip_write16 mem m (ll_cpt l) dval else m);
          l = (if dval \<noteq> 0 then l\<lparr>ll_zero := False\<rparr> else l);
          l = l\<lparr>ll_ddat := dval, ll_one_dot_count := ll_one_dot_count l + 1\<rparr>;
          l = L_err cmd l; l = L_minor cmd l; l = L_major cmd l;
          l = l\<lparr>ll_sign := sint (ll_error l) < 0\<rparr>;
          l = l\<lparr>ll_pattern := push_bit 1 (ll_pattern l) OR drop_bit 15 (ll_pattern l)\<rparr>
      in (l, m))"
    unfolding line_iteration_def L_err_def L_minor_def L_major_def by (rule refl)
  also have "\<dots> = (let px = line_pixel mem cmd (ll_cpt l) (ll_x_shift l) (ll_pattern l) m in
      (L_close (L_major cmd (L_minor cmd (L_err cmd (L_draw px l)))),
       if use_c cmd \<and> (\<not> line_single_dot cmd \<or> ll_one_dot_count l = 0)
       then chip_write16 mem m (ll_cpt l) (snd px) else m))"
  proof -
    have "(if d \<noteq> 0 then l\<lparr>ll_last_cdat := c\<rparr>\<lparr>ll_zero := False\<rparr> else l\<lparr>ll_last_cdat := c\<rparr>)
        \<lparr>ll_ddat := d, ll_one_dot_count := k\<rparr> =
      l\<lparr>ll_last_cdat := c, ll_zero := (ll_zero l \<and> d = 0), ll_ddat := d, ll_one_dot_count := k\<rparr>"
      for c d k by simp
    moreover have "ll_one_dot_count (if d \<noteq> (0 :: u16) then l\<lparr>ll_last_cdat := c\<rparr>\<lparr>ll_zero := False\<rparr>
        else l\<lparr>ll_last_cdat := c\<rparr>) = ll_one_dot_count l" for c d by simp
    ultimately show ?thesis
      by (simp only: Let_def prod.case line_pixel_def L_draw_def L_close_def fst_conv snd_conv)
         (auto split: if_splits)
  qed
  finally show ?thesis .
qed

section \<open>The incremental drawer, stage by stage\<close>

definition line_abs :: "BlitterLineState \<Rightarrow> line_locals" where
  "line_abs s = \<lparr>ll_error = ls_error s, ll_x_shift = ls_x_shift s,
     ll_one_dot_count = ls_one_dot_count s, ll_pattern = ls_pattern s, ll_cpt = ls_cpt s,
     ll_zero = ls_zero s, ll_sign = ls_sign s, ll_last_cdat = ls_last_cdat s,
     ll_ddat = ls_last_ddat s\<rparr>"

text \<open>The part of the line state that drawing a pixel does not touch except for the count.\<close>

definition line_ctl :: "BlitterLineState \<Rightarrow> u16 \<times> bool \<times> u8" where
  "line_ctl s = (ls_step_index s, ls_initialized s, ls_pixel_slot_phase s)"

definition S_err :: "BlitCommand \<Rightarrow> BlitterLineState \<Rightarrow> BlitterLineState" where
  "S_err cmd s = (if use_a cmd then
       (if ls_sign s then s\<lparr>ls_error := ls_error s + bmod cmd\<rparr>
        else s\<lparr>ls_error := ls_error s + amod cmd\<rparr>)
     else s)"

definition S_minor :: "BlitCommand \<Rightarrow> BlitterLineState \<Rightarrow> BlitterLineState" where
  "S_minor cmd s = (if \<not> ls_sign s then
       (if line_octant cmd AND 0x04 \<noteq> 0 then
          (if line_octant cmd AND 0x02 \<noteq> 0 then line_decy (cmod cmd) s
           else line_incy (cmod cmd) s)
        else
          (if line_octant cmd AND 0x02 \<noteq> 0 then line_decx s else line_incx s))
     else s)"

definition S_major :: "BlitCommand \<Rightarrow> BlitterLineState \<Rightarrow> BlitterLineState" where
  "S_major cmd s = (if line_octant cmd AND 0x04 \<noteq> 0 then
       (if line_octant cmd AND 0x01 \<noteq> 0 then line_decx s else line_incx s)
     else
       (if line_octant cmd AND 0x01 \<noteq> 0 then line_decy (cmod cmd) s
        else line_incy (cmod cmd) s))"

lemma line_advance_stages:
  "line_advance cmd s = (let s = S_major cmd (S_minor cmd (S_err cmd s))
     in s\<lparr>ls_sign := sint (ls_error s) < 0\<rparr>)"
proof -
  have "line_advance cmd s = (let s = S_err cmd s; s = S_minor cmd s; s = S_major cmd s
      in s\<lparr>ls_sign := sint (ls_error s) < 0\<rparr>)"
    unfolding line_advance_def S_err_def S_minor_def S_major_def by (rule refl)
  then show ?thesis by (simp only: Let_def)
qed

lemmas line_moves = line_incx_def line_decx_def line_incy_def line_decy_def Let_def

lemma S_err_abs: "line_abs (S_err cmd s) = L_err cmd (line_abs s)" "line_ctl (S_err cmd s) = line_ctl s"
  by (simp_all add: S_err_def L_err_def line_abs_def line_ctl_def)

lemma S_minor_abs:
  "line_abs (S_minor cmd s) = L_minor cmd (line_abs s)" "line_ctl (S_minor cmd s) = line_ctl s"
  by (simp_all add: S_minor_def L_minor_def line_abs_def line_ctl_def line_moves)

lemma S_major_abs:
  "line_abs (S_major cmd s) = L_major cmd (line_abs s)" "line_ctl (S_major cmd s) = line_ctl s"
  by (simp_all add: S_major_def L_major_def line_abs_def line_ctl_def line_moves)

definition S_draw :: "u16 \<times> u16 \<Rightarrow> BlitterLineState \<Rightarrow> BlitterLineState" where
  "S_draw px s = s\<lparr>ls_last_cdat := fst px, ls_zero := (ls_zero s \<and> snd px = 0),
     ls_last_ddat := snd px, ls_step_index := ls_step_index s + 1,
     ls_one_dot_count := ls_one_dot_count s + 1\<rparr>"

definition S_close :: "BlitterLineState \<Rightarrow> BlitterLineState" where
  "S_close s = s\<lparr>ls_sign := sint (ls_error s) < 0,
     ls_pattern := push_bit 1 (ls_pattern s) OR drop_bit 15 (ls_pattern s)\<rparr>"

lemma S_draw_abs: "line_abs (S_draw px s) = L_draw px (line_abs s)"
  by (simp add: S_draw_def L_draw_def line_abs_def)

lemma S_close_abs: "line_abs (S_close s) = L_close (line_abs s)" "line_ctl (S_close s) = line_ctl s"
  by (simp_all add: S_close_def L_close_def line_abs_def line_ctl_def)

lemma line_chip_access_eq: "line_chip_read16 = chip_read16" "line_chip_write16 = chip_write16"
  by (intro ext, simp add: line_chip_read16_def chip_read16_def split: option.split)
     (intro ext, simp add: line_chip_write16_def chip_write16_def split: option.split)

lemma blitter_line_step_stages:
  assumes "cmd_mode (blt_cmd b) = BLITTER_MODE_LINE" and "ls_initialized (line_state b)"
    and "ls_step_index (line_state b) < height_lines (blt_cmd b)"
  shows "blitter_line_step mem (b, m) =
    (let cmd = blt_cmd b; s = line_state b;
         px = line_pixel mem cmd (ls_cpt s) (ls_x_shift s) (ls_pattern s) m;
         s' = S_close (S_major cmd (S_minor cmd (S_err cmd (S_draw px s))))
     in (line_publish_partial_result (b\<lparr>line_state := s'\<rparr>),
         if use_c cmd \<and> (\<not> line_single_dot cmd \<or> ls_one_dot_count s = 0)
         then chip_write16 mem m (ls_cpt s) (snd px) else m))"
proof -
  let ?cmd = "blt_cmd b" and ?s = "line_state b"
  define c where "c = (if use_c ?cmd then chip_read16 mem m (ls_cpt ?s) else cdat ?cmd)"
  define d where "d = blitter_logic (minterm ?cmd)
      (drop_bit (unat (ls_x_shift ?s)) (adat ?cmd AND afwm ?cmd))
      (if ls_pattern ?s AND 1 \<noteq> 0 then 0xffff else 0) c"
  have px: "line_pixel mem ?cmd (ls_cpt ?s) (ls_x_shift ?s) (ls_pattern ?s) m = (c, d)"
    by (simp only: line_pixel_def c_def d_def Let_def)
  have i: "line_state_init b = b" using assms(2) by (simp add: line_state_init_def)
  have sel: "ls_x_shift (s\<lparr>ls_last_cdat := x\<rparr>) = ls_x_shift s"
    "ls_pattern (s\<lparr>ls_last_cdat := x\<rparr>) = ls_pattern s" "ls_cpt (s\<lparr>ls_last_cdat := x\<rparr>) = ls_cpt s"
    "ls_one_dot_count (s\<lparr>ls_last_cdat := x\<rparr>) = ls_one_dot_count s" for s x by simp_all
  have idx: "height_lines ?cmd \<le> ls_step_index ?s \<longleftrightarrow> False" using assms(3) by (simp add: not_le)
  have "blitter_line_step mem (b, m) =
    (let s = ?s\<lparr>ls_last_cdat := c\<rparr>;
         s = (if d \<noteq> 0 then s\<lparr>ls_zero := False\<rparr> else s);
         s = s\<lparr>ls_last_ddat := d, ls_step_index := ls_step_index s + 1,
               ls_one_dot_count := ls_one_dot_count s + 1\<rparr>;
         s = line_advance ?cmd s;
         s = s\<lparr>ls_pattern := push_bit 1 (ls_pattern s) OR drop_bit 15 (ls_pattern s)\<rparr>
     in (line_publish_partial_result (b\<lparr>line_state := s\<rparr>),
         if use_c ?cmd \<and> (\<not> line_single_dot ?cmd \<or> ls_one_dot_count ?s = 0)
         then chip_write16 mem m (ls_cpt ?s) d else m))"
    by (simp only: blitter_line_step_def prod.case i line_blitter_logic_eq line_chip_access_eq
        Let_def assms(1) idx sel c_def [symmetric] d_def [symmetric]
        simp_thms if_False)
  also have "\<dots> = (let s' = S_close (S_major ?cmd (S_minor ?cmd (S_err ?cmd (S_draw (c, d) ?s))))
     in (line_publish_partial_result (b\<lparr>line_state := s'\<rparr>),
         if use_c ?cmd \<and> (\<not> line_single_dot ?cmd \<or> ls_one_dot_count ?s = 0)
         then chip_write16 mem m (ls_cpt ?s) d else m))"
  proof -
    have "(let s = ?s\<lparr>ls_last_cdat := c\<rparr>; s = (if d \<noteq> 0 then s\<lparr>ls_zero := False\<rparr> else s)
        in s\<lparr>ls_last_ddat := d, ls_step_index := ls_step_index s + 1,
             ls_one_dot_count := ls_one_dot_count s + 1\<rparr>) = S_draw (c, d) ?s"
      by (simp add: S_draw_def Let_def)
    then show ?thesis
      unfolding Let_def by (simp only: line_advance_stages Let_def S_close_def) simp
  qed
  finally show ?thesis by (simp only: px Let_def snd_conv)
qed

section \<open>Simulation\<close>

definition line_result :: "BlitCommand \<Rightarrow> line_locals \<Rightarrow> BlitterResult" where
  "line_result cmd l = \<lparr>final_apt = (cmd_apt cmd AND 0xffff0000) OR ucast (ll_error l),
     final_bpt = cmd_bpt cmd, final_cpt = ll_cpt l, final_dpt = ll_cpt l,
     final_adat = adat cmd, final_bdat = bdat cmd, final_cdat = ll_last_cdat l,
     final_ddat = ll_ddat l, final_bhold = bhold cmd, result_zero = ll_zero l\<rparr>"

lemma publish_partial_eq:
  "line_publish_partial_result b = b\<lparr>blt_result := line_result (blt_cmd b) (line_abs (line_state b))\<rparr>"
  by (simp add: line_publish_partial_result_def line_result_def line_abs_def Let_def)

lemma line_step_sim:
  assumes "cmd_mode (blt_cmd b) = BLITTER_MODE_LINE" and "ls_initialized (line_state b)"
    and "ls_step_index (line_state b) < height_lines (blt_cmd b)"
    and "line_iteration mem (blt_cmd b) (line_abs (line_state b), m) = (l', m')"
  shows "\<exists>s'. blitter_line_step mem (b, m) =
      (b\<lparr>line_state := s', blt_result := line_result (blt_cmd b) l'\<rparr>, m') \<and>
    line_abs s' = l' \<and> line_ctl s' =
      (ls_step_index (line_state b) + 1, True, ls_pixel_slot_phase (line_state b))"
proof -
  let ?cmd = "blt_cmd b" and ?s = "line_state b"
  let ?px = "line_pixel mem ?cmd (ls_cpt ?s) (ls_x_shift ?s) (ls_pattern ?s) m"
  let ?t = "S_close (S_major ?cmd (S_minor ?cmd (S_err ?cmd (S_draw ?px ?s))))"
  have f: "ll_cpt (line_abs ?s) = ls_cpt ?s" "ll_x_shift (line_abs ?s) = ls_x_shift ?s"
    "ll_pattern (line_abs ?s) = ls_pattern ?s" "ll_one_dot_count (line_abs ?s) = ls_one_dot_count ?s"
    by (simp_all add: line_abs_def)
  have t: "line_abs ?t = l'" and m: "(if use_c ?cmd \<and> (\<not> line_single_dot ?cmd \<or> ls_one_dot_count ?s = 0)
      then chip_write16 mem m (ls_cpt ?s) (snd ?px) else m) = m'"
    using assms(4)
    by (simp_all only: line_iteration_stages Let_def f prod.inject S_draw_abs S_err_abs
        S_minor_abs S_major_abs S_close_abs)
  have "line_ctl ?t = line_ctl (S_draw ?px ?s)"
    by (simp only: S_err_abs S_minor_abs S_major_abs S_close_abs)
  also have "\<dots> = (ls_step_index ?s + 1, True, ls_pixel_slot_phase ?s)"
    using assms(2) by (simp add: line_ctl_def S_draw_def)
  finally show ?thesis
    using t m
    by (simp only: blitter_line_step_stages [OF assms(1-3)] Let_def publish_partial_eq) auto
qed

lemma line_step_init:
  assumes "cmd_mode (blt_cmd b) = BLITTER_MODE_LINE"
  shows "blitter_line_step mem (b, m) = blitter_line_step mem (line_state_init b, m)"
proof -
  have "line_state_init (line_state_init b) = line_state_init b"
    "blt_cmd (line_state_init b) = blt_cmd b"
    by (simp_all add: line_state_init_def Let_def)
  then show ?thesis
    by (simp only: blitter_line_step_def prod.case Let_def assms simp_thms if_False)
qed

text \<open>
  The state after \<open>k\<close> pixels.  Before the first pixel the line state may still be
  uninitialised, in which case nothing has been drawn.
\<close>

definition line_at ::
    "'m rigel_chip_ram_if \<Rightarrow> BlitCommand \<Rightarrow> 'm \<Rightarrow> nat \<Rightarrow> BlitterState \<Rightarrow> 'm \<Rightarrow> bool" where
  "line_at mem cmd m0 k b m \<longleftrightarrow>
     blt_cmd b = cmd \<and> cmd_mode cmd = BLITTER_MODE_LINE \<and> k \<le> unat (height_lines cmd) \<and>
     (if ls_initialized (line_state b)
      then unat (ls_step_index (line_state b)) = k \<and>
           (line_abs (line_state b), m) = (line_iteration mem cmd ^^ k) (line_locals_init cmd, m0)
      else k = 0 \<and> m = m0)"

lemma line_abs_init:
  assumes "\<not> ls_initialized (line_state b)"
  shows "line_abs (line_state (line_state_init b)) = line_locals_init (blt_cmd b)"
    "line_ctl (line_state (line_state_init b)) = (0, True, 0)"
    "blt_cmd (line_state_init b) = blt_cmd b"
  using assms
  by (simp_all add: line_state_init_def line_abs_def line_ctl_def line_locals_init_def
      line_rotate_pattern_def Let_def unat_eq_zero)

lemma line_at_init:
  "line_at mem cmd m0 k b m \<Longrightarrow> line_at mem cmd m0 k (line_state_init b) m"
proof (cases "ls_initialized (line_state b)")
  case True
  then show "line_at mem cmd m0 k b m \<Longrightarrow> ?thesis" by (simp add: line_state_init_def)
next
  case False
  then show "line_at mem cmd m0 k b m \<Longrightarrow> ?thesis"
    using line_abs_init [OF False] by (simp add: line_at_def line_ctl_def)
qed

lemma line_at_step:
  assumes "line_at mem cmd m0 k b m" and "k < unat (height_lines cmd)"
    and "ls_pixel_slot_phase (line_state b) = 0"
  shows "\<exists>s' m'. blitter_line_step mem (b, m) = (b\<lparr>line_state := s',
        blt_result := line_result cmd (line_abs s')\<rparr>, m') \<and>
    line_at mem cmd m0 (Suc k) (b\<lparr>line_state := s', blt_result := line_result cmd (line_abs s')\<rparr>) m' \<and>
    ls_pixel_slot_phase s' = 0 \<and> ls_initialized s'"
proof -
  let ?b = "line_state_init b"
  have at: "line_at mem cmd m0 k ?b m" by (rule line_at_init [OF assms(1)])
  have mode: "cmd_mode (blt_cmd b) = BLITTER_MODE_LINE" and cmd: "blt_cmd b = cmd"
    using assms(1) by (simp_all add: line_at_def)
  have ini: "ls_initialized (line_state ?b)" "ls_pixel_slot_phase (line_state ?b) = 0"
    "blt_cmd ?b = cmd" "\<And>s r. ?b\<lparr>line_state := s, blt_result := r\<rparr> = b\<lparr>line_state := s, blt_result := r\<rparr>"
    using assms(3) cmd by (simp_all add: line_state_init_def Let_def)
  obtain l' m' where it: "line_iteration mem cmd (line_abs (line_state ?b), m) = (l', m')"
    by (cases "line_iteration mem cmd (line_abs (line_state ?b), m)")
  have idx: "unat (ls_step_index (line_state ?b)) = k"
    and iter: "(line_abs (line_state ?b), m) = (line_iteration mem cmd ^^ k) (line_locals_init cmd, m0)"
    using at ini(1) by (simp_all add: line_at_def)
  have "ls_step_index (line_state ?b) < height_lines (blt_cmd ?b)"
    using idx assms(2) ini(3) by (simp add: word_less_nat_alt)
  from line_step_sim [OF _ ini(1) this, of mem m l' m'] mode it cmd ini(2,3,4)
  obtain s' where s': "blitter_line_step mem (?b, m) =
      (b\<lparr>line_state := s', blt_result := line_result cmd l'\<rparr>, m')" "line_abs s' = l'"
    "line_ctl s' = (ls_step_index (line_state ?b) + 1, True, 0)" by auto
  have "unat (ls_step_index (line_state ?b) + 1) = Suc k"
    using idx assms(2) unat_bounds(2) [of "height_lines cmd"] unat_inc [of "ls_step_index (line_state ?b)"]
    by simp
  moreover have "(line_abs s', m') = (line_iteration mem cmd ^^ Suc k) (line_locals_init cmd, m0)"
    using it by (simp add: s'(2) flip: iter)
  ultimately have "line_at mem cmd m0 (Suc k)
      (b\<lparr>line_state := s', blt_result := line_result cmd (line_abs s')\<rparr>) m'"
    using s'(3) mode cmd assms(2) by (simp add: line_at_def line_ctl_def del: funpow.simps)
  then show ?thesis
    using s' line_step_init [OF mode, of mem m] by (auto simp: line_ctl_def)
qed

lemma line_steps:
  assumes "line_at mem cmd m0 0 b m0" and "ls_pixel_slot_phase (line_state b) = 0"
    and "k \<le> unat (height_lines cmd)"
  shows "\<exists>b' m'. (blitter_line_step mem ^^ k) (b, m0) = (b', m') \<and> line_at mem cmd m0 k b' m' \<and>
    ls_pixel_slot_phase (line_state b') = 0 \<and>
    (0 < k \<longrightarrow> ls_initialized (line_state b') \<and>
       blt_result b' = line_result cmd (line_abs (line_state b')))"
  using assms(3)
proof (induction k)
  case 0
  then show ?case using assms(1,2) by simp
next
  case (Suc k)
  then obtain b1 m1 where 1: "(blitter_line_step mem ^^ k) (b, m0) = (b1, m1)"
    "line_at mem cmd m0 k b1 m1" "ls_pixel_slot_phase (line_state b1) = 0" by auto
  from line_at_step [OF 1(2) _ 1(3)] Suc.prems 1(1) show ?case by fastforce
qed

lemma line_at_fresh:
  "cmd_mode (blt_cmd b) = BLITTER_MODE_LINE \<Longrightarrow> \<not> ls_initialized (line_state b) \<Longrightarrow>
     line_at mem (blt_cmd b) m 0 b m"
  by (simp add: line_at_def)

lemma execute_line_mode_result:
  assumes "height_lines (blt_cmd b) \<noteq> 0"
    and "(line_iteration mem (blt_cmd b) ^^ unat (height_lines (blt_cmd b)))
           (line_locals_init (blt_cmd b), m) = (l, m')"
  shows "execute_line_mode mem b m = (b\<lparr>blt_result := line_result (blt_cmd b) l\<rparr>, m')"
  using assms by (simp add: execute_line_mode_def Let_def line_result_def)

text \<open>
  C2: For every line command, octant, pattern and single-dot setting, calling
  \<^verbatim>\<open>blitter_line_step\<close> once per pixel leaves exactly the memory and the result that
  the reference drawer \<^verbatim>\<open>execute_line_mode\<close> computes in one go, and the line is then
  reported as done.
\<close>

theorem line_steps_eq_reference:
  fixes mem :: "'m rigel_chip_ram_if"
  assumes "cmd_mode (blt_cmd b) = BLITTER_MODE_LINE" and "height_lines (blt_cmd b) \<noteq> 0"
    and "line_state b = zero_line_state"
  shows "let (b', m') = (blitter_line_step mem ^^ unat (height_lines (blt_cmd b))) (b, m);
             (br, mr) = execute_line_mode mem b m
         in m' = mr \<and> blt_result b' = blt_result br \<and> blitter_line_done b'"
proof -
  let ?h = "unat (height_lines (blt_cmd b))"
  have h: "0 < ?h" using assms(2) by (simp add: unat_gt_0)
  have fresh: "\<not> ls_initialized (line_state b)" "ls_pixel_slot_phase (line_state b) = 0"
    by (simp_all add: assms(3) zero_line_state_def)
  obtain b' m' where 1: "(blitter_line_step mem ^^ ?h) (b, m) = (b', m')"
    "line_at mem (blt_cmd b) m ?h b' m'" "ls_initialized (line_state b')"
    "blt_result b' = line_result (blt_cmd b) (line_abs (line_state b'))"
    using line_steps [OF line_at_fresh [OF assms(1) fresh(1), of mem m] fresh(2) order_refl] h
    by auto
  then have it: "(line_iteration mem (blt_cmd b) ^^ ?h) (line_locals_init (blt_cmd b), m) =
      (line_abs (line_state b'), m')" by (simp add: line_at_def)
  have "blitter_line_done b'"
    using 1(2,3) by (simp add: blitter_line_done_def line_at_def word_le_nat_alt)
  then show ?thesis
    using execute_line_mode_result [OF assms(2) it] 1 by simp
qed

theorem line_steps_eq_reference_witness:
  "let b = blitter_init\<lparr>blt_cmd := zero_command\<lparr>cmd_mode := BLITTER_MODE_LINE, height_lines := 3,
         use_a := True, use_c := True, adat := 0x8000, afwm := 0xffff, bdat := 0xffff,
         minterm := 0xca, cmod := 2\<rparr>\<rparr>;
       (b', m') = (blitter_line_step harness_chip_ram ^^ 3) (b, replicate 16 0);
       (br, mr) = execute_line_mode harness_chip_ram b (replicate 16 0)
   in m' = mr \<and> blt_result b' = blt_result br \<and> blitter_line_done b'"
  using line_steps_eq_reference [of "blitter_init\<lparr>blt_cmd := zero_command\<lparr>
         cmd_mode := BLITTER_MODE_LINE, height_lines := 3,
         use_a := True, use_c := True, adat := 0x8000, afwm := 0xffff, bdat := 0xffff,
         minterm := 0xca, cmod := 2\<rparr>\<rparr>" harness_chip_ram "replicate 16 0"]
  by (simp add: Let_def blitter_init_def)

end
