(* ===== verification/Blitter_Slots.thy ===== *)
theory Blitter_Slots
  imports Blitter_Line
begin

text \<open>
  The blitter driven by granted DMA slots.  The locale \<open>slot_engine\<close> is the contract
  between the slot scheduler and a unit of work that needs a known number of slots; it is
  interpreted on line blits and on copy blits, and gives: whatever grants arrive, in
  whatever portions, a blit stays busy until it has received exactly the slots its cost
  estimate charges, then publishes the reference result and raises its interrupt once.
\<close>

unbundle bit_operations_syntax

section \<open>Granting slots\<close>

text \<open>
  A unit of work that is driven by granted slots: \<open>running r\<close> says that \<open>r\<close> more slots are
  needed.  Granting fewer keeps it running with no interrupt; granting the rest finishes
  it and raises the given masks; a finished unit ignores further grants.
\<close>

fun grants :: "('s \<Rightarrow> u32 \<Rightarrow> 's \<times> u16 list) \<Rightarrow> 's \<Rightarrow> u32 list \<Rightarrow> 's \<times> u16 list" where
  "grants step s [] = (s, [])"
| "grants step s (n # ns) =
     (let (s', ms) = step s n; (s'', ms') = grants step s' ns in (s'', ms @ ms'))"

locale slot_engine =
  fixes step :: "'s \<Rightarrow> u32 \<Rightarrow> 's \<times> u16 list"
    and running :: "nat \<Rightarrow> 's \<Rightarrow> bool"
    and finished :: "'s \<Rightarrow> bool"
    and masks :: "u16 list"
  assumes running_pos: "running r s \<Longrightarrow> 0 < r"
    and step_running: "running r s \<Longrightarrow> unat n < r \<Longrightarrow>
      \<exists>s'. step s n = (s', []) \<and> running (r - unat n) s'"
    and step_last: "running r s \<Longrightarrow> r \<le> unat n \<Longrightarrow> \<exists>s'. step s n = (s', masks) \<and> finished s'"
    and step_finished: "finished s \<Longrightarrow> step s n = (s, [])"
begin

lemma grants_finished: "finished s \<Longrightarrow> grants step s ns = (s, [])"
  by (induction ns) (simp_all add: step_finished)

lemma grants_running:
  "running r s \<Longrightarrow> sum_list (map unat ns) < r \<Longrightarrow>
     \<exists>s'. grants step s ns = (s', []) \<and> running (r - sum_list (map unat ns)) s'"
proof (induction ns arbitrary: r s)
  case (Cons n ns)
  from step_running [OF Cons.prems(1), of n] Cons.prems(2)
  obtain s1 where 1: "step s n = (s1, [])" "running (r - unat n) s1" by auto
  from Cons.IH [OF 1(2)] Cons.prems(2) 1(1) show ?case by (auto simp: add.commute)
qed simp

lemma grants_done:
  "running r s \<Longrightarrow> r \<le> sum_list (map unat ns) \<Longrightarrow>
     \<exists>s'. grants step s ns = (s', masks) \<and> finished s'"
proof (induction ns arbitrary: r s)
  case Nil
  then show ?case using running_pos [of r s] by simp
next
  case (Cons n ns)
  show ?case
  proof (cases "unat n < r")
    case True
    from step_running [OF Cons.prems(1) True]
    obtain s1 where 1: "step s n = (s1, [])" "running (r - unat n) s1" by auto
    have "r - unat n \<le> sum_list (map unat ns)" using Cons.prems(2) by simp
    from Cons.IH [OF 1(2) this] 1(1) show ?thesis by auto
  next
    case False
    then show ?thesis
      using step_last [OF Cons.prems(1), of n] grants_finished by fastforce
  qed
qed

end

section \<open>A line blit driven by slots\<close>

text \<open>Finishing: publication of the result, then the interrupt.\<close>

definition published :: "BlitterRegs \<Rightarrow> BlitterResult \<Rightarrow> BlitterRegs" where
  "published r res = r\<lparr>bltapt := final_apt res, bltbpt := final_bpt res,
     bltcpt := final_cpt res, bltdpt := final_dpt res, bltadat := final_adat res,
     bltbdat := final_bdat res, bltcdat := final_cdat res, bltddat := final_ddat res,
     bltbhold := final_bhold res\<rparr>"

definition blit_masks :: "bool \<Rightarrow> u16 list" where
  "blit_masks sink = (if sink then [BLITTER_INTREQ_BLIT] else [])"

definition line_final :: "'m rigel_chip_ram_if \<Rightarrow> BlitCommand \<Rightarrow> 'm \<Rightarrow> BlitterResult \<times> 'm" where
  "line_final mem cmd m0 =
     (let (l, m) = (line_iteration mem cmd ^^ unat (height_lines cmd)) (line_locals_init cmd, m0)
      in (line_result cmd l, m))"

definition blit_finished :: "BlitterRegs \<Rightarrow> BlitterResult \<times> 'm \<Rightarrow> BlitterState \<times> 'm \<Rightarrow> bool" where
  "blit_finished r fin s \<longleftrightarrow> \<not> blt_busy (fst s) \<and> exec_state (fst s) = BLITTER_EXEC_IDLE \<and>
     blt_result (fst s) = fst fin \<and> blt_regs (fst s) = published r (fst fin) \<and> snd s = snd fin"

definition line_remaining :: "bool \<Rightarrow> u16 \<Rightarrow> nat \<Rightarrow> u8 \<Rightarrow> nat" where
  "line_remaining ce h k phase = (if ce then 2 * (unat h - k) - unat phase else unat h - k)"

definition line_running ::
    "'m rigel_chip_ram_if \<Rightarrow> BlitCommand \<Rightarrow> BlitterRegs \<Rightarrow> 'm \<Rightarrow> nat \<Rightarrow> BlitterState \<times> 'm \<Rightarrow> bool" where
  "line_running mem cmd r m0 n s \<longleftrightarrow> (case s of (b, m) \<Rightarrow>
     \<exists>k < unat (height_lines cmd). line_at mem cmd m0 k b m \<and> blt_busy b \<and> blt_regs b = r \<and>
       (ls_pixel_slot_phase (line_state b) = 0 \<or>
        ls_pixel_slot_phase (line_state b) = 1 \<and> blt_cycle_exact b) \<and>
       n = line_remaining (blt_cycle_exact b) (height_lines cmd) k (ls_pixel_slot_phase (line_state b)))"

lemma line_done_iff:
  assumes "line_at mem cmd m0 k b m" and "ls_initialized (line_state b) \<or> k < unat (height_lines cmd)"
  shows "blitter_line_done b \<longleftrightarrow> k = unat (height_lines cmd)"
  using assms by (auto simp: blitter_line_done_def line_at_def word_le_nat_alt split: if_splits)

lemma line_at_frame:
  "line_at mem cmd m0 k (b\<lparr>dma_slots_consumed := x\<rparr>) m = line_at mem cmd m0 k b m"
  "line_at mem cmd m0 k (b\<lparr>cycles_remaining := y\<rparr>) m = line_at mem cmd m0 k b m"
  "line_at mem cmd m0 k (b\<lparr>line_state := (line_state b)\<lparr>ls_pixel_slot_phase := p\<rparr>\<rparr>) m =
     line_at mem cmd m0 k b m"
  by (simp_all add: line_at_def line_abs_def)

definition slot_tick :: "BlitterState \<Rightarrow> BlitterState" where
  "slot_tick b =
     (let b = b\<lparr>dma_slots_consumed := dma_slots_consumed b + 1\<rparr>
      in if cycles_remaining b > 0 then b\<lparr>cycles_remaining := cycles_remaining b - 1\<rparr> else b)"

lemma slot_tick_fields [simp]:
  "blt_busy (slot_tick b) = blt_busy b" "blt_regs (slot_tick b) = blt_regs b"
  "blt_cycle_exact (slot_tick b) = blt_cycle_exact b" "line_state (slot_tick b) = line_state b"
  "line_at mem cmd m0 k (slot_tick b) m = line_at mem cmd m0 k b m"
  by (simp_all add: slot_tick_def Let_def line_at_frame)

lemma line_slots_Suc:
  "blitter_line_slots mem sink (Suc n) b m =
     (if blitter_line_done b then (b, m, [])
      else if blt_cycle_exact b \<and> ls_pixel_slot_phase (line_state b) = 0
      then blitter_line_slots mem sink n
             ((slot_tick b)\<lparr>line_state := (line_state b)\<lparr>ls_pixel_slot_phase := 1\<rparr>\<rparr>) m
      else
        case blitter_line_step mem
               ((slot_tick b)\<lparr>line_state := (line_state b)\<lparr>ls_pixel_slot_phase := 0\<rparr>\<rparr>, m) of
          (b, m) \<Rightarrow>
            if blitter_line_done b
            then (case blitter_force_finish sink (blitter_publish_result (b\<lparr>cycles_remaining := 0\<rparr>)) of
                    (b, masks) \<Rightarrow> (b, m, masks))
            else blitter_line_slots mem sink n b m)"
proof -
  have "blitter_line_slots mem sink (Suc n) b m =
     (if blitter_line_done b then (b, m, [])
      else
        let b = slot_tick b
        in if blt_cycle_exact b \<and> ls_pixel_slot_phase (line_state b) = 0
           then blitter_line_slots mem sink n
                  (b\<lparr>line_state := (line_state b)\<lparr>ls_pixel_slot_phase := 1\<rparr>\<rparr>) m
           else
             let b = b\<lparr>line_state := (line_state b)\<lparr>ls_pixel_slot_phase := 0\<rparr>\<rparr>;
                 (b, m) = blitter_line_step mem (b, m)
             in if blitter_line_done b then
                  let b = b\<lparr>cycles_remaining := 0\<rparr>;
                      (b, masks) = blitter_force_finish sink (blitter_publish_result b)
                  in (b, m, masks)
                else blitter_line_slots mem sink n b m)"
    unfolding blitter_line_slots.simps slot_tick_def by (simp only: Let_def)
  then show ?thesis by (simp only: Let_def slot_tick_fields)
qed

lemma finish_line:
  assumes "line_at mem cmd m0 (unat (height_lines cmd)) b m" and "ls_initialized (line_state b)"
    and "blt_regs b = r" and "blt_result b = line_result cmd (line_abs (line_state b))"
  shows "\<exists>b'. blitter_force_finish sink (blitter_publish_result (b\<lparr>cycles_remaining := 0\<rparr>)) =
      (b', blit_masks sink) \<and> blit_finished r (line_final mem cmd m0) (b', m)"
proof -
  have "line_final mem cmd m0 = (line_result cmd (line_abs (line_state b)), m)"
    using assms(1,2) by (simp add: line_at_def line_final_def flip: )
       (metis (mono_tags, lifting) case_prod_conv)
  then show ?thesis
    using assms(3,4)
    by (simp add: blitter_force_finish_def blitter_publish_result_def blit_masks_def
        blit_finished_def published_def Let_def)
qed

lemma line_slot_round:
  assumes "line_running mem cmd r m0 R (b, m)"
  shows "(R = 1 \<longrightarrow> (\<exists>b' m'. blitter_line_slots mem sink (Suc n) b m = (b', m', blit_masks sink) \<and>
            blit_finished r (line_final mem cmd m0) (b', m'))) \<and>
         (1 < R \<longrightarrow> (\<exists>b' m'. blitter_line_slots mem sink (Suc n) b m = blitter_line_slots mem sink n b' m' \<and>
            line_running mem cmd r m0 (R - 1) (b', m'))) \<and> 0 < R"
proof -
  let ?p = "ls_pixel_slot_phase (line_state b)" and ?h = "unat (height_lines cmd)"
  obtain k where k: "k < ?h" "line_at mem cmd m0 k b m" "blt_busy b" "blt_regs b = r"
    "?p = 0 \<or> ?p = 1 \<and> blt_cycle_exact b"
    "R = line_remaining (blt_cycle_exact b) (height_lines cmd) k ?p"
    using assms by (auto simp: line_running_def)
  have nd: "\<not> blitter_line_done b" using line_done_iff [OF k(2)] k(1) by simp
  show ?thesis
  proof (cases "blt_cycle_exact b \<and> ?p = 0")
    case True
    let ?b = "(slot_tick b)\<lparr>line_state := (line_state b)\<lparr>ls_pixel_slot_phase := 1\<rparr>\<rparr>"
    have "line_at mem cmd m0 k ?b m"
      using k(2) line_at_frame(3) [of mem cmd m0 k 1 "slot_tick b" m] by simp
    then have "line_running mem cmd r m0 (R - 1) (?b, m)" "1 < R"
      using k True by (auto simp: line_running_def line_remaining_def)
    then show ?thesis using nd True line_slots_Suc [of mem sink n b m] by auto
  next
    case False
    let ?b = "(slot_tick b)\<lparr>line_state := (line_state b)\<lparr>ls_pixel_slot_phase := 0\<rparr>\<rparr>"
    have "line_at mem cmd m0 k ?b m" "ls_pixel_slot_phase (line_state ?b) = 0"
      using k(2) line_at_frame(3) [of mem cmd m0 k 0 "slot_tick b" m] by simp_all
    from line_at_step [OF this(1) k(1) this(2)] obtain s' m' where
      st: "blitter_line_step mem (?b, m) = (?b\<lparr>line_state := s', blt_result := line_result cmd (line_abs s')\<rparr>, m')"
      and at: "line_at mem cmd m0 (Suc k) (?b\<lparr>line_state := s', blt_result := line_result cmd (line_abs s')\<rparr>) m'"
      and s': "ls_pixel_slot_phase s' = 0" "ls_initialized s'"
      by auto
    let ?b' = "?b\<lparr>line_state := s', blt_result := line_result cmd (line_abs s')\<rparr>"
    have dn: "blitter_line_done ?b' \<longleftrightarrow> Suc k = ?h" using line_done_iff [OF at] s' by simp
    have R: "R = (if blt_cycle_exact b then 2 * (?h - k) - 1 else ?h - k)"
      using k False by (auto simp: line_remaining_def)
    show ?thesis
    proof (cases "Suc k = ?h")
      case True
      have "R = 1" using R True by auto
      moreover obtain b'' where "blitter_force_finish sink (blitter_publish_result (?b'\<lparr>cycles_remaining := 0\<rparr>)) =
          (b'', blit_masks sink)" "blit_finished r (line_final mem cmd m0) (b'', m')"
        using finish_line [of mem cmd m0 ?b' m' r sink] at True s' k(4) by auto
      ultimately show ?thesis
        using nd False st dn True line_slots_Suc [of mem sink n b m] by auto
    next
      case nl: False
      have "line_running mem cmd r m0 (R - 1) (?b', m')" "1 < R"
        using at s' k nl R by (auto simp: line_running_def line_remaining_def intro!: exI [of _ "Suc k"])
      then show ?thesis using nd False st dn nl line_slots_Suc [of mem sink n b m] by auto
    qed
  qed
qed

lemma line_slots_running:
  "line_running mem cmd r m0 R (b, m) \<Longrightarrow> n < R \<Longrightarrow>
     \<exists>b' m'. blitter_line_slots mem sink n b m = (b', m', []) \<and>
       line_running mem cmd r m0 (R - n) (b', m')"
proof (induction n arbitrary: R b m)
  case (Suc n)
  from line_slot_round [OF Suc.prems(1), of sink n] Suc.prems(2) obtain b1 m1 where
    1: "blitter_line_slots mem sink (Suc n) b m = blitter_line_slots mem sink n b1 m1"
    "line_running mem cmd r m0 (R - 1) (b1, m1)" by auto
  from Suc.IH [OF 1(2)] Suc.prems(2) 1(1) show ?case by auto
qed simp

lemma line_slots_last:
  "line_running mem cmd r m0 R (b, m) \<Longrightarrow> R \<le> n \<Longrightarrow>
     \<exists>b' m'. blitter_line_slots mem sink n b m = (b', m', blit_masks sink) \<and>
       blit_finished r (line_final mem cmd m0) (b', m')"
proof (induction n arbitrary: R b m)
  case 0
  then show ?case using line_slot_round [OF 0(1)] by auto
next
  case (Suc n)
  note round = line_slot_round [OF Suc.prems(1), of sink n]
  show ?case
  proof (cases "R = 1")
    case True
    then show ?thesis using round by auto
  next
    case False
    with round obtain b1 m1 where
      1: "blitter_line_slots mem sink (Suc n) b m = blitter_line_slots mem sink n b1 m1"
      "line_running mem cmd r m0 (R - 1) (b1, m1)" by auto
    have "R - 1 \<le> n" using Suc.prems(2) by simp
    from Suc.IH [OF 1(2) this] 1(1) show ?thesis by simp
  qed
qed

fun blit_grant ::
    "'m rigel_chip_ram_if \<Rightarrow> bool \<Rightarrow> BlitterState \<times> 'm \<Rightarrow> u32 \<Rightarrow> (BlitterState \<times> 'm) \<times> u16 list" where
  "blit_grant mem sink (b, m) n =
     (case blitter_step_dma mem sink b m n of (b', m', ms) \<Rightarrow> ((b', m'), ms))"

lemma blit_grant_finished: "blit_finished r fin s \<Longrightarrow> blit_grant mem sink s n = (s, [])"
  by (cases s) (simp add: blit_finished_def blitter_step_dma_def)

lemma line_running_step:
  "line_running mem cmd r m0 R (b, m) \<Longrightarrow>
     blitter_step_dma mem sink b m n = blitter_line_slots mem sink (unat n) b m"
  by (auto simp: line_running_def line_at_def blitter_step_dma_def)

interpretation line_blit: slot_engine "blit_grant mem sink" "line_running mem cmd r m0"
    "blit_finished r (line_final mem cmd m0)" "blit_masks sink"
  for mem :: "'m rigel_chip_ram_if" and sink cmd r m0
proof
  fix R n and s :: "BlitterState \<times> 'm"
  assume run: "line_running mem cmd r m0 R s"
  obtain b m where s: "s = (b, m)" by (cases s)
  show "0 < R" using line_slot_round [of mem cmd r m0 R b m] run s by auto
  show "\<exists>s'. blit_grant mem sink s n = (s', []) \<and> line_running mem cmd r m0 (R - unat n) s'"
    if "unat n < R"
    using line_slots_running [OF run [unfolded s] that, of sink]
      line_running_step [OF run [unfolded s], of sink n] s by auto
  show "\<exists>s'. blit_grant mem sink s n = (s', blit_masks sink) \<and>
      blit_finished r (line_final mem cmd m0) s'" if "R \<le> unat n"
    using line_slots_last [OF run [unfolded s] that, of sink]
      line_running_step [OF run [unfolded s], of sink n] s by auto
qed (rule blit_grant_finished)

section \<open>A copy blit driven by slots\<close>

definition copy_final :: "'m rigel_chip_ram_if \<Rightarrow> BlitCommand \<Rightarrow> 'm \<Rightarrow> BlitterResult \<times> 'm" where
  "copy_final mem cmd m0 =
     (let (b, m) = execute_copy_mode mem (blitter_init\<lparr>blt_cmd := cmd\<rparr>) m0 in (blt_result b, m))"

lemma execute_copy_mode_final:
  "execute_copy_mode mem b m =
     (b\<lparr>blt_result := fst (copy_final mem (blt_cmd b) m)\<rparr>, snd (copy_final mem (blt_cmd b) m))"
  by (simp add: execute_copy_mode_def copy_final_def Let_def split_beta)

definition copy_running ::
    "'m rigel_chip_ram_if \<Rightarrow> BlitCommand \<Rightarrow> BlitterRegs \<Rightarrow> 'm \<Rightarrow> nat \<Rightarrow> BlitterState \<times> 'm \<Rightarrow> bool" where
  "copy_running mem cmd r m0 n s \<longleftrightarrow> (case s of (b, m) \<Rightarrow>
     blt_busy b \<and> blt_cmd b = cmd \<and> cmd_mode cmd = BLITTER_MODE_COPY \<and> blt_regs b = r \<and>
     0 < n \<and> unat (cycles_remaining b) = n \<and>
     (exec_state b = BLITTER_EXEC_PENDING \<and> command_valid b \<and> m = m0 \<or>
      exec_state b = BLITTER_EXEC_RUNNING \<and> (blt_result b, m) = copy_final mem cmd m0))"

lemma copy_running_step:
  assumes "copy_running mem cmd r m0 R (b, m)"
  shows "\<exists>b1 m1. blt_busy b1 \<and> blt_cmd b1 = cmd \<and> blt_regs b1 = r \<and>
    cycles_remaining b1 = cycles_remaining b \<and> exec_state b1 = BLITTER_EXEC_RUNNING \<and>
    (blt_result b1, m1) = copy_final mem cmd m0 \<and>
    blitter_step_dma mem sink b m n =
      (if cycles_remaining b1 > n
       then (b1\<lparr>cycles_remaining := cycles_remaining b1 - n\<rparr>, m1, [])
       else (case blitter_force_finish sink (blitter_publish_result (b1\<lparr>cycles_remaining := 0\<rparr>)) of
               (b', ms) \<Rightarrow> (b', m1, ms)))"
proof (cases "exec_state b = BLITTER_EXEC_PENDING")
  case True
  let ?f = "copy_final mem cmd m0"
  let ?b1 = "b\<lparr>blt_result := fst ?f, exec_state := BLITTER_EXEC_RUNNING,
      dma_slots_consumed := dma_slots_consumed b + n\<rparr>"
  show ?thesis
    using assms True
    by (intro exI [of _ ?b1] exI [of _ "snd ?f"])
       (simp add: copy_running_def blitter_step_dma_def blitter_execute_reference_def
          execute_copy_mode_final)
next
  case False
  then show ?thesis
    using assms
    by (intro exI [of _ "b\<lparr>dma_slots_consumed := dma_slots_consumed b + n\<rparr>"] exI [of _ m])
       (simp add: copy_running_def blitter_step_dma_def)
qed

interpretation copy_blit: slot_engine "blit_grant mem sink" "copy_running mem cmd r m0"
    "blit_finished r (copy_final mem cmd m0)" "blit_masks sink"
  for mem :: "'m rigel_chip_ram_if" and sink cmd r m0
proof
  fix R n and s :: "BlitterState \<times> 'm"
  assume run: "copy_running mem cmd r m0 R s"
  obtain b m where s: "s = (b, m)" by (cases s)
  then have R: "0 < R" "unat (cycles_remaining b) = R" "cmd_mode cmd = BLITTER_MODE_COPY"
    using run by (auto simp: copy_running_def)
  then show "0 < R" by simp
  obtain b1 m1 where 1: "blt_busy b1" "blt_cmd b1 = cmd" "blt_regs b1 = r"
    "cycles_remaining b1 = cycles_remaining b" "exec_state b1 = BLITTER_EXEC_RUNNING"
    "(blt_result b1, m1) = copy_final mem cmd m0"
    and step: "blitter_step_dma mem sink b m n =
      (if cycles_remaining b1 > n
       then (b1\<lparr>cycles_remaining := cycles_remaining b1 - n\<rparr>, m1, [])
       else (case blitter_force_finish sink (blitter_publish_result (b1\<lparr>cycles_remaining := 0\<rparr>)) of
               (b', ms) \<Rightarrow> (b', m1, ms)))"
    using copy_running_step [OF run [unfolded s]] by blast
  show "\<exists>s'. blit_grant mem sink s n = (s', []) \<and> copy_running mem cmd r m0 (R - unat n) s'"
    if "unat n < R"
  proof -
    have "cycles_remaining b1 > n" using that R(2) 1(4) by (simp add: word_less_nat_alt)
    moreover from this have "unat (cycles_remaining b1 - n) = R - unat n"
      using R(2) 1(4) by (subst unat_sub) (auto simp: word_less_nat_alt word_le_nat_alt)
    ultimately show ?thesis using s step 1 R that by (simp add: copy_running_def)
  qed
  show "\<exists>s'. blit_grant mem sink s n = (s', blit_masks sink) \<and>
      blit_finished r (copy_final mem cmd m0) s'" if "R \<le> unat n"
  proof -
    have "\<not> cycles_remaining b1 > n" using that R(2) 1(4) by (simp add: word_less_nat_alt)
    then show ?thesis
      using s step 1(3,6)
      by (simp add: blitter_force_finish_def blitter_publish_result_def Let_def blit_finished_def
          published_def blit_masks_def) (metis fst_conv snd_conv)
  qed
qed (rule blit_grant_finished)

section \<open>A command from its start to its interrupt\<close>

lemma begin_command_fields:
  "blt_busy (blitter_begin_command b)" "command_valid (blitter_begin_command b)"
  "exec_state (blitter_begin_command b) = BLITTER_EXEC_PENDING"
  "line_state (blitter_begin_command b) = zero_line_state"
  "blt_regs (blitter_begin_command b) = blt_regs b"
  "blt_cycle_exact (blitter_begin_command b) = blt_cycle_exact b"
  "cycles_remaining (blitter_begin_command b) =
     blitter_estimate_cycles (blt_cmd (blitter_begin_command b)) (blt_cycle_exact b)"
  by (simp_all add: blitter_begin_command_def blitter_start_timing_def blitter_build_command_def
      Let_def)

lemma estimate_pos: "0 < unat (blitter_estimate_cycles cmd ce)"
  by (simp add: blitter_estimate_cycles_def Let_def unat_gt_0)

lemma estimate_line:
  assumes "cmd_mode cmd = BLITTER_MODE_LINE" and "height_lines cmd \<noteq> 0"
  shows "unat (blitter_estimate_cycles cmd ce) =
    (if ce then 2 * unat (height_lines cmd) else unat (height_lines cmd))"
proof -
  have h: "unat (ucast (height_lines cmd) * 2 :: u32) = 2 * unat (height_lines cmd)"
    using unat_bounds(2) [of "height_lines cmd"] by (simp add: unat_word_ariths)
  have "0 < unat (height_lines cmd)" using assms(2) by (simp add: unat_gt_0)
  then have "ucast (height_lines cmd) \<noteq> (0 :: u32)" "ucast (height_lines cmd) * 2 \<noteq> (0 :: u32)"
    using h by (metis unat_0 unat_ucast_up_simps(3) less_irrefl, metis unat_0 h mult_is_0 less_irrefl zero_neq_numeral)
  then show ?thesis
    using assms(1) h by (simp add: blitter_estimate_cycles_def Let_def)
qed

lemma begin_line_running:
  fixes mem :: "'m rigel_chip_ram_if"
  assumes "cmd_mode (blt_cmd (blitter_begin_command b)) = BLITTER_MODE_LINE"
    and "height_lines (blt_cmd (blitter_begin_command b)) \<noteq> 0"
  shows "line_running mem (blt_cmd (blitter_begin_command b)) (blt_regs b) m
    (unat (blitter_estimate_cycles (blt_cmd (blitter_begin_command b)) (blt_cycle_exact b)))
    (blitter_begin_command b, m)"
proof -
  have "line_at mem (blt_cmd (blitter_begin_command b)) m 0 (blitter_begin_command b) m"
    by (rule line_at_fresh [OF assms(1)]) (simp add: begin_command_fields zero_line_state_def)
  moreover have "0 < unat (height_lines (blt_cmd (blitter_begin_command b)))"
    using assms(2) by (simp add: unat_gt_0)
  ultimately show ?thesis
    by (auto simp: line_running_def begin_command_fields zero_line_state_def line_remaining_def
        estimate_line [OF assms])
qed

lemma begin_copy_running:
  assumes "cmd_mode (blt_cmd (blitter_begin_command b)) = BLITTER_MODE_COPY"
  shows "copy_running mem (blt_cmd (blitter_begin_command b)) (blt_regs b) m
    (unat (blitter_estimate_cycles (blt_cmd (blitter_begin_command b)) (blt_cycle_exact b)))
    (blitter_begin_command b, m)"
  using assms estimate_pos by (simp add: copy_running_def begin_command_fields)

definition reference_final :: "'m rigel_chip_ram_if \<Rightarrow> BlitterState \<Rightarrow> 'm \<Rightarrow> BlitterResult \<times> 'm" where
  "reference_final mem b m =
     (case blitter_execute_reference mem b m of (_, b', m') \<Rightarrow> (blt_result b', m'))"

lemma reference_final_eq:
  assumes "cmd_mode (blt_cmd (blitter_begin_command b)) = BLITTER_MODE_LINE \<longrightarrow>
      height_lines (blt_cmd (blitter_begin_command b)) \<noteq> 0"
  shows "reference_final mem (blitter_begin_command b) m =
    (case cmd_mode (blt_cmd (blitter_begin_command b)) of
       BLITTER_MODE_LINE \<Rightarrow> line_final mem (blt_cmd (blitter_begin_command b)) m
     | BLITTER_MODE_COPY \<Rightarrow> copy_final mem (blt_cmd (blitter_begin_command b)) m)"
  using assms
  by (auto simp: reference_final_def blitter_execute_reference_def begin_command_fields
      execute_copy_mode_final execute_line_mode_def line_final_def line_result_def Let_def
      split_beta split: BlitterMode.split)

lemma publish_regs:
  "blt_regs (blitter_publish_result b) = published (blt_regs b) (blt_result b)"
  by (simp add: blitter_publish_result_def published_def Let_def)

lemma reference_keeps_regs:
  "blt_regs (fst (snd (blitter_execute_reference mem b m))) = blt_regs b"
  by (simp add: blitter_execute_reference_def execute_copy_mode_final execute_line_mode_def
      Let_def split_beta split: BlitterMode.split)

lemma line_running_busy: "line_running mem cmd r m0 n (b, m) \<Longrightarrow> blt_busy b"
  by (auto simp: line_running_def)

lemma copy_running_busy: "copy_running mem cmd r m0 n (b, m) \<Longrightarrow> blt_busy b"
  by (auto simp: copy_running_def)

lemma blit_grants:
  assumes "cmd_mode (blt_cmd (blitter_begin_command b)) = BLITTER_MODE_LINE \<longrightarrow>
      height_lines (blt_cmd (blitter_begin_command b)) \<noteq> 0"
  shows "if sum_list (map unat gs) <
      unat (blitter_estimate_cycles (blt_cmd (blitter_begin_command b)) (blt_cycle_exact b))
    then \<exists>s'. grants (blit_grant mem sink) (blitter_begin_command b, m) gs = (s', []) \<and> blt_busy (fst s')
    else \<exists>s'. grants (blit_grant mem sink) (blitter_begin_command b, m) gs = (s', blit_masks sink) \<and>
      blit_finished (blt_regs b) (reference_final mem (blitter_begin_command b) m) s'"
proof (cases "cmd_mode (blt_cmd (blitter_begin_command b))")
  case BLITTER_MODE_COPY
  note run = begin_copy_running [OF this, of mem m]
  show ?thesis
    using copy_blit.grants_running [OF run, of gs sink] copy_blit.grants_done [OF run, of gs sink]
      reference_final_eq [OF assms, of mem m] BLITTER_MODE_COPY
    by (auto simp: not_less dest: copy_running_busy)
next
  case BLITTER_MODE_LINE
  with assms have "height_lines (blt_cmd (blitter_begin_command b)) \<noteq> 0" by simp
  note run = begin_line_running [OF BLITTER_MODE_LINE this, of mem m]
  show ?thesis
    using line_blit.grants_running [OF run, of gs sink] line_blit.grants_done [OF run, of gs sink]
      reference_final_eq [OF assms, of mem m] BLITTER_MODE_LINE
    by (auto simp: not_less dest: line_running_busy)
qed

text \<open>
  C1: A blit started by a write to BLTSIZE (or BLTSIZH) and granted chip-bus slots in any
  portions stays busy, with no interrupt, while the slots granted are fewer than
  \<^verbatim>\<open>blitter_estimate_cycles\<close>; the grant that reaches the estimate ends it.  The memory
  and the published registers are then those of the reference execution, and the blitter
  interrupt has been raised exactly once.  This holds for every copy blit and every line blit
  of nonzero height, with and without the cycle-exact cost model.  A line blit of height 0 is
  excluded: there the code publishes a result that was never filled in.
\<close>

theorem blit_slots_exact:
  fixes mem :: "'m rigel_chip_ram_if"
  assumes "cmd_mode (blt_cmd (blitter_begin_command b)) = BLITTER_MODE_LINE \<longrightarrow>
      height_lines (blt_cmd (blitter_begin_command b)) \<noteq> 0"
  shows "let b0 = blitter_begin_command b;
             N = unat (blitter_estimate_cycles (blt_cmd b0) (blt_cycle_exact b));
             ((b', m'), masks) = grants (blit_grant mem sink) (b0, m) gs;
             (_, br, mr) = blitter_execute_reference mem b0 m
         in if sum_list (map unat gs) < N then blt_busy b' \<and> masks = []
            else \<not> blt_busy b' \<and> masks = (if sink then [0x8040] else []) \<and> m' = mr \<and>
                 blt_regs b' = blt_regs (blitter_publish_result br)"
proof -
  let ?b0 = "blitter_begin_command b"
  obtain ok br mr where ref: "blitter_execute_reference mem ?b0 m = (ok, br, mr)"
    by (cases "blitter_execute_reference mem ?b0 m")
  have regs: "blt_regs br = blt_regs b"
    using reference_keeps_regs [of mem ?b0 m] ref by (simp add: begin_command_fields)
  have fin: "reference_final mem ?b0 m = (blt_result br, mr)" by (simp add: reference_final_def ref)
  show ?thesis
    using blit_grants [OF assms, of gs mem sink m]
    by (auto simp: Let_def ref fin regs publish_regs blit_finished_def blit_masks_def split: if_splits)
qed

theorem blit_slots_exact_witness:
  "let b = blitter_init\<lparr>blt_regs := zero_regs\<lparr>bltcon0 := 0x0bca, bltcon1 := 0x0001, bltadat := 0x8000,
         bltafwm := 0xffff, bltbdat := 0xffff, bltcmod := 2, bltsizh := 2, bltsizv := 2\<rparr>,
         blt_cycle_exact := True\<rparr>;
       ((b', m'), masks) = grants (blit_grant harness_chip_ram True)
         (blitter_begin_command b, replicate 16 0) [1, 2, 1]
   in \<not> blt_busy b' \<and> masks = [0x8040]"
proof -
  let ?b = "blitter_init\<lparr>blt_regs := zero_regs\<lparr>bltcon0 := 0x0bca, bltcon1 := 0x0001, bltadat := 0x8000,
         bltafwm := 0xffff, bltbdat := 0xffff, bltcmod := 2, bltsizh := 2, bltsizv := 2\<rparr>,
         blt_cycle_exact := True\<rparr>"
  have c: "cmd_mode (blt_cmd (blitter_begin_command ?b)) = BLITTER_MODE_LINE"
    "height_lines (blt_cmd (blitter_begin_command ?b)) = 2"
    "blt_cycle_exact ?b"
    by (simp_all add: blitter_begin_command_def blitter_start_timing_def blitter_build_command_def
        Let_def decode_mode_def blitter_init_def zero_regs_def)
  have N: "unat (blitter_estimate_cycles (blt_cmd (blitter_begin_command ?b)) True) = 4"
    using estimate_line [OF c(1), of True] c(2) by simp
  show ?thesis
    using blit_slots_exact [of ?b harness_chip_ram True "replicate 16 0" "[1, 2, 1]"] c N
    by (simp add: Let_def split_beta del: grants.simps)
qed

section \<open>Writing the size register\<close>

lemma size_fields:
  "unat (v AND 0x003f) = unat v mod 64" "unat (drop_bit 6 v AND 0x03ff) = unat v div 64"
  for v :: u16
proof -
  have m: "(0x003f :: u16) = mask 6" "(0x03ff :: u16) = mask 10"
    by (simp_all add: mask_eq_exp_minus_1)
  show "unat (v AND 0x003f) = unat v mod 64"
    unfolding m by (simp only: unsigned_take_bit_eq flip: take_bit_eq_mask) (simp add: take_bit_eq_mod)
  have "unat v div 64 < 1024" using unat_bounds(2) [of v] by simp
  then show "unat (drop_bit 6 v AND 0x03ff) = unat v div 64"
    unfolding m by (simp only: unsigned_take_bit_eq flip: take_bit_eq_mask)
      (simp add: take_bit_eq_mod drop_bit_eq_div unat_div)
qed

text \<open>
  A write to BLTSIZE starts the blitter with a width of \<open>v mod 64\<close> words and a height
  of \<open>v div 64\<close> lines, where 0 stands for 64 words and 1024 lines; so a blit started this
  way always has between 1 and 64 words, between 1 and 1024 lines, and is busy.
\<close>

theorem bltsize_write:
  "let b' = blitter_write_reg16 b 0x058 v; w = unat (width_words (blt_cmd b'));
       h = unat (height_lines (blt_cmd b'))
   in w = (if unat v mod 64 = 0 then 64 else unat v mod 64) \<and>
      h = (if unat v div 64 = 0 then 1024 else unat v div 64) \<and>
      1 \<le> w \<and> w \<le> 64 \<and> 1 \<le> h \<and> h \<le> 1024 \<and> blitter_is_busy b' \<and>
      blitter_read_reg16 b' 0x002 = 0x6000"
proof -
  have "v AND 0x003f = 0 \<longleftrightarrow> unat v mod 64 = 0" "drop_bit 6 v AND 0x03ff = 0 \<longleftrightarrow> unat v div 64 = 0"
    by (metis size_fields(1) unat_0 unsigned_eq_0_iff, metis size_fields(2) unat_0 unsigned_eq_0_iff)
  moreover have "unat v div 64 \<le> 1024" "unat v mod 64 \<le> 64"
    using unat_bounds(2) [of v] by (simp_all add: less_imp_le)
  ultimately show ?thesis
    by (simp add: blitter_write_reg16_def blitter_begin_command_def blitter_start_timing_def
        blitter_build_command_def blitter_is_busy_def blitter_read_reg16_def Let_def size_fields)
qed

end
