(* ===== verification/Floppy_Mfm.thy ===== *)
theory Floppy_Mfm
  imports Rigel_Prelude
begin

text \<open>
  The MFM encoder of \<^verbatim>\<open>src/floppy/floppy_mfm.c\<close>.  Byte buffers are lists, updated in
  place by index; a buffer parameter with its size is a list with its length.  The theorems
  say that an encoded sector decodes to the sector it was made from, that both checksums
  stored in it are the checksums of what it holds, and that the clock bits obey the MFM
  rule.
\<close>

unbundle bit_operations_syntax

abbreviation MFM_MASK :: u32 where "MFM_MASK \<equiv> 0x55555555"
abbreviation AMIGA_SECTOR_SIZE :: nat where "AMIGA_SECTOR_SIZE \<equiv> 512"
abbreviation AMIGA_SECTORS_PER_TRACK :: nat where "AMIGA_SECTORS_PER_TRACK \<equiv> 11"
abbreviation AMIGA_MFM_SECTOR_SIZE :: nat where "AMIGA_MFM_SECTOR_SIZE \<equiv> 1088"

section \<open>Helpers\<close>

definition write_be32 :: "u8 list \<Rightarrow> nat \<Rightarrow> u32 \<Rightarrow> u8 list" where
  "write_be32 p off v =
     p[off := ucast (drop_bit 24 v AND 0xff),
       off + 1 := ucast (drop_bit 16 v AND 0xff),
       off + 2 := ucast (drop_bit 8 v AND 0xff),
       off + 3 := ucast (v AND 0xff)]"

definition read_be32 :: "u8 list \<Rightarrow> nat \<Rightarrow> u32" where
  "read_be32 p off =
     push_bit 24 (ucast (p ! off)) OR push_bit 16 (ucast (p ! (off + 1))) OR
     push_bit 8 (ucast (p ! (off + 2))) OR ucast (p ! (off + 3))"

definition floppy_mfm_checksum :: "u32 list \<Rightarrow> u32" where
  "floppy_mfm_checksum data = fold (\<lambda>d sum. sum XOR (d AND MFM_MASK)) data 0"

definition floppy_mfm_encode_even_odd :: "u32 \<Rightarrow> u32 \<times> u32" where
  "floppy_mfm_encode_even_odd value = (drop_bit 1 value AND MFM_MASK, value AND MFM_MASK)"

definition floppy_mfm_encode_word :: "u16 \<Rightarrow> u16 \<Rightarrow> u16" where
  "floppy_mfm_encode_word raw previous =
     fold (\<lambda>i out.
         let b = drop_bit i raw AND 1;
             prev_data = (if i = 15 then previous AND 1 else drop_bit (i + 1) raw AND 1);
             clock = (if prev_data = 0 \<and> b = 0 then 1 else 0)
         in push_bit 1 (push_bit 1 out OR clock) OR b)
       (rev [0..<16]) 0"

text \<open>
  \<^verbatim>\<open>mfmcode_u32\<close> walks an array in place, starting from the longword in front of it.
\<close>

fun mfmcode_u32 :: "u32 \<Rightarrow> u32 list \<Rightarrow> u32 list" where
  "mfmcode_u32 prev [] = []"
| "mfmcode_u32 prev (w # ws) =
     (let v = w AND MFM_MASK;
          mask1 = push_bit 31 prev OR drop_bit 1 v;
          mask2 = push_bit 1 v;
          clk = NOT mask1 AND NOT mask2 AND 0xAAAAAAAA
      in (v OR clk) # mfmcode_u32 v ws)"

section \<open>Sector encoding\<close>

definition sector_info :: "u32 \<Rightarrow> u32 \<Rightarrow> u32 \<Rightarrow> u32" where
  "sector_info track sector sectors_per_track =
     push_bit 24 0xff OR push_bit 16 (track AND 0xff) OR push_bit 8 (sector AND 0xff) OR
     ((sectors_per_track - sector) AND 0xff)"

text \<open>One round of the data loop: the two halves of longword \<open>i\<close> and the data checksum.\<close>

definition encode_data_longword ::
    "u8 list \<Rightarrow> nat \<Rightarrow> nat \<Rightarrow> u32 list \<times> u32 \<Rightarrow> u32 list \<times> u32" where
  "encode_data_longword sector_data off i acc =
     (let (buf, dck) = acc;
          raw = read_be32 sector_data (off + i * 4);
          odd = drop_bit 1 raw AND MFM_MASK;
          even = raw AND MFM_MASK
      in (buf[16 + i := odd, 16 + 128 + i := even], (dck XOR odd) XOR even))"

text \<open>The buffer of 272 longwords before the clock bits are inserted.\<close>

definition sector_longwords :: "u8 list \<Rightarrow> nat \<Rightarrow> u32 \<Rightarrow> u32 \<Rightarrow> u32 \<Rightarrow> u32 list" where
  "sector_longwords sector_data off track sector sectors_per_track =
     (let buf = replicate 272 0;
          buf = buf[0 := 0xAAAAAAAA, 1 := 0x44894489];
          info = sector_info track sector sectors_per_track;
          odd = drop_bit 1 info AND MFM_MASK;
          even = info AND MFM_MASK;
          buf = buf[2 := odd, 3 := even];
          hck = (0 XOR odd) XOR even;
          (buf, dck) = fold (encode_data_longword sector_data off) [0..<128] (buf, 0)
      in buf[12 := drop_bit 1 hck, 13 := hck, 14 := drop_bit 1 dck, 15 := dck])"

definition write_longwords :: "u8 list \<Rightarrow> nat \<Rightarrow> u32 list \<Rightarrow> u8 list" where
  "write_longwords dst pos buf = fold (\<lambda>i d. write_be32 d (pos + i * 4) (buf ! i)) [0..<length buf] dst"

text \<open>
  \<open>dst\<close> and \<open>pos\<close> stand for the destination pointer, \<open>sector_data\<close> and \<open>off\<close> for the
  source pointer.
\<close>

definition floppy_mfm_encode_sector ::
    "u8 list \<Rightarrow> nat \<Rightarrow> nat \<Rightarrow> u8 list \<Rightarrow> nat \<Rightarrow> u32 \<Rightarrow> u32 \<Rightarrow> u32 \<Rightarrow> bool \<times> u8 list" where
  "floppy_mfm_encode_sector dst pos dst_size sector_data off track sector sectors_per_track =
     (if dst_size < AMIGA_MFM_SECTOR_SIZE then (False, dst)
      else
        let buf = sector_longwords sector_data off track sector sectors_per_track;
            buf = take 2 buf @ mfmcode_u32 (buf ! 1) (drop 2 buf)
        in (True, write_longwords dst pos buf))"

section \<open>Track encoding\<close>

definition encode_track_sector ::
    "u8 list \<Rightarrow> u32 \<Rightarrow> u32 \<Rightarrow> nat \<Rightarrow> u8 list \<times> nat \<Rightarrow> u8 list \<times> nat" where
  "encode_track_sector track_data track sectors_per_track sec acc =
     (let (dst, pos) = acc;
          prev_last_bit = (if pos \<ge> 4 then read_be32 dst (pos - 4) AND 1 else 0);
          (_, dst) = floppy_mfm_encode_sector dst pos AMIGA_MFM_SECTOR_SIZE track_data
                       (sec * AMIGA_SECTOR_SIZE) track (word_of_nat sec) sectors_per_track;
          dst = write_be32 dst pos (if prev_last_bit \<noteq> 0 then 0x2AAAAAAA else 0xAAAAAAAA)
      in (dst, pos + AMIGA_MFM_SECTOR_SIZE))"

definition floppy_mfm_encode_track ::
    "u8 list \<Rightarrow> u8 list \<Rightarrow> u32 \<Rightarrow> u32 \<Rightarrow> bool \<times> u8 list" where
  "floppy_mfm_encode_track dst track_data track sectors_per_track =
     (let dst_size = length dst;
          data_bytes = (unat sectors_per_track * AMIGA_MFM_SECTOR_SIZE) mod 2 ^ 32
      in if dst_size < data_bytes then (False, dst)
         else
           let gapsize = (if dst_size > data_bytes then dst_size - data_bytes else 0);
               gap_words = (if gapsize div 4 > 1 then gapsize div 4 - 1 else 0);
               (dst, pos) =
                 fold (\<lambda>_ (d, p). (write_be32 d p 0xAAAAAAAA, p + 4)) [0..<gap_words] (dst, 0);
               (dst, pos) =
                 fold (encode_track_sector track_data track sectors_per_track)
                   [0..<unat sectors_per_track] (dst, pos)
           in (True,
               if pos + 4 \<le> dst_size then
                 let tail0 = (if pos \<ge> 4 then read_be32 dst (pos - 4) else 0)
                 in write_be32 dst pos (hd (mfmcode_u32 tail0 [0]))
               else dst))"

section \<open>Byte buffers\<close>

lemma length_write_be32 [simp]: "length (write_be32 p off v) = length p"
  by (simp add: write_be32_def)

lemma be32_join: "push_bit 24 (ucast (ucast (drop_bit 24 v AND 0xff) :: u8)) OR
    push_bit 16 (ucast (ucast (drop_bit 16 v AND 0xff) :: u8)) OR
    push_bit 8 (ucast (ucast (drop_bit 8 v AND 0xff) :: u8)) OR
    ucast (ucast (v AND 0xff) :: u8) = v" (is "?lhs = v") for v :: u32
proof (rule bit_word_eqI)
  fix n assume "n < LENGTH(32)"
  then consider "n < 8" | "8 \<le> n" "n < 16" | "16 \<le> n" "n < 24" | "24 \<le> n" "n < 32"
    by fastforce
  then show "bit ?lhs n = bit v n"
    by cases (auto simp: bit_simps)
qed

lemma read_write_same: "off + 4 \<le> length p \<Longrightarrow> read_be32 (write_be32 p off v) off = v"
  by (simp add: read_be32_def write_be32_def be32_join)

lemma read_write_other:
  "off' + 4 \<le> off \<or> off + 4 \<le> off' \<Longrightarrow> read_be32 (write_be32 p off v) off' = read_be32 p off'"
  by (auto simp: read_be32_def write_be32_def)

lemma write_longwords_prefix:
  assumes "n \<le> length buf" and "pos + length buf * 4 \<le> length dst"
  defines "d \<equiv> fold (\<lambda>i d. write_be32 d (pos + i * 4) (buf ! i)) [0..<n] dst"
  shows "length d = length dst \<and> (\<forall>j < n. read_be32 d (pos + j * 4) = buf ! j) \<and>
    (\<forall>o'. o' + 4 \<le> pos \<or> pos + n * 4 \<le> o' \<longrightarrow> read_be32 d o' = read_be32 dst o')"
  unfolding d_def using assms(1)
proof (induction n)
  case (Suc n)
  let ?d = "fold (\<lambda>i d. write_be32 d (pos + i * 4) (buf ! i)) [0..<n] dst"
  have IH: "length ?d = length dst" "\<forall>j < n. read_be32 ?d (pos + j * 4) = buf ! j"
    "\<And>o'. o' + 4 \<le> pos \<or> pos + n * 4 \<le> o' \<Longrightarrow> read_be32 ?d o' = read_be32 dst o'"
    using Suc by auto
  have "pos + n * 4 + 4 \<le> length ?d" using Suc.prems assms(2) IH(1) by simp
  then show ?case
    using IH by (auto simp: read_write_same read_write_other less_Suc_eq)
qed simp

lemma write_longwords:
  assumes "pos + length buf * 4 \<le> length dst"
  shows "length (write_longwords dst pos buf) = length dst"
    and "j < length buf \<Longrightarrow> read_be32 (write_longwords dst pos buf) (pos + j * 4) = buf ! j"
    and "o' + 4 \<le> pos \<or> pos + length buf * 4 \<le> o' \<Longrightarrow>
      read_be32 (write_longwords dst pos buf) o' = read_be32 dst o'"
  using write_longwords_prefix [OF order_refl assms] by (auto simp: write_longwords_def)

section \<open>Clock bits\<close>

text \<open>
  Data bits sit at even positions, clock bits at odd ones.  \<open>mfm_ok prev w\<close> is the rule for
  a longword \<open>w\<close> that follows \<open>prev\<close>: each clock bit is the NOR of its two neighbours.
\<close>

definition mfm_ok :: "u32 \<Rightarrow> u32 \<Rightarrow> bool" where
  "mfm_ok prev w \<longleftrightarrow> (\<forall>p < 32. odd p \<longrightarrow>
     bit w p = (\<not> (if p = 31 then bit prev 0 else bit w (p + 1)) \<and> \<not> bit w (p - 1)))"

lemma bit_int_high: "0 \<le> k \<Longrightarrow> k < 2 ^ m \<Longrightarrow> m \<le> n \<Longrightarrow> \<not> bit k n" for k :: int
  by (metis bit_take_bit_iff not_le take_bit_int_eq_self)

lemma bit_int_mfm_mask:
  "bit (0x55555555 :: int) n \<longleftrightarrow> even n \<and> n < 32"
  "bit (0xAAAAAAAA :: int) n \<longleftrightarrow> odd n \<and> n < 32"
  "bit (0x15555555 :: int) n \<longleftrightarrow> even n \<and> n < 30"
proof -
  have "list_all (\<lambda>n. bit (0x55555555 :: int) n = even n) [0..<32]"
    "list_all (\<lambda>n. bit (0xAAAAAAAA :: int) n = odd n) [0..<32]"
    "list_all (\<lambda>n. bit (0x15555555 :: int) n = even n) [0..<30]"
    by code_simp+
  moreover have "\<not> n < 32 \<Longrightarrow> \<not> bit (0x55555555 :: int) n" "\<not> n < 32 \<Longrightarrow> \<not> bit (0xAAAAAAAA :: int) n"
    "\<not> n < 30 \<Longrightarrow> \<not> bit (0x15555555 :: int) n"
    using bit_int_high [of "0x55555555" 32 n] bit_int_high [of "0xAAAAAAAA" 32 n]
      bit_int_high [of "0x15555555" 30 n] by simp_all
  ultimately show "bit (0x55555555 :: int) n \<longleftrightarrow> even n \<and> n < 32"
    "bit (0xAAAAAAAA :: int) n \<longleftrightarrow> odd n \<and> n < 32" "bit (0x15555555 :: int) n \<longleftrightarrow> even n \<and> n < 30"
    by (auto simp: list_all_iff)
qed

lemma mfmcode_length [simp]: "length (mfmcode_u32 prev ws) = length ws"
  by (induction ws arbitrary: prev) (simp_all add: Let_def)

text \<open>What \<^verbatim>\<open>mfmcode_u32\<close> makes of one longword.\<close>

definition mfm_code1 :: "u32 \<Rightarrow> u32 \<Rightarrow> u32" where
  "mfm_code1 prev w = (let v = w AND MFM_MASK in
     v OR (NOT (push_bit 31 prev OR drop_bit 1 v) AND NOT (push_bit 1 v) AND 0xAAAAAAAA))"

lemma mfmcode_Cons: "mfmcode_u32 prev (w # ws) = mfm_code1 prev w # mfmcode_u32 (w AND MFM_MASK) ws"
  by (simp add: mfm_code1_def Let_def)

lemma bit_mfm_code1: "n < 32 \<Longrightarrow> bit (mfm_code1 prev w) n =
    (if even n then bit w n
     else \<not> (if n = 31 then bit prev 0 else bit w (n + 1)) \<and> \<not> bit w (n - 1))"
  by (simp only: mfm_code1_def Let_def bit_or_iff bit_and_iff bit_not_iff bit_push_bit_iff
      bit_drop_bit_eq comp_def)
     (auto simp: bit_simps bit_int_mfm_mask elim!: oddE)

lemma mfm_code1_data: "mfm_code1 prev w AND MFM_MASK = w AND MFM_MASK"
  by (rule bit_word_eqI) (auto simp: bit_mfm_code1 bit_simps bit_int_mfm_mask)

lemma mfm_code1_ok: "bit prev' 0 = bit prev 0 \<Longrightarrow> mfm_ok prev' (mfm_code1 prev w)"
  by (auto simp: mfm_ok_def bit_mfm_code1 elim!: oddE)

lemma mfmcode_nth:
  "j < length ws \<Longrightarrow> mfmcode_u32 prev ws ! j =
     mfm_code1 (if j = 0 then prev else ws ! (j - 1) AND MFM_MASK) (ws ! j)"
proof (induction ws arbitrary: prev j)
  case (Cons w ws)
  then show ?case by (cases j) (auto simp: mfmcode_Cons simp del: mfmcode_u32.simps)
qed simp

section \<open>The longwords of a sector\<close>

definition data_longword :: "u8 list \<Rightarrow> nat \<Rightarrow> nat \<Rightarrow> u32" where
  "data_longword sector_data off i = read_be32 sector_data (off + i * 4)"

definition odd_bits :: "u32 \<Rightarrow> u32" where
  "odd_bits w = drop_bit 1 w AND MFM_MASK"

definition even_bits :: "u32 \<Rightarrow> u32" where
  "even_bits w = w AND MFM_MASK"

lemma encode_data_prefix:
  fixes sd :: "u8 list" and off :: nat and c :: u32
  assumes "n \<le> 128" and "length buf = 272"
  defines "r \<equiv> fold (encode_data_longword sd off) [0..<n] (buf, c)"
  shows "length (fst r) = 272 \<and>
    (\<forall>i < n. fst r ! (16 + i) = odd_bits (data_longword sd off i) \<and>
             fst r ! (144 + i) = even_bits (data_longword sd off i)) \<and>
    (\<forall>k < 16. fst r ! k = buf ! k) \<and>
    snd r = fold (\<lambda>i s. (s XOR odd_bits (data_longword sd off i)) XOR
              even_bits (data_longword sd off i)) [0..<n] c"
  unfolding r_def using assms(1)
proof (induction n)
  case (Suc n)
  obtain b d where bd: "fold (encode_data_longword sd off) [0..<n] (buf, c) = (b, d)"
    by (cases "fold (encode_data_longword sd off) [0..<n] (buf, c)")
  have "n < 128" using Suc.prems by simp
  moreover have IH: "length b = 272" "\<forall>i < n. b ! (16 + i) = odd_bits (data_longword sd off i) \<and>
      b ! (144 + i) = even_bits (data_longword sd off i)" "\<forall>k < 16. b ! k = buf ! k"
    "d = fold (\<lambda>i s. (s XOR odd_bits (data_longword sd off i)) XOR
       even_bits (data_longword sd off i)) [0..<n] c"
    using Suc bd by auto
  moreover have "encode_data_longword sd off n (b, d) =
      (b[16 + n := odd_bits (data_longword sd off n), 144 + n := even_bits (data_longword sd off n)],
       (d XOR odd_bits (data_longword sd off n)) XOR even_bits (data_longword sd off n))"
    by (simp add: encode_data_longword_def odd_bits_def even_bits_def data_longword_def Let_def)
  ultimately show ?case
    by (auto simp: bd less_Suc_eq nth_list_update)
qed (use assms(2) in simp)

definition data_checksum :: "u8 list \<Rightarrow> nat \<Rightarrow> u32" where
  "data_checksum sd off = fold (\<lambda>i s. (s XOR odd_bits (data_longword sd off i)) XOR
     even_bits (data_longword sd off i)) [0..<128] 0"

lemma sector_longwords_nth:
  fixes sd :: "u8 list" and off :: nat and track sector spt :: u32
  defines "L \<equiv> sector_longwords sd off track sector spt" and "info \<equiv> sector_info track sector spt"
  shows "length L = 272"
    and "L ! 0 = 0xAAAAAAAA" "L ! 1 = 0x44894489"
    and "L ! 2 = odd_bits info" "L ! 3 = even_bits info"
    and "4 \<le> k \<Longrightarrow> k < 12 \<Longrightarrow> L ! k = 0"
    and "L ! 12 = drop_bit 1 (odd_bits info XOR even_bits info)"
    and "L ! 13 = odd_bits info XOR even_bits info"
    and "L ! 14 = drop_bit 1 (data_checksum sd off)" "L ! 15 = data_checksum sd off"
    and "i < 128 \<Longrightarrow> L ! (16 + i) = odd_bits (data_longword sd off i)"
    and "i < 128 \<Longrightarrow> L ! (144 + i) = even_bits (data_longword sd off i)"
proof -
  let ?b0 = "(replicate 272 0)[0 := 0xAAAAAAAA, 1 := 0x44894489, 2 := odd_bits info, 3 := even_bits info]"
  obtain b d where bd: "fold (encode_data_longword sd off) [0..<128] (?b0, 0) = (b, d)"
    by (cases "fold (encode_data_longword sd off) [0..<128] (?b0, 0)")
  have len0: "length ?b0 = 272" by simp
  have b: "length b = 272" "\<forall>i < 128. b ! (16 + i) = odd_bits (data_longword sd off i) \<and>
      b ! (144 + i) = even_bits (data_longword sd off i)" "\<forall>k < 16. b ! k = ?b0 ! k"
    "d = data_checksum sd off"
    using encode_data_prefix [OF order_refl len0, of sd off 0, unfolded bd fst_conv snd_conv]
    unfolding data_checksum_def by blast+
  let ?h = "odd_bits info XOR even_bits info"
  have L: "L = b[12 := drop_bit 1 ?h, 13 := ?h, 14 := drop_bit 1 d, 15 := d]"
    unfolding L_def sector_longwords_def Let_def info_def [symmetric]
      odd_bits_def [of info, symmetric] even_bits_def [of info, symmetric]
    by (simp only: bd prod.case xor.left_neutral)
  show "length L = 272" "L ! 0 = 0xAAAAAAAA" "L ! 1 = 0x44894489"
    "L ! 2 = odd_bits info" "L ! 3 = even_bits info" "L ! 12 = drop_bit 1 ?h" "L ! 13 = ?h"
    "L ! 14 = drop_bit 1 (data_checksum sd off)" "L ! 15 = data_checksum sd off"
    "4 \<le> k \<Longrightarrow> k < 12 \<Longrightarrow> L ! k = 0"
    "i < 128 \<Longrightarrow> L ! (16 + i) = odd_bits (data_longword sd off i)"
    "i < 128 \<Longrightarrow> L ! (144 + i) = even_bits (data_longword sd off i)"
    using b by (simp_all add: L nth_list_update)
qed

section \<open>Decoding a sector\<close>

definition mfm_decode :: "u32 \<Rightarrow> u32 \<Rightarrow> u32" where
  "mfm_decode o' e = push_bit 1 (o' AND MFM_MASK) OR (e AND MFM_MASK)"

lemma mfm_decode_eq:
  assumes "o' AND MFM_MASK = odd_bits w" and "e AND MFM_MASK = even_bits w"
  shows "mfm_decode o' e = w"
  unfolding mfm_decode_def assms odd_bits_def even_bits_def
proof (rule bit_word_eqI)
  fix n assume "n < LENGTH(32)"
  then show "bit (push_bit 1 (drop_bit 1 w AND MFM_MASK) OR (w AND MFM_MASK)) n = bit w n"
    by (cases "n = 0") (auto simp: bit_or_iff bit_and_iff bit_push_bit_iff bit_drop_bit_eq
        bit_int_mfm_mask bit_numeral_word_iff simp del: push_bit_of_1 push_bit_Suc)
qed

lemma bits_idem: "odd_bits w AND MFM_MASK = odd_bits w" "even_bits w AND MFM_MASK = even_bits w"
  by (simp_all add: odd_bits_def even_bits_def and.assoc)

definition sector_encoded :: "u8 list \<Rightarrow> nat \<Rightarrow> u32 \<Rightarrow> u32 \<Rightarrow> u32 \<Rightarrow> u32 list" where
  "sector_encoded sd off track sector spt =
     (let buf = sector_longwords sd off track sector spt
      in take 2 buf @ mfmcode_u32 (buf ! 1) (drop 2 buf))"

lemma sector_encoded_length: "length (sector_encoded sd off track sector spt) = 272"
  by (simp add: sector_encoded_def Let_def sector_longwords_nth(1))

lemma sector_encoded_nth:
  fixes sd :: "u8 list" and off :: nat and track sector spt :: u32
  defines "L \<equiv> sector_longwords sd off track sector spt" and "E \<equiv> sector_encoded sd off track sector spt"
  assumes "2 \<le> k" "k < 272"
  shows "E ! k AND MFM_MASK = L ! k AND MFM_MASK" and "mfm_ok (E ! (k - 1)) (E ! k)"
proof -
  have len: "length L = 272" by (simp add: L_def sector_longwords_nth(1))
  have code: "E ! k' = mfm_code1 (if k' = 2 then L ! 1 else L ! (k' - 1) AND MFM_MASK) (L ! k')"
    if "2 \<le> k'" "k' < 272" for k'
  proof -
    have "E ! k' = mfmcode_u32 (L ! 1) (drop 2 L) ! (k' - 2)"
      using that len by (simp add: E_def L_def sector_encoded_def Let_def nth_append)
    also have "\<dots> = mfm_code1 (if k' - 2 = 0 then L ! 1 else drop 2 L ! (k' - 2 - 1) AND MFM_MASK)
        (drop 2 L ! (k' - 2))"
      by (rule mfmcode_nth) (use that len in simp)
    also have "\<dots> = mfm_code1 (if k' = 2 then L ! 1 else L ! (k' - 1) AND MFM_MASK) (L ! k')"
      using that len by (auto simp: Suc_diff_Suc numeral_2_eq_2)
    finally show ?thesis .
  qed
  show "E ! k AND MFM_MASK = L ! k AND MFM_MASK"
    by (simp add: code [OF assms(3,4)] mfm_code1_data)
  have "bit (E ! (k - 1)) 0 = bit (if k = 2 then L ! 1 else L ! (k - 1) AND MFM_MASK) 0"
  proof (cases "k = 2")
    case True
    then show ?thesis using len by (simp add: E_def L_def sector_encoded_def Let_def nth_append)
  next
    case False
    then have "E ! (k - 1) AND MFM_MASK = L ! (k - 1) AND MFM_MASK"
      using assms(3,4) code [of "k - 1"] by (simp add: mfm_code1_data)
    moreover have b0: "bit w 0 = bit (w AND MFM_MASK) 0" for w :: u32 by (simp add: bit_simps)
    ultimately show ?thesis using False b0 [of "E ! (k - 1)"] by (simp only: if_False)
  qed
  then show "mfm_ok (E ! (k - 1)) (E ! k)"
    by (simp add: code [OF assms(3,4)] mfm_code1_ok)
qed

section \<open>Checksums\<close>

lemma fold_xor_acc: "fold (\<lambda>i s. s XOR f i) xs (c XOR a) = fold (\<lambda>i s. s XOR f i) xs c XOR (a :: u32)"
proof (induction xs arbitrary: c)
  case (Cons x xs)
  have "(c XOR a) XOR f x = (c XOR f x) XOR a" by (simp only: ac_simps)
  then show ?case using Cons [of "c XOR f x"] by simp
qed simp

lemma fold_xor_pair:
  "fold (\<lambda>i s. (s XOR f i) XOR g i) xs (c :: u32) =
     fold (\<lambda>i s. s XOR g i) xs (fold (\<lambda>i s. s XOR f i) xs c)"
proof (induction xs arbitrary: c)
  case (Cons x xs)
  then show ?case
    using fold_xor_acc [of f xs "c XOR f x" "g x"] by simp
qed simp

lemma fold_map_upt: "fold f (map g [0..<n]) c = fold (\<lambda>i. f (g i)) [0..<n] c"
  by (simp add: fold_map comp_def)

lemma data_checksum_eq:
  "data_checksum sd off = floppy_mfm_checksum
     (map (\<lambda>i. odd_bits (data_longword sd off i)) [0..<128] @
      map (\<lambda>i. even_bits (data_longword sd off i)) [0..<128])"
  unfolding data_checksum_def fold_xor_pair floppy_mfm_checksum_def fold_append comp_apply
    fold_map_upt bits_idem by (rule refl)

lemma checksum_masked: "map (\<lambda>d. d AND MFM_MASK) xs = map (\<lambda>d. d AND MFM_MASK) ys \<Longrightarrow>
    floppy_mfm_checksum xs = floppy_mfm_checksum ys"
proof -
  assume *: "map (\<lambda>d. d AND MFM_MASK) xs = map (\<lambda>d. d AND MFM_MASK) ys"
  have "floppy_mfm_checksum zs = fold (\<lambda>d sum. sum XOR d) (map (\<lambda>d. d AND MFM_MASK) zs) 0" for zs
    by (simp add: floppy_mfm_checksum_def fold_map comp_def)
  then show ?thesis using * by metis
qed

lemma checksum_even: "floppy_mfm_checksum xs AND MFM_MASK = floppy_mfm_checksum xs"
proof -
  have "c AND MFM_MASK = c \<Longrightarrow> fold (\<lambda>d sum. sum XOR (d AND MFM_MASK)) xs c AND MFM_MASK =
      fold (\<lambda>d sum. sum XOR (d AND MFM_MASK)) xs c" for c :: u32
  proof (induction xs arbitrary: c)
    case (Cons x xs)
    have "(c XOR (x AND MFM_MASK)) AND MFM_MASK = c XOR (x AND MFM_MASK)"
      using Cons.prems by (simp add: bit.conj_xor_distrib2 and.assoc)
    from Cons.IH [OF this] show ?case by simp
  qed simp
  then show ?thesis by (simp add: floppy_mfm_checksum_def)
qed

lemma even_value_split:
  assumes "c AND MFM_MASK = c"
  shows "drop_bit 1 c AND MFM_MASK = odd_bits c" "c AND MFM_MASK = even_bits c"
  by (simp_all add: odd_bits_def even_bits_def)

section \<open>Encoded sectors\<close>

text \<open>
  What it means that the longwords \<open>lw\<close> hold a sector: the data halves decode to the data,
  the info halves to the header, both stored checksums are the checksums of what is stored,
  the sync word is in place and every clock bit after it obeys the MFM rule.
\<close>

definition sector_image :: "(nat \<Rightarrow> u32) \<Rightarrow> (nat \<Rightarrow> u32) \<Rightarrow> u32 \<Rightarrow> bool" where
  "sector_image lw data info \<longleftrightarrow>
     (\<forall>i < 128. mfm_decode (lw (16 + i)) (lw (144 + i)) = data i) \<and>
     mfm_decode (lw 2) (lw 3) = info \<and> lw 1 = 0x44894489 \<and>
     mfm_decode (lw 12) (lw 13) = floppy_mfm_checksum (map lw [2..<12]) \<and>
     mfm_decode (lw 14) (lw 15) = floppy_mfm_checksum (map lw [16..<272]) \<and>
     (\<forall>k. 2 \<le> k \<and> k < 272 \<longrightarrow> mfm_ok (lw (k - 1)) (lw k))"

lemma sector_image_cong:
  assumes "\<And>k. 1 \<le> k \<Longrightarrow> k < 272 \<Longrightarrow> lw k = lw' k"
  shows "sector_image lw data info = sector_image lw' data info"
proof -
  have "map lw [2..<12] = map lw' [2..<12]" "map lw [16..<272] = map lw' [16..<272]"
    using assms by (simp_all add: map_eq_conv)
  then show ?thesis
    using assms by (auto simp: sector_image_def)
qed

lemma header_checksum:
  fixes sd :: "u8 list" and off :: nat and track sector spt :: u32
  defines "L \<equiv> sector_longwords sd off track sector spt" and "info \<equiv> sector_info track sector spt"
  shows "floppy_mfm_checksum (map (\<lambda>k. L ! k) [2..<12]) = odd_bits info XOR even_bits info"
proof -
  have u: "[2..<12] = [2, 3, 4, 5, 6, 7, 8, 9, 10, 11 :: nat]" by (simp add: upt_rec)
  have "L ! k = 0" if "k \<in> {4, 5, 6, 7, 8, 9, 10, 11}" for k
    using that sector_longwords_nth(6) [of k sd off track sector spt] by (auto simp: L_def)
  then show ?thesis
    by (simp add: u floppy_mfm_checksum_def L_def info_def sector_longwords_nth(4,5) bits_idem)
qed

lemma data_checksum_stored:
  fixes sd :: "u8 list" and off :: nat and track sector spt :: u32
  defines "L \<equiv> sector_longwords sd off track sector spt"
  shows "floppy_mfm_checksum (map (\<lambda>k. L ! k) [16..<272]) = data_checksum sd off"
proof -
  have "map (\<lambda>k. L ! k) [16..<272] =
      map (\<lambda>i. odd_bits (data_longword sd off i)) [0..<128] @
      map (\<lambda>i. even_bits (data_longword sd off i)) [0..<128]"
    (is "?l = ?r")
  proof (rule nth_equalityI)
    show "length ?l = length ?r" by (simp del: upt_rec_numeral)
    fix i assume "i < length ?l"
    then have i: "i < 256" by (simp del: upt_rec_numeral)
    have "?l ! i = L ! (16 + i)" using i by (simp add: nth_map_upt del: upt_rec_numeral)
    also have "\<dots> = ?r ! i"
    proof (cases "i < 128")
      case True
      then show ?thesis
        by (simp add: nth_append L_def sector_longwords_nth(11) del: upt_rec_numeral)
    next
      case False
      then have "16 + i = 144 + (i - 128)" "i - 128 < 128" using i by simp_all
      then show ?thesis
        using False sector_longwords_nth(12) [of "i - 128" sd off track sector spt]
        by (simp add: nth_append L_def del: upt_rec_numeral)
    qed
    finally show "?l ! i = ?r ! i" .
  qed
  then show ?thesis by (simp only: data_checksum_eq)
qed

lemma sector_encoded_image:
  "sector_image (\<lambda>k. sector_encoded sd off track sector spt ! k) (data_longword sd off)
     (sector_info track sector spt)"
proof -
  let ?E = "sector_encoded sd off track sector spt" and ?L = "sector_longwords sd off track sector spt"
  let ?info = "sector_info track sector spt"
  note dat = sector_encoded_nth(1) [of _ sd off track sector spt]
  have chk: "floppy_mfm_checksum (map (\<lambda>k. ?E ! k) [a..<b]) = floppy_mfm_checksum (map (\<lambda>k. ?L ! k) [a..<b])"
    if "2 \<le> a" "b \<le> 272" for a b
    by (rule checksum_masked) (use that in \<open>simp add: dat\<close>)
  have h: "(odd_bits ?info XOR even_bits ?info) AND MFM_MASK = odd_bits ?info XOR even_bits ?info"
    by (simp add: bit.conj_xor_distrib2 bits_idem)
  have d: "data_checksum sd off AND MFM_MASK = data_checksum sd off"
    by (simp only: data_checksum_eq checksum_even)
  have 1: "mfm_decode (?E ! (16 + i)) (?E ! (144 + i)) = data_longword sd off i" if "i < 128" for i
    by (rule mfm_decode_eq) (use that in \<open>simp_all add: dat sector_longwords_nth bits_idem\<close>)
  have 2: "mfm_decode (?E ! 2) (?E ! 3) = ?info"
    by (rule mfm_decode_eq) (simp_all add: dat sector_longwords_nth bits_idem)
  have 3: "?E ! 1 = 0x44894489"
    using sector_longwords_nth(3) [of sd off track sector spt]
    by (simp add: sector_encoded_def Let_def nth_append sector_longwords_nth(1))
  have c4: "floppy_mfm_checksum (map (\<lambda>k. ?E ! k) [2..<12]) = odd_bits ?info XOR even_bits ?info"
    using chk [of 2 12] header_checksum [of sd off track sector spt] by (simp del: upt_rec_numeral)
  have c5: "floppy_mfm_checksum (map (\<lambda>k. ?E ! k) [16..<272]) = data_checksum sd off"
    using chk [of 16 272] data_checksum_stored [of sd off track sector spt]
    by (simp del: upt_rec_numeral)
  have 4: "mfm_decode (?E ! 12) (?E ! 13) = floppy_mfm_checksum (map (\<lambda>k. ?E ! k) [2..<12])"
    unfolding c4
  proof (rule mfm_decode_eq)
    have "?E ! 12 AND MFM_MASK = ?L ! 12 AND MFM_MASK" "?E ! 13 AND MFM_MASK = ?L ! 13 AND MFM_MASK"
      by (simp_all add: dat)
    then show "?E ! 12 AND MFM_MASK = odd_bits (odd_bits ?info XOR even_bits ?info)"
      "?E ! 13 AND MFM_MASK = even_bits (odd_bits ?info XOR even_bits ?info)"
      by (simp_all only: sector_longwords_nth(7,8) even_value_split [OF h])
  qed
  have 5: "mfm_decode (?E ! 14) (?E ! 15) = floppy_mfm_checksum (map (\<lambda>k. ?E ! k) [16..<272])"
    unfolding c5
    by (rule mfm_decode_eq) (simp_all add: dat sector_longwords_nth odd_bits_def even_bits_def)
  have 6: "mfm_ok (?E ! (k - 1)) (?E ! k)" if "2 \<le> k" "k < 272" for k
    by (rule sector_encoded_nth(2) [OF that])
  from 1 2 3 4 5 6 show ?thesis unfolding sector_image_def by blast
qed

lemma encode_sector_reads:
  assumes "pos + 1088 \<le> length dst" and "1088 \<le> sz"
  defines "E \<equiv> \<lambda>sd off track sector spt. sector_encoded sd off track sector spt"
  shows "\<exists>d. floppy_mfm_encode_sector dst pos sz sd off track sector spt = (True, d) \<and>
    length d = length dst \<and> (\<forall>k < 272. read_be32 d (pos + k * 4) = E sd off track sector spt ! k) \<and>
    (\<forall>o'. o' + 4 \<le> pos \<or> pos + 1088 \<le> o' \<longrightarrow> read_be32 d o' = read_be32 dst o')"
proof -
  let ?E = "sector_encoded sd off track sector spt"
  have fit: "pos + length ?E * 4 \<le> length dst" using assms(1) by (simp add: sector_encoded_length)
  have "floppy_mfm_encode_sector dst pos sz sd off track sector spt =
      (True, write_longwords dst pos ?E)"
    using assms(2) by (simp add: floppy_mfm_encode_sector_def sector_encoded_def Let_def)
  then show ?thesis
    using write_longwords [OF fit] by (auto simp: sector_encoded_length E_def)
qed

section \<open>Encoded tracks\<close>

lemma track_sectors_prefix:
  fixes td :: "u8 list"
  assumes "g + n * 1088 \<le> length dst"
  shows "\<exists>d. fold (encode_track_sector td track spt) [0..<n] (dst, g) = (d, g + n * 1088) \<and>
    length d = length dst \<and>
    (\<forall>s < n. \<forall>k. 1 \<le> k \<and> k < 272 \<longrightarrow> read_be32 d (g + s * 1088 + k * 4) =
       sector_encoded td (s * 512) track (word_of_nat s) spt ! k)"
  using assms
proof (induction n)
  case (Suc n)
  then obtain d where d: "fold (encode_track_sector td track spt) [0..<n] (dst, g) = (d, g + n * 1088)"
    "length d = length dst" "\<forall>s < n. \<forall>k. 1 \<le> k \<and> k < 272 \<longrightarrow> read_be32 d (g + s * 1088 + k * 4) =
       sector_encoded td (s * 512) track (word_of_nat s) spt ! k" by auto
  let ?pos = "g + n * 1088"
  have fit: "?pos + 1088 \<le> length d" using Suc.prems d(2) by simp
  obtain e where e: "floppy_mfm_encode_sector d ?pos 1088 td (n * 512) track (word_of_nat n) spt = (True, e)"
    "length e = length d"
    "\<forall>k < 272. read_be32 e (?pos + k * 4) = sector_encoded td (n * 512) track (word_of_nat n) spt ! k"
    "\<forall>o'. o' + 4 \<le> ?pos \<or> ?pos + 1088 \<le> o' \<longrightarrow> read_be32 e o' = read_be32 d o'"
    using encode_sector_reads [OF fit order_refl] by metis
  define v where "v = (if (if ?pos \<ge> 4 then read_be32 d (?pos - 4) AND 1 else 0) \<noteq> 0
      then 0x2AAAAAAA else 0xAAAAAAAA :: u32)"
  have step: "fold (encode_track_sector td track spt) [0..<Suc n] (dst, g) =
      (write_be32 e ?pos v, ?pos + 1088)"
    by (simp add: d(1) encode_track_sector_def e(1) v_def Let_def)
  have "read_be32 (write_be32 e ?pos v) (g + s * 1088 + k * 4) =
      sector_encoded td (s * 512) track (word_of_nat s) spt ! k"
    if "s < Suc n" "1 \<le> k" "k < 272" for s k
  proof (cases "s = n")
    case True
    then show ?thesis using that e(3) by (simp add: read_write_other)
  next
    case False
    then have "s < n" using that by simp
    then have "g + s * 1088 + k * 4 + 4 \<le> ?pos" using that(3) by simp
    then show ?thesis using \<open>s < n\<close> that d(3) e(4) by (simp add: read_write_other)
  qed
  then show ?case using step e(2) d(2) by auto
qed simp

lemma track_gap:
  "\<exists>d. fold (\<lambda>_ (d, p). (write_be32 d p 0xAAAAAAAA, p + 4)) [0..<n] (dst, 0) = (d, n * 4) \<and>
     length d = length dst"
proof (induction n)
  case (Suc n)
  then obtain d where "fold (\<lambda>_ (d, p). (write_be32 d p 0xAAAAAAAA, p + 4)) [0..<n] (dst, 0) = (d, n * 4)"
    "length d = length dst" by blast
  then show ?case by simp
qed simp

definition track_gap_words :: "nat \<Rightarrow> u32 \<Rightarrow> nat" where
  "track_gap_words sz spt =
     (let g = (sz - unat spt * 1088) div 4 in if g > 1 then g - 1 else 0)"

lemma encode_track_reads:
  assumes "unat spt * 1088 < 2 ^ 32" and "unat spt * 1088 \<le> length dst"
  shows "\<exists>d. floppy_mfm_encode_track dst td track spt = (True, d) \<and> length d = length dst \<and>
    (\<forall>s < unat spt. \<forall>k. 1 \<le> k \<and> k < 272 \<longrightarrow>
       read_be32 d (track_gap_words (length dst) spt * 4 + s * 1088 + k * 4) =
       sector_encoded td (s * 512) track (word_of_nat s) spt ! k)"
proof -
  let ?n = "unat spt" and ?g = "track_gap_words (length dst) spt"
  have db: "(?n * 1088) mod 2 ^ 32 = ?n * 1088" using assms(1) by simp
  have gw: "(let gapsize = (if length dst > ?n * 1088 then length dst - ?n * 1088 else 0)
      in if gapsize div 4 > 1 then gapsize div 4 - 1 else 0) = ?g"
    by (auto simp: track_gap_words_def Let_def)
  obtain d0 where d0: "fold (\<lambda>_ (d, p). (write_be32 d p 0xAAAAAAAA, p + 4)) [0..<?g] (dst, 0) =
      (d0, ?g * 4)" "length d0 = length dst"
    using track_gap [of ?g dst] by blast
  have fit: "?g * 4 + ?n * 1088 \<le> length d0"
    using assms(2) d0(2) by (auto simp: track_gap_words_def Let_def)
  obtain d1 where d1: "fold (encode_track_sector td track spt) [0..<?n] (d0, ?g * 4) =
      (d1, ?g * 4 + ?n * 1088)" "length d1 = length d0"
    "\<forall>s < ?n. \<forall>k. 1 \<le> k \<and> k < 272 \<longrightarrow> read_be32 d1 (?g * 4 + s * 1088 + k * 4) =
       sector_encoded td (s * 512) track (word_of_nat s) spt ! k"
    using track_sectors_prefix [OF fit, of td track spt] by blast
  let ?p = "?g * 4 + ?n * 1088"
  let ?d2 = "if ?p + 4 \<le> length dst
      then write_be32 d1 ?p (hd (mfmcode_u32 (if ?p \<ge> 4 then read_be32 d1 (?p - 4) else 0) [0]))
      else d1"
  have "floppy_mfm_encode_track dst td track spt = (True, ?d2)"
    using assms(2) gw d0(1) d1(1) unfolding floppy_mfm_encode_track_def db Let_def
    by (simp del: mfmcode_u32.simps)
  moreover have "read_be32 ?d2 (?g * 4 + s * 1088 + k * 4) = read_be32 d1 (?g * 4 + s * 1088 + k * 4)"
    if "s < ?n" "k < 272" for s k
  proof -
    have "s * 1088 + k * 4 + 4 \<le> ?n * 1088" using that by (simp add: less_eq_Suc_le)
    then show ?thesis by (simp add: read_write_other)
  qed
  ultimately show ?thesis using d1 d0(2) by auto
qed

text \<open>
  C39: Encoding a track succeeds whenever the buffer holds the encoded sectors.  Sector \<open>s\<close>
  then stands at a fixed offset behind the gap and is a faithful image: its data longwords
  decode to the 512 bytes of sector \<open>s\<close>, its header decodes to track, sector and distance to
  the gap, both stored checksums are those \<^verbatim>\<open>floppy_mfm_checksum\<close> computes over what is
  stored, and every clock bit after the sync word is the NOR of its neighbours.
\<close>

theorem mfm_track_roundtrip:
  assumes "unat spt * 1088 < 2 ^ 32" and "unat spt * 1088 \<le> length dst"
  shows "let (ok, d) = floppy_mfm_encode_track dst td track spt
    in ok \<and> length d = length dst \<and>
       (\<forall>s < unat spt. sector_image
          (\<lambda>k. read_be32 d (track_gap_words (length dst) spt * 4 + s * 1088 + k * 4))
          (\<lambda>i. read_be32 td (s * 512 + i * 4)) (sector_info track (word_of_nat s) spt))"
proof -
  obtain d where d: "floppy_mfm_encode_track dst td track spt = (True, d)" "length d = length dst"
    "\<forall>s < unat spt. \<forall>k. 1 \<le> k \<and> k < 272 \<longrightarrow>
       read_be32 d (track_gap_words (length dst) spt * 4 + s * 1088 + k * 4) =
       sector_encoded td (s * 512) track (word_of_nat s) spt ! k"
    using encode_track_reads [OF assms, of td track] by blast
  have "sector_image (\<lambda>k. read_be32 d (track_gap_words (length dst) spt * 4 + s * 1088 + k * 4))
      (\<lambda>i. read_be32 td (s * 512 + i * 4)) (sector_info track (word_of_nat s) spt)"
    if "s < unat spt" for s
    using sector_encoded_image [of td "s * 512" track "word_of_nat s" spt] d(3) that
    by (subst sector_image_cong [of _ "\<lambda>k. sector_encoded td (s * 512) track (word_of_nat s) spt ! k"])
       (auto simp: data_longword_def [abs_def])
  then show ?thesis using d(1,2) by simp
qed

theorem mfm_track_roundtrip_witness:
  "let (ok, d) = floppy_mfm_encode_track (replicate 13630 0) (replicate 5632 0x5a) 3 11
   in ok \<and> length d = 13630 \<and>
      mfm_decode (read_be32 d (414 * 4 + 1 * 1088 + 16 * 4)) (read_be32 d (414 * 4 + 1 * 1088 + 144 * 4)) =
        read_be32 (replicate 5632 0x5a) (1 * 512 + 0 * 4)"
proof -
  define A B where "A = replicate 13630 (0 :: u8)" and "B = replicate 5632 (0x5a :: u8)"
  have len: "length A = 13630" unfolding A_def by (rule length_replicate)
  have g: "track_gap_words (length A) 11 = 414" by (simp add: track_gap_words_def len)
  obtain ok d where e: "floppy_mfm_encode_track A B 3 11 = (ok, d)"
    by (cases "floppy_mfm_encode_track A B 3 11")
  have "unat (11 :: u32) * 1088 < 2 ^ 32" "unat (11 :: u32) * 1088 \<le> length A"
    by (simp_all add: len)
  note T = mfm_track_roundtrip [OF this, of B 3, unfolded e g Let_def prod.case]
  from T have 1: "ok" "length d = 13630" by (simp_all add: len)
  have "(1 :: nat) < unat (11 :: u32)" by simp
  with T have "sector_image (\<lambda>k. read_be32 d (414 * 4 + 1 * 1088 + k * 4))
      (\<lambda>i. read_be32 B (1 * 512 + i * 4)) (sector_info 3 (word_of_nat 1) 11)" by blast
  then have "\<forall>i < 128. mfm_decode (read_be32 d (414 * 4 + 1 * 1088 + (16 + i) * 4))
      (read_be32 d (414 * 4 + 1 * 1088 + (144 + i) * 4)) = read_be32 B (1 * 512 + i * 4)"
    unfolding sector_image_def by blast
  from spec [OF this, of 0] show ?thesis
    using 1 e unfolding A_def [symmetric] B_def [symmetric] by simp
qed

lemma mfm_ok_odd: "mfm_ok prev w \<Longrightarrow> odd p \<Longrightarrow> p < 31 \<Longrightarrow>
    bit w p = (\<not> bit w (Suc p) \<and> \<not> bit w (p - 1))"
  by (auto simp: mfm_ok_def)

lemma mfm_ok_no_11: "mfm_ok prev w \<Longrightarrow> p < 31 \<Longrightarrow> \<not> (bit w p \<and> bit w (Suc p))"
  by (cases "odd p") (auto simp: mfm_ok_def dest: spec [of _ p] spec [of _ "Suc p"])

lemma mfm_ok_boundary: "mfm_ok prev w \<Longrightarrow> \<not> (bit prev 0 \<and> bit w 31)"
  by (auto simp: mfm_ok_def dest: spec [of _ 31])

lemma mfm_ok_no_0000:
  assumes "mfm_ok prev w" and "p \<le> 28"
  shows "bit w p \<or> bit w (p + 1) \<or> bit w (p + 2) \<or> bit w (p + 3)"
proof (cases "odd p")
  case True
  then show ?thesis using mfm_ok_odd [OF assms(1), of "p + 2"] assms(2) by (auto simp: numeral_3_eq_3)
next
  case False
  then show ?thesis using mfm_ok_odd [OF assms(1), of "p + 1"] assms(2) by auto
qed

text \<open>
  The encoded stream of a sector is run-length limited as an MFM stream must be: from
  the first longword after the sync word on, no two adjacent bits are both one, across
  longword boundaries too, and no longword has four zero bits in a row.
\<close>

theorem mfm_sector_clocking:
  assumes "pos + 1088 \<le> length dst"
  shows "let (ok, d) = floppy_mfm_encode_sector dst pos 1088 sd off track sector spt;
             lw = (\<lambda>k. read_be32 d (pos + k * 4))
    in ok \<and> (\<forall>k \<in> {2..<272}.
         (\<forall>p < 31. \<not> (bit (lw k) p \<and> bit (lw k) (p + 1))) \<and>
         \<not> (bit (lw (k - 1)) 0 \<and> bit (lw k) 31) \<and>
         (\<forall>p \<le> 28. bit (lw k) p \<or> bit (lw k) (p + 1) \<or> bit (lw k) (p + 2) \<or> bit (lw k) (p + 3)))"
proof -
  obtain d where d: "floppy_mfm_encode_sector dst pos 1088 sd off track sector spt = (True, d)"
    "\<forall>k < 272. read_be32 d (pos + k * 4) = sector_encoded sd off track sector spt ! k"
    using encode_sector_reads [OF assms order_refl] by blast
  have ok: "mfm_ok (read_be32 d (pos + (k - 1) * 4)) (read_be32 d (pos + k * 4))"
    if "k \<in> {2..<272}" for k
  proof -
    have "k < 272" "k - 1 < 272" "2 \<le> k" using that by auto
    then show ?thesis
      using sector_encoded_nth(2) [of k sd off track sector spt] d(2) by metis
  qed
  show ?thesis
    unfolding d(1) Let_def prod.case
    using mfm_ok_no_11 [OF ok] mfm_ok_boundary [OF ok] mfm_ok_no_0000 [OF ok] by simp
qed

theorem mfm_sector_clocking_witness:
  "let (ok, d) = floppy_mfm_encode_sector (replicate 1088 0) 0 1088 (replicate 512 0) 0 0 0 11
   in ok \<and> \<not> (bit (read_be32 d 8) 5 \<and> bit (read_be32 d 8) 6)"
proof -
  define A B where "A = replicate 1088 (0 :: u8)" and "B = replicate 512 (0 :: u8)"
  obtain ok d where e: "floppy_mfm_encode_sector A 0 1088 B 0 0 0 11 = (ok, d)"
    by (cases "floppy_mfm_encode_sector A 0 1088 B 0 0 0 11")
  have "0 + 1088 \<le> length A" unfolding A_def length_replicate by simp
  note T = mfm_sector_clocking [OF this, of B 0 0 0 11, unfolded e Let_def prod.case]
  have "ok" using T by blast
  moreover have "\<forall>p < 31. \<not> (bit (read_be32 d (0 + 2 * 4)) p \<and> bit (read_be32 d (0 + 2 * 4)) (p + 1))"
    using bspec [OF conjunct2 [OF T], of 2] by simp
  from spec [OF this, of 5] have "\<not> (bit (read_be32 d 8) 5 \<and> bit (read_be32 d 8) 6)" by simp
  ultimately show ?thesis using e unfolding A_def [symmetric] B_def [symmetric] by simp
qed

end
