(* ===== verification/Beam.thy ===== *)
theory Beam
  imports Rigel_Prelude
begin

text \<open>
  The raster beam: \<^verbatim>\<open>src/chipset/agnus/beam.c\<close> with its domain wrapper
  \<^verbatim>\<open>src/domains/beam/beam_domain.c\<close>, the vertical-blank arithmetic of
  \<^verbatim>\<open>agnus/timing/vblank.[ch]\<close>, the raster windows of \<^verbatim>\<open>agnus/timing/raster.c\<close>, the
  deadline record of \<^verbatim>\<open>agnus/timing/deadline.[ch]\<close> and the public beam prediction of
  \<^verbatim>\<open>src/core/rigel_beam_api.c\<close>.

  The loop of \<^verbatim>\<open>beam_step\<close> need not end for every value of its counters (a line length
  that wraps to zero in 16 bits restarts the line for ever), so it is a
  \<open>partial_function\<close> into \<open>option\<close>; that it does return is proved for every beam whose
  counters are in range.  A \<^verbatim>\<open>bool\<close> result with output pointers is an option: \<^term>\<open>None\<close>
  is the result false, which leaves the outputs unwritten.
\<close>

unbundle bit_operations_syntax

section \<open>The beam counters\<close>

record beam_state =
  beam_hpos :: u16
  beam_vpos :: u16
  beam_line_clocks :: u16
  beam_frame_lines :: u16
  beam_visible_y_start :: u16
  beam_visible_y_stop :: u16
  beam_lof :: u8
  beam_lof_toggle :: u8
  beam_lol :: u8
  beam_lol_toggle :: u8
  beam_frame_count :: u64

abbreviation RIGEL_BEAM_DEFAULT_LINE_CLOCKS :: u16 where "RIGEL_BEAM_DEFAULT_LINE_CLOCKS \<equiv> 227"
abbreviation RIGEL_BEAM_DEFAULT_FRAME_LINES :: u16 where "RIGEL_BEAM_DEFAULT_FRAME_LINES \<equiv> 262"
abbreviation RIGEL_BEAM_DEFAULT_VISIBLE_Y_START :: u16 where
  "RIGEL_BEAM_DEFAULT_VISIBLE_Y_START \<equiv> 26"
abbreviation RIGEL_BEAM_DEFAULT_VISIBLE_Y_STOP :: u16 where
  "RIGEL_BEAM_DEFAULT_VISIBLE_Y_STOP \<equiv> 255"

definition beam_line_hmax :: "beam_state \<Rightarrow> u16" where
  "beam_line_hmax beam = beam_line_clocks beam + (if beam_lol beam \<noteq> 0 then 1 else 0)"

definition beam_frame_vmax :: "beam_state \<Rightarrow> u16" where
  "beam_frame_vmax beam = beam_frame_lines beam + (if beam_lof beam \<noteq> 0 then 1 else 0)"

definition beam_advance_line :: "beam_state \<Rightarrow> beam_state" where
  "beam_advance_line beam =
     (let beam = beam\<lparr>beam_hpos := 0, beam_vpos := beam_vpos beam + 1\<rparr>;
          beam = beam\<lparr>beam_lol := (if beam_lol_toggle beam \<noteq> 0 then beam_lol beam XOR 1 else 0)\<rparr>
      in if beam_vpos beam \<ge> beam_frame_vmax beam then
           let beam = beam\<lparr>beam_vpos := 0, beam_frame_count := beam_frame_count beam + 1\<rparr>;
               beam = beam\<lparr>beam_lof := (if beam_lof_toggle beam \<noteq> 0 then beam_lof beam XOR 1 else 0)\<rparr>
           in if beam_lol_toggle beam = 0 then beam\<lparr>beam_lol := 0\<rparr> else beam
         else beam)"

definition beam_reset :: "beam_state \<Rightarrow> beam_state" where
  "beam_reset beam = beam\<lparr>
     beam_hpos := 0, beam_vpos := 0,
     beam_line_clocks := RIGEL_BEAM_DEFAULT_LINE_CLOCKS,
     beam_frame_lines := RIGEL_BEAM_DEFAULT_FRAME_LINES,
     beam_visible_y_start := RIGEL_BEAM_DEFAULT_VISIBLE_Y_START,
     beam_visible_y_stop := RIGEL_BEAM_DEFAULT_VISIBLE_Y_STOP,
     beam_lof := 0, beam_lof_toggle := 0, beam_lol := 0, beam_lol_toggle := 0,
     beam_frame_count := 0\<rparr>"

text \<open>The while loop of \<^verbatim>\<open>beam_step\<close>.\<close>

partial_function (option) beam_step_loop :: "beam_state \<Rightarrow> u16 \<Rightarrow> beam_state option" where
  "beam_step_loop beam clocks =
     (if clocks > 0 then
        let hmax = beam_line_hmax beam;
            remaining = hmax - beam_hpos beam
        in if remaining = 0 then beam_step_loop (beam_advance_line beam) clocks
           else if clocks < remaining then
             beam_step_loop (beam\<lparr>beam_hpos := beam_hpos beam + clocks\<rparr>) 0
           else
             let beam = beam\<lparr>beam_hpos := beam_hpos beam + remaining\<rparr>
             in beam_step_loop
                  (if beam_hpos beam \<ge> hmax then beam_advance_line beam else beam)
                  (clocks - remaining)
      else Some beam)"

definition beam_step :: "beam_state \<Rightarrow> u16 \<Rightarrow> beam_state option" where
  "beam_step beam clocks =
     beam_step_loop
       (if beam_line_clocks beam = 0 \<or> beam_frame_lines beam = 0 then beam_reset beam else beam)
       clocks"

definition rigel_beam_domain_reset :: "beam_state \<Rightarrow> beam_state" where
  "rigel_beam_domain_reset beam = beam_reset beam"

definition rigel_beam_domain_step :: "beam_state \<Rightarrow> u16 \<Rightarrow> beam_state option" where
  "rigel_beam_domain_step beam clocks = beam_step beam clocks"

section \<open>Vertical blank\<close>

abbreviation AGNUS_VBL_LINE_END :: u16 where "AGNUS_VBL_LINE_END \<equiv> 25"
abbreviation AGNUS_VERTB_VPOS :: u16 where "AGNUS_VERTB_VPOS \<equiv> 0"
abbreviation AGNUS_VERTB_HPOS :: u16 where "AGNUS_VERTB_HPOS \<equiv> 1"

definition agnus_in_vbl_zone :: "u16 \<Rightarrow> bool" where
  "agnus_in_vbl_zone vpos \<longleftrightarrow> vpos \<le> AGNUS_VBL_LINE_END"

definition agnus_is_vertb_position :: "u16 \<Rightarrow> u16 \<Rightarrow> bool" where
  "agnus_is_vertb_position hpos vpos \<longleftrightarrow> vpos = AGNUS_VERTB_VPOS \<and> hpos = AGNUS_VERTB_HPOS"

definition agnus_vbl_inhibits_dma :: "u16 \<Rightarrow> bool" where
  "agnus_vbl_inhibits_dma vpos \<longleftrightarrow> vpos \<le> AGNUS_VBL_LINE_END"

definition beam_in_vblank :: "beam_state \<Rightarrow> bool" where
  "beam_in_vblank beam \<longleftrightarrow> agnus_in_vbl_zone (beam_vpos beam)"

definition beam_in_visible_area :: "beam_state \<Rightarrow> bool" where
  "beam_in_visible_area beam \<longleftrightarrow>
     beam_vpos beam \<ge> beam_visible_y_start beam \<and> beam_vpos beam \<le> beam_visible_y_stop beam"

definition beam_cycles_until_line_end :: "beam_state \<Rightarrow> u16" where
  "beam_cycles_until_line_end beam =
     (if beam_line_clocks beam = 0 then 0 else beam_line_hmax beam - beam_hpos beam)"

definition agnus_cycles_to_vertb :: "beam_state \<Rightarrow> u32" where
  "agnus_cycles_to_vertb beam =
     (let hpos = beam_hpos beam; vpos = beam_vpos beam;
          line_clocks = beam_line_clocks beam; frame_lines = beam_frame_lines beam
      in if agnus_is_vertb_position hpos vpos then 0
         else
           let cycles = ucast line_clocks - ucast hpos :: u32;
               lines_to_wrap =
                 (if vpos < frame_lines then ucast frame_lines - ucast vpos - 1 else 0) :: u32;
               cycles = cycles + lines_to_wrap * ucast line_clocks
           in cycles + ucast AGNUS_VERTB_HPOS)"

section \<open>Raster configuration\<close>

datatype agnus_video_std = AGNUS_VIDEO_NTSC | AGNUS_VIDEO_PAL

datatype agnus_chip_rev = AGNUS_REV_OCS | AGNUS_REV_ECS | AGNUS_REV_AGA

abbreviation AGNUS_NTSC_LINE_CLOCKS :: u16 where "AGNUS_NTSC_LINE_CLOCKS \<equiv> 227"
abbreviation AGNUS_NTSC_FRAME_LINES :: u16 where "AGNUS_NTSC_FRAME_LINES \<equiv> 262"
abbreviation AGNUS_PAL_FRAME_LINES :: u16 where "AGNUS_PAL_FRAME_LINES \<equiv> 312"

record raster_config =
  raster_std :: agnus_video_std
  raster_line_clocks :: u16
  raster_frame_lines :: u16
  raster_diwstrt :: u16
  raster_diwstop :: u16
  raster_ddfstrt :: u16
  raster_ddfstop :: u16

definition raster_reset :: "agnus_video_std \<Rightarrow> raster_config" where
  "raster_reset std = \<lparr>
     raster_std = std,
     raster_line_clocks = AGNUS_NTSC_LINE_CLOCKS,
     raster_frame_lines = (if std = AGNUS_VIDEO_PAL then AGNUS_PAL_FRAME_LINES
                           else AGNUS_NTSC_FRAME_LINES),
     raster_diwstrt = 0, raster_diwstop = 0, raster_ddfstrt = 0, raster_ddfstop = 0\<rparr>"

definition raster_set_diwstrt :: "raster_config \<Rightarrow> u16 \<Rightarrow> raster_config" where
  "raster_set_diwstrt r val = r\<lparr>raster_diwstrt := val\<rparr>"

definition raster_set_diwstop :: "raster_config \<Rightarrow> u16 \<Rightarrow> raster_config" where
  "raster_set_diwstop r val = r\<lparr>raster_diwstop := val\<rparr>"

definition raster_set_ddfstrt :: "raster_config \<Rightarrow> u16 \<Rightarrow> raster_config" where
  "raster_set_ddfstrt r val = r\<lparr>raster_ddfstrt := val\<rparr>"

definition raster_set_ddfstop :: "raster_config \<Rightarrow> u16 \<Rightarrow> raster_config" where
  "raster_set_ddfstop r val = r\<lparr>raster_ddfstop := val\<rparr>"

definition raster_in_display_window :: "raster_config \<Rightarrow> u16 \<Rightarrow> u16 \<Rightarrow> bool" where
  "raster_in_display_window r hpos vpos \<longleftrightarrow>
     (let vstart = drop_bit 8 (raster_diwstrt r) AND 0xff;
          vstop = drop_bit 8 (raster_diwstop r) AND 0xff;
          hstart = raster_diwstrt r AND 0xff;
          hstop_raw = raster_diwstop r AND 0xff;
          hstop = (if hstop_raw < 0x80 then hstop_raw + 0x100 else hstop_raw)
      in if vpos < vstart \<or> vpos \<ge> vstop then False
         else hpos \<ge> hstart \<and> hpos < hstop)"

definition raster_in_fetch_window :: "raster_config \<Rightarrow> u16 \<Rightarrow> bool" where
  "raster_in_fetch_window r hpos \<longleftrightarrow>
     (let h = hpos AND 0x00fe in
      h \<ge> raster_ddfstrt r AND 0x00fe \<and> h \<le> raster_ddfstop r AND 0x00fe)"

section \<open>Deadlines\<close>

abbreviation AGNUS_DEADLINE_UNKNOWN :: u32 where "AGNUS_DEADLINE_UNKNOWN \<equiv> 0xffffffff"

record agnus_deadlines =
  dl_blitter :: u32
  dl_beam_line_end :: u32
  dl_vertb :: u32
  dl_copper_wait :: u32
  dl_audio :: u32
  dl_disk :: u32
  dl_slot :: u32

definition agnus_deadlines_reset :: agnus_deadlines where
  "agnus_deadlines_reset = \<lparr>
     dl_blitter = AGNUS_DEADLINE_UNKNOWN, dl_beam_line_end = AGNUS_DEADLINE_UNKNOWN,
     dl_vertb = AGNUS_DEADLINE_UNKNOWN, dl_copper_wait = AGNUS_DEADLINE_UNKNOWN,
     dl_audio = AGNUS_DEADLINE_UNKNOWN, dl_disk = AGNUS_DEADLINE_UNKNOWN,
     dl_slot = AGNUS_DEADLINE_UNKNOWN\<rparr>"

definition agnus_deadlines_min :: "agnus_deadlines \<Rightarrow> u32" where
  "agnus_deadlines_min d =
     (let m = AGNUS_DEADLINE_UNKNOWN;
          m = (if dl_blitter d < m then dl_blitter d else m);
          m = (if dl_beam_line_end d < m then dl_beam_line_end d else m);
          m = (if dl_vertb d < m then dl_vertb d else m);
          m = (if dl_copper_wait d < m then dl_copper_wait d else m);
          m = (if dl_audio d < m then dl_audio d else m);
          m = (if dl_disk d < m then dl_disk d else m);
          m = (if dl_slot d < m then dl_slot d else m)
      in m)"

section \<open>Beam prediction\<close>

text \<open>
  \<^verbatim>\<open>rigel_get_beam_geometry\<close> copies the chipset time and the beam counters out of the
  context; its arguments here are the parts of the context that it reads.
\<close>

record rigel_beam_geometry =
  geo_time :: u64
  geo_vpos :: u16
  geo_hpos :: u16
  geo_line_clocks :: u16
  geo_frame_lines :: u16
  geo_lof :: u8
  geo_lol :: u8
  geo_lof_toggle :: u8
  geo_lol_toggle :: u8
  geo_vposr_high :: u16

definition agnus_vposr_chip_id :: "agnus_chip_rev \<Rightarrow> raster_config \<Rightarrow> u16" where
  "agnus_vposr_chip_id chip_rev raster =
     (let pal = (raster_std raster = AGNUS_VIDEO_PAL) in
      if chip_rev = AGNUS_REV_ECS then (if pal then 0x20 else 0x30)
      else (if pal then 0x00 else 0x10))"

definition rigel_get_beam_geometry ::
    "u64 \<Rightarrow> agnus_chip_rev \<Rightarrow> raster_config \<Rightarrow> beam_state \<Rightarrow> rigel_beam_geometry" where
  "rigel_get_beam_geometry cycles chip_rev raster beam = \<lparr>
     geo_time = cycles, geo_vpos = beam_vpos beam, geo_hpos = beam_hpos beam,
     geo_line_clocks = beam_line_clocks beam, geo_frame_lines = beam_frame_lines beam,
     geo_lof = beam_lof beam, geo_lol = beam_lol beam,
     geo_lof_toggle = beam_lof_toggle beam, geo_lol_toggle = beam_lol_toggle beam,
     geo_vposr_high = push_bit 15 (ucast (beam_lof beam)) OR
                      push_bit 8 (agnus_vposr_chip_id chip_rev raster)\<rparr>"

definition rigel_beam_position_at :: "rigel_beam_geometry \<Rightarrow> u64 \<Rightarrow> (u16 \<times> u16) option" where
  "rigel_beam_position_at g time =
     (if time < geo_time g \<or> geo_line_clocks g = 0 \<or> geo_frame_lines g = 0 \<or>
         geo_hpos g \<ge> geo_line_clocks g \<or> geo_vpos g \<ge> geo_frame_lines g
      then None
      else if geo_lof g \<noteq> 0 \<or> geo_lol g \<noteq> 0 \<or> geo_lof_toggle g \<noteq> 0 \<or> geo_lol_toggle g \<noteq> 0
      then None
      else
        let elapsed = time - geo_time g;
            clocks = ucast (geo_hpos g) + elapsed;
            lines = clocks div ucast (geo_line_clocks g)
        in Some (ucast ((ucast (geo_vpos g) + lines) mod ucast (geo_frame_lines g) :: u64),
                 ucast (clocks mod ucast (geo_line_clocks g) :: u64)))"

section \<open>One colour clock at a time\<close>

text \<open>
  The reference for the loop: the counter as the hardware has it, one colour clock per
  tick, and the range of counters for which the 16-bit line length does not wrap.
\<close>

definition beam_tick :: "beam_state \<Rightarrow> beam_state" where
  "beam_tick beam =
     (if beam_hpos beam + 1 \<ge> beam_line_hmax beam then beam_advance_line beam
      else beam\<lparr>beam_hpos := beam_hpos beam + 1\<rparr>)"

definition beam_ok :: "beam_state \<Rightarrow> bool" where
  "beam_ok beam \<longleftrightarrow> 0 < beam_line_clocks beam \<and> beam_line_clocks beam < 0xffff \<and>
     0 < beam_frame_lines beam \<and> beam_hpos beam < beam_line_hmax beam"

lemma beam_advance_line_sel [simp]:
  "beam_hpos (beam_advance_line b) = 0"
  "beam_line_clocks (beam_advance_line b) = beam_line_clocks b"
  "beam_frame_lines (beam_advance_line b) = beam_frame_lines b"
  "beam_lol_toggle (beam_advance_line b) = beam_lol_toggle b"
  "beam_lof_toggle (beam_advance_line b) = beam_lof_toggle b"
  by (simp_all add: beam_advance_line_def Let_def)

lemma beam_line_hmax_hpos [simp]: "beam_line_hmax (b\<lparr>beam_hpos := h\<rparr>) = beam_line_hmax b"
  by (simp add: beam_line_hmax_def)

lemma beam_advance_hpos [simp]: "beam_advance_line (b\<lparr>beam_hpos := h\<rparr>) = beam_advance_line b"
  by (simp add: beam_advance_line_def Let_def beam_frame_vmax_def)

lemma beam_hmax_bounds:
  assumes "beam_ok b"
  shows "unat (beam_line_hmax b) = unat (beam_line_clocks b) + (if beam_lol b \<noteq> 0 then 1 else 0)"
proof -
  have "unat (beam_line_clocks b) < 65535"
    using assms by (simp add: beam_ok_def word_less_nat_alt)
  then show ?thesis by (simp add: beam_line_hmax_def unat_inc)
qed

lemma beam_ok_advance: "beam_ok b \<Longrightarrow> beam_ok (beam_advance_line b)"
proof -
  assume ok: "beam_ok b"
  then have c: "0 < unat (beam_line_clocks b)" "unat (beam_line_clocks b) < 65535"
    by (simp_all add: beam_ok_def word_less_nat_alt)
  have "0 < unat (beam_line_hmax (beam_advance_line b))"
    using c by (simp add: beam_line_hmax_def unat_inc)
  then show ?thesis using ok by (simp add: beam_ok_def word_less_nat_alt)
qed

lemma beam_ok_tick: "beam_ok b \<Longrightarrow> beam_ok (beam_tick b)"
  using beam_ok_advance [of b]
  by (simp add: beam_tick_def) (simp add: beam_ok_def not_le)

lemma beam_ok_ticks: "beam_ok b \<Longrightarrow> beam_ok ((beam_tick ^^ n) b)"
  by (rule funpow_invariant) (auto intro: beam_ok_tick)

lemma beam_hpos_inc: "beam_ok b \<Longrightarrow> unat (beam_hpos b + 1) = Suc (unat (beam_hpos b))"
  using unat_bounds(2) [of "beam_line_hmax b"]
  by (intro unat_inc) (simp add: beam_ok_def word_less_nat_alt)

text \<open>Ticks inside a line, and the tick that ends it.\<close>

lemma beam_ticks_within:
  assumes "beam_ok b" and "k < unat (beam_line_hmax b) - unat (beam_hpos b)"
  shows "(beam_tick ^^ k) b = b\<lparr>beam_hpos := beam_hpos b + of_nat k\<rparr>"
  using assms(2)
proof (induction k)
  case (Suc k)
  let ?b = "b\<lparr>beam_hpos := beam_hpos b + of_nat k\<rparr>"
  have IH: "(beam_tick ^^ k) b = ?b" using Suc by simp
  then have "beam_ok ?b" using beam_ok_ticks [OF assms(1), of k] by simp
  then have inc: "unat (beam_hpos ?b + 1) = Suc (unat (beam_hpos ?b))" by (rule beam_hpos_inc)
  have "unat (beam_hpos ?b) = unat (beam_hpos b) + k"
    using Suc.prems unat_bounds(2) [of "beam_line_hmax b"]
    by (simp add: unat_word_ariths unat_of_nat take_bit_nat_eq_self take_bit_eq_mod)
  then have "\<not> beam_hpos ?b + 1 \<ge> beam_line_hmax ?b"
    using inc Suc.prems by (simp add: word_le_nat_alt)
  then have "beam_tick ?b = b\<lparr>beam_hpos := beam_hpos b + of_nat (Suc k)\<rparr>"
    by (simp add: beam_tick_def algebra_simps)
  then show ?case using IH by simp
qed simp

lemma beam_ticks_line:
  assumes "beam_ok b"
  shows "(beam_tick ^^ (unat (beam_line_hmax b) - unat (beam_hpos b))) b = beam_advance_line b"
proof -
  have lt: "unat (beam_hpos b) < unat (beam_line_hmax b)"
    using assms by (simp add: beam_ok_def word_less_nat_alt)
  define k where "k = unat (beam_line_hmax b) - unat (beam_hpos b) - 1"
  let ?b = "b\<lparr>beam_hpos := beam_hpos b + of_nat k\<rparr>"
  have k: "unat (beam_line_hmax b) - unat (beam_hpos b) = Suc k" using lt by (simp add: k_def)
  have IH: "(beam_tick ^^ k) b = ?b" using k by (intro beam_ticks_within assms) simp
  then have "beam_ok ?b" using beam_ok_ticks [OF assms, of k] by simp
  then have inc: "unat (beam_hpos ?b + 1) = Suc (unat (beam_hpos ?b))" by (rule beam_hpos_inc)
  have "unat (beam_hpos ?b) = unat (beam_hpos b) + k"
    using k unat_bounds(2) [of "beam_line_hmax b"]
    by (simp add: unat_word_ariths unat_of_nat take_bit_nat_eq_self take_bit_eq_mod)
  then have "beam_hpos ?b + 1 \<ge> beam_line_hmax ?b"
    using inc k by (simp add: word_le_nat_alt)
  then have "beam_tick ?b = beam_advance_line b" by (simp add: beam_tick_def)
  then show ?thesis using IH k by simp
qed

lemma beam_step_loop_ticks:
  assumes "beam_ok b"
  shows "beam_step_loop b n = Some ((beam_tick ^^ unat n) b)"
  using assms
proof (induction "unat n" arbitrary: b n rule: less_induct)
  case less
  let ?r = "beam_line_hmax b - beam_hpos b"
  have lt: "beam_hpos b < beam_line_hmax b" using less.prems by (simp add: beam_ok_def)
  then have r: "unat ?r = unat (beam_line_hmax b) - unat (beam_hpos b)" "0 < unat ?r"
    by (simp_all add: unat_sub word_less_nat_alt word_le_nat_alt)
  then have r0: "?r \<noteq> 0" by auto
  show ?case
  proof (cases "n = 0")
    case True
    then show ?thesis by (simp add: beam_step_loop.simps)
  next
    case n0: False
    show ?thesis
    proof (cases "n < ?r")
      case True
      have "beam_step_loop b n = Some (b\<lparr>beam_hpos := beam_hpos b + n\<rparr>)"
        using n0 r0 True by (subst beam_step_loop.simps)
          (simp add: Let_def word_gt_0 beam_step_loop.simps [of _ 0])
      moreover have "(beam_tick ^^ unat n) b = b\<lparr>beam_hpos := beam_hpos b + n\<rparr>"
        using beam_ticks_within [OF less.prems, of "unat n"] True r(1)
        by (simp add: word_less_nat_alt)
      ultimately show ?thesis by simp
    next
      case False
      then have le: "unat ?r \<le> unat n" by (simp add: word_le_nat_alt not_less)
      have "beam_step_loop b n = beam_step_loop (beam_advance_line b) (n - ?r)"
        using n0 r0 False by (subst beam_step_loop.simps) (simp add: Let_def word_gt_0)
      also have "\<dots> = Some ((beam_tick ^^ unat (n - ?r)) (beam_advance_line b))"
        using le r(2) by (intro less.hyps beam_ok_advance less.prems)
          (simp add: unat_sub word_le_nat_alt)
      also have "(beam_tick ^^ unat (n - ?r)) (beam_advance_line b) =
          (beam_tick ^^ (unat (n - ?r) + unat ?r)) b"
        using beam_ticks_line [OF less.prems] r(1) by (simp add: funpow_add)
      also have "unat (n - ?r) + unat ?r = unat n"
        using le by (simp add: unat_sub word_le_nat_alt)
      finally show ?thesis .
    qed
  qed
qed

text \<open>
  C35: The line-at-a-time loop of \<^verbatim>\<open>beam_step\<close> returns, and leaves the beam exactly where
  that many single colour clocks leave it, for long lines and long frames too.
\<close>

theorem beam_step_eq_ticks:
  assumes "beam_ok b"
  shows "beam_step b n = Some ((beam_tick ^^ unat n) b)"
  using assms beam_step_loop_ticks [OF assms] by (auto simp: beam_step_def beam_ok_def)

definition beam_zero :: beam_state where
  "beam_zero = \<lparr>beam_hpos = 0, beam_vpos = 0, beam_line_clocks = 0, beam_frame_lines = 0,
     beam_visible_y_start = 0, beam_visible_y_stop = 0, beam_lof = 0, beam_lof_toggle = 0,
     beam_lol = 0, beam_lol_toggle = 0, beam_frame_count = 0\<rparr>"

theorem beam_step_eq_ticks_witness:
  "beam_step (beam_reset beam_zero) 454 = Some ((beam_tick ^^ 454) (beam_reset beam_zero))"
proof -
  have "beam_ok (beam_reset beam_zero)"
    by (simp add: beam_ok_def beam_reset_def beam_line_hmax_def beam_zero_def)
  from beam_step_eq_ticks [OF this, of 454] show ?thesis by simp
qed

section \<open>The uniform scan\<close>

text \<open>
  Without interlace and long lines the position after \<open>n\<close> clocks has a closed form.
\<close>

definition beam_uniform :: "beam_state \<Rightarrow> bool" where
  "beam_uniform b \<longleftrightarrow> beam_lof b = 0 \<and> beam_lol b = 0 \<and> beam_lof_toggle b = 0 \<and> beam_lol_toggle b = 0 \<and>
     beam_line_clocks b < 0xffff \<and>
     beam_hpos b < beam_line_clocks b \<and> beam_vpos b < beam_frame_lines b"

lemma beam_uniform_ok: "beam_uniform b \<Longrightarrow> beam_ok b"
  by (auto simp: beam_uniform_def beam_ok_def beam_line_hmax_def word_less_nat_alt)

lemma beam_tick_uniform:
  assumes "beam_uniform b"
  shows "beam_uniform (beam_tick b)"
    and "unat (beam_hpos (beam_tick b)) =
      (if Suc (unat (beam_hpos b)) = unat (beam_line_clocks b) then 0 else Suc (unat (beam_hpos b)))"
    and "unat (beam_vpos (beam_tick b)) =
      (if Suc (unat (beam_hpos b)) = unat (beam_line_clocks b)
       then Suc (unat (beam_vpos b)) mod unat (beam_frame_lines b) else unat (beam_vpos b))"
    and "beam_line_clocks (beam_tick b) = beam_line_clocks b"
    and "beam_frame_lines (beam_tick b) = beam_frame_lines b"
proof -
  have h: "unat (beam_hpos b) < unat (beam_line_clocks b)"
    "unat (beam_vpos b) < unat (beam_frame_lines b)"
    using assms by (simp_all add: beam_uniform_def word_less_nat_alt)
  have inc: "unat (beam_hpos b + 1) = Suc (unat (beam_hpos b))"
    "unat (beam_vpos b + 1) = Suc (unat (beam_vpos b))"
    using h unat_bounds(2) [of "beam_line_clocks b"] unat_bounds(2) [of "beam_frame_lines b"]
    by (auto intro!: unat_inc)
  have z: "beam_lof b = 0" "beam_lol b = 0" "beam_lof_toggle b = 0" "beam_lol_toggle b = 0"
    using assms by (simp_all add: beam_uniform_def)
  have c: "(beam_line_hmax b \<le> beam_hpos b + 1) =
      (Suc (unat (beam_hpos b)) = unat (beam_line_clocks b))"
    using h inc z by (auto simp: word_le_nat_alt beam_line_hmax_def)
  have v: "(beam_frame_lines b \<le> beam_vpos b + 1) =
      (Suc (unat (beam_vpos b)) = unat (beam_frame_lines b))"
    using h inc z by (auto simp: word_le_nat_alt)
  have adv: "beam_advance_line b = (if Suc (unat (beam_vpos b)) = unat (beam_frame_lines b)
      then b\<lparr>beam_hpos := 0, beam_vpos := 0, beam_frame_count := beam_frame_count b + 1\<rparr>
      else b\<lparr>beam_hpos := 0, beam_vpos := beam_vpos b + 1\<rparr>)"
    using v z by (simp add: beam_advance_line_def beam_frame_vmax_def Let_def)
  show "unat (beam_hpos (beam_tick b)) =
      (if Suc (unat (beam_hpos b)) = unat (beam_line_clocks b) then 0 else Suc (unat (beam_hpos b)))"
    using c inc by (simp add: beam_tick_def)
  show "unat (beam_vpos (beam_tick b)) =
      (if Suc (unat (beam_hpos b)) = unat (beam_line_clocks b)
       then Suc (unat (beam_vpos b)) mod unat (beam_frame_lines b) else unat (beam_vpos b))"
    using c inc adv h by (auto simp: beam_tick_def)
  show "beam_line_clocks (beam_tick b) = beam_line_clocks b"
    "beam_frame_lines (beam_tick b) = beam_frame_lines b"
    by (simp_all add: beam_tick_def)
  show "beam_uniform (beam_tick b)"
    using c inc adv h assms
    by (auto simp: beam_tick_def beam_uniform_def word_less_nat_alt)
qed

lemma div_mod_step:
  fixes x L F v :: nat
  assumes "0 < L" and "0 < F"
  shows "(if Suc (x mod L) = L then 0 else Suc (x mod L)) = Suc x mod L"
    and "(if Suc (x mod L) = L then Suc ((v + x div L) mod F) mod F else (v + x div L) mod F) =
      (v + Suc x div L) mod F"
  using assms by (auto simp: mod_Suc div_Suc mod_Suc_eq)

lemma beam_ticks_uniform:
  assumes "beam_uniform b"
  shows "beam_uniform ((beam_tick ^^ n) b) \<and>
    unat (beam_hpos ((beam_tick ^^ n) b)) = (unat (beam_hpos b) + n) mod unat (beam_line_clocks b) \<and>
    unat (beam_vpos ((beam_tick ^^ n) b)) =
      (unat (beam_vpos b) + (unat (beam_hpos b) + n) div unat (beam_line_clocks b))
        mod unat (beam_frame_lines b) \<and>
    beam_line_clocks ((beam_tick ^^ n) b) = beam_line_clocks b \<and>
    beam_frame_lines ((beam_tick ^^ n) b) = beam_frame_lines b"
proof (induction n)
  case 0
  then show ?case using assms by (simp add: beam_uniform_def word_less_nat_alt)
next
  case (Suc n)
  have pos: "0 < unat (beam_line_clocks b)" "0 < unat (beam_frame_lines b)"
    using assms by (auto simp: beam_uniform_def word_less_nat_alt)
  define c where "c = (beam_tick ^^ n) b"
  have s: "(beam_tick ^^ Suc n) b = beam_tick c" by (simp add: c_def)
  note IH = Suc [folded c_def]
  show ?case
    unfolding s
    using IH beam_tick_uniform [of c]
      div_mod_step(1) [OF pos, of "unat (beam_hpos b) + n"]
      div_mod_step(2) [OF pos, of "unat (beam_hpos b) + n" "unat (beam_vpos b)"]
    by (simp cong: if_cong split del: if_split)
qed

text \<open>Any division of the time into calls of \<^verbatim>\<open>beam_step\<close>.\<close>

fun beam_steps :: "beam_state \<Rightarrow> u16 list \<Rightarrow> beam_state option" where
  "beam_steps b [] = Some b"
| "beam_steps b (n # ns) = (case beam_step b n of None \<Rightarrow> None | Some b' \<Rightarrow> beam_steps b' ns)"

lemma beam_steps_ticks:
  "beam_ok b \<Longrightarrow> beam_steps b ns = Some ((beam_tick ^^ (\<Sum>n\<leftarrow>ns. unat n)) b)"
proof (induction ns arbitrary: b)
  case (Cons n ns)
  then have "beam_step b n = Some ((beam_tick ^^ unat n) b)"
    using beam_step_loop_ticks [OF Cons.prems, of n] by (auto simp: beam_step_def beam_ok_def)
  then show ?case
    using Cons.IH [OF beam_ok_ticks [OF Cons.prems, of "unat n"]]
    by (simp add: funpow_add add.commute [of "unat n"])
qed simp

lemma position_at_unat:
  assumes "beam_uniform b" and t: "t \<le> time"
    and fits: "unat (beam_hpos b) + unat (time - t) + 0x10000 < 2 ^ 64"
  shows "rigel_beam_position_at (rigel_get_beam_geometry t chip r b) time =
    (let b' = (beam_tick ^^ unat (time - t)) b in Some (beam_vpos b', beam_hpos b'))"
proof -
  define e where "e = unat (time - t)"
  define L F where "L = unat (beam_line_clocks b)" and "F = unat (beam_frame_lines b)"
  have z: "beam_lof b = 0" "beam_lol b = 0" "beam_lof_toggle b = 0" "beam_lol_toggle b = 0"
    "beam_hpos b < beam_line_clocks b" "beam_vpos b < beam_frame_lines b"
    using assms(1) by (simp_all add: beam_uniform_def)
  have lf: "0 < L" "0 < F" "L < 65536" "F < 65536"
    using z(5,6) unat_bounds(2) by (auto simp: L_def F_def word_less_nat_alt)
  define clocks :: u64 where "clocks = ucast (beam_hpos b) + (time - t)"
  have c: "unat clocks = unat (beam_hpos b) + e"
    using fits by (simp add: clocks_def e_def unat_word_ariths)
  have q: "unat (clocks div ucast (beam_line_clocks b)) = unat clocks div L"
    "unat (clocks mod ucast (beam_line_clocks b)) = unat clocks mod L"
    by (simp_all add: unat_div unat_mod L_def)
  have "unat clocks div L \<le> unat clocks" by (rule div_le_dividend)
  then have small: "unat (beam_vpos b) + unat clocks div L < 2 ^ 64"
    using fits c e_def unat_bounds(2) [of "beam_vpos b"] by linarith
  have s: "unat (ucast (beam_vpos b) + clocks div ucast (beam_line_clocks b) :: u64) =
      unat (beam_vpos b) + unat clocks div L"
    unfolding unat_word_ariths(1) q(1) using small by simp
  have hp: "(ucast (clocks mod ucast (beam_line_clocks b)) :: u16) =
      word_of_nat ((unat (beam_hpos b) + e) mod L)"
    by (subst ucast_via_nat) (simp only: q(2) c)
  have vp: "(ucast ((ucast (beam_vpos b) + clocks div ucast (beam_line_clocks b))
        mod ucast (beam_frame_lines b) :: u64) :: u16) =
      word_of_nat ((unat (beam_vpos b) + (unat (beam_hpos b) + e) div L) mod F)"
    by (subst ucast_via_nat) (simp only: unat_mod s c F_def unat_ucast_up_simps(4))
  note u = beam_ticks_uniform [OF assms(1), of e]
  have "beam_vpos ((beam_tick ^^ e) b) =
      word_of_nat ((unat (beam_vpos b) + (unat (beam_hpos b) + e) div L) mod F)"
    "beam_hpos ((beam_tick ^^ e) b) = word_of_nat ((unat (beam_hpos b) + e) mod L)"
    using u by (metis L_def F_def word_of_nat_unat)+
  then show ?thesis
    using z t lf hp vp
    by (auto simp: rigel_beam_position_at_def rigel_get_beam_geometry_def Let_def clocks_def e_def
        L_def F_def not_le not_less word_less_nat_alt word_le_nat_alt)
qed

text \<open>
  C37: On a uniform scan the beam position that the host predicts from a geometry snapshot
  is the position the stepped beam has at that time, however the elapsed clocks were
  divided into calls of \<^verbatim>\<open>beam_step\<close>.
\<close>

theorem beam_prediction_exact:
  assumes "beam_uniform b" and "t \<le> time"
    and "unat (beam_hpos b) + unat (time - t) + 0x10000 < 2 ^ 64"
    and "(\<Sum>n\<leftarrow>ns. unat n) = unat (time - t)"
  shows "\<exists>b'. beam_steps b ns = Some b' \<and>
    rigel_beam_position_at (rigel_get_beam_geometry t chip r b) time = Some (beam_vpos b', beam_hpos b')"
  using position_at_unat [OF assms(1-3), of chip r]
    beam_steps_ticks [OF beam_uniform_ok [OF assms(1)], of ns] assms(4)
  by (simp add: Let_def)

theorem beam_prediction_exact_witness:
  "\<exists>b'. beam_steps (beam_reset beam_zero) [100, 400] = Some b' \<and>
    rigel_beam_position_at (rigel_get_beam_geometry 7 AGNUS_REV_OCS (raster_reset AGNUS_VIDEO_NTSC)
      (beam_reset beam_zero)) 507 = Some (beam_vpos b', beam_hpos b')"
  by (rule beam_prediction_exact)
    (simp_all add: beam_uniform_def beam_reset_def beam_zero_def)

section \<open>The vertical blank deadline\<close>

lemma cycles_to_vertb_unat:
  assumes "beam_uniform b" and "\<not> agnus_is_vertb_position (beam_hpos b) (beam_vpos b)"
  shows "unat (beam_hpos b) + unat (agnus_cycles_to_vertb b) =
    unat (beam_line_clocks b) * (unat (beam_frame_lines b) - unat (beam_vpos b)) + 1"
proof -
  define L F where "L = unat (beam_line_clocks b)" and "F = unat (beam_frame_lines b)"
  define h v where "h = unat (beam_hpos b)" and "v = unat (beam_vpos b)"
  have lt: "h < L" "v < F" using assms(1)
    by (simp_all add: beam_uniform_def word_less_nat_alt L_def F_def h_def v_def)
  have bd: "L \<le> 65535" "F \<le> 65535" unfolding L_def F_def
    using unat_bounds(2) [of "beam_line_clocks b"] unat_bounds(2) [of "beam_frame_lines b"] by auto
  let ?n = "L - h + (F - v - 1) * L + 1"
  have "(F - v - 1) * L \<le> 65535 * 65535" using bd by (intro mult_le_mono) auto
  then have small: "?n < 2 ^ 32" using bd by simp
  have "agnus_cycles_to_vertb b = ucast (beam_line_clocks b) - ucast (beam_hpos b) +
      (ucast (beam_frame_lines b) - ucast (beam_vpos b) - 1) * ucast (beam_line_clocks b) + 1"
    using assms by (simp add: agnus_cycles_to_vertb_def Let_def beam_uniform_def)
  also have "\<dots> = of_nat ?n"
  proof -
    have "(ucast (beam_line_clocks b) :: u32) = of_nat L" "(ucast (beam_hpos b) :: u32) = of_nat h"
      "(ucast (beam_frame_lines b) :: u32) = of_nat F" "(ucast (beam_vpos b) :: u32) = of_nat v"
      by (simp_all add: L_def F_def h_def v_def)
    moreover have "(of_nat L - of_nat h :: u32) = of_nat (L - h)"
      "(of_nat F - of_nat v - 1 :: u32) = of_nat (F - v - 1)"
      using lt by (simp_all add: of_nat_diff)
    ultimately show ?thesis by (simp only: of_nat_add of_nat_mult of_nat_1)
  qed
  finally have "unat (agnus_cycles_to_vertb b) = unat (of_nat ?n :: u32)" by (rule arg_cong)
  also have "\<dots> = ?n" using small by (intro unat_of_nat_small) simp
  finally have "unat (agnus_cycles_to_vertb b) = ?n" .
  moreover have "h + ?n = L * (F - v) + 1"
  proof -
    have "F - v = Suc (F - v - 1)" using lt by simp
    then have "L * (F - v) = L + (F - v - 1) * L" by (metis mult.commute mult_Suc)
    then show ?thesis using lt by simp
  qed
  ultimately show ?thesis by (simp only: L_def F_def h_def v_def)
qed

text \<open>
  The deadline that the scheduler reports for the vertical blank interrupt is exact: the
  beam is at the trigger position after that many clocks and at no earlier one.  The corner
  of the frame is excluded, where the trigger is one clock away and the code answers with
  a whole frame more.
\<close>

theorem vertb_deadline_exact:
  assumes "beam_uniform b" and "1 < beam_line_clocks b"
    and "\<not> (beam_hpos b = 0 \<and> beam_vpos b = 0)"
  shows "(let b' = (beam_tick ^^ unat (agnus_cycles_to_vertb b)) b
          in agnus_is_vertb_position (beam_hpos b') (beam_vpos b')) \<and>
    (\<forall>k < unat (agnus_cycles_to_vertb b).
       let b' = (beam_tick ^^ k) b in \<not> agnus_is_vertb_position (beam_hpos b') (beam_vpos b'))"
proof (cases "agnus_is_vertb_position (beam_hpos b) (beam_vpos b)")
  case True
  then show ?thesis by (simp add: agnus_cycles_to_vertb_def)
next
  case False
  define L F where "L = unat (beam_line_clocks b)" and "F = unat (beam_frame_lines b)"
  define h v where "h = unat (beam_hpos b)" and "v = unat (beam_vpos b)"
  define N where "N = unat (agnus_cycles_to_vertb b)"
  have lt: "h < L" "v < F" "1 < L" using assms(1,2)
    by (simp_all add: beam_uniform_def word_less_nat_alt L_def F_def h_def v_def)
  have N: "h + N = L * (F - v) + 1"
    using cycles_to_vertb_unat [OF assms(1) False] by (simp only: L_def F_def h_def v_def N_def)
  have at: "agnus_is_vertb_position (beam_hpos ((beam_tick ^^ k) b)) (beam_vpos ((beam_tick ^^ k) b)) \<longleftrightarrow>
      (h + k) mod L = 1 \<and> (v + (h + k) div L) mod F = 0" for k
    using beam_ticks_uniform [OF assms(1), of k]
    by (simp add: agnus_is_vertb_position_def word_unat_eq_iff h_def v_def L_def F_def conj_commute)
  have corner: "\<not> (h = 0 \<and> v = 0)" "\<not> (h = 1 \<and> v = 0)"
    using assms(3) False by (auto simp: h_def v_def word_unat_eq_iff agnus_is_vertb_position_def)
  have "(h + N) mod L = 1" "(h + N) div L = F - v" using N lt by (simp_all add: mod_Suc div_Suc)
  then have reach: "(h + N) mod L = 1 \<and> (v + (h + N) div L) mod F = 0" using lt by simp
  have "\<not> ((h + k) mod L = 1 \<and> (v + (h + k) div L) mod F = 0)" if k: "k < N" for k
  proof
    assume *: "(h + k) mod L = 1 \<and> (v + (h + k) div L) mod F = 0"
    define q where "q = (h + k) div L"
    have hk: "h + k = q * L + 1" using * div_mult_mod_eq [of "h + k" L] by (simp add: q_def)
    have "h + k < L * (F - v) + 1" using N k by linarith
    then have "q * L < (F - v) * L" using hk by (simp add: mult.commute)
    then have "q < F - v" by simp
    then have "v + q < F" using lt by linarith
    then have "v + q = 0" using * by (simp add: q_def)
    then have "v = 0" "h + k = 1" using hk by auto
    then show False using corner by auto
  qed
  then show ?thesis using reach at by (simp add: N_def Let_def)
qed

theorem vertb_deadline_exact_witness:
  "let b = (beam_reset beam_zero)\<lparr>beam_hpos := 5\<rparr>;
       b' = (beam_tick ^^ unat (agnus_cycles_to_vertb b)) b
   in agnus_is_vertb_position (beam_hpos b') (beam_vpos b')"
proof -
  let ?b = "(beam_reset beam_zero)\<lparr>beam_hpos := 5\<rparr>"
  have "beam_uniform ?b" "1 < beam_line_clocks ?b" "\<not> (beam_hpos ?b = 0 \<and> beam_vpos ?b = 0)"
    by (simp_all add: beam_uniform_def beam_reset_def beam_zero_def)
  from vertb_deadline_exact [OF this] show ?thesis unfolding Let_def by (rule conjunct1)
qed

text \<open>The excluded corner: one clock away from the trigger the code reports a frame and a clock.\<close>

lemma vertb_deadline_corner:
  "unat (agnus_cycles_to_vertb (beam_reset b)) = 227 * 262 + 1"
  "agnus_is_vertb_position (beam_hpos (beam_tick (beam_reset b))) (beam_vpos (beam_tick (beam_reset b)))"
  by (simp_all add: agnus_cycles_to_vertb_def beam_reset_def agnus_is_vertb_position_def
      beam_tick_def beam_line_hmax_def Let_def word_le_nat_alt)

section \<open>The aggregate deadline\<close>

lemma agnus_deadlines_min_eq:
  "agnus_deadlines_min d =
     min (dl_slot d) (min (dl_disk d) (min (dl_audio d) (min (dl_copper_wait d)
       (min (dl_vertb d) (min (dl_beam_line_end d) (min (dl_blitter d) AGNUS_DEADLINE_UNKNOWN))))))"
proof -
  have step: "(if a < m then a else m) = min a m" for a m :: u32 by (auto simp: min_def)
  show ?thesis
    unfolding agnus_deadlines_min_def unfolding step unfolding Let_def by (rule refl)
qed

end
