(* ===== verification/Agnus_Dma.thy ===== *)
theory Agnus_Dma
  imports Chip_Ram Beam
begin

text \<open>
  The DMA side of Agnus: the DMACON register (\<^verbatim>\<open>agnus/dma/dmacon.h\<close>,
  \<^verbatim>\<open>agnus/dma.c\<close>, \<^verbatim>\<open>src/domains/dma/dma_domain.c\<close>), memory refresh
  (\<^verbatim>\<open>agnus/dma/refresh_dma.c\<close>), the sprite channels (\<^verbatim>\<open>agnus/dma/sprite_dma.c\<close>),
  the bitplane pointers and fetch buffer (\<^verbatim>\<open>agnus/bitplanes\<close>) and the masked bus access
  of \<^verbatim>\<open>agnus/bus/chip_bus.c\<close>.

  C arrays of fixed length are lists of that length.  A function that reports through
  output pointers returns \<^term>\<open>None\<close> where the C code leaves them unwritten.  Trace output
  is left out.
\<close>

unbundle bit_operations_syntax

section \<open>DMACON\<close>

abbreviation DMACON_DMAEN :: u16 where "DMACON_DMAEN \<equiv> 0x0200"
abbreviation DMACON_BLTPRI :: u16 where "DMACON_BLTPRI \<equiv> 0x0400"
abbreviation DMACON_BPLEN :: u16 where "DMACON_BPLEN \<equiv> 0x0100"
abbreviation DMACON_COPEN :: u16 where "DMACON_COPEN \<equiv> 0x0080"
abbreviation DMACON_BLTEN :: u16 where "DMACON_BLTEN \<equiv> 0x0040"
abbreviation DMACON_SPREN :: u16 where "DMACON_SPREN \<equiv> 0x0020"
abbreviation DMACON_DSKEN :: u16 where "DMACON_DSKEN \<equiv> 0x0010"
abbreviation DMACON_SETCLR :: u16 where "DMACON_SETCLR \<equiv> 0x8000"

definition dmacon_master :: "u16 \<Rightarrow> bool" where
  "dmacon_master d \<longleftrightarrow> d AND DMACON_DMAEN \<noteq> 0"

definition dmacon_bplen :: "u16 \<Rightarrow> bool" where
  "dmacon_bplen d \<longleftrightarrow> d AND (DMACON_DMAEN OR DMACON_BPLEN) = DMACON_DMAEN OR DMACON_BPLEN"

definition dmacon_copen :: "u16 \<Rightarrow> bool" where
  "dmacon_copen d \<longleftrightarrow> d AND (DMACON_DMAEN OR DMACON_COPEN) = DMACON_DMAEN OR DMACON_COPEN"

definition dmacon_blten :: "u16 \<Rightarrow> bool" where
  "dmacon_blten d \<longleftrightarrow> d AND (DMACON_DMAEN OR DMACON_BLTEN) = DMACON_DMAEN OR DMACON_BLTEN"

definition dmacon_spren :: "u16 \<Rightarrow> bool" where
  "dmacon_spren d \<longleftrightarrow> d AND (DMACON_DMAEN OR DMACON_SPREN) = DMACON_DMAEN OR DMACON_SPREN"

definition dmacon_dsken :: "u16 \<Rightarrow> bool" where
  "dmacon_dsken d \<longleftrightarrow> d AND (DMACON_DMAEN OR DMACON_DSKEN) = DMACON_DMAEN OR DMACON_DSKEN"

definition dmacon_auden :: "u16 \<Rightarrow> nat \<Rightarrow> bool" where
  "dmacon_auden d ch \<longleftrightarrow>
     (if ch > 3 then False
      else let b = [0x0001, 0x0002, 0x0004, 0x0008] ! ch
           in d AND (DMACON_DMAEN OR b) = DMACON_DMAEN OR b)"

definition dmacon_apply_write :: "u16 \<Rightarrow> u16 \<Rightarrow> u16" where
  "dmacon_apply_write current value =
     (if value AND DMACON_SETCLR \<noteq> 0 then current OR (value AND 0x7fff)
      else current AND NOT (value AND 0x7fff))"

record dma_state =
  dma_dmacon :: u16
  dma_enabled :: bool
  dma_blitter_enabled :: bool

definition dma_set_enabled :: "dma_state \<Rightarrow> bool \<Rightarrow> dma_state" where
  "dma_set_enabled dma en = dma\<lparr>dma_enabled := en\<rparr>"

definition dma_set_dmacon :: "dma_state \<Rightarrow> u16 \<Rightarrow> dma_state" where
  "dma_set_dmacon dma dmacon = dma\<lparr>dma_dmacon := dmacon\<rparr>"

definition rigel_dma_apply_setclr :: "u16 \<Rightarrow> u16 \<Rightarrow> u16" where
  "rigel_dma_apply_setclr current value =
     (let msk = value AND 0x7fff in
      if value AND 0x8000 \<noteq> 0 then current OR msk else current AND NOT msk)"

definition rigel_dma_domain_reset :: "dma_state \<Rightarrow> dma_state" where
  "rigel_dma_domain_reset dma =
     dma\<lparr>dma_dmacon := 0, dma_enabled := False, dma_blitter_enabled := False\<rparr>"

definition rigel_dma_domain_read_dmacon :: "dma_state \<Rightarrow> u16" where
  "rigel_dma_domain_read_dmacon dma = dma_dmacon dma"

definition rigel_dma_domain_sync_dmacon :: "dma_state \<Rightarrow> u16 \<Rightarrow> dma_state" where
  "rigel_dma_domain_sync_dmacon dma dmacon =
     (let dma = dma_set_dmacon dma dmacon;
          dma = dma_set_enabled dma (dmacon AND DMACON_DMAEN \<noteq> 0)
      in dma\<lparr>dma_blitter_enabled := (dmacon AND DMACON_BLTEN \<noteq> 0)\<rparr>)"

definition rigel_dma_domain_write_dmacon :: "dma_state \<Rightarrow> u16 \<Rightarrow> dma_state" where
  "rigel_dma_domain_write_dmacon dma value =
     (let dma = dma_set_dmacon dma (rigel_dma_apply_setclr (dma_dmacon dma) value)
      in rigel_dma_domain_sync_dmacon dma (dma_dmacon dma))"

definition rigel_dma_domain_blitter_grants :: "dma_state \<Rightarrow> u32 \<Rightarrow> u32" where
  "rigel_dma_domain_blitter_grants dma cycles =
     (if \<not> dma_enabled dma \<or> \<not> dma_blitter_enabled dma then 0 else cycles)"

interpretation dmacon_reg: setclr_register rigel_dma_apply_setclr 15 15
  by unfold_locales (simp_all add: rigel_dma_apply_setclr_def Let_def setclr16_bit)

interpretation dmacon_inline: setclr_register dmacon_apply_write 15 15
  by unfold_locales (simp_all add: dmacon_apply_write_def setclr16_bit)

section \<open>Refresh\<close>

record refresh_dma_state =
  rf_pending_cycles :: u32
  rf_slot_hpos :: "u16 list"
  rf_slot_count :: u8

definition refresh_dma_reset :: refresh_dma_state where
  "refresh_dma_reset =
     \<lparr>rf_pending_cycles = 0, rf_slot_hpos = [0x01, 0x03, 0x05], rf_slot_count = 3\<rparr>"

definition refresh_dma_step :: "refresh_dma_state \<Rightarrow> u32 \<Rightarrow> refresh_dma_state" where
  "refresh_dma_step r cycles = r\<lparr>rf_pending_cycles := rf_pending_cycles r + cycles\<rparr>"

text \<open>\<^term>\<open>None\<close> stands for the null state pointer, for which the fixed positions hold.\<close>

definition refresh_dma_owns_slot :: "refresh_dma_state option \<Rightarrow> u16 \<Rightarrow> bool" where
  "refresh_dma_owns_slot r hpos =
     (case r of None \<Rightarrow> hpos = 0x01 \<or> hpos = 0x03 \<or> hpos = 0x05
      | Some r \<Rightarrow> hpos \<in> set (take (unat (rf_slot_count r)) (rf_slot_hpos r)))"

section \<open>Bitplane pointers and fetch buffer\<close>

abbreviation BITPLANE_COUNT :: nat where "BITPLANE_COUNT \<equiv> 6"

type_synonym bitplane_pointers = "u32 list"

definition bplpt_reset :: bitplane_pointers where
  "bplpt_reset = replicate BITPLANE_COUNT 0"

definition bplpt_modulo_step :: "u16 \<Rightarrow> u16 \<Rightarrow> nat \<Rightarrow> u32 \<Rightarrow> u32" where
  "bplpt_modulo_step bpl1mod bpl2mod i p =
     (p + scast (if odd i then bpl2mod else bpl1mod)) AND 0x001ffffe"

definition bplpt_apply_modulo ::
    "bitplane_pointers \<Rightarrow> nat \<Rightarrow> u16 \<Rightarrow> u16 \<Rightarrow> bitplane_pointers" where
  "bplpt_apply_modulo p depth bpl1mod bpl2mod =
     fold (\<lambda>i p. p[i := bplpt_modulo_step bpl1mod bpl2mod i (p ! i)])
       [0..<min depth BITPLANE_COUNT] p"

definition bplpt_set_hi :: "bitplane_pointers \<Rightarrow> nat \<Rightarrow> u16 \<Rightarrow> bitplane_pointers" where
  "bplpt_set_hi p plane val =
     (if plane \<ge> BITPLANE_COUNT then p
      else p[plane := (p ! plane AND 0x0000ffff) OR push_bit 16 (ucast val)])"

definition bplpt_set_lo :: "bitplane_pointers \<Rightarrow> nat \<Rightarrow> u16 \<Rightarrow> bitplane_pointers" where
  "bplpt_set_lo p plane val =
     (if plane \<ge> BITPLANE_COUNT then p
      else p[plane := (p ! plane AND 0xffff0000) OR ucast (val AND 0xfffe)])"

definition bplpt_advance :: "bitplane_pointers \<Rightarrow> nat \<Rightarrow> bitplane_pointers" where
  "bplpt_advance p plane =
     (if plane \<ge> BITPLANE_COUNT then p
      else p[plane := (p ! plane + 2) AND 0x001ffffe])"

type_synonym bitplane_fetch_state = "u16 list"

definition bitplane_fetch_reset :: bitplane_fetch_state where
  "bitplane_fetch_reset = replicate 6 0"

definition bitplane_fetch_step ::
    "bitplane_fetch_state \<Rightarrow> bitplane_pointers \<Rightarrow> nat \<Rightarrow> 'm rigel_chip_ram_if \<Rightarrow> 'm \<Rightarrow>
     bitplane_fetch_state \<times> bitplane_pointers" where
  "bitplane_fetch_step f ptrs plane mem m =
     (case read16 mem of None \<Rightarrow> (f, ptrs)
      | Some rd \<Rightarrow>
          if plane \<ge> 6 then (f, ptrs)
          else (f[plane := rd m (ptrs ! plane)], bplpt_advance ptrs plane))"

definition bitplane_fetch_data :: "bitplane_fetch_state \<Rightarrow> nat \<Rightarrow> u16" where
  "bitplane_fetch_data f plane = (if plane \<ge> 6 then 0 else f ! plane)"

lemma bplpt_apply_modulo_nth:
  assumes "length p = BITPLANE_COUNT" and "i < BITPLANE_COUNT"
  shows "bplpt_apply_modulo p depth bpl1mod bpl2mod ! i =
    (if i < depth then bplpt_modulo_step bpl1mod bpl2mod i (p ! i) else p ! i)"
proof -
  have "length (fold (\<lambda>i p. p[i := g i (p ! i)]) [0..<n] q) = length q \<and>
      (i < length q \<longrightarrow> fold (\<lambda>i p. p[i := g i (p ! i)]) [0..<n] q ! i =
        (if i < n then g i (q ! i) else q ! i))" for g :: "nat \<Rightarrow> u32 \<Rightarrow> u32" and n q
    by (induction n) (auto simp: nth_list_update less_Suc_eq)
  then show ?thesis using assms by (simp add: bplpt_apply_modulo_def)
qed

text \<open>Bus access with the address mask; \<^term>\<open>None\<close> is the call of a null callback.\<close>

abbreviation CHIP_BUS_ECS_MASK :: u32 where "CHIP_BUS_ECS_MASK \<equiv> 0x000fffff"

definition chip_bus_read16 :: "'m rigel_chip_ram_if \<Rightarrow> 'm \<Rightarrow> u32 \<Rightarrow> u16 option" where
  "chip_bus_read16 mem m addr =
     map_option (\<lambda>rd. rd m (addr AND (CHIP_BUS_ECS_MASK AND NOT 1))) (read16 mem)"

definition chip_bus_write16 :: "'m rigel_chip_ram_if \<Rightarrow> 'm \<Rightarrow> u32 \<Rightarrow> u16 \<Rightarrow> 'm option" where
  "chip_bus_write16 mem m addr val =
     map_option (\<lambda>wr. wr m (addr AND (CHIP_BUS_ECS_MASK AND NOT 1)) val) (write16 mem)"

section \<open>Sprite channels\<close>

abbreviation SPRITE_DMA_CHANNELS :: nat where "SPRITE_DMA_CHANNELS \<equiv> 8"

record sprite_dma_channel =
  sd_base_ptr :: u32
  sd_ptr :: u32
  sd_armed :: bool
  sd_terminated :: bool
  sd_fetch_ctrl :: bool
  sd_vstart :: u16
  sd_vstop :: u16
  sd_w0 :: u16

type_synonym sprite_dma_state = "sprite_dma_channel list"

definition sprite_dma_channel_reset :: sprite_dma_channel where
  "sprite_dma_channel_reset = \<lparr>sd_base_ptr = 0, sd_ptr = 0, sd_armed = False,
     sd_terminated = False, sd_fetch_ctrl = True, sd_vstart = 0, sd_vstop = 0, sd_w0 = 0\<rparr>"

definition sprite_dma_reset :: sprite_dma_state where
  "sprite_dma_reset = replicate SPRITE_DMA_CHANNELS sprite_dma_channel_reset"

definition sprite_channel_load :: "sprite_dma_channel \<Rightarrow> u32 \<Rightarrow> sprite_dma_channel" where
  "sprite_channel_load ch p =
     ch\<lparr>sd_base_ptr := p, sd_ptr := p, sd_armed := False, sd_terminated := False,
        sd_fetch_ctrl := True\<rparr>"

definition sprite_dma_set_ptr_hi :: "sprite_dma_state \<Rightarrow> nat \<Rightarrow> u16 \<Rightarrow> sprite_dma_state" where
  "sprite_dma_set_ptr_hi s sp val =
     (if sp \<ge> SPRITE_DMA_CHANNELS then s
      else s[sp := sprite_channel_load (s ! sp)
               ((sd_base_ptr (s ! sp) AND 0x0000ffff) OR push_bit 16 (ucast val))])"

definition sprite_dma_set_ptr_lo :: "sprite_dma_state \<Rightarrow> nat \<Rightarrow> u16 \<Rightarrow> sprite_dma_state" where
  "sprite_dma_set_ptr_lo s sp val =
     (if sp \<ge> SPRITE_DMA_CHANNELS then s
      else s[sp := sprite_channel_load (s ! sp)
               ((sd_base_ptr (s ! sp) AND 0xffff0000) OR ucast val)])"

definition sprite_channel_frame_start :: "sprite_dma_channel \<Rightarrow> sprite_dma_channel" where
  "sprite_channel_frame_start ch =
     ch\<lparr>sd_ptr := sd_base_ptr ch, sd_armed := False, sd_terminated := False,
        sd_fetch_ctrl := True, sd_vstart := 0, sd_vstop := 0, sd_w0 := 0\<rparr>"

definition sprite_dma_frame_start :: "sprite_dma_state \<Rightarrow> sprite_dma_state" where
  "sprite_dma_frame_start s = map sprite_channel_frame_start s"

definition sprite_ctl_vstart :: "u16 \<Rightarrow> u16 \<Rightarrow> u16" where
  "sprite_ctl_vstart w0 w1 =
     (drop_bit 8 w0 AND 0xff) OR push_bit 8 (drop_bit 2 w1 AND 1)"

definition sprite_ctl_vstop :: "u16 \<Rightarrow> u16" where
  "sprite_ctl_vstop w1 =
     (drop_bit 8 w1 AND 0xff) OR push_bit 8 (drop_bit 1 w1 AND 1)"

text \<open>
  One slot of one channel: the new channel and, when the C function returns true, the pair
  of words with the flag that says whether they are control words.
\<close>

definition sprite_channel_slot ::
    "(u32 \<Rightarrow> u16) \<Rightarrow> u16 \<Rightarrow> bool \<Rightarrow> sprite_dma_channel \<Rightarrow>
     sprite_dma_channel \<times> (u16 \<times> u16 \<times> bool) option" where
  "sprite_channel_slot rd vpos is_b ch =
     (if sd_terminated ch then (ch, None)
      else
        let idle = (sd_armed ch \<and> vpos < sd_vstart ch)
        in if \<not> is_b then
             if idle then (ch, None)
             else
               let ch = ch\<lparr>sd_fetch_ctrl := (\<not> sd_armed ch \<or> vpos \<ge> sd_vstop ch)\<rparr>;
                   ch = ch\<lparr>sd_w0 := rd (sd_ptr ch)\<rparr>
               in (ch\<lparr>sd_ptr := sd_ptr ch + 2\<rparr>, None)
           else if idle then (ch, None)
           else
             let w1 = rd (sd_ptr ch);
                 ch = ch\<lparr>sd_ptr := sd_ptr ch + 2\<rparr>;
                 out = (sd_w0 ch, w1, sd_fetch_ctrl ch)
             in if sd_fetch_ctrl ch then
                  if sd_w0 ch = 0 \<and> w1 = 0 then
                    (ch\<lparr>sd_armed := False, sd_terminated := True, sd_fetch_ctrl := True\<rparr>, None)
                  else
                    (ch\<lparr>sd_vstart := sprite_ctl_vstart (sd_w0 ch) w1,
                        sd_vstop := sprite_ctl_vstop w1, sd_armed := True\<rparr>, Some out)
                else (ch, Some out))"

definition sprite_dma_slot ::
    "sprite_dma_state \<Rightarrow> nat \<Rightarrow> u16 \<Rightarrow> bool \<Rightarrow> 'm rigel_chip_ram_if \<Rightarrow> 'm \<Rightarrow>
     sprite_dma_state \<times> (u16 \<times> u16 \<times> bool) option" where
  "sprite_dma_slot s sp vpos is_b mem m =
     (case read16 mem of
        None \<Rightarrow> (s, if is_b then Some (0, 0, True) else None)
      | Some rd \<Rightarrow>
          if sp \<ge> SPRITE_DMA_CHANNELS then (s, if is_b then Some (0, 0, True) else None)
          else
            let (ch, out) = sprite_channel_slot (rd m) vpos is_b (s ! sp)
            in (s[sp := ch], out))"

section \<open>A sprite over a frame\<close>

text \<open>
  The scheduler grants a channel its A slot and then its B slot once per line.
\<close>

definition sprite_line ::
    "(u32 \<Rightarrow> u16) \<Rightarrow> u16 \<Rightarrow> sprite_dma_channel \<Rightarrow>
     sprite_dma_channel \<times> (u16 \<times> u16 \<times> bool) option" where
  "sprite_line rd vpos ch = sprite_channel_slot rd vpos True (fst (sprite_channel_slot rd vpos False ch))"

fun sprite_lines ::
    "(u32 \<Rightarrow> u16) \<Rightarrow> nat \<Rightarrow> nat \<Rightarrow> sprite_dma_channel \<Rightarrow>
     sprite_dma_channel \<times> (u16 \<times> u16 \<times> bool) option list" where
  "sprite_lines rd v 0 ch = (ch, [])"
| "sprite_lines rd v (Suc n) ch =
     (let (ch, out) = sprite_line rd (word_of_nat v) ch;
          (ch, outs) = sprite_lines rd (Suc v) n ch
      in (ch, out # outs))"

text \<open>A channel that holds the control words of a sprite and has fetched \<open>k\<close> data pairs.\<close>

definition sprite_armed :: "u32 \<Rightarrow> nat \<Rightarrow> nat \<Rightarrow> nat \<Rightarrow> sprite_dma_channel \<Rightarrow> bool" where
  "sprite_armed p vstart vstop k ch \<longleftrightarrow>
     sd_ptr ch = p + 4 * word_of_nat k \<and> sd_armed ch \<and> \<not> sd_terminated ch \<and>
     unat (sd_vstart ch) = vstart \<and> unat (sd_vstop ch) = vstop"

lemma sprite_line_idle:
  assumes "sprite_armed p vstart vstop k ch" and "v < vstart"
  shows "sprite_line rd (word_of_nat v) ch = (ch, None)"
proof -
  have "unat (word_of_nat v :: u16) = v"
    using assms unat_bounds(2) [of "sd_vstart ch"]
    by (intro unat_of_nat_small) (simp add: sprite_armed_def)
  then show ?thesis
    using assms by (simp add: sprite_line_def sprite_channel_slot_def sprite_armed_def Let_def
        word_less_nat_alt)
qed

lemma sprite_line_data:
  assumes "sprite_armed p vstart vstop k ch" and "vstart \<le> v" and "v < vstop"
  shows "snd (sprite_line rd (word_of_nat v) ch) =
      Some (rd (p + 4 * word_of_nat k), rd (p + 4 * word_of_nat k + 2), False)"
    and "sprite_armed p vstart vstop (Suc k) (fst (sprite_line rd (word_of_nat v) ch))"
proof -
  have "unat (word_of_nat v :: u16) = v"
    using assms unat_bounds(2) [of "sd_vstop ch"]
    by (intro unat_of_nat_small) (simp add: sprite_armed_def)
  moreover have "p + 4 * word_of_nat k + 2 + 2 = p + 4 * word_of_nat (Suc k)"
    by (simp add: algebra_simps)
  ultimately show "snd (sprite_line rd (word_of_nat v) ch) =
      Some (rd (p + 4 * word_of_nat k), rd (p + 4 * word_of_nat k + 2), False)"
    "sprite_armed p vstart vstop (Suc k) (fst (sprite_line rd (word_of_nat v) ch))"
    using assms by (simp_all add: sprite_line_def sprite_channel_slot_def sprite_armed_def Let_def
        word_less_nat_alt word_le_nat_alt)
qed

lemma sprite_lines_idle:
  assumes "sprite_armed p vstart vstop k ch" and "v + n \<le> vstart"
  shows "sprite_lines rd v n ch = (ch, replicate n None)"
  using assms(2)
proof (induction n arbitrary: v)
  case (Suc n)
  then show ?case using sprite_line_idle [OF assms(1), of v rd] by simp
qed simp

lemma sprite_lines_data:
  assumes "sprite_armed p vstart vstop k ch" and "vstart \<le> v" and "v + n \<le> vstop"
  shows "snd (sprite_lines rd v n ch) =
      map (\<lambda>i. Some (rd (p + 4 * word_of_nat (k + i)), rd (p + 4 * word_of_nat (k + i) + 2), False))
        [0..<n] \<and>
    sprite_armed p vstart vstop (k + n) (fst (sprite_lines rd v n ch))"
  using assms
proof (induction n arbitrary: v k ch)
  case (Suc n)
  obtain ch' out where l: "sprite_line rd (word_of_nat v) ch = (ch', out)" by fastforce
  note d = sprite_line_data [OF Suc.prems(1), of v rd, unfolded l]
  obtain ch'' outs where r: "sprite_lines rd (Suc v) n ch' = (ch'', outs)" by fastforce
  have "snd (sprite_lines rd (Suc v) n ch') =
      map (\<lambda>i. Some (rd (p + 4 * word_of_nat (Suc k + i)), rd (p + 4 * word_of_nat (Suc k + i) + 2), False))
        [0..<n] \<and> sprite_armed p vstart vstop (Suc k + n) (fst (sprite_lines rd (Suc v) n ch'))"
    using d(2) Suc.prems by (intro Suc.IH) auto
  moreover have "[0..<Suc n] = 0 # map Suc [0..<n]" by (simp add: map_Suc_upt upt_conv_Cons)
  ultimately show ?case using l r d(1) Suc.prems by (simp add: o_def algebra_simps)
qed simp

lemma sprite_line_control:
  assumes "\<not> sd_armed ch" and "\<not> sd_terminated ch"
    and "rd (sd_ptr ch) \<noteq> 0 \<or> rd (sd_ptr ch + 2) \<noteq> 0"
  shows "snd (sprite_line rd v ch) = Some (rd (sd_ptr ch), rd (sd_ptr ch + 2), True)"
    and "sprite_armed (sd_ptr ch + 4) (unat (sprite_ctl_vstart (rd (sd_ptr ch)) (rd (sd_ptr ch + 2))))
      (unat (sprite_ctl_vstop (rd (sd_ptr ch + 2)))) 0 (fst (sprite_line rd v ch))"
  using assms by (auto simp: sprite_line_def sprite_channel_slot_def sprite_armed_def Let_def
      add.assoc)

lemma sprite_lines_append:
  "sprite_lines rd v (a + b) ch =
     (let (ch1, o1) = sprite_lines rd v a ch; (ch2, o2) = sprite_lines rd (v + a) b ch1
      in (ch2, o1 @ o2))"
  by (induction a arbitrary: v ch) (auto simp: Let_def split: prod.splits)

lemma ctl_line_value:
  fixes hi lo :: u16
  shows "unat ((drop_bit 8 hi AND 0xff) OR push_bit 8 (drop_bit k lo AND 1)) =
    unat hi div 256 + 256 * of_bool (bit lo k)"
proof -
  have low: "drop_bit 8 hi AND 0xff = drop_bit 8 hi"
    by (rule bit_word_eqI) (auto simp: bit_simps dest: bit_imp_le_length)
  have one: "drop_bit k lo AND 1 = of_bool (bit lo k)"
    by (simp add: and_one_eq bit_iff_odd_drop_bit of_bool_odd_eq_mod_2)
  have dj: "drop_bit 8 hi AND push_bit 8 (of_bool (bit lo k)) = 0"
    by (rule bit_word_eqI) (auto simp: bit_simps dest: bit_imp_le_length)
  have hi: "unat (drop_bit 8 hi) = unat hi div 256"
    by (simp add: drop_bit_eq_div unat_div_distrib)
  moreover have "unat hi div 256 < 256" using unsigned_less [of hi, where ?'a = nat] by simp
  ultimately have "unat (drop_bit 8 hi + push_bit 8 (of_bool (bit lo k))) =
      unat hi div 256 + 256 * of_bool (bit lo k)"
    by (auto simp: unat_word_ariths push_bit_eq_mult)
  then show ?thesis by (simp only: low one disjunctive_add_eq_or [OF dj])
qed
text \<open>
  C38: A sprite image is fetched line by line: after the frame start the first line delivers
  the control pair, whose upper bytes with the bits 2 and 1 of its second word are VSTART and
  VSTOP, every line before VSTART delivers nothing and does not move the pointer,
  and the line VSTART + i delivers the i-th data pair of the image, for every line before
  VSTOP.
\<close>

theorem sprite_frame_fetch:
  fixes rd :: "u32 \<Rightarrow> u16"
  defines "pos \<equiv> \<lambda>p. rd p" and "ctl \<equiv> \<lambda>p. rd (p + 2)"
  assumes p: "p = sd_base_ptr ch"
    and nonzero: "pos p \<noteq> 0 \<or> ctl p \<noteq> 0"
    and start: "vstart = unat (pos p) div 256 + 256 * of_bool (bit (ctl p) 2)"
    and stop: "vstop = unat (ctl p) div 256 + 256 * of_bool (bit (ctl p) 1)"
    and order: "v < vstart" "vstart \<le> vstop"
  shows "snd (sprite_lines rd v (vstop - v) (sprite_channel_frame_start ch)) =
    Some (pos p, ctl p, True) # replicate (vstart - Suc v) None @
    map (\<lambda>i. Some (rd (p + 4 + 4 * word_of_nat i), rd (p + 4 + 4 * word_of_nat i + 2), False))
      [0..<vstop - vstart]"
proof -
  have vstart: "unat (sprite_ctl_vstart (pos p) (ctl p)) = vstart"
    and vstop: "unat (sprite_ctl_vstop (ctl p)) = vstop"
    unfolding sprite_ctl_vstart_def sprite_ctl_vstop_def ctl_line_value start stop by (rule refl)+
  let ?ch = "sprite_channel_frame_start ch"
  have f: "\<not> sd_armed ?ch" "\<not> sd_terminated ?ch" "sd_ptr ?ch = p"
    by (simp_all add: sprite_channel_frame_start_def p)
  obtain c1 o1 where l: "sprite_line rd (word_of_nat v) ?ch = (c1, o1)" by fastforce
  have o1: "o1 = Some (pos p, ctl p, True)"
    and c1: "sprite_armed (p + 4) vstart vstop 0 c1"
    using sprite_line_control [OF f(1,2), of rd "word_of_nat v"] nonzero vstart vstop f(3) l
    by (simp_all add: pos_def ctl_def)
  have idle: "sprite_lines rd (Suc v) (vstart - Suc v) c1 = (c1, replicate (vstart - Suc v) None)"
    using order by (intro sprite_lines_idle [OF c1]) simp
  obtain c2 o2 where d: "sprite_lines rd vstart (vstop - vstart) c1 = (c2, o2)" by fastforce
  have o2: "o2 = map (\<lambda>i. Some (rd (p + 4 + 4 * word_of_nat i), rd (p + 4 + 4 * word_of_nat i + 2), False))
      [0..<vstop - vstart]"
    using sprite_lines_data [OF c1, of vstart "vstop - vstart" rd] d order by simp
  have split: "vstop - Suc v = (vstart - Suc v) + (vstop - vstart)" "vstop - v = Suc (vstop - Suc v)"
    using order by simp_all
  have "sprite_lines rd (Suc v) (vstop - Suc v) c1 = (c2, replicate (vstart - Suc v) None @ o2)"
    unfolding split(1) sprite_lines_append using idle d order by simp
  then show ?thesis using l o1 o2 by (simp add: split(2))
qed

theorem sprite_frame_fetch_witness:
  "snd (sprite_lines (\<lambda>a. if a = 0x100 then 0x0300 else if a = 0x102 then 0x0500 else ucast a) 1 4
      (sprite_channel_frame_start (sprite_channel_load sprite_dma_channel_reset 0x100))) =
    [Some (0x0300, 0x0500, True), None, Some (0x104, 0x106, False), Some (0x108, 0x10a, False)]"
proof -
  define rd :: "u32 \<Rightarrow> u16" where
    "rd = (\<lambda>a. if a = 0x100 then 0x0300 else if a = 0x102 then 0x0500 else ucast a)"
  define ch where "ch = sprite_channel_load sprite_dma_channel_reset 0x100"
  have v: "rd 0x100 = 0x0300" "rd (0x100 + 2) = 0x0500" "rd 0x104 = 0x104" "rd 0x106 = 0x106"
    "rd 0x108 = 0x108" "rd 0x10a = 0x10a"
    by (simp_all add: rd_def)
  have "0x100 = sd_base_ptr ch" by (simp add: ch_def sprite_channel_load_def)
  moreover have "rd 0x100 \<noteq> 0 \<or> rd (0x100 + 2) \<noteq> 0" by (simp only: v) simp
  moreover have "3 = unat (rd 0x100) div 256 + 256 * of_bool (bit (rd (0x100 + 2)) 2)"
    by (simp only: v) simp
  moreover have "5 = unat (rd (0x100 + 2)) div 256 + 256 * of_bool (bit (rd (0x100 + 2)) 1)"
    by (simp only: v) simp
  ultimately have "snd (sprite_lines rd 1 (5 - 1) (sprite_channel_frame_start ch)) =
    Some (rd 0x100, rd (0x100 + 2), True) # replicate (3 - Suc 1) None @
    map (\<lambda>i. Some (rd (0x100 + 4 + 4 * word_of_nat i), rd (0x100 + 4 + 4 * word_of_nat i + 2), False))
      [0..<5 - 3]"
    by (rule sprite_frame_fetch) simp_all
  also have "\<dots> = [Some (0x0300, 0x0500, True), None, Some (0x104, 0x106, False),
      Some (0x108, 0x10a, False)]"
    using v by (simp add: upt_rec)
  finally show ?thesis by (simp add: rd_def ch_def)
qed

end
