(* ===== verification/Custom_Space.thy ===== *)
theory Custom_Space
  imports Chip_Ram
begin

text \<open>
  The two address spaces through which the chipset sees the machine: the shadow array of the
  custom registers (\<^verbatim>\<open>rigel_chipset_read_reg\<close> and \<^verbatim>\<open>rigel_chipset_write_reg\<close> of
  \<^verbatim>\<open>src/chipset/chipset.c\<close>, reached through \<^verbatim>\<open>rigel_context_read_reg\<close> and
  \<^verbatim>\<open>rigel_context_write_reg\<close>) and chip RAM as the context presents it to the DMA
  engines, mirrored to the size the chipset model can address
  (\<^verbatim>\<open>src/core/rigel_context.c\<close>).  The operations take the parts of the context that
  they read as arguments.  Probe output is left out.
\<close>

unbundle bit_operations_syntax

section \<open>Register numbers\<close>

abbreviation RIGEL_CUSTOM_END :: u32 where "RIGEL_CUSTOM_END \<equiv> 0x1fe"
abbreviation RIGEL_REG_DSKDATR :: u32 where "RIGEL_REG_DSKDATR \<equiv> 0x008"
abbreviation RIGEL_REG_JOY0DAT :: u32 where "RIGEL_REG_JOY0DAT \<equiv> 0x00a"
abbreviation RIGEL_REG_JOY1DAT :: u32 where "RIGEL_REG_JOY1DAT \<equiv> 0x00c"
abbreviation RIGEL_REG_ADKCONR :: u32 where "RIGEL_REG_ADKCONR \<equiv> 0x010"
abbreviation RIGEL_REG_POT0DAT :: u32 where "RIGEL_REG_POT0DAT \<equiv> 0x012"
abbreviation RIGEL_REG_POT1DAT :: u32 where "RIGEL_REG_POT1DAT \<equiv> 0x014"
abbreviation RIGEL_REG_POTGOR :: u32 where "RIGEL_REG_POTGOR \<equiv> 0x016"
abbreviation RIGEL_REG_SERDATR :: u32 where "RIGEL_REG_SERDATR \<equiv> 0x018"
abbreviation RIGEL_REG_DSKBYTR :: u32 where "RIGEL_REG_DSKBYTR \<equiv> 0x01a"
abbreviation RIGEL_REG_DSKPTH :: u32 where "RIGEL_REG_DSKPTH \<equiv> 0x020"
abbreviation RIGEL_REG_DSKPTL :: u32 where "RIGEL_REG_DSKPTL \<equiv> 0x022"
abbreviation RIGEL_REG_DSKLEN :: u32 where "RIGEL_REG_DSKLEN \<equiv> 0x024"
abbreviation RIGEL_REG_COPCON :: u32 where "RIGEL_REG_COPCON \<equiv> 0x02e"
abbreviation RIGEL_REG_SERDAT :: u32 where "RIGEL_REG_SERDAT \<equiv> 0x030"
abbreviation RIGEL_REG_SERPER :: u32 where "RIGEL_REG_SERPER \<equiv> 0x032"
abbreviation RIGEL_REG_POTGO :: u32 where "RIGEL_REG_POTGO \<equiv> 0x034"
abbreviation RIGEL_REG_DSKSYNC :: u32 where "RIGEL_REG_DSKSYNC \<equiv> 0x07e"
abbreviation RIGEL_REG_COP1LCH :: u32 where "RIGEL_REG_COP1LCH \<equiv> 0x080"
abbreviation RIGEL_REG_COP1LCL :: u32 where "RIGEL_REG_COP1LCL \<equiv> 0x082"
abbreviation RIGEL_REG_COP2LCH :: u32 where "RIGEL_REG_COP2LCH \<equiv> 0x084"
abbreviation RIGEL_REG_COP2LCL :: u32 where "RIGEL_REG_COP2LCL \<equiv> 0x086"
abbreviation RIGEL_REG_COPJMP1 :: u32 where "RIGEL_REG_COPJMP1 \<equiv> 0x088"
abbreviation RIGEL_REG_COPJMP2 :: u32 where "RIGEL_REG_COPJMP2 \<equiv> 0x08a"
abbreviation RIGEL_REG_DMACON :: u32 where "RIGEL_REG_DMACON \<equiv> 0x096"
abbreviation RIGEL_REG_ADKCON :: u32 where "RIGEL_REG_ADKCON \<equiv> 0x09e"
abbreviation RIGEL_REG_AUD0LCH :: u32 where "RIGEL_REG_AUD0LCH \<equiv> 0x0a0"
abbreviation RIGEL_REG_AUD3DAT :: u32 where "RIGEL_REG_AUD3DAT \<equiv> 0x0da"

section \<open>Shadow registers\<close>

type_synonym custom_regs = "u16 list"

abbreviation RIGEL_CUSTOM_REG_COUNT :: nat where "RIGEL_CUSTOM_REG_COUNT \<equiv> 256"

definition rigel_custom_is_valid_reg :: "u32 \<Rightarrow> bool" where
  "rigel_custom_is_valid_reg addr \<longleftrightarrow> addr AND 1 = 0 \<and> addr \<le> RIGEL_CUSTOM_END"

definition rigel_chipset_read_reg :: "custom_regs \<Rightarrow> u32 \<Rightarrow> u16" where
  "rigel_chipset_read_reg regs addr =
     (if \<not> rigel_custom_is_valid_reg addr then 0 else regs ! unat (drop_bit 1 addr))"

definition rigel_chipset_write_reg :: "custom_regs \<Rightarrow> u32 \<Rightarrow> u16 \<Rightarrow> custom_regs" where
  "rigel_chipset_write_reg regs addr value =
     (if \<not> rigel_custom_is_valid_reg addr then regs else regs[unat (drop_bit 1 addr) := value])"

definition rigel_context_read_reg :: "custom_regs \<Rightarrow> u32 \<Rightarrow> u16" where
  "rigel_context_read_reg regs addr = rigel_chipset_read_reg regs addr"

definition rigel_context_write_reg :: "custom_regs \<Rightarrow> u32 \<Rightarrow> u16 \<Rightarrow> custom_regs" where
  "rigel_context_write_reg regs addr value = rigel_chipset_write_reg regs addr value"

text \<open>
  Every index that a valid register number gives is inside the array, and distinct valid
  numbers have distinct indices: the shadow array is a store of one word per register.
\<close>

lemma valid_reg_even: "rigel_custom_is_valid_reg a \<Longrightarrow> even (unat a) \<and> unat a \<le> 510"
  by (simp add: rigel_custom_is_valid_reg_def word_le_nat_alt even_unat and_one_eq
      flip: even_iff_mod_2_eq_zero)

lemma reg_index_bound: "rigel_custom_is_valid_reg a \<Longrightarrow> unat (drop_bit 1 a) < RIGEL_CUSTOM_REG_COUNT"
  unfolding unat_drop_bit1 using valid_reg_even [of a] by linarith

lemma reg_index_inj:
  assumes "rigel_custom_is_valid_reg a" and "rigel_custom_is_valid_reg b"
  shows "unat (drop_bit 1 a) = unat (drop_bit 1 b) \<longleftrightarrow> a = b"
proof -
  have "unat a div 2 = unat b div 2 \<longleftrightarrow> unat a = unat b"
    using valid_reg_even [OF assms(1)] valid_reg_even [OF assms(2)] by (metis dvd_div_eq_iff)
  then show ?thesis unfolding unat_drop_bit1 by (simp add: word_unat_eq_iff)
qed

lemma read_write_reg:
  assumes "length regs = RIGEL_CUSTOM_REG_COUNT"
  shows "rigel_chipset_read_reg (rigel_chipset_write_reg regs a v) b =
    (if a = b \<and> rigel_custom_is_valid_reg a then v else rigel_chipset_read_reg regs b)"
  using assms reg_index_bound [of a] reg_index_inj [of a b]
  by (auto simp: rigel_chipset_read_reg_def rigel_chipset_write_reg_def nth_list_update)

lemma length_write_reg [simp]: "length (rigel_chipset_write_reg regs a v) = length regs"
  by (simp add: rigel_chipset_write_reg_def)

section \<open>Chip RAM as the DMA engines see it\<close>

datatype rigel_chipset_model = RIGEL_CHIPSET_OCS | RIGEL_CHIPSET_ECS

definition rigel_context_chip_ram_visible_size :: "rigel_chipset_model \<Rightarrow> u32 \<Rightarrow> u32" where
  "rigel_context_chip_ram_visible_size model chip_ram_size =
     (let model_limit = (if model = RIGEL_CHIPSET_ECS then 0x00100000 else 0x00080000)
      in if chip_ram_size \<noteq> 0 \<and> chip_ram_size < model_limit then chip_ram_size
         else model_limit)"

definition rigel_context_chip_ram_map_addr :: "rigel_chipset_model \<Rightarrow> u32 \<Rightarrow> u32 \<Rightarrow> u32" where
  "rigel_context_chip_ram_map_addr model chip_ram_size addr =
     (let visible_size = rigel_context_chip_ram_visible_size model chip_ram_size;
          addr = addr AND NOT 1
      in if visible_size > 0 then addr AND (visible_size - 1) else addr)"

definition rigel_context_chip_ram_read16 ::
    "rigel_chipset_model \<Rightarrow> u32 \<Rightarrow> 'm rigel_chip_ram_if \<Rightarrow> 'm \<Rightarrow> u32 \<Rightarrow> u16" where
  "rigel_context_chip_ram_read16 model chip_ram_size host m addr =
     (case read16 host of None \<Rightarrow> 0
      | Some rd \<Rightarrow> rd m (rigel_context_chip_ram_map_addr model chip_ram_size addr))"

definition rigel_context_chip_ram_write16 ::
    "rigel_chipset_model \<Rightarrow> u32 \<Rightarrow> 'm rigel_chip_ram_if \<Rightarrow> 'm \<Rightarrow> u32 \<Rightarrow> u16 \<Rightarrow> 'm" where
  "rigel_context_chip_ram_write16 model chip_ram_size host m addr value =
     (case write16 host of None \<Rightarrow> m
      | Some wr \<Rightarrow> wr m (rigel_context_chip_ram_map_addr model chip_ram_size addr) value)"

definition rigel_context_chip_ram ::
    "rigel_chipset_model \<Rightarrow> u32 \<Rightarrow> 'm rigel_chip_ram_if \<Rightarrow> 'm rigel_chip_ram_if" where
  "rigel_context_chip_ram model chip_ram_size host =
     \<lparr>read16 = Some (rigel_context_chip_ram_read16 model chip_ram_size host),
      write16 = Some (rigel_context_chip_ram_write16 model chip_ram_size host)\<rparr>"

section \<open>Mirroring\<close>

text \<open>
  A word memory behind an address map that always yields an even address: two accesses meet
  exactly when the map takes them to the same word.
\<close>

locale mirrored_memory = chip_memory +
  fixes map_addr :: "u32 \<Rightarrow> u32"
  assumes map_even: "even (map_addr a)"
begin

lemma rd_wr_mirror:
  assumes "mapped m (map_addr a)"
  shows "rd (wr m (map_addr a) v) (map_addr b) =
    (if map_addr a = map_addr b then v else rd m (map_addr b))"
  using assms rd_wr_same rd_wr_other map_even by auto

end

lemma even_and_not_1: "even ((a AND NOT 1) AND b)" for a b :: u32
proof -
  have "\<not> bit ((a AND NOT 1) AND b) 0" by (simp add: bit_simps)
  then show ?thesis by (simp add: bit_0)
qed

lemma even_and_not_1': "even (a AND NOT 1)" for a :: u32
proof -
  have "\<not> bit (a AND NOT 1) 0" by (simp add: bit_simps)
  then show ?thesis by (simp add: bit_0)
qed

interpretation ctx_mem: mirrored_memory chip_ram_read16 chip_ram_write16 harness_mapped
  "rigel_context_chip_ram_map_addr model chip_ram_size" for model chip_ram_size
  by unfold_locales
    (unfold rigel_context_chip_ram_map_addr_def Let_def, split if_split,
      intro conjI impI even_and_not_1 even_and_not_1')

lemma map_addr_unat:
  assumes "rigel_context_chip_ram_visible_size model sz = 2 ^ k" and "k < 32"
  shows "unat (rigel_context_chip_ram_map_addr model sz a) = 2 * ((unat a mod 2 ^ k) div 2)"
proof -
  have "(2 ^ k :: u32) \<noteq> 0" using assms(2) by (simp add: exp_eq_zero_iff)
  then have "rigel_context_chip_ram_map_addr model sz a = (a AND NOT 1) AND mask k"
    using assms(1) by (simp add: rigel_context_chip_ram_map_addr_def word_gt_0 mask_eq_exp_minus_1)
  also have "\<dots> = take_bit k a AND NOT 1"
    by (simp add: take_bit_eq_mask and.assoc and.commute and.left_commute)
  finally show ?thesis
    by (simp only: unat_clear_bit0 unsigned_take_bit_eq) (simp add: take_bit_eq_mod)
qed

text \<open>
  Chip RAM is mirrored through the address space: for a visible size that is a power of
  two backed by the host's array, a word written at one address is read back exactly at the
  addresses that agree with it modulo the size and the byte bit, and every other word keeps
  its value.
\<close>

theorem context_ram_mirror:
  fixes ram :: harness_ram and a b sz :: u32 and model :: rigel_chipset_model
  defines "mem \<equiv> rigel_context_chip_ram model sz harness_chip_ram"
  assumes size: "rigel_context_chip_ram_visible_size model sz = 2 ^ k" "0 < k" "k < 32"
    and backed: "length ram = 2 ^ k"
  shows "the (read16 mem) (the (write16 mem) ram a v) b =
    (if (unat a mod 2 ^ k) div 2 = (unat b mod 2 ^ k) div 2 then v
     else the (read16 mem) ram b)"
proof -
  let ?f = "rigel_context_chip_ram_map_addr model sz"
  have eq: "?f a = ?f b \<longleftrightarrow> (unat a mod 2 ^ k) div 2 = (unat b mod 2 ^ k) div 2"
    using map_addr_unat [OF size(1,3), of a] map_addr_unat [OF size(1,3), of b]
    by (auto simp: word_unat_eq_iff)
  have ev: "even (?f a)" by (rule ctx_mem.map_even)
  have "(unat a mod 2 ^ k) div 2 < 2 ^ (k - 1)"
    using size(2) by (intro less_mult_imp_div_less) (simp flip: power_Suc2)
  then have "Suc (unat (?f a)) < 2 ^ k"
    using map_addr_unat [OF size(1,3), of a] size(2) by (cases k) auto
  then have "harness_mapped ram (?f a)"
    using backed even_addr_inc [OF ev] by (simp add: harness_mapped_def)
  from ctx_mem.rd_wr_mirror [OF this, of v b] show ?thesis
    by (simp add: mem_def rigel_context_chip_ram_def rigel_context_chip_ram_read16_def
        rigel_context_chip_ram_write16_def harness_chip_ram_def eq)
qed

theorem context_ram_mirror_witness:
  "let mem = rigel_context_chip_ram RIGEL_CHIPSET_OCS 16 harness_chip_ram
   in the (read16 mem) (the (write16 mem) (replicate 16 0) 0x104 0xbeef) 0x25 = 0xbeef"
  using context_ram_mirror [of RIGEL_CHIPSET_OCS 16 4 "replicate 16 0" "0x104" "0xbeef" "0x25"]
  by (simp add: rigel_context_chip_ram_visible_size_def)

end
