(* ===== verification/Copper.thy ===== *)
theory Copper
  imports Agnus_Dma Custom_Space
begin

text \<open>
  The copper: its state and pointer registers (\<^verbatim>\<open>agnus/copper/copper.[ch]\<close>,
  \<^verbatim>\<open>copper_regs.c\<close>), the WAIT and SKIP comparison (\<^verbatim>\<open>copper_wait.c\<close>,
  \<^verbatim>\<open>copper_exec_skip_test\<close> of \<^verbatim>\<open>copper_exec.c\<close>) and the domain operations of
  \<^verbatim>\<open>src/domains/copper/copper_domain.c\<close>.  The register operations work on the copper and
  the shadow register array, the two parts of the context they touch; trace output is left
  out.
\<close>

unbundle bit_operations_syntax

section \<open>State\<close>

record copper_state =
  cop1lc :: u32
  cop2lc :: u32
  program_counter :: u32
  wait_hpos :: u16
  wait_vpos :: u16
  wait_vpmask :: u16
  wait_hpmask :: u16
  copcon :: u16
  cop_waiting :: bool
  wait_blitter :: bool
  stopped_until_vbl :: bool
  cop_enabled :: bool
  cop_triggered :: bool
  event_latched :: bool
  fetch_pending :: bool

definition copper_beam_cmp :: "u16 \<Rightarrow> u16 \<Rightarrow> u16 \<Rightarrow> u16 \<Rightarrow> u16 \<Rightarrow> u16 \<Rightarrow> bool" where
  "copper_beam_cmp vpos hpos wvpos whpos vpmask hpmask \<longleftrightarrow>
     (let beam16 = push_bit 8 (vpos AND vpmask) OR (hpos AND hpmask AND 0xfe);
          tgt16 = push_bit 8 (wvpos AND vpmask) OR (whpos AND hpmask AND 0xfe)
      in beam16 \<ge> tgt16)"

definition copper_reset :: "copper_state \<Rightarrow> copper_state" where
  "copper_reset copper = copper\<lparr>
     cop1lc := 0, cop2lc := 0, program_counter := 0, wait_hpos := 0, wait_vpos := 0,
     wait_vpmask := 0xff, wait_hpmask := 0xfe, copcon := 0, cop_waiting := False,
     wait_blitter := False, stopped_until_vbl := False, cop_enabled := False,
     cop_triggered := False, event_latched := False, fetch_pending := False\<rparr>"

definition copper_vbl_reload :: "copper_state \<Rightarrow> copper_state" where
  "copper_vbl_reload copper =
     (if cop1lc copper AND 0x001ffffe = 0 then
        copper\<lparr>program_counter := 0, cop_waiting := False, wait_blitter := False,
               stopped_until_vbl := False, fetch_pending := False, cop_triggered := False,
               event_latched := False\<rparr>
      else
        copper\<lparr>program_counter := cop1lc copper AND 0x001ffffe, cop_waiting := False,
               wait_blitter := False, stopped_until_vbl := False, fetch_pending := True,
               cop_triggered := False, event_latched := False\<rparr>)"

definition copper_set_pointer_hi :: "u32 \<Rightarrow> u16 \<Rightarrow> u32" where
  "copper_set_pointer_hi p value = (p AND 0x0000ffff) OR push_bit 16 (ucast value)"

definition copper_set_pointer_lo :: "u32 \<Rightarrow> u16 \<Rightarrow> u32" where
  "copper_set_pointer_lo p value = (p AND 0xffff0000) OR ucast value"

section \<open>WAIT and SKIP\<close>

definition copper_wait_arm :: "copper_state \<Rightarrow> u16 \<Rightarrow> u16 \<Rightarrow> copper_state" where
  "copper_wait_arm copper ir1 ir2 = copper\<lparr>
     wait_vpos := drop_bit 8 ir1 AND 0xff,
     wait_hpos := ir1 AND 0xfe,
     wait_vpmask := drop_bit 8 ir2 AND 0xff,
     wait_hpmask := ir2 AND 0xfe,
     cop_waiting := True,
     wait_blitter := (ir2 AND 0x8000 = 0),
     stopped_until_vbl := (ir1 = 0xffff \<and> ir2 = 0xfffe)\<rparr>"

definition copper_wait_satisfied :: "copper_state \<Rightarrow> u16 \<Rightarrow> u16 \<Rightarrow> bool" where
  "copper_wait_satisfied copper hpos vpos \<longleftrightarrow>
     (if \<not> cop_waiting copper then True
      else copper_beam_cmp vpos hpos (wait_vpos copper) (wait_hpos copper)
             (wait_vpmask copper) (wait_hpmask copper))"

definition copper_exec_skip_test :: "u16 \<Rightarrow> u16 \<Rightarrow> u16 \<Rightarrow> u16 \<Rightarrow> bool" where
  "copper_exec_skip_test ir1 ir2 hpos vpos \<longleftrightarrow>
     copper_beam_cmp vpos hpos (drop_bit 8 ir1 AND 0xff) (ir1 AND 0xfe)
       (drop_bit 8 ir2 AND 0xff) (ir2 AND 0xfe)"

section \<open>Domain operations\<close>

abbreviation COPPER_DEADLINE_NONE :: u32 where "COPPER_DEADLINE_NONE \<equiv> 0xffffffff"

definition rigel_copper_domain_reset :: "copper_state \<Rightarrow> copper_state" where
  "rigel_copper_domain_reset copper = copper_reset copper"

definition rigel_copper_domain_set_wait ::
    "copper_state \<Rightarrow> u16 \<Rightarrow> u16 \<Rightarrow> u16 \<Rightarrow> u16 \<Rightarrow> copper_state" where
  "rigel_copper_domain_set_wait copper vpos hpos vpmask hpmask = copper\<lparr>
     wait_vpos := vpos, wait_hpos := hpos, wait_vpmask := vpmask, wait_hpmask := hpmask,
     cop_waiting := True\<rparr>"

definition rigel_copper_domain_jump1 :: "copper_state \<Rightarrow> copper_state" where
  "rigel_copper_domain_jump1 copper = copper\<lparr>
     program_counter := cop1lc copper, cop_triggered := False, event_latched := False,
     fetch_pending := True, cop_waiting := False\<rparr>"

definition rigel_copper_domain_jump2 :: "copper_state \<Rightarrow> copper_state" where
  "rigel_copper_domain_jump2 copper = copper\<lparr>
     program_counter := cop2lc copper, cop_triggered := False, event_latched := False,
     fetch_pending := True, cop_waiting := False\<rparr>"

definition rigel_copper_domain_vbl_reload :: "copper_state \<Rightarrow> copper_state" where
  "rigel_copper_domain_vbl_reload copper = copper_vbl_reload copper"

definition rigel_copper_domain_cycles_to_wait :: "copper_state \<Rightarrow> beam_state \<Rightarrow> u32" where
  "rigel_copper_domain_cycles_to_wait copper beam =
     (if \<not> cop_waiting copper then COPPER_DEADLINE_NONE
      else if copper_beam_cmp (beam_vpos beam) (beam_hpos beam) (wait_vpos copper)
                (wait_hpos copper) (wait_vpmask copper) (wait_hpmask copper)
      then 0
      else if wait_vpmask copper = 0xff \<and> wait_hpmask copper = 0xfe then
        let current = ucast (beam_vpos beam) * ucast (beam_line_clocks beam) +
                      ucast (beam_hpos beam) :: u32;
            target = ucast (wait_vpos copper) * ucast (beam_line_clocks beam) +
                     ucast (wait_hpos copper) :: u32
        in if target > current then target - current
           else
             let frame_total = ucast (beam_frame_lines beam) * ucast (beam_line_clocks beam) :: u32
             in frame_total - current + target
      else ucast (beam_line_clocks beam) - ucast (beam_hpos beam))"

definition rigel_copper_domain_step ::
    "copper_state \<Rightarrow> beam_state \<Rightarrow> dma_state \<Rightarrow> bool \<Rightarrow> copper_state" where
  "rigel_copper_domain_step copper beam dma blitter_busy =
     (let copper = copper\<lparr>cop_triggered := False\<rparr>;
          enabled = (dma_dmacon dma AND (DMACON_DMAEN OR DMACON_COPEN) =
                     DMACON_DMAEN OR DMACON_COPEN);
          copper = copper\<lparr>cop_enabled := enabled\<rparr>
      in if \<not> enabled \<or> \<not> cop_waiting copper then copper
         else if wait_blitter copper \<and> blitter_busy then copper
         else if copper_beam_cmp (beam_vpos beam) (beam_hpos beam) (wait_vpos copper)
                   (wait_hpos copper) (wait_vpmask copper) (wait_hpmask copper)
         then copper\<lparr>cop_waiting := False, wait_blitter := False,
                program_counter := program_counter copper + 4, cop_triggered := True,
                event_latched := True, fetch_pending := True\<rparr>
         else copper)"

section \<open>Registers\<close>

definition rigel_copper_regs_owns_reg :: "u32 \<Rightarrow> bool" where
  "rigel_copper_regs_owns_reg addr \<longleftrightarrow>
     addr \<in> {RIGEL_REG_COPCON, RIGEL_REG_COP1LCH, RIGEL_REG_COP1LCL, RIGEL_REG_COP2LCH,
              RIGEL_REG_COP2LCL, RIGEL_REG_COPJMP1, RIGEL_REG_COPJMP2}"

definition rigel_copper_regs_read :: "copper_state \<times> custom_regs \<Rightarrow> u32 \<Rightarrow> u16" where
  "rigel_copper_regs_read ctx addr =
     (let (copper, regs) = ctx in
      if addr = RIGEL_REG_COP1LCH then ucast (drop_bit 16 (cop1lc copper))
      else if addr = RIGEL_REG_COP1LCL then ucast (cop1lc copper AND 0xffff)
      else if addr = RIGEL_REG_COP2LCH then ucast (drop_bit 16 (cop2lc copper))
      else if addr = RIGEL_REG_COP2LCL then ucast (cop2lc copper AND 0xffff)
      else rigel_context_read_reg regs addr)"

definition rigel_copper_regs_write ::
    "copper_state \<times> custom_regs \<Rightarrow> u32 \<Rightarrow> u16 \<Rightarrow> copper_state \<times> custom_regs" where
  "rigel_copper_regs_write ctx addr value =
     (let (copper, regs) = ctx;
          copper =
            (if addr = RIGEL_REG_COPCON then copper\<lparr>copcon := value\<rparr>
             else if addr = RIGEL_REG_COP1LCH then
               copper\<lparr>cop1lc := copper_set_pointer_hi (cop1lc copper) value\<rparr>
             else if addr = RIGEL_REG_COP1LCL then
               copper\<lparr>cop1lc := copper_set_pointer_lo (cop1lc copper) value\<rparr>
             else if addr = RIGEL_REG_COP2LCH then
               copper\<lparr>cop2lc := copper_set_pointer_hi (cop2lc copper) value\<rparr>
             else if addr = RIGEL_REG_COP2LCL then
               copper\<lparr>cop2lc := copper_set_pointer_lo (cop2lc copper) value\<rparr>
             else if addr = RIGEL_REG_COPJMP1 then rigel_copper_domain_jump1 copper
             else if addr = RIGEL_REG_COPJMP2 then rigel_copper_domain_jump2 copper
             else copper)
      in (copper, rigel_context_write_reg regs addr value))"

section \<open>The comparison as an order on beam positions\<close>

lemma join16:
  "unat (push_bit 8 v OR h) = unat v * 256 + unat h" if "unat v < 256" "unat h < 256" for v h :: u16
proof -
  have b: "8 \<le> n \<Longrightarrow> \<not> bit h n" for n
    using that(2) by (intro not_bit_if_unat_less [where k = 8]) simp_all
  have "push_bit 8 v AND h = 0"
    by (rule bit_word_eqI) (auto simp: bit_and_iff bit_push_bit_iff dest: b)
  then have "push_bit 8 v OR h = push_bit 8 v + h" by (simp add: disjunctive_add_eq_or)
  moreover have "unat (push_bit 8 v) = unat v * 256"
    using that(1) by (subst unsigned_push_bit_eq) (simp add: push_bit_eq_mult take_bit_nat_eq_self)
  ultimately show ?thesis using that by (simp add: unat_word_ariths)
qed

lemma and_ff: "unat v < 256 \<Longrightarrow> v AND 0xff = v" for v :: u16
  by (rule bit_word_eqI) (auto simp: bit_simps dest: bit_imp_less_if_unat_less [where k = 8, simplified])

lemma unat_and_fe: "unat (h AND 0xfe) = 2 * (unat h div 2)" if "unat h < 256" for h :: u16
proof -
  have "(0xfe :: u16) = 0xff AND NOT 1" by simp
  then have "h AND 0xfe = (h AND 0xff) AND NOT 1" by (simp only: and.assoc)
  then show ?thesis by (simp only: and_ff [OF that] unat_clear_bit0)
qed

text \<open>
  With the full mask, inside the first 256 lines and clocks, the comparison is the
  lexicographic order on (line, clock) with an even target clock.
\<close>

lemma copper_beam_cmp_full:
  assumes "unat v < 256" "unat h < 256" "unat wv < 256" "unat wh < 256" "even (unat wh)"
  shows "copper_beam_cmp v h wv wh 0xff 0xfe \<longleftrightarrow>
    unat wv < unat v \<or> unat wv = unat v \<and> unat wh \<le> unat h"
proof -
  have ev: "2 * (unat wh div 2) = unat wh" using assms(5) by simp
  have fe: "x AND 0xfe AND 0xfe = x AND (0xfe :: u16)" for x by (simp add: and.assoc)
  have "copper_beam_cmp v h wv wh 0xff 0xfe \<longleftrightarrow>
      unat wv * 256 + unat wh \<le> unat v * 256 + 2 * (unat h div 2)"
    using assms ev
    by (simp add: copper_beam_cmp_def fe and_ff word_le_nat_alt join16 unat_and_fe)
  also have "\<dots> \<longleftrightarrow> unat wv < unat v \<or> unat wv = unat v \<and> unat wh \<le> 2 * (unat h div 2)"
    using assms by linarith
  also have "unat wh \<le> 2 * (unat h div 2) \<longleftrightarrow> unat wh \<le> unat h"
    using assms(5) by presburger
  finally show ?thesis .
qed

text \<open>The same order on the running count of clocks since the top of the frame.\<close>

lemma linear_order:
  fixes v h wv wh L :: nat
  assumes "h < L" and "wh < L"
  shows "wv * L + wh \<le> v * L + h \<longleftrightarrow> wv < v \<or> wv = v \<and> wh \<le> h"
proof (cases wv v rule: linorder_cases)
  case less
  then have "Suc wv * L \<le> v * L" by (intro mult_le_mono) auto
  then show ?thesis using less assms by simp
next
  case greater
  then have "Suc v * L \<le> wv * L" by (intro mult_le_mono) auto
  then show ?thesis using greater assms by simp
qed simp

lemma copper_wait_linear:
  assumes "beam_uniform b" and "beam_line_clocks b \<le> 256" and "unat (beam_vpos b) < 256"
    and "unat wv < 256" and "even (unat wh)" and "wh < beam_line_clocks b"
  shows "copper_beam_cmp (beam_vpos b) (beam_hpos b) wv wh 0xff 0xfe \<longleftrightarrow>
    unat wv * unat (beam_line_clocks b) + unat wh \<le>
      unat (beam_vpos b) * unat (beam_line_clocks b) + unat (beam_hpos b)"
proof -
  have "unat (beam_hpos b) < unat (beam_line_clocks b)" "unat wh < unat (beam_line_clocks b)"
    "unat (beam_line_clocks b) \<le> 256"
    using assms by (simp_all add: beam_uniform_def word_less_nat_alt word_le_nat_alt)
  then show ?thesis
    using assms by (simp add: copper_beam_cmp_full linear_order)
qed

lemma beam_linear_tick:
  assumes "beam_uniform b"
    and "unat (beam_vpos b) * unat (beam_line_clocks b) + unat (beam_hpos b) + k <
      unat (beam_frame_lines b) * unat (beam_line_clocks b)"
  shows "unat (beam_vpos ((beam_tick ^^ k) b)) * unat (beam_line_clocks b) +
      unat (beam_hpos ((beam_tick ^^ k) b)) =
    unat (beam_vpos b) * unat (beam_line_clocks b) + unat (beam_hpos b) + k"
proof -
  define L F where "L = unat (beam_line_clocks b)" and "F = unat (beam_frame_lines b)"
  define h v where "h = unat (beam_hpos b)" and "v = unat (beam_vpos b)"
  have L: "0 < L" using assms(1) by (auto simp: beam_uniform_def word_less_nat_alt L_def)
  have "v * L + (h + k) < F * L" using assms(2) by (simp add: L_def F_def h_def v_def add.assoc)
  then have "(v * L + (h + k)) div L < F" using L by (intro less_mult_imp_div_less)
  then have "v + (h + k) div L < F" using L by simp
  then have "(v + (h + k) div L) mod F = v + (h + k) div L" by simp
  moreover have "(v + (h + k) div L) * L + (h + k) mod L = v * L + h + k"
    by (simp add: distrib_right div_mult_mod_eq)
  ultimately show ?thesis
    using beam_ticks_uniform [OF assms(1), of k] by (simp add: L_def F_def h_def v_def)
qed

lemma cycles_to_wait_unat:
  assumes c: "cop_waiting c" "wait_vpmask c = 0xff" "wait_hpmask c = 0xfe"
    and "beam_uniform b" and "beam_line_clocks b \<le> 256" and "unat (beam_vpos b) < 256"
    and "unat (wait_vpos c) < 256" and "even (unat (wait_hpos c))"
    and "wait_hpos c < beam_line_clocks b"
  shows "unat (rigel_copper_domain_cycles_to_wait c b) =
    (unat (wait_vpos c) * unat (beam_line_clocks b) + unat (wait_hpos c)) -
    (unat (beam_vpos b) * unat (beam_line_clocks b) + unat (beam_hpos b))"
proof -
  define L where "L = unat (beam_line_clocks b)"
  define cur tgt where "cur = unat (beam_vpos b) * L + unat (beam_hpos b)"
    and "tgt = unat (wait_vpos c) * L + unat (wait_hpos c)"
  have bd: "L \<le> 256" "unat (beam_hpos b) < L" "unat (wait_hpos c) < L"
    using assms by (simp_all add: beam_uniform_def word_less_nat_alt word_le_nat_alt L_def)
  have "unat (beam_vpos b) * L \<le> 256 * 256" "unat (wait_vpos c) * L \<le> 256 * 256"
    using mult_le_mono [of "unat (beam_vpos b)" 256 L 256] mult_le_mono [of "unat (wait_vpos c)" 256 L 256]
      assms bd by simp_all
  then have small: "cur < 2 ^ 32" "tgt < 2 ^ 32" using bd by (simp_all add: cur_def tgt_def)
  have w: "(ucast (beam_vpos b) * ucast (beam_line_clocks b) + ucast (beam_hpos b) :: u32) = of_nat cur"
    "(ucast (wait_vpos c) * ucast (beam_line_clocks b) + ucast (wait_hpos c) :: u32) = of_nat tgt"
    by (simp_all add: cur_def tgt_def L_def)
  have u: "unat (of_nat cur :: u32) = cur" "unat (of_nat tgt :: u32) = tgt"
    using small by (simp_all add: unat_of_nat_small)
  have cmp: "copper_beam_cmp (beam_vpos b) (beam_hpos b) (wait_vpos c) (wait_hpos c) 0xff 0xfe \<longleftrightarrow>
      tgt \<le> cur"
    using copper_wait_linear [OF assms(4-9)] by (simp add: tgt_def cur_def L_def)
  show ?thesis
  proof (cases "tgt \<le> cur")
    case True
    then show ?thesis
      using cmp c by (simp add: rigel_copper_domain_cycles_to_wait_def flip: tgt_def cur_def L_def)
  next
    case False
    then have gt: "(of_nat cur :: u32) < of_nat tgt" by (simp add: word_less_nat_alt u)
    have "rigel_copper_domain_cycles_to_wait c b = of_nat tgt - of_nat cur"
      using False cmp c gt by (simp add: rigel_copper_domain_cycles_to_wait_def Let_def w)
    then show ?thesis
      using gt u by (simp add: unat_sub word_less_nat_alt word_le_nat_alt
          flip: tgt_def cur_def L_def)
  qed
qed

text \<open>
  C36: The copper's WAIT deadline is exact for targets the beam reaches: let the copper wait with full
  masks, with copper DMA on and no blitter to wait for, the beam in the first 256 lines of a
  uniform scan, and the target on one of the first 256 lines of the running frame and at a clock inside the line
  (so not the FFFF/FFFE that ends copper lists).  Then the domain step releases the copper at
  the beam position that many clocks away, and at no earlier one; the number is 0 when the
  target has been passed already.
\<close>

theorem copper_wait_release_exact:
  fixes c :: copper_state and b :: beam_state
  defines "N \<equiv> unat (rigel_copper_domain_cycles_to_wait c b)"
  assumes c: "cop_waiting c" "wait_vpmask c = 0xff" "wait_hpmask c = 0xfe"
    and b: "beam_uniform b" "beam_line_clocks b \<le> 256" "unat (beam_vpos b) < 256"
    and w: "unat (wait_vpos c) < 256" "even (unat (wait_hpos c))"
      "wait_hpos c < beam_line_clocks b" "wait_vpos c < beam_frame_lines b"
    and dma: "dmacon_copen (dma_dmacon dma)" "\<not> (wait_blitter c \<and> busy)"
  shows "(let c' = rigel_copper_domain_step c ((beam_tick ^^ N) b) dma busy
          in \<not> cop_waiting c' \<and> fetch_pending c' \<and> program_counter c' = program_counter c + 4) \<and>
    (\<forall>k < N. let c' = rigel_copper_domain_step c ((beam_tick ^^ k) b) dma busy
          in cop_waiting c' \<and> program_counter c' = program_counter c)"
proof -
  define L where "L = unat (beam_line_clocks b)"
  define cur tgt where "cur = unat (beam_vpos b) * L + unat (beam_hpos b)"
    and "tgt = unat (wait_vpos c) * L + unat (wait_hpos c)"
  have N: "N = tgt - cur"
    using cycles_to_wait_unat [OF c b w(1-3)] by (simp add: N_def tgt_def cur_def L_def)
  have lt: "unat (wait_hpos c) < L" "unat (wait_vpos c) < unat (beam_frame_lines b)"
    "unat (beam_hpos b) < L"
    using w b by (simp_all add: word_less_nat_alt L_def beam_uniform_def)
  have "Suc (unat (wait_vpos c)) * L \<le> unat (beam_frame_lines b) * L"
    using lt(2) by (intro mult_le_mono) auto
  then have inside: "tgt < unat (beam_frame_lines b) * L" using lt(1) by (simp add: tgt_def)
  have cmp: "copper_beam_cmp (beam_vpos ((beam_tick ^^ k) b)) (beam_hpos ((beam_tick ^^ k) b))
      (wait_vpos c) (wait_hpos c) 0xff 0xfe \<longleftrightarrow> tgt \<le> cur + k" if k: "k \<le> N" for k
  proof (cases "k = 0")
    case True
    then show ?thesis using copper_wait_linear [OF b w(1-3)] by (simp add: tgt_def cur_def L_def)
  next
    case False
    let ?b = "(beam_tick ^^ k) b"
    have le: "cur + k \<le> tgt" using k N False by simp
    have u: "beam_uniform ?b" "beam_line_clocks ?b = beam_line_clocks b"
      using beam_ticks_uniform [OF b(1), of k] by auto
    have lin: "unat (beam_vpos ?b) * L + unat (beam_hpos ?b) = cur + k"
      using beam_linear_tick [OF b(1), of k] le inside by (simp add: cur_def L_def)
    then have "unat (beam_vpos ?b) * L \<le> tgt" using le by simp
    then have "unat (beam_vpos ?b) * L < Suc (unat (wait_vpos c)) * L" using lt(1) by (simp add: tgt_def)
    then have "unat (beam_vpos ?b) < Suc (unat (wait_vpos c))" by (metis mult_less_cancel2)
    then have "unat (beam_vpos ?b) < 256" using w(1) by linarith
    then show ?thesis
      using copper_wait_linear [OF u(1), of "wait_vpos c" "wait_hpos c"] u(2) b(2) w lin
      by (simp add: tgt_def L_def)
  qed
  have step: "rigel_copper_domain_step c b' dma busy =
      (if copper_beam_cmp (beam_vpos b') (beam_hpos b') (wait_vpos c) (wait_hpos c) 0xff 0xfe
       then c\<lparr>cop_triggered := True, cop_enabled := True, cop_waiting := False,
              wait_blitter := False, program_counter := program_counter c + 4,
              event_latched := True, fetch_pending := True\<rparr>
       else c\<lparr>cop_triggered := False, cop_enabled := True\<rparr>)" for b'
    using c dma by (auto simp: rigel_copper_domain_step_def Let_def dmacon_copen_def)
  show ?thesis
    using cmp [of N] cmp N c(1) by (auto simp: step Let_def)
qed

definition copper_zero :: copper_state where
  "copper_zero = \<lparr>cop1lc = 0, cop2lc = 0, program_counter = 0, wait_hpos = 0, wait_vpos = 0,
     wait_vpmask = 0, wait_hpmask = 0, copcon = 0, cop_waiting = False, wait_blitter = False,
     stopped_until_vbl = False, cop_enabled = False, cop_triggered = False,
     event_latched = False, fetch_pending = False\<rparr>"

theorem copper_wait_release_exact_witness:
  "let c = copper_wait_arm (copper_reset copper_zero) 0x2c41 0xfffe; b = beam_reset beam_zero;
       dma = \<lparr>dma_dmacon = 0x0280, dma_enabled = True, dma_blitter_enabled = False\<rparr>;
       c' = rigel_copper_domain_step c
              ((beam_tick ^^ unat (rigel_copper_domain_cycles_to_wait c b)) b) dma True
   in \<not> cop_waiting c' \<and> fetch_pending c' \<and> program_counter c' = 4"
proof -
  define c where "c = copper_wait_arm (copper_reset copper_zero) 0x2c41 0xfffe"
  define b where "b = beam_reset beam_zero"
  define dma where "dma = \<lparr>dma_dmacon = 0x0280, dma_enabled = True, dma_blitter_enabled = False\<rparr>"
  have c: "cop_waiting c" "wait_vpmask c = 0xff" "wait_hpmask c = 0xfe" "\<not> wait_blitter c"
    "wait_vpos c = 0x2c" "wait_hpos c = 0x40" "program_counter c = 0"
    by (simp_all add: c_def copper_wait_arm_def copper_reset_def)
  have b: "beam_uniform b" "beam_line_clocks b = 227" "beam_vpos b = 0" "beam_frame_lines b = 262"
    by (simp_all add: b_def beam_uniform_def beam_reset_def beam_zero_def)
  have d: "dmacon_copen (dma_dmacon dma)" by (simp add: dma_def dmacon_copen_def)
  show ?thesis
    unfolding c_def [symmetric] b_def [symmetric] dma_def [symmetric]
    using copper_wait_release_exact [OF c(1-3) b(1), of dma True] b c d
    by (simp add: Let_def word_less_nat_alt word_le_nat_alt)
qed

section \<open>Starting a copper list\<close>

text \<open>
  A list pointer loaded through the two halves of COP1LC, in either order, is the address
  at which COPJMP1 starts the copper, whatever the old pointer was; both halves read back.
\<close>

theorem copper_list_start:
  fixes w :: "copper_state \<times> custom_regs \<Rightarrow> u32 \<Rightarrow> u16 \<Rightarrow> copper_state \<times> custom_regs"
    and s :: "copper_state \<times> custom_regs" and hi lo v :: u16
  defines "w \<equiv> rigel_copper_regs_write"
    and "s1 \<equiv> rigel_copper_regs_write (rigel_copper_regs_write s RIGEL_REG_COP1LCH hi) RIGEL_REG_COP1LCL lo"
  shows "w (w s RIGEL_REG_COP1LCL lo) RIGEL_REG_COP1LCH hi =
      (fst s1, snd (w (w s RIGEL_REG_COP1LCL lo) RIGEL_REG_COP1LCH hi)) \<and>
    rigel_copper_regs_read s1 RIGEL_REG_COP1LCH = hi \<and>
    rigel_copper_regs_read s1 RIGEL_REG_COP1LCL = lo \<and>
    (let c = fst (w s1 RIGEL_REG_COPJMP1 v)
     in program_counter c = push_bit 16 (ucast hi) OR ucast lo \<and> fetch_pending c \<and>
        \<not> cop_waiting c)"
proof -
  obtain c regs where s: "s = (c, regs)" by (cases s)
  have halves: "copper_set_pointer_hi = ptr_set_hi" "copper_set_pointer_lo = ptr_set_lo"
    by (simp_all add: fun_eq_iff copper_set_pointer_hi_def copper_set_pointer_lo_def
        ptr_set_hi_def ptr_set_lo_def)
  have join: "ptr_set_lo (ptr_set_hi p hi) lo = push_bit 16 (ucast hi) OR ucast lo" for p
    by (rule bit_word_eqI) (auto simp: bit_ptr_set_hi bit_ptr_set_lo bit_simps dest: bit_imp_le_length)
  have s1: "s1 = (c\<lparr>cop1lc := ptr_set_lo (ptr_set_hi (cop1lc c) hi) lo\<rparr>,
      rigel_context_write_reg (rigel_context_write_reg regs RIGEL_REG_COP1LCH hi) RIGEL_REG_COP1LCL lo)"
    by (simp add: s1_def s rigel_copper_regs_write_def halves)
  show ?thesis
    unfolding s1
    by (simp add: w_def s rigel_copper_regs_write_def rigel_copper_regs_read_def halves
        ptr_halves_commute [symmetric] ptr_hi_read ptr_lo_read rigel_copper_domain_jump1_def)
      (simp add: join)
qed

end
