(* ===== verification/Paula_Serial.thy ===== *)
theory Paula_Serial
  imports Custom_Space "HOL-Library.Sublist"
begin

text \<open>
  Paula's serial port (\<^verbatim>\<open>src/chipset/paula/serial.c\<close>) with its domain wrapper
  \<^verbatim>\<open>src/domains/serial/serial_domain.c\<close>, and the game-port registers
  (\<^verbatim>\<open>src/chipset/paula/input.c\<close>, \<^verbatim>\<open>src/domains/input/input_domain.c\<close>).

  The interrupt sink of the port is a callback that may be null: the field \<open>se_irq\<close> says
  whether it is set, and the operations that call it return the masks they raise in order.
  The transmit FIFO is a ring in an array; the locale \<open>bounded_fifo\<close> is the contract of such
  a queue, and its interpretation on the port's own operations carries the ordering
  property.
\<close>

unbundle bit_operations_syntax

section \<open>State\<close>

abbreviation RIGEL_PAULA_SERIAL_INTREQ_RBF :: u16 where "RIGEL_PAULA_SERIAL_INTREQ_RBF \<equiv> 0x0800"
abbreviation RIGEL_PAULA_SERIAL_INTREQ_TBE :: u16 where "RIGEL_PAULA_SERIAL_INTREQ_TBE \<equiv> 0x0001"
abbreviation RIGEL_PAULA_SERIAL_TX_FIFO_SIZE :: u32 where
  "RIGEL_PAULA_SERIAL_TX_FIFO_SIZE \<equiv> 16"

record serial_state =
  se_irq :: bool
  serper :: u16
  tx_buffer :: u16
  tx_buffer_valid :: bool
  tx_shift_reg :: u16
  tx_shift_busy :: bool
  tx_cycles_remaining :: u32
  rx_buffer :: u16
  rx_buffer_full :: bool
  overrun :: bool
  rxd_level :: bool
  tx_instant :: bool
  tx_fifo :: "u8 list"
  tx_fifo_head :: u32
  tx_fifo_tail :: u32
  tx_fifo_count :: u32
  tx_overflow :: bool

section \<open>Operations\<close>

definition serial_cycles_per_bit :: "serial_state \<Rightarrow> u32" where
  "serial_cycles_per_bit serial =
     (let value = ucast (serper serial AND 0x7fff) + 1 in if value \<noteq> 0 then value else 1)"

definition serial_frame_cycles :: "serial_state \<Rightarrow> u16 \<Rightarrow> u32" where
  "serial_frame_cycles serial word = 10 * serial_cycles_per_bit serial"

definition serial_raise_irq :: "serial_state \<Rightarrow> u16 \<Rightarrow> u16 list" where
  "serial_raise_irq serial msk = (if se_irq serial then [msk] else [])"

definition serial_queue_tx_byte :: "serial_state \<Rightarrow> u16 \<Rightarrow> serial_state" where
  "serial_queue_tx_byte serial word =
     (let byte = ucast (word AND 0xff) in
      if tx_fifo_count serial \<ge> RIGEL_PAULA_SERIAL_TX_FIFO_SIZE
      then serial\<lparr>tx_overflow := True\<rparr>
      else serial\<lparr>tx_fifo := (tx_fifo serial)[unat (tx_fifo_tail serial) := byte],
                  tx_fifo_tail := (tx_fifo_tail serial + 1) mod RIGEL_PAULA_SERIAL_TX_FIFO_SIZE,
                  tx_fifo_count := tx_fifo_count serial + 1\<rparr>)"

definition serial_start_tx_shift :: "serial_state \<Rightarrow> serial_state \<times> u16 list" where
  "serial_start_tx_shift serial =
     (if \<not> tx_buffer_valid serial \<or> tx_shift_busy serial then (serial, [])
      else
        let serial = serial\<lparr>tx_shift_reg := tx_buffer serial, tx_shift_busy := True\<rparr>;
            serial = serial\<lparr>tx_cycles_remaining := serial_frame_cycles serial (tx_shift_reg serial),
                            tx_buffer_valid := False\<rparr>;
            serial = (if tx_instant serial then serial_queue_tx_byte serial (tx_shift_reg serial)
                      else serial)
        in (serial, serial_raise_irq serial RIGEL_PAULA_SERIAL_INTREQ_TBE))"

definition serial_reset :: "serial_state \<Rightarrow> serial_state" where
  "serial_reset serial = serial\<lparr>
     serper := 0, tx_buffer := 0, tx_buffer_valid := False, tx_shift_reg := 0,
     tx_shift_busy := False, tx_cycles_remaining := 0, rx_buffer := 0,
     rx_buffer_full := False, overrun := False, rxd_level := True, tx_instant := False,
     tx_fifo_head := 0, tx_fifo_tail := 0, tx_fifo_count := 0, tx_overflow := False\<rparr>"

definition serial_set_irq_sink :: "serial_state \<Rightarrow> bool \<Rightarrow> serial_state" where
  "serial_set_irq_sink serial sink = serial\<lparr>se_irq := sink\<rparr>"

definition serial_write_serdat :: "serial_state \<Rightarrow> u16 \<Rightarrow> serial_state \<times> u16 list" where
  "serial_write_serdat serial value =
     (if tx_instant serial then
        let serial = serial_queue_tx_byte serial value
        in (serial, serial_raise_irq serial RIGEL_PAULA_SERIAL_INTREQ_TBE)
      else
        let serial = serial\<lparr>tx_buffer := value, tx_buffer_valid := True\<rparr>
        in if \<not> tx_shift_busy serial then serial_start_tx_shift serial else (serial, []))"

definition serial_write_serper :: "serial_state \<Rightarrow> u16 \<Rightarrow> serial_state" where
  "serial_write_serper serial value = serial\<lparr>serper := value\<rparr>"

definition serial_read_serdatr :: "serial_state \<Rightarrow> u16" where
  "serial_read_serdatr serial =
     (let value = rx_buffer serial AND 0x03ff;
          value = (if overrun serial then value OR 0x8000 else value);
          value = (if rx_buffer_full serial then value OR 0x4000 else value);
          value = (if \<not> tx_buffer_valid serial then value OR 0x2000 else value);
          value = (if \<not> tx_shift_busy serial then value OR 0x1000 else value);
          value = (if rxd_level serial then value OR 0x0800 else value)
      in value)"

definition serial_step :: "serial_state \<Rightarrow> u32 \<Rightarrow> serial_state \<times> u16 list" where
  "serial_step serial cycles =
     (if \<not> tx_shift_busy serial then
        if tx_buffer_valid serial then serial_start_tx_shift serial else (serial, [])
      else if cycles < tx_cycles_remaining serial then
        (serial\<lparr>tx_cycles_remaining := tx_cycles_remaining serial - cycles\<rparr>, [])
      else
        let completed_word = tx_shift_reg serial;
            serial = serial\<lparr>tx_cycles_remaining := 0, tx_shift_busy := False, tx_shift_reg := 0\<rparr>;
            serial = (if \<not> tx_instant serial then serial_queue_tx_byte serial completed_word
                      else serial)
        in if tx_buffer_valid serial then serial_start_tx_shift serial else (serial, []))"

definition serial_receive_byte :: "serial_state \<Rightarrow> u8 \<Rightarrow> serial_state \<times> u16 list" where
  "serial_receive_byte serial byte =
     (let serial = (if rx_buffer_full serial then serial\<lparr>overrun := True\<rparr> else serial);
          serial = serial\<lparr>rx_buffer := ucast byte OR 0x0100, rx_buffer_full := True,
                          rxd_level := True\<rparr>
      in (serial, serial_raise_irq serial RIGEL_PAULA_SERIAL_INTREQ_RBF))"

definition serial_clear_rbf :: "serial_state \<Rightarrow> serial_state" where
  "serial_clear_rbf serial = serial\<lparr>rx_buffer_full := False, rx_buffer := 0, overrun := False\<rparr>"

definition serial_tx_available :: "serial_state \<Rightarrow> bool" where
  "serial_tx_available serial \<longleftrightarrow> tx_fifo_count serial > 0"

definition serial_pop_tx_byte :: "serial_state \<Rightarrow> (u8 \<times> serial_state) option" where
  "serial_pop_tx_byte serial =
     (if tx_fifo_count serial = 0 then None
      else Some (tx_fifo serial ! unat (tx_fifo_head serial),
                 serial\<lparr>tx_fifo_head := (tx_fifo_head serial + 1) mod RIGEL_PAULA_SERIAL_TX_FIFO_SIZE,
                        tx_fifo_count := tx_fifo_count serial - 1\<rparr>))"

definition serial_set_tx_instant :: "serial_state \<Rightarrow> bool \<Rightarrow> serial_state" where
  "serial_set_tx_instant serial enabled = serial\<lparr>tx_instant := enabled\<rparr>"

section \<open>Domain wrapper\<close>

definition rigel_serial_domain_owns_reg :: "u32 \<Rightarrow> bool" where
  "rigel_serial_domain_owns_reg addr \<longleftrightarrow>
     addr = RIGEL_REG_SERDATR \<or> addr = RIGEL_REG_SERDAT \<or> addr = RIGEL_REG_SERPER"

definition rigel_serial_domain_reset :: "serial_state \<Rightarrow> serial_state" where
  "rigel_serial_domain_reset serial = serial_reset serial"

definition rigel_serial_domain_step :: "serial_state \<Rightarrow> u32 \<Rightarrow> serial_state \<times> u16 list" where
  "rigel_serial_domain_step serial cycles = serial_step serial cycles"

definition rigel_serial_domain_read_reg :: "serial_state \<Rightarrow> u32 \<Rightarrow> u16 \<times> serial_state" where
  "rigel_serial_domain_read_reg serial addr =
     (if addr = RIGEL_REG_SERDATR then (serial_read_serdatr serial, serial_clear_rbf serial)
      else (0, serial))"

definition rigel_serial_domain_write_reg ::
    "serial_state \<Rightarrow> u32 \<Rightarrow> u16 \<Rightarrow> serial_state \<times> u16 list" where
  "rigel_serial_domain_write_reg serial addr value =
     (if addr = RIGEL_REG_SERDAT then serial_write_serdat serial value
      else if addr = RIGEL_REG_SERPER then (serial_write_serper serial value, [])
      else (serial, []))"

section \<open>Game ports\<close>

record input_state =
  potgo :: u16
  joydat :: "u16 list"
  pot_button_x :: "u8 list"
  pot_button_y :: "u8 list"

definition input_reset :: input_state where
  "input_reset = \<lparr>potgo = 0xffff, joydat = [0, 0], pot_button_x = [0, 0], pot_button_y = [0, 0]\<rparr>"

definition input_read_joydat :: "input_state \<Rightarrow> u32 \<Rightarrow> u16" where
  "input_read_joydat input port = (if port > 1 then 0 else joydat input ! unat port)"

definition input_read_potdat :: "input_state \<Rightarrow> u32 \<Rightarrow> u16" where
  "input_read_potdat input port =
     (if port > 1 then 0xffff
      else if port = 0 then
        let value = 0xffff;
            value = (if potgo input AND 0x0200 = 0 \<and> pot_button_x input ! 0 \<noteq> 0
                     then value AND 0xff00 else value);
            value = (if potgo input AND 0x0800 = 0 \<and> pot_button_y input ! 0 \<noteq> 0
                     then value AND 0x00ff else value)
        in value
      else
        let value = 0xffff;
            value = (if potgo input AND 0x2000 = 0 \<and> pot_button_x input ! 1 \<noteq> 0
                     then value AND 0xff00 else value);
            value = (if potgo input AND 0x8000 = 0 \<and> pot_button_y input ! 1 \<noteq> 0
                     then value AND 0x00ff else value)
        in value)"

definition input_read_potgor :: "input_state \<Rightarrow> u16" where
  "input_read_potgor input =
     (let value = 0xff00;
          value = (if potgo input AND 0x0200 \<noteq> 0 \<and> potgo input AND 0x0100 \<noteq> 0 \<and>
                      pot_button_x input ! 0 \<noteq> 0 then value AND NOT 0x0100 else value);
          value = (if potgo input AND 0x0800 \<noteq> 0 \<and> potgo input AND 0x0400 \<noteq> 0 \<and>
                      pot_button_y input ! 0 \<noteq> 0 then value AND NOT 0x0400 else value);
          value = (if potgo input AND 0x2000 \<noteq> 0 \<and> potgo input AND 0x1000 \<noteq> 0 \<and>
                      pot_button_x input ! 1 \<noteq> 0 then value AND NOT 0x1000 else value);
          value = (if potgo input AND 0x8000 \<noteq> 0 \<and> potgo input AND 0x4000 \<noteq> 0 \<and>
                      pot_button_y input ! 1 \<noteq> 0 then value AND NOT 0x4000 else value)
      in value)"

definition input_write_potgo :: "input_state \<Rightarrow> u16 \<Rightarrow> input_state" where
  "input_write_potgo input value = input\<lparr>potgo := value\<rparr>"

definition input_set_joydat :: "input_state \<Rightarrow> u32 \<Rightarrow> u16 \<Rightarrow> input_state" where
  "input_set_joydat input port value =
     (if port > 1 then input else input\<lparr>joydat := (joydat input)[unat port := value]\<rparr>)"

definition input_set_pot_button_x :: "input_state \<Rightarrow> u32 \<Rightarrow> bool \<Rightarrow> input_state" where
  "input_set_pot_button_x input port pressed =
     (if port > 1 then input
      else input\<lparr>pot_button_x := (pot_button_x input)[unat port := (if pressed then 1 else 0)]\<rparr>)"

definition input_set_pot_button_y :: "input_state \<Rightarrow> u32 \<Rightarrow> bool \<Rightarrow> input_state" where
  "input_set_pot_button_y input port pressed =
     (if port > 1 then input
      else input\<lparr>pot_button_y := (pot_button_y input)[unat port := (if pressed then 1 else 0)]\<rparr>)"

definition rigel_input_domain_owns_reg :: "u32 \<Rightarrow> bool" where
  "rigel_input_domain_owns_reg addr \<longleftrightarrow>
     addr \<in> {RIGEL_REG_JOY0DAT, RIGEL_REG_JOY1DAT, RIGEL_REG_POT0DAT, RIGEL_REG_POT1DAT,
              RIGEL_REG_POTGOR, RIGEL_REG_POTGO}"

definition rigel_input_domain_reset :: input_state where
  "rigel_input_domain_reset = input_reset"

definition rigel_input_domain_read_reg :: "input_state \<Rightarrow> u32 \<Rightarrow> u16" where
  "rigel_input_domain_read_reg input addr =
     (if addr = RIGEL_REG_JOY0DAT then input_read_joydat input 0
      else if addr = RIGEL_REG_JOY1DAT then input_read_joydat input 1
      else if addr = RIGEL_REG_POT0DAT then input_read_potdat input 0
      else if addr = RIGEL_REG_POT1DAT then input_read_potdat input 1
      else if addr = RIGEL_REG_POTGOR then input_read_potgor input
      else 0)"

definition rigel_input_domain_write_reg :: "input_state \<Rightarrow> u32 \<Rightarrow> u16 \<Rightarrow> input_state" where
  "rigel_input_domain_write_reg input addr value =
     (if addr = RIGEL_REG_POTGO then input_write_potgo input value else input)"

section \<open>A bounded queue\<close>

text \<open>
  The contract: \<open>content\<close> lists the queued elements, oldest first; a push to a full queue is
  dropped, and \<open>full\<close> is what the client sees of that.
\<close>

locale bounded_fifo =
  fixes push :: "'s \<Rightarrow> 'a \<Rightarrow> 's"
    and pop :: "'s \<Rightarrow> ('b \<times> 's) option"
    and content :: "'s \<Rightarrow> 'b list"
    and enc :: "'a \<Rightarrow> 'b"
    and invar :: "'s \<Rightarrow> bool"
    and cap :: nat
  assumes push_invar: "invar s \<Longrightarrow> invar (push s a)"
    and push_content: "invar s \<Longrightarrow>
      content (push s a) = (if length (content s) < cap then content s @ [enc a] else content s)"
    and pop_None: "invar s \<Longrightarrow> pop s = None \<longleftrightarrow> content s = []"
    and pop_Some: "invar s \<Longrightarrow> pop s = Some (b, s') \<Longrightarrow> invar s' \<and> content s = b # content s'"
    and content_cap: "invar s \<Longrightarrow> length (content s) \<le> cap"
begin

lemma push_subseq: "invar s \<Longrightarrow> subseq (content s) xs \<Longrightarrow> subseq (content (push s a)) (xs @ [enc a])"
  by (auto simp: push_content intro: list_emb_append_mono)

lemma pop_exhaust:
  assumes "invar s" and "content s = b # bs"
  shows "\<exists>s'. pop s = Some (b, s') \<and> invar s' \<and> content s' = bs"
proof -
  from assms obtain b' s' where p: "pop s = Some (b', s')"
    using pop_None [OF assms(1)] by (cases "pop s") auto
  with pop_Some [OF assms(1) p] assms(2) show ?thesis by auto
qed

end

section \<open>The transmit FIFO\<close>

definition serial_fifo :: "serial_state \<Rightarrow> u8 list" where
  "serial_fifo s = map (\<lambda>i. tx_fifo s ! ((unat (tx_fifo_head s) + i) mod 16)) [0..<unat (tx_fifo_count s)]"

definition serial_fifo_ok :: "serial_state \<Rightarrow> bool" where
  "serial_fifo_ok s \<longleftrightarrow> length (tx_fifo s) = 16 \<and> unat (tx_fifo_head s) < 16 \<and>
     unat (tx_fifo_count s) \<le> 16 \<and>
     unat (tx_fifo_tail s) = (unat (tx_fifo_head s) + unat (tx_fifo_count s)) mod 16"

definition serial_byte :: "u16 \<Rightarrow> u8" where
  "serial_byte w = ucast (w AND 0xff)"

lemma length_serial_fifo [simp]: "length (serial_fifo s) = unat (tx_fifo_count s)"
  by (simp add: serial_fifo_def)

lemma ring_index_distinct: "i < c \<Longrightarrow> c < 16 \<Longrightarrow> (h + c) mod 16 \<noteq> (h + i) mod (16 :: nat)"
proof
  assume "i < c" "c < 16" "(h + c) mod 16 = (h + i) mod 16"
  then have "16 dvd c - i" using mod_eq_dvd_iff_nat [of "h + i" "h + c" 16] by simp
  then show False using \<open>i < c\<close> \<open>c < 16\<close> by (auto dest: dvd_imp_le)
qed

lemma ring_next: "unat p < 16 \<Longrightarrow> unat ((p + 1) mod 16) = (unat p + 1) mod 16" for p :: u32
  by (simp add: unat_mod unat_word_ariths)

lemma fifo_not_full: "tx_fifo_count s \<ge> 16 \<longleftrightarrow> \<not> unat (tx_fifo_count s) < 16"
  by (simp add: word_le_nat_alt not_less)

lemma queue_tx_byte:
  assumes "serial_fifo_ok s"
  shows "serial_fifo_ok (serial_queue_tx_byte s w)"
    and "serial_fifo (serial_queue_tx_byte s w) =
      (if length (serial_fifo s) < 16 then serial_fifo s @ [serial_byte w] else serial_fifo s)"
proof -
  define h c where "h = unat (tx_fifo_head s)" and "c = unat (tx_fifo_count s)"
  have ok: "length (tx_fifo s) = 16" "h < 16" "c \<le> 16" "unat (tx_fifo_tail s) = (h + c) mod 16"
    using assms by (simp_all add: serial_fifo_ok_def h_def c_def)
  have inc: "unat (tx_fifo_count s + 1) = Suc c" if "c < 16"
    using that unat_inc [of "tx_fifo_count s"] by (simp add: c_def)
  have tl: "unat ((tx_fifo_tail s + 1) mod 16) = (h + Suc c) mod 16"
    using ok(4) by (simp add: ring_next mod_Suc_eq)
  show "serial_fifo_ok (serial_queue_tx_byte s w)"
    using ok inc tl assms
    by (auto simp: serial_queue_tx_byte_def serial_fifo_ok_def Let_def fifo_not_full
        simp flip: h_def c_def)
  show "serial_fifo (serial_queue_tx_byte s w) =
      (if length (serial_fifo s) < 16 then serial_fifo s @ [serial_byte w] else serial_fifo s)"
    using ok inc ring_index_distinct [of _ c h]
    by (auto simp: serial_queue_tx_byte_def serial_fifo_def serial_byte_def Let_def fifo_not_full
        nth_list_update simp flip: h_def c_def)
qed

lemma pop_tx_byte:
  assumes "serial_fifo_ok s" and "serial_pop_tx_byte s = Some (b, s')"
  shows "serial_fifo_ok s' \<and> serial_fifo s = b # serial_fifo s'"
proof -
  define h c where "h = unat (tx_fifo_head s)" and "c = unat (tx_fifo_count s)"
  have ok: "length (tx_fifo s) = 16" "h < 16" "c \<le> 16" "unat (tx_fifo_tail s) = (h + c) mod 16"
    using assms by (simp_all add: serial_fifo_ok_def h_def c_def)
  have nz: "tx_fifo_count s \<noteq> 0" using assms(2) by (auto simp: serial_pop_tx_byte_def split: if_splits)
  then obtain k where k: "c = Suc k" by (cases c) (auto simp: c_def unat_eq_zero)
  have dec: "unat (tx_fifo_count s - 1) = k" using nz k by (simp add: unat_dec c_def)
  have hd: "unat ((tx_fifo_head s + 1) mod 16) = (h + 1) mod 16"
    using ok(2) ring_next [of "tx_fifo_head s"] by (simp add: h_def)
  have b: "b = tx_fifo s ! h" and s': "s' = s\<lparr>tx_fifo_head := (tx_fifo_head s + 1) mod 16,
      tx_fifo_count := tx_fifo_count s - 1\<rparr>"
    using assms(2) nz by (auto simp: serial_pop_tx_byte_def h_def)
  have idx: "((h + Suc 0) mod 16 + i) mod 16 = (h + Suc i) mod 16" for i by (simp add: mod_simps)
  have upt: "[0..<c] = 0 # map Suc [0..<k]" by (simp add: k map_Suc_upt upt_conv_Cons)
  have "serial_fifo s = tx_fifo s ! (h mod 16) # map (\<lambda>i. tx_fifo s ! ((h + Suc i) mod 16)) [0..<k]"
    unfolding serial_fifo_def h_def [symmetric] c_def [symmetric] upt by (simp add: o_def)
  moreover have "serial_fifo s' = map (\<lambda>i. tx_fifo s ! ((h + Suc i) mod 16)) [0..<k]"
    by (simp add: s' serial_fifo_def hd dec idx del: add_Suc_right)
  moreover have "serial_fifo_ok s'"
    using ok k by (simp add: s' serial_fifo_ok_def hd dec mod_simps)
  ultimately show ?thesis using b ok(2) by simp
qed

interpretation tx_ring: bounded_fifo serial_queue_tx_byte serial_pop_tx_byte serial_fifo serial_byte
  serial_fifo_ok 16
proof
  fix s a b s'
  assume ok: "serial_fifo_ok s"
  show "serial_fifo_ok (serial_queue_tx_byte s a)" by (rule queue_tx_byte(1) [OF ok])
  show "serial_fifo (serial_queue_tx_byte s a) =
      (if length (serial_fifo s) < 16 then serial_fifo s @ [serial_byte a] else serial_fifo s)"
    by (rule queue_tx_byte(2) [OF ok])
  have "serial_fifo s = [] \<longleftrightarrow> tx_fifo_count s = 0"
    by (metis length_0_conv length_serial_fifo unat_eq_zero)
  then show "(serial_pop_tx_byte s = None) = (serial_fifo s = [])"
    by (simp add: serial_pop_tx_byte_def)
  show "serial_pop_tx_byte s = Some (b, s') \<Longrightarrow> serial_fifo_ok s' \<and> serial_fifo s = b # serial_fifo s'"
    by (rule pop_tx_byte [OF ok])
  show "length (serial_fifo s) \<le> 16" using ok by (simp add: serial_fifo_ok_def)
qed

section \<open>The transmitted stream\<close>

text \<open>
  The operations on the port while the transmit mode stays as it is, with a record of the
  bytes written to SERDAT, the bytes handed to the host, and whether SERDAT was ever written
  while its buffer still held a byte.
\<close>

datatype serial_op = WRITE_SERDAT u16 | WRITE_SERPER u16 | STEP u32 | RECEIVE u8 | CLEAR_RBF | POP

record serial_run =
  run_port :: serial_state
  run_sent :: "u8 list"
  run_got :: "u8 list"
  run_clobbered :: bool

fun serial_do :: "serial_op \<Rightarrow> serial_run \<Rightarrow> serial_run" where
  "serial_do (WRITE_SERDAT v) r =
     r\<lparr>run_port := fst (serial_write_serdat (run_port r) v),
       run_sent := run_sent r @ [serial_byte v],
       run_clobbered := (run_clobbered r \<or> tx_buffer_valid (run_port r))\<rparr>"
| "serial_do (WRITE_SERPER v) r = r\<lparr>run_port := serial_write_serper (run_port r) v\<rparr>"
| "serial_do (STEP n) r = r\<lparr>run_port := fst (serial_step (run_port r) n)\<rparr>"
| "serial_do (RECEIVE b) r = r\<lparr>run_port := fst (serial_receive_byte (run_port r) b)\<rparr>"
| "serial_do CLEAR_RBF r = r\<lparr>run_port := serial_clear_rbf (run_port r)\<rparr>"
| "serial_do POP r = (case serial_pop_tx_byte (run_port r) of None \<Rightarrow> r
     | Some (b, s) \<Rightarrow> r\<lparr>run_port := s, run_got := run_got r @ [b]\<rparr>)"

text \<open>The bytes still on their way: in the shift register and in the transmit buffer.\<close>

definition serial_pending :: "serial_state \<Rightarrow> u8 list" where
  "serial_pending s =
     (if tx_shift_busy s then [serial_byte (tx_shift_reg s)] else []) @
     (if tx_buffer_valid s then [serial_byte (tx_buffer s)] else [])"

definition serial_stream :: "serial_run \<Rightarrow> u8 list" where
  "serial_stream r = run_got r @ serial_fifo (run_port r) @ serial_pending (run_port r)"

definition serial_run_ok :: "serial_run \<Rightarrow> bool" where
  "serial_run_ok r \<longleftrightarrow> serial_fifo_ok (run_port r) \<and>
     (tx_instant (run_port r) \<longrightarrow> \<not> tx_shift_busy (run_port r) \<and> \<not> tx_buffer_valid (run_port r)) \<and>
     subseq (serial_stream r) (run_sent r) \<and>
     (\<not> run_clobbered r \<and> \<not> tx_overflow (run_port r) \<longrightarrow> serial_stream r = run_sent r)"

lemma queue_tx_byte_sel [simp]:
  "tx_instant (serial_queue_tx_byte s w) = tx_instant s"
  "tx_shift_busy (serial_queue_tx_byte s w) = tx_shift_busy s"
  "tx_shift_reg (serial_queue_tx_byte s w) = tx_shift_reg s"
  "tx_buffer (serial_queue_tx_byte s w) = tx_buffer s"
  "tx_buffer_valid (serial_queue_tx_byte s w) = tx_buffer_valid s"
  "tx_overflow (serial_queue_tx_byte s w) = (tx_overflow s \<or> \<not> length (serial_fifo s) < 16)"
  by (auto simp: serial_queue_tx_byte_def Let_def fifo_not_full)

lemma fifo_other_fields [simp]:
  "serial_fifo (s\<lparr>tx_buffer := x\<rparr>) = serial_fifo s" "serial_fifo_ok (s\<lparr>tx_buffer := x\<rparr>) = serial_fifo_ok s"
  "serial_fifo (s\<lparr>tx_buffer_valid := b\<rparr>) = serial_fifo s"
  "serial_fifo_ok (s\<lparr>tx_buffer_valid := b\<rparr>) = serial_fifo_ok s"
  "serial_fifo (s\<lparr>tx_shift_reg := x\<rparr>) = serial_fifo s" "serial_fifo_ok (s\<lparr>tx_shift_reg := x\<rparr>) = serial_fifo_ok s"
  "serial_fifo (s\<lparr>tx_shift_busy := b\<rparr>) = serial_fifo s"
  "serial_fifo_ok (s\<lparr>tx_shift_busy := b\<rparr>) = serial_fifo_ok s"
  "serial_fifo (s\<lparr>tx_cycles_remaining := n\<rparr>) = serial_fifo s"
  "serial_fifo_ok (s\<lparr>tx_cycles_remaining := n\<rparr>) = serial_fifo_ok s"
  by (simp_all add: serial_fifo_def serial_fifo_ok_def)

text \<open>Starting the shift register moves the buffered byte, and changes nothing in the stream.\<close>

lemma start_tx_shift_stream:
  assumes "\<not> tx_instant s"
  defines "s' \<equiv> fst (serial_start_tx_shift s)"
  shows "serial_fifo s' = serial_fifo s" "serial_fifo_ok s' = serial_fifo_ok s"
    "serial_pending s' = serial_pending s" "tx_overflow s' = tx_overflow s" "tx_instant s' = tx_instant s"
  using assms by (auto simp: serial_start_tx_shift_def Let_def serial_pending_def)

lemma subseq_drop_mid: "subseq (A @ x # B) S \<Longrightarrow> subseq (A @ B) S"
  by (erule subseq_order.trans [rotated]) (intro list_emb_append_mono subseq_order.refl list_emb_Cons)

lemma subseq_drop_last: "subseq (A @ [x]) S \<Longrightarrow> subseq A S"
  using subseq_drop_mid [of A x "[]" S] by simp

lemma subseq_snoc: "subseq A S \<Longrightarrow> subseq (A @ [x]) (S @ [x])"
  by (intro list_emb_append_mono subseq_order.refl)

text \<open>Completing a byte: it moves from the shift register to the FIFO, or is dropped by a full one.\<close>

lemma serial_step_stream:
  fixes s :: serial_state and n :: u32
  assumes "serial_fifo_ok s" and "\<not> tx_instant s"
  defines "s' \<equiv> fst (serial_step s n)"
  shows "serial_fifo_ok s' \<and> \<not> tx_instant s' \<and>
    (serial_fifo s' @ serial_pending s' = serial_fifo s @ serial_pending s \<and>
       tx_overflow s' = tx_overflow s \<or>
     (\<exists>x. serial_pending s = x # serial_pending s' \<and> serial_fifo s' = serial_fifo s \<and> tx_overflow s'))"
proof (cases "tx_shift_busy s \<and> \<not> n < tx_cycles_remaining s")
  case False
  have pend: "serial_pending (s\<lparr>tx_cycles_remaining := k\<rparr>) = serial_pending s" for k
    by (simp add: serial_pending_def)
  have "s' = (if tx_shift_busy s then s\<lparr>tx_cycles_remaining := tx_cycles_remaining s - n\<rparr>
      else if tx_buffer_valid s then fst (serial_start_tx_shift s) else s)"
    using False by (simp add: s'_def serial_step_def)
  then show ?thesis
    using assms(1,2) start_tx_shift_stream [OF assms(2)] pend by simp
next
  case True
  define t where "t = serial_queue_tx_byte
    (s\<lparr>tx_cycles_remaining := 0, tx_shift_busy := False, tx_shift_reg := 0\<rparr>) (tx_shift_reg s)"
  have s': "s' = (if tx_buffer_valid t then fst (serial_start_tx_shift t) else t)"
    using True assms(2) by (auto simp: s'_def serial_step_def t_def Let_def)
  have t: "\<not> tx_instant t" "serial_fifo_ok t" "tx_overflow t = (tx_overflow s \<or> \<not> length (serial_fifo s) < 16)"
    "serial_fifo t = (if length (serial_fifo s) < 16
       then serial_fifo s @ [serial_byte (tx_shift_reg s)] else serial_fifo s)"
    "serial_pending s = serial_byte (tx_shift_reg s) # serial_pending t"
    using assms(1,2) True
    by (simp_all add: t_def tx_ring.push_invar tx_ring.push_content serial_pending_def del: length_serial_fifo)
  have "serial_fifo s' = serial_fifo t" "serial_fifo_ok s'" "serial_pending s' = serial_pending t"
    "tx_overflow s' = tx_overflow t" "\<not> tx_instant s'"
    using start_tx_shift_stream [OF t(1)] t(1,2) by (auto simp: s')
  then show ?thesis using t by auto
qed

lemma serial_run_ok_do:
  assumes "serial_run_ok r"
  shows "serial_run_ok (serial_do op r)"
proof (cases op)
  case (WRITE_SERDAT v)
  show ?thesis
  proof (cases "tx_instant (run_port r)")
    case True
    then show ?thesis
      using assms WRITE_SERDAT
        tx_ring.push_content [of "run_port r" v] tx_ring.push_invar [of "run_port r" v]
        subseq_snoc [of "serial_stream r" "run_sent r" "serial_byte v"]
        subseq_drop_last [of "serial_stream r" "serial_byte v" "run_sent r @ [serial_byte v]"]
      by (auto simp: serial_run_ok_def serial_stream_def serial_write_serdat_def Let_def
          serial_pending_def)
  next
    case False
    define s where "s = run_port r"
    define t where "t = s\<lparr>tx_buffer := v, tx_buffer_valid := True\<rparr>"
    define base where "base = run_got r @ serial_fifo s @
      (if tx_shift_busy s then [serial_byte (tx_shift_reg s)] else [])"
    have st: "fst (serial_write_serdat s v) = (if tx_shift_busy s then t else fst (serial_start_tx_shift t))"
      using False by (simp add: serial_write_serdat_def s_def t_def Let_def)
    have t: "\<not> tx_instant t" "serial_fifo t = serial_fifo s" "serial_fifo_ok t = serial_fifo_ok s"
      "tx_overflow t = tx_overflow s"
      using False by (simp_all add: t_def s_def)
    have pt: "serial_pending t =
        (if tx_shift_busy s then [serial_byte (tx_shift_reg s)] else []) @ [serial_byte v]"
      by (simp add: serial_pending_def t_def)
    have "serial_pending (fst (serial_write_serdat s v)) = serial_pending t"
      "serial_fifo (fst (serial_write_serdat s v)) = serial_fifo s"
      using st start_tx_shift_stream [OF t(1)] t(2) by simp_all
    then have new: "serial_stream (serial_do op r) = base @ [serial_byte v]"
      using WRITE_SERDAT pt by (simp add: serial_stream_def base_def flip: s_def)
    have old: "serial_stream r = base @ (if tx_buffer_valid s then [serial_byte (tx_buffer s)] else [])"
      by (simp add: serial_stream_def base_def serial_pending_def s_def)
    have "subseq base (run_sent r)"
      using assms subseq_drop_last [of base _ "run_sent r"] old
      by (auto simp: serial_run_ok_def split: if_splits)
    then show ?thesis
      using assms WRITE_SERDAT new old st t start_tx_shift_stream [OF t(1)] subseq_snoc [of base "run_sent r"] False
      by (auto simp: serial_run_ok_def s_def)
  qed
next
  case (STEP n)
  show ?thesis
  proof (cases "tx_instant (run_port r)")
    case True
    then show ?thesis using assms STEP by (simp add: serial_run_ok_def serial_step_def serial_stream_def)
  next
    case False
    define s s' where "s = run_port r" and "s' = fst (serial_step (run_port r) n)"
    have ok: "serial_fifo_ok s" using assms by (simp add: serial_run_ok_def s_def)
    have "\<not> tx_instant s" using False by (simp add: s_def)
    note st = serial_step_stream [OF ok this, of n, folded s_def]
    have sub: "subseq (run_got r @ serial_fifo s @ serial_pending s) (run_sent r)"
      using assms by (simp add: serial_run_ok_def serial_stream_def s_def)
    have sub': "subseq (run_got r @ serial_fifo s' @ serial_pending s') (run_sent r)"
      using st sub subseq_drop_mid [of "run_got r @ serial_fifo s" _ "serial_pending s'" "run_sent r"]
      by (auto simp: s'_def s_def)
    then show ?thesis
      using st assms STEP by (auto simp: serial_run_ok_def serial_stream_def s_def s'_def)
  qed
next
  case POP
  then show ?thesis
    using assms pop_tx_byte [of "run_port r"]
    by (auto simp: serial_run_ok_def serial_stream_def serial_pop_tx_byte_def serial_pending_def
        split: option.splits)
qed (use assms in \<open>auto simp: serial_run_ok_def serial_stream_def serial_write_serper_def
      serial_receive_byte_def serial_clear_rbf_def serial_pending_def Let_def serial_fifo_def
      serial_fifo_ok_def\<close>)

lemma serial_run_ok_run: "serial_run_ok r \<Longrightarrow> serial_run_ok (fold serial_do ops r)"
  by (induction ops arbitrary: r) (auto intro: serial_run_ok_do)

text \<open>
  C20: The serial transmitter is a FIFO: whatever the interleaving of register writes, clock
  steps, receptions and host reads, the bytes handed to the host followed by those queued and
  in flight are the bytes written to SERDAT in their order, none repeated; and none is missing
  unless SERDAT was written over an untransmitted byte or the overflow flag is set.
\<close>

theorem serial_transmit_fifo:
  assumes "length (tx_fifo s) = 16"
  shows "let r = fold serial_do ops
           \<lparr>run_port = serial_set_tx_instant (serial_reset s) inst, run_sent = [], run_got = [],
            run_clobbered = False\<rparr>
    in subseq (serial_stream r) (run_sent r) \<and>
       (run_clobbered r \<or> tx_overflow (run_port r) \<or> serial_stream r = run_sent r) \<and>
       length (serial_fifo (run_port r)) \<le> 16"
proof -
  let ?r = "\<lparr>run_port = serial_set_tx_instant (serial_reset s) inst, run_sent = [], run_got = [],
            run_clobbered = False\<rparr>"
  have "serial_run_ok ?r"
    using assms by (simp add: serial_run_ok_def serial_set_tx_instant_def serial_reset_def
        serial_stream_def serial_fifo_def serial_fifo_ok_def serial_pending_def)
  from serial_run_ok_run [OF this, of ops] show ?thesis
    by (auto simp: serial_run_ok_def serial_fifo_ok_def Let_def)
qed

definition serial_zero :: serial_state where
  "serial_zero = \<lparr>se_irq = True, serper = 0, tx_buffer = 0, tx_buffer_valid = False, tx_shift_reg = 0,
     tx_shift_busy = False, tx_cycles_remaining = 0, rx_buffer = 0, rx_buffer_full = False,
     overrun = False, rxd_level = False, tx_instant = False, tx_fifo = replicate 16 0,
     tx_fifo_head = 0, tx_fifo_tail = 0, tx_fifo_count = 0, tx_overflow = False\<rparr>"

theorem serial_transmit_fifo_witness:
  "let r = fold serial_do [WRITE_SERDAT 0x141, WRITE_SERDAT 0x142, STEP 10, POP]
           \<lparr>run_port = serial_set_tx_instant (serial_reset serial_zero) False, run_sent = [],
            run_got = [], run_clobbered = False\<rparr>
   in \<not> run_clobbered r \<and> \<not> tx_overflow (run_port r) \<and> serial_stream r = [0x41, 0x42]"
proof -
  define r where "r = fold serial_do [WRITE_SERDAT 0x141, WRITE_SERDAT 0x142, STEP 10, POP]
           \<lparr>run_port = serial_set_tx_instant (serial_reset serial_zero) False, run_sent = [],
            run_got = [], run_clobbered = False\<rparr>"
  have "length (tx_fifo serial_zero) = 16" by (simp add: serial_zero_def)
  from serial_transmit_fifo [OF this, of "[WRITE_SERDAT 0x141, WRITE_SERDAT 0x142, STEP 10, POP]" False]
  have "run_clobbered r \<or> tx_overflow (run_port r) \<or> serial_stream r = run_sent r"
    by (simp only: Let_def r_def)
  moreover have "\<not> run_clobbered r" "\<not> tx_overflow (run_port r)" "run_sent r = [0x41, 0x42]"
    by (simp_all add: r_def serial_set_tx_instant_def serial_reset_def serial_zero_def
        serial_write_serdat_def serial_start_tx_shift_def serial_frame_cycles_def
        serial_cycles_per_bit_def serial_step_def serial_pop_tx_byte_def serial_queue_tx_byte_def
        serial_byte_def Let_def)
  ultimately show ?thesis unfolding r_def [symmetric] Let_def by simp
qed

end
