(* ===== verification/Rtc.thy ===== *)
theory Rtc
  imports Rigel_Prelude "HOL-Library.Signed_Division"
begin

text \<open>
  The battery-backed clock, \<^verbatim>\<open>src/rtc/rtc.c\<close>: the OKI and Ricoh register layouts, the
  conversion between calendar time and BCD registers, and register access.

  The host's clock is outside the repository.  Its callbacks are a record of optional
  functions, and the C library functions of a hosted build are another; \<open>now\<close> threads the
  state \<open>'h\<close> of the host, since two calls may return different times.  \<^verbatim>\<open>time_t\<close> and the
  fields of \<^verbatim>\<open>struct tm\<close> are integers; C division and remainder are those of
  \<open>HOL-Library.Signed_Division\<close>.  \<^verbatim>\<open>assert(nr < 16)\<close> is the case \<^term>\<open>None\<close> of register
  access.
\<close>

unbundle bit_operations_syntax

section \<open>Calendar and host\<close>

record tm =
  tm_sec :: int
  tm_min :: int
  tm_hour :: int
  tm_mday :: int
  tm_mon :: int
  tm_year :: int
  tm_wday :: int
  tm_yday :: int
  tm_isdst :: int

datatype rigel_rtc_model = RIGEL_RTC_MODEL_NONE | RIGEL_RTC_MODEL_OKI | RIGEL_RTC_MODEL_RICOH

record 'h rigel_rtc_host =
  host_now :: "('h \<Rightarrow> int \<times> 'h) option"
  host_to_calendar :: "(int \<Rightarrow> tm option) option"
  host_from_calendar :: "(tm \<Rightarrow> int option) option"

text \<open>The C library, when the build uses it (\<^verbatim>\<open>RIGEL_ENABLE_HOSTED_RTC\<close>).\<close>

record 'h rtc_libc =
  libc_time :: "'h \<Rightarrow> int \<times> 'h"
  libc_localtime :: "int \<Rightarrow> tm option"
  libc_mktime :: "tm \<Rightarrow> int"

record 'h RigelRTC =
  rtc_model :: rigel_rtc_model
  rtc_reg :: "u8 list list"
  rtc_time_offset :: int
  rtc_host :: "'h rigel_rtc_host"

definition rtc_regget :: "'h RigelRTC \<Rightarrow> nat \<Rightarrow> nat \<Rightarrow> u8" where
  "rtc_regget rtc bank n = rtc_reg rtc ! bank ! n"

definition rtc_regset :: "nat \<Rightarrow> nat \<Rightarrow> u8 \<Rightarrow> 'h RigelRTC \<Rightarrow> 'h RigelRTC" where
  "rtc_regset bank n v rtc = rtc\<lparr>rtc_reg := (rtc_reg rtc)[bank := (rtc_reg rtc ! bank)[n := v]]\<rparr>"

section \<open>Helpers\<close>

definition rtc_nibble :: "u8 \<Rightarrow> u8" where
  "rtc_nibble v = v AND 0x0f"

definition rtc_bcd_lo :: "int \<Rightarrow> u8" where
  "rtc_bcd_lo v = word_of_int (v smod 10)"

definition rtc_bcd_hi :: "int \<Rightarrow> u8" where
  "rtc_bcd_hi v = word_of_int (v sdiv 10)"

definition rtc_from_bcd :: "u8 \<Rightarrow> u8 \<Rightarrow> int" where
  "rtc_from_bcd lo hi = uint (rtc_nibble lo) + 10 * uint (rtc_nibble hi)"

definition rtc_host_now :: "'h rtc_libc option \<Rightarrow> 'h RigelRTC \<Rightarrow> 'h \<Rightarrow> int \<times> 'h" where
  "rtc_host_now libc rtc h =
     (case host_now (rtc_host rtc) of Some f \<Rightarrow> f h
      | None \<Rightarrow> (case libc of Some c \<Rightarrow> libc_time c h | None \<Rightarrow> (0, h)))"

definition rtc_host_to_calendar :: "'h rtc_libc option \<Rightarrow> 'h RigelRTC \<Rightarrow> int \<Rightarrow> tm option" where
  "rtc_host_to_calendar libc rtc value =
     (case host_to_calendar (rtc_host rtc) of Some f \<Rightarrow> f value
      | None \<Rightarrow> (case libc of Some c \<Rightarrow> libc_localtime c value | None \<Rightarrow> None))"

definition rtc_host_from_calendar :: "'h rtc_libc option \<Rightarrow> 'h RigelRTC \<Rightarrow> tm \<Rightarrow> int option" where
  "rtc_host_from_calendar libc rtc calendar =
     (case host_from_calendar (rtc_host rtc) of Some f \<Rightarrow> f calendar
      | None \<Rightarrow> (case libc of
                   Some c \<Rightarrow> if libc_mktime c calendar \<noteq> -1 then Some (libc_mktime c calendar) else None
                 | None \<Rightarrow> None))"

definition rtc_bank_internal :: "'h RigelRTC \<Rightarrow> u8" where
  "rtc_bank_internal rtc = rtc_regget rtc 0 0xd AND 0x03"

definition rtc_current_bank :: "'h RigelRTC \<Rightarrow> u8" where
  "rtc_current_bank rtc = rtc_bank_internal rtc"

definition rtc_apply_model_defaults :: "'h RigelRTC \<Rightarrow> 'h RigelRTC" where
  "rtc_apply_model_defaults rtc =
     (let rtc = rtc\<lparr>rtc_reg := replicate 4 (replicate 16 0)\<rparr>
      in case rtc_model rtc of
           RIGEL_RTC_MODEL_OKI \<Rightarrow> rtc_regset 0 0xf 0x4 (rtc_regset 0 0xe 0x0 (rtc_regset 0 0xd 0x1 rtc))
         | RIGEL_RTC_MODEL_RICOH \<Rightarrow> rtc_regset 0 0xf 0x0 (rtc_regset 0 0xe 0x0 (rtc_regset 0 0xd 0x8 rtc))
         | RIGEL_RTC_MODEL_NONE \<Rightarrow> rtc)"

section \<open>Calendar to registers\<close>

text \<open>The twelve-hour clock: the hour digits and the PM flag.\<close>

definition rtc_hour12 :: "int \<Rightarrow> int \<times> bool" where
  "rtc_hour12 hour =
     (if hour = 0 then (12, False) else if hour = 12 then (hour, True)
      else if hour > 12 then (hour - 12, True) else (hour, False))"

definition rtc_hour24 :: "int \<Rightarrow> bool \<Rightarrow> int" where
  "rtc_hour24 hour pm =
     (if hour = 12 then (if pm then 12 else 0) else if pm then hour + 12 else hour)"

definition rtc_time_to_regs_oki :: "tm \<Rightarrow> 'h RigelRTC \<Rightarrow> 'h RigelRTC" where
  "rtc_time_to_regs_oki t rtc =
     (let is_24h = (rtc_regget rtc 0 0xf AND 0x4 \<noteq> 0);
          rtc = rtc_regset 0 0x0 (rtc_bcd_lo (tm_sec t)) rtc;
          rtc = rtc_regset 0 0x1 (rtc_bcd_hi (tm_sec t)) rtc;
          rtc = rtc_regset 0 0x2 (rtc_bcd_lo (tm_min t)) rtc;
          rtc = rtc_regset 0 0x3 (rtc_bcd_hi (tm_min t)) rtc;
          (hour, pm) = (if \<not> is_24h then rtc_hour12 (tm_hour t) else (tm_hour t, False));
          rtc = rtc_regset 0 0x4 (rtc_bcd_lo hour) rtc;
          rtc = rtc_regset 0 0x5 (rtc_bcd_hi hour) rtc;
          rtc = (if \<not> is_24h \<and> pm then rtc_regset 0 0x5 (rtc_regget rtc 0 0x5 OR 0x4) rtc else rtc);
          rtc = rtc_regset 0 0x6 (rtc_bcd_lo (tm_mday t)) rtc;
          rtc = rtc_regset 0 0x7 (rtc_bcd_hi (tm_mday t)) rtc;
          rtc = rtc_regset 0 0x8 (rtc_bcd_lo (tm_mon t + 1)) rtc;
          rtc = rtc_regset 0 0x9 (rtc_bcd_hi (tm_mon t + 1)) rtc;
          rtc = rtc_regset 0 0xa (rtc_bcd_lo (tm_year t smod 100)) rtc;
          rtc = rtc_regset 0 0xb (rtc_bcd_hi (tm_year t smod 100)) rtc
      in rtc_regset 0 0xc (word_of_int (tm_wday t AND 0x0f)) rtc)"

definition rtc_trim_alarm :: "'h RigelRTC \<Rightarrow> 'h RigelRTC" where
  "rtc_trim_alarm rtc =
     fold (\<lambda>(n, m) rtc. rtc_regset 1 n (rtc_regget rtc 1 n AND m) rtc)
       [(0x0, 0x0), (0x1, 0x0), (0x2, 0xf), (0x3, 0x7), (0x4, 0xf), (0x5, 0x3), (0x6, 0x7),
        (0x7, 0xf), (0x8, 0x3), (0x9, 0x0), (0xa, 0x1), (0xb, 0x3), (0xc, 0x0)] rtc"

definition rtc_time_to_regs_ricoh :: "tm \<Rightarrow> 'h RigelRTC \<Rightarrow> 'h RigelRTC" where
  "rtc_time_to_regs_ricoh t rtc =
     (let is_24h = (rtc_regget rtc 0 0xa AND 0x1 \<noteq> 0);
          rtc = rtc_regset 0 0x0 (rtc_bcd_lo (tm_sec t)) rtc;
          rtc = rtc_regset 0 0x1 (rtc_bcd_hi (tm_sec t)) rtc;
          rtc = rtc_regset 0 0x2 (rtc_bcd_lo (tm_min t)) rtc;
          rtc = rtc_regset 0 0x3 (rtc_bcd_hi (tm_min t)) rtc;
          (hour, pm) = (if \<not> is_24h then rtc_hour12 (tm_hour t) else (tm_hour t, False));
          rtc = rtc_regset 0 0x4 (rtc_bcd_lo hour) rtc;
          rtc = rtc_regset 0 0x5 (rtc_bcd_hi hour) rtc;
          rtc = (if \<not> is_24h \<and> pm then rtc_regset 0 0x5 (rtc_regget rtc 0 0x5 OR 0x2) rtc else rtc);
          rtc = rtc_regset 0 0x6 (word_of_int ((tm_yday t sdiv 7) AND 0x0f)) rtc;
          rtc = rtc_regset 0 0x7 (rtc_bcd_lo (tm_mday t)) rtc;
          rtc = rtc_regset 0 0x8 (rtc_bcd_hi (tm_mday t)) rtc;
          rtc = rtc_regset 0 0x9 (rtc_bcd_lo (tm_mon t + 1)) rtc;
          rtc = rtc_regset 0 0xa ((rtc_regget rtc 0 0xa AND 0x1) OR
                  push_bit 1 (rtc_bcd_hi (tm_mon t + 1))) rtc;
          rtc = rtc_regset 0 0xb (rtc_bcd_lo (tm_year t smod 100)) rtc;
          rtc = rtc_regset 0 0xc (rtc_bcd_hi (tm_year t smod 100)) rtc;
          rtc = rtc_regset 0 0xa (rtc_regget rtc 0 0xa AND 0x03) rtc
      in rtc_trim_alarm rtc)"

section \<open>Registers to calendar\<close>

definition rtc_regs_to_time_oki :: "'h RigelRTC \<Rightarrow> tm" where
  "rtc_regs_to_time_oki rtc =
     (let hour = rtc_from_bcd (rtc_regget rtc 0 0x4) (rtc_regget rtc 0 0x5 AND 0x3);
          is_24h = (rtc_regget rtc 0 0xf AND 0x4 \<noteq> 0);
          pm = (rtc_regget rtc 0 0x5 AND 0x4 \<noteq> 0);
          year = rtc_from_bcd (rtc_regget rtc 0 0xa) (rtc_regget rtc 0 0xb)
      in \<lparr>tm_sec = rtc_from_bcd (rtc_regget rtc 0 0x0) (rtc_regget rtc 0 0x1),
          tm_min = rtc_from_bcd (rtc_regget rtc 0 0x2) (rtc_regget rtc 0 0x3),
          tm_hour = (if \<not> is_24h then rtc_hour24 hour pm else hour),
          tm_mday = rtc_from_bcd (rtc_regget rtc 0 0x6) (rtc_regget rtc 0 0x7),
          tm_mon = rtc_from_bcd (rtc_regget rtc 0 0x8) (rtc_regget rtc 0 0x9) - 1,
          tm_year = year + (if year < 70 then 100 else 0),
          tm_wday = 0, tm_yday = 0, tm_isdst = 0\<rparr>)"

definition rtc_regs_to_time_ricoh :: "'h RigelRTC \<Rightarrow> tm" where
  "rtc_regs_to_time_ricoh rtc =
     (let hour = rtc_from_bcd (rtc_regget rtc 0 0x4) (rtc_regget rtc 0 0x5 AND 0x1);
          is_24h = (rtc_regget rtc 0 0xa AND 0x1 \<noteq> 0);
          pm = (rtc_regget rtc 0 0x5 AND 0x2 \<noteq> 0);
          mon_hi = uint (drop_bit 1 (rtc_regget rtc 0 0xa) AND 0x1);
          year = rtc_from_bcd (rtc_regget rtc 0 0xb) (rtc_regget rtc 0 0xc)
      in \<lparr>tm_sec = rtc_from_bcd (rtc_regget rtc 0 0x0) (rtc_regget rtc 0 0x1),
          tm_min = rtc_from_bcd (rtc_regget rtc 0 0x2) (rtc_regget rtc 0 0x3),
          tm_hour = (if \<not> is_24h then rtc_hour24 hour pm else hour),
          tm_mday = rtc_from_bcd (rtc_regget rtc 0 0x7) (rtc_regget rtc 0 0x8),
          tm_mon = (uint (rtc_nibble (rtc_regget rtc 0 0x9)) + 10 * mon_hi) - 1,
          tm_year = year + (if year < 70 then 100 else 0),
          tm_wday = 0, tm_yday = 0, tm_isdst = 0\<rparr>)"

section \<open>Time and register access\<close>

definition rtc_get_time :: "'h rtc_libc option \<Rightarrow> 'h RigelRTC \<Rightarrow> 'h \<Rightarrow> int \<times> 'h" where
  "rtc_get_time libc rtc h =
     (let (now, h) = rtc_host_now libc rtc h
      in (if rtc_model rtc = RIGEL_RTC_MODEL_NONE then now else now + rtc_time_offset rtc, h))"

definition rtc_set_time :: "'h rtc_libc option \<Rightarrow> int \<Rightarrow> 'h RigelRTC \<times> 'h \<Rightarrow> 'h RigelRTC \<times> 'h" where
  "rtc_set_time libc t s =
     (let (rtc, h) = s; (now, h) = rtc_host_now libc rtc h
      in (rtc\<lparr>rtc_time_offset := t - now\<rparr>, h))"

definition rtc_time_to_regs :: "'h rtc_libc option \<Rightarrow> 'h RigelRTC \<times> 'h \<Rightarrow> 'h RigelRTC \<times> 'h" where
  "rtc_time_to_regs libc s =
     (let (rtc, h) = s in
      if rtc_model rtc = RIGEL_RTC_MODEL_NONE then (rtc, h)
      else
        let (now, h) = rtc_get_time libc rtc h
        in case rtc_host_to_calendar libc rtc now of None \<Rightarrow> (rtc, h)
           | Some t \<Rightarrow>
               (case rtc_model rtc of
                  RIGEL_RTC_MODEL_OKI \<Rightarrow> (rtc_time_to_regs_oki t rtc, h)
                | RIGEL_RTC_MODEL_RICOH \<Rightarrow> (rtc_time_to_regs_ricoh t rtc, h)
                | RIGEL_RTC_MODEL_NONE \<Rightarrow> (rtc, h)))"

definition rtc_update :: "'h rtc_libc option \<Rightarrow> 'h RigelRTC \<times> 'h \<Rightarrow> 'h RigelRTC \<times> 'h" where
  "rtc_update libc s = rtc_time_to_regs libc s"

definition rtc_regs_to_time :: "'h rtc_libc option \<Rightarrow> 'h RigelRTC \<times> 'h \<Rightarrow> 'h RigelRTC \<times> 'h" where
  "rtc_regs_to_time libc s =
     (let (rtc, h) = s in
      case (case rtc_model rtc of
              RIGEL_RTC_MODEL_NONE \<Rightarrow> None
            | RIGEL_RTC_MODEL_OKI \<Rightarrow> Some (rtc_regs_to_time_oki rtc)
            | RIGEL_RTC_MODEL_RICOH \<Rightarrow> Some (rtc_regs_to_time_ricoh rtc)) of
        None \<Rightarrow> (rtc, h)
      | Some t \<Rightarrow>
          (case rtc_host_from_calendar libc rtc t of
             Some new_time \<Rightarrow> rtc_set_time libc new_time (rtc, h)
           | None \<Rightarrow> (rtc, h)))"

definition rtc_read_special :: "'h RigelRTC \<Rightarrow> nat \<Rightarrow> u8" where
  "rtc_read_special rtc nr = rtc_nibble (rtc_regget rtc 0 nr)"

definition rtc_write_special :: "nat \<Rightarrow> u8 \<Rightarrow> 'h RigelRTC \<Rightarrow> 'h RigelRTC" where
  "rtc_write_special nr value rtc = rtc_regset 0 nr (rtc_nibble value) rtc"

definition rtc_null_host :: "'h rigel_rtc_host" where
  "rtc_null_host = \<lparr>host_now = None, host_to_calendar = None, host_from_calendar = None\<rparr>"

definition rtc_init :: "'h rtc_libc option \<Rightarrow> rigel_rtc_model \<Rightarrow> 'h \<Rightarrow> 'h RigelRTC \<times> 'h" where
  "rtc_init libc model h =
     rtc_update libc
       (rtc_apply_model_defaults \<lparr>rtc_model = model, rtc_reg = replicate 4 (replicate 16 0),
          rtc_time_offset = 0, rtc_host = rtc_null_host\<rparr>, h)"

definition rtc_reset :: "'h rtc_libc option \<Rightarrow> 'h RigelRTC \<times> 'h \<Rightarrow> 'h RigelRTC \<times> 'h" where
  "rtc_reset libc s =
     (let (rtc, h) = s in
      rtc_update libc
        (rtc_apply_model_defaults \<lparr>rtc_model = rtc_model rtc, rtc_reg = replicate 4 (replicate 16 0),
           rtc_time_offset = rtc_time_offset rtc, rtc_host = rtc_host rtc\<rparr>, h))"

definition rtc_set_host :: "'h RigelRTC \<Rightarrow> 'h rigel_rtc_host option \<Rightarrow> 'h RigelRTC" where
  "rtc_set_host rtc host =
     (case host of Some f \<Rightarrow> rtc\<lparr>rtc_host := f\<rparr> | None \<Rightarrow> rtc\<lparr>rtc_host := rtc_null_host\<rparr>)"

definition rtc_set_model ::
    "'h rtc_libc option \<Rightarrow> rigel_rtc_model \<Rightarrow> 'h RigelRTC \<times> 'h \<Rightarrow> 'h RigelRTC \<times> 'h" where
  "rtc_set_model libc model s =
     (let (rtc, h) = s in
      rtc_update libc (rtc_apply_model_defaults (rtc\<lparr>rtc_model := model\<rparr>), h))"

definition rtc_get_model :: "'h RigelRTC \<Rightarrow> rigel_rtc_model" where
  "rtc_get_model rtc = rtc_model rtc"

definition rtc_read_reg ::
    "'h rtc_libc option \<Rightarrow> u8 \<Rightarrow> 'h RigelRTC \<times> 'h \<Rightarrow> (u8 \<times> 'h RigelRTC \<times> 'h) option" where
  "rtc_read_reg libc nr s =
     (if \<not> nr < 16 then None
      else if rtc_model (fst s) = RIGEL_RTC_MODEL_NONE then Some (0x0, s)
      else
        let s = rtc_update libc s; rtc = fst s
        in if nr = 0xd \<or> nr = 0xe \<or> nr = 0xf then Some (rtc_read_special rtc (unat nr), s)
           else Some (rtc_nibble (rtc_regget rtc (unat (rtc_bank_internal rtc)) (unat nr)), s))"

definition rtc_write_reg ::
    "'h rtc_libc option \<Rightarrow> u8 \<Rightarrow> u8 \<Rightarrow> 'h RigelRTC \<times> 'h \<Rightarrow> ('h RigelRTC \<times> 'h) option" where
  "rtc_write_reg libc nr value s =
     (if \<not> nr < 16 then None
      else if rtc_model (fst s) = RIGEL_RTC_MODEL_NONE then Some s
      else
        let nibble = rtc_nibble value
        in if nr = 0xd \<or> nr = 0xe \<or> nr = 0xf
           then Some (rtc_write_special (unat nr) nibble (fst s), snd s)
           else
             let (rtc, h) = rtc_update libc s;
                 bank = rtc_bank_internal rtc;
                 rtc = rtc_regset (unat bank) (unat nr) nibble rtc
             in if bank = 0 then Some (rtc_regs_to_time libc (rtc, h)) else Some (rtc, h))"

section \<open>BCD digits\<close>

lemma smod_nonneg: "0 \<le> v \<Longrightarrow> 0 < n \<Longrightarrow> v smod n = v mod n" for v n :: int
  by (simp add: signed_modulo_int_def signed_divide_int_def minus_div_mult_eq_mod [symmetric] sgn_if)

lemma sdiv_nonneg: "0 \<le> v \<Longrightarrow> 0 < n \<Longrightarrow> v sdiv n = v div n" for v n :: int
  by (simp add: signed_divide_int_def sgn_if)

lemma uint_small: "0 \<le> k \<Longrightarrow> k < 256 \<Longrightarrow> uint (word_of_int k :: u8) = k"
  by (simp add: take_bit_int_eq_self uint_word_of_int_eq)

lemma nibble_small: "0 \<le> k \<Longrightarrow> k < 16 \<Longrightarrow> uint (rtc_nibble (word_of_int k)) = k"
proof -
  assume k: "0 \<le> k" "k < 16"
  have "rtc_nibble (word_of_int k) = take_bit 4 (word_of_int k)"
    by (simp add: rtc_nibble_def take_bit_eq_mask mask_eq_exp_minus_1)
  also have "uint \<dots> = take_bit 4 (uint (word_of_int k :: u8))" by (simp add: unsigned_take_bit_eq)
  finally show ?thesis using k by (simp only: uint_small) (simp add: take_bit_int_eq_self)
qed

lemma from_bcd_digits:
  "0 \<le> v \<Longrightarrow> v < 100 \<Longrightarrow> rtc_from_bcd (rtc_bcd_lo v) (rtc_bcd_hi v) = v"
proof -
  assume v: "0 \<le> v" "v < 100"
  have "0 \<le> v mod 10" "v mod 10 < 16" "0 \<le> v div 10" "v div 10 < 16" using v by auto
  then show ?thesis
    using v by (simp add: rtc_from_bcd_def rtc_bcd_lo_def rtc_bcd_hi_def smod_nonneg sdiv_nonneg
        nibble_small)
qed

section \<open>The register file\<close>

definition rtc_regs_ok :: "'h RigelRTC \<Rightarrow> bool" where
  "rtc_regs_ok rtc \<longleftrightarrow> length (rtc_reg rtc) = 4 \<and> (\<forall>b < 4. length (rtc_reg rtc ! b) = 16)"

lemma rtc_regset_ok [simp]: "rtc_regs_ok (rtc_regset b n v rtc) = rtc_regs_ok rtc"
proof -
  have "length ((rtc_reg rtc)[b := (rtc_reg rtc ! b)[n := v]] ! c) = length (rtc_reg rtc ! c)"
    if "c < length (rtc_reg rtc)" for c
    using that by (cases "b = c") simp_all
  then show ?thesis by (auto simp: rtc_regs_ok_def rtc_regset_def)
qed

lemma rtc_regget_regset [simp]:
  "rtc_regs_ok rtc \<Longrightarrow> b < 4 \<Longrightarrow> n < 16 \<Longrightarrow>
     rtc_regget (rtc_regset b n v rtc) b' n' = (if b = b' \<and> n = n' then v else rtc_regget rtc b' n')"
  by (auto simp: rtc_regs_ok_def rtc_regset_def rtc_regget_def nth_list_update)

lemma rtc_trim_alarm_bank0: "rtc_regs_ok rtc \<Longrightarrow> rtc_regget (rtc_trim_alarm rtc) 0 n = rtc_regget rtc 0 n"
  by (simp add: rtc_trim_alarm_def)

text \<open>The hour digits of a clock, with the flag bit \<open>f\<close> that the PM indicator occupies.\<close>

lemma bcd_hi_range: "0 \<le> h \<Longrightarrow> h < 30 \<Longrightarrow> rtc_bcd_hi h = 0 \<or> rtc_bcd_hi h = 1 \<or> rtc_bcd_hi h = 2"
proof -
  assume h: "0 \<le> h" "h < 30"
  then have "h div 10 = 0 \<or> h div 10 = 1 \<or> h div 10 = 2" by auto
  then show ?thesis using h by (auto simp: rtc_bcd_hi_def sdiv_nonneg)
qed

lemma bcd_hi_12: "0 \<le> h \<Longrightarrow> h < 20 \<Longrightarrow> rtc_bcd_hi h = 0 \<or> rtc_bcd_hi h = 1"
proof -
  assume h: "0 \<le> h" "h < 20"
  then have "h div 10 = 0 \<or> h div 10 = 1" by auto
  then show ?thesis using h by (auto simp: rtc_bcd_hi_def sdiv_nonneg)
qed

lemma hour12_range:
  "0 \<le> h \<Longrightarrow> h < 24 \<Longrightarrow> 1 \<le> fst (rtc_hour12 h) \<and> fst (rtc_hour12 h) \<le> 12"
  by (auto simp: rtc_hour12_def)

lemma hour12_hour24: "0 \<le> h \<Longrightarrow> h < 24 \<Longrightarrow> rtc_hour24 (fst (rtc_hour12 h)) (snd (rtc_hour12 h)) = h"
  by (auto simp: rtc_hour12_def rtc_hour24_def)

section \<open>Round trips\<close>

definition tm_valid :: "tm \<Rightarrow> bool" where
  "tm_valid t \<longleftrightarrow> 0 \<le> tm_sec t \<and> tm_sec t < 60 \<and> 0 \<le> tm_min t \<and> tm_min t < 60 \<and>
     0 \<le> tm_hour t \<and> tm_hour t < 24 \<and> 1 \<le> tm_mday t \<and> tm_mday t \<le> 31 \<and>
     0 \<le> tm_mon t \<and> tm_mon t < 12 \<and> 70 \<le> tm_year t \<and> tm_year t < 170"

lemma year_digits:
  assumes "70 \<le> y" and "y < 170"
  shows "(let y' = rtc_from_bcd (rtc_bcd_lo (y smod 100)) (rtc_bcd_hi (y smod 100))
          in y' + (if y' < 70 then 100 else 0)) = y"
proof -
  have m: "y smod 100 = y mod 100" using assms by (simp add: smod_nonneg)
  have "0 \<le> y mod 100" "y mod 100 < 100" by simp_all
  then have "rtc_from_bcd (rtc_bcd_lo (y smod 100)) (rtc_bcd_hi (y smod 100)) = y mod 100"
    unfolding m by (rule from_bcd_digits)
  moreover have "y mod 100 = (if y < 100 then y else y - 100)"
  proof (cases "y < 100")
    case False
    have "y mod 100 = (y - 100) mod 100" by simp
    also have "\<dots> = y - 100" using False assms by (intro mod_pos_pos_trivial) simp_all
    finally show ?thesis using False by simp
  qed (use assms in simp)
  ultimately show ?thesis using assms by (simp add: Let_def)
qed

lemma oki_hour:
  assumes "0 \<le> h" and "h < 30"
  shows "rtc_from_bcd (rtc_bcd_lo h) (rtc_bcd_hi h AND 0x3) = h"
    and "rtc_from_bcd (rtc_bcd_lo h) ((rtc_bcd_hi h OR 0x4) AND 0x3) = h"
    and "rtc_bcd_hi h AND 0x4 = 0" and "(rtc_bcd_hi h OR 0x4) AND 0x4 \<noteq> 0"
  using from_bcd_digits [of h] bcd_hi_range [OF assms] assms by auto

lemma ricoh_hour:
  assumes "0 \<le> h" and "h < 20"
  shows "rtc_from_bcd (rtc_bcd_lo h) (rtc_bcd_hi h AND 0x1) = h"
    and "rtc_from_bcd (rtc_bcd_lo h) ((rtc_bcd_hi h OR 0x2) AND 0x1) = h"
    and "rtc_bcd_hi h AND 0x2 = 0" and "(rtc_bcd_hi h OR 0x2) AND 0x2 \<noteq> 0"
  using from_bcd_digits [of h] bcd_hi_12 [OF assms] assms by auto

lemma ricoh_hour_20:
  assumes "20 \<le> h" and "h < 24"
  shows "rtc_from_bcd (rtc_bcd_lo h) (rtc_bcd_hi h AND 0x1) = h - 20"
proof -
  have d: "h div 10 = 2" using assms by auto
  then have "rtc_bcd_hi h = 2" using assms by (simp add: rtc_bcd_hi_def sdiv_nonneg)
  then show ?thesis
    using from_bcd_digits [of h] assms by (simp add: rtc_from_bcd_def rtc_nibble_def)
qed

lemma oki_roundtrip:
  assumes "rtc_regs_ok rtc" and "tm_valid t"
  shows "rtc_regs_to_time_oki (rtc_time_to_regs_oki t rtc) = t\<lparr>tm_wday := 0, tm_yday := 0, tm_isdst := 0\<rparr>"
proof -
  have v: "0 \<le> tm_sec t" "tm_sec t < 100" "0 \<le> tm_min t" "tm_min t < 100"
    "0 \<le> tm_mday t" "tm_mday t < 100" "0 \<le> tm_mon t + 1" "tm_mon t + 1 < 100"
    "0 \<le> tm_hour t" "tm_hour t < 24" "0 \<le> tm_hour t" "tm_hour t < 30"
    using assms(2) by (simp_all add: tm_valid_def)
  obtain h pm where hp: "rtc_hour12 (tm_hour t) = (h, pm)" by fastforce
  have h: "0 \<le> h" "h < 30" "rtc_hour24 h pm = tm_hour t"
    using hour12_range [OF v(9,10)] hour12_hour24 [OF v(9,10)] by (simp_all add: hp)
  have y: "(let y' = rtc_from_bcd (rtc_bcd_lo (tm_year t smod 100)) (rtc_bcd_hi (tm_year t smod 100))
      in y' + (if y' < 70 then 100 else 0)) = tm_year t"
    using assms(2) by (intro year_digits) (simp_all add: tm_valid_def)
  show ?thesis
    using assms(1) v h y oki_hour [OF h(1,2)] oki_hour [OF v(11,12)]
    by (cases "rtc_regget rtc 0 0xf AND 0x4 = 0"; cases pm)
      (simp_all add: rtc_time_to_regs_oki_def rtc_regs_to_time_oki_def Let_def hp from_bcd_digits)
qed

lemma ricoh_month:
  assumes "0 \<le> m" and "m < 12"
  shows "rtc_bcd_hi (m + 1) = 0 \<and> uint (rtc_nibble (rtc_bcd_lo (m + 1))) = m + 1 \<or>
    rtc_bcd_hi (m + 1) = 1 \<and> uint (rtc_nibble (rtc_bcd_lo (m + 1))) = m - 9"
proof -
  have "rtc_from_bcd (rtc_bcd_lo (m + 1)) (rtc_bcd_hi (m + 1)) = m + 1"
    using assms by (intro from_bcd_digits) simp_all
  then show ?thesis
    using bcd_hi_12 [of "m + 1"] assms by (auto simp: rtc_from_bcd_def rtc_nibble_def)
qed

lemma and_one_u8: "b AND 0x1 = 0 \<or> b AND 0x1 = (1 :: u8)"
  by (simp add: and_one_eq) (metis not_mod_2_eq_0_eq_1)

lemma ricoh_mon_reg:
  fixes m :: int and b :: u8
  assumes "0 \<le> m" and "m < 12"
  defines "v \<equiv> ((b AND 0x1) OR push_bit 1 (rtc_bcd_hi (m + 1))) AND 0x03"
  shows "v AND 0x1 = b AND 0x1"
    and "uint (rtc_nibble (rtc_bcd_lo (m + 1))) + 10 * uint (drop_bit 1 v AND 0x1) = m + 1"
  using ricoh_month [OF assms(1,2)] and_one_u8 [of b] by (auto simp only: v_def) simp_all

text \<open>Bank 0 after the Ricoh registers have been set.\<close>

lemma ricoh_regs:
  fixes t :: tm and rtc :: "'h RigelRTC"
  assumes "rtc_regs_ok rtc"
  defines "r \<equiv> rtc_time_to_regs_ricoh t rtc"
    and "h \<equiv> (if rtc_regget rtc 0 0xa AND 0x1 = 0 then fst (rtc_hour12 (tm_hour t)) else tm_hour t)"
    and "pm \<equiv> rtc_regget rtc 0 0xa AND 0x1 = 0 \<and> snd (rtc_hour12 (tm_hour t))"
  shows "rtc_regget r 0 0x0 = rtc_bcd_lo (tm_sec t)" "rtc_regget r 0 0x1 = rtc_bcd_hi (tm_sec t)"
    "rtc_regget r 0 0x2 = rtc_bcd_lo (tm_min t)" "rtc_regget r 0 0x3 = rtc_bcd_hi (tm_min t)"
    "rtc_regget r 0 0x4 = rtc_bcd_lo h"
    "rtc_regget r 0 0x5 = (if pm then rtc_bcd_hi h OR 0x2 else rtc_bcd_hi h)"
    "rtc_regget r 0 0x7 = rtc_bcd_lo (tm_mday t)" "rtc_regget r 0 0x8 = rtc_bcd_hi (tm_mday t)"
    "rtc_regget r 0 0x9 = rtc_bcd_lo (tm_mon t + 1)"
    "rtc_regget r 0 0xa =
       ((rtc_regget rtc 0 0xa AND 0x1) OR push_bit 1 (rtc_bcd_hi (tm_mon t + 1))) AND 0x03"
    "rtc_regget r 0 0xb = rtc_bcd_lo (tm_year t smod 100)"
    "rtc_regget r 0 0xc = rtc_bcd_hi (tm_year t smod 100)"
  using assms(1)
  by (simp_all add: r_def h_def pm_def rtc_time_to_regs_ricoh_def Let_def rtc_trim_alarm_bank0
      split: prod.split del: and_one_eq)

lemma ricoh_roundtrip:
  assumes "rtc_regs_ok rtc" and "tm_valid t"
  shows "rtc_regs_to_time_ricoh (rtc_time_to_regs_ricoh t rtc) =
    t\<lparr>tm_hour := (if rtc_regget rtc 0 0xa AND 0x1 \<noteq> 0 \<and> 20 \<le> tm_hour t then tm_hour t - 20 else tm_hour t),
      tm_wday := 0, tm_yday := 0, tm_isdst := 0\<rparr>"
proof -
  have v: "0 \<le> tm_sec t" "tm_sec t < 100" "0 \<le> tm_min t" "tm_min t < 100"
    "0 \<le> tm_mday t" "tm_mday t < 100" "0 \<le> tm_mon t" "tm_mon t < 12"
    "0 \<le> tm_hour t" "tm_hour t < 24"
    using assms(2) by (simp_all add: tm_valid_def)
  obtain h pm where hp: "rtc_hour12 (tm_hour t) = (h, pm)" by fastforce
  have h: "0 \<le> h" "h < 20" "rtc_hour24 h pm = tm_hour t"
    using hour12_range [OF v(9,10)] hour12_hour24 [OF v(9,10)] by (simp_all add: hp)
  have y: "(let y' = rtc_from_bcd (rtc_bcd_lo (tm_year t smod 100)) (rtc_bcd_hi (tm_year t smod 100))
      in y' + (if y' < 70 then 100 else 0)) = tm_year t"
    using assms(2) by (intro year_digits) (simp_all add: tm_valid_def)
  have h24: "rtc_from_bcd (rtc_bcd_lo (tm_hour t)) (rtc_bcd_hi (tm_hour t) AND 0x1) =
      (if 20 \<le> tm_hour t then tm_hour t - 20 else tm_hour t)"
    using ricoh_hour(1) [of "tm_hour t"] ricoh_hour_20 [of "tm_hour t"] v by auto
  have tm: "sec = tm_sec t \<Longrightarrow> mn = tm_min t \<Longrightarrow> hr = hr' \<Longrightarrow> md = tm_mday t \<Longrightarrow> mo = tm_mon t \<Longrightarrow> yr = tm_year t \<Longrightarrow>
      \<lparr>tm_sec = sec, tm_min = mn, tm_hour = hr, tm_mday = md, tm_mon = mo, tm_year = yr,
       tm_wday = 0, tm_yday = 0, tm_isdst = 0\<rparr> =
      t\<lparr>tm_hour := hr', tm_wday := 0, tm_yday := 0, tm_isdst := 0\<rparr>" for sec mn hr hr' md mo yr
    by simp
  note hour = ricoh_hour [OF h(1,2)]
  show ?thesis
    unfolding rtc_regs_to_time_ricoh_def Let_def
    unfolding ricoh_regs [OF assms(1)] ricoh_mon_reg [OF v(7,8)]
    using y v h(3) h24 hour
    by (cases pm; intro tm) (simp_all add: hp from_bcd_digits Let_def split: if_split)
qed

text \<open>
  C40: Setting the clock registers from a calendar time and reading them back as one gives the
  time of day and the date again, for both chips and for the twelve- and the twenty-four-hour
  mode.  The Ricoh chip in twenty-four-hour mode loses twenty hours from 20:00 on, because the
  tens digit of the hour is masked to one bit.
\<close>

theorem rtc_calendar_roundtrip:
  assumes "rtc_regs_ok rtc" and "tm_valid t"
  shows "rtc_regs_to_time_oki (rtc_time_to_regs_oki t rtc) = t\<lparr>tm_wday := 0, tm_yday := 0, tm_isdst := 0\<rparr> \<and>
    rtc_regs_to_time_ricoh (rtc_time_to_regs_ricoh t rtc) =
      t\<lparr>tm_hour := (if rtc_regget rtc 0 0xa AND 0x1 \<noteq> 0 \<and> 20 \<le> tm_hour t then tm_hour t - 20
                    else tm_hour t),
        tm_wday := 0, tm_yday := 0, tm_isdst := 0\<rparr>"
  using oki_roundtrip [OF assms] ricoh_roundtrip [OF assms] by (rule conjI)

theorem rtc_calendar_roundtrip_witness:
  "let rtc = fst (rtc_init None RIGEL_RTC_MODEL_OKI ());
       t = \<lparr>tm_sec = 59, tm_min = 7, tm_hour = 23, tm_mday = 31, tm_mon = 11, tm_year = 125,
            tm_wday = 3, tm_yday = 364, tm_isdst = 0\<rparr>
   in rtc_regs_to_time_oki (rtc_time_to_regs_oki t rtc) = t\<lparr>tm_wday := 0, tm_yday := 0, tm_isdst := 0\<rparr>"
proof -
  define rtc where "rtc = fst (rtc_init None RIGEL_RTC_MODEL_OKI ())"
  define t where "t = \<lparr>tm_sec = 59, tm_min = 7, tm_hour = 23, tm_mday = 31, tm_mon = 11,
    tm_year = 125, tm_wday = 3, tm_yday = 364, tm_isdst = 0\<rparr>"
  have "rtc_regs_ok (\<lparr>rtc_model = m, rtc_reg = replicate 4 (replicate 16 0), rtc_time_offset = 0,
      rtc_host = r\<rparr> :: unit RigelRTC)" for m r
    by (simp add: rtc_regs_ok_def)
  then have "rtc_regs_ok rtc"
    by (simp add: rtc_def rtc_init_def rtc_update_def rtc_time_to_regs_def rtc_apply_model_defaults_def
        Let_def rtc_null_host_def rtc_host_to_calendar_def rtc_get_time_def rtc_host_now_def
        rtc_regset_def split: prod.splits)
      (simp add: rtc_regs_ok_def nth_list_update)
  moreover have "tm_valid t" by (simp add: tm_valid_def t_def)
  ultimately have "rtc_regs_to_time_oki (rtc_time_to_regs_oki t rtc) =
      t\<lparr>tm_wday := 0, tm_yday := 0, tm_isdst := 0\<rparr>"
    by (rule rtc_calendar_roundtrip [THEN conjunct1])
  then show ?thesis by (simp only: Let_def t_def rtc_def)
qed

end
