(* ===== verification/Slot_Scheduler.thy ===== *)
theory Slot_Scheduler
  imports Agnus_Dma
begin

text \<open>
  The slot table of Agnus, \<^verbatim>\<open>src/chipset/agnus/timing/slot_scheduler.c\<close>: which DMA channel
  owns each colour clock of a scan line, the table builder, the setters that mark it stale
  and the queries that predict bus ownership for the host.

  The environment-controlled trace output and the log events are left out; they do not
  touch the state.  The routing of a slot to its domain is in the theory of the chipset.
  A query whose loop bound exceeds the table (\<^verbatim>\<open>line_clocks > 227\<close>) reads past it in C and
  an unspecified list element here; the theorems bound the line.
\<close>

unbundle bit_operations_syntax

section \<open>State\<close>

abbreviation AGNUS_SLOTS_PER_LINE :: nat where "AGNUS_SLOTS_PER_LINE \<equiv> 227"
abbreviation RIGEL_DENISE_MAX_PLANE_WORDS :: nat where "RIGEL_DENISE_MAX_PLANE_WORDS \<equiv> 64"
abbreviation AGNUS_HPOS_BITPLANE_START :: u16 where "AGNUS_HPOS_BITPLANE_START \<equiv> 0x35"

datatype agnus_slot_owner =
    AGNUS_SLOT_FREE
  | AGNUS_SLOT_REFRESH
  | AGNUS_SLOT_DISK
  | AGNUS_SLOT_AUDIO_0
  | AGNUS_SLOT_AUDIO_1
  | AGNUS_SLOT_AUDIO_2
  | AGNUS_SLOT_AUDIO_3
  | AGNUS_SLOT_SPRITE_0
  | AGNUS_SLOT_SPRITE_1
  | AGNUS_SLOT_SPRITE_2
  | AGNUS_SLOT_SPRITE_3
  | AGNUS_SLOT_SPRITE_4
  | AGNUS_SLOT_SPRITE_5
  | AGNUS_SLOT_SPRITE_6
  | AGNUS_SLOT_SPRITE_7
  | AGNUS_SLOT_BITPLANE
  | AGNUS_SLOT_COPPER
  | AGNUS_SLOT_BLITTER
  | AGNUS_SLOT_CPU

record agnus_slot_scheduler =
  ss_table :: "agnus_slot_owner list"
  ss_bitplane_slot_index :: "u16 list"
  ss_hpos :: u16
  ss_dmacon :: u16
  ss_ddfstrt :: u16
  ss_ddfstop :: u16
  ss_depth :: u16
  ss_line_is_vbl :: bool
  ss_table_dirty :: bool
  ss_copper_active :: bool
  ss_copper_request :: bool
  ss_blitter_nasty :: bool
  ss_blitter_active :: bool
  ss_fetch_plane_index :: u16
  ss_bitplane_dma_this_line :: bool
  ss_bitplane_words_this_line :: u16
  ss_bitplane_line_depth :: u16
  ss_bitplane_line_base :: "u32 list"
  ss_bitplane_line_base_valid :: bool
  ss_hires :: bool
  ss_vstrt :: u16

section \<open>The table builder\<close>

definition fill_slot :: "u16 \<Rightarrow> agnus_slot_owner \<Rightarrow> agnus_slot_scheduler \<Rightarrow> agnus_slot_scheduler" where
  "fill_slot hpos owner sched =
     (if unat hpos < AGNUS_SLOTS_PER_LINE
      then sched\<lparr>ss_table := (ss_table sched)[unat hpos := owner]\<rparr> else sched)"

definition fill_bitplane_slot :: "u16 \<Rightarrow> u16 \<Rightarrow> agnus_slot_scheduler \<Rightarrow> agnus_slot_scheduler" where
  "fill_bitplane_slot hpos logical_index sched =
     (if unat hpos < AGNUS_SLOTS_PER_LINE
      then sched\<lparr>ss_table := (ss_table sched)[unat hpos := AGNUS_SLOT_BITPLANE],
                 ss_bitplane_slot_index := (ss_bitplane_slot_index sched)[unat hpos := logical_index]\<rparr>
      else sched)"

definition bitplane_words_per_plane :: "agnus_slot_scheduler \<Rightarrow> u16" where
  "bitplane_words_per_plane sched =
     (let depth = ss_depth sched AND 0x7
      in if depth = 0 \<or> depth > 6 then 0
         else
           let start = ss_ddfstrt sched AND (if ss_hires sched then 0x00fe else 0x00fc);
               stop = ss_ddfstop sched AND 0x00fe;
               fetch_quantum = (if ss_hires sched then 4 else 8) :: int
           in if stop \<le> start then (if ss_hires sched then 40 else 20)
              else
                let span = uint stop - uint start;
                    words = (if ss_hires sched
                             then span div fetch_quantum + (if span AND 4 \<noteq> 0 then 3 else 2)
                             else span div fetch_quantum + 1);
                    words = (if words < 1 then (if ss_hires sched then 40 else 20) else words);
                    words = (if words > int RIGEL_DENISE_MAX_PLANE_WORDS
                             then int RIGEL_DENISE_MAX_PLANE_WORDS else words)
                in word_of_int words)"

definition fill_refresh_slots ::
    "refresh_dma_state option \<Rightarrow> agnus_slot_scheduler \<Rightarrow> agnus_slot_scheduler" where
  "fill_refresh_slots refresh sched =
     fold (\<lambda>i sched. if refresh_dma_owns_slot refresh (of_nat i)
             then fill_slot (of_nat i) AGNUS_SLOT_REFRESH sched else sched)
       [0..<AGNUS_SLOTS_PER_LINE] sched"

definition fill_disk_slots :: "agnus_slot_scheduler \<Rightarrow> agnus_slot_scheduler" where
  "fill_disk_slots sched =
     (if dmacon_dsken (ss_dmacon sched)
      then fill_slot 0x09 AGNUS_SLOT_DISK (fill_slot 0x07 AGNUS_SLOT_DISK sched) else sched)"

definition fill_audio_slots :: "agnus_slot_scheduler \<Rightarrow> agnus_slot_scheduler" where
  "fill_audio_slots sched =
     (let sched = (if dmacon_auden (ss_dmacon sched) 0 then fill_slot 0x0b AGNUS_SLOT_AUDIO_0 sched else sched);
          sched = (if dmacon_auden (ss_dmacon sched) 1 then fill_slot 0x0d AGNUS_SLOT_AUDIO_1 sched else sched);
          sched = (if dmacon_auden (ss_dmacon sched) 2 then fill_slot 0x0f AGNUS_SLOT_AUDIO_2 sched else sched)
      in if dmacon_auden (ss_dmacon sched) 3 then fill_slot 0x11 AGNUS_SLOT_AUDIO_3 sched else sched)"

text \<open>The sixteen sprite slots in the order the code fills them.\<close>

definition sprite_slots :: "(u16 \<times> agnus_slot_owner) list" where
  "sprite_slots =
     [(0x15, AGNUS_SLOT_SPRITE_0), (0x17, AGNUS_SLOT_SPRITE_0),
      (0x19, AGNUS_SLOT_SPRITE_1), (0x1b, AGNUS_SLOT_SPRITE_1),
      (0x1d, AGNUS_SLOT_SPRITE_2), (0x1f, AGNUS_SLOT_SPRITE_2),
      (0x21, AGNUS_SLOT_SPRITE_3), (0x23, AGNUS_SLOT_SPRITE_3),
      (0x25, AGNUS_SLOT_SPRITE_4), (0x27, AGNUS_SLOT_SPRITE_4),
      (0x29, AGNUS_SLOT_SPRITE_5), (0x2b, AGNUS_SLOT_SPRITE_5),
      (0x2d, AGNUS_SLOT_SPRITE_6), (0x2f, AGNUS_SLOT_SPRITE_6),
      (0x31, AGNUS_SLOT_SPRITE_7), (0x33, AGNUS_SLOT_SPRITE_7)]"

definition fill_sprite_slots :: "agnus_slot_scheduler \<Rightarrow> agnus_slot_scheduler" where
  "fill_sprite_slots sched =
     (if dmacon_spren (ss_dmacon sched)
      then fold (\<lambda>(h, owner). fill_slot h owner) sprite_slots sched else sched)"

function fill_hires_slots ::
    "u16 \<Rightarrow> u16 \<Rightarrow> u16 \<Rightarrow> agnus_slot_scheduler \<Rightarrow> agnus_slot_scheduler" where
  "fill_hires_slots target_slots h bitplane_slots sched =
     (if unat h < AGNUS_SLOTS_PER_LINE \<and> bitplane_slots < target_slots
      then fill_hires_slots target_slots (h + 1) (bitplane_slots + 1)
             (fill_bitplane_slot h bitplane_slots sched)
      else sched)"
  by pat_completeness auto

termination
proof (relation "measure (\<lambda>(_, h, _, _). AGNUS_SLOTS_PER_LINE - unat h)", goal_cases)
  case (2 target_slots h bitplane_slots sched)
  then have "unat (h + 1) = unat h + 1" by (simp add: unat_inc)
  then show ?case using 2 by auto
qed simp

declare fill_hires_slots.simps [simp del]

definition lores_plane_order :: "u16 list" where
  "lores_plane_order = [7, 3, 5, 1, 6, 2, 4, 0]"

definition fill_lores_slots :: "agnus_slot_scheduler \<Rightarrow> agnus_slot_scheduler" where
  "fill_lores_slots sched =
     (let bpl_start = ss_ddfstrt sched;
          words = bitplane_words_per_plane sched;
          depth = ss_depth sched AND 0x7
      in fst (fold (\<lambda>wrd. fold (\<lambda>plane (sched, bitplane_slots).
                (let h = bpl_start + of_nat wrd * 8 + lores_plane_order ! plane
                 in (if unat h < AGNUS_SLOTS_PER_LINE then fill_bitplane_slot h bitplane_slots sched
                     else sched, bitplane_slots + 1)))
              [0..<unat depth]) [0..<unat words] (sched, 0 :: u16)))"

definition agnus_slot_scheduler_rebuild ::
    "agnus_slot_scheduler \<Rightarrow> u16 \<Rightarrow> refresh_dma_state option \<Rightarrow> agnus_slot_scheduler" where
  "agnus_slot_scheduler_rebuild sched vpos refresh =
     (let vbl = agnus_in_vbl_zone vpos;
          sched = sched\<lparr>ss_table := replicate AGNUS_SLOTS_PER_LINE AGNUS_SLOT_CPU,
                        ss_bitplane_slot_index := replicate AGNUS_SLOTS_PER_LINE 0xffff\<rparr>;
          sched = fill_refresh_slots refresh sched;
          sched = fill_disk_slots sched;
          sched = fill_audio_slots sched;
          sched = fill_sprite_slots sched;
          sched = (if \<not> vbl \<and> vpos \<ge> ss_vstrt sched \<and> dmacon_bplen (ss_dmacon sched)
                   then if ss_hires sched
                        then fill_hires_slots
                               (bitplane_words_per_plane sched * (ss_depth sched AND 0x7))
                               (ss_ddfstrt sched) 0 sched
                        else fill_lores_slots sched
                   else sched);
          sched = sched\<lparr>ss_table := map (\<lambda>o'. if o' = AGNUS_SLOT_CPU \<and> dmacon_master (ss_dmacon sched)
                                             then AGNUS_SLOT_FREE else o') (ss_table sched)\<rparr>
      in sched\<lparr>ss_line_is_vbl := vbl, ss_table_dirty := False\<rparr>)"

section \<open>Setters\<close>

definition agnus_slot_scheduler_init :: "agnus_slot_scheduler \<Rightarrow> agnus_slot_scheduler" where
  "agnus_slot_scheduler_init sched =
     sched\<lparr>ss_hpos := 0, ss_dmacon := 0, ss_ddfstrt := AGNUS_HPOS_BITPLANE_START,
           ss_ddfstop := of_nat AGNUS_SLOTS_PER_LINE, ss_depth := 0, ss_line_is_vbl := False,
           ss_table_dirty := True, ss_copper_active := False, ss_copper_request := False,
           ss_blitter_nasty := False, ss_blitter_active := False, ss_fetch_plane_index := 0,
           ss_bitplane_dma_this_line := False, ss_bitplane_words_this_line := 0,
           ss_bitplane_line_depth := 0, ss_bitplane_line_base_valid := False,
           ss_hires := False, ss_vstrt := AGNUS_VBL_LINE_END + 1,
           ss_table := replicate AGNUS_SLOTS_PER_LINE AGNUS_SLOT_CPU\<rparr>"

definition agnus_slot_scheduler_invalidate :: "agnus_slot_scheduler \<Rightarrow> u16 \<Rightarrow> agnus_slot_scheduler" where
  "agnus_slot_scheduler_invalidate sched dmacon =
     sched\<lparr>ss_dmacon := dmacon, ss_table_dirty := True\<rparr>"

definition agnus_slot_scheduler_set_hires :: "agnus_slot_scheduler \<Rightarrow> bool \<Rightarrow> agnus_slot_scheduler" where
  "agnus_slot_scheduler_set_hires sched hires =
     (if ss_hires sched \<noteq> hires then sched\<lparr>ss_hires := hires, ss_table_dirty := True\<rparr> else sched)"

definition agnus_slot_scheduler_set_vstrt :: "agnus_slot_scheduler \<Rightarrow> u16 \<Rightarrow> agnus_slot_scheduler" where
  "agnus_slot_scheduler_set_vstrt sched diwstrt =
     (let vstrt = drop_bit 8 diwstrt AND 0x00ff
      in if ss_vstrt sched \<noteq> vstrt then sched\<lparr>ss_vstrt := vstrt, ss_table_dirty := True\<rparr> else sched)"

definition agnus_slot_scheduler_set_ddf ::
    "agnus_slot_scheduler \<Rightarrow> u16 \<Rightarrow> u16 \<Rightarrow> agnus_slot_scheduler" where
  "agnus_slot_scheduler_set_ddf sched ddfstrt ddfstop =
     sched\<lparr>ss_ddfstrt := ddfstrt AND 0x00fc, ss_ddfstop := ddfstop AND 0x00fc,
           ss_table_dirty := True\<rparr>"

definition agnus_slot_scheduler_set_depth :: "agnus_slot_scheduler \<Rightarrow> u16 \<Rightarrow> agnus_slot_scheduler" where
  "agnus_slot_scheduler_set_depth sched depth =
     (let depth = depth AND 0x7
      in if ss_depth sched \<noteq> depth then sched\<lparr>ss_depth := depth, ss_table_dirty := True\<rparr> else sched)"

section \<open>Queries\<close>

definition agnus_slot_scheduler_next_event :: "agnus_slot_scheduler \<Rightarrow> u16 \<Rightarrow> u32" where
  "agnus_slot_scheduler_next_event sched line_clocks =
     (if ss_table_dirty sched then 1
      else case find (\<lambda>h. ss_table sched ! h \<noteq> AGNUS_SLOT_CPU \<and> ss_table sched ! h \<noteq> AGNUS_SLOT_FREE)
                  [unat (ss_hpos sched + 1)..<unat line_clocks] of
             Some h \<Rightarrow> of_nat h - ucast (ss_hpos sched)
           | None \<Rightarrow> ucast line_clocks - ucast (ss_hpos sched))"

definition slot_override :: "agnus_slot_scheduler \<Rightarrow> agnus_slot_owner \<Rightarrow> agnus_slot_owner" where
  "slot_override sched o' =
     (if ss_blitter_active sched
      then if o' = AGNUS_SLOT_FREE \<or> (ss_blitter_nasty sched \<and> o' = AGNUS_SLOT_CPU)
           then AGNUS_SLOT_BLITTER else o'
      else if ss_copper_request sched \<and> o' = AGNUS_SLOT_FREE then AGNUS_SLOT_COPPER else o')"

definition agnus_slot_scheduler_current_owner :: "agnus_slot_scheduler \<Rightarrow> agnus_slot_owner" where
  "agnus_slot_scheduler_current_owner sched =
     (if unat (ss_hpos sched) \<ge> AGNUS_SLOTS_PER_LINE then AGNUS_SLOT_CPU
      else slot_override sched (ss_table sched ! unat (ss_hpos sched)))"

definition agnus_slot_scheduler_cpu_stall :: "agnus_slot_scheduler \<Rightarrow> bool" where
  "agnus_slot_scheduler_cpu_stall sched \<longleftrightarrow>
     (let o' = agnus_slot_scheduler_current_owner sched
      in o' \<noteq> AGNUS_SLOT_CPU \<and> o' \<noteq> AGNUS_SLOT_FREE)"

definition agnus_slot_scheduler_cpu_resume_in :: "agnus_slot_scheduler \<Rightarrow> u16 \<Rightarrow> u32" where
  "agnus_slot_scheduler_cpu_resume_in sched line_clocks =
     (if ss_table_dirty sched then 1
      else case find (\<lambda>h. let o' = slot_override sched (ss_table sched ! h)
                          in o' = AGNUS_SLOT_CPU \<or> o' = AGNUS_SLOT_FREE)
                  [unat (ss_hpos sched + 1)..<unat line_clocks] of
             Some h \<Rightarrow> of_nat h - ucast (ss_hpos sched)
           | None \<Rightarrow> ucast line_clocks - ucast (ss_hpos sched))"

section \<open>Specification of the table\<close>

text \<open>
  The bitplane slot at clock \<open>h\<close>: the logical index of the word fetched there.  In low
  resolution the eight clocks of a fetch unit serve the planes in the hardware's interleaved
  order, which is its own inverse; in high resolution the slots are consecutive.
\<close>

definition bitplane_slot_at :: "agnus_slot_scheduler \<Rightarrow> nat \<Rightarrow> nat option" where
  "bitplane_slot_at sched h =
     (let start = unat (ss_ddfstrt sched); depth = unat (ss_depth sched AND 0x7);
          words = unat (bitplane_words_per_plane sched)
      in if h < start then None
         else if ss_hires sched then (if h - start < words * depth then Some (h - start) else None)
         else let wrd = (h - start) div 8; plane = unat (lores_plane_order ! ((h - start) mod 8))
              in if wrd < words \<and> plane < depth then Some (wrd * depth + plane) else None)"

definition sprite_owner :: "nat \<Rightarrow> agnus_slot_owner" where
  "sprite_owner n =
     [AGNUS_SLOT_SPRITE_0, AGNUS_SLOT_SPRITE_1, AGNUS_SLOT_SPRITE_2, AGNUS_SLOT_SPRITE_3,
      AGNUS_SLOT_SPRITE_4, AGNUS_SLOT_SPRITE_5, AGNUS_SLOT_SPRITE_6, AGNUS_SLOT_SPRITE_7] ! n"

definition audio_owner :: "nat \<Rightarrow> agnus_slot_owner" where
  "audio_owner n =
     [AGNUS_SLOT_AUDIO_0, AGNUS_SLOT_AUDIO_1, AGNUS_SLOT_AUDIO_2, AGNUS_SLOT_AUDIO_3] ! n"

definition fixed_owner :: "u16 \<Rightarrow> refresh_dma_state option \<Rightarrow> nat \<Rightarrow> agnus_slot_owner" where
  "fixed_owner d refresh h =
     (if dmacon_spren d \<and> 0x15 \<le> h \<and> h \<le> 0x33 \<and> odd h then sprite_owner ((h - 0x15) div 4)
      else if 0xb \<le> h \<and> h \<le> 0x11 \<and> odd h \<and> dmacon_auden d ((h - 0xb) div 2)
      then audio_owner ((h - 0xb) div 2)
      else if dmacon_dsken d \<and> (h = 7 \<or> h = 9) then AGNUS_SLOT_DISK
      else if refresh_dma_owns_slot refresh (of_nat h) then AGNUS_SLOT_REFRESH
      else AGNUS_SLOT_CPU)"

text \<open>Bitplane DMA runs on this line.\<close>

definition display_line :: "agnus_slot_scheduler \<Rightarrow> u16 \<Rightarrow> bool" where
  "display_line sched vpos \<longleftrightarrow>
     \<not> agnus_in_vbl_zone vpos \<and> vpos \<ge> ss_vstrt sched \<and> dmacon_bplen (ss_dmacon sched)"

section \<open>The fixed slots\<close>

definition table_ok :: "agnus_slot_scheduler \<Rightarrow> bool" where
  "table_ok sched \<longleftrightarrow> length (ss_table sched) = AGNUS_SLOTS_PER_LINE \<and>
     length (ss_bitplane_slot_index sched) = AGNUS_SLOTS_PER_LINE"

text \<open>Two schedulers that differ in table and index only.\<close>

definition same_config :: "agnus_slot_scheduler \<Rightarrow> agnus_slot_scheduler \<Rightarrow> bool" where
  "same_config s t \<longleftrightarrow>
     t = s\<lparr>ss_table := ss_table t, ss_bitplane_slot_index := ss_bitplane_slot_index t\<rparr>"

lemma same_config_refl [simp]: "same_config s s"
  by (simp add: same_config_def)

lemma same_config_trans [trans]: "same_config s t \<Longrightarrow> same_config t u \<Longrightarrow> same_config s u"
  by (cases s; cases t; cases u) (simp add: same_config_def)

lemma words_per_plane_update [simp]:
  "bitplane_words_per_plane (s\<lparr>ss_table := tab\<rparr>) = bitplane_words_per_plane s"
  "bitplane_words_per_plane (s\<lparr>ss_bitplane_slot_index := idx\<rparr>) = bitplane_words_per_plane s"
  by (cases s; simp only: bitplane_words_per_plane_def agnus_slot_scheduler.simps)+

lemma same_config_fields:
  assumes "same_config s t"
  shows "ss_dmacon t = ss_dmacon s" "ss_ddfstrt t = ss_ddfstrt s" "ss_depth t = ss_depth s"
    "ss_hires t = ss_hires s" "ss_vstrt t = ss_vstrt s"
    "bitplane_words_per_plane t = bitplane_words_per_plane s"
  by (subst assms [unfolded same_config_def], simp)+

lemma fill_slot_config [simp]: "same_config s (fill_slot h o' s)"
  by (simp add: same_config_def fill_slot_def)

lemma fill_bitplane_slot_config [simp]: "same_config s (fill_bitplane_slot h k s)"
  by (simp add: same_config_def fill_bitplane_slot_def)

lemma fill_slot_nth:
  "table_ok s \<Longrightarrow> i < AGNUS_SLOTS_PER_LINE \<Longrightarrow>
     ss_table (fill_slot h o' s) ! i = (if i = unat h then o' else ss_table s ! i)"
  by (auto simp: fill_slot_def table_ok_def nth_list_update)

lemma fill_slot_index [simp]: "ss_bitplane_slot_index (fill_slot h o' s) = ss_bitplane_slot_index s"
  by (simp add: fill_slot_def)

lemma fill_slot_ok [simp]: "table_ok (fill_slot h o' s) = table_ok s"
  by (simp add: fill_slot_def table_ok_def)

lemma fill_bitplane_slot_ok [simp]: "table_ok (fill_bitplane_slot h k s) = table_ok s"
  by (simp add: fill_bitplane_slot_def table_ok_def)

lemma fill_bitplane_slot_nth:
  "table_ok s \<Longrightarrow> i < AGNUS_SLOTS_PER_LINE \<Longrightarrow>
     ss_table (fill_bitplane_slot h k s) ! i = (if i = unat h then AGNUS_SLOT_BITPLANE else ss_table s ! i)"
  "table_ok s \<Longrightarrow> i < AGNUS_SLOTS_PER_LINE \<Longrightarrow>
     ss_bitplane_slot_index (fill_bitplane_slot h k s) ! i =
       (if i = unat h then k else ss_bitplane_slot_index s ! i)"
  by (auto simp: fill_bitplane_slot_def table_ok_def nth_list_update)

lemma fill_refresh_slots_spec:
  assumes "table_ok s"
  shows "table_ok (fill_refresh_slots refresh s) \<and> same_config s (fill_refresh_slots refresh s) \<and>
    ss_bitplane_slot_index (fill_refresh_slots refresh s) = ss_bitplane_slot_index s \<and>
    (\<forall>i < AGNUS_SLOTS_PER_LINE. ss_table (fill_refresh_slots refresh s) ! i =
      (if refresh_dma_owns_slot refresh (of_nat i) then AGNUS_SLOT_REFRESH else ss_table s ! i))"
proof -
  define f where "f = (\<lambda>i s. if refresh_dma_owns_slot refresh (of_nat i)
    then fill_slot (of_nat i) AGNUS_SLOT_REFRESH s else s)"
  have "table_ok (fold f [0..<n] s) \<and> same_config s (fold f [0..<n] s) \<and>
      ss_bitplane_slot_index (fold f [0..<n] s) = ss_bitplane_slot_index s \<and>
      (\<forall>i < AGNUS_SLOTS_PER_LINE. ss_table (fold f [0..<n] s) ! i =
        (if i < n \<and> refresh_dma_owns_slot refresh (of_nat i) then AGNUS_SLOT_REFRESH else ss_table s ! i))"
    if "n \<le> AGNUS_SLOTS_PER_LINE" for n
    using that
  proof (induction n)
    case (Suc n)
    then have n: "unat (of_nat n :: u16) = n" by (intro unat_of_nat_small) simp
    show ?case using Suc
      by (auto simp: f_def fill_slot_nth n less_Suc_eq intro: same_config_trans)
  qed (simp add: assms)
  from this [of AGNUS_SLOTS_PER_LINE] show ?thesis
    unfolding fill_refresh_slots_def f_def [symmetric] by simp
qed

text \<open>A channel group occupies every second clock from \<open>b\<close> on, \<open>n\<close> of them.\<close>

lemma odd_range_cases:
  fixes i :: nat
  assumes "b \<le> i" "i < b + 2 * n" "even (i - b)"
  obtains k where "i = b + 2 * k" "k < n"
proof -
  obtain k where "i - b = 2 * k" using assms(3) by (elim evenE)
  then show ?thesis using that [of k] assms(1,2) by simp
qed

lemma fill_sprite_slots_spec:
  assumes "table_ok s"
  shows "table_ok (fill_sprite_slots s) \<and> same_config s (fill_sprite_slots s) \<and>
    ss_bitplane_slot_index (fill_sprite_slots s) = ss_bitplane_slot_index s \<and>
    (\<forall>i < AGNUS_SLOTS_PER_LINE. ss_table (fill_sprite_slots s) ! i =
      (if dmacon_spren (ss_dmacon s) \<and> 0x15 \<le> i \<and> i \<le> 0x33 \<and> odd i
       then sprite_owner ((i - 0x15) div 4) else ss_table s ! i))"
proof -
  let ?f = "fold (\<lambda>(h, owner). fill_slot h owner)"
  have gen: "table_ok (?f ps s) \<and> same_config s (?f ps s) \<and>
      ss_bitplane_slot_index (?f ps s) = ss_bitplane_slot_index s \<and>
      (\<forall>i < AGNUS_SLOTS_PER_LINE. ss_table (?f ps s) ! i =
        (case map_of (rev (map (\<lambda>(h, owner). (unat h, owner)) ps)) i of None \<Rightarrow> ss_table s ! i | Some w \<Rightarrow> w))"
    if "table_ok s" for ps s
    using that
  proof (induction ps arbitrary: s)
    case (Cons p ps)
    obtain h w where p: "p = (h, w)" by fastforce
    have ih: "table_ok (?f ps (fill_slot h w s))" "same_config (fill_slot h w s) (?f ps (fill_slot h w s))"
      using Cons by simp_all
    from same_config_trans [OF fill_slot_config ih(2)] Cons show ?case
      by (auto simp: p fill_slot_nth map_add_def split: option.splits)
  qed simp
  have "map_of (rev (map (\<lambda>(h, owner). (unat h, owner)) sprite_slots)) i =
      (if 0x15 \<le> i \<and> i \<le> 0x33 \<and> odd i then Some (sprite_owner ((i - 0x15) div 4)) else None)" for i :: nat
  proof (cases "0x15 \<le> i \<and> i \<le> 0x33 \<and> odd i")
    case True
    then obtain k where k: "i = 0x15 + 2 * k" "k < 16"
      by (elim conjE odd_range_cases [of "0x15" i 16]) auto
    have "k = 0 \<or> k = 1 \<or> k = 2 \<or> k = 3 \<or> k = 4 \<or> k = 5 \<or> k = 6 \<or> k = 7 \<or> k = 8 \<or> k = 9 \<or> k = 10 \<or>
        k = 11 \<or> k = 12 \<or> k = 13 \<or> k = 14 \<or> k = 15" using k(2) by arith
    then show ?thesis
      by (elim disjE) (simp_all add: k(1) sprite_slots_def sprite_owner_def)
  qed (auto simp: sprite_slots_def)
  then show ?thesis using gen [OF assms, of sprite_slots] assms
    by (simp add: fill_sprite_slots_def)
qed

lemma fill_disk_audio_spec:
  assumes "table_ok s"
  shows "table_ok (fill_audio_slots (fill_disk_slots s)) \<and>
    same_config s (fill_audio_slots (fill_disk_slots s)) \<and>
    ss_bitplane_slot_index (fill_audio_slots (fill_disk_slots s)) = ss_bitplane_slot_index s \<and>
    (\<forall>i < AGNUS_SLOTS_PER_LINE. ss_table (fill_audio_slots (fill_disk_slots s)) ! i =
      (if 0xb \<le> i \<and> i \<le> 0x11 \<and> odd i \<and> dmacon_auden (ss_dmacon s) ((i - 0xb) div 2)
       then audio_owner ((i - 0xb) div 2)
       else if dmacon_dsken (ss_dmacon s) \<and> (i = 7 \<or> i = 9) then AGNUS_SLOT_DISK else ss_table s ! i))"
proof -
  have dm [simp]: "ss_dmacon (fill_slot h w s) = ss_dmacon s" for h w s
    by (rule same_config_fields) simp
  have d: "table_ok (fill_disk_slots s)" "same_config s (fill_disk_slots s)"
    "ss_bitplane_slot_index (fill_disk_slots s) = ss_bitplane_slot_index s"
    "\<forall>i < AGNUS_SLOTS_PER_LINE. ss_table (fill_disk_slots s) ! i =
      (if dmacon_dsken (ss_dmacon s) \<and> (i = 7 \<or> i = 9) then AGNUS_SLOT_DISK else ss_table s ! i)"
    using assms same_config_trans [OF fill_slot_config fill_slot_config]
    by (auto simp: fill_disk_slots_def fill_slot_nth)
  define c :: "nat \<Rightarrow> agnus_slot_owner \<Rightarrow> u16 \<Rightarrow> agnus_slot_scheduler \<Rightarrow> agnus_slot_scheduler"
    where "c n w h s = (if dmacon_auden (ss_dmacon s) n then fill_slot h w s else s)" for n w h s
  have c [simp]: "table_ok (c n w h s) = table_ok s" "same_config s (c n w h s)"
      "ss_bitplane_slot_index (c n w h s) = ss_bitplane_slot_index s" "ss_dmacon (c n w h s) = ss_dmacon s"
      and cn: "table_ok s \<Longrightarrow> i < AGNUS_SLOTS_PER_LINE \<Longrightarrow> ss_table (c n w h s) ! i =
        (if i = unat h \<and> dmacon_auden (ss_dmacon s) n then w else ss_table s ! i)" for n w h s i
    by (simp_all add: c_def fill_slot_nth)
  have a: "fill_audio_slots t = c 3 AGNUS_SLOT_AUDIO_3 0x11 (c 2 AGNUS_SLOT_AUDIO_2 0x0f
      (c 1 AGNUS_SLOT_AUDIO_1 0x0d (c 0 AGNUS_SLOT_AUDIO_0 0x0b t)))" for t
    by (simp add: fill_audio_slots_def c_def Let_def)
  have sc: "same_config s (fill_audio_slots (fill_disk_slots s))"
    unfolding a
    by (rule same_config_trans [OF d(2)])
      (rule same_config_trans [OF same_config_trans [OF same_config_trans [OF c(2) c(2)] c(2)] c(2)])
  have nth: "ss_table (fill_audio_slots t) ! i =
      (if 0xb \<le> i \<and> i \<le> 0x11 \<and> odd i \<and> dmacon_auden (ss_dmacon t) ((i - 0xb) div 2)
       then audio_owner ((i - 0xb) div 2) else ss_table t ! i)" if "table_ok t" "i < AGNUS_SLOTS_PER_LINE" for t i
  proof -
    consider k where "i = 0xb + 2 * k" "k < 4" | "\<not> (0xb \<le> i \<and> i \<le> 0x11 \<and> odd i)"
      by (cases "0xb \<le> i \<and> i \<le> 0x11 \<and> odd i") (auto intro: odd_range_cases [of "0xb" i 4])
    then show ?thesis
    proof cases
      case 1
      then have "k = 0 \<or> k = 1 \<or> k = 2 \<or> k = 3" by linarith
      then show ?thesis using that unfolding a
        by (elim disjE) (simp_all add: cn audio_owner_def 1(1))
    next
      case 2
      then have "i \<noteq> 0xb" "i \<noteq> 0xd" "i \<noteq> 0xf" "i \<noteq> 0x11" by auto
      then show ?thesis using that 2 unfolding a by (auto simp: cn)
    qed
  qed
  have dd: "ss_dmacon (fill_disk_slots s) = ss_dmacon s" by (rule same_config_fields [OF d(2)])
  show ?thesis
  proof (intro conjI allI impI)
    show "table_ok (fill_audio_slots (fill_disk_slots s))"
      "ss_bitplane_slot_index (fill_audio_slots (fill_disk_slots s)) = ss_bitplane_slot_index s"
      by (simp_all add: a d)
    fix i :: nat assume "i < AGNUS_SLOTS_PER_LINE"
    with nth [OF d(1) this] d(4)
    show "ss_table (fill_audio_slots (fill_disk_slots s)) ! i =
      (if 0xb \<le> i \<and> i \<le> 0x11 \<and> odd i \<and> dmacon_auden (ss_dmacon s) ((i - 0xb) div 2)
       then audio_owner ((i - 0xb) div 2)
       else if dmacon_dsken (ss_dmacon s) \<and> (i = 7 \<or> i = 9) then AGNUS_SLOT_DISK else ss_table s ! i)"
      by (simp only: dd if_True simp_thms)
  qed (rule sc)
qed

text \<open>All slots that do not depend on the display window.\<close>

lemma fixed_slots_spec:
  fixes s :: agnus_slot_scheduler and refresh :: "refresh_dma_state option"
  defines "s0 \<equiv> s\<lparr>ss_table := replicate AGNUS_SLOTS_PER_LINE AGNUS_SLOT_CPU,
    ss_bitplane_slot_index := replicate AGNUS_SLOTS_PER_LINE 0xffff\<rparr>"
  defines "s4 \<equiv> fill_sprite_slots (fill_audio_slots (fill_disk_slots (fill_refresh_slots refresh s0)))"
  shows "table_ok s4 \<and> same_config s s4 \<and>
    ss_bitplane_slot_index s4 = replicate AGNUS_SLOTS_PER_LINE 0xffff \<and>
    (\<forall>i < AGNUS_SLOTS_PER_LINE. ss_table s4 ! i = fixed_owner (ss_dmacon s) refresh i)"
proof -
  have s0: "table_ok s0" "same_config s s0" by (simp_all add: s0_def table_ok_def same_config_def)
  note r = fill_refresh_slots_spec [OF s0(1), of refresh]
  note a = fill_disk_audio_spec [OF conjunct1 [OF r]]
  note p = fill_sprite_slots_spec [OF conjunct1 [OF a]]
  have sc: "same_config s (fill_refresh_slots refresh s0)"
    "same_config s (fill_audio_slots (fill_disk_slots (fill_refresh_slots refresh s0)))" "same_config s s4"
    using r a p s0(2) unfolding s4_def by (meson same_config_trans)+
  show ?thesis
  proof (intro conjI allI impI)
    show "table_ok s4" using p by (simp add: s4_def)
    show "ss_bitplane_slot_index s4 = replicate AGNUS_SLOTS_PER_LINE 0xffff"
      using r a p by (simp add: s4_def s0_def)
    fix i :: nat assume i: "i < AGNUS_SLOTS_PER_LINE"
    have "ss_table s0 ! i = AGNUS_SLOT_CPU" using i by (simp add: s0_def)
    then show "ss_table s4 ! i = fixed_owner (ss_dmacon s) refresh i"
      using r a p i
      unfolding s4_def [symmetric] same_config_fields(1) [OF sc(1)] same_config_fields(1) [OF sc(2)]
      by (simp only: fixed_owner_def if_True simp_thms)
  qed (rule sc(3))
qed

section \<open>The bitplane slots\<close>

text \<open>
  \<open>bpl_image P f s t\<close>: the scheduler \<open>t\<close> is \<open>s\<close> with bitplane slots, numbered by \<open>f\<close>, at the
  clocks that satisfy \<open>P\<close>.
\<close>

definition bpl_image ::
    "(nat \<Rightarrow> bool) \<Rightarrow> (nat \<Rightarrow> nat) \<Rightarrow> agnus_slot_scheduler \<Rightarrow> agnus_slot_scheduler \<Rightarrow> bool" where
  "bpl_image P f s t \<longleftrightarrow> table_ok t \<and> same_config s t \<and>
     (\<forall>i < AGNUS_SLOTS_PER_LINE. ss_table t ! i = (if P i then AGNUS_SLOT_BITPLANE else ss_table s ! i) \<and>
        ss_bitplane_slot_index t ! i = (if P i then of_nat (f i) else ss_bitplane_slot_index s ! i))"

lemma bpl_image_refl: "table_ok s \<Longrightarrow> (\<And>i. i < AGNUS_SLOTS_PER_LINE \<Longrightarrow> \<not> P i) \<Longrightarrow> bpl_image P f s s"
  by (simp add: bpl_image_def)

lemma bpl_image_fill:
  assumes "bpl_image P f s t" and "unat h = n"
    and "\<And>i. i < AGNUS_SLOTS_PER_LINE \<Longrightarrow> Q i \<longleftrightarrow> P i \<or> i = n"
    and "\<And>i. i < AGNUS_SLOTS_PER_LINE \<Longrightarrow> P i \<Longrightarrow> i \<noteq> n \<and> g i = f i" and "k = of_nat (g n)"
  shows "bpl_image Q g s (fill_bitplane_slot h k t)"
  unfolding bpl_image_def
proof (intro conjI allI impI)
  have t: "table_ok t" "same_config s t" using assms(1) by (simp_all add: bpl_image_def)
  then show "table_ok (fill_bitplane_slot h k t)" "same_config s (fill_bitplane_slot h k t)"
    using same_config_trans [OF _ fill_bitplane_slot_config] by simp_all
  fix i :: nat assume i: "i < AGNUS_SLOTS_PER_LINE"
  show "ss_table (fill_bitplane_slot h k t) ! i = (if Q i then AGNUS_SLOT_BITPLANE else ss_table s ! i)"
    "ss_bitplane_slot_index (fill_bitplane_slot h k t) ! i =
      (if Q i then of_nat (g i) else ss_bitplane_slot_index s ! i)"
    using assms(1,2) assms(3,4) [OF i] assms(5) i
    by (auto simp: bpl_image_def fill_bitplane_slot_nth)
qed

lemma bpl_image_outside:
  assumes "bpl_image P f s t" and "\<And>i. i < AGNUS_SLOTS_PER_LINE \<Longrightarrow> (Q i \<longleftrightarrow> P i) \<and> (P i \<longrightarrow> g i = f i)"
  shows "bpl_image Q g s t"
  using assms by (simp add: bpl_image_def)

lemma bpl_image_option:
  assumes "bpl_image P f s t" and "\<And>i. slot i = (if P i then Some (f i) else None)"
  shows "bpl_image (\<lambda>i. slot i \<noteq> None) (\<lambda>i. the (slot i)) s t"
  by (rule bpl_image_outside [OF assms(1)]) (simp add: assms(2))

lemma fill_hires_image:
  assumes "table_ok s" and "bpl_image (\<lambda>i. b \<le> i \<and> i < b + k) (\<lambda>i. i - b) s t"
    and "unat h = b + k" and "unat n = k" and "k \<le> unat target" and "b < 0x1000" and "unat target < 0x1000"
  shows "bpl_image (\<lambda>i. b \<le> i \<and> i < b + unat target) (\<lambda>i. i - b) s (fill_hires_slots target h n t)"
  using assms
proof (induction target h n t arbitrary: k rule: fill_hires_slots.induct)
  case (1 target h n t)
  show ?case
  proof (cases "unat h < AGNUS_SLOTS_PER_LINE \<and> n < target")
    case True
    then have lt: "k < unat target" using 1(5) by (simp add: word_less_nat_alt)
    have hk: "unat (h + 1) = b + Suc k" "unat (n + 1) = Suc k"
      using 1(4-8) lt by (simp_all add: unat_inc)
    have k: "n = of_nat k" by (simp flip: 1(5))
    have "bpl_image (\<lambda>i. b \<le> i \<and> i < b + Suc k) (\<lambda>i. i - b) s (fill_bitplane_slot h n t)"
      by (rule bpl_image_fill [OF 1(3,4)]) (auto simp: k)
    from "1.IH" [OF True 1(2) this hk _ 1(7,8)] lt show ?thesis
      using True by (subst fill_hires_slots.simps) simp
  next
    case False
    then have "\<not> (b + k < AGNUS_SLOTS_PER_LINE \<and> k < unat target)"
      using 1(4,5) by (simp add: word_less_nat_alt)
    with False show ?thesis
      using 1(6) by (subst fill_hires_slots.simps) (auto intro!: bpl_image_outside [OF 1(3)])
  qed
qed

lemma less_8_cases: "j = 0 \<or> j = 1 \<or> j = 2 \<or> j = 3 \<or> j = 4 \<or> j = 5 \<or> j = 6 \<or> j = 7" if "j < 8" for j :: nat
  using that by arith

lemma lores_order_less: "j < 8 \<Longrightarrow> unat (lores_plane_order ! j) < 8"
  by (drule less_8_cases) (elim disjE; simp add: lores_plane_order_def)

lemma lores_order_inverse: "j < 8 \<Longrightarrow> unat (lores_plane_order ! unat (lores_plane_order ! j)) = j"
  by (drule less_8_cases) (elim disjE; simp add: lores_plane_order_def)

lemma lores_order_eq:
  "j < 8 \<Longrightarrow> p < 8 \<Longrightarrow> j = unat (lores_plane_order ! p) \<longleftrightarrow> unat (lores_plane_order ! j) = p"
  using lores_order_inverse by metis

text \<open>One eight-clock fetch unit, and the sequence of units.\<close>

definition lores_P :: "nat \<Rightarrow> nat \<Rightarrow> nat \<Rightarrow> nat \<Rightarrow> nat \<Rightarrow> bool" where
  "lores_P b depth w n i \<longleftrightarrow> b \<le> i \<and>
     ((i - b) div 8 < w \<and> unat (lores_plane_order ! ((i - b) mod 8)) < depth \<or>
      (i - b) div 8 = w \<and> unat (lores_plane_order ! ((i - b) mod 8)) < n)"

definition lores_index :: "nat \<Rightarrow> nat \<Rightarrow> nat \<Rightarrow> nat" where
  "lores_index b depth i = (i - b) div 8 * depth + unat (lores_plane_order ! ((i - b) mod 8))"

lemma lores_unit_slot:
  assumes "p < 8"
  shows "i = b + 8 * w + unat (lores_plane_order ! p) \<longleftrightarrow>
    b \<le> i \<and> (i - b) div 8 = w \<and> unat (lores_plane_order ! ((i - b) mod 8)) = p"
proof -
  define r where "r = unat (lores_plane_order ! p)"
  have r: "r < 8" using lores_order_less [OF assms] by (simp add: r_def)
  have "i = b + 8 * w + r \<longleftrightarrow> b \<le> i \<and> (i - b) div 8 = w \<and> (i - b) mod 8 = r"
  proof
    assume "b \<le> i \<and> (i - b) div 8 = w \<and> (i - b) mod 8 = r"
    then show "i = b + 8 * w + r" using mult_div_mod_eq [of 8 "i - b"] by linarith
  qed (use r in auto)
  note this [unfolded r_def]
  then show ?thesis using lores_order_eq [of "(i - b) mod 8" p] assms by simp
qed

lemma lores_unit_image:
  fixes bpl_start :: u16
  defines "b \<equiv> unat bpl_start"
  assumes "bpl_image (lores_P b depth w 0) (lores_index b depth) s t" and "c = of_nat (w * depth)"
    and "n \<le> depth" "depth \<le> 7" and "b < 0x1000" "w < 0x40"
  shows "\<exists>t'. fold (\<lambda>plane (sched, bitplane_slots).
        (let h = bpl_start + of_nat w * 8 + lores_plane_order ! plane
         in (if unat h < AGNUS_SLOTS_PER_LINE then fill_bitplane_slot h bitplane_slots sched
             else sched, bitplane_slots + 1))) [0..<n] (t, c) = (t', of_nat (w * depth + n)) \<and>
      bpl_image (lores_P b depth w n) (lores_index b depth) s t'"
  using assms(4)
proof (induction n)
  case 0
  then show ?case using assms(2,3) by simp
next
  case (Suc n)
  then obtain t' where t': "fold (\<lambda>plane (sched, bitplane_slots).
        (let h = bpl_start + of_nat w * 8 + lores_plane_order ! plane
         in (if unat h < AGNUS_SLOTS_PER_LINE then fill_bitplane_slot h bitplane_slots sched
             else sched, bitplane_slots + 1))) [0..<n] (t, c) = (t', of_nat (w * depth + n))"
      "bpl_image (lores_P b depth w n) (lores_index b depth) s t'" by auto
  define h where "h = bpl_start + of_nat w * 8 + lores_plane_order ! n"
  have n: "n < 8" using Suc.prems assms(5) by simp
  have h: "unat h = b + 8 * w + unat (lores_plane_order ! n)"
    using lores_order_less [OF n] assms(6,7) unfolding h_def b_def
    by (simp add: unat_word_ariths unat_of_nat)
  have slot: "lores_P b depth w (Suc n) i \<longleftrightarrow> lores_P b depth w n i \<or> i = unat h"
      "lores_P b depth w n i \<Longrightarrow> i \<noteq> unat h" for i
    using lores_unit_slot [OF n, of i b w] by (auto simp: h lores_P_def less_Suc_eq)
  have "bpl_image (lores_P b depth w (Suc n)) (lores_index b depth) s
      (if unat h < AGNUS_SLOTS_PER_LINE then fill_bitplane_slot h (of_nat (w * depth + n)) t' else t')"
  proof (cases "unat h < AGNUS_SLOTS_PER_LINE")
    case True
    have "lores_index b depth (unat h) = w * depth + n"
      using lores_unit_slot [OF n, of "unat h" b w] h by (simp add: lores_index_def)
    then show ?thesis using True slot by (auto intro!: bpl_image_fill [OF t'(2) refl])
  next
    case False
    then show ?thesis using slot by (auto intro!: bpl_image_outside [OF t'(2)])
  qed
  then show ?case using t'(1) by (simp add: h_def Let_def split del: if_split cong: if_cong)
qed

lemma fill_lores_image:
  assumes "table_ok s" and "unat (ss_ddfstrt s) < 0x1000" and "unat (bitplane_words_per_plane s) \<le> 0x40"
  defines "b \<equiv> unat (ss_ddfstrt s)" and "depth \<equiv> unat (ss_depth s AND 0x7)"
  shows "bpl_image (lores_P b depth (unat (bitplane_words_per_plane s)) 0) (lores_index b depth) s
    (fill_lores_slots s)"
proof -
  define f where "f = (\<lambda>wrd. fold (\<lambda>plane (sched, bitplane_slots).
        (let h = ss_ddfstrt s + of_nat wrd * 8 + lores_plane_order ! plane
         in (if unat h < AGNUS_SLOTS_PER_LINE then fill_bitplane_slot h bitplane_slots sched
             else sched, bitplane_slots + 1 :: u16))) [0..<depth])"
  have "ss_depth s AND 7 \<le> 7" by (rule word_and_le1)
  then have d: "depth \<le> 7" by (simp add: depth_def word_le_nat_alt)
  have "\<exists>t. fold f [0..<m] (s, 0) = (t, of_nat (m * depth)) \<and>
      bpl_image (lores_P b depth m 0) (lores_index b depth) s t" if "m \<le> 0x40" for m
    using that
  proof (induction m)
    case 0
    then show ?case using assms(1) by (auto intro!: bpl_image_refl simp: lores_P_def)
  next
    case (Suc m)
    then obtain t where t: "fold f [0..<m] (s, 0) = (t, of_nat (m * depth))"
      "bpl_image (lores_P b depth m 0) (lores_index b depth) s t" by auto
    have m: "m < 0x40" using Suc.prems by simp
    from lores_unit_image [OF t(2) [unfolded b_def] refl le_refl d assms(2) m]
    obtain t' where t': "f m (t, of_nat (m * depth)) = (t', of_nat (m * depth + depth))"
      "bpl_image (lores_P b depth m depth) (lores_index b depth) s t'"
      unfolding f_def b_def by blast
    have "bpl_image (lores_P b depth (Suc m) 0) (lores_index b depth) s t'"
      by (rule bpl_image_outside [OF t'(2)]) (auto simp: lores_P_def less_Suc_eq)
    then show ?case using t(1) t'(1) by (simp add: add.commute)
  qed
  from this [OF assms(3)] show ?thesis
    unfolding fill_lores_slots_def Let_def f_def depth_def [symmetric] by auto
qed

section \<open>The table\<close>

definition sched_ok :: "agnus_slot_scheduler \<Rightarrow> bool" where
  "sched_ok sched \<longleftrightarrow> ss_ddfstrt sched \<le> 0xff \<and> ss_depth sched \<le> 7"

lemma words_per_plane_le: "unat (bitplane_words_per_plane s) \<le> 0x40"
proof -
  have "unat (word_of_int k :: u16) \<le> 0x40" if "0 \<le> k" "k \<le> 64" for k
    using that by (simp add: unat_eq_nat_uint take_bit_int_eq_self uint_word_of_int_eq)
  then show ?thesis
    unfolding bitplane_words_per_plane_def Let_def by auto
qed

lemma hires_target:
  assumes "ss_depth s \<le> 7"
  shows "unat (bitplane_words_per_plane s * (ss_depth s AND 0x7)) =
    unat (bitplane_words_per_plane s) * unat (ss_depth s AND 0x7)"
    and "unat (bitplane_words_per_plane s) * unat (ss_depth s AND 0x7) < 0x1000"
proof -
  have "ss_depth s AND 7 \<le> 7" by (rule word_and_le1)
  then have "unat (ss_depth s AND 0x7) \<le> 7" by (simp add: word_le_nat_alt)
  then have "unat (bitplane_words_per_plane s) * unat (ss_depth s AND 0x7) \<le> 0x40 * 7"
    using words_per_plane_le by (rule mult_le_mono [rotated])
  then show "unat (bitplane_words_per_plane s) * unat (ss_depth s AND 0x7) < 0x1000"
    and "unat (bitplane_words_per_plane s * (ss_depth s AND 0x7)) =
      unat (bitplane_words_per_plane s) * unat (ss_depth s AND 0x7)"
    by (simp_all add: unat_word_ariths)
qed

lemma bitplane_image:
  assumes "sched_ok s" and "table_ok s"
  shows "bpl_image (\<lambda>i. bitplane_slot_at s i \<noteq> None) (\<lambda>i. the (bitplane_slot_at s i)) s
    (if ss_hires s
     then fill_hires_slots (bitplane_words_per_plane s * (ss_depth s AND 0x7)) (ss_ddfstrt s) 0 s
     else fill_lores_slots s)"
proof -
  have b: "unat (ss_ddfstrt s) < 0x1000" and d: "ss_depth s \<le> 7"
    using assms(1) by (simp_all add: sched_ok_def word_le_nat_alt)
  show ?thesis
  proof (cases "ss_hires s")
    case True
    have "bpl_image (\<lambda>i. unat (ss_ddfstrt s) \<le> i \<and> i < unat (ss_ddfstrt s) + 0) (\<lambda>i. i - unat (ss_ddfstrt s)) s s"
      using assms(2) by (auto intro: bpl_image_refl)
    from fill_hires_image [OF assms(2) this, of "ss_ddfstrt s" 0
        "bitplane_words_per_plane s * (ss_depth s AND 0x7)"] b hires_target [OF d]
    have img: "bpl_image (\<lambda>i. unat (ss_ddfstrt s) \<le> i \<and> i < unat (ss_ddfstrt s) +
        unat (bitplane_words_per_plane s) * unat (ss_depth s AND 0x7)) (\<lambda>i. i - unat (ss_ddfstrt s)) s
        (fill_hires_slots (bitplane_words_per_plane s * (ss_depth s AND 0x7)) (ss_ddfstrt s) 0 s)"
      by simp
    have "bitplane_slot_at s i = (if unat (ss_ddfstrt s) \<le> i \<and> i < unat (ss_ddfstrt s) +
        unat (bitplane_words_per_plane s) * unat (ss_depth s AND 0x7) then Some (i - unat (ss_ddfstrt s))
        else None)" for i
      using True by (auto simp: bitplane_slot_at_def Let_def)
    from bpl_image_option [OF img this] True show ?thesis by simp
  next
    case False
    have "bitplane_slot_at s i = (if lores_P (unat (ss_ddfstrt s)) (unat (ss_depth s AND 0x7))
        (unat (bitplane_words_per_plane s)) 0 i
      then Some (lores_index (unat (ss_ddfstrt s)) (unat (ss_depth s AND 0x7)) i) else None)" for i
      using False by (auto simp: bitplane_slot_at_def Let_def lores_P_def lores_index_def)
    from bpl_image_option [OF fill_lores_image [OF assms(2) b words_per_plane_le] this] False
    show ?thesis by simp
  qed
qed

text \<open>The owner of clock \<open>h\<close> and the logical index of its bitplane word.\<close>

definition line_slot :: "agnus_slot_scheduler \<Rightarrow> u16 \<Rightarrow> nat \<Rightarrow> nat option" where
  "line_slot sched vpos h = (if display_line sched vpos then bitplane_slot_at sched h else None)"

definition line_owner ::
    "agnus_slot_scheduler \<Rightarrow> u16 \<Rightarrow> refresh_dma_state option \<Rightarrow> nat \<Rightarrow> agnus_slot_owner" where
  "line_owner sched vpos refresh h =
     (if line_slot sched vpos h \<noteq> None then AGNUS_SLOT_BITPLANE
      else let o' = fixed_owner (ss_dmacon sched) refresh h
           in if o' = AGNUS_SLOT_CPU \<and> dmacon_master (ss_dmacon sched) then AGNUS_SLOT_FREE else o')"

lemma same_config_slots:
  assumes "same_config s t"
  shows "bitplane_slot_at t = bitplane_slot_at s" "display_line t = display_line s"
    "sched_ok t = sched_ok s"
  unfolding fun_eq_iff bitplane_slot_at_def display_line_def sched_ok_def same_config_fields [OF assms]
  by (simp_all only: simp_thms)

lemma rebuild_table:
  fixes s :: agnus_slot_scheduler and vpos :: u16 and refresh :: "refresh_dma_state option"
  assumes "sched_ok s"
  defines "t \<equiv> agnus_slot_scheduler_rebuild s vpos refresh"
  shows "ss_table t = map (line_owner s vpos refresh) [0..<AGNUS_SLOTS_PER_LINE]"
    and "ss_bitplane_slot_index t =
      map (\<lambda>h. case line_slot s vpos h of Some k \<Rightarrow> of_nat k | None \<Rightarrow> 0xffff) [0..<AGNUS_SLOTS_PER_LINE]"
    and "same_config (s\<lparr>ss_line_is_vbl := agnus_in_vbl_zone vpos, ss_table_dirty := False\<rparr>) t"
proof -
  define s4 where "s4 = fill_sprite_slots (fill_audio_slots (fill_disk_slots (fill_refresh_slots refresh
    (s\<lparr>ss_table := replicate AGNUS_SLOTS_PER_LINE AGNUS_SLOT_CPU,
       ss_bitplane_slot_index := replicate AGNUS_SLOTS_PER_LINE 0xffff\<rparr>))))"
  define s5 where "s5 = (if display_line s4 vpos
    then if ss_hires s4
         then fill_hires_slots (bitplane_words_per_plane s4 * (ss_depth s4 AND 0x7)) (ss_ddfstrt s4) 0 s4
         else fill_lores_slots s4
    else s4)"
  have s4: "table_ok s4" "same_config s s4"
    "ss_bitplane_slot_index s4 = replicate AGNUS_SLOTS_PER_LINE 0xffff"
    "\<And>i. i < AGNUS_SLOTS_PER_LINE \<Longrightarrow> ss_table s4 ! i = fixed_owner (ss_dmacon s) refresh i"
    using fixed_slots_spec [of refresh s] by (simp_all add: s4_def)
  have s5: "bpl_image (\<lambda>i. line_slot s vpos i \<noteq> None) (\<lambda>i. the (line_slot s vpos i)) s4 s5"
    using bitplane_image [OF _ s4(1)] assms(1) s4(1)
    by (auto simp: s5_def line_slot_def same_config_slots [OF s4(2)] intro: bpl_image_refl)
  have sc: "same_config s s5" using s5 same_config_trans [OF s4(2)] by (simp add: bpl_image_def)
  have dm: "ss_dmacon s5 = ss_dmacon s" by (rule same_config_fields(1) [OF sc])
  have t: "ss_table t = map (\<lambda>o'. if o' = AGNUS_SLOT_CPU \<and> dmacon_master (ss_dmacon s5)
      then AGNUS_SLOT_FREE else o') (ss_table s5)"
    "ss_bitplane_slot_index t = ss_bitplane_slot_index s5"
    unfolding t_def agnus_slot_scheduler_rebuild_def s4_def [symmetric] Let_def display_line_def [symmetric]
      s5_def [symmetric] by simp_all
  have "t = s5\<lparr>ss_table := ss_table t, ss_line_is_vbl := agnus_in_vbl_zone vpos, ss_table_dirty := False\<rparr>"
    unfolding t_def agnus_slot_scheduler_rebuild_def s4_def [symmetric] Let_def display_line_def [symmetric]
      s5_def [symmetric] by simp
  then show "same_config (s\<lparr>ss_line_is_vbl := agnus_in_vbl_zone vpos, ss_table_dirty := False\<rparr>) t"
    using sc by (cases s; cases t; cases s5) (simp add: same_config_def)
  have len: "length (ss_table s5) = AGNUS_SLOTS_PER_LINE" "length (ss_bitplane_slot_index s5) = AGNUS_SLOTS_PER_LINE"
    using s5 by (simp_all add: bpl_image_def table_ok_def)
  show "ss_table t = map (line_owner s vpos refresh) [0..<AGNUS_SLOTS_PER_LINE]"
    using s5 len unfolding t dm
    by (intro nth_equalityI) (auto simp: bpl_image_def line_owner_def Let_def s4(4))
  show "ss_bitplane_slot_index t =
      map (\<lambda>h. case line_slot s vpos h of Some k \<Rightarrow> of_nat k | None \<Rightarrow> 0xffff) [0..<AGNUS_SLOTS_PER_LINE]"
    using s5 len unfolding t
    by (intro nth_equalityI) (auto simp: bpl_image_def s4(3) split: option.splits)
qed

text \<open>
  C21: After a rebuild the owner of every colour clock of the line is the one the
  specification gives: the bitplane window first, in the interleaved low resolution or the
  consecutive high resolution order, then the fixed sprite, audio, disk and refresh slots,
  and the rest free or the CPU's; and the index table numbers exactly the bitplane slots.
  Bitplane slots are absent in the vertical blank and above the display start, with no lower
  end; sprite slots are there on every line, in the vertical blank too, as the comment of the
  table builder has it and the header of the scheduler has not.
\<close>

theorem slot_table_exact:
  assumes "sched_ok sched" and "h < AGNUS_SLOTS_PER_LINE"
  shows "ss_table (agnus_slot_scheduler_rebuild sched vpos refresh) ! h = line_owner sched vpos refresh h \<and>
    ss_bitplane_slot_index (agnus_slot_scheduler_rebuild sched vpos refresh) ! h =
      (case line_slot sched vpos h of Some k \<Rightarrow> of_nat k | None \<Rightarrow> 0xffff)"
  using assms(2) by (simp add: rebuild_table [OF assms(1)])

definition sched_zero :: agnus_slot_scheduler where
  "sched_zero = \<lparr>ss_table = [], ss_bitplane_slot_index = replicate AGNUS_SLOTS_PER_LINE 0, ss_hpos = 0,
     ss_dmacon = 0, ss_ddfstrt = 0, ss_ddfstop = 0, ss_depth = 0, ss_line_is_vbl = False,
     ss_table_dirty = False, ss_copper_active = False, ss_copper_request = False,
     ss_blitter_nasty = False, ss_blitter_active = False, ss_fetch_plane_index = 0,
     ss_bitplane_dma_this_line = False, ss_bitplane_words_this_line = 0, ss_bitplane_line_depth = 0,
     ss_bitplane_line_base = replicate 6 0, ss_bitplane_line_base_valid = False, ss_hires = False,
     ss_vstrt = 0\<rparr>"

text \<open>Four low resolution planes from clock 0x38 on, with every DMA channel enabled.\<close>

definition sched_example :: agnus_slot_scheduler where
  "sched_example =
     agnus_slot_scheduler_set_depth
       (agnus_slot_scheduler_set_ddf
         (agnus_slot_scheduler_invalidate (agnus_slot_scheduler_init sched_zero) 0x03ff) 0x0038 0x00d0) 4"

lemma sched_example_fields:
  "ss_dmacon sched_example = 0x03ff" "ss_ddfstrt sched_example = 0x38" "ss_ddfstop sched_example = 0xd0"
  "ss_depth sched_example = 4" "\<not> ss_hires sched_example" "ss_vstrt sched_example = 26"
  by (simp_all add: sched_example_def agnus_slot_scheduler_init_def agnus_slot_scheduler_invalidate_def
      agnus_slot_scheduler_set_ddf_def agnus_slot_scheduler_set_depth_def)

lemma sched_example_words: "bitplane_words_per_plane sched_example = 20"
  by (simp add: bitplane_words_per_plane_def sched_example_fields Let_def)

lemma sched_example_display: "sched_ok sched_example \<and> display_line sched_example 100"
  by (simp add: sched_ok_def display_line_def sched_example_fields agnus_in_vbl_zone_def dmacon_bplen_def)

theorem slot_table_exact_witness:
  "ss_table (agnus_slot_scheduler_rebuild sched_example 100 None) ! 0x3b = AGNUS_SLOT_BITPLANE \<and>
   ss_bitplane_slot_index (agnus_slot_scheduler_rebuild sched_example 100 None) ! 0x3b = 1 \<and>
   ss_table (agnus_slot_scheduler_rebuild sched_example 100 None) ! 0x38 = AGNUS_SLOT_FREE \<and>
   ss_table (agnus_slot_scheduler_rebuild sched_example 100 None) ! 0x21 = AGNUS_SLOT_SPRITE_3 \<and>
   ss_table (agnus_slot_scheduler_rebuild sched_example 100 None) ! 0x07 = AGNUS_SLOT_DISK"
proof -
  note f = sched_example_fields sched_example_words
  have ok: "sched_ok sched_example" and d: "display_line sched_example 100"
    using sched_example_display by simp_all
  have b: "line_slot sched_example 100 0x3b = Some 1" "line_slot sched_example 100 0x38 = None"
    "line_slot sched_example 100 0x21 = None" "line_slot sched_example 100 0x07 = None"
    by (simp_all add: line_slot_def d bitplane_slot_at_def Let_def f lores_plane_order_def)
  show ?thesis
    using slot_table_exact [OF ok, of "0x3b" 100 None] slot_table_exact [OF ok, of "0x38" 100 None]
      slot_table_exact [OF ok, of "0x21" 100 None] slot_table_exact [OF ok, of "0x07" 100 None]
    by (simp add: line_owner_def b fixed_owner_def f dmacon_master_def dmacon_spren_def dmacon_dsken_def
        refresh_dma_owns_slot_def sprite_owner_def Let_def)
qed

section \<open>Every word is fetched once\<close>

definition bitplane_position :: "agnus_slot_scheduler \<Rightarrow> nat \<Rightarrow> nat \<Rightarrow> nat" where
  "bitplane_position sched wrd plane =
     unat (ss_ddfstrt sched) +
     (if ss_hires sched then wrd * unat (ss_depth sched AND 0x7) + plane
      else 8 * wrd + unat (lores_plane_order ! plane))"

lemma bitplane_slot_position:
  assumes "plane < unat (ss_depth s AND 0x7)" and "wrd < unat (bitplane_words_per_plane s)"
  shows "bitplane_slot_at s h = Some (wrd * unat (ss_depth s AND 0x7) + plane) \<longleftrightarrow>
    h = bitplane_position s wrd plane"
proof -
  let ?d = "unat (ss_depth s AND 0x7)" and ?b = "unat (ss_ddfstrt s)"
  have "ss_depth s AND 7 \<le> 7" by (rule word_and_le1)
  then have p: "plane < 8" using assms(1) by (simp add: word_le_nat_alt)
  have dm: "(w * ?d + q) div ?d = w \<and> (w * ?d + q) mod ?d = q" if "q < ?d" for w q
    using that by simp
  have inj: "w * ?d + q = wrd * ?d + plane \<longleftrightarrow> w = wrd \<and> q = plane" if "q < ?d" for w q
    using dm [OF that, of w] dm [OF assms(1), of wrd] by metis
  show ?thesis
  proof (cases "ss_hires s")
    case True
    have "wrd * ?d + plane < (wrd + 1) * ?d" using assms(1) by simp
    also have "\<dots> \<le> unat (bitplane_words_per_plane s) * ?d" using assms(2) by (intro mult_le_mono1) simp
    finally show ?thesis using True by (auto simp: bitplane_slot_at_def bitplane_position_def Let_def)
  next
    case False
    have "bitplane_slot_at s h = Some (wrd * ?d + plane) \<longleftrightarrow>
        ?b \<le> h \<and> (h - ?b) div 8 = wrd \<and> unat (lores_plane_order ! ((h - ?b) mod 8)) = plane"
      using False assms inj by (auto simp: bitplane_slot_at_def Let_def)
    then show ?thesis using False lores_unit_slot [OF p, of h ?b wrd]
      by (simp add: bitplane_position_def add.assoc)
  qed
qed

lemma fixed_owner_not_bitplane: "fixed_owner d refresh h \<noteq> AGNUS_SLOT_BITPLANE"
proof -
  have "sprite_owner n \<noteq> AGNUS_SLOT_BITPLANE" if "n < 8" for n
    using less_8_cases [OF that] by (elim disjE) (simp_all add: sprite_owner_def)
  moreover have "audio_owner n \<noteq> AGNUS_SLOT_BITPLANE" if "n < 4" for n
  proof -
    have "n = 0 \<or> n = 1 \<or> n = 2 \<or> n = 3" using that by arith
    then show ?thesis by (elim disjE) (simp_all add: audio_owner_def)
  qed
  ultimately show ?thesis by (auto simp: fixed_owner_def)
qed

lemma line_owner_bitplane: "line_owner s vpos refresh h = AGNUS_SLOT_BITPLANE \<longleftrightarrow> line_slot s vpos h \<noteq> None"
  using fixed_owner_not_bitplane by (auto simp: line_owner_def Let_def)

lemma bitplane_slot_bound:
  assumes "bitplane_slot_at s h = Some k" and "ss_depth s \<le> 7"
  shows "unat (of_nat k :: u16) = k"
proof -
  let ?d = "unat (ss_depth s AND 0x7)" and ?w = "unat (bitplane_words_per_plane s)"
  have "w * ?d + p < ?w * ?d" if "w < ?w" "p < ?d" for w p
  proof -
    have "w * ?d + p < (w + 1) * ?d" using that by simp
    also have "\<dots> \<le> ?w * ?d" using that by (intro mult_le_mono1) simp
    finally show ?thesis .
  qed
  then have "k < ?w * ?d" using assms(1) by (auto simp: bitplane_slot_at_def Let_def split: if_splits)
  then show ?thesis using hires_target(2) [OF assms(2)] by (intro unat_of_nat_small) simp
qed

text \<open>
  C22: On a display line every word of every plane within the fetch window is fetched by
  exactly one slot, the one at its place in the fetch order, and by none when that place lies
  beyond the end of the line.  The slot's logical index decodes to the plane and word the way
  the dispatcher reads it.
\<close>

theorem bitplane_word_once:
  fixes sched :: agnus_slot_scheduler and vpos :: u16 and refresh :: "refresh_dma_state option"
  assumes "sched_ok sched" and "display_line sched vpos"
    and "plane < unat (ss_depth sched AND 0x7)" and "wrd < unat (bitplane_words_per_plane sched)"
  defines "t \<equiv> agnus_slot_scheduler_rebuild sched vpos refresh"
  shows "{h. h < AGNUS_SLOTS_PER_LINE \<and> ss_table t ! h = AGNUS_SLOT_BITPLANE \<and>
      unat (ss_bitplane_slot_index t ! h) mod unat (ss_depth sched AND 0x7) = plane \<and>
      unat (ss_bitplane_slot_index t ! h) div unat (ss_depth sched AND 0x7) = wrd} =
    {bitplane_position sched wrd plane} \<inter> {..<AGNUS_SLOTS_PER_LINE}"
proof -
  let ?d = "unat (ss_depth sched AND 0x7)"
  have d: "ss_depth sched \<le> 7" using assms(1) by (simp add: sched_ok_def)
  have k: "k mod ?d = plane \<and> k div ?d = wrd \<longleftrightarrow> k = wrd * ?d + plane" for k
    using div_mult_mod_eq [of k ?d] assms(3) by auto
  have "ss_table t ! h = AGNUS_SLOT_BITPLANE \<and> unat (ss_bitplane_slot_index t ! h) mod ?d = plane \<and>
      unat (ss_bitplane_slot_index t ! h) div ?d = wrd \<longleftrightarrow> h = bitplane_position sched wrd plane"
    if "h < AGNUS_SLOTS_PER_LINE" for h
  proof (cases "bitplane_slot_at sched h")
    case None
    then show ?thesis
      using that bitplane_slot_position [OF assms(3,4), of h] assms(2)
      by (simp add: t_def rebuild_table [OF assms(1)] line_owner_bitplane line_slot_def)
  next
    case (Some j)
    then show ?thesis
      using that bitplane_slot_position [OF assms(3,4), of h] assms(2) bitplane_slot_bound [OF Some d] k
      by (simp add: t_def rebuild_table [OF assms(1)] line_owner_bitplane line_slot_def)
  qed
  then show ?thesis by auto
qed

theorem bitplane_word_once_witness:
  "{h. h < AGNUS_SLOTS_PER_LINE \<and>
      ss_table (agnus_slot_scheduler_rebuild sched_example 100 None) ! h = AGNUS_SLOT_BITPLANE \<and>
      unat (ss_bitplane_slot_index (agnus_slot_scheduler_rebuild sched_example 100 None) ! h) mod 4 = 3 \<and>
      unat (ss_bitplane_slot_index (agnus_slot_scheduler_rebuild sched_example 100 None) ! h) div 4 = 2} =
    {0x49}"
  using bitplane_word_once [of sched_example 100 3 2 None] sched_example_display
  by (simp add: sched_example_fields sched_example_words bitplane_position_def lores_plane_order_def)

section \<open>The table is never stale\<close>

text \<open>
  The operations on the scheduler, and the line and refresh state of the last rebuild of a
  sequence of them.
\<close>

datatype sched_op =
    INVALIDATE u16
  | SET_DDF u16 u16
  | SET_DEPTH u16
  | SET_HIRES bool
  | SET_VSTRT u16
  | REBUILD u16 "refresh_dma_state option"

fun sched_do :: "sched_op \<Rightarrow> agnus_slot_scheduler \<Rightarrow> agnus_slot_scheduler" where
  "sched_do (INVALIDATE dmacon) s = agnus_slot_scheduler_invalidate s dmacon"
| "sched_do (SET_DDF strt stop) s = agnus_slot_scheduler_set_ddf s strt stop"
| "sched_do (SET_DEPTH depth) s = agnus_slot_scheduler_set_depth s depth"
| "sched_do (SET_HIRES hires) s = agnus_slot_scheduler_set_hires s hires"
| "sched_do (SET_VSTRT diwstrt) s = agnus_slot_scheduler_set_vstrt s diwstrt"
| "sched_do (REBUILD vpos refresh) s = agnus_slot_scheduler_rebuild s vpos refresh"

fun built_for ::
    "sched_op \<Rightarrow> (u16 \<times> refresh_dma_state option) option \<Rightarrow> (u16 \<times> refresh_dma_state option) option" where
  "built_for (REBUILD vpos refresh) l = Some (vpos, refresh)"
| "built_for _ l = l"

definition last_rebuild :: "sched_op list \<Rightarrow> (u16 \<times> refresh_dma_state option) option" where
  "last_rebuild ops = fold built_for ops None"

definition table_current :: "agnus_slot_scheduler \<Rightarrow> u16 \<Rightarrow> refresh_dma_state option \<Rightarrow> bool" where
  "table_current s vpos refresh \<longleftrightarrow>
     ss_table s = map (line_owner s vpos refresh) [0..<AGNUS_SLOTS_PER_LINE] \<and>
     ss_bitplane_slot_index s =
       map (\<lambda>h. case line_slot s vpos h of Some k \<Rightarrow> of_nat k | None \<Rightarrow> 0xffff) [0..<AGNUS_SLOTS_PER_LINE]"

definition sched_fresh :: "(u16 \<times> refresh_dma_state option) option \<Rightarrow> agnus_slot_scheduler \<Rightarrow> bool" where
  "sched_fresh l s \<longleftrightarrow> sched_ok s \<and>
     (ss_table_dirty s \<or> (\<exists>vpos refresh. l = Some (vpos, refresh) \<and> table_current s vpos refresh))"

lemma line_owner_fields:
  assumes "ss_dmacon t = ss_dmacon s" "ss_ddfstrt t = ss_ddfstrt s" "ss_ddfstop t = ss_ddfstop s"
    "ss_depth t = ss_depth s" "ss_hires t = ss_hires s" "ss_vstrt t = ss_vstrt s"
  shows "line_owner t = line_owner s" "line_slot t = line_slot s"
proof -
  have "line_slot t = line_slot s"
    unfolding fun_eq_iff line_slot_def bitplane_slot_at_def display_line_def bitplane_words_per_plane_def assms
    by (simp only: simp_thms)
  then show "line_owner t = line_owner s" "line_slot t = line_slot s"
    by (simp_all add: fun_eq_iff line_owner_def assms(1))
qed

lemma rebuild_clean: "\<not> ss_table_dirty (agnus_slot_scheduler_rebuild s vpos refresh)"
  by (simp add: agnus_slot_scheduler_rebuild_def Let_def)

lemma rebuild_current:
  assumes "sched_ok s"
  shows "sched_ok (agnus_slot_scheduler_rebuild s vpos refresh) \<and>
    table_current (agnus_slot_scheduler_rebuild s vpos refresh) vpos refresh"
proof -
  note r = rebuild_table [OF assms, of vpos refresh]
  let ?u = "s\<lparr>ss_line_is_vbl := agnus_in_vbl_zone vpos, ss_table_dirty := False\<rparr>"
  let ?t = "agnus_slot_scheduler_rebuild s vpos refresh"
  have t: "?t = ?u\<lparr>ss_table := ss_table ?t, ss_bitplane_slot_index := ss_bitplane_slot_index ?t\<rparr>"
    using r(3) by (simp add: same_config_def)
  have "line_owner ?t = line_owner s" "line_slot ?t = line_slot s"
    by (rule line_owner_fields; subst t; simp)+
  moreover have "sched_ok ?t" using assms by (subst t) (simp add: sched_ok_def)
  ultimately show ?thesis using r(1,2) by (simp add: table_current_def)
qed

lemma sched_do_fresh: "sched_fresh l s \<Longrightarrow> sched_fresh (built_for op l) (sched_do op s)"
proof (cases op)
  case (SET_DDF strt stop)
  assume "sched_fresh l s"
  moreover have "strt AND 0xfc \<le> (0xff :: u16)"
    by (rule order_trans [OF word_and_le1]) simp
  ultimately show ?thesis using SET_DDF
    by (simp add: sched_fresh_def agnus_slot_scheduler_set_ddf_def sched_ok_def)
next
  case (SET_DEPTH depth)
  assume "sched_fresh l s"
  then show ?thesis using SET_DEPTH
    by (auto simp: sched_fresh_def agnus_slot_scheduler_set_depth_def sched_ok_def Let_def word_and_le1)
next
  case (REBUILD vpos refresh)
  assume "sched_fresh l s"
  then show ?thesis using REBUILD rebuild_current [of s vpos refresh] by (simp add: sched_fresh_def)
qed (auto simp: sched_fresh_def sched_ok_def agnus_slot_scheduler_invalidate_def
    agnus_slot_scheduler_set_hires_def agnus_slot_scheduler_set_vstrt_def Let_def)

lemma sched_run_fresh: "sched_fresh l s \<Longrightarrow> sched_fresh (fold built_for ops l) (fold sched_do ops s)"
  by (induction ops arbitrary: l s) (simp_all add: sched_do_fresh)

text \<open>
  C23: No sequence of register updates and rebuilds leaves a table that is out of date
  without marking it dirty: a clean table is the one for the line and refresh state of the
  last rebuild and for the DMACON, fetch window, depth, resolution and display start as they are
  now, not as they were then.  The configuration stays within the ranges the table
  builder relies on, and a rebuild always leaves the table clean.
\<close>

theorem table_never_stale:
  "let s = fold sched_do ops (agnus_slot_scheduler_init s0)
   in sched_ok s \<and> \<not> ss_table_dirty (agnus_slot_scheduler_rebuild s vpos refresh) \<and>
      (\<not> ss_table_dirty s \<longrightarrow> (\<exists>vpos refresh. last_rebuild ops = Some (vpos, refresh) \<and>
         (\<forall>h < AGNUS_SLOTS_PER_LINE.
            ss_table s ! h = line_owner s vpos refresh h \<and>
            ss_bitplane_slot_index s ! h = (case line_slot s vpos h of Some k \<Rightarrow> of_nat k | None \<Rightarrow> 0xffff))))"
proof -
  have "sched_fresh None (agnus_slot_scheduler_init s0)"
    by (simp add: sched_fresh_def sched_ok_def agnus_slot_scheduler_init_def)
  from sched_run_fresh [OF this, of ops] show ?thesis
    by (auto simp: sched_fresh_def table_current_def last_rebuild_def rebuild_clean)
qed

theorem table_never_stale_witness:
  "map (\<lambda>h. ss_table (agnus_slot_scheduler_rebuild sched_example 100 None) ! h) [0..<AGNUS_SLOTS_PER_LINE] =
   map (line_owner (agnus_slot_scheduler_rebuild sched_example 100 None) 100 None) [0..<AGNUS_SLOTS_PER_LINE]"
proof -
  define ops where "ops = [INVALIDATE 0x03ff, SET_DDF 0x0038 0x00d0, SET_DEPTH 4, REBUILD 100 None]"
  have run: "fold sched_do ops (agnus_slot_scheduler_init sched_zero) =
      agnus_slot_scheduler_rebuild sched_example 100 None"
    by (simp add: ops_def sched_example_def)
  have "last_rebuild ops = Some (100, None)" by (simp add: ops_def last_rebuild_def)
  then show ?thesis
    using table_never_stale [of ops sched_zero 100 None] rebuild_clean [of sched_example 100 None]
    unfolding run Let_def by auto
qed

section \<open>Predictions\<close>

lemma find_upt_least:
  "find P [a..<b] = Some h \<Longrightarrow> a \<le> h \<and> h < b \<and> P h \<and> (\<forall>k. a \<le> k \<and> k < h \<longrightarrow> \<not> P k)"
  by (auto simp: find_Some_iff) (metis le_add_diff_inverse nat_add_left_cancel_less)

lemma find_upt_None: "find P [a..<b] = None \<Longrightarrow> a \<le> k \<Longrightarrow> k < b \<Longrightarrow> \<not> P k"
  by (auto simp: find_None_iff)

lemma search_exact:
  fixes hpos line_clocks :: u16 and P :: "nat \<Rightarrow> bool"
  assumes "hpos < line_clocks" and "line_clocks \<le> 227"
  defines "d \<equiv> unat (case find P [unat (hpos + 1)..<unat line_clocks] of
     Some h \<Rightarrow> of_nat h - (ucast hpos :: u32) | None \<Rightarrow> ucast line_clocks - ucast hpos)"
  shows "0 < d \<and> unat hpos + d \<le> unat line_clocks \<and>
    (\<forall>k. 0 < k \<and> k < d \<longrightarrow> \<not> P (unat hpos + k)) \<and> (unat hpos + d < unat line_clocks \<longrightarrow> P (unat hpos + d))"
proof -
  have lc: "unat hpos < unat line_clocks" "unat line_clocks \<le> 227"
    using assms by (simp_all add: word_less_nat_alt word_le_nat_alt)
  have h1: "unat (hpos + 1) = Suc (unat hpos)" using lc by (simp add: unat_inc)
  have sub: "unat (of_nat h - ucast hpos :: u32) = h - unat hpos" if "unat hpos \<le> h" "h \<le> 227" for h
  proof -
    have "unat (of_nat h :: u32) = h" using that by (intro unat_of_nat_small) simp
    moreover have "unat (ucast hpos :: u32) = unat hpos" by simp
    ultimately show ?thesis using that by (subst unat_sub) (simp_all add: word_le_nat_alt)
  qed
  show ?thesis
  proof (cases "find P [unat (hpos + 1)..<unat line_clocks]")
    case None
    have "ucast line_clocks = (of_nat (unat line_clocks) :: u32)" by simp
    then have "d = unat line_clocks - unat hpos"
      using sub [of "unat line_clocks"] lc by (simp add: d_def None)
    then show ?thesis using lc find_upt_None [OF None] h1 by auto
  next
    case (Some h)
    note f = find_upt_least [OF Some, unfolded h1]
    then have "d = h - unat hpos" using sub [of h] lc by (simp add: d_def Some)
    then show ?thesis using f lc by auto
  qed
qed

text \<open>
  C24: The predictions the host relies on to skip time are exact on a clean table and a line of at
  most 227 clocks: the
  number returned by the resume query is the distance to the first clock at which the CPU is
  no longer denied the bus, and the number returned by the event query is the distance to the
  first clock with a scheduled owner; if there is none on the line, both are the distance to the
  end of the line (never \<^verbatim>\<open>AGNUS_DEADLINE_UNKNOWN\<close>, which the header announces).
\<close>

theorem slot_predictions_exact:
  fixes sched :: agnus_slot_scheduler and line_clocks :: u16
  assumes "\<not> ss_table_dirty sched" and "ss_hpos sched < line_clocks" and "line_clocks \<le> 227"
  defines "at \<equiv> \<lambda>k. sched\<lparr>ss_hpos := ss_hpos sched + of_nat k\<rparr>"
    and "r \<equiv> unat (agnus_slot_scheduler_cpu_resume_in sched line_clocks)"
    and "e \<equiv> unat (agnus_slot_scheduler_next_event sched line_clocks)"
  shows "0 < r \<and> unat (ss_hpos sched) + r \<le> unat line_clocks \<and>
      (\<forall>k. 0 < k \<and> k < r \<longrightarrow> agnus_slot_scheduler_cpu_stall (at k)) \<and>
      (unat (ss_hpos sched) + r < unat line_clocks \<longrightarrow> \<not> agnus_slot_scheduler_cpu_stall (at r)) \<and>
    0 < e \<and> unat (ss_hpos sched) + e \<le> unat line_clocks \<and>
      (\<forall>k. 0 < k \<and> k < e \<longrightarrow> ss_table sched ! (unat (ss_hpos sched) + k) \<in> {AGNUS_SLOT_CPU, AGNUS_SLOT_FREE}) \<and>
      (unat (ss_hpos sched) + e < unat line_clocks \<longrightarrow>
        ss_table sched ! (unat (ss_hpos sched) + e) \<notin> {AGNUS_SLOT_CPU, AGNUS_SLOT_FREE})"
proof -
  define P where "P h = (let o' = slot_override sched (ss_table sched ! h)
    in o' = AGNUS_SLOT_CPU \<or> o' = AGNUS_SLOT_FREE)" for h
  have lc: "unat (ss_hpos sched) < unat line_clocks" "unat line_clocks \<le> 227"
    using assms(2,3) by (simp_all add: word_less_nat_alt word_le_nat_alt)
  have stall: "agnus_slot_scheduler_cpu_stall (at k) \<longleftrightarrow> \<not> P (unat (ss_hpos sched) + k)"
    if "unat (ss_hpos sched) + k < unat line_clocks" for k
  proof -
    have "unat (ss_hpos sched + of_nat k) = unat (ss_hpos sched) + k"
      using that lc by (simp add: unat_word_ariths unat_of_nat)
    moreover have "slot_override (at k) = slot_override sched"
      by (simp add: at_def fun_eq_iff slot_override_def)
    ultimately show ?thesis
      using that lc
      by (simp add: agnus_slot_scheduler_cpu_stall_def agnus_slot_scheduler_current_owner_def P_def Let_def at_def)
  qed
  have r: "r = unat (case find P [unat (ss_hpos sched + 1)..<unat line_clocks] of
      Some h \<Rightarrow> of_nat h - (ucast (ss_hpos sched) :: u32) | None \<Rightarrow> ucast line_clocks - ucast (ss_hpos sched))"
    using assms(1) by (simp add: r_def agnus_slot_scheduler_cpu_resume_in_def P_def [abs_def])
  note s = search_exact [OF assms(2,3), of P, folded r]
  note e = search_exact [OF assms(2,3),
    of "\<lambda>h. ss_table sched ! h \<noteq> AGNUS_SLOT_CPU \<and> ss_table sched ! h \<noteq> AGNUS_SLOT_FREE"]
  have e': "e = unat (case find (\<lambda>h. ss_table sched ! h \<noteq> AGNUS_SLOT_CPU \<and> ss_table sched ! h \<noteq> AGNUS_SLOT_FREE)
       [unat (ss_hpos sched + 1)..<unat line_clocks] of
      Some h \<Rightarrow> of_nat h - (ucast (ss_hpos sched) :: u32) | None \<Rightarrow> ucast line_clocks - ucast (ss_hpos sched))"
    using assms(1) by (simp add: e_def agnus_slot_scheduler_next_event_def)
  show ?thesis
    using s e [folded e'] stall by auto
qed

theorem slot_predictions_exact_witness:
  "unat (agnus_slot_scheduler_cpu_resume_in
     (sched_zero\<lparr>ss_table := replicate 10 AGNUS_SLOT_BITPLANE @ replicate 217 AGNUS_SLOT_FREE\<rparr>) 227) = 10"
proof -
  define s where "s = sched_zero\<lparr>ss_table := replicate 10 AGNUS_SLOT_BITPLANE @ replicate 217 AGNUS_SLOT_FREE\<rparr>"
  define r where "r = unat (agnus_slot_scheduler_cpu_resume_in s 227)"
  have hp: "ss_hpos s = 0" "\<not> ss_table_dirty s" by (simp_all add: s_def sched_zero_def)
  have stall: "agnus_slot_scheduler_cpu_stall (s\<lparr>ss_hpos := of_nat k\<rparr>) \<longleftrightarrow> k < 10" if "k < 227" for k
  proof -
    have "unat (of_nat k :: u16) = k" using that by (intro unat_of_nat_small) simp
    then show ?thesis using that
      by (simp add: s_def sched_zero_def agnus_slot_scheduler_cpu_stall_def
          agnus_slot_scheduler_current_owner_def slot_override_def nth_append)
  qed
  have p: "0 < r" "r \<le> 227" "\<And>k. 0 < k \<Longrightarrow> k < r \<Longrightarrow> agnus_slot_scheduler_cpu_stall (s\<lparr>ss_hpos := of_nat k\<rparr>)"
    "r < 227 \<Longrightarrow> \<not> agnus_slot_scheduler_cpu_stall (s\<lparr>ss_hpos := of_nat r\<rparr>)"
    using slot_predictions_exact [of s 227] hp by (simp_all add: r_def)
  have "\<not> r < 10" using p(4) stall [of r] by auto
  moreover have "\<not> 10 < r" using p(3) [of 10] stall [of 10] by auto
  ultimately have "r = 10" by simp
  then show ?thesis by (simp add: r_def s_def)
qed

end
