(* ===== verification/Floppy_Drive.thy ===== *)
theory Floppy_Drive
  imports Rigel_Prelude
begin

text \<open>
  The floppy drive mechanism, \<^verbatim>\<open>src/floppy/floppy_drive.c\<close>: selection, motor, head stepping,
  the disk change latch, the identification shift register, and the mounted image.

  Fields that hold 0 or 1 are booleans, as are the input signals, which the code tests for
  zero.  The image pointer is an optional list of bytes with the size the caller declared;
  reading beyond the list is unspecified here as it is in C.  Trace output is left out.
\<close>

unbundle bit_operations_syntax

section \<open>State\<close>

abbreviation FLOPPY_ADF_CYLINDERS :: int where "FLOPPY_ADF_CYLINDERS \<equiv> 80"

record FloppySignals =
  sig_selected :: bool
  sig_motor :: bool
  sig_step :: bool
  sig_direction :: bool
  sig_side :: bool

record FloppyDrive =
  fd_connected :: bool
  fd_selected :: bool
  fd_motor :: bool
  fd_cylinder :: int
  fd_side :: bool
  fd_ready :: bool
  fd_track0 :: bool
  fd_disk_inserted :: bool
  fd_disk_changed :: bool
  fd_write_protected :: bool
  fd_step_latch :: bool
  fd_id_data :: u32
  fd_id_count :: int
  fd_adf :: "u8 list option"
  fd_adf_size :: u32
  fd_read_offset :: u32

section \<open>Operations\<close>

definition floppy_init :: FloppyDrive where
  "floppy_init =
     \<lparr>fd_connected = False, fd_selected = False, fd_motor = False, fd_cylinder = 0, fd_side = False,
      fd_ready = False, fd_track0 = True, fd_disk_inserted = False, fd_disk_changed = True,
      fd_write_protected = True, fd_step_latch = True, fd_id_data = 0x00000000, fd_id_count = 0,
      fd_adf = None, fd_adf_size = 0, fd_read_offset = 0\<rparr>"

definition floppy_insert :: "FloppyDrive \<Rightarrow> u8 list option \<Rightarrow> u32 \<Rightarrow> FloppyDrive" where
  "floppy_insert d adf adf_size =
     d\<lparr>fd_connected := True, fd_adf := adf, fd_adf_size := adf_size,
       fd_disk_inserted := (adf \<noteq> None \<and> adf_size > 0), fd_disk_changed := True,
       fd_write_protected := True, fd_read_offset := 0\<rparr>"

definition floppy_reset :: "FloppyDrive \<Rightarrow> FloppyDrive" where
  "floppy_reset d =
     (let adf = fd_adf d; adf_size = fd_adf_size d; connected = fd_connected d;
          d = floppy_init\<lparr>fd_connected := connected\<rparr>
      in if adf \<noteq> None \<and> adf_size \<noteq> 0 then floppy_insert d adf adf_size else d)"

definition floppy_set_connected :: "FloppyDrive \<Rightarrow> bool \<Rightarrow> FloppyDrive" where
  "floppy_set_connected d connected =
     (let d = d\<lparr>fd_connected := connected\<rparr>
      in if \<not> fd_connected d then d\<lparr>fd_motor := False, fd_ready := False\<rparr> else d)"

definition floppy_eject :: "FloppyDrive \<Rightarrow> FloppyDrive" where
  "floppy_eject d =
     d\<lparr>fd_adf := None, fd_adf_size := 0, fd_disk_inserted := False, fd_disk_changed := True,
       fd_write_protected := False, fd_ready := False, fd_motor := False, fd_read_offset := 0\<rparr>"

definition floppy_has_media :: "FloppyDrive \<Rightarrow> bool" where
  "floppy_has_media d \<longleftrightarrow>
     fd_connected d \<and> fd_disk_inserted d \<and> fd_adf d \<noteq> None \<and> fd_adf_size d > 0"

definition floppy_step_motor :: "FloppyDrive \<Rightarrow> FloppySignals \<Rightarrow> FloppyDrive" where
  "floppy_step_motor d sig =
     (if sig_motor sig
      then if \<not> fd_motor d
           then d\<lparr>fd_motor := True, fd_ready := floppy_has_media d, fd_id_count := -1\<rparr>
           else d
      else if fd_motor d then d\<lparr>fd_motor := False, fd_ready := False\<rparr> else d)"

definition floppy_step_head :: "FloppyDrive \<Rightarrow> FloppySignals \<Rightarrow> FloppyDrive" where
  "floppy_step_head d sig =
     (if sig_step sig \<and> fd_step_latch d
      then let d = d\<lparr>fd_step_latch := False\<rparr>;
               d = (if sig_direction sig
                    then if fd_cylinder d > 0 then d\<lparr>fd_cylinder := fd_cylinder d - 1\<rparr> else d
                    else if fd_cylinder d < FLOPPY_ADF_CYLINDERS - 1
                         then d\<lparr>fd_cylinder := fd_cylinder d + 1\<rparr> else d)
           in d\<lparr>fd_disk_changed := \<not> floppy_has_media d\<rparr>
      else d)"

definition floppy_step :: "FloppyDrive \<Rightarrow> FloppySignals \<Rightarrow> FloppyDrive" where
  "floppy_step d sig =
     (if \<not> fd_connected d
      then d\<lparr>fd_selected := False, fd_motor := False, fd_ready := False\<rparr>
      else if \<not> sig_selected sig
      then let d = (if fd_selected d \<and> \<not> fd_motor d then d\<lparr>fd_id_count := fd_id_count d + 1\<rparr> else d)
           in d\<lparr>fd_selected := False\<rparr>
      else
        let d = d\<lparr>fd_selected := True\<rparr>;
            d = floppy_step_motor d sig;
            d = d\<lparr>fd_side := sig_side sig\<rparr>;
            d = floppy_step_head d sig;
            d = (if \<not> sig_step sig then d\<lparr>fd_step_latch := True\<rparr> else d)
        in d\<lparr>fd_track0 := (fd_cylinder d = 0)\<rparr>)"

text \<open>The bytes copied are returned; \<open>dst\<close> says whether the destination pointer is set.\<close>

definition floppy_read_linear :: "FloppyDrive \<Rightarrow> bool \<Rightarrow> u32 \<Rightarrow> u8 list \<times> FloppyDrive" where
  "floppy_read_linear d dst bytes =
     (if \<not> floppy_has_media d then ([], d)
      else if \<not> dst \<or> bytes = 0 then ([], d)
      else if fd_read_offset d \<ge> fd_adf_size d then ([], d)
      else
        let available = fd_adf_size d - fd_read_offset d;
            to_copy = (if bytes < available then bytes else available)
        in (map (\<lambda>i. the (fd_adf d) ! (unat (fd_read_offset d) + i)) [0..<unat to_copy],
            d\<lparr>fd_read_offset := fd_read_offset d + to_copy, fd_disk_changed := False\<rparr>))"

definition floppy_get_ready :: "FloppyDrive \<Rightarrow> bool" where
  "floppy_get_ready d = (if \<not> fd_connected d then False else fd_ready d)"

definition floppy_get_track0 :: "FloppyDrive \<Rightarrow> bool" where
  "floppy_get_track0 d = (if \<not> fd_connected d then False else fd_track0 d)"

definition floppy_get_dskchg :: "FloppyDrive \<Rightarrow> bool \<Rightarrow> bool" where
  "floppy_get_dskchg d motor_on = (if \<not> fd_connected d then True else \<not> fd_disk_changed d)"

definition floppy_get_wpro :: "FloppyDrive \<Rightarrow> bool" where
  "floppy_get_wpro d =
     (if \<not> fd_connected d then True
      else if \<not> floppy_has_media d then True else \<not> fd_write_protected d)"

definition floppy_get_idbit :: "FloppyDrive \<Rightarrow> bool" where
  "floppy_get_idbit d =
     (if \<not> fd_connected d then False
      else drop_bit (nat (31 - (fd_id_count d AND 31))) (fd_id_data d) AND 1 \<noteq> 0)"

lemmas floppy_step_defs = floppy_step_def floppy_step_motor_def floppy_step_head_def

section \<open>Reachable drives\<close>

inductive floppy_reachable :: "FloppyDrive \<Rightarrow> bool" where
  init: "floppy_reachable floppy_init"
| reset: "floppy_reachable d \<Longrightarrow> floppy_reachable (floppy_reset d)"
| connect: "floppy_reachable d \<Longrightarrow> floppy_reachable (floppy_set_connected d c)"
| insert: "floppy_reachable d \<Longrightarrow> floppy_reachable (floppy_insert d adf n)"
| eject: "floppy_reachable d \<Longrightarrow> floppy_reachable (floppy_eject d)"
| step: "floppy_reachable d \<Longrightarrow> floppy_reachable (floppy_step d sig)"
| read: "floppy_reachable d \<Longrightarrow> floppy_reachable (snd (floppy_read_linear d dst n))"

definition floppy_ok :: "FloppyDrive \<Rightarrow> bool" where
  "floppy_ok d \<longleftrightarrow> 0 \<le> fd_cylinder d \<and> fd_cylinder d < FLOPPY_ADF_CYLINDERS \<and>
     (fd_track0 d \<longleftrightarrow> fd_cylinder d = 0) \<and> (fd_ready d \<longrightarrow> fd_motor d) \<and>
     (fd_motor d \<longrightarrow> fd_connected d) \<and>
     fd_disk_inserted d = (fd_adf d \<noteq> None \<and> fd_adf_size d > 0) \<and>
     fd_read_offset d \<le> fd_adf_size d \<and>
     (\<not> fd_disk_changed d \<longrightarrow> fd_disk_inserted d)"

lemma floppy_ok_step: "floppy_ok d \<Longrightarrow> floppy_ok (floppy_step d sig)"
  by (cases "sig_motor sig"; cases "fd_motor d"; cases "sig_step sig"; cases "fd_step_latch d")
    (auto simp: floppy_ok_def floppy_step_defs floppy_has_media_def Let_def)

lemma floppy_ok_read: "floppy_ok d \<Longrightarrow> floppy_ok (snd (floppy_read_linear d dst n))"
proof -
  assume ok: "floppy_ok d"
  have "fd_read_offset d + (if n < a then n else a) \<le> fd_adf_size d"
    if "a = fd_adf_size d - fd_read_offset d" "fd_read_offset d \<le> fd_adf_size d" for a
  proof -
    have "fd_read_offset d + a = fd_adf_size d" using that(1) by simp
    moreover have "fd_read_offset d + (if n < a then n else a) \<le> fd_read_offset d + a"
      using that(2) \<open>fd_read_offset d + a = fd_adf_size d\<close> by (intro word_plus_mono_right) auto
    ultimately show ?thesis by simp
  qed
  then show ?thesis using ok
    by (auto simp: floppy_ok_def floppy_read_linear_def floppy_has_media_def Let_def)
qed

text \<open>
  C34: In every state a drive can reach, the head is on one of the eighty cylinders, the
  track 0 sensor shows cylinder 0, the ready line is active only with the motor on, the motor
  only runs on a connected drive, the media flag agrees with the mounted image, the read
  cursor stays within it, and the change latch is only ever released with a disk in the drive.
\<close>

theorem floppy_reachable_ok:
  assumes "floppy_reachable d"
  shows "0 \<le> fd_cylinder d \<and> fd_cylinder d < FLOPPY_ADF_CYLINDERS \<and>
     (fd_track0 d \<longleftrightarrow> fd_cylinder d = 0) \<and> (fd_ready d \<longrightarrow> fd_motor d) \<and>
     (fd_motor d \<longrightarrow> fd_connected d) \<and>
     fd_disk_inserted d = (fd_adf d \<noteq> None \<and> fd_adf_size d > 0) \<and>
     fd_read_offset d \<le> fd_adf_size d \<and>
     (\<not> fd_disk_changed d \<longrightarrow> fd_disk_inserted d)"
proof -
  from assms have "floppy_ok d"
  proof (induction rule: floppy_reachable.induct)
    case (step d sig)
    then show ?case by (intro floppy_ok_step)
  next
    case (read d dst n)
    then show ?case by (intro floppy_ok_read)
  qed (auto simp: floppy_ok_def floppy_init_def floppy_reset_def floppy_set_connected_def
      floppy_insert_def floppy_eject_def Let_def)
  then show ?thesis unfolding floppy_ok_def .
qed

definition drive_signal :: "bool \<Rightarrow> bool \<Rightarrow> bool \<Rightarrow> bool \<Rightarrow> FloppySignals" where
  "drive_signal selected motor step direction =
     \<lparr>sig_selected = selected, sig_motor = motor, sig_step = step, sig_direction = direction,
      sig_side = False\<rparr>"

theorem floppy_reachable_ok_witness:
  "let d = floppy_step (floppy_step (floppy_insert floppy_init (Some [0xab]) 1)
             (drive_signal True True False False)) (drive_signal True True True False)
   in fd_ready d \<and> fd_cylinder d = 1 \<and> \<not> fd_disk_changed d \<and> fd_cylinder d < 80 \<and>
     (fd_ready d \<longrightarrow> fd_motor d)"
proof -
  let ?d = "floppy_step (floppy_step (floppy_insert floppy_init (Some [0xab]) 1)
             (drive_signal True True False False)) (drive_signal True True True False)"
  have "floppy_reachable ?d" by (intro floppy_reachable.intros)
  from floppy_reachable_ok [OF this] show ?thesis
    by (simp add: floppy_step_defs floppy_insert_def floppy_init_def drive_signal_def
        floppy_has_media_def Let_def)
qed

section \<open>Seeking\<close>

definition head_move :: "bool \<Rightarrow> int \<Rightarrow> int" where
  "head_move direction c =
     (if direction then (if c > 0 then c - 1 else c)
      else if c < FLOPPY_ADF_CYLINDERS - 1 then c + 1 else c)"

lemma floppy_step_selected:
  fixes d :: FloppyDrive and sig :: FloppySignals
  assumes "fd_connected d" and "sig_selected sig"
  defines "t \<equiv> floppy_step d sig" and "moved \<equiv> sig_step sig \<and> fd_step_latch d"
  shows "fd_connected t" "floppy_has_media t = floppy_has_media d"
    "fd_cylinder t = (if moved then head_move (sig_direction sig) (fd_cylinder d) else fd_cylinder d)"
    "fd_step_latch t = (\<not> sig_step sig)"
    "fd_disk_changed t = (if moved then \<not> floppy_has_media d else fd_disk_changed d)"
    "fd_track0 t = (fd_cylinder t = 0)" "fd_id_data t = fd_id_data d" "fd_selected t"
    "fd_motor t = sig_motor sig"
    "fd_id_count t = (if sig_motor sig \<and> \<not> fd_motor d then -1 else fd_id_count d)"
  using assms(1,2)
  by (simp_all add: t_def moved_def floppy_step_defs Let_def floppy_has_media_def head_move_def)

text \<open>
  A train of step pulses: pulse \<open>(a, b)\<close> holds the step line active for \<open>a + 1\<close> evaluations
  of the drive and inactive for \<open>b + 1\<close>.
\<close>

fun step_train :: "bool \<Rightarrow> bool \<Rightarrow> (nat \<times> nat) list \<Rightarrow> FloppySignals list" where
  "step_train motor direction [] = []"
| "step_train motor direction ((a, b) # ps) =
     replicate (Suc a) (drive_signal True motor True direction) @
     replicate (Suc b) (drive_signal True motor False direction) @ step_train motor direction ps"

definition drive_run :: "FloppyDrive \<Rightarrow> FloppySignals list \<Rightarrow> FloppyDrive" where
  "drive_run = foldl floppy_step"

lemma drive_run_simps [simp]:
  "drive_run d [] = d" "drive_run d (s # ss) = drive_run (floppy_step d s) ss"
  "drive_run d (ss @ ts) = drive_run (drive_run d ss) ts"
  by (simp_all add: drive_run_def)

lemma drive_signal_simps [simp]:
  "sig_selected (drive_signal sel m st dir) = sel" "sig_motor (drive_signal sel m st dir) = m"
  "sig_step (drive_signal sel m st dir) = st" "sig_direction (drive_signal sel m st dir) = dir"
  by (simp_all add: drive_signal_def)

lemma hold_step:
  fixes d :: FloppyDrive and m dir :: bool and n :: nat
  assumes "fd_connected d" and "st \<Longrightarrow> \<not> fd_step_latch d" and "\<not> st \<Longrightarrow> fd_step_latch d"
    and "fd_track0 d = (fd_cylinder d = 0)"
  defines "t \<equiv> drive_run d (replicate n (drive_signal True m st dir))"
  shows "fd_connected t \<and> floppy_has_media t = floppy_has_media d \<and> fd_cylinder t = fd_cylinder d \<and>
    fd_step_latch t = fd_step_latch d \<and> fd_disk_changed t = fd_disk_changed d \<and>
    fd_track0 t = (fd_cylinder t = 0)"
  unfolding t_def using assms(1-4)
proof (induction n arbitrary: d)
  case (Suc n)
  from Suc.IH [of "floppy_step d (drive_signal True m st dir)"] Suc.prems show ?case
    by (cases st) (simp_all add: floppy_step_selected)
qed simp

lemma one_pulse:
  fixes d :: FloppyDrive and m dir :: bool and a b :: nat
  assumes "fd_connected d" and "fd_step_latch d"
  defines "t \<equiv> drive_run d (replicate (Suc a) (drive_signal True m True dir) @
    replicate (Suc b) (drive_signal True m False dir))"
  shows "fd_connected t \<and> floppy_has_media t = floppy_has_media d \<and>
    fd_cylinder t = head_move dir (fd_cylinder d) \<and> fd_step_latch t \<and>
    fd_disk_changed t = (\<not> floppy_has_media d) \<and> fd_track0 t = (fd_cylinder t = 0)"
proof -
  define d1 where "d1 = floppy_step d (drive_signal True m True dir)"
  define d2 where "d2 = drive_run d1 (replicate a (drive_signal True m True dir))"
  define d3 where "d3 = floppy_step d2 (drive_signal True m False dir)"
  have t: "t = drive_run d3 (replicate b (drive_signal True m False dir))"
    by (simp add: t_def d3_def d2_def d1_def)
  note s1 = floppy_step_selected [OF assms(1), of "drive_signal True m True dir", simplified, folded d1_def]
  note s2 = hold_step [of d1 True a m dir, folded d2_def]
  have c2: "fd_connected d2" using s1 s2 by simp
  note s3 = floppy_step_selected [OF c2, of "drive_signal True m False dir", simplified, folded d3_def]
  note s4 = hold_step [of d3 False b m dir, folded t]
  show ?thesis using s1 s2 s3 s4 assms(2) by simp
qed

text \<open>
  C33: A train of step pulses moves the head by exactly one cylinder per pulse, however often
  the drive is evaluated while the step line is active or inactive, and stops at cylinders 0
  and 79; the change latch is released by the first pulse exactly if there is a disk.
\<close>

theorem head_seek:
  assumes "fd_connected d" and "fd_step_latch d" and "0 \<le> fd_cylinder d" and "fd_cylinder d < 80"
  shows "fd_cylinder (drive_run d (step_train motor direction ps)) =
      (if direction then max 0 (fd_cylinder d - int (length ps))
       else min 79 (fd_cylinder d + int (length ps))) \<and>
    (ps \<noteq> [] \<longrightarrow>
      fd_track0 (drive_run d (step_train motor direction ps)) =
        (fd_cylinder (drive_run d (step_train motor direction ps)) = 0) \<and>
      fd_disk_changed (drive_run d (step_train motor direction ps)) = (\<not> floppy_has_media d))"
  using assms
proof (induction ps arbitrary: d)
  case Nil
  then show ?case by simp
next
  case (Cons p ps)
  obtain a b where p: "p = (a, b)" by fastforce
  define t where "t = drive_run d (replicate (Suc a) (drive_signal True motor True direction) @
    replicate (Suc b) (drive_signal True motor False direction))"
  note o' = one_pulse [OF Cons.prems(1,2), of a motor direction b, folded t_def]
  have run: "drive_run d (step_train motor direction (p # ps)) = drive_run t (step_train motor direction ps)"
    by (simp add: p t_def)
  have c: "0 \<le> fd_cylinder t" "fd_cylinder t < 80"
    using o' Cons.prems(3,4) by (auto simp: head_move_def)
  have ih: "fd_cylinder (drive_run t (step_train motor direction ps)) =
      (if direction then max 0 (fd_cylinder t - int (length ps)) else min 79 (fd_cylinder t + int (length ps)))"
    and ih2: "ps \<noteq> [] \<longrightarrow> fd_track0 (drive_run t (step_train motor direction ps)) =
        (fd_cylinder (drive_run t (step_train motor direction ps)) = 0) \<and>
      fd_disk_changed (drive_run t (step_train motor direction ps)) = (\<not> floppy_has_media t)"
    using Cons.IH [of t] o' c by blast+
  have "fd_cylinder (drive_run t (step_train motor direction ps)) =
      (if direction then max 0 (fd_cylinder d - int (length (p # ps)))
       else min 79 (fd_cylinder d + int (length (p # ps))))"
    using ih o' Cons.prems(3,4) by (auto simp: head_move_def)
  then show ?case unfolding run using ih2 o' by (cases "ps = []") auto
qed

theorem head_seek_witness:
  "fd_cylinder (drive_run (floppy_insert floppy_init (Some [0xab]) 1)
     (step_train True False [(2, 0), (0, 3), (1, 1)])) = 3 \<and>
   \<not> fd_disk_changed (drive_run (floppy_insert floppy_init (Some [0xab]) 1)
     (step_train True False [(2, 0), (0, 3), (1, 1)]))"
  using head_seek [of "floppy_insert floppy_init (Some [0xab]) 1" True False "[(2, 0), (0, 3), (1, 1)]"]
  by (simp add: floppy_insert_def floppy_init_def floppy_has_media_def)

section \<open>Drive identification\<close>

text \<open>Select with the motor off, and release; the host samples the line while selected.\<close>

abbreviation id_select :: FloppySignals where "id_select \<equiv> drive_signal True False False False"
abbreviation id_release :: FloppySignals where "id_release \<equiv> drive_signal False False False False"
abbreviation id_motor_on :: FloppySignals where "id_motor_on \<equiv> drive_signal True True False False"

fun id_scan :: "FloppyDrive \<Rightarrow> nat \<Rightarrow> bool list" where
  "id_scan d 0 = []"
| "id_scan d (Suc n) =
     (let d = floppy_step d id_select
      in floppy_get_idbit d # id_scan (floppy_step d id_release) n)"

lemma floppy_step_release:
  assumes "fd_connected d"
  shows "floppy_step d id_release = d\<lparr>fd_selected := False,
    fd_id_count := (if fd_selected d \<and> \<not> fd_motor d then fd_id_count d + 1 else fd_id_count d)\<rparr>"
  using assms by (simp add: floppy_step_def Let_def)

lemma id_scan_bits:
  assumes "fd_connected d" and "\<not> fd_motor d" and "fd_id_count d = int k" and "k + n \<le> 32"
  shows "id_scan d n = map (\<lambda>i. bit (fd_id_data d) (31 - i)) [k..<k + n]"
  using assms
proof (induction n arbitrary: d k)
  case (Suc n)
  note s = floppy_step_selected [OF Suc.prems(1), of id_select, simplified]
  note r = floppy_step_release [OF s(1), simplified]
  have k: "int k AND 31 = int k"
    using Suc.prems(4) take_bit_eq_mask [of 5 "int k"] by (simp add: mask_eq_exp_minus_1 take_bit_int_eq_self)
  have b: "floppy_get_idbit (floppy_step d id_select) = bit (fd_id_data d) (31 - k)"
    using Suc.prems s k by (simp add: floppy_get_idbit_def nat_diff_distrib' bit_iff_and_drop_bit_eq_1 and_one_eq odd_iff_mod_2_eq_one)
  have "id_scan (floppy_step (floppy_step d id_select) id_release) n =
      map (\<lambda>i. bit (fd_id_data d) (31 - i)) [Suc k..<Suc k + n]"
    using Suc.IH [of "floppy_step (floppy_step d id_select) id_release" "Suc k"] Suc.prems s r by simp
  moreover have "[k..<k + Suc n] = k # [Suc k..<Suc k + n]" by (simp add: upt_conv_Cons del: upt_Suc)
  ultimately show ?case using b by (simp only: id_scan.simps Let_def list.map)
qed simp

text \<open>
  After the host switches the motor on and off and releases the drive, the next
  thirty-two select cycles present the thirty-two bits of the drive's identification word on
  the ready line, most significant bit first.
\<close>

theorem drive_id_sequence:
  assumes "fd_connected d" and "\<not> fd_motor d"
  shows "id_scan (drive_run d [id_motor_on, id_select, id_release]) 32 =
    map (\<lambda>i. bit (fd_id_data d) (31 - i)) [0..<32]"
proof -
  define d1 where "d1 = floppy_step d id_motor_on"
  define d2 where "d2 = floppy_step d1 id_select"
  have d1: "fd_connected d1" "fd_id_count d1 = -1" "fd_id_data d1 = fd_id_data d"
    using assms by (simp_all add: d1_def floppy_step_selected)
  have d2: "fd_connected d2" "fd_id_count d2 = -1" "fd_id_data d2 = fd_id_data d" "fd_selected d2" "\<not> fd_motor d2"
    using d1 by (simp_all add: d2_def floppy_step_selected)
  have "id_scan (floppy_step d2 id_release) 32 =
      map (\<lambda>i. bit (fd_id_data (floppy_step d2 id_release)) (31 - i)) [0..<0 + 32]"
    using d2 by (intro id_scan_bits) (simp_all add: floppy_step_release)
  then show ?thesis using d2 by (simp add: d1_def [symmetric] d2_def [symmetric] floppy_step_release)
qed

theorem drive_id_sequence_witness:
  "take 4 (id_scan (drive_run (floppy_init\<lparr>fd_connected := True, fd_id_data := 0xAAAAAAAA\<rparr>)
     [id_motor_on, id_select, id_release]) 32) = [True, False, True, False]"
  by (subst drive_id_sequence)
    (simp_all add: floppy_init_def take_map upt_conv_Cons bit_iff_and_drop_bit_eq_1)

end
