(* ===== verification/Paula_Disk.thy ===== *)
theory Paula_Disk
  imports Custom_Space Floppy_Drive Floppy_Mfm
begin

text \<open>
  Paula's disk controller (\<^verbatim>\<open>src/chipset/paula/disk.c\<close>) with its domain wrapper
  \<^verbatim>\<open>src/domains/disk/disk_domain.c\<close>: the DSKLEN arming protocol, the track buffer filled by
  the MFM encoder, the word transfers granted by Agnus, and the completion interrupts.

  The attached drive is a pointer into the chipset's array of drives; it is an index here,
  and the operations that follow it take the array.  The interrupt sink may be null: \<open>dk_irq\<close>
  says whether it is set, and the operations return the masks they raise in order.  The
  environment switch that silences the sync interrupt is the argument \<open>dsksyn\<close>.  Trace output
  and the counters that only feed it are left out.
\<close>

unbundle bit_operations_syntax

section \<open>State\<close>

abbreviation RIGEL_PAULA_DSKLEN_DMAEN :: u16 where "RIGEL_PAULA_DSKLEN_DMAEN \<equiv> 0x8000"
abbreviation RIGEL_PAULA_DSKLEN_WRITE :: u16 where "RIGEL_PAULA_DSKLEN_WRITE \<equiv> 0x4000"
abbreviation RIGEL_PAULA_DSKLEN_LEN :: u16 where "RIGEL_PAULA_DSKLEN_LEN \<equiv> 0x3fff"
abbreviation RIGEL_PAULA_DSKBYTR_DMAON :: u16 where "RIGEL_PAULA_DSKBYTR_DMAON \<equiv> 0x2000"
abbreviation RIGEL_PAULA_DSKBYTR_WORDSYNC :: u16 where "RIGEL_PAULA_DSKBYTR_WORDSYNC \<equiv> 0x0800"
abbreviation RIGEL_PAULA_ADKCON_SETCLR :: u16 where "RIGEL_PAULA_ADKCON_SETCLR \<equiv> 0x8000"
abbreviation RIGEL_PAULA_ADKCON_WORDSYNC :: u16 where "RIGEL_PAULA_ADKCON_WORDSYNC \<equiv> 0x0400"
abbreviation RIGEL_PAULA_DISK_FAKE_DMA_CYCLES :: u32 where
  "RIGEL_PAULA_DISK_FAKE_DMA_CYCLES \<equiv> 46000"
abbreviation RIGEL_FLOPPY_MFM_TRACK_BYTES_PAL :: nat where
  "RIGEL_FLOPPY_MFM_TRACK_BYTES_PAL \<equiv> 13630"
abbreviation AMIGA_TRACK_SIZE :: u32 where "AMIGA_TRACK_SIZE \<equiv> 5632"

record 'm disk_state =
  dk_dskptr :: u32
  dk_dsklen :: u16
  dk_dskbytr :: u16
  dk_dskdatr :: u16
  dk_dsksync :: u16
  dk_adkcon :: u16
  dk_dma_active :: bool
  dk_dma_armed :: bool
  dk_write_mode :: bool
  dk_sync_seen :: bool
  dk_sync_irq_fired :: bool
  dk_dskbytr_data :: u16
  dk_armed_dsklen :: u16
  dk_countdown :: u32
  dk_dma_ptr_base :: u32
  dk_dma_bytes_total :: u32
  dk_dma_bytes_done :: u32
  dk_dma_src_offset :: u32
  dk_dma_track_len :: u32
  dk_dma_fill_word :: u16
  dk_dma_track_buf :: "u8 list"
  dk_drive :: "nat option"
  dk_chip_ram :: "'m rigel_chip_ram_if"
  dk_irq :: bool

section \<open>Helpers\<close>

definition disk_read_be16 :: "u8 list \<Rightarrow> nat \<Rightarrow> u16" where
  "disk_read_be16 src i = push_bit 8 (ucast (src ! i)) OR ucast (src ! Suc i)"

definition disk_track_offset :: "FloppyDrive option \<Rightarrow> u32" where
  "disk_track_offset drive =
     (case drive of None \<Rightarrow> 0
      | Some d \<Rightarrow> (push_bit 1 (word_of_int (fd_cylinder d)) OR (if fd_side d then 1 else 0)) *
                  AMIGA_TRACK_SIZE)"

definition disk_track_find_sync :: "u8 list \<Rightarrow> u32 \<Rightarrow> u16 \<Rightarrow> u32" where
  "disk_track_find_sync src len sync =
     (if len < 2 then len
      else case find (\<lambda>i. disk_read_be16 src i = sync) [0..<unat len - 1] of
             Some i \<Rightarrow> of_nat i | None \<Rightarrow> len)"

definition disk_emit_irq :: "'m disk_state \<Rightarrow> u16 \<Rightarrow> u16 list" where
  "disk_emit_irq disk msk = (if \<not> dk_irq disk then [] else [msk])"

definition disk_maybe_emit_sync :: "bool \<Rightarrow> 'm disk_state \<Rightarrow> 'm disk_state \<times> u16 list" where
  "disk_maybe_emit_sync dsksyn disk =
     (if \<not> dk_sync_seen disk then (disk, [])
      else if dk_adkcon disk AND RIGEL_PAULA_ADKCON_WORDSYNC = 0 then (disk, [])
      else if dk_sync_irq_fired disk then (disk, [])
      else (disk\<lparr>dk_sync_irq_fired := True\<rparr>, if dsksyn then disk_emit_irq disk 0x1000 else []))"

definition disk_load_dskbytr :: "'m disk_state \<Rightarrow> u16 \<Rightarrow> 'm disk_state" where
  "disk_load_dskbytr disk word =
     disk\<lparr>dk_dskbytr_data := 0x8000 OR (word AND 0x00ff), dk_dskdatr := word\<rparr>"

section \<open>Registers\<close>

definition disk_reset :: "'m disk_state \<Rightarrow> 'm disk_state" where
  "disk_reset disk =
     disk\<lparr>dk_dskptr := 0, dk_dsklen := 0, dk_dskbytr := 0, dk_dskdatr := 0, dk_dsksync := 0x4489,
          dk_adkcon := 0, dk_dma_active := False, dk_dma_armed := False, dk_write_mode := False,
          dk_sync_seen := False, dk_sync_irq_fired := False, dk_dskbytr_data := 0,
          dk_armed_dsklen := 0, dk_countdown := 0, dk_dma_ptr_base := 0, dk_dma_bytes_total := 0,
          dk_dma_bytes_done := 0, dk_dma_src_offset := 0, dk_dma_track_len := 0,
          dk_dma_fill_word := 0\<rparr>"

definition disk_set_irq_sink :: "'m disk_state \<Rightarrow> bool \<Rightarrow> 'm disk_state" where
  "disk_set_irq_sink disk sink = disk\<lparr>dk_irq := sink\<rparr>"

definition disk_set_memory_if :: "'m disk_state \<Rightarrow> 'm rigel_chip_ram_if \<Rightarrow> 'm disk_state" where
  "disk_set_memory_if disk chip_ram = disk\<lparr>dk_chip_ram := chip_ram\<rparr>"

definition disk_set_drive :: "'m disk_state \<Rightarrow> nat option \<Rightarrow> 'm disk_state" where
  "disk_set_drive disk drive = disk\<lparr>dk_drive := drive\<rparr>"

definition disk_write_dskpth :: "'m disk_state \<Rightarrow> u16 \<Rightarrow> 'm disk_state" where
  "disk_write_dskpth disk value = disk\<lparr>dk_dskptr := ptr_set_hi (dk_dskptr disk) value\<rparr>"

definition disk_write_dskptl :: "'m disk_state \<Rightarrow> u16 \<Rightarrow> 'm disk_state" where
  "disk_write_dskptl disk value = disk\<lparr>dk_dskptr := ptr_set_lo (dk_dskptr disk) value\<rparr>"

definition disk_write_dsksync :: "bool \<Rightarrow> 'm disk_state \<Rightarrow> u16 \<Rightarrow> 'm disk_state \<times> u16 list" where
  "disk_write_dsksync dsksyn disk value =
     disk_maybe_emit_sync dsksyn (disk\<lparr>dk_dsksync := value, dk_sync_irq_fired := False\<rparr>)"

definition disk_write_adkcon :: "bool \<Rightarrow> 'm disk_state \<Rightarrow> u16 \<Rightarrow> 'm disk_state \<times> u16 list" where
  "disk_write_adkcon dsksyn disk value =
     (let bits = value AND 0x7fff
      in disk_maybe_emit_sync dsksyn
           (if value AND RIGEL_PAULA_ADKCON_SETCLR \<noteq> 0
            then disk\<lparr>dk_adkcon := dk_adkcon disk OR bits\<rparr>
            else disk\<lparr>dk_adkcon := dk_adkcon disk AND NOT bits\<rparr>))"

definition disk_start_reset :: "'m disk_state \<Rightarrow> u16 \<Rightarrow> 'm disk_state" where
  "disk_start_reset disk value =
     disk\<lparr>dk_dsklen := value, dk_write_mode := (value AND RIGEL_PAULA_DSKLEN_WRITE \<noteq> 0),
          dk_dma_active := True, dk_dma_armed := False, dk_sync_seen := False,
          dk_sync_irq_fired := False, dk_dskbytr_data := 0, dk_countdown := 0,
          dk_dskbytr := (dk_dskbytr disk OR RIGEL_PAULA_DSKBYTR_DMAON) AND
                        NOT RIGEL_PAULA_DSKBYTR_WORDSYNC,
          dk_dskdatr := 0, dk_dma_ptr_base := dk_dskptr disk, dk_dma_bytes_total := 0,
          dk_dma_bytes_done := 0, dk_dma_src_offset := 0, dk_dma_track_len := 0,
          dk_dma_fill_word := 0\<rparr>"

definition disk_start_track ::
    "bool \<Rightarrow> FloppyDrive \<Rightarrow> 'm disk_state \<Rightarrow> u32 \<Rightarrow> 'm disk_state \<times> u16 list" where
  "disk_start_track dsksyn drive disk len_words =
     (let adf_offset = disk_track_offset (Some drive)
      in if adf_offset \<ge> fd_adf_size drive \<or> AMIGA_TRACK_SIZE > fd_adf_size drive - adf_offset
         then (disk\<lparr>dk_countdown := RIGEL_PAULA_DISK_FAKE_DMA_CYCLES\<rparr>, [])
         else
           let track = adf_offset div AMIGA_TRACK_SIZE;
               (ok, buf) = floppy_mfm_encode_track (dk_dma_track_buf disk)
                             (drop (unat adf_offset) (the (fd_adf drive))) track
                             (of_nat AMIGA_SECTORS_PER_TRACK);
               disk = disk\<lparr>dk_dma_track_buf := buf\<rparr>
           in if \<not> ok then (disk\<lparr>dk_countdown := RIGEL_PAULA_DISK_FAKE_DMA_CYCLES\<rparr>, [])
              else
                let disk = disk\<lparr>dk_dma_track_len := of_nat RIGEL_FLOPPY_MFM_TRACK_BYTES_PAL\<rparr>;
                    sync_offset = disk_track_find_sync buf (dk_dma_track_len disk) (dk_dsksync disk);
                    found = sync_offset + 1 < dk_dma_track_len disk;
                    disk = (if found then disk_load_dskbytr disk (disk_read_be16 buf (unat sync_offset))
                            else disk);
                    disk = (if dk_adkcon disk AND RIGEL_PAULA_ADKCON_WORDSYNC \<noteq> 0 \<and> found
                            then disk\<lparr>dk_dma_src_offset := sync_offset\<rparr>
                            else disk\<lparr>dk_dma_src_offset := 0\<rparr>);
                    (disk, irqs) = disk_maybe_emit_sync dsksyn (disk\<lparr>dk_sync_seen := found\<rparr>)
                in (disk\<lparr>dk_dma_bytes_total := push_bit 1 len_words\<rparr>, irqs))"

definition disk_start_dma ::
    "bool \<Rightarrow> FloppyDrive list \<Rightarrow> 'm disk_state \<Rightarrow> u16 \<Rightarrow> 'm disk_state \<times> u16 list" where
  "disk_start_dma dsksyn floppy disk value =
     (let len_words = ucast (value AND RIGEL_PAULA_DSKLEN_LEN) :: u32;
          disk = disk_start_reset disk value
      in if dk_write_mode disk \<or> len_words = 0 then (disk, [])
         else case dk_drive disk of
                None \<Rightarrow> (disk\<lparr>dk_countdown := RIGEL_PAULA_DISK_FAKE_DMA_CYCLES\<rparr>, [])
              | Some i \<Rightarrow>
                  if \<not> floppy_has_media (floppy ! i)
                  then (disk\<lparr>dk_countdown := RIGEL_PAULA_DISK_FAKE_DMA_CYCLES\<rparr>, [])
                  else disk_start_track dsksyn (floppy ! i) disk len_words)"

definition disk_write_dsklen ::
    "bool \<Rightarrow> FloppyDrive list \<Rightarrow> 'm disk_state \<Rightarrow> u16 \<Rightarrow> 'm disk_state \<times> u16 list" where
  "disk_write_dsklen dsksyn floppy disk value =
     (if value AND RIGEL_PAULA_DSKLEN_DMAEN = 0
      then (disk\<lparr>dk_dsklen := value, dk_dma_active := False, dk_dma_armed := False,
                 dk_armed_dsklen := 0, dk_countdown := 0, dk_sync_seen := False,
                 dk_sync_irq_fired := False, dk_dskbytr_data := 0,
                 dk_dskbytr := dk_dskbytr disk AND NOT RIGEL_PAULA_DSKBYTR_DMAON\<rparr>, [])
      else if \<not> dk_dma_armed disk
      then (disk\<lparr>dk_dsklen := value, dk_armed_dsklen := value, dk_dma_armed := True\<rparr>, [])
      else disk_start_dma dsksyn floppy disk value)"

definition disk_read_dskbytr :: "'m disk_state \<Rightarrow> u16 \<times> 'm disk_state" where
  "disk_read_dskbytr disk =
     (let value = dk_dskbytr_data disk AND 0x80ff;
          value = (if dk_sync_seen disk then value OR RIGEL_PAULA_DSKBYTR_WORDSYNC else value);
          value = (if dk_dma_active disk then value OR RIGEL_PAULA_DSKBYTR_DMAON else value)
      in (value, disk\<lparr>dk_dskbytr_data := dk_dskbytr_data disk AND NOT 0x8000\<rparr>))"

definition disk_read_dskdatr :: "'m disk_state \<Rightarrow> u16" where
  "disk_read_dskdatr disk = dk_dskdatr disk"

section \<open>Time and transfers\<close>

definition disk_finish :: "'m disk_state \<Rightarrow> 'm disk_state" where
  "disk_finish disk =
     disk\<lparr>dk_dma_active := False, dk_dma_armed := False, dk_armed_dsklen := 0, dk_sync_seen := False,
          dk_sync_irq_fired := False,
          dk_dskbytr := dk_dskbytr disk AND NOT RIGEL_PAULA_DSKBYTR_DMAON,
          dk_dsklen := dk_dsklen disk AND NOT RIGEL_PAULA_DSKLEN_DMAEN\<rparr>"

definition disk_step :: "'m disk_state \<Rightarrow> u32 \<Rightarrow> 'm disk_state \<times> u16 list" where
  "disk_step disk cycles =
     (if \<not> dk_dma_active disk \<or> dk_dma_bytes_total disk > 0 \<or> dk_countdown disk = 0 then (disk, [])
      else if dk_countdown disk > cycles
      then (disk\<lparr>dk_countdown := dk_countdown disk - cycles\<rparr>, [])
      else (disk_finish (disk\<lparr>dk_countdown := 0\<rparr>), disk_emit_irq disk 0x0002))"

definition disk_dma_wants_service :: "'m disk_state \<Rightarrow> bool" where
  "disk_dma_wants_service disk \<longleftrightarrow>
     (if \<not> dk_dma_active disk \<or> dk_write_mode disk then False
      else if dk_dma_bytes_done disk \<ge> dk_dma_bytes_total disk then False else True)"

definition disk_dma_word ::
    "bool \<Rightarrow> ('m \<Rightarrow> u32 \<Rightarrow> u16 \<Rightarrow> 'm) \<Rightarrow> 'm disk_state \<Rightarrow> 'm \<Rightarrow> 'm disk_state \<times> 'm \<times> u16 list" where
  "disk_dma_word dsksyn wr disk m =
     (let dst = dk_dma_ptr_base disk + dk_dma_bytes_done disk;
          disk = (if dk_dma_src_offset disk + 1 \<ge> dk_dma_track_len disk
                  then disk\<lparr>dk_dma_src_offset := 0\<rparr> else disk);
          word = disk_read_be16 (dk_dma_track_buf disk) (unat (dk_dma_src_offset disk));
          m = wr m dst word;
          disk = disk_load_dskbytr disk word;
          (disk, irqs) = (if word = dk_dsksync disk
                          then disk_maybe_emit_sync dsksyn (disk\<lparr>dk_sync_seen := True\<rparr>)
                          else (disk, []))
      in (disk\<lparr>dk_dma_bytes_done := dk_dma_bytes_done disk + 2,
               dk_dma_src_offset := (dk_dma_src_offset disk + 2) mod dk_dma_track_len disk\<rparr>, m, irqs))"

definition disk_dma_complete :: "bool \<Rightarrow> 'm disk_state \<Rightarrow> 'm disk_state \<times> u16 list" where
  "disk_dma_complete dsksyn disk =
     (let (disk, irqs) = (if dk_sync_seen disk
                          then disk_maybe_emit_sync dsksyn (disk\<lparr>dk_sync_irq_fired := False\<rparr>)
                          else (disk, []));
          disk = disk_finish disk;
          disk = disk\<lparr>dk_dskptr := dk_dma_ptr_base disk + dk_dma_bytes_total disk\<rparr>
      in (disk, irqs @ disk_emit_irq disk 0x0002))"

definition disk_dma_service_grant ::
    "bool \<Rightarrow> 'm disk_state \<Rightarrow> 'm \<Rightarrow> 'm disk_state \<times> 'm \<times> u16 list" where
  "disk_dma_service_grant dsksyn disk m =
     (if \<not> disk_dma_wants_service disk then (disk, m, [])
      else case write16 (dk_chip_ram disk) of None \<Rightarrow> (disk, m, [])
      | Some wr \<Rightarrow>
          if dk_dma_track_len disk < 2 then (disk, m, [])
          else
            let (disk, m, irqs) = disk_dma_word dsksyn wr disk m
            in if dk_dma_bytes_done disk < dk_dma_bytes_total disk then (disk, m, irqs)
               else let (disk, irqs') = disk_dma_complete dsksyn disk in (disk, m, irqs @ irqs'))"

definition disk_cycles_to_next_event :: "'m disk_state \<Rightarrow> u32" where
  "disk_cycles_to_next_event disk =
     (if \<not> dk_dma_active disk then 0xffffffff
      else if dk_countdown disk > 0 \<and> dk_dma_bytes_total disk = 0 then dk_countdown disk
      else 0xffffffff)"

section \<open>The disk domain\<close>

definition rigel_disk_domain_owns_reg :: "u32 \<Rightarrow> bool" where
  "rigel_disk_domain_owns_reg addr \<longleftrightarrow>
     addr \<in> {RIGEL_REG_DSKDATR, RIGEL_REG_ADKCONR, RIGEL_REG_DSKBYTR, RIGEL_REG_DSKPTH,
             RIGEL_REG_DSKPTL, RIGEL_REG_DSKLEN, RIGEL_REG_DSKSYNC, RIGEL_REG_ADKCON}"

definition rigel_disk_domain_reset :: "'m disk_state \<Rightarrow> 'm disk_state" where
  "rigel_disk_domain_reset disk = disk_reset disk"

definition rigel_disk_domain_step :: "'m disk_state \<Rightarrow> u32 \<Rightarrow> 'm disk_state \<times> u16 list" where
  "rigel_disk_domain_step disk cycles = disk_step disk cycles"

definition rigel_disk_domain_dma_wants_service :: "'m disk_state \<Rightarrow> bool" where
  "rigel_disk_domain_dma_wants_service disk = disk_dma_wants_service disk"

definition rigel_disk_domain_dma_service_grant ::
    "bool \<Rightarrow> 'm disk_state \<Rightarrow> 'm \<Rightarrow> 'm disk_state \<times> 'm \<times> u16 list" where
  "rigel_disk_domain_dma_service_grant dsksyn disk m = disk_dma_service_grant dsksyn disk m"

definition rigel_disk_domain_step_slot ::
    "bool \<Rightarrow> 'm disk_state \<Rightarrow> 'm \<Rightarrow> 'm disk_state \<times> 'm \<times> u16 list" where
  "rigel_disk_domain_step_slot dsksyn disk m =
     (if rigel_disk_domain_dma_wants_service disk
      then rigel_disk_domain_dma_service_grant dsksyn disk m else (disk, m, []))"

definition rigel_disk_domain_read_reg :: "'m disk_state \<Rightarrow> u32 \<Rightarrow> u16 \<times> 'm disk_state" where
  "rigel_disk_domain_read_reg disk addr =
     (if addr = RIGEL_REG_DSKDATR then (disk_read_dskdatr disk, disk)
      else if addr = RIGEL_REG_ADKCONR then (dk_adkcon disk, disk)
      else if addr = RIGEL_REG_DSKBYTR then disk_read_dskbytr disk
      else if addr = RIGEL_REG_DSKPTH then (ucast (drop_bit 16 (dk_dskptr disk) AND 0xffff), disk)
      else if addr = RIGEL_REG_DSKPTL then (ucast (dk_dskptr disk AND 0xffff), disk)
      else if addr = RIGEL_REG_DSKLEN then (dk_dsklen disk, disk)
      else if addr = RIGEL_REG_DSKSYNC then (dk_dsksync disk, disk)
      else (0, disk))"

definition rigel_disk_domain_write_reg ::
    "bool \<Rightarrow> FloppyDrive list \<Rightarrow> 'm disk_state \<Rightarrow> u32 \<Rightarrow> u16 \<Rightarrow> 'm disk_state \<times> u16 list" where
  "rigel_disk_domain_write_reg dsksyn floppy disk addr value =
     (if addr = RIGEL_REG_DSKPTH then (disk_write_dskpth disk value, [])
      else if addr = RIGEL_REG_DSKPTL then (disk_write_dskptl disk value, [])
      else if addr = RIGEL_REG_DSKLEN then disk_write_dsklen dsksyn floppy disk value
      else if addr = RIGEL_REG_DSKSYNC then disk_write_dsksync dsksyn disk value
      else if addr = RIGEL_REG_ADKCON then disk_write_adkcon dsksyn disk value
      else (disk, []))"

interpretation adkcon_reg:
  setclr_register "\<lambda>cur v. dk_adkcon (fst (disk_write_adkcon dsksyn (d\<lparr>dk_adkcon := cur\<rparr>) v))" 15 15
  for dsksyn :: bool and d :: "'m disk_state"
proof
  have emit: "dk_adkcon (fst (disk_maybe_emit_sync dsksyn e)) = dk_adkcon e" for e :: "'m disk_state"
    by (simp add: disk_maybe_emit_sync_def)
  show "bit (dk_adkcon (fst (disk_write_adkcon dsksyn (d\<lparr>dk_adkcon := cur\<rparr>) v))) n =
      (if n < 15 \<and> bit v n then bit v 15 else bit cur n)" for cur v n
    using setclr16_bit [of v cur n] by (auto simp: disk_write_adkcon_def Let_def emit)
qed simp

section \<open>A running transfer\<close>

text \<open>The byte position of the \<open>k\<close>-th word read from a track of \<open>len\<close> bytes, from position \<open>s\<close> on.\<close>

fun track_pos :: "nat \<Rightarrow> nat \<Rightarrow> nat \<Rightarrow> nat" where
  "track_pos len s 0 = (if s + 1 \<ge> len then 0 else s)"
| "track_pos len s (Suc k) = track_pos len ((track_pos len s 0 + 2) mod len) k"

fun disk_grants :: "bool \<Rightarrow> nat \<Rightarrow> 'm disk_state \<Rightarrow> 'm \<Rightarrow> 'm disk_state \<times> 'm \<times> u16 list" where
  "disk_grants dsksyn 0 d m = (d, m, [])"
| "disk_grants dsksyn (Suc n) d m =
     (let (d, m, irqs) = disk_dma_service_grant dsksyn d m;
          (d, m, irqs') = disk_grants dsksyn n d m
      in (d, m, irqs @ irqs'))"

text \<open>
  \<open>disk_running wr d n base buf s\<close>: \<open>n\<close> words are left, the next one goes to \<open>base\<close> and comes
  from position \<open>s\<close> of the track \<open>buf\<close>; \<open>fin\<close> is the pointer left in DSKPT at the end.
\<close>

definition disk_running ::
    "('m \<Rightarrow> u32 \<Rightarrow> u16 \<Rightarrow> 'm) \<Rightarrow> 'm disk_state \<Rightarrow> nat \<Rightarrow> u32 \<Rightarrow> u8 list \<Rightarrow> nat \<Rightarrow> u32 \<Rightarrow> bool" where
  "disk_running wr d n base buf s fin \<longleftrightarrow>
     dk_dma_active d \<and> \<not> dk_write_mode d \<and> write16 (dk_chip_ram d) = Some wr \<and> dk_irq d \<and>
     dk_dma_track_len d = 13630 \<and> unat (dk_dma_src_offset d) = s \<and> s < 13630 \<and>
     dk_dma_track_buf d = buf \<and> dk_dma_ptr_base d + dk_dma_bytes_done d = base \<and>
     dk_dma_ptr_base d + dk_dma_bytes_total d = fin \<and>
     unat (dk_dma_bytes_total d) = unat (dk_dma_bytes_done d) + 2 * n \<and>
     unat (dk_dma_bytes_total d) < 0x10000"

lemma maybe_emit_sync:
  fixes d :: "'m disk_state"
  obtains f irqs where "disk_maybe_emit_sync dsksyn d = (d\<lparr>dk_sync_irq_fired := f\<rparr>, irqs)" "2 \<notin> set irqs"
proof -
  have "disk_maybe_emit_sync dsksyn d = (d\<lparr>dk_sync_irq_fired := dk_sync_irq_fired d\<rparr>, []) \<or>
      (\<exists>irqs. disk_maybe_emit_sync dsksyn d = (d\<lparr>dk_sync_irq_fired := True\<rparr>, irqs) \<and> 2 \<notin> set irqs)"
    by (simp add: disk_maybe_emit_sync_def disk_emit_irq_def)
  then show ?thesis using that by fastforce
qed

lemma grant_running:
  assumes "disk_running wr d (Suc n) base buf s fin"
  shows "\<exists>d' irqs. disk_dma_service_grant dsksyn d m =
      (d', wr m base (disk_read_be16 buf (track_pos 13630 s 0)), irqs) \<and>
    (if n = 0 then \<not> dk_dma_active d' \<and> dk_dskptr d' = fin \<and> count_list irqs 2 = 1
     else disk_running wr d' n (base + 2) buf ((track_pos 13630 s 0 + 2) mod 13630) fin \<and>
       count_list irqs 2 = 0)"
proof -
  let ?done = "dk_dma_bytes_done d" and ?tot = "dk_dma_bytes_total d"
  note r = assms [unfolded disk_running_def]
  define d1 where "d1 = (if dk_dma_src_offset d + 1 \<ge> dk_dma_track_len d then d\<lparr>dk_dma_src_offset := 0\<rparr> else d)"
  have s1: "unat (dk_dma_src_offset d + 1) = s + 1" using r by (simp add: unat_inc)
  then have "dk_dma_src_offset d + 1 \<ge> dk_dma_track_len d \<longleftrightarrow> s + 1 \<ge> 13630"
    using r by (simp add: word_le_nat_alt)
  then have src: "unat (dk_dma_src_offset d1) = track_pos 13630 s 0" using r by (simp add: d1_def)
  define w where "w = disk_read_be16 buf (track_pos 13630 s 0)"
  obtain f irqs where e1: "(if w = dk_dsksync d then disk_maybe_emit_sync dsksyn ((disk_load_dskbytr d1 w)\<lparr>dk_sync_seen := True\<rparr>)
      else (disk_load_dskbytr d1 w, [])) =
      (d1\<lparr>dk_dskbytr_data := 0x8000 OR (w AND 0x00ff), dk_dskdatr := w,
        dk_sync_seen := dk_sync_seen d \<or> w = dk_dsksync d, dk_sync_irq_fired := f\<rparr>, irqs)" "2 \<notin> set irqs"
  proof (cases "w = dk_dsksync d")
    case True
    obtain f irqs where "disk_maybe_emit_sync dsksyn ((disk_load_dskbytr d1 w)\<lparr>dk_sync_seen := True\<rparr>) =
        (((disk_load_dskbytr d1 w)\<lparr>dk_sync_seen := True\<rparr>)\<lparr>dk_sync_irq_fired := f\<rparr>, irqs)" "2 \<notin> set irqs"
      by (rule maybe_emit_sync)
    then show ?thesis using True by (intro that [of f irqs]) (simp_all add: disk_load_dskbytr_def)
  next
    case False
    then show ?thesis
      by (intro that [of "dk_sync_irq_fired d1" "[]"]) (simp_all add: disk_load_dskbytr_def d1_def)
  qed
  define d2 where "d2 = d1\<lparr>dk_dskbytr_data := 0x8000 OR (w AND 0x00ff), dk_dskdatr := w,
        dk_sync_seen := dk_sync_seen d \<or> w = dk_dsksync d, dk_sync_irq_fired := f,
        dk_dma_bytes_done := ?done + 2, dk_dma_src_offset := (dk_dma_src_offset d1 + 2) mod 13630\<rparr>"
  have lt: "?done < ?tot" using r by (simp add: word_less_nat_alt)
  have same: "dk_dma_ptr_base d1 = dk_dma_ptr_base d" "dk_dma_bytes_done d1 = ?done" "dk_dma_bytes_total d1 = ?tot"
      "dk_dma_track_len d1 = 13630" "dk_dma_track_buf d1 = buf" "dk_dsksync d1 = dk_dsksync d"
      "dk_dma_active d1" "\<not> dk_write_mode d1" "dk_chip_ram d1 = dk_chip_ram d" "dk_irq d1"
    using r by (simp_all add: d1_def)
  have wrd: "disk_dma_word dsksyn wr d m = (d2, wr m base w, irqs)"
  proof -
    have w: "disk_read_be16 buf (unat (dk_dma_src_offset d1)) = w" by (simp add: w_def src)
    have load: "dk_dsksync (disk_load_dskbytr d1 w) = dk_dsksync d"
      by (simp add: disk_load_dskbytr_def same)
    have base: "dk_dma_ptr_base d + dk_dma_bytes_done d = base" using r by simp
    show ?thesis
      unfolding disk_dma_word_def Let_def d1_def [symmetric] same w load e1(1) base
      by (simp add: d2_def same)
  qed
  have grant: "disk_dma_service_grant dsksyn d m =
      (if ?done + 2 < ?tot then (d2, wr m base w, irqs)
       else let (d3, irqs') = disk_dma_complete dsksyn d2 in (d3, wr m base w, irqs @ irqs'))"
    using r lt by (auto simp: disk_dma_service_grant_def disk_dma_wants_service_def wrd d2_def same)
  have done2: "unat (?done + 2) = unat ?done + 2" using r by (simp add: unat_word_ariths)
  have src2: "unat ((dk_dma_src_offset d1 + 2) mod 13630) = (track_pos 13630 s 0 + 2) mod 13630"
  proof -
    have "track_pos 13630 s 0 < 13630" using r by simp
    then have "unat (dk_dma_src_offset d1 + 2) = track_pos 13630 s 0 + 2"
      unfolding src [symmetric] by (simp add: unat_word_ariths)
    then show ?thesis by (simp add: unat_mod_distrib)
  qed
  show ?thesis
  proof (cases "n = 0")
    case True
    then have ge: "\<not> ?done + 2 < ?tot" using r done2 by (simp add: word_less_nat_alt)
    obtain f' irqs' where e2: "(if dk_sync_seen d2 then disk_maybe_emit_sync dsksyn (d2\<lparr>dk_sync_irq_fired := False\<rparr>)
        else (d2, [])) = (d2\<lparr>dk_sync_irq_fired := f'\<rparr>, irqs')" "2 \<notin> set irqs'"
    proof (cases "dk_sync_seen d2")
      case True
      obtain f' irqs' where "disk_maybe_emit_sync dsksyn (d2\<lparr>dk_sync_irq_fired := False\<rparr>) =
          (d2\<lparr>dk_sync_irq_fired := False, dk_sync_irq_fired := f'\<rparr>, irqs')" "2 \<notin> set irqs'"
        by (rule maybe_emit_sync)
      then show ?thesis using True by (intro that [of f' irqs']) simp_all
    next
      case False
      then show ?thesis by (intro that [of f "[]"]) (simp_all add: d2_def)
    qed
    have "dk_dma_ptr_base d + ?tot = fin" using r by simp
    then show ?thesis
      unfolding grant disk_dma_complete_def e2(1) using ge e1(2) e2(2) True
      by (simp add: w_def disk_finish_def d2_def same disk_emit_irq_def count_notin del: track_pos.simps)
  next
    case False
    then have "?done + 2 < ?tot" using r done2 by (simp add: word_less_nat_alt)
    moreover have "disk_running wr d2 n (base + 2) buf ((track_pos 13630 s 0 + 2) mod 13630) fin"
      using r done2 src2 by (simp add: disk_running_def d2_def same add.assoc del: track_pos.simps)
    ultimately show ?thesis using grant e1(2) False by (simp add: w_def count_notin)
  qed
qed

lemma idle_grants: "\<not> dk_dma_active d \<Longrightarrow> disk_grants dsksyn n d m = (d, m, [])"
  by (induction n) (simp_all add: disk_dma_service_grant_def disk_dma_wants_service_def)

lemma disk_grants_running:
  assumes "disk_running wr d (Suc N) base buf s fin"
  shows "\<exists>d' irqs. disk_grants dsksyn n d m =
      (d', ram_stores wr (map (\<lambda>k. (base + 2 * of_nat k, disk_read_be16 buf (track_pos 13630 s k))) [0..<min n (Suc N)]) m,
       irqs) \<and>
    dk_dma_active d' = (n < Suc N) \<and> count_list irqs 2 = (if n < Suc N then 0 else 1) \<and>
    (Suc N \<le> n \<longrightarrow> dk_dskptr d' = fin)"
  using assms
proof (induction n arbitrary: N d m base s)
  case 0
  then show ?case by (simp add: disk_running_def)
next
  case (Suc n)
  obtain d1 irqs where g: "disk_dma_service_grant dsksyn d m =
      (d1, wr m base (disk_read_be16 buf (track_pos 13630 s 0)), irqs)"
    "if N = 0 then \<not> dk_dma_active d1 \<and> dk_dskptr d1 = fin \<and> count_list irqs 2 = 1
     else disk_running wr d1 N (base + 2) buf ((track_pos 13630 s 0 + 2) mod 13630) fin \<and> count_list irqs 2 = 0"
    using grant_running [OF Suc.prems] by blast
  have upt: "[0..<Suc k] = 0 # map Suc [0..<k]" for k by (simp add: upt_conv_Cons map_Suc_upt del: upt_Suc)
  show ?case
  proof (cases N)
    case 0
    then show ?thesis using g by (simp add: idle_grants del: track_pos.simps upt_Suc) (simp add: upt del: track_pos.simps)
  next
    case (Suc N')
    then have run: "disk_running wr d1 (Suc N') (base + 2) buf ((track_pos 13630 s 0 + 2) mod 13630) fin"
      and c: "count_list irqs 2 = 0" using g(2) by simp_all
    from Suc.IH [OF run, of "wr m base (disk_read_be16 buf (track_pos 13630 s 0))"] obtain d' irqs' where
      ih: "disk_grants dsksyn n d1 (wr m base (disk_read_be16 buf (track_pos 13630 s 0))) =
        (d', ram_stores wr (map (\<lambda>k. (base + 2 + 2 * of_nat k,
          disk_read_be16 buf (track_pos 13630 ((track_pos 13630 s 0 + 2) mod 13630) k))) [0..<min n (Suc N')])
          (wr m base (disk_read_be16 buf (track_pos 13630 s 0))), irqs')"
        "dk_dma_active d' = (n < Suc N')" "count_list irqs' 2 = (if n < Suc N' then 0 else 1)"
        "Suc N' \<le> n \<longrightarrow> dk_dskptr d' = fin" by blast
    have "min (Suc n) (Suc N) = Suc (min n (Suc N'))" using \<open>N = Suc N'\<close> by simp
    then show ?thesis
      using g(1) ih c \<open>N = Suc N'\<close>
      by (simp add: upt o_def algebra_simps del: track_pos.simps(1) upt_Suc)
  qed
qed

section \<open>Starting a read\<close>

text \<open>The encoded track under the head, in a buffer that held \<open>old\<close>.\<close>

definition head_track :: "FloppyDrive \<Rightarrow> u8 list \<Rightarrow> u8 list" where
  "head_track drive old =
     (let t = nat (2 * fd_cylinder drive) + (if fd_side drive then 1 else 0)
      in snd (floppy_mfm_encode_track old (drop (t * 5632) (the (fd_adf drive))) (of_nat t) 11))"

definition head_on_disk :: "FloppyDrive \<Rightarrow> bool" where
  "head_on_disk drive \<longleftrightarrow> floppy_has_media drive \<and> 0 \<le> fd_cylinder drive \<and> fd_cylinder drive < 80 \<and>
     nat (2 * fd_cylinder drive) * 5632 + (if fd_side drive then 2 else 1) * 5632 \<le> unat (fd_adf_size drive)"

lemma head_track_offset:
  assumes "head_on_disk drive"
  defines "t \<equiv> nat (2 * fd_cylinder drive) + (if fd_side drive then 1 else 0)"
  shows "unat (disk_track_offset (Some drive)) = t * 5632"
    and "disk_track_offset (Some drive) div AMIGA_TRACK_SIZE = of_nat t"
    and "disk_track_offset (Some drive) < fd_adf_size drive"
    and "AMIGA_TRACK_SIZE \<le> fd_adf_size drive - disk_track_offset (Some drive)"
proof -
  obtain c where c: "fd_cylinder drive = int c" "c < 80"
    using assms(1) by (auto simp: head_on_disk_def intro: nonneg_int_cases [of "fd_cylinder drive"])
  have "push_bit 1 (word_of_int (fd_cylinder drive)) OR (if fd_side drive then 1 else 0) = (of_nat t :: u32)"
  proof -
    have p: "push_bit 1 (word_of_int (int c)) = (of_nat (2 * c) :: u32)"
      by (simp add: push_bit_eq_mult)
    have e: "even (of_nat (2 * c) :: u32)" by simp
    have "(of_nat (2 * c) :: u32) OR 1 = of_nat (2 * c) + 1"
      by (rule disjunctive_add_eq_or [symmetric]) (use e in \<open>simp only: and_one_eq even_iff_mod_2_eq_zero\<close>)
    then show ?thesis unfolding c(1) p by (simp add: t_def c(1) nat_mult_distrib)
  qed
  then have off: "disk_track_offset (Some drive) = of_nat t * 5632" by (simp add: disk_track_offset_def)
  have t: "t < 160" using c by (simp add: t_def nat_mult_distrib)
  then show u: "unat (disk_track_offset (Some drive)) = t * 5632"
    unfolding off by (simp add: unat_word_ariths unat_of_nat)
  show "disk_track_offset (Some drive) div AMIGA_TRACK_SIZE = of_nat t"
    using u t by (simp add: word_unat_eq_iff unat_div_distrib unat_of_nat)
  have size: "t * 5632 + 5632 \<le> unat (fd_adf_size drive)"
    using assms(1) by (auto simp: head_on_disk_def t_def algebra_simps)
  then show lt: "disk_track_offset (Some drive) < fd_adf_size drive" using u by (simp add: word_less_nat_alt)
  then show "AMIGA_TRACK_SIZE \<le> fd_adf_size drive - disk_track_offset (Some drive)"
    using u size by (simp add: word_le_nat_alt unat_sub order.strict_implies_order)
qed

lemma find_sync_bound:
  assumes "2 \<le> unat len"
  shows "disk_track_find_sync src len sync \<le> len"
proof -
  have "of_nat i \<le> len" if "find P [0..<unat len - 1] = Some i" for P i
  proof -
    have "i < unat len - 1" using that by (auto simp: find_Some_iff)
    then show ?thesis by (simp add: word_le_nat_alt unat_of_nat)
  qed
  then show ?thesis by (auto simp: disk_track_find_sync_def split: option.splits)
qed

text \<open>Where a read of the track \<open>buf\<close> begins.\<close>

definition read_start :: "'m disk_state \<Rightarrow> u8 list \<Rightarrow> u32" where
  "read_start disk buf =
     (let off = disk_track_find_sync buf 13630 (dk_dsksync disk)
      in if dk_adkcon disk AND RIGEL_PAULA_ADKCON_WORDSYNC \<noteq> 0 \<and> off + 1 < 13630 then off else 0)"

lemma encode_head_track:
  assumes "head_on_disk drive" and "length old = 13630"
  shows "floppy_mfm_encode_track old (drop (unat (disk_track_offset (Some drive))) (the (fd_adf drive)))
      (disk_track_offset (Some drive) div AMIGA_TRACK_SIZE) 11 = (True, head_track drive old)"
proof -
  obtain b where "floppy_mfm_encode_track old (drop (unat (disk_track_offset (Some drive))) (the (fd_adf drive)))
      (disk_track_offset (Some drive) div AMIGA_TRACK_SIZE) 11 = (True, b)"
    using encode_track_reads [of 11 old] assms(2) by fastforce
  then show ?thesis by (simp add: head_track_def head_track_offset [OF assms(1)])
qed

lemma start_track_running:
  fixes d :: "'m disk_state"
  assumes "head_on_disk drive" and "length (dk_dma_track_buf d) = 13630"
    and "dk_dma_active d" "\<not> dk_write_mode d" "write16 (dk_chip_ram d) = Some wr" "dk_irq d"
    and "dk_dma_bytes_done d = 0" and "unat len < 0x4000"
  defines "buf \<equiv> head_track drive (dk_dma_track_buf d)"
  shows "disk_running wr (fst (disk_start_track dsksyn drive d len)) (unat len)
      (dk_dma_ptr_base d) buf (unat (read_start d buf)) (dk_dma_ptr_base d + 2 * len)"
proof -
  define off where "off = disk_track_find_sync buf 13630 (dk_dsksync d)"
  define found where "found = (off + 1 < 13630)"
  define d1 where "d1 = d\<lparr>dk_dma_track_buf := buf, dk_dma_track_len := 13630\<rparr>"
  define d2 where "d2 = (if found then disk_load_dskbytr d1 (disk_read_be16 buf (unat off)) else d1)"
  define d3 where "d3 = d2\<lparr>dk_dma_src_offset := read_start d buf\<rparr>"
  obtain f irqs where e: "disk_maybe_emit_sync dsksyn (d3\<lparr>dk_sync_seen := found\<rparr>) =
      (d3\<lparr>dk_sync_seen := found, dk_sync_irq_fired := f\<rparr>, irqs)"
    by (rule maybe_emit_sync)
  have d2: "dk_adkcon d2 = dk_adkcon d"
    by (simp add: d2_def d1_def disk_load_dskbytr_def)
  have src: "(if dk_adkcon d2 AND RIGEL_PAULA_ADKCON_WORDSYNC \<noteq> 0 \<and> found then d2\<lparr>dk_dma_src_offset := off\<rparr>
      else d2\<lparr>dk_dma_src_offset := 0\<rparr>) = d3"
    by (simp add: d3_def read_start_def d2 found_def off_def Let_def)
  note ht = head_track_offset [OF assms(1)]
  have st: "fst (disk_start_track dsksyn drive d len) =
      d3\<lparr>dk_sync_seen := found, dk_sync_irq_fired := f, dk_dma_bytes_total := push_bit 1 len\<rparr>"
  proof -
    have c: "\<not> (disk_track_offset (Some drive) \<ge> fd_adf_size drive \<or>
        AMIGA_TRACK_SIZE > fd_adf_size drive - disk_track_offset (Some drive))"
      using ht(3,4) by (simp add: not_le not_less)
    have enc: "floppy_mfm_encode_track (dk_dma_track_buf d) (drop (unat (disk_track_offset (Some drive)))
        (the (fd_adf drive))) (disk_track_offset (Some drive) div AMIGA_TRACK_SIZE)
        (of_nat AMIGA_SECTORS_PER_TRACK) = (True, buf)"
      using encode_head_track [OF assms(1,2)] by (simp add: buf_def)
    have d1': "d\<lparr>dk_dma_track_buf := buf, dk_dma_track_len := of_nat RIGEL_FLOPPY_MFM_TRACK_BYTES_PAL\<rparr> = d1"
      by (simp add: d1_def)
    have l: "dk_dma_track_len d1 = 13630" "dk_dsksync d1 = dk_dsksync d" by (simp_all add: d1_def)
    have l2: "dk_dma_track_len d2 = 13630" by (simp add: d2_def l(1) disk_load_dskbytr_def)
    show ?thesis
      unfolding disk_start_track_def
      by (simp only: Let_def c enc prod.case if_False simp_thms d1' l off_def [symmetric] found_def [symmetric]
          d2_def [symmetric] src e fst_conv)
  qed
  have len: "unat (push_bit 1 len) = 2 * unat len" "push_bit 1 len = 2 * len"
    using assms(8) by (simp_all add: unat_word_ariths push_bit_eq_mult)
  have rs: "unat (read_start d buf) < 13630"
  proof (cases "off + 1 < 13630")
    case True
    have "off \<le> 13630" unfolding off_def by (intro find_sync_bound) simp
    then show ?thesis using True by (auto simp: read_start_def Let_def off_def [symmetric] word_less_nat_alt word_le_nat_alt unat_word_ariths)
  qed (simp add: read_start_def Let_def off_def)
  show ?thesis
    unfolding st disk_running_def using assms(3-8) rs len
    by (simp add: d3_def d2_def d1_def disk_load_dskbytr_def)
qed

text \<open>
  C25: A DSKLEN write that starts a read on a mounted disk leads, over the granted slots, to
  exactly the requested number of words in chip RAM from DSKPT on: word \<open>k\<close> is the one at its
  place in the encoded track, which is read as a loop from the sync mark (with word sync) or
  from the index on.  The transfer is active until the last word; the block interrupt is
  raised once, with that word, and DSKPT is left behind the data.
\<close>

theorem disk_read_transfer:
  fixes disk :: "'m disk_state" and wr :: "'m \<Rightarrow> u32 \<Rightarrow> u16 \<Rightarrow> 'm"
  assumes "dk_dma_armed disk" and "value AND RIGEL_PAULA_DSKLEN_DMAEN \<noteq> 0"
    and "value AND RIGEL_PAULA_DSKLEN_WRITE = 0" and "value AND RIGEL_PAULA_DSKLEN_LEN \<noteq> 0"
    and "dk_drive disk = Some i" and "head_on_disk (floppy ! i)"
    and "write16 (dk_chip_ram disk) = Some wr" and "dk_irq disk"
    and "length (dk_dma_track_buf disk) = RIGEL_FLOPPY_MFM_TRACK_BYTES_PAL"
  defines "buf \<equiv> head_track (floppy ! i) (dk_dma_track_buf disk)"
    and "words \<equiv> unat (value AND RIGEL_PAULA_DSKLEN_LEN)"
  shows "\<exists>d' irqs. disk_grants dsksyn n (fst (disk_write_dsklen dsksyn floppy disk value)) m =
      (d', ram_stores wr (map (\<lambda>k. (dk_dskptr disk + 2 * of_nat k,
          disk_read_be16 buf (track_pos 13630 (unat (read_start disk buf)) k))) [0..<min n words]) m,
       irqs) \<and>
    dk_dma_active d' = (n < words) \<and> count_list irqs 2 = (if n < words then 0 else 1) \<and>
    (words \<le> n \<longrightarrow> dk_dskptr d' = dk_dskptr disk + 2 * of_nat words)"
proof -
  define d0 where "d0 = disk_start_reset disk value"
  define len :: u32 where "len = ucast (value AND RIGEL_PAULA_DSKLEN_LEN)"
  have d0: "dk_dma_active d0" "\<not> dk_write_mode d0" "write16 (dk_chip_ram d0) = Some wr" "dk_irq d0"
    "dk_dma_bytes_done d0 = 0" "dk_dma_track_buf d0 = dk_dma_track_buf disk" "dk_dma_ptr_base d0 = dk_dskptr disk"
    "dk_drive d0 = Some i" "dk_dsksync d0 = dk_dsksync disk" "dk_adkcon d0 = dk_adkcon disk"
    using assms(3,5,7,8) by (simp_all add: d0_def disk_start_reset_def)
  have "value AND RIGEL_PAULA_DSKLEN_LEN \<le> 0x3fff" by (rule word_and_le1)
  then have w: "unat len = words" "words < 0x4000" by (simp_all add: len_def words_def word_le_nat_alt)
  have nz: "words \<noteq> 0" "len \<noteq> 0" using assms(4) w(1) by (auto simp: words_def unat_eq_zero)
  have st: "disk_write_dsklen dsksyn floppy disk value = disk_start_track dsksyn (floppy ! i) d0 len"
    using assms(1,2,6) nz(2) d0(2,8) unfolding disk_write_dsklen_def disk_start_dma_def Let_def
      d0_def [symmetric] len_def [symmetric]
    by (simp add: head_on_disk_def)
  have rs: "read_start d0 b = read_start disk b" for b by (simp add: read_start_def d0)
  have ow: "of_nat words = len" unfolding w(1) [symmetric] by simp
  have "disk_running wr (fst (disk_start_track dsksyn (floppy ! i) d0 len)) words
      (dk_dskptr disk) buf (unat (read_start disk buf)) (dk_dskptr disk + 2 * of_nat words)"
    using start_track_running [OF assms(6), of d0 wr len dsksyn] assms(9) d0 w
    by (simp add: buf_def rs ow)
  moreover obtain N where "words = Suc N" using nz(1) by (cases words) auto
  ultimately show ?thesis using disk_grants_running [of wr] unfolding st by simp
qed

text \<open>A log of stores as the memory, an empty controller and a one-track disk.\<close>

definition disk_zero :: "'m rigel_chip_ram_if \<Rightarrow> 'm disk_state" where
  "disk_zero ram =
     \<lparr>dk_dskptr = 0, dk_dsklen = 0, dk_dskbytr = 0, dk_dskdatr = 0, dk_dsksync = 0, dk_adkcon = 0,
      dk_dma_active = False, dk_dma_armed = False, dk_write_mode = False, dk_sync_seen = False,
      dk_sync_irq_fired = False, dk_dskbytr_data = 0, dk_armed_dsklen = 0, dk_countdown = 0,
      dk_dma_ptr_base = 0, dk_dma_bytes_total = 0, dk_dma_bytes_done = 0, dk_dma_src_offset = 0,
      dk_dma_track_len = 0, dk_dma_fill_word = 0,
      dk_dma_track_buf = replicate RIGEL_FLOPPY_MFM_TRACK_BYTES_PAL 0, dk_drive = Some 0,
      dk_chip_ram = ram, dk_irq = True\<rparr>"

theorem disk_read_transfer_witness:
  "let ram = \<lparr>read16 = None, write16 = Some (\<lambda>m a v. m @ [a])\<rparr>;
       floppy = [floppy_insert floppy_init (Some (replicate 5632 0)) 5632];
       armed = fst (disk_write_dsklen True floppy (disk_write_dskptl (disk_zero ram) 0x1000) 0x8002);
       started = fst (disk_write_dsklen True floppy armed 0x8002)
   in dk_dma_active (fst (disk_grants True 1 started [])) \<and>
      \<not> dk_dma_active (fst (disk_grants True 2 started [])) \<and>
      fst (snd (disk_grants True 3 started [])) = [0x1000, 0x1002]"
proof -
  define ram :: "u32 list rigel_chip_ram_if" where "ram = \<lparr>read16 = None, write16 = Some (\<lambda>m a v. m @ [a])\<rparr>"
  define floppy where "floppy = [floppy_insert floppy_init (Some (replicate 5632 0)) 5632]"
  define armed where "armed = fst (disk_write_dsklen True floppy (disk_write_dskptl (disk_zero ram) 0x1000) 0x8002)"
  have a: "dk_dma_armed armed" "dk_drive armed = Some 0" "write16 (dk_chip_ram armed) = Some (\<lambda>m a v. m @ [a])"
    "dk_irq armed" "length (dk_dma_track_buf armed) = RIGEL_FLOPPY_MFM_TRACK_BYTES_PAL" "dk_dskptr armed = 0x1000"
    by (simp_all add: armed_def disk_write_dsklen_def disk_write_dskptl_def disk_zero_def ram_def ptr_set_lo_def)
  have h: "head_on_disk (floppy ! 0)"
    by (simp add: floppy_def head_on_disk_def floppy_insert_def floppy_init_def floppy_has_media_def)
  have s: "\<exists>d' irqs. disk_grants True n (fst (disk_write_dsklen True floppy armed 0x8002)) [] =
      (d', ram_stores (\<lambda>m a v. m @ [a]) (map (\<lambda>k. (0x1000 + 2 * of_nat k,
          disk_read_be16 (head_track (floppy ! 0) (dk_dma_track_buf armed)) (track_pos 13630
            (unat (read_start armed (head_track (floppy ! 0) (dk_dma_track_buf armed)))) k))) [0..<min n 2]) [],
       irqs) \<and> dk_dma_active d' = (n < 2)" for n
    using disk_read_transfer [OF a(1) _ _ _ a(2) h a(3-5), of "0x8002" True n "[]"] a(6) by auto
  show ?thesis
    using s [of 1] s [of 2] s [of 3]
    by (auto simp: Let_def ram_def [symmetric] floppy_def [symmetric] armed_def [symmetric] upt_conv_Cons numeral_2_eq_2
        simp del: track_pos.simps)
qed

section \<open>Reads without a disk\<close>

text \<open>Time passing in portions, with the masks raised.\<close>

fun disk_steps :: "'m disk_state \<Rightarrow> u32 list \<Rightarrow> 'm disk_state \<times> u16 list" where
  "disk_steps d [] = (d, [])"
| "disk_steps d (c # cs) =
     (let (d, irqs) = disk_step d c; (d, irqs') = disk_steps d cs in (d, irqs @ irqs'))"

lemma disk_steps_idle: "\<not> dk_dma_active d \<Longrightarrow> disk_steps d cs = (d, [])"
  by (induction cs) (simp_all add: disk_step_def)

text \<open>
  C26: A read started without a disk, or beyond the end of the image, still ends: it stays
  active and silent until exactly the announced number of cycles has passed, however the time
  is divided into steps, and then raises the block interrupt once.
\<close>

theorem disk_countdown_exact:
  assumes "disk_cycles_to_next_event d \<noteq> 0xffffffff" and "dk_irq d"
    and "sum_list (map unat cs) < 2 ^ 32"
  shows "dk_dma_active (fst (disk_steps d cs)) =
      (sum_list (map unat cs) < unat (disk_cycles_to_next_event d)) \<and>
    snd (disk_steps d cs) =
      (if sum_list (map unat cs) < unat (disk_cycles_to_next_event d) then [] else [0x0002])"
  using assms
proof (induction cs arbitrary: d)
  case Nil
  then show ?case by (auto simp: disk_cycles_to_next_event_def word_gt_0 unat_gt_0 split: if_splits)
next
  case (Cons c cs)
  let ?n = "dk_countdown d"
  have d: "dk_dma_active d" "?n \<noteq> 0" "dk_dma_bytes_total d = 0" "disk_cycles_to_next_event d = ?n"
    using Cons.prems(1) by (auto simp: disk_cycles_to_next_event_def split: if_splits)
  show ?case
  proof (cases "?n > c")
    case True
    define e where "e = d\<lparr>dk_countdown := ?n - c\<rparr>"
    have s: "disk_step d c = (e, [])" using d True by (simp add: disk_step_def e_def)
    have n: "unat (?n - c) = unat ?n - unat c" "unat c < unat ?n" "?n - c \<noteq> 0"
      using True by (auto simp: unat_sub order.strict_implies_order word_less_nat_alt)
    have "dk_countdown e > 0" using n(3) by (simp add: e_def word_gt_0)
    then have e: "disk_cycles_to_next_event e = ?n - c"
      using d by (simp add: disk_cycles_to_next_event_def e_def)
    have "?n - c \<noteq> 0xffffffff"
    proof
      assume "?n - c = 0xffffffff"
      then have "unat ?n - unat c = 0xffffffff" using n(1) by simp
      moreover have "unat ?n < 2 ^ LENGTH(32)" by (rule unsigned_less)
      ultimately have "unat ?n = 0xffffffff" by simp
      then show False using Cons.prems(1) d(4) by (simp add: word_unat_eq_iff)
    qed
    then have ih: "dk_dma_active (fst (disk_steps e cs)) = (sum_list (map unat cs) < unat (?n - c)) \<and>
        snd (disk_steps e cs) = (if sum_list (map unat cs) < unat (?n - c) then [] else [0x0002])"
      using Cons.IH [of e] Cons.prems(2,3) e by (simp add: e_def)
    have "sum_list (map unat cs) < unat (?n - c) \<longleftrightarrow> sum_list (map unat (c # cs)) < unat ?n"
      using n by auto
    then show ?thesis using ih s d(4) by (simp add: case_prod_beta)
  next
    case False
    define e where "e = disk_finish (d\<lparr>dk_countdown := 0\<rparr>)"
    have s: "disk_step d c = (e, [0x0002])"
      using d False Cons.prems(2) by (simp add: disk_step_def e_def disk_emit_irq_def)
    have "\<not> dk_dma_active e" by (simp add: e_def disk_finish_def)
    moreover have "\<not> sum_list (map unat (c # cs)) < unat ?n" using False by (simp add: word_less_nat_alt)
    ultimately show ?thesis using s d(4) by (simp add: disk_steps_idle)
  qed
qed

theorem disk_countdown_exact_witness:
  "let d = fst (disk_write_dsklen True [floppy_init] (fst (disk_write_dsklen True [floppy_init]
             (disk_zero (\<lparr>read16 = None, write16 = None\<rparr> :: unit rigel_chip_ram_if)) 0x9000)) 0x9000)
   in snd (disk_steps d [20000, 25999]) = [] \<and> snd (disk_steps d [20000, 0, 26000]) = [0x0002]"
proof -
  define d :: "unit disk_state" where "d = fst (disk_write_dsklen True [floppy_init] (fst (disk_write_dsklen True [floppy_init]
             (disk_zero \<lparr>read16 = None, write16 = None\<rparr>) 0x9000)) 0x9000)"
  have "disk_cycles_to_next_event d = 46000" "dk_irq d"
    by (simp_all add: d_def disk_write_dsklen_def disk_zero_def disk_start_dma_def disk_start_reset_def
        Let_def floppy_has_media_def floppy_init_def disk_cycles_to_next_event_def)
  then show ?thesis
    using disk_countdown_exact [of d "[20000, 25999]"] disk_countdown_exact [of d "[20000, 0, 26000]"]
    by (simp add: d_def [symmetric] Let_def del: disk_steps.simps)
qed

end
