(* ===== verification/Paula_Audio.thy ===== *)
theory Paula_Audio
  imports Custom_Space "HOL-Library.Signed_Division"
begin

text \<open>
  Paula's four audio channels, \<^verbatim>\<open>src/chipset/paula/audio.c\<close>, with the domain wrapper
  \<^verbatim>\<open>src/domains/audio/audio_domain.c\<close>: period counters, sample output and mixing, and the
  DMA fetch with its block reload and interrupt.

  The channel number is an \<^verbatim>\<open>int\<close> in C that no caller passes negative; it is a natural
  number here.  The interrupt sink may be null: \<open>au_irq\<close> says whether it is set, and the
  operations return the masks they raise.  Samples are 16-bit words read as signed numbers.
  Log events are left out.
\<close>

unbundle bit_operations_syntax

section \<open>State\<close>

abbreviation RIGEL_PAULA_AUDIO_CHANNELS :: nat where "RIGEL_PAULA_AUDIO_CHANNELS \<equiv> 4"

record rigel_audio_channel =
  ac_audlen :: u16
  ac_audper :: u16
  ac_audvol :: u16
  ac_auddat :: u16
  ac_audlc :: u32
  ac_current_ptr :: u32
  ac_current_length :: u16
  ac_period_counter :: u16
  ac_current_sample :: i16
  ac_dma_enabled :: bool
  ac_data_pending :: bool
  ac_pending_lo :: u8
  ac_has_pending_lo :: bool
  ac_dma_word :: u16
  ac_dma_word_ready :: bool

record audio_state =
  au_ch :: "rigel_audio_channel list"
  au_mixed_left :: i16
  au_mixed_right :: i16
  au_sample_ready :: bool
  au_dmacon :: u16
  au_irq :: bool

section \<open>Helpers\<close>

definition audio_valid_channel :: "nat \<Rightarrow> bool" where
  "audio_valid_channel channel \<longleftrightarrow> channel < RIGEL_PAULA_AUDIO_CHANNELS"

text \<open>Update of one channel; an invalid number is the null pointer of the C accessor.\<close>

definition audio_channel ::
    "audio_state \<Rightarrow> nat \<Rightarrow> (rigel_audio_channel \<Rightarrow> rigel_audio_channel) \<Rightarrow> audio_state" where
  "audio_channel audio channel f =
     (if \<not> audio_valid_channel channel then audio
      else audio\<lparr>au_ch := (au_ch audio)[channel := f (au_ch audio ! channel)]\<rparr>)"

definition audio_channel_dma_enabled :: "audio_state \<Rightarrow> nat \<Rightarrow> bool" where
  "audio_channel_dma_enabled audio channel \<longleftrightarrow> au_dmacon audio AND push_bit channel 1 \<noteq> 0"

definition audio_scaled :: "rigel_audio_channel \<Rightarrow> int" where
  "audio_scaled ch = (sint (ac_current_sample ch) * uint (ac_audvol ch)) sdiv 64"

definition audio_clip :: "int \<Rightarrow> int" where
  "audio_clip v = (if v > 32767 then 32767 else if v < -32768 then -32768 else v)"

definition audio_mix :: "audio_state \<Rightarrow> audio_state" where
  "audio_mix audio =
     (let left = audio_scaled (au_ch audio ! 0) + audio_scaled (au_ch audio ! 3);
          right = audio_scaled (au_ch audio ! 1) + audio_scaled (au_ch audio ! 2)
      in audio\<lparr>au_mixed_left := word_of_int (audio_clip left),
               au_mixed_right := word_of_int (audio_clip right)\<rparr>)"

definition audio_channel_zero :: rigel_audio_channel where
  "audio_channel_zero =
     \<lparr>ac_audlen = 0, ac_audper = 0, ac_audvol = 0, ac_auddat = 0, ac_audlc = 0, ac_current_ptr = 0,
      ac_current_length = 0, ac_period_counter = 0, ac_current_sample = 0, ac_dma_enabled = False,
      ac_data_pending = False, ac_pending_lo = 0, ac_has_pending_lo = False, ac_dma_word = 0,
      ac_dma_word_ready = False\<rparr>"

definition audio_reset :: "audio_state \<Rightarrow> audio_state" where
  "audio_reset audio =
     \<lparr>au_ch = replicate RIGEL_PAULA_AUDIO_CHANNELS audio_channel_zero, au_mixed_left = 0,
      au_mixed_right = 0, au_sample_ready = False, au_dmacon = 0, au_irq = au_irq audio\<rparr>"

definition audio_set_irq_sink :: "audio_state \<Rightarrow> bool \<Rightarrow> audio_state" where
  "audio_set_irq_sink audio sink = audio\<lparr>au_irq := sink\<rparr>"

definition audio_set_dmacon :: "audio_state \<Rightarrow> u16 \<Rightarrow> audio_state" where
  "audio_set_dmacon audio dmacon = audio\<lparr>au_dmacon := dmacon\<rparr>"

section \<open>Time\<close>

text \<open>A byte as the upper half of a signed sample.\<close>

definition audio_byte_sample :: "u8 \<Rightarrow> i16" where
  "audio_byte_sample b = push_bit 8 (scast b)"

text \<open>The end of one period: the next byte becomes the current sample.\<close>

definition audio_period :: "rigel_audio_channel \<Rightarrow> rigel_audio_channel" where
  "audio_period state =
     (if ac_data_pending state
      then state\<lparr>ac_current_sample := audio_byte_sample (ucast (drop_bit 8 (ac_auddat state))),
                 ac_data_pending := False\<rparr>
      else if ac_has_pending_lo state
      then state\<lparr>ac_current_sample := audio_byte_sample (ac_pending_lo state),
                 ac_has_pending_lo := False\<rparr>
      else if ac_dma_word_ready state
      then state\<lparr>ac_current_sample := audio_byte_sample (ucast (drop_bit 8 (ac_dma_word state))),
                 ac_pending_lo := ucast (ac_dma_word state AND 0xff), ac_has_pending_lo := True,
                 ac_dma_word_ready := False\<rparr>
      else state)"

lemma audio_period_fields [simp]:
  "ac_period_counter (audio_period s) = ac_period_counter s" "ac_audper (audio_period s) = ac_audper s"
  by (simp_all add: audio_period_def)

text \<open>
  The loop over the elapsed periods, with the flag whether one ended.  With a period of 0 it
  would not end; \<^verbatim>\<open>audio_step\<close> never calls it so.
\<close>

partial_function (option) audio_period_loop ::
    "rigel_audio_channel \<Rightarrow> u32 \<Rightarrow> bool \<Rightarrow> (rigel_audio_channel \<times> u32 \<times> bool) option" where
  "audio_period_loop state remaining elapsed =
     (if remaining \<ge> ucast (ac_period_counter state)
      then audio_period_loop (audio_period (state\<lparr>ac_period_counter := ac_audper state\<rparr>))
             (remaining - ucast (ac_period_counter state)) True
      else Some (state, remaining, elapsed))"

definition audio_step_channel ::
    "bool \<Rightarrow> u32 \<Rightarrow> rigel_audio_channel \<Rightarrow> (rigel_audio_channel \<times> bool) option" where
  "audio_step_channel enabled cycles state =
     (let state = state\<lparr>ac_dma_enabled := enabled\<rparr>
      in if \<not> ac_dma_enabled state \<and> \<not> ac_data_pending state then Some (state, False)
         else
           let state = (if ac_audper state = 0 then state\<lparr>ac_audper := 1\<rparr> else state);
               state = (if ac_period_counter state = 0
                        then state\<lparr>ac_period_counter := ac_audper state\<rparr> else state)
           in case audio_period_loop state cycles False of None \<Rightarrow> None
              | Some (state, remaining, elapsed) \<Rightarrow>
                  Some (state\<lparr>ac_period_counter := ac_period_counter state - ucast remaining\<rparr>, elapsed))"

fun audio_step_channels ::
    "audio_state \<Rightarrow> u32 \<Rightarrow> nat list \<Rightarrow> bool \<Rightarrow> (audio_state \<times> bool) option" where
  "audio_step_channels audio cycles [] sample_elapsed = Some (audio, sample_elapsed)"
| "audio_step_channels audio cycles (c # cs) sample_elapsed =
     (case audio_step_channel (audio_channel_dma_enabled audio c) cycles (au_ch audio ! c) of None \<Rightarrow> None
      | Some (ch, e) \<Rightarrow>
          audio_step_channels (audio\<lparr>au_ch := (au_ch audio)[c := ch]\<rparr>) cycles cs (sample_elapsed \<or> e))"

definition audio_step :: "audio_state \<Rightarrow> u32 \<Rightarrow> audio_state option" where
  "audio_step audio cycles =
     (case audio_step_channels audio cycles [0..<RIGEL_PAULA_AUDIO_CHANNELS] False of None \<Rightarrow> None
      | Some (audio, sample_elapsed) \<Rightarrow>
          let audio = audio_mix audio
          in Some (if sample_elapsed then audio\<lparr>au_sample_ready := True\<rparr> else audio))"

section \<open>Registers\<close>

definition audio_write_lch :: "audio_state \<Rightarrow> nat \<Rightarrow> u16 \<Rightarrow> audio_state" where
  "audio_write_lch audio channel value =
     audio_channel audio channel (\<lambda>st. st\<lparr>ac_audlc := ptr_set_hi (ac_audlc st) value\<rparr>)"

definition audio_write_lcl :: "audio_state \<Rightarrow> nat \<Rightarrow> u16 \<Rightarrow> audio_state" where
  "audio_write_lcl audio channel value =
     audio_channel audio channel (\<lambda>st. st\<lparr>ac_audlc := ptr_set_lo (ac_audlc st) (value AND 0xfffe)\<rparr>)"

definition audio_write_len :: "audio_state \<Rightarrow> nat \<Rightarrow> u16 \<Rightarrow> audio_state" where
  "audio_write_len audio channel value =
     audio_channel audio channel (\<lambda>st.
       (let st = st\<lparr>ac_audlen := value\<rparr>
        in if ac_current_length st = 0 then st\<lparr>ac_current_length := value\<rparr> else st))"

definition audio_write_per :: "audio_state \<Rightarrow> nat \<Rightarrow> u16 \<Rightarrow> audio_state" where
  "audio_write_per audio channel value =
     audio_channel audio channel (\<lambda>st. st\<lparr>ac_audper := (if value \<noteq> 0 then value else 1)\<rparr>)"

definition audio_write_vol :: "audio_state \<Rightarrow> nat \<Rightarrow> u16 \<Rightarrow> audio_state" where
  "audio_write_vol audio channel value =
     audio_channel audio channel (\<lambda>st.
       (let st = st\<lparr>ac_audvol := value AND 0x007f\<rparr>
        in if ac_audvol st > 64 then st\<lparr>ac_audvol := 64\<rparr> else st))"

definition audio_write_dat :: "audio_state \<Rightarrow> nat \<Rightarrow> u16 \<Rightarrow> audio_state" where
  "audio_write_dat audio channel value =
     audio_channel audio channel (\<lambda>st. st\<lparr>ac_auddat := value, ac_data_pending := True\<rparr>)"

definition audio_left :: "audio_state \<Rightarrow> i16" where
  "audio_left audio = au_mixed_left audio"

definition audio_right :: "audio_state \<Rightarrow> i16" where
  "audio_right audio = au_mixed_right audio"

section \<open>DMA\<close>

definition audio_irq_bits :: "u16 list" where
  "audio_irq_bits = [0x0080, 0x0100, 0x0200, 0x0400]"

definition audio_fetch :: "rigel_audio_channel \<Rightarrow> (u32 \<Rightarrow> u16) \<Rightarrow> rigel_audio_channel" where
  "audio_fetch ch rd =
     (let ch = ch\<lparr>ac_dma_word := rd (ac_current_ptr ch AND NOT 1), ac_dma_word_ready := True\<rparr>
      in ch\<lparr>ac_current_ptr := ac_current_ptr ch + 2, ac_current_length := ac_current_length ch - 1\<rparr>)"

definition audio_dma_step_slot ::
    "audio_state \<Rightarrow> nat \<Rightarrow> 'm rigel_chip_ram_if \<Rightarrow> 'm \<Rightarrow> audio_state \<times> u16 list" where
  "audio_dma_step_slot audio channel mem m =
     (case read16 mem of None \<Rightarrow> (audio, [])
      | Some rd \<Rightarrow>
          if \<not> audio_valid_channel channel then (audio, [])
          else
            let ch = au_ch audio ! channel
            in if \<not> audio_channel_dma_enabled audio channel \<or> ac_dma_word_ready ch then (audio, [])
               else if ac_current_length ch = 0 \<and> ac_audlen ch = 0 then (audio, [])
               else
                 let ch = (if ac_current_length ch = 0
                           then ch\<lparr>ac_current_ptr := ac_audlc ch, ac_current_length := ac_audlen ch\<rparr>
                           else ch);
                     ch = audio_fetch ch (rd m);
                     audio = audio\<lparr>au_ch := (au_ch audio)[channel := ch]\<rparr>
                 in (audio, if ac_current_length ch = 0 \<and> au_irq audio
                            then [audio_irq_bits ! channel] else []))"

definition audio_channel_deadline :: "audio_state \<Rightarrow> nat \<Rightarrow> u32 \<Rightarrow> u32" where
  "audio_channel_deadline audio ch mn =
     (let c = au_ch audio ! ch
      in if audio_channel_dma_enabled audio ch \<or> ac_data_pending c \<or> ac_has_pending_lo c \<or> ac_dma_word_ready c
         then let next_event = (ucast (ac_period_counter c) :: u32);
                  next_event = (if next_event = 0
                                then (if ac_audper c \<noteq> 0 then ucast (ac_audper c) else 1)
                                else next_event)
              in if next_event < mn then next_event else mn
         else mn)"

definition audio_cycles_to_next_event :: "audio_state \<Rightarrow> u32" where
  "audio_cycles_to_next_event audio =
     fold (audio_channel_deadline audio) [0..<RIGEL_PAULA_AUDIO_CHANNELS] 0xffffffff"

section \<open>The audio domain\<close>

definition rigel_audio_domain_decode_reg :: "u32 \<Rightarrow> (nat \<times> u32) option" where
  "rigel_audio_domain_decode_reg addr =
     (if addr < RIGEL_REG_AUD0LCH \<or> addr > RIGEL_REG_AUD3DAT then None
      else let slot = addr - RIGEL_REG_AUD0LCH
           in if slot AND 0x0f > 0x0a then None
              else Some (unat (drop_bit 4 slot), slot AND 0x0f))"

definition rigel_audio_domain_owns_reg :: "u32 \<Rightarrow> bool" where
  "rigel_audio_domain_owns_reg addr \<longleftrightarrow> rigel_audio_domain_decode_reg addr \<noteq> None"

definition rigel_audio_domain_reset :: "audio_state \<Rightarrow> audio_state" where
  "rigel_audio_domain_reset audio = audio_reset audio"

definition rigel_audio_domain_set_dmacon :: "audio_state \<Rightarrow> u16 \<Rightarrow> audio_state" where
  "rigel_audio_domain_set_dmacon audio dmacon = audio_set_dmacon audio dmacon"

definition rigel_audio_domain_step :: "audio_state \<Rightarrow> u32 \<Rightarrow> audio_state option" where
  "rigel_audio_domain_step audio cycles = audio_step audio cycles"

definition rigel_audio_domain_step_slot ::
    "audio_state \<Rightarrow> nat \<Rightarrow> 'm rigel_chip_ram_if \<Rightarrow> 'm \<Rightarrow> audio_state \<times> u16 list" where
  "rigel_audio_domain_step_slot audio channel mem m = audio_dma_step_slot audio channel mem m"

definition rigel_audio_domain_write_reg :: "audio_state \<Rightarrow> u32 \<Rightarrow> u16 \<Rightarrow> audio_state" where
  "rigel_audio_domain_write_reg audio addr value =
     (case rigel_audio_domain_decode_reg addr of None \<Rightarrow> audio
      | Some (channel, offset) \<Rightarrow>
          if offset = 0x0 then audio_write_lch audio channel value
          else if offset = 0x2 then audio_write_lcl audio channel value
          else if offset = 0x4 then audio_write_len audio channel value
          else if offset = 0x6 then audio_write_per audio channel value
          else if offset = 0x8 then audio_write_vol audio channel value
          else if offset = 0x0a then audio_write_dat audio channel value
          else audio)"

section \<open>One clock at a time\<close>

text \<open>
  Reference: a channel counts its period down once per colour clock and plays the next byte
  when the count runs out.
\<close>

definition audio_tick :: "rigel_audio_channel \<Rightarrow> rigel_audio_channel" where
  "audio_tick st =
     (if ac_period_counter st = 1 then audio_period (st\<lparr>ac_period_counter := ac_audper st\<rparr>)
      else st\<lparr>ac_period_counter := ac_period_counter st - 1\<rparr>)"

text \<open>The period in force, and the state in which the counter is loaded.\<close>

definition audio_loaded :: "rigel_audio_channel \<Rightarrow> rigel_audio_channel" where
  "audio_loaded st =
     (let st = (if ac_audper st = 0 then st\<lparr>ac_audper := 1\<rparr> else st)
      in if ac_period_counter st = 0 then st\<lparr>ac_period_counter := ac_audper st\<rparr> else st)"

definition audio_counting :: "rigel_audio_channel \<Rightarrow> bool" where
  "audio_counting st \<longleftrightarrow> ac_audper st \<noteq> 0 \<and> ac_period_counter st \<noteq> 0"

lemma audio_loaded_counting: "audio_counting (audio_loaded st)"
  by (simp add: audio_counting_def audio_loaded_def Let_def)

lemma audio_ticks_within:
  "k < unat (ac_period_counter st) \<Longrightarrow>
     (audio_tick ^^ k) st = st\<lparr>ac_period_counter := ac_period_counter st - of_nat k\<rparr>"
proof (induction k)
  case (Suc k)
  have "ac_period_counter st - of_nat k \<noteq> 1"
  proof
    assume "ac_period_counter st - of_nat k = 1"
    then have "ac_period_counter st = of_nat (Suc k)" by (simp add: algebra_simps)
    then have "unat (ac_period_counter st) \<le> Suc k" by (simp only:) (metis unat_of_nat mod_less_eq_dividend)
    then show False using Suc.prems by simp
  qed
  then show ?case using Suc by (simp add: audio_tick_def algebra_simps)
qed simp

lemma audio_ticks_period:
  assumes "audio_counting st"
  shows "(audio_tick ^^ unat (ac_period_counter st)) st =
    audio_period (st\<lparr>ac_period_counter := ac_audper st\<rparr>)"
proof -
  obtain k where k: "unat (ac_period_counter st) = Suc k"
    using assms by (cases "unat (ac_period_counter st)") (auto simp: audio_counting_def unat_eq_zero)
  have "ac_period_counter st = of_nat (Suc k)" by (simp flip: k)
  then have "ac_period_counter st - of_nat k = 1" by simp
  then show ?thesis using audio_ticks_within [of k st] k by (simp add: audio_tick_def)
qed

lemma audio_period_loop_ticks:
  "audio_counting st \<Longrightarrow>
   \<exists>st' r' e'. audio_period_loop st r e = Some (st', r', e') \<and>
     e' = (e \<or> unat r \<ge> unat (ac_period_counter st)) \<and>
     st'\<lparr>ac_period_counter := ac_period_counter st' - ucast r'\<rparr> = (audio_tick ^^ unat r) st"
proof (induction "unat r" arbitrary: st r e rule: less_induct)
  case less
  let ?p = "ac_period_counter st"
  have u: "unat (ucast ?p :: u32) = unat ?p" by simp
  show ?case
  proof (cases "unat r \<ge> unat ?p")
    case True
    define st1 where "st1 = audio_period (st\<lparr>ac_period_counter := ac_audper st\<rparr>)"
    have ge: "r \<ge> ucast ?p" using True u by (simp add: word_le_nat_alt)
    have r1: "unat (r - ucast ?p) = unat r - unat ?p" using ge by (simp add: unat_sub)
    have p: "0 < unat ?p" using less.prems by (simp add: audio_counting_def unat_gt_0)
    have "audio_counting st1" using less.prems by (simp add: st1_def audio_counting_def)
    then obtain st' r' e' where ih: "audio_period_loop st1 (r - ucast ?p) True = Some (st', r', e')" "e'"
        "st'\<lparr>ac_period_counter := ac_period_counter st' - ucast r'\<rparr> = (audio_tick ^^ unat (r - ucast ?p)) st1"
      using less.hyps [of "r - ucast ?p" st1 True] r1 p True by auto
    have "audio_period_loop st r e = audio_period_loop st1 (r - ucast ?p) True"
      using ge by (subst audio_period_loop.simps) (simp add: st1_def)
    moreover have "(audio_tick ^^ unat r) st = (audio_tick ^^ unat (r - ucast ?p)) st1"
    proof -
      have "unat r = (unat r - unat ?p) + unat ?p" using True by simp
      then have "(audio_tick ^^ unat r) st = (audio_tick ^^ (unat r - unat ?p)) ((audio_tick ^^ unat ?p) st)"
        by (metis funpow_add comp_apply)
      then show ?thesis by (simp add: audio_ticks_period [OF less.prems] st1_def r1)
    qed
    ultimately show ?thesis using ih True by auto
  next
    case False
    then have "\<not> r \<ge> ucast ?p" using u by (simp add: word_le_nat_alt)
    then have "audio_period_loop st r e = Some (st, r, e)" by (subst audio_period_loop.simps) simp
    moreover have "(audio_tick ^^ unat r) st = st\<lparr>ac_period_counter := ?p - ucast r\<rparr>"
      using audio_ticks_within [of "unat r" st] False by (simp only: not_le ucast_via_nat)
    ultimately show ?thesis using False by simp
  qed
qed

text \<open>What \<open>n\<close> clocks do to a channel: nothing while it is neither driven by DMA nor by data.\<close>

definition audio_after :: "bool \<Rightarrow> nat \<Rightarrow> rigel_audio_channel \<Rightarrow> rigel_audio_channel" where
  "audio_after enabled n st =
     (let st = st\<lparr>ac_dma_enabled := enabled\<rparr>
      in if \<not> enabled \<and> \<not> ac_data_pending st then st else (audio_tick ^^ n) (audio_loaded st))"

lemma audio_step_channel_ticks:
  "\<exists>e. audio_step_channel enabled cycles st = Some (audio_after enabled (unat cycles) st, e)"
proof (cases "\<not> enabled \<and> \<not> ac_data_pending st")
  case False
  let ?st = "st\<lparr>ac_dma_enabled := enabled\<rparr>"
  have l: "(let s = (if ac_audper ?st = 0 then ?st\<lparr>ac_audper := 1\<rparr> else ?st)
      in if ac_period_counter s = 0 then s\<lparr>ac_period_counter := ac_audper s\<rparr> else s) = audio_loaded ?st"
    by (simp add: audio_loaded_def Let_def)
  obtain st' r' e' where "audio_period_loop (audio_loaded ?st) cycles False = Some (st', r', e')"
    "st'\<lparr>ac_period_counter := ac_period_counter st' - ucast r'\<rparr> = (audio_tick ^^ unat cycles) (audio_loaded ?st)"
    using audio_period_loop_ticks [OF audio_loaded_counting] by blast
  then show ?thesis
    using False l unfolding audio_step_channel_def audio_after_def Let_def by auto
qed (auto simp: audio_step_channel_def audio_after_def intro: exI [of _ False])

lemma audio_step_channels_ticks:
  assumes "distinct cs" and "set cs \<subseteq> {..<length (au_ch a)}"
  shows "\<exists>a' e'. audio_step_channels a cycles cs e = Some (a', e') \<and>
    a' = a\<lparr>au_ch := au_ch a'\<rparr> \<and> length (au_ch a') = length (au_ch a) \<and>
    (\<forall>c < length (au_ch a). au_ch a' ! c =
      (if c \<in> set cs then audio_after (audio_channel_dma_enabled a c) (unat cycles) (au_ch a ! c) else au_ch a ! c))"
  using assms
proof (induction cs arbitrary: a e)
  case (Cons c cs)
  obtain f where f: "audio_step_channel (audio_channel_dma_enabled a c) cycles (au_ch a ! c) =
      Some (audio_after (audio_channel_dma_enabled a c) (unat cycles) (au_ch a ! c), f)"
    using audio_step_channel_ticks by blast
  define b where "b = a\<lparr>au_ch := (au_ch a)[c := audio_after (audio_channel_dma_enabled a c) (unat cycles) (au_ch a ! c)]\<rparr>"
  have en: "audio_channel_dma_enabled b = audio_channel_dma_enabled a"
    by (simp add: b_def fun_eq_iff audio_channel_dma_enabled_def)
  obtain a' e' where ih: "audio_step_channels b cycles cs (e \<or> f) = Some (a', e')"
    "a' = b\<lparr>au_ch := au_ch a'\<rparr>" "length (au_ch a') = length (au_ch b)"
    "\<forall>k < length (au_ch b). au_ch a' ! k =
      (if k \<in> set cs then audio_after (audio_channel_dma_enabled b k) (unat cycles) (au_ch b ! k) else au_ch b ! k)"
    using Cons.IH [of b "e \<or> f"] Cons.prems by (auto simp: b_def)
  have a': "a' = a\<lparr>au_ch := au_ch a'\<rparr>" using ih(2) by (cases a; cases a') (simp add: b_def)
  have bk: "au_ch b ! k = (if k = c then audio_after (audio_channel_dma_enabled a c) (unat cycles) (au_ch a ! c)
      else au_ch a ! k)" if "k < length (au_ch a)" for k
    using that Cons.prems by (simp add: b_def nth_list_update)
  have lb: "length (au_ch b) = length (au_ch a)" by (simp add: b_def)
  have "au_ch a' ! k = (if k \<in> set (c # cs)
      then audio_after (audio_channel_dma_enabled a k) (unat cycles) (au_ch a ! k) else au_ch a ! k)"
    if "k < length (au_ch a)" for k
    using that ih(4) Cons.prems(1) unfolding en lb by (cases "k = c") (auto simp: bk)
  moreover have "audio_step_channels a cycles (c # cs) e = Some (a', e')"
    using ih(1) by (simp add: f b_def)
  ultimately show ?case using a' ih(3) lb by auto
qed (auto)

lemma sint_clip: "sint (word_of_int (audio_clip v) :: i16) = audio_clip v"
  by (simp add: audio_clip_def signed_of_int signed_take_bit_int_eq_self)

text \<open>
  C28: Advancing the audio unit by any number of clocks ends, and gives every channel the
  state that as many single clocks give it: the period counter runs down, and each time it
  runs out the next byte is played.  The two outputs are the sums of their channels scaled by
  the volumes and clipped to sixteen bits.
\<close>

theorem audio_step_eq_ticks:
  assumes "length (au_ch audio) = 4"
  shows "\<exists>a'. audio_step audio cycles = Some a' \<and> length (au_ch a') = 4 \<and>
    (\<forall>c < 4. au_ch a' ! c = audio_after (audio_channel_dma_enabled audio c) (unat cycles) (au_ch audio ! c)) \<and>
    sint (audio_left a') = audio_clip (audio_scaled (au_ch a' ! 0) + audio_scaled (au_ch a' ! 3)) \<and>
    sint (audio_right a') = audio_clip (audio_scaled (au_ch a' ! 1) + audio_scaled (au_ch a' ! 2))"
proof -
  obtain b e where b: "audio_step_channels audio cycles [0..<4] False = Some (b, e)" "length (au_ch b) = 4"
    "\<forall>c < 4. au_ch b ! c = audio_after (audio_channel_dma_enabled audio c) (unat cycles) (au_ch audio ! c)"
    using audio_step_channels_ticks [of "[0..<4]" audio cycles False] assms
    by (auto simp: atLeast0LessThan)
  have ch: "au_ch (if e then (audio_mix b)\<lparr>au_sample_ready := True\<rparr> else audio_mix b) = au_ch b"
    by (simp add: audio_mix_def Let_def)
  have "audio_step audio cycles = Some (if e then (audio_mix b)\<lparr>au_sample_ready := True\<rparr> else audio_mix b)"
    by (simp only: audio_step_def b(1) option.case prod.case Let_def)
  then show ?thesis
    using b(2,3) ch
    by (intro exI [of _ "if e then (audio_mix b)\<lparr>au_sample_ready := True\<rparr> else audio_mix b"])
      (simp add: audio_left_def audio_right_def audio_mix_def Let_def sint_clip)
qed

definition audio_example :: audio_state where
  "audio_example =
     (let a = audio_reset \<lparr>au_ch = [], au_mixed_left = 0, au_mixed_right = 0, au_sample_ready = False,
                           au_dmacon = 0, au_irq = True\<rparr>
      in audio_write_dat (audio_write_vol (audio_write_per a 0 100) 0 64) 0 0x4000)"

theorem audio_step_eq_ticks_witness:
  "map_option (\<lambda>a. (sint (audio_left a), sint (audio_right a))) (audio_step audio_example 100) = Some (16384, 0)"
proof -
  have ex: "length (au_ch audio_example) = 4" "\<not> audio_channel_dma_enabled audio_example c"
    "au_ch audio_example ! 0 = audio_channel_zero\<lparr>ac_audper := 100, ac_audvol := 64, ac_auddat := 0x4000,
       ac_data_pending := True\<rparr>"
    "au_ch audio_example ! 1 = audio_channel_zero" "au_ch audio_example ! 2 = audio_channel_zero"
    "au_ch audio_example ! 3 = audio_channel_zero" for c
    by (simp_all add: audio_example_def Let_def audio_reset_def audio_write_dat_def audio_write_vol_def
        audio_write_per_def audio_channel_def audio_valid_channel_def audio_channel_dma_enabled_def
        audio_channel_zero_def)
  have load: "audio_loaded ((au_ch audio_example ! 0)\<lparr>ac_dma_enabled := False\<rparr>) =
      audio_channel_zero\<lparr>ac_audper := 100, ac_audvol := 64, ac_auddat := 0x4000, ac_data_pending := True,
        ac_period_counter := 100\<rparr>"
    by (simp add: ex audio_loaded_def audio_channel_zero_def Let_def)
  have "(audio_tick ^^ 100) (audio_loaded ((au_ch audio_example ! 0)\<lparr>ac_dma_enabled := False\<rparr>)) =
      audio_channel_zero\<lparr>ac_audper := 100, ac_audvol := 64, ac_auddat := 0x4000, ac_data_pending := False,
        ac_period_counter := 100, ac_current_sample := 0x4000\<rparr>"
    using audio_ticks_period [OF audio_loaded_counting, of "(au_ch audio_example ! 0)\<lparr>ac_dma_enabled := False\<rparr>"]
    unfolding load by (simp add: audio_period_def audio_channel_zero_def audio_byte_sample_def)
  then have a0: "audio_after False 100 (au_ch audio_example ! 0) =
      audio_channel_zero\<lparr>ac_audper := 100, ac_audvol := 64, ac_auddat := 0x4000, ac_data_pending := False,
        ac_period_counter := 100, ac_current_sample := 0x4000\<rparr>"
    by (simp add: audio_after_def Let_def ex(3))
  have az: "audio_after False 100 audio_channel_zero = audio_channel_zero"
    by (simp add: audio_after_def audio_channel_zero_def)
  obtain a' where a': "audio_step audio_example 100 = Some a'"
    "\<forall>c < 4. au_ch a' ! c = audio_after False 100 (au_ch audio_example ! c)"
    "sint (audio_left a') = audio_clip (audio_scaled (au_ch a' ! 0) + audio_scaled (au_ch a' ! 3))"
    "sint (audio_right a') = audio_clip (audio_scaled (au_ch a' ! 1) + audio_scaled (au_ch a' ! 2))"
    using audio_step_eq_ticks [OF ex(1), of 100] ex(2) by auto
  have c: "au_ch a' ! 0 = audio_after False 100 (au_ch audio_example ! 0)"
    "au_ch a' ! 1 = audio_channel_zero" "au_ch a' ! 2 = audio_channel_zero" "au_ch a' ! 3 = audio_channel_zero"
    using a'(2) az by (simp_all add: ex(4-6) ex(4) [simplified])
  have z: "audio_scaled audio_channel_zero = 0"
    by (simp add: audio_scaled_def audio_channel_zero_def signed_divide_int_def)
  have s0: "audio_scaled (audio_after False 100 (au_ch audio_example ! 0)) = 16384"
    unfolding a0 by (simp add: audio_scaled_def signed_divide_int_def)
  show ?thesis unfolding a'(1) using a'(3,4) unfolding c z s0 by (simp add: audio_clip_def)
qed

section \<open>Block playback\<close>



definition audio_slot_addr :: "rigel_audio_channel \<Rightarrow> u32" where
  "audio_slot_addr ch = (if ac_current_length ch = 0 then ac_audlc ch else ac_current_ptr ch) AND NOT 1"

















text \<open>
  The first block after a reset: writing AUDxLEN loads the length counter, so the reload that
  would take the start address is skipped and the first slot reads address 0.
\<close>

lemma audio_first_fetch_address:
  assumes "value \<noteq> 0" and "c < 4"
  shows "audio_slot_addr (au_ch (audio_write_len (audio_write_lcl (audio_write_lch (audio_reset a) c hi) c lo)
    c value) ! c) = 0"
  using assms
  by (simp add: audio_slot_addr_def audio_write_len_def audio_write_lcl_def audio_write_lch_def audio_reset_def
      audio_channel_def audio_valid_channel_def audio_channel_zero_def Let_def)

end
