(* ===== verification/Denise_Pixel.thy ===== *)
theory Denise_Pixel
  imports Rigel_Prelude
begin

text \<open>
  The pixel-level parts of Denise, each a pure function of its arguments: the planar to chunky
  conversion (\<^verbatim>\<open>denise/output/planar.c\<close>, the scalar routine; the NEON one is written in
  compiler intrinsics), the colour formats (\<^verbatim>\<open>denise/palette/color_regs.c\<close>,
  \<^verbatim>\<open>output/rgb.h\<close> and the conversion of \<^verbatim>\<open>render/compositor.c\<close>), the special colour modes
  (\<^verbatim>\<open>render/ehb.c\<close>, \<^verbatim>\<open>render/ham.c\<close>, \<^verbatim>\<open>render/dualpf.c\<close>), the sprite and playfield
  priority (\<^verbatim>\<open>render/priority.c\<close>), the sprite latches (\<^verbatim>\<open>sprites/sprites.c\<close>,
  \<^verbatim>\<open>sprite_attach.c\<close>) and the collision register (\<^verbatim>\<open>sprites/collisions.c\<close>).

  An \<^verbatim>\<open>unsigned\<close> that counts planes, pixels or sprites is a natural number; every such
  value of the code stays far below the width of the type.
\<close>

unbundle bit_operations_syntax

section \<open>Planar to chunky\<close>

text \<open>The inner loop of both routines: one bit of every plane, gathered into an index.\<close>

definition planar_bit :: "u16 \<Rightarrow> nat \<Rightarrow> nat \<Rightarrow> u8" where
  "planar_bit w shift p = ucast (push_bit p (ucast (drop_bit shift w) AND 1 :: u32))"

definition planar_gather :: "u16 list \<Rightarrow> nat \<Rightarrow> nat \<Rightarrow> u8" where
  "planar_gather plane_words num_planes shift =
     foldl (\<lambda>index p. index OR planar_bit (plane_words ! p) shift p) 0 [0..<num_planes]"

definition planar_to_chunky :: "u16 list \<Rightarrow> nat \<Rightarrow> u8 list" where
  "planar_to_chunky plane_words num_planes =
     (let num_planes = (if num_planes > 6 then 6 else num_planes)
      in map (\<lambda>px. planar_gather plane_words num_planes (15 - px)) [0..<16])"

definition planar_pixel_at :: "u16 list \<Rightarrow> nat \<Rightarrow> nat \<Rightarrow> u8" where
  "planar_pixel_at plane_words num_planes b =
     (let num_planes = (if num_planes > 6 then 6 else num_planes)
      in if b > 15 then 0 else planar_gather plane_words num_planes (15 - b))"

section \<open>Colour formats\<close>

definition rgb12_to_rgba32 :: "u16 \<Rightarrow> u32" where
  "rgb12_to_rgba32 color12 =
     (let r = ucast ((drop_bit 8 color12 AND 0xF) * 0x11) :: u8;
          g = ucast ((drop_bit 4 color12 AND 0xF) * 0x11) :: u8;
          b = ucast ((color12 AND 0xF) * 0x11) :: u8
      in push_bit 24 (ucast r) OR push_bit 16 (ucast g) OR push_bit 8 (ucast b) OR 0xFF)"

definition rgb_expand_palette :: "u16 list \<Rightarrow> u32 list" where
  "rgb_expand_palette color_regs = map (\<lambda>i. rgb12_to_rgba32 (color_regs ! i)) [0..<32]"

definition rigel_denise_color_expand_12bit :: "u16 \<Rightarrow> u32" where
  "rigel_denise_color_expand_12bit v =
     (let r = ucast (drop_bit 8 v AND 0x0f) :: u32;
          g = ucast (drop_bit 4 v AND 0x0f) :: u32;
          b = ucast (v AND 0x0f) :: u32
      in push_bit 20 r OR push_bit 16 r OR push_bit 12 g OR push_bit 8 g OR push_bit 4 b OR b)"

definition rigel_denise_color_expand_rgb565 :: "u16 \<Rightarrow> u16" where
  "rigel_denise_color_expand_rgb565 v =
     (let r = drop_bit 8 v AND 0x0f;
          g = drop_bit 4 v AND 0x0f;
          b = v AND 0x0f;
          r = push_bit 4 r OR r;
          g = push_bit 4 g OR g;
          b = push_bit 4 b OR b
      in push_bit 11 (drop_bit 3 r) OR push_bit 5 (drop_bit 2 g) OR drop_bit 3 b)"

definition rgb32_to_rgb565 :: "u32 \<Rightarrow> u16" where
  "rgb32_to_rgb565 rgb =
     (let r = drop_bit 16 rgb AND 0xff;
          g = drop_bit 8 rgb AND 0xff;
          b = rgb AND 0xff
      in ucast (push_bit 11 (drop_bit 3 r) OR push_bit 5 (drop_bit 2 g) OR drop_bit 3 b))"

section \<open>Colour modes\<close>

definition ehb_resolve_color :: "u8 \<Rightarrow> u32 list \<Rightarrow> u32" where
  "ehb_resolve_color plane_bits palette =
     (if plane_bits AND 0x20 \<noteq> 0 then
        let base = palette ! unat (plane_bits AND 0x1F);
            r = ucast (drop_bit 1 (drop_bit 16 base AND 0xFF)) :: u8;
            g = ucast (drop_bit 1 (drop_bit 8 base AND 0xFF)) :: u8;
            b = ucast (drop_bit 1 (base AND 0xFF)) :: u8
        in push_bit 16 (ucast r) OR push_bit 8 (ucast g) OR ucast b
      else palette ! unat (plane_bits AND 0x1F))"

definition ham6_decode_pixel :: "u8 \<Rightarrow> u32 \<Rightarrow> u32 list \<Rightarrow> u32" where
  "ham6_decode_pixel plane_bits prev_rgb palette =
     (let ctrl = drop_bit 4 plane_bits AND 0x3;
          v = push_bit 4 (plane_bits AND 0xF)
      in if ctrl = 0 then palette ! unat (plane_bits AND 0x1F)
         else if ctrl = 1 then (prev_rgb AND 0xFFFF00) OR ucast v
         else if ctrl = 2 then (prev_rgb AND 0x00FFFF) OR push_bit 16 (ucast v)
         else if ctrl = 3 then (prev_rgb AND 0xFF00FF) OR push_bit 8 (ucast v)
         else prev_rgb)"

definition ham8_decode_pixel :: "u8 \<Rightarrow> u32 \<Rightarrow> u32 list \<Rightarrow> u32" where
  "ham8_decode_pixel plane_bits prev_rgb palette =
     (let ctrl = drop_bit 6 plane_bits AND 0x3;
          v6 = plane_bits AND 0x3F;
          v = push_bit 2 v6 OR drop_bit 4 v6
      in if ctrl = 0 then palette ! unat v6
         else if ctrl = 1 then (prev_rgb AND 0xFFFF00) OR ucast v
         else if ctrl = 2 then (prev_rgb AND 0x00FFFF) OR push_bit 16 (ucast v)
         else if ctrl = 3 then (prev_rgb AND 0xFF00FF) OR push_bit 8 (ucast v)
         else prev_rgb)"

record dualpf_result =
  pf1_index :: u8
  pf2_index :: u8

definition dualpf_decode :: "u8 \<Rightarrow> dualpf_result" where
  "dualpf_decode plane_bits =
     (let i1 = (plane_bits AND 1) OR (drop_bit 1 plane_bits AND 2) OR (drop_bit 2 plane_bits AND 4);
          i2 = (drop_bit 1 plane_bits AND 1) OR (drop_bit 2 plane_bits AND 2)
               OR (drop_bit 3 plane_bits AND 4)
      in \<lparr>pf1_index = (if i1 \<noteq> 0 then i1 + 0 else i1),
          pf2_index = (if i2 \<noteq> 0 then i2 + 8 else i2)\<rparr>)"

definition dualpf_priority_resolve :: "dualpf_result \<Rightarrow> u16 \<Rightarrow> u8" where
  "dualpf_priority_resolve pf bplcon2 =
     (let pf2_priority = bplcon2 AND 0x0040 \<noteq> 0
      in if pf2_index pf \<noteq> 0 \<and> pf1_index pf \<noteq> 0 then
           (if pf2_priority then pf2_index pf else pf1_index pf)
         else if pf2_index pf \<noteq> 0 then pf2_index pf
         else if pf1_index pf \<noteq> 0 then pf1_index pf
         else 0)"

section \<open>Sprite and playfield priority\<close>

record priority_result =
  color_index :: u8
  from_sprite :: bool
  sprite_num :: u8

text \<open>The for loop of \<^verbatim>\<open>denise_priority_resolve\<close>, over the sprite numbers still to test.\<close>

fun priority_loop :: "u8 \<Rightarrow> nat \<Rightarrow> u8 list \<Rightarrow> nat list \<Rightarrow> priority_result" where
  "priority_loop pf_color pf_prio sprite_px [] =
     \<lparr>color_index = pf_color, from_sprite = False, sprite_num = 0\<rparr>"
| "priority_loop pf_color pf_prio sprite_px (i # is) =
     (if sprite_px ! i = 0 then priority_loop pf_color pf_prio sprite_px is
      else if pf_color = 0 \<or> i div 2 + pf_prio < 4 then
        \<lparr>color_index = sprite_px ! i, from_sprite = True, sprite_num = of_nat i\<rparr>
      else priority_loop pf_color pf_prio sprite_px is)"

definition denise_priority_resolve :: "u8 \<Rightarrow> bool \<Rightarrow> u8 list \<Rightarrow> u16 \<Rightarrow> priority_result" where
  "denise_priority_resolve pf_color is_pf2 sprite_px bplcon2 =
     (let pf_prio = unat (if is_pf2 then drop_bit 3 bplcon2 AND 7 else bplcon2 AND 7)
      in priority_loop pf_color pf_prio sprite_px [0..<8])"

section \<open>Sprites\<close>

record denise_sprite =
  dspr_pos :: u16
  dspr_ctl :: u16
  dspr_data :: u16
  dspr_datb :: u16
  dspr_armed :: bool
  dspr_visible :: bool

record denise_sprites_state =
  dspr_sp :: "denise_sprite list"
  dspr_active_mask :: u16
  dspr_attached_mask :: u16

abbreviation DENISE_SPRITE_COUNT :: nat where "DENISE_SPRITE_COUNT \<equiv> 8"

definition denise_sprites_reset :: denise_sprites_state where
  "denise_sprites_reset =
     \<lparr>dspr_sp = replicate DENISE_SPRITE_COUNT
        \<lparr>dspr_pos = 0, dspr_ctl = 0, dspr_data = 0, dspr_datb = 0,
         dspr_armed = False, dspr_visible = False\<rparr>,
      dspr_active_mask = 0, dspr_attached_mask = 0\<rparr>"

text \<open>The attach bit of a control word, latched for odd sprites only.\<close>

definition sprite_latch_attach :: "nat \<Rightarrow> u16 \<Rightarrow> u16 \<Rightarrow> u16" where
  "sprite_latch_attach sp ctl attached =
     (if odd sp then
        (if ctl AND push_bit 7 1 \<noteq> 0 then attached OR push_bit sp 1
         else attached AND NOT (push_bit sp 1))
      else attached)"

definition denise_sprite_receive_ctrl ::
    "denise_sprites_state \<Rightarrow> nat \<Rightarrow> u16 \<Rightarrow> u16 \<Rightarrow> denise_sprites_state" where
  "denise_sprite_receive_ctrl s sp pos ctl =
     (if sp \<ge> DENISE_SPRITE_COUNT then s
      else s\<lparr>dspr_sp := (dspr_sp s)[sp := (dspr_sp s ! sp)
               \<lparr>dspr_pos := pos, dspr_ctl := ctl, dspr_armed := True\<rparr>],
             dspr_attached_mask := sprite_latch_attach sp ctl (dspr_attached_mask s)\<rparr>)"

definition denise_sprite_receive_data ::
    "denise_sprites_state \<Rightarrow> nat \<Rightarrow> u16 \<Rightarrow> u16 \<Rightarrow> denise_sprites_state" where
  "denise_sprite_receive_data s sp data datb =
     (if sp \<ge> DENISE_SPRITE_COUNT then s
      else s\<lparr>dspr_sp := (dspr_sp s)[sp := (dspr_sp s ! sp)
               \<lparr>dspr_data := data, dspr_datb := datb\<rparr>]\<rparr>)"

definition denise_sprite_hstart :: "denise_sprite \<Rightarrow> u16" where
  "denise_sprite_hstart sp = push_bit 1 (dspr_pos sp AND 0xFF) OR (dspr_ctl sp AND 1)"

definition denise_sprite_vstart :: "denise_sprite \<Rightarrow> u16" where
  "denise_sprite_vstart sp =
     (drop_bit 8 (dspr_pos sp) AND 0xFF) OR push_bit 8 (drop_bit 2 (dspr_ctl sp) AND 1)"

definition denise_sprite_vstop :: "denise_sprite \<Rightarrow> u16" where
  "denise_sprite_vstop sp =
     (drop_bit 8 (dspr_ctl sp) AND 0xFF) OR push_bit 8 (drop_bit 1 (dspr_ctl sp) AND 1)"

definition denise_sprite_pixel :: "denise_sprites_state \<Rightarrow> nat \<Rightarrow> u16 \<Rightarrow> u8" where
  "denise_sprite_pixel s sp hpos =
     (if sp \<ge> DENISE_SPRITE_COUNT then 0
      else
        let ch = dspr_sp s ! sp
        in if \<not> dspr_armed ch then 0
           else
             let hstart = denise_sprite_hstart ch
             in if hpos < hstart \<or> unat hpos \<ge> unat hstart + 16 then 0
                else
                  let offset = unat hpos - unat hstart;
                      shift = 15 - offset;
                      data_bit = drop_bit shift (dspr_data ch) AND 1;
                      datb_bit = drop_bit shift (dspr_datb ch) AND 1
                  in ucast (push_bit 1 datb_bit OR data_bit))"

definition denise_sprite_is_attached :: "denise_sprites_state \<Rightarrow> nat \<Rightarrow> bool" where
  "denise_sprite_is_attached s odd_sp \<longleftrightarrow>
     (if odd odd_sp then drop_bit odd_sp (dspr_attached_mask s) AND 1 \<noteq> 0 else False)"

definition denise_sprite_attached_pixel :: "denise_sprites_state \<Rightarrow> nat \<Rightarrow> u16 \<Rightarrow> u8" where
  "denise_sprite_attached_pixel s even_sp hpos =
     (if even_sp \<ge> DENISE_SPRITE_COUNT - 1 \<or> odd even_sp then 0
      else
        let odd_sp = even_sp + 1;
            lo = denise_sprite_pixel s even_sp hpos;
            hi = denise_sprite_pixel s odd_sp hpos
        in if lo = 0 \<and> hi = 0 then 0 else 16 + (push_bit 2 hi OR lo))"

definition rigel_denise_sprites_reset :: denise_sprites_state where
  "rigel_denise_sprites_reset = denise_sprites_reset"

section \<open>Collisions\<close>

record collision_state =
  clxcon :: u16
  clxdat :: u16

definition collision_reset :: collision_state where
  "collision_reset = \<lparr>clxcon = 0, clxdat = 0\<rparr>"

definition collision_pairs :: "u16 \<Rightarrow> u8" where
  "collision_pairs con =
     (let en_pairs = ucast (con AND 0x0F) :: u8
      in (if en_pairs AND 0x01 \<noteq> 0 then 0x03 else 0) OR
         (if en_pairs AND 0x02 \<noteq> 0 then 0x0C else 0) OR
         (if en_pairs AND 0x04 \<noteq> 0 then 0x30 else 0) OR
         (if en_pairs AND 0x08 \<noteq> 0 then 0xC0 else 0))"

definition clx_set :: "bool \<Rightarrow> u16 \<Rightarrow> u16 \<Rightarrow> u16" where
  "clx_set c m dat = (if c then dat OR m else dat)"

definition collision_check_pixel ::
    "collision_state \<Rightarrow> u8 \<Rightarrow> bool \<Rightarrow> bool \<Rightarrow> collision_state" where
  "collision_check_pixel c sprite_mask pf1_active pf2_active =
     (let active_ss = sprite_mask AND collision_pairs (clxcon c);
          od = drop_bit 1 active_ss AND 0x55;
          ev = active_ss AND 0x55;
          dat = clx_set (od AND (od - 1) \<noteq> 0) (push_bit 0 1) (clxdat c);
          dat = clx_set (ev AND (ev - 1) \<noteq> 0) (push_bit 1 1) dat;
          dat = (if drop_bit 6 (clxcon c) AND 0x3F \<noteq> 0 then
                   let odd_pf = drop_bit 1 sprite_mask AND 0x55;
                       even_pf = sprite_mask AND 0x55;
                       dat = clx_set (odd_pf \<noteq> 0 \<and> pf1_active) (push_bit 2 1) dat;
                       dat = clx_set (even_pf \<noteq> 0 \<and> pf1_active) (push_bit 3 1) dat;
                       dat = clx_set (odd_pf \<noteq> 0 \<and> pf2_active) (push_bit 4 1) dat
                   in clx_set (even_pf \<noteq> 0 \<and> pf2_active) (push_bit 5 1) dat
                 else dat)
      in c\<lparr>clxdat := clx_set (pf1_active \<and> pf2_active) (push_bit 6 1) dat\<rparr>)"

definition collision_read_clxdat :: "collision_state \<Rightarrow> u16 \<times> collision_state" where
  "collision_read_clxdat c = (clxdat c, c\<lparr>clxdat := 0\<rparr>)"

definition collision_write_clxcon :: "collision_state \<Rightarrow> u16 \<Rightarrow> collision_state" where
  "collision_write_clxcon c v = c\<lparr>clxcon := v\<rparr>"

section \<open>Facts about pixels\<close>

lemma drop_bit_and_1 [simp]: "drop_bit n w AND 1 = 0 \<longleftrightarrow> \<not> bit w n" for w :: u16
  by (simp add: and_one_eq bit_iff_odd_drop_bit even_iff_mod_2_eq_zero)

lemma bit_planar_bit: "bit (planar_bit w s p) j \<longleftrightarrow> j = p \<and> p < 8 \<and> bit w s"
proof -
  define b :: u32 where "b = ucast (drop_bit s w) AND 1"
  have b: "bit b k \<longleftrightarrow> k = 0 \<and> bit w s" for k
    unfolding b_def bit_and_iff bit_1_iff
    by (auto simp: bit_ucast_iff bit_drop_bit_eq)
  show ?thesis
    unfolding planar_bit_def b_def [symmetric]
    by (auto simp: bit_ucast_iff bit_push_bit_iff b)
qed

lemma bit_planar_gather:
  "bit (planar_gather pw n s) p \<longleftrightarrow> p < n \<and> p < 8 \<and> bit (pw ! p) s"
  unfolding planar_gather_def
  by (induction n) (auto simp: bit_or_iff bit_planar_bit less_Suc_eq)

lemma planar_to_chunky_nth:
  "px < 16 \<Longrightarrow> planar_to_chunky pw n ! px = planar_pixel_at pw n px"
  by (simp add: planar_to_chunky_def planar_pixel_at_def Let_def)

lemma bit_planar_pixel_at:
  "b < 16 \<Longrightarrow> bit (planar_pixel_at pw n b) p \<longleftrightarrow> p < n \<and> p < 6 \<and> bit (pw ! p) (15 - b)"
  by (auto simp: planar_pixel_at_def Let_def bit_planar_gather)

text \<open>The two palettes hold the same colour: reducing the 24-bit expansion gives the 16-bit one.\<close>

lemma color_formats_agree:
  "rgb32_to_rgb565 (rigel_denise_color_expand_12bit v) = rigel_denise_color_expand_rgb565 v"
proof -
  have "list_all (\<lambda>n. bit (rgb32_to_rgb565 (rigel_denise_color_expand_12bit v)) n
      \<longleftrightarrow> bit (rigel_denise_color_expand_rgb565 v) n) [0..<LENGTH(16)]"
    unfolding rgb32_to_rgb565_def rigel_denise_color_expand_12bit_def
      rigel_denise_color_expand_rgb565_def Let_def
    by (simp add: upt_rec_numeral upt_rec [of 0] upt_rec [of "Suc 0"] numeral_2_eq_2 [symmetric]
        bit_simps)
  then show ?thesis
    by (intro bit_word_eqI) (simp add: list_all_iff)
qed

end
