(* ===== verification/Denise_State.thy ===== *)
theory Denise_State
  imports Denise_Pixel Beam
begin

text \<open>
  The state of Denise (\<^verbatim>\<open>denise/denise_state.h\<close>, \<^verbatim>\<open>rigel_denise_types.h\<close>) and the operations
  that do not draw: palette and register file (\<^verbatim>\<open>palette/*.c\<close>,
  \<^verbatim>\<open>registers/denise_registers.c\<close>, \<^verbatim>\<open>render/playfield.c\<close>), the display window
  (\<^verbatim>\<open>video/display_window.c\<close>), the double-buffered frame store
  (\<^verbatim>\<open>output/framebuffer.c\<close>), the reset of \<^verbatim>\<open>denise.c\<close> and the queries of
  \<^verbatim>\<open>src/core/rigel_denise_api.c\<close>.

  A fixed array is a list.  Bytes stored to the host's framebuffer target are returned as
  a list of stores, each with its byte offset from the start of the target's pixels; the
  target's pixel pointer is an optional address.  A reference into the frame store that
  the queries hand out is the triple of its buffer, line and column.
\<close>

unbundle bit_operations_syntax

section \<open>State\<close>

abbreviation RIGEL_DENISE_MAX_SCANLINE_PIXELS :: nat where
  "RIGEL_DENISE_MAX_SCANLINE_PIXELS \<equiv> 1024"
abbreviation RIGEL_DENISE_MAX_PLANE_WORDS :: nat where "RIGEL_DENISE_MAX_PLANE_WORDS \<equiv> 64"
abbreviation RIGEL_DENISE_MAX_LINES :: u16 where "RIGEL_DENISE_MAX_LINES \<equiv> 312"

abbreviation RIGEL_DENISE_MODE_DUALPF :: u16 where "RIGEL_DENISE_MODE_DUALPF \<equiv> 1"
abbreviation RIGEL_DENISE_MODE_HAM :: u16 where "RIGEL_DENISE_MODE_HAM \<equiv> 2"
abbreviation RIGEL_DENISE_MODE_EHB :: u16 where "RIGEL_DENISE_MODE_EHB \<equiv> 4"
abbreviation RIGEL_DENISE_MODE_HIRES :: u16 where "RIGEL_DENISE_MODE_HIRES \<equiv> 8"
abbreviation RIGEL_DENISE_MODE_LACE :: u16 where "RIGEL_DENISE_MODE_LACE \<equiv> 16"

type_synonym rigel_pixel_format = u32

abbreviation RIGEL_PIXEL_RGBA8888 :: rigel_pixel_format where "RIGEL_PIXEL_RGBA8888 \<equiv> 0"
abbreviation RIGEL_PIXEL_RGB565 :: rigel_pixel_format where "RIGEL_PIXEL_RGB565 \<equiv> 1"

record denise_register_file =
  dr_color :: "u16 list"
  dr_bplcon0 :: u16
  dr_bplcon1 :: u16
  dr_bplcon2 :: u16
  dr_bplcon3 :: u16
  dr_diwstrt :: u16
  dr_diwstop :: u16
  dr_diwhigh :: u16

record denise_palette_state =
  dp_rgb32 :: "u32 list"
  dp_rgb565 :: "u16 list"

record denise_video_state =
  dv_width :: u16
  dv_height :: u16
  dv_visible_x_start :: u16
  dv_visible_x_stop :: u16
  dv_visible_y_start :: u16
  dv_visible_y_stop :: u16

record framebuffer_target =
  ft_pixels :: "u64 option"
  ft_width :: u32
  ft_height :: u32
  ft_pitch :: u32
  ft_format :: rigel_pixel_format
  ft_little_endian :: bool

record denise_output_state =
  do_frame_counter :: u64
  do_beam_hpos :: u16
  do_beam_vpos :: u16
  do_current_scanline :: u16
  do_current_pixel :: u16
  do_scanline_width :: u16
  do_last_rgb :: u32
  do_scanline_rgba :: "u32 list"
  do_scanline_rgb565 :: "u16 list"
  do_frame_rgba :: "u32 list list list"
  do_frame_rgb565 :: "u16 list list list"
  do_front_idx :: u8
  do_visible_scanline :: bool
  do_scanline_dirty :: bool
  do_frame_dirty :: bool
  do_beam_lof :: u8
  do_beam_lof_toggle :: u8
  do_plane_words :: "u16 list list"
  do_plane_word_count :: u16
  do_line_bplcon0 :: u16
  do_line_bplcon1 :: u16
  do_line_bplcon2 :: u16
  do_line_bplcon_valid :: bool
  do_ddfstrt_lores :: u16
  do_pending_flags :: u32
  do_pending_dirty :: "u64 list"
  do_completed_flags :: u32
  do_completed_dirty :: "u64 list"
  do_pending_full_redraw :: bool
  do_completed_full_redraw :: bool
  do_has_write_target :: bool
  do_write_target :: framebuffer_target

record denise_debug_state =
  ddbg_frame_counter :: u32
  ddbg_scanline_counter :: u32
  ddbg_active_mode_flags :: u16
  ddbg_last_color_index :: u16
  ddbg_beam_hpos :: u16
  ddbg_beam_vpos :: u16
  ddbg_current_scanline :: u16
  ddbg_current_pixel :: u16
  ddbg_last_rgb32 :: u32
  ddbg_visible_scanline :: bool

record rigel_denise =
  dn_chip_rev :: agnus_chip_rev
  dn_regs :: denise_register_file
  dn_palette :: denise_palette_state
  dn_sprites :: denise_sprites_state
  dn_coll :: collision_state
  dn_video :: denise_video_state
  dn_output :: denise_output_state
  dn_debug :: denise_debug_state

section \<open>Palette\<close>

abbreviation RIGEL_REG_COLOR00 :: u32 where "RIGEL_REG_COLOR00 \<equiv> 0x180"
abbreviation RIGEL_REG_COLOR31 :: u32 where "RIGEL_REG_COLOR31 \<equiv> 0x1be"

definition rigel_denise_color_regs_read :: "rigel_denise \<Rightarrow> u32 \<Rightarrow> u16" where
  "rigel_denise_color_regs_read denise addr =
     (if addr < RIGEL_REG_COLOR00 \<or> addr > RIGEL_REG_COLOR31 then 0
      else dr_color (dn_regs denise) ! unat (drop_bit 1 (addr - RIGEL_REG_COLOR00)))"

definition rigel_denise_color_regs_write :: "rigel_denise \<Rightarrow> u32 \<Rightarrow> u16 \<Rightarrow> rigel_denise" where
  "rigel_denise_color_regs_write denise addr v =
     (if addr < RIGEL_REG_COLOR00 \<or> addr > RIGEL_REG_COLOR31 then denise
      else
        let index = drop_bit 1 (addr - RIGEL_REG_COLOR00);
            i = unat index;
            out = dn_output denise;
            regs = dn_regs denise;
            pal = dn_palette denise
        in denise\<lparr>
             dn_output := (if dr_color regs ! i \<noteq> v then out\<lparr>do_pending_full_redraw := True\<rparr>
                           else out),
             dn_regs := regs\<lparr>dr_color := (dr_color regs)[i := v]\<rparr>,
             dn_palette := pal\<lparr>
               dp_rgb32 := (dp_rgb32 pal)[i := rigel_denise_color_expand_12bit v],
               dp_rgb565 := (dp_rgb565 pal)[i := rigel_denise_color_expand_rgb565 v]\<rparr>,
             dn_debug := (dn_debug denise)\<lparr>ddbg_last_color_index := ucast index\<rparr>\<rparr>)"

definition rigel_denise_palette_reset :: denise_palette_state where
  "rigel_denise_palette_reset = \<lparr>dp_rgb32 = replicate 32 0, dp_rgb565 = replicate 32 0\<rparr>"

section \<open>Playfield mode\<close>

definition rigel_denise_playfield_update_mode :: "rigel_denise \<Rightarrow> rigel_denise" where
  "rigel_denise_playfield_update_mode denise =
     (let bplcon0 = dr_bplcon0 (dn_regs denise);
          depth = drop_bit 12 bplcon0 AND 7;
          flags = (if bplcon0 AND 0x8000 \<noteq> 0 then RIGEL_DENISE_MODE_HIRES else 0);
          flags = (if bplcon0 AND 0x0400 \<noteq> 0 then flags OR RIGEL_DENISE_MODE_DUALPF else flags);
          flags = (if bplcon0 AND 0x0800 \<noteq> 0 then flags OR RIGEL_DENISE_MODE_HAM else flags);
          flags = (if bplcon0 AND 0x0004 \<noteq> 0 then flags OR RIGEL_DENISE_MODE_LACE else flags);
          flags = (if depth = 6 \<and>
                      flags AND (RIGEL_DENISE_MODE_HAM OR RIGEL_DENISE_MODE_DUALPF) = 0 \<and>
                      (dn_chip_rev denise \<noteq> AGNUS_REV_ECS \<or>
                       dr_bplcon2 (dn_regs denise) AND 0x0040 = 0)
                   then flags OR RIGEL_DENISE_MODE_EHB else flags)
      in denise\<lparr>dn_debug := (dn_debug denise)\<lparr>ddbg_active_mode_flags := flags\<rparr>\<rparr>)"

section \<open>Display window\<close>

definition rigel_denise_display_window_reset :: denise_video_state where
  "rigel_denise_display_window_reset =
     \<lparr>dv_width = 320, dv_height = 256, dv_visible_x_start = 0, dv_visible_x_stop = 320,
      dv_visible_y_start = 0, dv_visible_y_stop = 256\<rparr>"

record diw_edges =
  diw_hstrt :: u16
  diw_vstrt :: u16
  diw_hstop :: u16
  diw_vstop :: u16

definition diw_is_ocs :: "rigel_denise \<Rightarrow> bool" where
  "diw_is_ocs denise \<longleftrightarrow>
     \<not> (dn_chip_rev denise = AGNUS_REV_ECS \<and> dr_diwhigh (dn_regs denise) \<noteq> 0)"

text \<open>The edges as the registers encode them, with the ECS extension bits when DIWHIGH is set.\<close>

definition diw_decode :: "rigel_denise \<Rightarrow> diw_edges" where
  "diw_decode denise =
     (let strt = dr_diwstrt (dn_regs denise); stop = dr_diwstop (dn_regs denise);
          high = dr_diwhigh (dn_regs denise)
      in if \<not> diw_is_ocs denise then
           let start_hi = high AND 0x00FF; stop_hi = drop_bit 8 high AND 0x00FF
           in \<lparr>diw_hstrt = (strt AND 0x00FF) OR push_bit 8 (drop_bit 5 start_hi AND 1),
               diw_vstrt = (drop_bit 8 strt AND 0x00FF) OR push_bit 8 (start_hi AND 7),
               diw_hstop = (stop AND 0x00FF) OR push_bit 8 (drop_bit 5 stop_hi AND 1),
               diw_vstop = (drop_bit 8 stop AND 0x00FF) OR push_bit 8 (stop_hi AND 7)\<rparr>
         else
           \<lparr>diw_hstrt = strt AND 0x00FF,
            diw_vstrt = drop_bit 8 strt AND 0x00FF,
            diw_hstop = (stop AND 0x00FF) + 256,
            diw_vstop = drop_bit 8 stop AND 0x00FF\<rparr>)"

text \<open>Wrapped stops, over-wide ECS windows and the short OCS windows of old software.\<close>

definition diw_adjust :: "rigel_denise \<Rightarrow> diw_edges \<Rightarrow> diw_edges" where
  "diw_adjust denise e =
     (let strt = dr_diwstrt (dn_regs denise); stop = dr_diwstop (dn_regs denise);
          e = (if diw_vstop e \<le> diw_vstrt e then e\<lparr>diw_vstop := diw_vstop e + 256\<rparr> else e);
          e = (if diw_hstop e \<le> diw_hstrt e then e\<lparr>diw_hstop := diw_hstop e + 256\<rparr> else e);
          e = (if \<not> diw_is_ocs denise \<and> diw_hstop e > diw_hstrt e \<and>
                  diw_hstop e - diw_hstrt e > 512 then
                 let e = e\<lparr>diw_hstrt := strt AND 0x00FF, diw_hstop := (stop AND 0x00FF) + 256\<rparr>
                 in if diw_hstop e \<le> diw_hstrt e then e\<lparr>diw_hstop := diw_hstop e + 256\<rparr> else e
               else e)
      in if diw_is_ocs denise \<and> diw_vstop e - diw_vstrt e < 128 \<and> diw_vstrt e < 32
         then e\<lparr>diw_vstop := diw_vstrt e + 256\<rparr> else e)"

definition diw_apply :: "bool \<Rightarrow> diw_edges \<Rightarrow> denise_video_state \<Rightarrow> denise_video_state" where
  "diw_apply hires e video =
     (if diw_vstrt e \<ge> RIGEL_DENISE_MAX_LINES then video
      else
        let vstop = (if diw_vstop e > RIGEL_DENISE_MAX_LINES then RIGEL_DENISE_MAX_LINES
                     else diw_vstop e);
            hscale = (if hires then 2 else 1) :: u16;
            hwidth = (if diw_hstop e > diw_hstrt e then diw_hstop e - diw_hstrt e else 320);
            x_start = diw_hstrt e * hscale
        in \<lparr>dv_width = hwidth * hscale,
            dv_height = (if vstop > diw_vstrt e then vstop - diw_vstrt e else 256),
            dv_visible_x_start = x_start,
            dv_visible_x_stop = x_start + hwidth * hscale,
            dv_visible_y_start = diw_vstrt e,
            dv_visible_y_stop = vstop\<rparr>)"

definition rigel_denise_display_window_update :: "rigel_denise \<Rightarrow> rigel_denise" where
  "rigel_denise_display_window_update denise =
     (let regs = dn_regs denise; video = dn_video denise
      in if dr_bplcon0 regs \<noteq> 0 \<and> drop_bit 12 (dr_bplcon0 regs) AND 7 = 0 \<and>
            dv_width video \<noteq> 0 \<and> dv_height video \<noteq> 0 then denise
         else if dr_diwstrt regs = 0xffff \<and> dv_width video \<noteq> 0 \<and> dv_height video \<noteq> 0 then denise
         else
           denise\<lparr>dn_video :=
             diw_apply (dr_bplcon0 regs AND 0x8000 \<noteq> 0)
               (diw_adjust denise (diw_decode denise)) video\<rparr>)"

section \<open>Registers\<close>

abbreviation RIGEL_REG_CLXDAT :: u32 where "RIGEL_REG_CLXDAT \<equiv> 0x00e"
abbreviation RIGEL_REG_CLXCON :: u32 where "RIGEL_REG_CLXCON \<equiv> 0x098"
abbreviation RIGEL_REG_SPR0POS :: u32 where "RIGEL_REG_SPR0POS \<equiv> 0x140"
abbreviation RIGEL_REG_SPR7DATB :: u32 where "RIGEL_REG_SPR7DATB \<equiv> 0x17e"
abbreviation RIGEL_REG_DENISEID :: u32 where "RIGEL_REG_DENISEID \<equiv> 0x07c"
abbreviation RIGEL_REG_BPLCON0 :: u32 where "RIGEL_REG_BPLCON0 \<equiv> 0x100"
abbreviation RIGEL_REG_BPLCON1 :: u32 where "RIGEL_REG_BPLCON1 \<equiv> 0x102"
abbreviation RIGEL_REG_BPLCON2 :: u32 where "RIGEL_REG_BPLCON2 \<equiv> 0x104"
abbreviation RIGEL_REG_BPLCON3 :: u32 where "RIGEL_REG_BPLCON3 \<equiv> 0x106"
abbreviation RIGEL_REG_DIWSTRT :: u32 where "RIGEL_REG_DIWSTRT \<equiv> 0x08e"
abbreviation RIGEL_REG_DIWSTOP :: u32 where "RIGEL_REG_DIWSTOP \<equiv> 0x090"
abbreviation RIGEL_REG_DIWHIGH :: u32 where "RIGEL_REG_DIWHIGH \<equiv> 0x1e4"

definition rigel_denise_registers_owns_reg :: "u32 \<Rightarrow> bool" where
  "rigel_denise_registers_owns_reg addr \<longleftrightarrow>
     (addr \<ge> RIGEL_REG_COLOR00 \<and> addr \<le> RIGEL_REG_COLOR31) \<or>
     (addr \<ge> RIGEL_REG_SPR0POS \<and> addr \<le> RIGEL_REG_SPR7DATB \<and> addr AND 1 = 0) \<or>
     addr \<in> {RIGEL_REG_DENISEID, RIGEL_REG_CLXDAT, RIGEL_REG_CLXCON, RIGEL_REG_BPLCON0,
       RIGEL_REG_BPLCON1, RIGEL_REG_BPLCON2, RIGEL_REG_BPLCON3, RIGEL_REG_DIWSTRT,
       RIGEL_REG_DIWSTOP, RIGEL_REG_DIWHIGH}"

definition rigel_denise_registers_read :: "rigel_denise \<Rightarrow> u32 \<Rightarrow> u16 \<times> rigel_denise" where
  "rigel_denise_registers_read denise addr =
     (let regs = dn_regs denise; ecs = (dn_chip_rev denise = AGNUS_REV_ECS)
      in if addr \<ge> RIGEL_REG_COLOR00 \<and> addr \<le> RIGEL_REG_COLOR31 then
           (rigel_denise_color_regs_read denise addr, denise)
         else if addr = RIGEL_REG_DENISEID then (if ecs then 0x00fc else 0x0000, denise)
         else if addr = RIGEL_REG_CLXDAT then
           (case collision_read_clxdat (dn_coll denise) of (v, c) \<Rightarrow> (v, denise\<lparr>dn_coll := c\<rparr>))
         else if addr = RIGEL_REG_BPLCON0 then (dr_bplcon0 regs, denise)
         else if addr = RIGEL_REG_BPLCON1 then (dr_bplcon1 regs, denise)
         else if addr = RIGEL_REG_BPLCON2 then (dr_bplcon2 regs, denise)
         else if addr = RIGEL_REG_BPLCON3 then (if ecs then dr_bplcon3 regs else 0, denise)
         else if addr = RIGEL_REG_DIWSTRT then (dr_diwstrt regs, denise)
         else if addr = RIGEL_REG_DIWSTOP then (dr_diwstop regs, denise)
         else if addr = RIGEL_REG_DIWHIGH then (if ecs then dr_diwhigh regs else 0, denise)
         else (0, denise))"

definition denise_sprite_reg_write :: "denise_sprites_state \<Rightarrow> u32 \<Rightarrow> u16 \<Rightarrow> denise_sprites_state" where
  "denise_sprite_reg_write s addr v =
     (let sp = unat ((addr - RIGEL_REG_SPR0POS) div 8);
          sub = (addr - RIGEL_REG_SPR0POS) mod 8;
          ch = dspr_sp s ! sp
      in if sp < DENISE_SPRITE_COUNT then
           (if sub = 0 then s\<lparr>dspr_sp := (dspr_sp s)[sp := ch\<lparr>dspr_pos := v\<rparr>]\<rparr>
            else if sub = 2 then
              s\<lparr>dspr_sp := (dspr_sp s)[sp := ch\<lparr>dspr_ctl := v, dspr_armed := True\<rparr>],
                dspr_attached_mask := sprite_latch_attach sp v (dspr_attached_mask s)\<rparr>
            else if sub = 4 then s\<lparr>dspr_sp := (dspr_sp s)[sp := ch\<lparr>dspr_data := v\<rparr>]\<rparr>
            else if sub = 6 then s\<lparr>dspr_sp := (dspr_sp s)[sp := ch\<lparr>dspr_datb := v\<rparr>]\<rparr>
            else s)
         else s)"

text \<open>The switch over the control registers.\<close>

definition denise_control_write :: "rigel_denise \<Rightarrow> u32 \<Rightarrow> u16 \<Rightarrow> rigel_denise" where
  "denise_control_write denise addr v =
     (let regs = dn_regs denise
      in if addr = RIGEL_REG_CLXCON then
           denise\<lparr>dn_coll := collision_write_clxcon (dn_coll denise) v\<rparr>
         else if addr = RIGEL_REG_BPLCON0 then
           rigel_denise_display_window_update
             (rigel_denise_playfield_update_mode (denise\<lparr>dn_regs := regs\<lparr>dr_bplcon0 := v\<rparr>\<rparr>))
         else if addr = RIGEL_REG_BPLCON1 then denise\<lparr>dn_regs := regs\<lparr>dr_bplcon1 := v\<rparr>\<rparr>
         else if addr = RIGEL_REG_BPLCON2 then
           rigel_denise_playfield_update_mode (denise\<lparr>dn_regs := regs\<lparr>dr_bplcon2 := v\<rparr>\<rparr>)
         else if addr = RIGEL_REG_BPLCON3 then
           (if dn_chip_rev denise = AGNUS_REV_ECS then denise\<lparr>dn_regs := regs\<lparr>dr_bplcon3 := v\<rparr>\<rparr>
            else denise)
         else if addr = RIGEL_REG_DIWSTRT then
           rigel_denise_display_window_update (denise\<lparr>dn_regs := regs\<lparr>dr_diwstrt := v\<rparr>\<rparr>)
         else if addr = RIGEL_REG_DIWSTOP then
           rigel_denise_display_window_update (denise\<lparr>dn_regs := regs\<lparr>dr_diwstop := v\<rparr>\<rparr>)
         else if addr = RIGEL_REG_DIWHIGH then
           (if dn_chip_rev denise = AGNUS_REV_ECS then
              rigel_denise_display_window_update (denise\<lparr>dn_regs := regs\<lparr>dr_diwhigh := v\<rparr>\<rparr>)
            else denise)
         else denise)"

definition rigel_denise_registers_write :: "rigel_denise \<Rightarrow> u32 \<Rightarrow> u16 \<Rightarrow> rigel_denise" where
  "rigel_denise_registers_write denise addr v =
     (if addr \<ge> RIGEL_REG_COLOR00 \<and> addr \<le> RIGEL_REG_COLOR31 then
        rigel_denise_color_regs_write denise addr v
      else if addr \<ge> RIGEL_REG_SPR0POS \<and> addr \<le> RIGEL_REG_SPR7DATB \<and> addr AND 1 = 0 then
        denise\<lparr>dn_sprites := denise_sprite_reg_write (dn_sprites denise) addr v\<rparr>
      else
        let d = denise_control_write denise addr v;
            redraw = d\<lparr>dn_output := (dn_output d)\<lparr>do_pending_full_redraw := True\<rparr>\<rparr>
        in if addr \<in> {RIGEL_REG_BPLCON0, RIGEL_REG_BPLCON1, RIGEL_REG_BPLCON2, RIGEL_REG_BPLCON3,
                RIGEL_REG_DIWSTRT, RIGEL_REG_DIWSTOP, RIGEL_REG_DIWHIGH}
           then redraw
           else if dv_width (dn_video denise) \<noteq> dv_width (dn_video d) \<or>
              dv_height (dn_video denise) \<noteq> dv_height (dn_video d) \<or>
              dv_visible_x_start (dn_video denise) \<noteq> dv_visible_x_start (dn_video d) \<or>
              dv_visible_x_stop (dn_video denise) \<noteq> dv_visible_x_stop (dn_video d) \<or>
              dv_visible_y_start (dn_video denise) \<noteq> dv_visible_y_start (dn_video d) \<or>
              dv_visible_y_stop (dn_video denise) \<noteq> dv_visible_y_stop (dn_video d)
           then redraw
           else d)"

section \<open>Frame store\<close>

text \<open>The pixel copies of \<^verbatim>\<open>src/simd/rigel_simd.c\<close>: the fills of a whole array, and a line of
  16-bit pixels stored low byte first (on either kind of host).\<close>

definition rigel_simd_fill :: "'a list \<Rightarrow> 'a \<Rightarrow> nat \<Rightarrow> 'a list" where
  "rigel_simd_fill dst v n = replicate n v @ drop n dst"

definition rigel_simd_copy_u16_to_le :: "u16 list \<Rightarrow> u8 list" where
  "rigel_simd_copy_u16_to_le src =
     concat (map (\<lambda>v. [ucast (v AND 0xff), ucast (drop_bit 8 v)]) src)"

datatype host_pixels = Native565 "u16 list" | Bytes "u8 list" | Native32 "u32 list"

type_synonym host_store = "u32 \<times> host_pixels"

text \<open>The first column and the number of pixels of the line that is copied to the target.\<close>

definition target_columns :: "denise_video_state \<Rightarrow> framebuffer_target \<Rightarrow> u16 \<times> u32" where
  "target_columns video target =
     (let x0 = dv_visible_x_start video;
          x0 = (if x0 > dv_visible_x_stop video then 0 else x0);
          x0 = (if x0 > 32 then x0 - 32 else 0);
          width = (if dv_visible_x_stop video > x0
                   then ucast (dv_visible_x_stop video - x0) else 0) :: u32;
          width = (if width > of_nat RIGEL_DENISE_MAX_SCANLINE_PIXELS
                   then of_nat RIGEL_DENISE_MAX_SCANLINE_PIXELS else width)
      in (x0, if width > ft_width target then ft_width target else width))"

definition copy_visible_line_to_target :: "rigel_denise \<Rightarrow> host_store list" where
  "copy_visible_line_to_target denise =
     (let output = dn_output denise; video = dn_video denise;
          target = do_write_target output;
          raster_y = do_beam_vpos output
      in if \<not> do_has_write_target output then []
         else if raster_y < dv_visible_y_start video \<or> raster_y \<ge> dv_visible_y_stop video then []
         else
           let row = ucast (raster_y - dv_visible_y_start video) :: u32
           in if row \<ge> ft_height target then []
              else
                let (x0, width) = target_columns video target;
                    dst = row * ft_pitch target;
                    px565 = map (\<lambda>i. do_scanline_rgb565 output ! (unat x0 + i)) [0..<unat width];
                    px32 = map (\<lambda>i. do_scanline_rgba output ! (unat x0 + i)) [0..<unat width]
                in [(dst,
                     if ft_format target = RIGEL_PIXEL_RGB565 then
                       (if ft_little_endian target then Bytes (rigel_simd_copy_u16_to_le px565)
                        else Native565 px565)
                     else Native32 px32)])"

definition framebuffer_target_zero :: framebuffer_target where
  "framebuffer_target_zero =
     \<lparr>ft_pixels = None, ft_width = 0, ft_height = 0, ft_pitch = 0,
      ft_format = RIGEL_PIXEL_RGBA8888, ft_little_endian = False\<rparr>"

text \<open>The reset leaves the three latched control words as they are; they are read only once
  the flag beside them is set.\<close>

definition rigel_denise_framebuffer_reset :: "denise_output_state \<Rightarrow> denise_output_state" where
  "rigel_denise_framebuffer_reset output = output\<lparr>
     do_frame_counter := 0, do_beam_hpos := 0, do_beam_vpos := 0,
     do_current_scanline := 0, do_current_pixel := 0, do_scanline_width := 0,
     do_last_rgb := 0,
     do_scanline_rgba := replicate RIGEL_DENISE_MAX_SCANLINE_PIXELS 0,
     do_scanline_rgb565 := replicate RIGEL_DENISE_MAX_SCANLINE_PIXELS 0,
     do_frame_rgba := replicate 2 (replicate (unat RIGEL_DENISE_MAX_LINES)
       (replicate RIGEL_DENISE_MAX_SCANLINE_PIXELS 0)),
     do_frame_rgb565 := replicate 2 (replicate (unat RIGEL_DENISE_MAX_LINES)
       (replicate RIGEL_DENISE_MAX_SCANLINE_PIXELS 0)),
     do_front_idx := 0,
     do_plane_words := replicate 6 (replicate RIGEL_DENISE_MAX_PLANE_WORDS 0),
     do_plane_word_count := 0, do_line_bplcon_valid := False, do_ddfstrt_lores := 0,
     do_visible_scanline := False, do_scanline_dirty := False, do_frame_dirty := True,
     do_beam_lof := 0, do_beam_lof_toggle := 0,
     do_pending_flags := 0, do_completed_flags := 0,
     do_pending_dirty := replicate 5 0, do_completed_dirty := replicate 5 0,
     do_pending_full_redraw := False, do_completed_full_redraw := False,
     do_has_write_target := False, do_write_target := framebuffer_target_zero\<rparr>"

definition framebuffer_target_ok :: "framebuffer_target \<Rightarrow> bool" where
  "framebuffer_target_ok target \<longleftrightarrow>
     ft_pixels target \<noteq> None \<and> ft_width target \<noteq> 0 \<and> ft_height target \<noteq> 0 \<and>
     ft_pitch target \<noteq> 0 \<and>
     ft_format target \<in> {RIGEL_PIXEL_RGB565, RIGEL_PIXEL_RGBA8888} \<and>
     \<not> (ft_format target = RIGEL_PIXEL_RGB565 \<and>
        unat (ft_pitch target) < unat (ft_width target) * 2) \<and>
     \<not> (ft_format target = RIGEL_PIXEL_RGBA8888 \<and>
        unat (ft_pitch target) < unat (ft_width target) * 4)"

definition rigel_denise_framebuffer_set_target ::
    "denise_output_state \<Rightarrow> framebuffer_target option \<Rightarrow> denise_output_state" where
  "rigel_denise_framebuffer_set_target output target =
     (let output = output\<lparr>do_has_write_target := False,
                          do_write_target := framebuffer_target_zero\<rparr>
      in case target of
           None \<Rightarrow> output
         | Some t \<Rightarrow>
             if framebuffer_target_ok t
             then output\<lparr>do_write_target := t, do_has_write_target := True\<rparr>
             else output)"

text \<open>When the beam leaves a line the composed scanline goes to the back buffer and to the
  target, and the plane words are cleared for the next line.\<close>

definition framebuffer_leave_line :: "rigel_denise \<Rightarrow> rigel_denise \<times> host_store list" where
  "framebuffer_leave_line denise =
     (let output = dn_output denise;
          in_store = (do_beam_vpos output < RIGEL_DENISE_MAX_LINES);
          y = unat (do_beam_vpos output);
          back = unat (1 XOR do_front_idx output);
          stored = (if in_store then output\<lparr>
              do_frame_rgba := (do_frame_rgba output)
                [back := (do_frame_rgba output ! back)[y := do_scanline_rgba output]],
              do_frame_rgb565 := (do_frame_rgb565 output)
                [back := (do_frame_rgb565 output ! back)[y := do_scanline_rgb565 output]]\<rparr>
            else output);
          stores = (if in_store then copy_visible_line_to_target (denise\<lparr>dn_output := stored\<rparr>)
                    else [])
      in (denise\<lparr>dn_output := stored\<lparr>
             do_plane_words := replicate 6 (replicate RIGEL_DENISE_MAX_PLANE_WORDS 0),
             do_plane_word_count := 0, do_line_bplcon_valid := False\<rparr>\<rparr>, stores))"

abbreviation RIGEL_FRAME_HAM :: u32 where "RIGEL_FRAME_HAM \<equiv> 1"
abbreviation RIGEL_FRAME_DUAL_PLAYFIELD :: u32 where "RIGEL_FRAME_DUAL_PLAYFIELD \<equiv> 2"
abbreviation RIGEL_FRAME_SPRITES_ACTIVE :: u32 where "RIGEL_FRAME_SPRITES_ACTIVE \<equiv> 4"
abbreviation RIGEL_FRAME_COPPER_ACTIVE :: u32 where "RIGEL_FRAME_COPPER_ACTIVE \<equiv> 8"
abbreviation RIGEL_FRAME_INTERLACE_ODD :: u32 where "RIGEL_FRAME_INTERLACE_ODD \<equiv> 16"
abbreviation RIGEL_FRAME_INTERLACE_EVEN :: u32 where "RIGEL_FRAME_INTERLACE_EVEN \<equiv> 32"

definition framebuffer_swap :: "denise_output_state \<Rightarrow> denise_output_state" where
  "framebuffer_swap output =
     (let flags = (if do_beam_lof_toggle output \<noteq> 0 then
                     do_pending_flags output OR
                     (if do_beam_lof output \<noteq> 0 then RIGEL_FRAME_INTERLACE_ODD
                      else RIGEL_FRAME_INTERLACE_EVEN)
                   else do_pending_flags output)
      in output\<lparr>
           do_completed_flags := flags,
           do_completed_dirty := do_pending_dirty output,
           do_completed_full_redraw := do_pending_full_redraw output,
           do_pending_flags := 0, do_pending_dirty := replicate 5 0,
           do_pending_full_redraw := False,
           do_front_idx := do_front_idx output XOR 1\<rparr>)"

definition framebuffer_beam_position ::
    "denise_video_state \<Rightarrow> bool \<Rightarrow> beam_state \<Rightarrow> denise_output_state \<Rightarrow> denise_output_state" where
  "framebuffer_beam_position video frame_changed beam output =
     (let width = dv_width video;
          visible = beam_in_visible_area beam;
          output = output\<lparr>
            do_frame_counter := beam_frame_count beam, do_beam_hpos := beam_hpos beam,
            do_beam_vpos := beam_vpos beam, do_beam_lof := beam_lof beam,
            do_beam_lof_toggle := beam_lof_toggle beam, do_frame_dirty := frame_changed,
            do_visible_scanline := visible, do_scanline_width := width\<rparr>
      in if visible then output\<lparr>
           do_current_scanline := beam_vpos beam - beam_visible_y_start beam,
           do_current_pixel := (if beam_hpos beam > width then width else beam_hpos beam)\<rparr>
         else output\<lparr>do_current_scanline := beam_vpos beam, do_current_pixel := 0\<rparr>)"

definition rigel_denise_framebuffer_sync_from_beam ::
    "rigel_denise \<Rightarrow> beam_state \<Rightarrow> rigel_denise \<times> host_store list" where
  "rigel_denise_framebuffer_sync_from_beam denise beam =
     (let output = dn_output denise;
          frame_changed = (do_frame_counter output \<noteq> beam_frame_count beam);
          line_changed = (frame_changed \<or> do_beam_vpos output \<noteq> beam_vpos beam);
          (denise, stores) = (if line_changed then framebuffer_leave_line denise else (denise, []));
          output = (if frame_changed then framebuffer_swap (dn_output denise)
                    else dn_output denise)
      in (denise\<lparr>dn_output :=
            framebuffer_beam_position (dn_video denise) frame_changed beam output\<rparr>, stores))"

section \<open>Reset and configuration\<close>

definition rigel_denise_reset :: "rigel_denise \<Rightarrow> rigel_denise" where
  "rigel_denise_reset denise = denise\<lparr>
     dn_palette := rigel_denise_palette_reset,
     dn_sprites := rigel_denise_sprites_reset,
     dn_coll := collision_reset,
     dn_video := rigel_denise_display_window_reset,
     dn_output := rigel_denise_framebuffer_reset (dn_output denise),
     dn_regs := (dn_regs denise)\<lparr>
       dr_bplcon0 := 0, dr_bplcon1 := 0, dr_bplcon2 := 0, dr_bplcon3 := 0,
       dr_diwstrt := 0, dr_diwstop := 0, dr_diwhigh := 0\<rparr>,
     dn_debug :=
       \<lparr>ddbg_frame_counter = 0, ddbg_scanline_counter = 0, ddbg_active_mode_flags = 0,
        ddbg_last_color_index = 0, ddbg_beam_hpos = 0, ddbg_beam_vpos = 0,
        ddbg_current_scanline = 0, ddbg_current_pixel = 0, ddbg_last_rgb32 = 0,
        ddbg_visible_scanline = False\<rparr>\<rparr>"

definition rigel_denise_set_chip_rev :: "rigel_denise \<Rightarrow> agnus_chip_rev \<Rightarrow> rigel_denise" where
  "rigel_denise_set_chip_rev denise r =
     rigel_denise_display_window_update (denise\<lparr>dn_chip_rev := r\<rparr>)"

definition rigel_denise_set_framebuffer_target ::
    "rigel_denise \<Rightarrow> framebuffer_target option \<Rightarrow> rigel_denise" where
  "rigel_denise_set_framebuffer_target denise target =
     denise\<lparr>dn_output := rigel_denise_framebuffer_set_target (dn_output denise) target\<rparr>"

definition rigel_denise_owns_reg :: "u32 \<Rightarrow> bool" where
  "rigel_denise_owns_reg addr = rigel_denise_registers_owns_reg addr"

text \<open>The zeroed state of a fresh context.\<close>

definition denise_zero :: rigel_denise where
  "denise_zero =
     \<lparr>dn_chip_rev = AGNUS_REV_OCS,
      dn_regs = \<lparr>dr_color = replicate 32 0, dr_bplcon0 = 0, dr_bplcon1 = 0, dr_bplcon2 = 0,
        dr_bplcon3 = 0, dr_diwstrt = 0, dr_diwstop = 0, dr_diwhigh = 0\<rparr>,
      dn_palette = rigel_denise_palette_reset, dn_sprites = denise_sprites_reset,
      dn_coll = collision_reset, dn_video = rigel_denise_display_window_reset,
      dn_output = rigel_denise_framebuffer_reset
        \<lparr>do_frame_counter = 0, do_beam_hpos = 0, do_beam_vpos = 0, do_current_scanline = 0,
         do_current_pixel = 0, do_scanline_width = 0, do_last_rgb = 0, do_scanline_rgba = [],
         do_scanline_rgb565 = [], do_frame_rgba = [], do_frame_rgb565 = [], do_front_idx = 0,
         do_visible_scanline = False, do_scanline_dirty = False, do_frame_dirty = False,
         do_beam_lof = 0, do_beam_lof_toggle = 0, do_plane_words = [], do_plane_word_count = 0,
         do_line_bplcon0 = 0, do_line_bplcon1 = 0, do_line_bplcon2 = 0,
         do_line_bplcon_valid = False, do_ddfstrt_lores = 0, do_pending_flags = 0,
         do_pending_dirty = [], do_completed_flags = 0, do_completed_dirty = [],
         do_pending_full_redraw = False, do_completed_full_redraw = False,
         do_has_write_target = False, do_write_target = framebuffer_target_zero\<rparr>,
      dn_debug = \<lparr>ddbg_frame_counter = 0, ddbg_scanline_counter = 0, ddbg_active_mode_flags = 0,
        ddbg_last_color_index = 0, ddbg_beam_hpos = 0, ddbg_beam_vpos = 0,
        ddbg_current_scanline = 0, ddbg_current_pixel = 0, ddbg_last_rgb32 = 0,
        ddbg_visible_scanline = False\<rparr>\<rparr>"

section \<open>Host queries\<close>

record denise_scanline =
  dsl_frame_counter :: u64
  dsl_y :: u16
  dsl_width :: u16
  dsl_pixels :: "(nat \<times> nat \<times> nat) option"
  dsl_last_rgb32 :: u32
  dsl_visible :: bool
  dsl_dirty :: bool

record rigel_frame =
  rf_width :: u32
  rf_height :: u32
  rf_pitch :: u32
  rf_frame_count :: u64
  rf_format :: rigel_pixel_format
  rf_pixels :: "(nat \<times> nat \<times> nat) option"
  rf_flags :: u32
  rf_dirty_lines :: "u64 list"
  rf_full_redraw :: bool

definition rigel_denise_frame_x_bounds :: "rigel_denise \<Rightarrow> u16 \<times> u16" where
  "rigel_denise_frame_x_bounds denise =
     (let start = dv_visible_x_start (dn_video denise);
          stop = dv_visible_x_stop (dn_video denise);
          stop = (if stop > 1024 then 1024 else stop);
          start = (if start > stop then 0 else start)
      in (if start > 32 then start - 32 else 0, stop))"

definition rigel_denise_get_video_desc :: "rigel_denise \<Rightarrow> denise_video_state" where
  "rigel_denise_get_video_desc denise = dn_video denise"

definition rigel_denise_get_debug_state :: "rigel_denise \<Rightarrow> denise_debug_state" where
  "rigel_denise_get_debug_state denise = dn_debug denise"

text \<open>The current scanline is the working line, not a line of the frame store.\<close>

definition rigel_denise_get_current_scanline :: "rigel_denise \<Rightarrow> denise_scanline" where
  "rigel_denise_get_current_scanline denise =
     (let output = dn_output denise
      in \<lparr>dsl_frame_counter = do_frame_counter output, dsl_y = do_current_scanline output,
          dsl_width = do_scanline_width output, dsl_pixels = None,
          dsl_last_rgb32 = do_last_rgb output, dsl_visible = do_visible_scanline output,
          dsl_dirty = do_scanline_dirty output\<rparr>)"

definition rigel_get_scanline :: "rigel_denise \<Rightarrow> u16 \<Rightarrow> denise_scanline option" where
  "rigel_get_scanline denise y =
     (if y \<ge> RIGEL_DENISE_MAX_LINES then None
      else
        let (x0, x1) = rigel_denise_frame_x_bounds denise;
            output = dn_output denise; video = dn_video denise
        in Some \<lparr>dsl_frame_counter = do_frame_counter output, dsl_y = y,
              dsl_width = x1 - x0,
              dsl_pixels = Some (unat (do_front_idx output), unat y, unat x0),
              dsl_last_rgb32 = 0,
              dsl_visible = (y \<ge> dv_visible_y_start video \<and> y < dv_visible_y_stop video),
              dsl_dirty = False\<rparr>)"

definition frame_y_bounds :: "denise_video_state \<Rightarrow> u16 \<times> u16" where
  "frame_y_bounds video =
     (let y0 = dv_visible_y_start video; y1 = dv_visible_y_stop video
      in if y1 - y0 < 64 \<and> y0 < 64 then (y0, if y1 < 256 then 256 else y1)
         else (if y0 > 64 then 44 else y0, if y1 < 244 then 244 else y1))"

definition rigel_get_frame :: "rigel_pixel_format \<Rightarrow> rigel_denise \<Rightarrow> rigel_frame" where
  "rigel_get_frame format denise =
     (let (x0, x1) = rigel_denise_frame_x_bounds denise;
          (y0, y1) = frame_y_bounds (dn_video denise);
          output = dn_output denise;
          empty = \<lparr>rf_width = 0, rf_height = 0, rf_pitch = 0,
                   rf_frame_count = do_frame_counter output, rf_format = format,
                   rf_pixels = None, rf_flags = do_completed_flags output,
                   rf_dirty_lines = do_completed_dirty output,
                   rf_full_redraw = do_completed_full_redraw output\<rparr>
      in if y0 \<ge> RIGEL_DENISE_MAX_LINES \<or> y1 \<le> y0 \<or> x1 \<le> x0 then empty
         else empty\<lparr>
           rf_width := ucast (x1 - x0), rf_height := ucast (y1 - y0),
           rf_pitch := (if format = RIGEL_PIXEL_RGB565 then 1024 * 2 else 1024 * 4),
           rf_pixels := Some (if y0 < RIGEL_DENISE_MAX_LINES
             then (unat (do_front_idx output), unat y0, unat x0)
             else (unat (do_front_idx output), 0, 0))\<rparr>)"

end
