(* ===== verification/Denise_Compose.thy ===== *)
theory Denise_Compose
  imports Denise_State
begin

text \<open>
  The compositor of Denise: \<^verbatim>\<open>denise/render/compositor.c\<close> with the step of
  \<^verbatim>\<open>denise.c\<close> and \<^verbatim>\<open>debug/denise_trace.c\<close>.  A line is drawn in four passes: the border
  colour over the whole line, the playfield pixels of the current mode (HAM, dual
  playfield, or single playfield by whole words or, when the two scroll delays differ, by
  single pixels), the sprites, and the collision detection.  Log and trace output is left
  out.

  The locals of \<^verbatim>\<open>compose_line\<close> are the record \<open>compose_params\<close>, and the six arrays that the
  passes write are the record \<open>line_buf\<close>.  A pixel position is a natural number: the sum of
  the data-fetch start, the fetched words and the scroll is far below the range of the
  \<^verbatim>\<open>int\<close> the code uses, and is never negative.
\<close>

unbundle bit_operations_syntax

section \<open>Line state\<close>

record compose_params =
  cp_palette :: "u32 list"
  cp_palette565 :: "u16 list"
  cp_plane_words :: "u16 list list"
  cp_plane_word_count :: nat
  cp_bplcon2 :: u16
  cp_depth :: nat
  cp_is_ham :: bool
  cp_is_dual :: bool
  cp_is_ehb :: bool
  cp_scroll :: nat
  cp_scroll_pf1 :: nat
  cp_scroll_pf2 :: nat
  cp_pf1p :: nat
  cp_pf2p :: nat
  cp_pf2_over_pf1 :: bool
  cp_hscale :: nat
  cp_sprite_hscale :: nat
  cp_ddf0 :: nat
  cp_x_start :: nat
  cp_x_stop :: nat

record line_buf =
  lb_rgba :: "u32 list"
  lb_rgb565 :: "u16 list"
  lb_pf_color :: "u8 list"
  lb_pf_prio :: "u8 list"
  lb_pf_active :: "u8 list"
  lb_spr_active :: "u8 list"

definition compose_locals :: "rigel_denise \<Rightarrow> compose_params" where
  "compose_locals denise =
     (let output = dn_output denise; regs = dn_regs denise; video = dn_video denise;
          con0 = (if do_line_bplcon_valid output then do_line_bplcon0 output else dr_bplcon0 regs);
          con1 = (if do_line_bplcon_valid output then do_line_bplcon1 output else dr_bplcon1 regs);
          con2 = (if do_line_bplcon_valid output then do_line_bplcon2 output else dr_bplcon2 regs);
          depth = unat (drop_bit 12 con0 AND 7);
          is_ham = (con0 AND 0x0800 \<noteq> 0);
          is_dual = (con0 AND 0x0400 \<noteq> 0);
          is_hires = (con0 AND 0x8000 \<noteq> 0);
          pipeline_lead = (if is_hires then 9 else 17);
          hscale = (if is_hires then 2 else 1)
      in \<lparr>cp_palette = dp_rgb32 (dn_palette denise),
          cp_palette565 = dp_rgb565 (dn_palette denise),
          cp_plane_words = do_plane_words output,
          cp_plane_word_count = unat (do_plane_word_count output),
          cp_bplcon2 = con2,
          cp_depth = depth, cp_is_ham = is_ham, cp_is_dual = is_dual,
          cp_is_ehb = (\<not> is_ham \<and> \<not> is_dual \<and> depth = 6 \<and> con2 AND 0x0040 = 0),
          cp_scroll = unat (con1 AND 0x0F),
          cp_scroll_pf1 = unat (con1 AND 0x0F),
          cp_scroll_pf2 = unat (drop_bit 4 con1 AND 0x0F),
          cp_pf1p = unat (con2 AND 7), cp_pf2p = unat (drop_bit 3 con2 AND 7),
          cp_pf2_over_pf1 = (con2 AND 0x0040 \<noteq> 0),
          cp_hscale = hscale,
          cp_sprite_hscale = (if dv_width video > 512 \<or> is_hires then 2 else 1),
          cp_ddf0 = (unat (do_ddfstrt_lores output) + pipeline_lead) * hscale,
          cp_x_start = unat (dv_visible_x_start video),
          cp_x_stop = unat (dv_visible_x_stop video)\<rparr>)"

definition line_buf_init :: "compose_params \<Rightarrow> denise_output_state \<Rightarrow> line_buf" where
  "line_buf_init cp output =
     \<lparr>lb_rgba = rigel_simd_fill (do_scanline_rgba output) (cp_palette cp ! 0) 1024,
      lb_rgb565 = rigel_simd_fill (do_scanline_rgb565 output) (cp_palette565 cp ! 0) 1024,
      lb_pf_color = replicate 1024 0,
      lb_pf_prio = replicate 1024 (of_nat (cp_pf1p cp)),
      lb_pf_active = replicate 1024 0,
      lb_spr_active = replicate 1024 0\<rparr>"

definition in_window :: "compose_params \<Rightarrow> nat \<Rightarrow> bool" where
  "in_window cp x \<longleftrightarrow> \<not> (x < cp_x_start cp \<or> x \<ge> cp_x_stop cp \<or> x \<ge> 1024)"

text \<open>The sixteen pixel indices of fetched word \<open>w\<close>.\<close>

definition word_pixels :: "compose_params \<Rightarrow> nat \<Rightarrow> u8 list" where
  "word_pixels cp w =
     planar_to_chunky
       (map (\<lambda>p. if p < cp_depth cp then cp_plane_words cp ! p ! w else 0) [0..<6])
       (cp_depth cp)"

section \<open>Playfields\<close>

definition put_ham :: "compose_params \<Rightarrow> nat \<Rightarrow> u32 \<Rightarrow> line_buf \<Rightarrow> line_buf" where
  "put_ham cp x rgb b =
     (if in_window cp x then b\<lparr>
        lb_rgba := (lb_rgba b)[x := rgb],
        lb_rgb565 := (lb_rgb565 b)[x := rgb32_to_rgb565 rgb],
        lb_pf_color := (lb_pf_color b)[x := 0xFF],
        lb_pf_active := (lb_pf_active b)[x := 1]\<rparr>
      else b)"

definition compose_ham :: "compose_params \<Rightarrow> line_buf \<Rightarrow> line_buf" where
  "compose_ham cp b =
     snd (foldl (\<lambda>st w.
        let pixels = word_pixels cp w
        in foldl (\<lambda>(prev_rgb, b) px.
             let screen_x = cp_ddf0 cp + w * 16 + px + cp_scroll cp * cp_hscale cp;
                 prev_rgb = ham6_decode_pixel (pixels ! px) prev_rgb (cp_palette cp)
             in (prev_rgb, put_ham cp screen_x prev_rgb b)) st [0..<16])
       (cp_palette cp ! 0, b) [0..<cp_plane_word_count cp])"

text \<open>One pixel of one of the two playfields; \<open>m\<close> is its own bit of the activity mask and
  \<open>wins\<close> tells whether it replaces a pixel of the other playfield.\<close>

definition put_dual ::
    "compose_params \<Rightarrow> nat \<Rightarrow> u8 \<Rightarrow> nat \<Rightarrow> u8 \<Rightarrow> u8 \<Rightarrow> bool \<Rightarrow> line_buf \<Rightarrow> line_buf" where
  "put_dual cp x ci prio m other wins b =
     (if in_window cp x then
        let act = lb_pf_active b ! x;
            b = (if act = 0 \<or> (act AND other \<noteq> 0 \<and> wins) then b\<lparr>
                   lb_pf_color := (lb_pf_color b)[x := ci],
                   lb_pf_prio := (lb_pf_prio b)[x := of_nat prio],
                   lb_rgba := (lb_rgba b)[x := cp_palette cp ! unat ci],
                   lb_rgb565 := (lb_rgb565 b)[x := cp_palette565 cp ! unat ci]\<rparr>
                 else b)
        in b\<lparr>lb_pf_active := (lb_pf_active b)[x := act OR m]\<rparr>
      else b)"

definition compose_dual_pixel :: "compose_params \<Rightarrow> nat \<Rightarrow> u8 \<Rightarrow> line_buf \<Rightarrow> line_buf" where
  "compose_dual_pixel cp pos bits b =
     (let dpf = dualpf_decode bits;
          b = (if pf1_index dpf \<noteq> 0 then
                 put_dual cp (pos + cp_scroll_pf1 cp * cp_hscale cp) (pf1_index dpf) (cp_pf1p cp)
                   1 2 (\<not> cp_pf2_over_pf1 cp) b
               else b)
      in if pf2_index dpf \<noteq> 0 then
           put_dual cp (pos + cp_scroll_pf2 cp * cp_hscale cp) (pf2_index dpf) (cp_pf2p cp)
             2 1 (cp_pf2_over_pf1 cp) b
         else b)"

definition compose_dual :: "compose_params \<Rightarrow> line_buf \<Rightarrow> line_buf" where
  "compose_dual cp b =
     foldl (\<lambda>b w.
        let pixels = word_pixels cp w
        in foldl (\<lambda>b px. compose_dual_pixel cp (cp_ddf0 cp + w * 16 + px) (pixels ! px) b)
             b [0..<16])
       b [0..<cp_plane_word_count cp]"

text \<open>The pixel write that both single-playfield loops end with.\<close>

definition put_single :: "compose_params \<Rightarrow> nat \<Rightarrow> u8 \<Rightarrow> line_buf \<Rightarrow> line_buf" where
  "put_single cp x bits b =
     (let ci = (if cp_is_ehb cp then bits AND 0x3F else bits AND 0x1F);
          b = b\<lparr>lb_pf_color := (lb_pf_color b)[x := ci],
                lb_pf_active := (lb_pf_active b)[x := (if ci \<noteq> 0 then 1 else 0)]\<rparr>
      in if cp_is_ehb cp then
           let color = ehb_resolve_color ci (cp_palette cp)
           in b\<lparr>lb_rgba := (lb_rgba b)[x := color],
                lb_rgb565 := (lb_rgb565 b)[x := rgb32_to_rgb565 color]\<rparr>
         else b\<lparr>lb_rgba := (lb_rgba b)[x := cp_palette cp ! unat ci],
                lb_rgb565 := (lb_rgb565 b)[x := cp_palette565 cp ! unat ci]\<rparr>)"

text \<open>Equal scroll delays: whole words.\<close>

definition compose_single_words :: "compose_params \<Rightarrow> line_buf \<Rightarrow> line_buf" where
  "compose_single_words cp b =
     foldl (\<lambda>b w.
        let pixels = word_pixels cp w
        in foldl (\<lambda>b px.
             let screen_x = cp_ddf0 cp + w * 16 + px + cp_scroll cp * cp_hscale cp
             in if in_window cp screen_x then put_single cp screen_x (pixels ! px) b else b)
             b [0..<16])
       b [0..<cp_plane_word_count cp]"

text \<open>Different scroll delays: the index of a pixel, one plane after the other.\<close>

definition plane_bit_at :: "compose_params \<Rightarrow> nat \<Rightarrow> nat \<Rightarrow> bool" where
  "plane_bit_at cp screen_x p \<longleftrightarrow>
     (let plane_scroll = (if even p then cp_scroll_pf1 cp else cp_scroll_pf2 cp);
          src_x = int screen_x - int (plane_scroll * cp_hscale cp) - int (cp_ddf0 cp)
      in if src_x < 0 \<or> src_x \<ge> int (cp_plane_word_count cp * 16) then False
         else drop_bit (15 - nat src_x mod 16) (cp_plane_words cp ! p ! (nat src_x div 16)) AND 1 \<noteq> 0)"

definition pixel_index_at :: "compose_params \<Rightarrow> nat \<Rightarrow> u8" where
  "pixel_index_at cp screen_x =
     foldl (\<lambda>ci p. if plane_bit_at cp screen_x p then ci OR push_bit p 1 else ci)
       0 [0..<min (cp_depth cp) 6]"

definition compose_single_pixels :: "compose_params \<Rightarrow> line_buf \<Rightarrow> line_buf" where
  "compose_single_pixels cp b =
     (let span = cp_plane_word_count cp * 16;
          min_x = cp_ddf0 cp;
          max_x = cp_ddf0 cp + span + 15 * cp_hscale cp;
          min_x = (if min_x < cp_x_start cp then cp_x_start cp else min_x);
          max_x = (if max_x > cp_x_stop cp then cp_x_stop cp else max_x);
          max_x = (if max_x > 1024 then 1024 else max_x)
      in foldl (\<lambda>b screen_x. put_single cp screen_x (pixel_index_at cp screen_x) b)
           b [min_x..<max_x])"

definition compose_playfield :: "bool \<Rightarrow> compose_params \<Rightarrow> line_buf \<Rightarrow> line_buf" where
  "compose_playfield visible cp b =
     (if visible \<and> cp_depth cp > 0 \<and> cp_depth cp \<le> 6 \<and> cp_plane_word_count cp > 0 then
        (if cp_is_ham cp then compose_ham cp b
         else if cp_is_dual cp then compose_dual cp b
         else if cp_scroll_pf1 cp = cp_scroll_pf2 cp then compose_single_words cp b
         else compose_single_pixels cp b)
      else b)"

section \<open>Sprites\<close>

definition put_sprite :: "nat \<Rightarrow> nat \<Rightarrow> u32 \<Rightarrow> line_buf \<Rightarrow> line_buf" where
  "put_sprite spr x color b =
     (let b = b\<lparr>lb_spr_active := (lb_spr_active b)[x := lb_spr_active b ! x OR push_bit spr 1]\<rparr>
      in if lb_pf_color b ! x = 0 \<or> spr div 2 + unat (lb_pf_prio b ! x) < 4 then
           b\<lparr>lb_rgba := (lb_rgba b)[x := color],
             lb_rgb565 := (lb_rgb565 b)[x := rgb32_to_rgb565 color]\<rparr>
         else b)"

text \<open>The repeat loop of one sprite pixel, which stops at the end of the line.\<close>

fun put_sprite_repeat :: "nat \<Rightarrow> u16 \<Rightarrow> nat list \<Rightarrow> u32 \<Rightarrow> line_buf \<Rightarrow> line_buf" where
  "put_sprite_repeat spr scan_px [] color b = b"
| "put_sprite_repeat spr scan_px (k # ks) color b =
     (let dst_px = unat (scan_px + of_nat k)
      in if dst_px \<ge> 1024 then b
         else put_sprite_repeat spr scan_px ks color (put_sprite spr dst_px color b))"

definition compose_sprite_pixel ::
    "compose_params \<Rightarrow> denise_sprites_state \<Rightarrow> nat \<Rightarrow> u16 \<Rightarrow> nat \<Rightarrow> line_buf \<Rightarrow> line_buf" where
  "compose_sprite_pixel cp s spr hstart px_idx b =
     (let amiga_x = hstart + of_nat px_idx;
          scan_px = of_nat ((unat hstart + px_idx) * cp_sprite_hscale cp) :: u16;
          attached_even = (even spr \<and> denise_sprite_is_attached s (spr + 1));
          pix = (if attached_even then denise_sprite_attached_pixel s spr amiga_x
                 else denise_sprite_pixel s spr amiga_x);
          color = cp_palette cp ! (if attached_even then unat pix
                                   else (16 + spr div 2 * 4 + unat pix) mod 32)
      in if pix = 0 then b
         else put_sprite_repeat spr scan_px [0..<cp_sprite_hscale cp] color b)"

definition sprite_on_line :: "denise_sprite \<Rightarrow> u16 \<Rightarrow> bool" where
  "sprite_on_line sp y \<longleftrightarrow>
     (let vstart = denise_sprite_vstart sp;
          vstop = denise_sprite_vstop sp;
          vstop = (if vstop \<le> vstart then vstop + 256 else vstop)
      in \<not> (y < vstart \<or> y \<ge> vstop))"

definition compose_sprite ::
    "compose_params \<Rightarrow> denise_sprites_state \<Rightarrow> u16 \<Rightarrow> nat \<Rightarrow> line_buf \<Rightarrow> line_buf" where
  "compose_sprite cp s y spr b =
     (let sp = dspr_sp s ! spr;
          attached_odd = (odd spr \<and> denise_sprite_is_attached s spr)
      in if attached_odd then b
         else if \<not> dspr_armed sp then b
         else if \<not> sprite_on_line sp y then b
         else foldl (\<lambda>b px_idx. compose_sprite_pixel cp s spr (denise_sprite_hstart sp) px_idx b)
                b [0..<16])"

definition compose_sprites ::
    "compose_params \<Rightarrow> denise_sprites_state \<Rightarrow> u16 \<Rightarrow> line_buf \<Rightarrow> line_buf" where
  "compose_sprites cp s y b = foldr (compose_sprite cp s y) [0..<DENISE_SPRITE_COUNT] b"

section \<open>Collisions and frame metadata\<close>

definition compose_collisions ::
    "compose_params \<Rightarrow> line_buf \<Rightarrow> collision_state \<Rightarrow> collision_state" where
  "compose_collisions cp b c =
     (if clxcon c \<noteq> 0 then
        foldl (\<lambda>c cx.
            if lb_spr_active b ! cx = 0 \<and> lb_pf_active b ! cx < 2 then c
            else collision_check_pixel c (lb_spr_active b ! cx)
                   (lb_pf_active b ! cx AND 1 \<noteq> 0) (lb_pf_active b ! cx AND 2 \<noteq> 0))
          c [cp_x_start cp..<min (cp_x_stop cp) 1024]
      else c)"

definition mark_line_dirty :: "u16 \<Rightarrow> u64 list \<Rightarrow> u64 list" where
  "mark_line_dirty y dirty =
     (if y < RIGEL_DENISE_MAX_LINES
      then dirty[unat y div 64 := dirty ! (unat y div 64) OR push_bit (unat y mod 64) 1]
      else dirty)"

definition clear_scanline_to_border :: "rigel_denise \<Rightarrow> rigel_denise" where
  "clear_scanline_to_border denise =
     (let output = dn_output denise
      in denise\<lparr>dn_output := output\<lparr>
           do_scanline_rgba :=
             rigel_simd_fill (do_scanline_rgba output) (dp_rgb32 (dn_palette denise) ! 0) 1024,
           do_scanline_rgb565 :=
             rigel_simd_fill (do_scanline_rgb565 output) (dp_rgb565 (dn_palette denise) ! 0) 1024,
           do_scanline_dirty := True,
           do_pending_dirty := mark_line_dirty (do_beam_vpos output) (do_pending_dirty output)\<rparr>\<rparr>)"

definition compose_line_buf :: "rigel_denise \<Rightarrow> line_buf" where
  "compose_line_buf denise =
     (let output = dn_output denise; cp = compose_locals denise
      in compose_sprites cp (dn_sprites denise) (do_beam_vpos output)
           (compose_playfield (do_visible_scanline output) cp (line_buf_init cp output)))"

definition compose_flags :: "compose_params \<Rightarrow> denise_sprites_state \<Rightarrow> u32 \<Rightarrow> u32" where
  "compose_flags cp s flags =
     (let flags = (if cp_is_ham cp then flags OR RIGEL_FRAME_HAM else flags);
          flags = (if cp_is_dual cp then flags OR RIGEL_FRAME_DUAL_PLAYFIELD else flags)
      in if list_ex (\<lambda>spr. dspr_armed (dspr_sp s ! spr)) [0..<DENISE_SPRITE_COUNT]
         then flags OR RIGEL_FRAME_SPRITES_ACTIVE else flags)"

definition compose_line :: "rigel_denise \<Rightarrow> rigel_denise" where
  "compose_line denise =
     (let output = dn_output denise; cp = compose_locals denise; b = compose_line_buf denise
      in if do_scanline_width output = 0 then denise
         else denise\<lparr>
           dn_coll := compose_collisions cp b (dn_coll denise),
           dn_output := output\<lparr>
             do_scanline_rgba := lb_rgba b, do_scanline_rgb565 := lb_rgb565 b,
             do_scanline_dirty := True,
             do_pending_flags := compose_flags cp (dn_sprites denise) (do_pending_flags output),
             do_pending_dirty := mark_line_dirty (do_beam_vpos output) (do_pending_dirty output)\<rparr>\<rparr>)"

section \<open>Tick\<close>

definition rigel_denise_compositor_tick ::
    "rigel_denise \<Rightarrow> beam_state \<Rightarrow> rigel_denise \<times> host_store list" where
  "rigel_denise_compositor_tick denise beam =
     (let line_changed = (do_beam_vpos (dn_output denise) \<noteq> beam_vpos beam \<or>
                          do_frame_counter (dn_output denise) \<noteq> beam_frame_count beam);
          was_visible = do_visible_scanline (dn_output denise);
          denise = (if line_changed \<and> was_visible then compose_line denise
                    else if line_changed then clear_scanline_to_border denise
                    else denise);
          (denise, stores) = rigel_denise_framebuffer_sync_from_beam denise beam;
          denise = (if line_changed \<and> \<not> was_visible \<and> do_visible_scanline (dn_output denise)
                    then compose_line denise else denise)
      in (denise\<lparr>dn_output := (dn_output denise)\<lparr>do_last_rgb :=
            dp_rgb32 (dn_palette denise) !
              unat (ddbg_last_color_index (dn_debug denise) AND 31)\<rparr>\<rparr>, stores))"

definition rigel_denise_trace_tick :: "denise_debug_state \<Rightarrow> u32 \<Rightarrow> denise_debug_state" where
  "rigel_denise_trace_tick debug cycles =
     debug\<lparr>ddbg_scanline_counter := ddbg_scanline_counter debug + cycles\<rparr>"

definition rigel_denise_step ::
    "rigel_denise \<Rightarrow> beam_state \<Rightarrow> u32 \<Rightarrow> rigel_denise \<times> host_store list" where
  "rigel_denise_step denise beam cycles =
     (let (denise, stores) = rigel_denise_compositor_tick denise beam;
          output = dn_output denise
      in (denise\<lparr>dn_debug := (rigel_denise_trace_tick (dn_debug denise) cycles)\<lparr>
             ddbg_frame_counter := ucast (do_frame_counter output),
             ddbg_beam_hpos := do_beam_hpos output, ddbg_beam_vpos := do_beam_vpos output,
             ddbg_current_scanline := do_current_scanline output,
             ddbg_current_pixel := do_current_pixel output,
             ddbg_last_rgb32 := do_last_rgb output,
             ddbg_visible_scanline := do_visible_scanline output\<rparr>\<rparr>, stores))"

end
