(* ===== verification/Denise_Line.thy ===== *)
theory Denise_Line
  imports Denise_Compose
begin

text \<open>
  What a composed line shows.  Every pass of the compositor touches each pixel at most
  once; the locale \<open>line_pass\<close> is that contract, with the law that a pass over an interval
  of positions changes exactly those pixels, each by its own function.  The two
  single-playfield loops and the sprite loop are interpreted in it, which gives the
  equality of the two loops where both apply, and the pixel of a finished line as the
  winner of the priority routine of \<^verbatim>\<open>render/priority.c\<close> (which the compositor does not
  call).
\<close>

unbundle bit_operations_syntax

section \<open>Passes over a line\<close>

record line_px =
  px_rgba :: u32
  px_rgb565 :: u16
  px_color :: u8
  px_prio :: u8
  px_active :: u8
  px_spr :: u8

definition line_pixel :: "line_buf \<Rightarrow> nat \<Rightarrow> line_px" where
  "line_pixel b x =
     \<lparr>px_rgba = lb_rgba b ! x, px_rgb565 = lb_rgb565 b ! x, px_color = lb_pf_color b ! x,
      px_prio = lb_pf_prio b ! x, px_active = lb_pf_active b ! x, px_spr = lb_spr_active b ! x\<rparr>"

definition line_buf_ok :: "line_buf \<Rightarrow> bool" where
  "line_buf_ok b \<longleftrightarrow>
     length (lb_rgba b) = 1024 \<and> length (lb_rgb565 b) = 1024 \<and> length (lb_pf_color b) = 1024 \<and>
     length (lb_pf_prio b) = 1024 \<and> length (lb_pf_active b) = 1024 \<and>
     length (lb_spr_active b) = 1024"

lemma line_buf_eqI:
  assumes "line_buf_ok b" "line_buf_ok c" "\<And>x. x < 1024 \<Longrightarrow> line_pixel b x = line_pixel c x"
  shows "b = c"
  using assms
  by (cases b; cases c) (auto simp: line_buf_ok_def line_pixel_def intro!: nth_equalityI)

lemma foldl_blocks:
  "foldl (\<lambda>b w. foldl (\<lambda>b k. F (w * m + k) b) b [0..<m]) b [0..<n]
   = foldl (\<lambda>b k. F k b) b [0..<n * m]"
proof (induction n)
  case (Suc n)
  have "[0..<Suc n * m] = [0..<n * m] @ [n * m..<m + n * m]"
    using upt_add_eq_append [of 0 "n * m" m] by (simp add: add.commute)
  also have "[n * m..<m + n * m] = map (\<lambda>k. n * m + k) [0..<m]"
    using map_add_upt [of "n * m" m] by (simp add: add.commute)
  finally have "[0..<Suc n * m] = [0..<n * m] @ map (\<lambda>k. n * m + k) [0..<m]" .
  then show ?case
    using Suc by (simp add: foldl_map)
qed simp

lemma foldl_shift:
  "foldl (\<lambda>b k. F (base + k) b) b [0..<n] = foldl (\<lambda>b x. F x b) b [base..<base + n]"
proof -
  have "[base..<base + n] = map (\<lambda>k. base + k) [0..<n]"
    using map_add_upt [of base n] by (simp add: add.commute)
  then show ?thesis
    by (simp add: foldl_map)
qed

locale line_pass =
  fixes f :: "nat \<Rightarrow> line_buf \<Rightarrow> line_buf" and g :: "nat \<Rightarrow> line_px \<Rightarrow> line_px"
  assumes pass_ok: "line_buf_ok b \<Longrightarrow> line_buf_ok (f x b)"
    and pass_pixel: "line_buf_ok b \<Longrightarrow> y < 1024 \<Longrightarrow>
      line_pixel (f x b) y = (if y = x then g x (line_pixel b y) else line_pixel b y)"
begin

lemma pass_interval_ok: "line_buf_ok b \<Longrightarrow> line_buf_ok (foldl (\<lambda>b x. f x b) b [m..<n])"
  by (induction n) (auto simp: pass_ok upt_Suc)

lemma pass_interval:
  assumes "line_buf_ok b" "y < 1024"
  shows "line_pixel (foldl (\<lambda>b x. f x b) b [m..<n]) y
    = (if m \<le> y \<and> y < n then g y (line_pixel b y) else line_pixel b y)"
proof (induction n)
  case (Suc n)
  then show ?case
    by (cases "m \<le> n")
      (auto simp: pass_pixel pass_interval_ok assms less_Suc_eq not_less_eq_eq)
qed simp

end

section \<open>The single playfield\<close>

definition single_color :: "compose_params \<Rightarrow> u8 \<Rightarrow> u8" where
  "single_color cp bits = (if cp_is_ehb cp then bits AND 0x3F else bits AND 0x1F)"

definition single_rgb :: "compose_params \<Rightarrow> u8 \<Rightarrow> u32" where
  "single_rgb cp ci =
     (if cp_is_ehb cp then ehb_resolve_color ci (cp_palette cp) else cp_palette cp ! unat ci)"

definition single_565 :: "compose_params \<Rightarrow> u8 \<Rightarrow> u16" where
  "single_565 cp ci =
     (if cp_is_ehb cp then rgb32_to_rgb565 (ehb_resolve_color ci (cp_palette cp))
      else cp_palette565 cp ! unat ci)"

definition single_pixel :: "compose_params \<Rightarrow> u8 \<Rightarrow> line_px \<Rightarrow> line_px" where
  "single_pixel cp bits old = old\<lparr>
     px_rgba := single_rgb cp (single_color cp bits),
     px_rgb565 := single_565 cp (single_color cp bits),
     px_color := single_color cp bits,
     px_active := (if single_color cp bits \<noteq> 0 then 1 else 0)\<rparr>"

interpretation single: line_pass
  "\<lambda>x b. if in_window cp x then put_single cp x (bits x) b else b"
  "\<lambda>x old. if in_window cp x then single_pixel cp (bits x) old else old"
  for cp bits
  by unfold_locales
    (auto simp: line_buf_ok_def in_window_def put_single_def single_pixel_def single_color_def
      single_rgb_def single_565_def line_pixel_def Let_def nth_list_update)

text \<open>The word loop and the pixel loop as passes over an interval.\<close>

definition word_bits :: "compose_params \<Rightarrow> nat \<Rightarrow> u8" where
  "word_bits cp x =
     (let k = x - (cp_ddf0 cp + cp_scroll cp * cp_hscale cp)
      in word_pixels cp (k div 16) ! (k mod 16))"

lemma compose_single_words_pass:
  "compose_single_words cp b =
     foldl (\<lambda>b x. if in_window cp x then put_single cp x (word_bits cp x) b else b) b
       [cp_ddf0 cp + cp_scroll cp * cp_hscale cp..<
        cp_ddf0 cp + cp_scroll cp * cp_hscale cp + cp_plane_word_count cp * 16]"
proof -
  let ?base = "cp_ddf0 cp + cp_scroll cp * cp_hscale cp"
  let ?F = "\<lambda>x b. if in_window cp x then put_single cp x (word_bits cp x) b else b"
  have "compose_single_words cp b =
      foldl (\<lambda>b w. foldl (\<lambda>b px. ?F (?base + (w * 16 + px)) b) b [0..<16]) b
        [0..<cp_plane_word_count cp]"
    unfolding compose_single_words_def Let_def
    by (intro foldl_cong refl) (simp add: word_bits_def Let_def algebra_simps)
  also have "\<dots> = foldl (\<lambda>b k. ?F (?base + k) b) b [0..<cp_plane_word_count cp * 16]"
    by (rule foldl_blocks)
  also have "\<dots> = foldl (\<lambda>b x. ?F x b) b [?base..<?base + cp_plane_word_count cp * 16]"
    by (rule foldl_shift)
  finally show ?thesis .
qed

definition pixel_lo :: "compose_params \<Rightarrow> nat" where
  "pixel_lo cp = max (cp_ddf0 cp) (cp_x_start cp)"

definition pixel_hi :: "compose_params \<Rightarrow> nat" where
  "pixel_hi cp =
     min (min (cp_ddf0 cp + cp_plane_word_count cp * 16 + 15 * cp_hscale cp) (cp_x_stop cp)) 1024"

lemma compose_single_pixels_pass:
  "compose_single_pixels cp b =
     foldl (\<lambda>b x. if in_window cp x then put_single cp x (pixel_index_at cp x) b else b) b
       [pixel_lo cp..<pixel_hi cp]"
proof -
  have lo: "(if cp_ddf0 cp < cp_x_start cp then cp_x_start cp else cp_ddf0 cp) = pixel_lo cp"
    by (simp add: pixel_lo_def max_def)
  have hi: "(if (if m > s then s else m) > 1024 then 1024 else (if m > s then s else m))
      = min (min m s) 1024" for m s :: nat
    by auto
  have "compose_single_pixels cp b =
      foldl (\<lambda>b x. put_single cp x (pixel_index_at cp x) b) b [pixel_lo cp..<pixel_hi cp]"
    by (simp only: compose_single_pixels_def Let_def lo hi pixel_hi_def)
  also have "\<dots> = foldl (\<lambda>b x. if in_window cp x then put_single cp x (pixel_index_at cp x) b else b)
      b [pixel_lo cp..<pixel_hi cp]"
    by (intro foldl_cong refl) (auto simp: in_window_def pixel_lo_def pixel_hi_def)
  finally show ?thesis .
qed


section \<open>The two loops agree\<close>

lemma bit_pixel_index_at:
  "bit (pixel_index_at cp x) p \<longleftrightarrow> p < cp_depth cp \<and> p < 6 \<and> plane_bit_at cp x p"
proof -
  have "bit (foldl (\<lambda>ci p. if plane_bit_at cp x p then ci OR push_bit p 1 else ci) (0 :: u8) [0..<n]) p
      \<longleftrightarrow> p < n \<and> p < 8 \<and> plane_bit_at cp x p" for n
    by (induction n) (auto simp: bit_or_iff bit_exp_iff less_Suc_eq)
  from this [of "min (cp_depth cp) 6"] show ?thesis
    by (auto simp: pixel_index_at_def)
qed

lemma plane_bit_at_aligned:
  assumes "cp_scroll_pf1 cp = cp_scroll cp" "cp_scroll_pf2 cp = cp_scroll cp"
  defines "base \<equiv> cp_ddf0 cp + cp_scroll cp * cp_hscale cp"
  shows "plane_bit_at cp x p \<longleftrightarrow> base \<le> x \<and> x < base + cp_plane_word_count cp * 16 \<and>
    bit (cp_plane_words cp ! p ! ((x - base) div 16)) (15 - (x - base) mod 16)"
proof -
  have src: "int x - int (cp_scroll cp * cp_hscale cp) - int (cp_ddf0 cp) = int x - int base"
    by (simp add: base_def)
  have nat: "base \<le> x \<Longrightarrow> nat (int x - int base) = x - base"
    by linarith
  have ifs: "(if even p then cp_scroll_pf1 cp else cp_scroll_pf2 cp) = cp_scroll cp"
    using assms by simp
  show ?thesis
    unfolding plane_bit_at_def Let_def ifs src
    by (auto simp: nat)
qed

lemma word_bits_eq_index:
  assumes "cp_scroll_pf1 cp = cp_scroll cp" "cp_scroll_pf2 cp = cp_scroll cp" "cp_depth cp \<le> 6"
  assumes "cp_ddf0 cp + cp_scroll cp * cp_hscale cp \<le> x"
    "x < cp_ddf0 cp + cp_scroll cp * cp_hscale cp + cp_plane_word_count cp * 16"
  shows "word_bits cp x = pixel_index_at cp x"
  using assms
  by (intro bit_word_eqI)
    (auto simp: word_bits_def word_pixels_def Let_def planar_to_chunky_nth bit_planar_pixel_at
      bit_pixel_index_at plane_bit_at_aligned)

lemma index_outside:
  assumes "cp_scroll_pf1 cp = cp_scroll cp" "cp_scroll_pf2 cp = cp_scroll cp"
  assumes "\<not> (cp_ddf0 cp + cp_scroll cp * cp_hscale cp \<le> x \<and>
    x < cp_ddf0 cp + cp_scroll cp * cp_hscale cp + cp_plane_word_count cp * 16)"
  shows "pixel_index_at cp x = 0"
  using assms by (intro bit_word_eqI) (auto simp: bit_pixel_index_at plane_bit_at_aligned)

text \<open>The palettes of a line are consistent when the 16-bit colours are the reduced 24-bit ones.\<close>

definition palettes_agree :: "u32 list \<Rightarrow> u16 list \<Rightarrow> bool" where
  "palettes_agree pal pal565 \<longleftrightarrow>
     length pal = 32 \<and> length pal565 = 32 \<and> (\<forall>i<32. pal565 ! i = rgb32_to_rgb565 (pal ! i))"

definition line_params_ok :: "compose_params \<Rightarrow> bool" where
  "line_params_ok cp \<longleftrightarrow>
     palettes_agree (cp_palette cp) (cp_palette565 cp) \<and> cp_depth cp \<le> 7 \<and>
     cp_scroll cp = cp_scroll_pf1 cp \<and> cp_scroll_pf1 cp \<le> 15 \<and> cp_scroll_pf2 cp \<le> 15 \<and>
     cp_hscale cp \<in> {1, 2} \<and> cp_sprite_hscale cp \<in> {1, 2} \<and> cp_pf1p cp \<le> 7 \<and> cp_pf2p cp \<le> 7"

lemma line_buf_init_ok:
  "length (do_scanline_rgba out) = 1024 \<Longrightarrow> length (do_scanline_rgb565 out) = 1024 \<Longrightarrow>
   line_buf_ok (line_buf_init cp out)"
  by (simp add: line_buf_ok_def line_buf_init_def rigel_simd_fill_def)

lemma line_buf_init_pixel:
  "x < 1024 \<Longrightarrow> line_pixel (line_buf_init cp out) x =
     \<lparr>px_rgba = cp_palette cp ! 0, px_rgb565 = cp_palette565 cp ! 0, px_color = 0,
      px_prio = of_nat (cp_pf1p cp), px_active = 0, px_spr = 0\<rparr>"
  by (simp add: line_pixel_def line_buf_init_def rigel_simd_fill_def nth_append)

lemma single_pixel_border:
  assumes "line_params_ok cp" "x < 1024"
  shows "single_pixel cp 0 (line_pixel (line_buf_init cp out) x) = line_pixel (line_buf_init cp out) x"
  using assms
  by (simp add: line_buf_init_pixel single_pixel_def single_color_def single_rgb_def single_565_def
      ehb_resolve_color_def line_params_ok_def palettes_agree_def)

text \<open>One characterisation of both loops: the index of the pixel decides, and it is the
  background index outside the fetched words.\<close>

lemma compose_single_pixel:
  assumes "line_params_ok cp" "cp_depth cp \<le> 6" "x < 1024"
    and "length (do_scanline_rgba out) = 1024" "length (do_scanline_rgb565 out) = 1024"
  shows "line_pixel (compose_single_pixels cp (line_buf_init cp out)) x
      = single_pixel cp (if in_window cp x \<and> cp_ddf0 cp \<le> x then pixel_index_at cp x else 0)
          (line_pixel (line_buf_init cp out) x)"
    and "cp_scroll_pf1 cp = cp_scroll_pf2 cp \<Longrightarrow>
      line_pixel (compose_single_words cp (line_buf_init cp out)) x
      = line_pixel (compose_single_pixels cp (line_buf_init cp out)) x"
proof -
  let ?L = "line_pixel (compose_single_pixels cp (line_buf_init cp out)) x"
  have outside: "pixel_index_at cp x = 0"
    if "in_window cp x" "\<not> (pixel_lo cp \<le> x \<and> x < pixel_hi cp)" "cp_ddf0 cp \<le> x"
  proof (rule bit_word_eqI)
    fix p assume "p < LENGTH(8)"
    have "cp_ddf0 cp + cp_plane_word_count cp * 16 + 15 * cp_hscale cp \<le> x"
      using that by (auto simp: in_window_def pixel_lo_def pixel_hi_def)
    moreover have "(if even p then cp_scroll_pf1 cp else cp_scroll_pf2 cp) * cp_hscale cp
        \<le> 15 * cp_hscale cp"
      using assms(1) by (intro mult_le_mono1) (auto simp: line_params_ok_def)
    ultimately have "int (cp_plane_word_count cp * 16) \<le> int x -
        int ((if even p then cp_scroll_pf1 cp else cp_scroll_pf2 cp) * cp_hscale cp) - int (cp_ddf0 cp)"
      by linarith
    then have "\<not> plane_bit_at cp x p"
      unfolding plane_bit_at_def Let_def by simp
    then show "bit (pixel_index_at cp x) p = bit (0 :: u8) p"
      by (simp add: bit_pixel_index_at)
  qed
  show L: "?L = single_pixel cp (if in_window cp x \<and> cp_ddf0 cp \<le> x then pixel_index_at cp x else 0)
          (line_pixel (line_buf_init cp out) x)"
  proof -
    have "pixel_lo cp \<le> x \<Longrightarrow> cp_ddf0 cp \<le> x"
      by (simp add: pixel_lo_def)
    then show ?thesis
      unfolding compose_single_pixels_pass
        single.pass_interval [OF line_buf_init_ok [OF assms(4,5)] assms(3)]
      using outside by (auto simp: single_pixel_border assms)
  qed
  assume scroll: "cp_scroll_pf1 cp = cp_scroll_pf2 cp"
  then have eq: "cp_scroll_pf1 cp = cp_scroll cp" "cp_scroll_pf2 cp = cp_scroll cp"
    using assms(1) by (auto simp: line_params_ok_def)
  show "line_pixel (compose_single_words cp (line_buf_init cp out)) x = ?L"
    unfolding L compose_single_words_pass
      single.pass_interval [OF line_buf_init_ok [OF assms(4,5)] assms(3)]
    by (auto simp: assms single_pixel_border word_bits_eq_index [OF eq assms(2)] index_outside [OF eq])
qed

section \<open>The sprite overlay\<close>

lemma denise_sprite_hstart_bound: "unat (denise_sprite_hstart sp) < 512"
proof -
  have "bit (0xFF :: u16) m \<Longrightarrow> m < 8" for m
    using bit_imp_less_if_unat_less [of "0xFF :: u16" 8 m] by simp
  then have "bit (denise_sprite_hstart sp) n \<Longrightarrow> n < 9" for n
    by (cases n)
      (auto simp: denise_sprite_hstart_def bit_or_iff bit_and_iff bit_push_bit_iff bit_1_iff)
  from unat_less_if_bits [OF this] show ?thesis
    by simp
qed

lemma denise_sprite_pixel_bound: "unat (denise_sprite_pixel s spr x) < 4"
proof -
  have two: "unat (ucast (push_bit 1 (drop_bit k v AND 1) OR (drop_bit k w AND 1)) :: u8) < 4"
    for v w :: u16 and k
  proof -
    have "unat (ucast (push_bit 1 (drop_bit k v AND 1) OR (drop_bit k w AND 1)) :: u8) < 2 ^ 2"
      by (rule unat_less_if_bits)
        (auto simp only: bit_ucast_iff bit_or_iff bit_push_bit_iff bit_and_iff bit_1_iff)
    then show ?thesis
      by (simp only: power2_eq_square)
  qed
  show ?thesis
    unfolding denise_sprite_pixel_def Let_def
    by (simp only: two unsigned_0 zero_less_numeral split: if_split) simp
qed

definition sprite_index :: "denise_sprites_state \<Rightarrow> nat \<Rightarrow> nat \<Rightarrow> u8" where
  "sprite_index s spr hx =
     (if odd spr \<and> denise_sprite_is_attached s spr then 0
      else if even spr \<and> denise_sprite_is_attached s (spr + 1) then
        denise_sprite_attached_pixel s spr (of_nat hx)
      else if denise_sprite_pixel s spr (of_nat hx) = 0 then 0
      else of_nat (16 + spr div 2 * 4 + unat (denise_sprite_pixel s spr (of_nat hx))))"

definition sprite_at :: "compose_params \<Rightarrow> denise_sprites_state \<Rightarrow> u16 \<Rightarrow> nat \<Rightarrow> nat \<Rightarrow> u8" where
  "sprite_at cp s y x spr =
     (let sp = dspr_sp s ! spr; hx = x div cp_sprite_hscale cp;
          hstart = unat (denise_sprite_hstart sp)
      in if dspr_armed sp \<and> sprite_on_line sp y \<and> hstart \<le> hx \<and> hx < hstart + 16
         then sprite_index s spr hx else 0)"

definition sprite_pixel_over :: "nat \<Rightarrow> u32 \<Rightarrow> line_px \<Rightarrow> line_px" where
  "sprite_pixel_over spr color old =
     (let old = old\<lparr>px_spr := px_spr old OR push_bit spr 1\<rparr>
      in if px_color old = 0 \<or> spr div 2 + unat (px_prio old) < 4
         then old\<lparr>px_rgba := color, px_rgb565 := rgb32_to_rgb565 color\<rparr> else old)"

interpretation sprite: line_pass
  "\<lambda>x b. if x < 1024 \<and> idx x \<noteq> 0 then put_sprite spr x (pal ! unat (idx x)) b else b"
  "\<lambda>x old. if idx x \<noteq> 0 then sprite_pixel_over spr (pal ! unat (idx x)) old else old"
  for spr pal and idx :: "nat \<Rightarrow> u8"
  by unfold_locales
    (auto simp: line_buf_ok_def put_sprite_def sprite_pixel_over_def line_pixel_def Let_def
      nth_list_update)

lemma put_sprite_repeat_pass:
  assumes "q < 527" "sc = 1 \<or> sc = 2"
  shows "put_sprite_repeat spr (of_nat (q * sc)) [0..<sc] color b =
    foldl (\<lambda>b k. if q * sc + k < 1024 then put_sprite spr (q * sc + k) color b else b) b [0..<sc]"
  using assms
  by (auto simp: upt_rec [of 0] upt_rec [of "Suc 0"] Let_def unat_of_nat unat_word_ariths)

lemma sprite_index_plain:
  assumes "spr < 8" "\<not> (odd spr \<and> denise_sprite_is_attached s spr)"
    and "\<not> (even spr \<and> denise_sprite_is_attached s (spr + 1))"
  shows "sprite_index s spr hx = 0 \<longleftrightarrow> denise_sprite_pixel s spr (of_nat hx) = 0"
    and "denise_sprite_pixel s spr (of_nat hx) \<noteq> 0 \<Longrightarrow> unat (sprite_index s spr hx)
      = (16 + spr div 2 * 4 + unat (denise_sprite_pixel s spr (of_nat hx))) mod 32"
proof -
  define n where "n = 16 + spr div 2 * 4 + unat (denise_sprite_pixel s spr (of_nat hx))"
  have "spr div 2 \<le> 3"
    using \<open>spr < 8\<close> by simp
  then have n: "16 \<le> n" "n < 32"
    using denise_sprite_pixel_bound [of s spr "of_nat hx"] by (auto simp: n_def)
  then have u: "unat (of_nat n :: u8) = n"
    by (simp add: unat_of_nat)
  have i: "denise_sprite_pixel s spr (of_nat hx) \<noteq> 0 \<Longrightarrow> sprite_index s spr hx = of_nat n"
    "denise_sprite_pixel s spr (of_nat hx) = 0 \<Longrightarrow> sprite_index s spr hx = 0"
    using assms by (auto simp: sprite_index_def n_def)
  show "sprite_index s spr hx = 0 \<longleftrightarrow> denise_sprite_pixel s spr (of_nat hx) = 0"
    using i u n by (metis not_numeral_le_zero unsigned_0)
  show "unat (sprite_index s spr hx)
      = (16 + spr div 2 * 4 + unat (denise_sprite_pixel s spr (of_nat hx))) mod 32"
    if "denise_sprite_pixel s spr (of_nat hx) \<noteq> 0"
    using i(1) [OF that] u n by (simp flip: n_def)
qed

text \<open>The write of one sprite pixel, as the overlay performs it at position \<open>x\<close>.\<close>

definition sprite_put :: "compose_params \<Rightarrow> denise_sprites_state \<Rightarrow> nat \<Rightarrow> nat \<Rightarrow> line_buf \<Rightarrow> line_buf" where
  "sprite_put cp s spr x b =
     (if x < 1024 \<and> sprite_index s spr (x div cp_sprite_hscale cp) \<noteq> 0
      then put_sprite spr x (cp_palette cp ! unat (sprite_index s spr (x div cp_sprite_hscale cp))) b
      else b)"

lemma foldl_unchanged: "foldl (\<lambda>b k. b) b ks = b"
  by (induction ks) simp_all

lemma compose_sprite_pixel_blocks:
  assumes "cp_sprite_hscale cp \<in> {1, 2}" "spr < 8" "\<not> (odd spr \<and> denise_sprite_is_attached s spr)"
    and "unat hstart < 512" "px < 16"
  defines "sc \<equiv> cp_sprite_hscale cp"
  shows "compose_sprite_pixel cp s spr hstart px b =
    foldl (\<lambda>b k. sprite_put cp s spr (unat hstart * sc + (px * sc + k)) b) b [0..<sc]"
proof -
  define q where "q = unat hstart + px"
  define att where "att = (even spr \<and> denise_sprite_is_attached s (spr + 1))"
  define pix where "pix = (if att then denise_sprite_attached_pixel s spr (of_nat q)
      else denise_sprite_pixel s spr (of_nat q))"
  define c where
    "c = cp_palette cp ! (if att then unat pix else (16 + spr div 2 * 4 + unat pix) mod 32)"
  have q: "hstart + of_nat px = of_nat q" "q < 527"
    using assms by (simp_all add: q_def)
  have "sprite_index s spr q = 0 \<longleftrightarrow> pix = 0"
    and "pix \<noteq> 0 \<Longrightarrow> cp_palette cp ! unat (sprite_index s spr q) = c"
    using sprite_index_plain [OF assms(2,3), of q] assms(3)
    by (cases att; auto simp: sprite_index_def att_def pix_def c_def)+
  then have put: "sprite_put cp s spr (q * sc + k) b =
      (if q * sc + k < 1024 \<and> pix \<noteq> 0 then put_sprite spr (q * sc + k) c b else b)"
    if "k < sc" for k b
    using that by (simp add: sprite_put_def flip: sc_def)
  have "foldl (\<lambda>b k. sprite_put cp s spr (q * sc + k) b) b [0..<sc] =
      foldl (\<lambda>b k. if q * sc + k < 1024 \<and> pix \<noteq> 0 then put_sprite spr (q * sc + k) c b else b)
        b [0..<sc]"
    by (intro foldl_cong refl) (simp add: put)
  also have "\<dots> = (if pix = 0 then b else put_sprite_repeat spr (of_nat (q * sc)) [0..<sc] c b)"
    using put_sprite_repeat_pass [of q sc spr c b] q assms(1)
    by (simp add: foldl_unchanged sc_def)
  also have "\<dots> = compose_sprite_pixel cp s spr hstart px b"
    unfolding compose_sprite_pixel_def Let_def q(1) by (simp only: q_def [symmetric] sc_def
      att_def [symmetric] pix_def [symmetric] c_def [symmetric])
  finally show ?thesis
    by (simp add: q_def algebra_simps)
qed

lemma compose_sprite_line:
  assumes "cp_sprite_hscale cp \<in> {1, 2}" "spr < 8" "line_buf_ok b"
  shows "line_buf_ok (compose_sprite cp s y spr b)"
    and "x < 1024 \<Longrightarrow> line_pixel (compose_sprite cp s y spr b) x =
      (if sprite_at cp s y x spr \<noteq> 0
       then sprite_pixel_over spr (cp_palette cp ! unat (sprite_at cp s y x spr)) (line_pixel b x)
       else line_pixel b x)"
proof -
  define sc where "sc = cp_sprite_hscale cp"
  define h where "h = unat (denise_sprite_hstart (dspr_sp s ! spr))"
  let ?shown = "\<not> (odd spr \<and> denise_sprite_is_attached s spr) \<and> dspr_armed (dspr_sp s ! spr) \<and>
    sprite_on_line (dspr_sp s ! spr) y"
  have h: "h < 512"
    by (simp add: h_def denise_sprite_hstart_bound)
  have hidden: "compose_sprite cp s y spr b = b" "sprite_at cp s y x spr = 0" if "\<not> ?shown" for x
    using that by (auto simp: compose_sprite_def Let_def sprite_at_def sprite_index_def)
  have shown: "compose_sprite cp s y spr b =
      foldl (\<lambda>b x. sprite_put cp s spr x b) b [h * sc..<h * sc + 16 * sc]" if ?shown
  proof -
    have "compose_sprite cp s y spr b =
        foldl (\<lambda>b px. foldl (\<lambda>b k. sprite_put cp s spr (h * sc + (px * sc + k)) b) b [0..<sc]) b [0..<16]"
      using that h assms
      by (auto simp: compose_sprite_def Let_def compose_sprite_pixel_blocks sc_def h_def
          intro!: foldl_cong)
    then show ?thesis
      using foldl_blocks [of "\<lambda>x. sprite_put cp s spr (h * sc + x)" sc b 16]
        foldl_shift [of "sprite_put cp s spr" "h * sc" b "16 * sc"]
      by simp
  qed
  have put: "sprite_put cp s spr = (\<lambda>x b. if x < 1024 \<and> sprite_index s spr (x div sc) \<noteq> 0
      then put_sprite spr x (cp_palette cp ! unat (sprite_index s spr (x div sc))) b else b)"
    by (auto simp: sprite_put_def sc_def fun_eq_iff)
  have range: "h * sc \<le> x \<and> x < h * sc + 16 * sc \<longleftrightarrow> h \<le> x div sc \<and> x div sc < h + 16" for x
    using assms(1) by (auto simp: sc_def)
  show "line_buf_ok (compose_sprite cp s y spr b)"
    using hidden(1) shown sprite.pass_interval_ok [OF assms(3)] assms(3) by (cases ?shown) (simp_all add: put)
  show "line_pixel (compose_sprite cp s y spr b) x =
      (if sprite_at cp s y x spr \<noteq> 0
       then sprite_pixel_over spr (cp_palette cp ! unat (sprite_at cp s y x spr)) (line_pixel b x)
       else line_pixel b x)" if "x < 1024"
  proof (cases ?shown)
    case True
    then have "sprite_at cp s y x spr =
        (if h \<le> x div sc \<and> x div sc < h + 16 then sprite_index s spr (x div sc) else 0)"
      by (simp add: sprite_at_def Let_def sc_def h_def)
    then show ?thesis
      using True that
      by (simp add: shown put sprite.pass_interval [OF assms(3)] range)
  qed (simp add: hidden)
qed

definition sprite_layer ::
    "compose_params \<Rightarrow> denise_sprites_state \<Rightarrow> u16 \<Rightarrow> nat \<Rightarrow> nat \<Rightarrow> line_px \<Rightarrow> line_px" where
  "sprite_layer cp s y x spr old =
     (if sprite_at cp s y x spr \<noteq> 0
      then sprite_pixel_over spr (cp_palette cp ! unat (sprite_at cp s y x spr)) old else old)"

lemma compose_sprites_line:
  assumes "cp_sprite_hscale cp \<in> {1, 2}" "line_buf_ok b" "\<forall>spr\<in>set sprs. spr < 8"
  shows "line_buf_ok (foldr (compose_sprite cp s y) sprs b)"
    and "x < 1024 \<Longrightarrow> line_pixel (foldr (compose_sprite cp s y) sprs b) x
      = foldr (sprite_layer cp s y x) sprs (line_pixel b x)"
  using assms by (induction sprs) (auto simp: compose_sprite_line sprite_layer_def)

lemma sprite_layer_fields [simp]:
  "px_color (sprite_layer cp s y x spr old) = px_color old"
  "px_prio (sprite_layer cp s y x spr old) = px_prio old"
  by (simp_all add: sprite_layer_def sprite_pixel_over_def Let_def)

lemma sprite_layers_fields [simp]:
  "px_color (foldr (sprite_layer cp s y x) sprs old) = px_color old"
  "px_prio (foldr (sprite_layer cp s y x) sprs old) = px_prio old"
  by (induction sprs) simp_all

text \<open>Drawing from the last sprite to the first leaves the colour of the first sprite that
  the priority routine accepts.\<close>

lemma sprite_layers_priority:
  fixes cp s y x old
  defines "r \<equiv> \<lambda>sprs. priority_loop (px_color old) (unat (px_prio old))
    (map (sprite_at cp s y x) [0..<8]) sprs"
  assumes "\<forall>spr\<in>set sprs. spr < 8"
  shows "px_rgba (foldr (sprite_layer cp s y x) sprs old)
      = (if from_sprite (r sprs) then cp_palette cp ! unat (color_index (r sprs)) else px_rgba old)"
    and "px_rgb565 (foldr (sprite_layer cp s y x) sprs old)
      = (if from_sprite (r sprs) then rgb32_to_rgb565 (cp_palette cp ! unat (color_index (r sprs)))
         else px_rgb565 old)"
  using assms(2) unfolding r_def
  by (induction sprs) (auto simp: sprite_layer_def sprite_pixel_over_def Let_def)

lemma priority_no_sprite:
  "\<not> from_sprite (priority_loop c p spx sprs) \<Longrightarrow> color_index (priority_loop c p spx sprs) = c"
  by (induction sprs) (auto split: if_splits)

section \<open>A finished line\<close>

lemma compose_locals_ok:
  assumes "palettes_agree (dp_rgb32 (dn_palette d)) (dp_rgb565 (dn_palette d))"
  shows "line_params_ok (compose_locals d)"
proof -
  have m: "unat (w AND 7) \<le> 7" "unat (w AND 0xF) \<le> 15" for w :: u16
    using unat_and_le [of w 7] unat_and_le [of w "0xF"] by simp_all
  show ?thesis
    using assms by (simp add: line_params_ok_def compose_locals_def Let_def m)
qed

lemma pixel_index_before:
  assumes "x < cp_ddf0 cp"
  shows "pixel_index_at cp x = 0"
proof -
  have "int x - int k - int (cp_ddf0 cp) < 0" for k
    using assms by simp
  then have "\<not> plane_bit_at cp x p" for p
    by (simp only: plane_bit_at_def Let_def if_True simp_thms)
  then show ?thesis
    by (intro bit_word_eqI) (simp add: bit_pixel_index_at)
qed

lemma pixel_index_empty:
  "cp_depth cp = 0 \<or> cp_plane_word_count cp = 0 \<Longrightarrow> pixel_index_at cp x = 0"
  by (intro bit_word_eqI) (auto simp: bit_pixel_index_at plane_bit_at_def Let_def)

definition playfield_index :: "bool \<Rightarrow> compose_params \<Rightarrow> nat \<Rightarrow> u8" where
  "playfield_index visible cp x =
     (if visible \<and> cp_depth cp \<le> 6 \<and> in_window cp x then single_color cp (pixel_index_at cp x) else 0)"

lemma single_color_twice: "single_pixel cp (single_color cp bits) = single_pixel cp bits"
  by (simp add: fun_eq_iff single_pixel_def single_color_def and.assoc)

lemma compose_playfield_line:
  assumes cp: "line_params_ok cp" and single: "\<not> cp_is_ham cp" "\<not> cp_is_dual cp"
    and len: "length (do_scanline_rgba out) = 1024" "length (do_scanline_rgb565 out) = 1024"
  shows "line_buf_ok (compose_playfield visible cp (line_buf_init cp out))"
    and "x < 1024 \<Longrightarrow> line_pixel (compose_playfield visible cp (line_buf_init cp out)) x
      = single_pixel cp (playfield_index visible cp x) (line_pixel (line_buf_init cp out) x)"
proof -
  note init = line_buf_init_ok [OF len]
  show "line_buf_ok (compose_playfield visible cp (line_buf_init cp out))"
    by (simp add: compose_playfield_def single init single.pass_interval_ok compose_single_words_pass
        compose_single_pixels_pass)
  assume x: "x < 1024"
  show "line_pixel (compose_playfield visible cp (line_buf_init cp out)) x
      = single_pixel cp (playfield_index visible cp x) (line_pixel (line_buf_init cp out) x)"
  proof (cases "visible \<and> cp_depth cp > 0 \<and> cp_depth cp \<le> 6 \<and> cp_plane_word_count cp > 0")
    case True
    then have "compose_playfield visible cp (line_buf_init cp out) =
        (if cp_scroll_pf1 cp = cp_scroll_pf2 cp then compose_single_words cp (line_buf_init cp out)
         else compose_single_pixels cp (line_buf_init cp out))"
      by (simp add: compose_playfield_def single)
    then have "line_pixel (compose_playfield visible cp (line_buf_init cp out)) x
        = line_pixel (compose_single_pixels cp (line_buf_init cp out)) x"
      using compose_single_pixel(2) [OF cp _ x len] True by simp
    then show ?thesis
      using compose_single_pixel(1) [OF cp _ x len] True pixel_index_before [of x cp]
      by (auto simp: playfield_index_def single_color_twice not_le)
  next
    case False
    then have "playfield_index visible cp x = 0"
      using pixel_index_empty [of cp x] by (auto simp: playfield_index_def single_color_def)
    then show ?thesis
      using False x cp by (auto simp: compose_playfield_def single_pixel_border)
  qed
qed

definition denise_line_ok :: "rigel_denise \<Rightarrow> bool" where
  "denise_line_ok d \<longleftrightarrow>
     palettes_agree (dp_rgb32 (dn_palette d)) (dp_rgb565 (dn_palette d)) \<and>
     length (do_scanline_rgba (dn_output d)) = 1024 \<and>
     length (do_scanline_rgb565 (dn_output d)) = 1024"

lemma rgb565_of_single:
  assumes "line_params_ok cp"
  shows "single_565 cp (single_color cp bits) = rgb32_to_rgb565 (single_rgb cp (single_color cp bits))"
proof -
  have "unat (bits AND 0x1F) < 32"
    using unat_and_le [of bits "0x1F"] by simp
  then show ?thesis
    using assms
    by (simp add: single_565_def single_rgb_def single_color_def line_params_ok_def palettes_agree_def)
qed

text \<open>
  C29: a finished line of a single-playfield mode (including extra half-brite).  At every one
  of the 1024 positions the pixel is the one that the priority routine of
  \<^verbatim>\<open>render/priority.c\<close> selects from the playfield index at that position (the background
  outside the display window and outside the fetched words) and the eight sprite pixels
  there: the colour of the winning sprite, or the playfield colour.  The 16-bit line is
  the same picture.
\<close>

theorem compose_line_pixel:
  fixes denise :: rigel_denise and x :: nat
  defines "cp \<equiv> compose_locals denise"
  defines "ci \<equiv> playfield_index (do_visible_scanline (dn_output denise)) cp x"
  defines "sprites \<equiv> map (sprite_at cp (dn_sprites denise) (do_beam_vpos (dn_output denise)) x) [0..<8]"
  defines "r \<equiv> denise_priority_resolve ci False sprites (cp_bplcon2 cp)"
  assumes "denise_line_ok denise" "do_scanline_width (dn_output denise) \<noteq> 0"
    and "\<not> cp_is_ham cp" "\<not> cp_is_dual cp" "x < 1024"
  shows "do_scanline_rgba (dn_output (compose_line denise)) ! x =
      (if from_sprite r then cp_palette cp ! unat (color_index r) else single_rgb cp (color_index r)) \<and>
    do_scanline_rgb565 (dn_output (compose_line denise)) ! x =
      rgb32_to_rgb565 (do_scanline_rgba (dn_output (compose_line denise)) ! x)"
proof -
  define pf where "pf = compose_playfield (do_visible_scanline (dn_output denise)) cp
    (line_buf_init cp (dn_output denise))"
  define b where "b = compose_line_buf denise"
  have cp: "line_params_ok cp"
    and len: "length (do_scanline_rgba (dn_output denise)) = 1024"
      "length (do_scanline_rgb565 (dn_output denise)) = 1024"
    using assms(5) by (auto simp: cp_def denise_line_ok_def compose_locals_ok)
  have scale: "cp_sprite_hscale cp \<in> {1, 2}"
    using cp by (simp add: line_params_ok_def)
  have pfp: "line_pixel pf x = single_pixel cp ci (line_pixel (line_buf_init cp (dn_output denise)) x)"
    unfolding pf_def ci_def by (rule compose_playfield_line(2) [OF cp assms(7,8) len \<open>x < 1024\<close>])
  have prio: "unat (of_nat (cp_pf1p cp) :: u8) = unat (cp_bplcon2 cp AND 7)"
  proof -
    have "unat (of_nat (cp_pf1p cp) :: u8) = cp_pf1p cp"
      using cp by (simp add: line_params_ok_def unat_of_nat)
    also have "\<dots> = unat (cp_bplcon2 cp AND 7)"
      by (simp only: cp_def compose_locals_def Let_def compose_params.simps)
    finally show ?thesis .
  qed
  have ci: "single_color cp ci = ci"
    by (simp add: ci_def playfield_index_def single_color_def and.assoc)
  have "line_pixel b x = foldr (sprite_layer cp (dn_sprites denise) (do_beam_vpos (dn_output denise)) x)
      [0..<8] (line_pixel pf x)"
    unfolding b_def compose_line_buf_def compose_sprites_def Let_def
    by (simp only: cp_def [symmetric] pf_def [symmetric])
      (rule compose_sprites_line(2) [OF scale _ _ \<open>x < 1024\<close>],
        auto simp: pf_def compose_playfield_line(1) [OF cp assms(7,8) len])
  moreover have "px_color (line_pixel pf x) = ci" "unat (px_prio (line_pixel pf x)) = unat (cp_bplcon2 cp AND 7)"
    "px_rgba (line_pixel pf x) = single_rgb cp ci"
    "px_rgb565 (line_pixel pf x) = rgb32_to_rgb565 (single_rgb cp ci)"
    using prio rgb565_of_single [OF cp, of ci] \<open>x < 1024\<close>
    by (simp_all add: pfp single_pixel_def ci line_buf_init_pixel)
  ultimately have px: "px_rgba (line_pixel b x) =
      (if from_sprite r then cp_palette cp ! unat (color_index r) else single_rgb cp ci)"
    "px_rgb565 (line_pixel b x) = rgb32_to_rgb565 (px_rgba (line_pixel b x))"
    by (simp_all add: sprite_layers_priority r_def denise_priority_resolve_def sprites_def)
  have "\<not> from_sprite r \<Longrightarrow> color_index r = ci"
    by (simp add: r_def denise_priority_resolve_def priority_no_sprite Let_def)
  then show ?thesis
    using px assms(6) by (simp add: compose_line_def Let_def line_pixel_def flip: b_def)
qed

text \<open>A line with one plane word, one sprite over its first pixel, and sprite priority above
  the playfield: the pixel at column 17 is the sprite's, the one at column 18 the border's.\<close>

definition denise_sample :: rigel_denise where
  "denise_sample = denise_zero\<lparr>
     dn_regs := (dn_regs denise_zero)\<lparr>dr_bplcon0 := 0x1000\<rparr>,
     dn_palette := \<lparr>
       dp_rgb32 = (replicate 32 0)[1 := 0xff0000, 17 := 0x00ff00],
       dp_rgb565 = map rgb32_to_rgb565 ((replicate 32 0)[1 := 0xff0000, 17 := 0x00ff00])\<rparr>,
     dn_sprites := (dn_sprites denise_zero)\<lparr>dspr_sp := (dspr_sp (dn_sprites denise_zero))
       [0 := \<lparr>dspr_pos = 0x0008, dspr_ctl = 0x2001, dspr_data = 0x8000, dspr_datb = 0,
              dspr_armed = True, dspr_visible = False\<rparr>]\<rparr>,
     dn_output := (dn_output denise_zero)\<lparr>
       do_scanline_width := 320, do_visible_scanline := True, do_plane_word_count := 1,
       do_plane_words := (do_plane_words (dn_output denise_zero))[0 := replicate 64 0x8000]\<rparr>\<rparr>"

lemmas denise_sample_simps = denise_sample_def denise_zero_def rigel_denise_framebuffer_reset_def
  denise_sprites_reset_def rigel_denise_display_window_reset_def

lemma denise_sample_ok: "denise_line_ok denise_sample"
  by (simp add: denise_line_ok_def palettes_agree_def denise_sample_simps)

lemma denise_sample_locals:
  "cp_is_ham (compose_locals denise_sample) = False"
  "cp_is_dual (compose_locals denise_sample) = False"
  "cp_is_ehb (compose_locals denise_sample) = False"
  "cp_bplcon2 (compose_locals denise_sample) = 0"
  "cp_sprite_hscale (compose_locals denise_sample) = 1"
  "cp_palette (compose_locals denise_sample) = (replicate 32 0)[1 := 0xff0000, 17 := 0x00ff00]"
  by (simp_all add: compose_locals_def Let_def denise_sample_simps)

lemma denise_sample_sprite:
  "sprite_at (compose_locals denise_sample) (dn_sprites denise_sample) 0 17 0 = 17"
proof -
  have sp: "dspr_sp (dn_sprites denise_sample) ! 0 = \<lparr>dspr_pos = 0x0008, dspr_ctl = 0x2001,
      dspr_data = 0x8000, dspr_datb = 0, dspr_armed = True, dspr_visible = False\<rparr>"
    and att: "dspr_attached_mask (dn_sprites denise_sample) = 0"
    by (simp_all add: denise_sample_simps)
  have "\<not> denise_sprite_is_attached (dn_sprites denise_sample) 1"
    by (simp add: denise_sprite_is_attached_def att)
  then show ?thesis
    by (simp add: sprite_at_def sprite_index_def denise_sample_locals Let_def sp sprite_on_line_def
        denise_sprite_hstart_def denise_sprite_vstart_def denise_sprite_vstop_def
        denise_sprite_pixel_def)
qed

theorem compose_line_pixel_witness:
  "do_scanline_rgba (dn_output (compose_line denise_sample)) ! 17 = 0x00ff00"
proof -
  have "do_scanline_width (dn_output denise_sample) \<noteq> 0" "do_beam_vpos (dn_output denise_sample) = 0"
    by (simp_all add: denise_sample_simps)
  then show ?thesis
    using compose_line_pixel [of denise_sample 17, OF denise_sample_ok]
    by (simp add: denise_sample_locals denise_sample_sprite denise_priority_resolve_def
        upt_conv_Cons [of 0])
qed

text \<open>
  C30: the word loop of the compositor, taken when both playfields scroll by the same delay,
  draws exactly the line that the pixel loop would draw.
\<close>

theorem single_loops_agree:
  fixes denise :: rigel_denise
  defines "cp \<equiv> compose_locals denise"
  assumes "denise_line_ok denise" "cp_depth cp \<le> 6" "cp_scroll_pf1 cp = cp_scroll_pf2 cp"
  shows "compose_single_words cp (line_buf_init cp (dn_output denise))
    = compose_single_pixels cp (line_buf_init cp (dn_output denise))"
proof (rule line_buf_eqI)
  have cp: "line_params_ok cp"
    and len: "length (do_scanline_rgba (dn_output denise)) = 1024"
      "length (do_scanline_rgb565 (dn_output denise)) = 1024"
    using assms(2) by (auto simp: cp_def denise_line_ok_def compose_locals_ok)
  show "line_buf_ok (compose_single_words cp (line_buf_init cp (dn_output denise)))"
    "line_buf_ok (compose_single_pixels cp (line_buf_init cp (dn_output denise)))"
    by (simp_all add: compose_single_words_pass compose_single_pixels_pass single.pass_interval_ok
        line_buf_init_ok len)
  show "line_pixel (compose_single_words cp (line_buf_init cp (dn_output denise))) x
      = line_pixel (compose_single_pixels cp (line_buf_init cp (dn_output denise))) x"
    if "x < 1024" for x
    by (rule compose_single_pixel(2) [OF cp assms(3) that len assms(4)])
qed

theorem single_loops_agree_witness:
  "compose_single_words (compose_locals denise_sample)
      (line_buf_init (compose_locals denise_sample) (dn_output denise_sample))
    = compose_single_pixels (compose_locals denise_sample)
      (line_buf_init (compose_locals denise_sample) (dn_output denise_sample))"
proof -
  have "cp_depth (compose_locals denise_sample) \<le> 6"
    "cp_scroll_pf1 (compose_locals denise_sample) = cp_scroll_pf2 (compose_locals denise_sample)"
    by (simp_all add: compose_locals_def Let_def denise_sample_simps)
  then show ?thesis
    by (rule single_loops_agree [OF denise_sample_ok])
qed

end
