(* ===== verification/Denise.thy ===== *)
theory Denise
  imports Denise_Line
begin

text \<open>
  Denise as a whole: the events that the rest of the chipset and the host apply to it, the
  invariant of its state that every event keeps, what the host may read through the frame
  query, and the publication of a composed line in the front buffer.
\<close>

unbundle bit_operations_syntax

section \<open>Events\<close>

text \<open>The delivery of one bitplane word by the slot scheduler
  (\<^verbatim>\<open>timing/slot_scheduler.c\<close>): the control words are latched with the first word of a
  line, and the word is stored at its index.\<close>

definition denise_latch_line :: "rigel_denise \<Rightarrow> rigel_denise" where
  "denise_latch_line d =
     (if \<not> do_line_bplcon_valid (dn_output d) then
        d\<lparr>dn_output := (dn_output d)\<lparr>
          do_line_bplcon0 := dr_bplcon0 (dn_regs d), do_line_bplcon1 := dr_bplcon1 (dn_regs d),
          do_line_bplcon2 := dr_bplcon2 (dn_regs d), do_line_bplcon_valid := True\<rparr>\<rparr>
      else d)"

definition denise_store_plane_word :: "nat \<Rightarrow> u16 \<Rightarrow> u16 \<Rightarrow> rigel_denise \<Rightarrow> rigel_denise" where
  "denise_store_plane_word plane widx v d =
     (let out = dn_output d
      in d\<lparr>dn_output := out\<lparr>
           do_plane_words := (do_plane_words out)
             [plane := (do_plane_words out ! plane)[unat widx := v]],
           do_plane_word_count := (if widx + 1 > do_plane_word_count out then widx + 1
                                   else do_plane_word_count out)\<rparr>\<rparr>)"

datatype denise_event =
    Denise_Reset
  | Denise_Set_Rev agnus_chip_rev
  | Denise_Set_Target "framebuffer_target option"
  | Denise_Write u32 u16
  | Denise_Read u32
  | Denise_Sprite_Ctrl nat u16 u16
  | Denise_Sprite_Data nat u16 u16
  | Denise_Ddfstrt u16
  | Denise_Plane_Word nat u16 u16
  | Denise_Beam beam_state u32

text \<open>The scheduler stores a plane word only for one of the six planes and an index inside
  the line buffer.\<close>

fun denise_event_apply :: "denise_event \<Rightarrow> rigel_denise \<Rightarrow> rigel_denise" where
  "denise_event_apply Denise_Reset d = rigel_denise_reset d"
| "denise_event_apply (Denise_Set_Rev r) d = rigel_denise_set_chip_rev d r"
| "denise_event_apply (Denise_Set_Target t) d = rigel_denise_set_framebuffer_target d t"
| "denise_event_apply (Denise_Write addr v) d = rigel_denise_registers_write d addr v"
| "denise_event_apply (Denise_Read addr) d = snd (rigel_denise_registers_read d addr)"
| "denise_event_apply (Denise_Sprite_Ctrl sp pos ctl) d =
     d\<lparr>dn_sprites := denise_sprite_receive_ctrl (dn_sprites d) sp pos ctl\<rparr>"
| "denise_event_apply (Denise_Sprite_Data sp a b) d =
     d\<lparr>dn_sprites := denise_sprite_receive_data (dn_sprites d) sp a b\<rparr>"
| "denise_event_apply (Denise_Ddfstrt v) d =
     d\<lparr>dn_output := (dn_output d)\<lparr>do_ddfstrt_lores := v\<rparr>\<rparr>"
| "denise_event_apply (Denise_Plane_Word plane widx v) d =
     (if plane < 6 \<and> unat widx < RIGEL_DENISE_MAX_PLANE_WORDS
      then denise_store_plane_word plane widx v (denise_latch_line d) else d)"
| "denise_event_apply (Denise_Beam beam cycles) d = fst (rigel_denise_step d beam cycles)"

definition denise_run :: "denise_event list \<Rightarrow> rigel_denise \<Rightarrow> rigel_denise" where
  "denise_run es d = fold denise_event_apply es d"

section \<open>Invariant\<close>

definition frames_ok :: "'a list list list \<Rightarrow> bool" where
  "frames_ok fs \<longleftrightarrow> length fs = 2 \<and>
     (\<forall>f\<in>set fs. length f = 312 \<and> (\<forall>l\<in>set f. length l = 1024))"

definition video_ok :: "denise_video_state \<Rightarrow> bool" where
  "video_ok v \<longleftrightarrow> dv_visible_y_start v < RIGEL_DENISE_MAX_LINES \<and>
     dv_visible_y_stop v \<le> RIGEL_DENISE_MAX_LINES"

definition output_ok :: "denise_output_state \<Rightarrow> bool" where
  "output_ok out \<longleftrightarrow>
     length (do_scanline_rgba out) = 1024 \<and> length (do_scanline_rgb565 out) = 1024 \<and>
     frames_ok (do_frame_rgba out) \<and> frames_ok (do_frame_rgb565 out) \<and>
     do_front_idx out \<in> {0, 1} \<and>
     length (do_plane_words out) = 6 \<and> (\<forall>p\<in>set (do_plane_words out). length p = 64) \<and>
     unat (do_plane_word_count out) \<le> 64 \<and>
     length (do_pending_dirty out) = 5 \<and> length (do_completed_dirty out) = 5"

definition denise_wf :: "rigel_denise \<Rightarrow> bool" where
  "denise_wf d \<longleftrightarrow>
     length (dr_color (dn_regs d)) = 32 \<and>
     palettes_agree (dp_rgb32 (dn_palette d)) (dp_rgb565 (dn_palette d)) \<and>
     length (dspr_sp (dn_sprites d)) = 8 \<and> video_ok (dn_video d) \<and> output_ok (dn_output d)"

lemma frames_ok_update:
  "frames_ok fs \<Longrightarrow> length l = 1024 \<Longrightarrow> i < 2 \<Longrightarrow> frames_ok (fs[i := (fs ! i)[y := l]])"
  unfolding frames_ok_def
  by (auto dest!: set_update_subset_insert [THEN subsetD])

lemma foldl_invariant:
  "(\<And>b k. P b \<Longrightarrow> P (f b k)) \<Longrightarrow> P b \<Longrightarrow> P (foldl f b ks)"
  by (induction ks arbitrary: b) auto

lemma compose_ham_ok: "line_buf_ok b \<Longrightarrow> line_buf_ok (compose_ham cp b)"
  unfolding compose_ham_def Let_def
  by (rule foldl_invariant [where P = "\<lambda>st. line_buf_ok (snd st)"],
      rule foldl_invariant [where P = "\<lambda>st. line_buf_ok (snd st)"])
    (auto simp: put_ham_def line_buf_ok_def)

lemma put_dual_ok: "line_buf_ok b \<Longrightarrow> line_buf_ok (put_dual cp x ci prio m other wins b)"
  by (auto simp: put_dual_def line_buf_ok_def Let_def)

lemma compose_dual_ok: "line_buf_ok b \<Longrightarrow> line_buf_ok (compose_dual cp b)"
  unfolding compose_dual_def Let_def
  by (rule foldl_invariant [where P = line_buf_ok], rule foldl_invariant [where P = line_buf_ok])
    (auto simp: compose_dual_pixel_def Let_def put_dual_ok)

lemma compose_line_buf_ok:
  assumes "length (do_scanline_rgba (dn_output d)) = 1024"
    "length (do_scanline_rgb565 (dn_output d)) = 1024"
  shows "line_buf_ok (compose_line_buf d)"
proof -
  have "cp_sprite_hscale (compose_locals d) \<in> {1, 2}"
    by (simp add: compose_locals_def Let_def)
  moreover have "line_buf_ok (compose_playfield v cp b)" if "line_buf_ok b" for v cp b
    using that
    by (simp add: compose_playfield_def compose_ham_ok compose_dual_ok compose_single_words_pass
        compose_single_pixels_pass single.pass_interval_ok)
  ultimately show ?thesis
    using assms
    by (simp add: compose_line_buf_def Let_def compose_sprites_def compose_sprites_line
        line_buf_init_ok)
qed

section \<open>Every event keeps the invariant\<close>

lemma compose_line_wf: "denise_wf d \<Longrightarrow> denise_wf (compose_line d)"
  using compose_line_buf_ok [of d]
  by (auto simp: compose_line_def Let_def denise_wf_def output_ok_def line_buf_ok_def mark_line_dirty_def)

lemma clear_scanline_wf: "denise_wf d \<Longrightarrow> denise_wf (clear_scanline_to_border d)"
  by (auto simp: clear_scanline_to_border_def Let_def denise_wf_def output_ok_def mark_line_dirty_def
      rigel_simd_fill_def)

lemma front_idx_cases: "f \<in> {0, 1} \<Longrightarrow> unat (1 XOR f) < 2" "f \<in> {0, 1} \<Longrightarrow> f XOR 1 \<in> {0, 1}"
  for f :: u8
  by auto

lemma leave_line_wf: "denise_wf d \<Longrightarrow> denise_wf (fst (framebuffer_leave_line d))"
  by (auto simp: framebuffer_leave_line_def Let_def denise_wf_def output_ok_def
      intro!: frames_ok_update)

lemma swap_ok: "output_ok out \<Longrightarrow> output_ok (framebuffer_swap out)"
  by (auto simp: framebuffer_swap_def Let_def output_ok_def)

lemma beam_position_ok:
  "output_ok out \<Longrightarrow> output_ok (framebuffer_beam_position v fc beam out)"
  by (auto simp: framebuffer_beam_position_def Let_def output_ok_def)

lemma sync_wf:
  assumes "denise_wf d"
  shows "denise_wf (fst (rigel_denise_framebuffer_sync_from_beam d beam))"
proof -
  obtain d' st where d': "(if do_frame_counter (dn_output d) \<noteq> beam_frame_count beam \<or>
      do_beam_vpos (dn_output d) \<noteq> beam_vpos beam then framebuffer_leave_line d else (d, [])) = (d', st)"
    by fastforce
  then have "denise_wf d'"
    using assms leave_line_wf [OF assms] by (metis fst_conv)
  then show ?thesis
    unfolding rigel_denise_framebuffer_sync_from_beam_def Let_def d'
    by (auto simp: denise_wf_def intro!: beam_position_ok swap_ok)
qed

lemma step_wf:
  assumes "denise_wf d"
  shows "denise_wf (fst (rigel_denise_step d beam cycles))"
proof -
  define lc where "lc = (do_beam_vpos (dn_output d) \<noteq> beam_vpos beam \<or>
    do_frame_counter (dn_output d) \<noteq> beam_frame_count beam)"
  define d1 where "d1 = (if lc \<and> do_visible_scanline (dn_output d) then compose_line d
    else if lc then clear_scanline_to_border d else d)"
  obtain d2 st where d2: "rigel_denise_framebuffer_sync_from_beam d1 beam = (d2, st)"
    by fastforce
  have "denise_wf d1"
    using assms by (simp add: d1_def compose_line_wf clear_scanline_wf)
  from sync_wf [OF this, of beam] have "denise_wf d2"
    by (simp add: d2)
  then show ?thesis
    unfolding rigel_denise_step_def rigel_denise_compositor_tick_def Let_def
      lc_def [symmetric] d1_def [symmetric] d2
    using compose_line_wf [of d2] by (auto simp: denise_wf_def output_ok_def)
qed

lemma diw_apply_ok: "video_ok v \<Longrightarrow> video_ok (diw_apply h e v)"
  by (auto simp: diw_apply_def video_ok_def Let_def)

lemma window_update_wf: "denise_wf d \<Longrightarrow> denise_wf (rigel_denise_display_window_update d)"
  by (auto simp: rigel_denise_display_window_update_def Let_def denise_wf_def diw_apply_ok)

lemma update_mode_wf: "denise_wf d \<Longrightarrow> denise_wf (rigel_denise_playfield_update_mode d)"
  by (simp add: rigel_denise_playfield_update_mode_def Let_def denise_wf_def)

lemma palettes_agree_update:
  "palettes_agree pal pal565 \<Longrightarrow>
   palettes_agree (pal[i := rigel_denise_color_expand_12bit v])
     (pal565[i := rigel_denise_color_expand_rgb565 v])"
  unfolding palettes_agree_def length_list_update
proof (intro conjI allI impI; elim conjE)
  fix k :: nat
  assume "\<forall>k<32. pal565 ! k = rgb32_to_rgb565 (pal ! k)" "length pal = 32" "length pal565 = 32" "k < 32"
  then show "pal565[i := rigel_denise_color_expand_rgb565 v] ! k
      = rgb32_to_rgb565 (pal[i := rigel_denise_color_expand_12bit v] ! k)"
    by (cases "k = i") (simp_all add: color_formats_agree)
qed

lemma color_write_wf: "denise_wf d \<Longrightarrow> denise_wf (rigel_denise_color_regs_write d addr v)"
  by (auto simp: rigel_denise_color_regs_write_def Let_def denise_wf_def output_ok_def
      palettes_agree_update)

lemma control_write_wf:
  assumes "denise_wf d"
  shows "denise_wf (denise_control_write d addr v)"
proof -
  have "denise_wf (d\<lparr>dn_regs := r\<rparr>)" if "dr_color r = dr_color (dn_regs d)" for r
    using assms that by (simp add: denise_wf_def)
  moreover have "denise_wf (d\<lparr>dn_coll := c\<rparr>)" for c
    using assms by (simp add: denise_wf_def)
  ultimately show ?thesis
    using assms by (simp add: denise_control_write_def Let_def window_update_wf update_mode_wf)
qed

lemma registers_write_wf:
  assumes "denise_wf d"
  shows "denise_wf (rigel_denise_registers_write d addr v)"
proof -
  have "denise_wf (d\<lparr>dn_output := (dn_output d)\<lparr>do_pending_full_redraw := True\<rparr>\<rparr>)"
    if "denise_wf d" for d
    using that by (simp add: denise_wf_def output_ok_def)
  moreover have "length (dspr_sp (denise_sprite_reg_write s addr v)) = length (dspr_sp s)" for s
    by (simp add: denise_sprite_reg_write_def Let_def)
  then have "denise_wf (d\<lparr>dn_sprites := denise_sprite_reg_write (dn_sprites d) addr v\<rparr>)"
    using assms by (simp add: denise_wf_def)
  ultimately show ?thesis
    using control_write_wf [OF assms] color_write_wf [OF assms]
    by (simp add: rigel_denise_registers_write_def Let_def)
qed

lemma reset_wf: "length (dr_color (dn_regs d)) = 32 \<Longrightarrow> denise_wf (rigel_denise_reset d)"
  by (simp add: rigel_denise_reset_def denise_wf_def output_ok_def frames_ok_def video_ok_def
      rigel_denise_framebuffer_reset_def rigel_denise_palette_reset_def palettes_agree_def
      rigel_denise_display_window_reset_def rigel_denise_sprites_reset_def denise_sprites_reset_def
      rgb32_to_rgb565_def)

lemma plane_word_wf:
  assumes "denise_wf d" "plane < 6" "unat widx < 64"
  shows "denise_wf (denise_store_plane_word plane widx v (denise_latch_line d))"
proof -
  have "denise_wf (denise_latch_line d)"
    using assms(1) by (simp add: denise_latch_line_def denise_wf_def output_ok_def)
  moreover have "unat (widx + 1) \<le> 64"
    using assms(3) by (simp add: unat_inc)
  ultimately show ?thesis
    using assms(2)
    by (auto simp: denise_store_plane_word_def Let_def denise_wf_def output_ok_def
        dest!: set_update_subset_insert [THEN subsetD])
qed

lemma event_wf: "denise_wf d \<Longrightarrow> denise_wf (denise_event_apply e d)"
proof (cases e)
  case (Denise_Read addr)
  moreover assume "denise_wf d"
  ultimately show ?thesis
    by (simp add: rigel_denise_registers_read_def Let_def collision_read_clxdat_def denise_wf_def)
next
  case (Denise_Set_Rev r)
  moreover assume "denise_wf d"
  then have "denise_wf (d\<lparr>dn_chip_rev := r\<rparr>)"
    by (simp add: denise_wf_def)
  ultimately show ?thesis
    by (simp add: rigel_denise_set_chip_rev_def window_update_wf)
next
  case (Denise_Set_Target t)
  moreover assume "denise_wf d"
  ultimately show ?thesis
    by (auto simp: rigel_denise_set_framebuffer_target_def rigel_denise_framebuffer_set_target_def
        Let_def denise_wf_def output_ok_def split: option.split)
next
  case Denise_Reset
  moreover assume "denise_wf d"
  ultimately show ?thesis
    by (simp add: reset_wf denise_wf_def [of d])
qed (auto simp: registers_write_wf plane_word_wf step_wf, auto simp: denise_wf_def output_ok_def
    denise_sprite_receive_ctrl_def denise_sprite_receive_data_def)

lemma run_wf: "denise_wf d \<Longrightarrow> denise_wf (denise_run es d)"
  unfolding denise_run_def by (induction es arbitrary: d) (auto simp: event_wf)

lemma denise_zero_wf: "denise_wf denise_zero"
  by (simp add: denise_zero_def denise_wf_def output_ok_def frames_ok_def video_ok_def
      rigel_denise_framebuffer_reset_def rigel_denise_palette_reset_def palettes_agree_def
      rigel_denise_display_window_reset_def denise_sprites_reset_def rgb32_to_rgb565_def)

section \<open>What the host reads\<close>

text \<open>A rectangle of \<open>w\<close> by \<open>h\<close> pixels that starts at a reference into the frame store.\<close>

definition in_frame_store :: "(nat \<times> nat \<times> nat) \<Rightarrow> nat \<Rightarrow> nat \<Rightarrow> bool" where
  "in_frame_store r w h \<longleftrightarrow>
     (case r of (buf, y, x) \<Rightarrow> buf < 2 \<and> y + h \<le> 312 \<and> x + w \<le> 1024)"

lemma frame_x_bounds_ok:
  assumes "rigel_denise_frame_x_bounds d = (x0, x1)"
  shows "x0 \<le> x1 \<and> x1 \<le> 1024"
proof -
  have x1: "x1 = min (dv_visible_x_stop (dn_video d)) 1024"
    using assms by (auto simp: rigel_denise_frame_x_bounds_def Let_def min_def)
  define st where "st = (if dv_visible_x_start (dn_video d) > x1 then 0 else dv_visible_x_start (dn_video d))"
  have "x0 = (if st > 32 then st - 32 else 0)"
    using assms x1 by (auto simp: rigel_denise_frame_x_bounds_def Let_def st_def min_def)
  moreover have "st \<le> x1"
    by (simp add: st_def not_less)
  ultimately have "x0 \<le> x1"
    by (auto simp: word_le_nat_alt word_less_nat_alt unat_sub)
  then show ?thesis
    by (simp add: x1)
qed

lemma frame_y_bounds_ok: "video_ok v \<Longrightarrow> frame_y_bounds v = (y0, y1) \<Longrightarrow> y1 \<le> 312"
  by (auto simp: frame_y_bounds_def video_ok_def Let_def split: if_splits)

text \<open>
  C31: after any sequence of events from power-on, the pixels that the frame query and the
  scanline query hand to the host lie inside the frame store: one of the two buffers, rows
  below 312 and columns below 1024, whatever the display-window registers hold.
\<close>

theorem frame_export_in_store:
  fixes es :: "denise_event list"
  defines "d \<equiv> denise_run es denise_zero"
  shows "(\<forall>r. rf_pixels (rigel_get_frame fmt d) = Some r \<longrightarrow>
        in_frame_store r (unat (rf_width (rigel_get_frame fmt d)))
          (unat (rf_height (rigel_get_frame fmt d)))) \<and>
      (\<forall>y sl r. rigel_get_scanline d y = Some sl \<and> dsl_pixels sl = Some r \<longrightarrow>
        in_frame_store r (unat (dsl_width sl)) 1)"
proof -
  obtain x0 x1 where x: "rigel_denise_frame_x_bounds d = (x0, x1)"
    by fastforce
  obtain y0 y1 where y: "frame_y_bounds (dn_video d) = (y0, y1)"
    by fastforce
  have wf: "denise_wf d"
    unfolding d_def by (rule run_wf [OF denise_zero_wf])
  then have f: "unat (do_front_idx (dn_output d)) < 2" and v: "video_ok (dn_video d)"
    by (auto simp: denise_wf_def output_ok_def)
  have le: "a \<le> b \<Longrightarrow> unat a + unat (b - a) = unat b" for a b :: u16
    by (simp add: unat_sub word_le_nat_alt)
  have xb: "unat x0 + unat (x1 - x0) \<le> 1024"
    using frame_x_bounds_ok [OF x] le [of x0 x1] by (simp add: word_le_nat_alt)
  have yb: "y0 < y1 \<Longrightarrow> unat y0 + unat (y1 - y0) \<le> 312"
    using frame_y_bounds_ok [OF v y] le [of y0 y1] by (simp add: word_le_nat_alt word_less_nat_alt)
  show ?thesis
    using f xb yb unfolding rigel_get_frame_def rigel_get_scanline_def x y Let_def prod.case
    by (auto simp: in_frame_store_def unat_ucast_up_simps not_le word_less_nat_alt split: if_splits)
qed

theorem frame_export_in_store_witness:
  "in_frame_store (0, 0, 0) 320 256 \<and>
   rf_pixels (rigel_get_frame RIGEL_PIXEL_RGB565 (denise_run [Denise_Reset] denise_zero)) = Some (0, 0, 0)"
proof -
  have r: "rf_pixels (rigel_get_frame RIGEL_PIXEL_RGB565 (denise_run [Denise_Reset] denise_zero)) = Some (0, 0, 0)"
    "rf_width (rigel_get_frame RIGEL_PIXEL_RGB565 (denise_run [Denise_Reset] denise_zero)) = 320"
    "rf_height (rigel_get_frame RIGEL_PIXEL_RGB565 (denise_run [Denise_Reset] denise_zero)) = 256"
    by (simp_all add: denise_run_def rigel_denise_reset_def rigel_get_frame_def Let_def
        rigel_denise_frame_x_bounds_def frame_y_bounds_def rigel_denise_display_window_reset_def
        rigel_denise_framebuffer_reset_def)
  then show ?thesis
    using frame_export_in_store [of RIGEL_PIXEL_RGB565 "[Denise_Reset]"] by simp
qed

section \<open>Publication of a line\<close>

text \<open>The line that a beam step finishes.\<close>

definition finished_line :: "rigel_denise \<Rightarrow> u32 list" where
  "finished_line d =
     do_scanline_rgba (dn_output
       (if do_visible_scanline (dn_output d) then compose_line d else clear_scanline_to_border d))"

lemma compose_line_frame:
  "do_frame_rgba (dn_output (compose_line d)) = do_frame_rgba (dn_output d)"
  "do_front_idx (dn_output (compose_line d)) = do_front_idx (dn_output d)"
  "do_beam_vpos (dn_output (compose_line d)) = do_beam_vpos (dn_output d)"
  "do_frame_counter (dn_output (compose_line d)) = do_frame_counter (dn_output d)"
  by (simp_all add: compose_line_def Let_def)

lemma clear_scanline_frame:
  "do_frame_rgba (dn_output (clear_scanline_to_border d)) = do_frame_rgba (dn_output d)"
  "do_front_idx (dn_output (clear_scanline_to_border d)) = do_front_idx (dn_output d)"
  "do_beam_vpos (dn_output (clear_scanline_to_border d)) = do_beam_vpos (dn_output d)"
  "do_frame_counter (dn_output (clear_scanline_to_border d)) = do_frame_counter (dn_output d)"
  by (simp_all add: clear_scanline_to_border_def Let_def)

lemma step_frame:
  fixes d beam cycles
  defines "out \<equiv> dn_output d" and "out' \<equiv> dn_output (fst (rigel_denise_step d beam cycles))"
  defines "fc \<equiv> do_frame_counter out \<noteq> beam_frame_count beam"
  defines "lc \<equiv> fc \<or> do_beam_vpos out \<noteq> beam_vpos beam"
  shows "do_beam_vpos out' = beam_vpos beam" "do_frame_counter out' = beam_frame_count beam"
    "do_front_idx out' = (if fc then do_front_idx out XOR 1 else do_front_idx out)"
    "do_frame_rgba out' =
      (let back = unat (1 XOR do_front_idx out)
       in if lc \<and> do_beam_vpos out < RIGEL_DENISE_MAX_LINES
          then (do_frame_rgba out)[back := (do_frame_rgba out ! back)
                 [unat (do_beam_vpos out) := finished_line d]]
          else do_frame_rgba out)"
proof -
  define d1 where "d1 = (if lc \<and> do_visible_scanline out then compose_line d
    else if lc then clear_scanline_to_border d else d)"
  have lc: "(do_beam_vpos out \<noteq> beam_vpos beam \<or> do_frame_counter out \<noteq> beam_frame_count beam) = lc"
    by (auto simp: lc_def fc_def)
  have d1: "do_frame_rgba (dn_output d1) = do_frame_rgba out" "do_front_idx (dn_output d1) = do_front_idx out"
    "do_beam_vpos (dn_output d1) = do_beam_vpos out" "do_frame_counter (dn_output d1) = do_frame_counter out"
    "lc \<Longrightarrow> do_scanline_rgba (dn_output d1) = finished_line d"
    by (auto simp: d1_def out_def compose_line_frame clear_scanline_frame finished_line_def)
  obtain d2 st where d2: "(if lc then framebuffer_leave_line d1 else (d1, [])) = (d2, st)"
    by fastforce
  have fr: "do_front_idx (dn_output d2) = do_front_idx out"
    "do_frame_rgba (dn_output d2) =
      (let back = unat (1 XOR do_front_idx out)
       in if lc \<and> do_beam_vpos out < RIGEL_DENISE_MAX_LINES
          then (do_frame_rgba out)[back := (do_frame_rgba out ! back)
                 [unat (do_beam_vpos out) := finished_line d]]
          else do_frame_rgba out)"
    using d2 d1 by (auto simp: framebuffer_leave_line_def Let_def split: if_splits)
  define d3 where "d3 = fst (rigel_denise_framebuffer_sync_from_beam d1 beam)"
  have "dn_output d3 = framebuffer_beam_position (dn_video d2) fc beam
      (if fc then framebuffer_swap (dn_output d2) else dn_output d2)"
    unfolding d3_def rigel_denise_framebuffer_sync_from_beam_def Let_def d1
    by (simp add: fc_def [symmetric] lc_def [symmetric] d2)
  then have d3: "do_beam_vpos (dn_output d3) = beam_vpos beam"
    "do_frame_counter (dn_output d3) = beam_frame_count beam"
    "do_front_idx (dn_output d3) = (if fc then do_front_idx out XOR 1 else do_front_idx out)"
    "do_frame_rgba (dn_output d3) = do_frame_rgba (dn_output d2)"
    by (simp_all add: framebuffer_beam_position_def framebuffer_swap_def Let_def fr)
  define d4 where "d4 = (if lc \<and> \<not> do_visible_scanline out \<and> do_visible_scanline (dn_output d3)
    then compose_line d3 else d3)"
  have "out' = (dn_output d4)\<lparr>do_last_rgb := dp_rgb32 (dn_palette d4) !
      unat (ddbg_last_color_index (dn_debug d4) AND 31)\<rparr>"
  proof -
    obtain st' where sync: "rigel_denise_framebuffer_sync_from_beam d1 beam = (d3, st')"
      by (metis d3_def prod.collapse)
    show ?thesis
      unfolding out'_def rigel_denise_step_def rigel_denise_compositor_tick_def Let_def
      by (simp only: out_def [symmetric] lc d1_def [symmetric] sync prod.case d4_def [symmetric]) simp
  qed
  then show "do_beam_vpos out' = beam_vpos beam" "do_frame_counter out' = beam_frame_count beam"
    "do_front_idx out' = (if fc then do_front_idx out XOR 1 else do_front_idx out)"
    "do_frame_rgba out' =
      (let back = unat (1 XOR do_front_idx out)
       in if lc \<and> do_beam_vpos out < RIGEL_DENISE_MAX_LINES
          then (do_frame_rgba out)[back := (do_frame_rgba out ! back)
                 [unat (do_beam_vpos out) := finished_line d]]
          else do_frame_rgba out)"
    by (simp_all add: d4_def compose_line_frame d3 fr)
qed

text \<open>Between two frames, the events that do not finish line \<open>y\<close>: anything but a reset, and beam
  steps of the same frame that do not return to the line.\<close>

definition event_keeps_line :: "u64 \<Rightarrow> u16 \<Rightarrow> denise_event \<Rightarrow> bool" where
  "event_keeps_line frame y e \<longleftrightarrow>
     (case e of
        Denise_Reset \<Rightarrow> False
      | Denise_Beam beam cycles \<Rightarrow> beam_frame_count beam = frame \<and> beam_vpos beam \<noteq> y
      | _ \<Rightarrow> True)"

definition line_waiting :: "u64 \<Rightarrow> u16 \<Rightarrow> u8 \<Rightarrow> u32 list \<Rightarrow> rigel_denise \<Rightarrow> bool" where
  "line_waiting frame y front l d \<longleftrightarrow>
     do_frame_counter (dn_output d) = frame \<and> do_beam_vpos (dn_output d) \<noteq> y \<and>
     do_front_idx (dn_output d) = front \<and>
     do_frame_rgba (dn_output d) ! unat (1 XOR front) ! unat y = l"

lemma window_update_output [simp]: "dn_output (rigel_denise_display_window_update d) = dn_output d"
  by (simp add: rigel_denise_display_window_update_def Let_def)

lemma update_mode_output [simp]: "dn_output (rigel_denise_playfield_update_mode d) = dn_output d"
  by (simp add: rigel_denise_playfield_update_mode_def Let_def)

lemma control_write_output [simp]: "dn_output (denise_control_write d addr v) = dn_output d"
  by (simp add: denise_control_write_def Let_def)

lemma color_write_output:
  "dn_output (rigel_denise_color_regs_write d addr v)
    \<in> {dn_output d, (dn_output d)\<lparr>do_pending_full_redraw := True\<rparr>}"
  unfolding rigel_denise_color_regs_write_def Let_def by simp

lemma registers_write_output:
  "dn_output (rigel_denise_registers_write d addr v)
    \<in> {dn_output d, (dn_output d)\<lparr>do_pending_full_redraw := True\<rparr>}"
proof -
  have split: "dn_output (if c then a else b) \<in> S" if "dn_output a \<in> S" "dn_output b \<in> S"
    for c and a b :: rigel_denise and S
    using that by simp
  show ?thesis
    unfolding rigel_denise_registers_write_def Let_def
    by (intro split color_write_output) simp_all
qed

lemma registers_write_frame:
  fixes d addr v
  defines "out \<equiv> dn_output d" and "out' \<equiv> dn_output (rigel_denise_registers_write d addr v)"
  shows "do_frame_counter out' = do_frame_counter out" "do_beam_vpos out' = do_beam_vpos out"
    "do_front_idx out' = do_front_idx out" "do_frame_rgba out' = do_frame_rgba out"
  using registers_write_output [of d addr v] by (auto simp: out_def out'_def)

lemma line_waiting_write:
  "line_waiting frame y front l (rigel_denise_registers_write d addr v) = line_waiting frame y front l d"
  by (simp add: line_waiting_def registers_write_frame)

lemma line_waiting_beam:
  assumes "denise_wf d" "line_waiting frame y front l d" "beam_frame_count beam = frame" "beam_vpos beam \<noteq> y"
  shows "line_waiting frame y front l (fst (rigel_denise_step d beam cycles))"
proof -
  have "length (do_frame_rgba (dn_output d)) = 2" "front \<in> {0, 1}"
    using assms(1,2) by (auto simp: denise_wf_def output_ok_def frames_ok_def line_waiting_def)
  moreover have "unat (do_beam_vpos (dn_output d)) \<noteq> unat y"
    using assms(2) by (simp add: line_waiting_def word_unat_eq_iff)
  ultimately show ?thesis
    using assms(2-4) by (auto simp: line_waiting_def step_frame Let_def)
qed

lemma line_waiting_event:
  assumes "denise_wf d" "line_waiting frame y front l d" "event_keeps_line frame y e"
  shows "line_waiting frame y front l (denise_event_apply e d)"
proof (cases e)
  case (Denise_Beam beam cycles)
  then show ?thesis
    using assms line_waiting_beam by (simp add: event_keeps_line_def)
next
  case (Denise_Set_Target t)
  then show ?thesis
    using assms(2)
    by (auto simp: rigel_denise_set_framebuffer_target_def rigel_denise_framebuffer_set_target_def
        Let_def line_waiting_def split: option.split)
next
  case (Denise_Read addr)
  then show ?thesis
    using assms(2) by (simp add: rigel_denise_registers_read_def Let_def collision_read_clxdat_def
        line_waiting_def)
next
  case (Denise_Write addr v)
  then show ?thesis
    using assms(2) by (simp add: line_waiting_write)
qed (use assms(2,3) in \<open>auto simp: event_keeps_line_def line_waiting_def
    rigel_denise_set_chip_rev_def denise_store_plane_word_def denise_latch_line_def Let_def\<close>)

lemma line_waiting_run:
  "denise_wf d \<Longrightarrow> line_waiting frame y front l d \<Longrightarrow> \<forall>e\<in>set es. event_keeps_line frame y e \<Longrightarrow>
   denise_wf (denise_run es d) \<and> line_waiting frame y front l (denise_run es d)"
  unfolding denise_run_def
  by (induction es arbitrary: d) (auto simp: event_wf line_waiting_event)

text \<open>
  C32: publication of a composed line.  When the beam leaves line \<open>y\<close>, the line is composed
  from the state of that moment; whatever register writes, sprite and bitplane deliveries
  and beam steps follow in the rest of the frame, after the next frame boundary the front
  buffer, which the host reads, holds exactly that line at row \<open>y\<close>.
\<close>

theorem published_line:
  fixes d :: rigel_denise and leave final :: beam_state and c c' :: u32
  defines "y \<equiv> do_beam_vpos (dn_output d)" and "frame \<equiv> do_frame_counter (dn_output d)"
  assumes "denise_wf d" "y < 312"
    and "beam_frame_count leave = frame" "beam_vpos leave \<noteq> y"
    and "\<forall>e\<in>set es. event_keeps_line frame y e"
    and "beam_frame_count final \<noteq> frame"
  defines "d' \<equiv> denise_run (Denise_Beam leave c # es @ [Denise_Beam final c']) d"
  shows "do_frame_rgba (dn_output d') ! unat (do_front_idx (dn_output d')) ! unat y = finished_line d"
proof -
  define front where "front = do_front_idx (dn_output d)"
  define d1 where "d1 = fst (rigel_denise_step d leave c)"
  define d2 where "d2 = denise_run es d1"
  have front: "front \<in> {0, 1}" and fr: "length (do_frame_rgba (dn_output d)) = 2"
    "length (do_frame_rgba (dn_output d) ! unat (1 XOR front)) = 312"
    using assms(3) by (auto simp: front_def denise_wf_def output_ok_def frames_ok_def)
  have y: "unat y < 312"
    using assms(4) by (simp add: word_less_nat_alt)
  have "line_waiting frame y front (finished_line d) d1"
    using assms(4-6) front fr y
    by (auto simp: line_waiting_def d1_def step_frame Let_def y_def frame_def front_def)
  then have d2: "denise_wf d2" "line_waiting frame y front (finished_line d) d2"
    using line_waiting_run [OF _ _ assms(7), of d1] step_wf [OF assms(3)] by (auto simp: d1_def d2_def)
  have "d' = fst (rigel_denise_step d2 final c')"
    by (simp add: d'_def d2_def d1_def denise_run_def)
  moreover have "length (do_frame_rgba (dn_output d2)) = 2" "unat (do_beam_vpos (dn_output d2)) \<noteq> unat y"
    using d2 by (simp_all add: denise_wf_def output_ok_def frames_ok_def line_waiting_def word_unat_eq_iff)
  ultimately show ?thesis
    using d2(2) assms(8) front
    by (auto simp: line_waiting_def step_frame Let_def)
qed

theorem published_line_witness:
  "do_frame_rgba (dn_output (denise_run
      (Denise_Beam (\<lparr>beam_hpos = 0, beam_vpos = 1, beam_line_clocks = 227, beam_frame_lines = 312,
          beam_visible_y_start = 26, beam_visible_y_stop = 255, beam_lof = 0, beam_lof_toggle = 0,
          beam_lol = 0, beam_lol_toggle = 0, beam_frame_count = 0\<rparr>) 227
       # [Denise_Write 0x182 0x0123] @
       [Denise_Beam (\<lparr>beam_hpos = 0, beam_vpos = 0, beam_line_clocks = 227, beam_frame_lines = 312,
          beam_visible_y_start = 26, beam_visible_y_stop = 255, beam_lof = 0, beam_lof_toggle = 0,
          beam_lol = 0, beam_lol_toggle = 0, beam_frame_count = 1\<rparr>) 227]) denise_sample)) ! 1 ! 0
   = finished_line denise_sample"
proof -
  have s: "do_beam_vpos (dn_output denise_sample) = 0" "do_frame_counter (dn_output denise_sample) = 0"
    "do_front_idx (dn_output denise_sample) = 0"
    by (simp_all add: denise_sample_simps)
  have wf: "denise_wf denise_sample"
    using denise_zero_wf denise_sample_ok
    by (auto simp: denise_wf_def denise_line_ok_def output_ok_def denise_sample_def
        dest!: set_update_subset_insert [THEN subsetD])
  let ?b1 = "\<lparr>beam_hpos = 0, beam_vpos = 1, beam_line_clocks = 227, beam_frame_lines = 312,
      beam_visible_y_start = 26, beam_visible_y_stop = 255, beam_lof = 0, beam_lof_toggle = 0,
      beam_lol = 0, beam_lol_toggle = 0, beam_frame_count = 0\<rparr>"
  let ?b2 = "?b1\<lparr>beam_vpos := 0, beam_frame_count := 1\<rparr>"
  let ?d = "denise_run (Denise_Beam ?b1 227 # [Denise_Write 0x182 0x0123] @ [Denise_Beam ?b2 227]) denise_sample"
  have "do_frame_rgba (dn_output ?d) ! unat (do_front_idx (dn_output ?d)) ! 0 = finished_line denise_sample"
    using published_line [of denise_sample ?b1 "[Denise_Write 0x182 0x0123]" ?b2 227 227] wf
    by (simp add: s event_keeps_line_def)
  moreover have "do_front_idx (dn_output ?d) = 1"
    by (simp add: denise_run_def step_frame registers_write_frame s)
  ultimately show ?thesis
    by simp
qed

end
