(* ===== verification/Context.thy ===== *)
theory Context
  imports Cia Blitter_Dma Copper Slot_Scheduler Paula_Serial Paula_Disk Paula_Audio Rtc Denise
begin

text \<open>
  The emulator context: the chips of the other theories put together as
  \<^verbatim>\<open>src/chipset/chipset.h\<close>, \<^verbatim>\<open>agnus/agnus_state.h\<close>, \<^verbatim>\<open>paula/paula_state.h\<close> and
  \<^verbatim>\<open>core/rigel_context.h\<close> put them together, with the reset and wiring of
  \<^verbatim>\<open>agnus.c\<close>, \<^verbatim>\<open>paula_state.c\<close>, \<^verbatim>\<open>chipset.c\<close> and \<^verbatim>\<open>rigel.c\<close>.

  Besides the C structure the context record carries what its callbacks act on: the host
  memory behind the chip RAM callbacks, the state behind the clock callbacks, and the pixel
  stores made to the host's framebuffer target.  A drive that the disk controller is
  attached to is the index of the drive.  Of the allocator hooks only their
  presence is kept; the log and trace hooks are left out.  The environment holds what the code takes from outside the
  configuration: the process-wide switches of the disk sync interrupt and of the disk slot
  priority, and the C library's clock, which may be absent.
\<close>

unbundle bit_operations_syntax

section \<open>The records\<close>

datatype rigel_video_std = RIGEL_VIDEO_NTSC | RIGEL_VIDEO_PAL

record ('m, 'h) rigel_config =
  cfg_alloc_fn :: bool
  cfg_free_fn :: bool
  cfg_clock_hz :: u32
  cfg_chip_ram_size :: u32
  cfg_chip_ram :: "'m rigel_chip_ram_if"
  cfg_tx_instant :: bool
  cfg_rtc_model :: rigel_rtc_model
  cfg_rtc_time :: int
  cfg_rtc_host :: "'h rigel_rtc_host"
  cfg_video_std :: rigel_video_std
  cfg_chipset_model :: rigel_chipset_model
  cfg_pixel_format :: rigel_pixel_format
  cfg_framebuffer :: framebuffer_target
  cfg_cycle_exact :: bool

record rigel_agnus =
  ag_chip_rev :: agnus_chip_rev
  ag_beamcon0 :: u16
  ag_beam :: beam_state
  ag_dma :: dma_state
  ag_copper :: copper_state
  ag_bitplanes :: nat
  ag_bplpt :: bitplane_pointers
  ag_fetch :: bitplane_fetch_state
  ag_blitter :: BlitterState
  ag_sprite_dma :: sprite_dma_state
  ag_scheduler :: agnus_slot_scheduler
  ag_raster :: raster_config
  ag_refresh :: refresh_dma_state

record 'm rigel_paula =
  pa_interrupts :: RigelInterruptDomain
  pa_audio :: audio_state
  pa_disk :: "'m disk_state"
  pa_input :: input_state
  pa_serial :: serial_state

record ('m, 'h) rigel_chipset =
  ch_cycles :: u64
  ch_agnus :: rigel_agnus
  ch_denise :: rigel_denise
  ch_paula :: "'m rigel_paula"
  ch_cia :: "CIA_State list"
  ch_cia_eclock_rem :: u32
  ch_rtc :: "'h RigelRTC"
  ch_floppy :: "FloppyDrive list"
  ch_custom_regs :: custom_regs

record ('m, 'h) rigel_context =
  rc_config :: "('m, 'h) rigel_config"
  rc_chipset :: "('m, 'h) rigel_chipset"
  rc_ram :: 'm
  rc_host :: 'h
  rc_stores :: "host_store list"

record 'h rigel_env =
  env_dsksyn :: bool
  env_disk_legacy_priority :: bool
  env_libc :: "'h rtc_libc option"

section \<open>Access to the parts\<close>

definition ctx_agnus :: "('m, 'h) rigel_context \<Rightarrow> rigel_agnus" where
  "ctx_agnus ctx = ch_agnus (rc_chipset ctx)"

definition ctx_denise :: "('m, 'h) rigel_context \<Rightarrow> rigel_denise" where
  "ctx_denise ctx = ch_denise (rc_chipset ctx)"

definition ctx_paula :: "('m, 'h) rigel_context \<Rightarrow> 'm rigel_paula" where
  "ctx_paula ctx = ch_paula (rc_chipset ctx)"

definition on_chipset ::
    "(('m, 'h) rigel_chipset \<Rightarrow> ('m, 'h) rigel_chipset) \<Rightarrow> ('m, 'h) rigel_context \<Rightarrow> ('m, 'h) rigel_context" where
  "on_chipset f ctx = ctx\<lparr>rc_chipset := f (rc_chipset ctx)\<rparr>"

definition on_agnus :: "(rigel_agnus \<Rightarrow> rigel_agnus) \<Rightarrow> ('m, 'h) rigel_context \<Rightarrow> ('m, 'h) rigel_context" where
  "on_agnus f = on_chipset (\<lambda>ch. ch\<lparr>ch_agnus := f (ch_agnus ch)\<rparr>)"

definition on_denise :: "(rigel_denise \<Rightarrow> rigel_denise) \<Rightarrow> ('m, 'h) rigel_context \<Rightarrow> ('m, 'h) rigel_context" where
  "on_denise f = on_chipset (\<lambda>ch. ch\<lparr>ch_denise := f (ch_denise ch)\<rparr>)"

definition on_paula :: "('m rigel_paula \<Rightarrow> 'm rigel_paula) \<Rightarrow> ('m, 'h) rigel_context \<Rightarrow> ('m, 'h) rigel_context" where
  "on_paula f = on_chipset (\<lambda>ch. ch\<lparr>ch_paula := f (ch_paula ch)\<rparr>)"

definition on_custom_regs :: "(custom_regs \<Rightarrow> custom_regs) \<Rightarrow> ('m, 'h) rigel_context \<Rightarrow> ('m, 'h) rigel_context" where
  "on_custom_regs f = on_chipset (\<lambda>ch. ch\<lparr>ch_custom_regs := f (ch_custom_regs ch)\<rparr>)"

text \<open>An operation on one CIA, which may change the interrupt controller of Paula.\<close>

definition on_cia :: "nat \<Rightarrow> (cia_sys \<Rightarrow> cia_sys) \<Rightarrow> ('m, 'h) rigel_chipset \<Rightarrow> ('m, 'h) rigel_chipset" where
  "on_cia i f ch =
     (case f (ch_cia ch ! i, pa_interrupts (ch_paula ch)) of (cia, irq) \<Rightarrow>
        ch\<lparr>ch_cia := (ch_cia ch)[i := cia],
           ch_paula := (ch_paula ch)\<lparr>pa_interrupts := irq\<rparr>\<rparr>)"

section \<open>Shadow registers, chip RAM and interrupts\<close>

definition ctx_read_reg :: "('m, 'h) rigel_context \<Rightarrow> u32 \<Rightarrow> u16" where
  "ctx_read_reg ctx addr = rigel_context_read_reg (ch_custom_regs (rc_chipset ctx)) addr"

definition ctx_write_reg :: "u32 \<Rightarrow> u16 \<Rightarrow> ('m, 'h) rigel_context \<Rightarrow> ('m, 'h) rigel_context" where
  "ctx_write_reg addr v = on_custom_regs (\<lambda>regs. rigel_context_write_reg regs addr v)"

definition config_chip_ram :: "('m, 'h) rigel_config \<Rightarrow> 'm rigel_chip_ram_if" where
  "config_chip_ram cfg =
     rigel_context_chip_ram (cfg_chipset_model cfg) (cfg_chip_ram_size cfg) (cfg_chip_ram cfg)"

definition ctx_chip_ram :: "('m, 'h) rigel_context \<Rightarrow> 'm rigel_chip_ram_if" where
  "ctx_chip_ram ctx = config_chip_ram (rc_config ctx)"

definition rigel_paula_raise_irq :: "'m rigel_paula \<Rightarrow> u16 \<Rightarrow> 'm rigel_paula" where
  "rigel_paula_raise_irq paula m =
     paula\<lparr>pa_interrupts := rigel_paula_interrupts_raise (pa_interrupts paula) m\<rparr>"

definition rigel_paula_clear_irq :: "'m rigel_paula \<Rightarrow> u16 \<Rightarrow> 'm rigel_paula" where
  "rigel_paula_clear_irq paula m =
     paula\<lparr>pa_interrupts := rigel_paula_interrupts_clear (pa_interrupts paula) m\<rparr>"

definition rigel_chipset_raise_irq_source :: "('m, 'h) rigel_chipset \<Rightarrow> u16 \<Rightarrow> ('m, 'h) rigel_chipset" where
  "rigel_chipset_raise_irq_source ch m =
     (let paula = rigel_paula_raise_irq (ch_paula ch) m
      in ch\<lparr>ch_paula := paula,
            ch_custom_regs := rigel_chipset_write_reg (ch_custom_regs ch) RIGEL_REG_INTREQ
              (rigel_interrupt_domain_read_intreq (pa_interrupts paula))\<rparr>)"

definition rigel_chipset_clear_irq_source :: "('m, 'h) rigel_chipset \<Rightarrow> u16 \<Rightarrow> ('m, 'h) rigel_chipset" where
  "rigel_chipset_clear_irq_source ch m =
     (let paula = rigel_paula_clear_irq (ch_paula ch) m
      in ch\<lparr>ch_paula := paula,
            ch_custom_regs := rigel_chipset_write_reg (ch_custom_regs ch) RIGEL_REG_INTREQ
              (rigel_interrupt_domain_read_intreq (pa_interrupts paula))\<rparr>)"

text \<open>The masks a component has raised through its sink, delivered in order.\<close>

definition ctx_raise :: "u16 list \<Rightarrow> ('m, 'h) rigel_context \<Rightarrow> ('m, 'h) rigel_context" where
  "ctx_raise ms = on_chipset (\<lambda>ch. foldl rigel_chipset_raise_irq_source ch ms)"

section \<open>Paula\<close>

definition rigel_paula_reset :: "'m rigel_paula \<Rightarrow> 'm rigel_paula" where
  "rigel_paula_reset paula = paula\<lparr>
     pa_interrupts := rigel_interrupt_domain_reset (pa_interrupts paula),
     pa_audio := rigel_audio_domain_reset (pa_audio paula),
     pa_disk := rigel_disk_domain_reset (pa_disk paula),
     pa_input := rigel_input_domain_reset,
     pa_serial := rigel_serial_domain_reset (pa_serial paula)\<rparr>"

text \<open>Advancing Paula: the audio loop may not return, and the masks raised by the disk and
  the serial port are given back in order.\<close>

definition rigel_paula_step :: "'m rigel_paula \<Rightarrow> u32 \<Rightarrow> ('m rigel_paula \<times> u16 list) option" where
  "rigel_paula_step paula ticks =
     (case rigel_audio_domain_step (pa_audio paula) ticks of
        None \<Rightarrow> None
      | Some audio \<Rightarrow>
          (let (disk, ms1) = rigel_disk_domain_step (pa_disk paula) ticks;
               (serial, ms2) = rigel_serial_domain_step (pa_serial paula) ticks
           in Some (paula\<lparr>pa_audio := audio, pa_disk := disk, pa_serial := serial\<rparr>, ms1 @ ms2)))"

definition rigel_paula_set_dmacon :: "'m rigel_paula \<Rightarrow> u16 \<Rightarrow> 'm rigel_paula" where
  "rigel_paula_set_dmacon paula dmacon =
     paula\<lparr>pa_audio := rigel_audio_domain_set_dmacon (pa_audio paula) dmacon\<rparr>"

definition rigel_paula_set_disk_irq_sink :: "'m rigel_paula \<Rightarrow> bool \<Rightarrow> 'm rigel_paula" where
  "rigel_paula_set_disk_irq_sink paula sink = paula\<lparr>pa_disk := disk_set_irq_sink (pa_disk paula) sink\<rparr>"

definition rigel_paula_set_disk_memory_if :: "'m rigel_paula \<Rightarrow> 'm rigel_chip_ram_if \<Rightarrow> 'm rigel_paula" where
  "rigel_paula_set_disk_memory_if paula mem = paula\<lparr>pa_disk := disk_set_memory_if (pa_disk paula) mem\<rparr>"

definition rigel_paula_set_disk_drive :: "'m rigel_paula \<Rightarrow> nat option \<Rightarrow> 'm rigel_paula" where
  "rigel_paula_set_disk_drive paula drive = paula\<lparr>pa_disk := disk_set_drive (pa_disk paula) drive\<rparr>"

definition rigel_paula_set_serial_irq_sink :: "'m rigel_paula \<Rightarrow> bool \<Rightarrow> 'm rigel_paula" where
  "rigel_paula_set_serial_irq_sink paula sink =
     paula\<lparr>pa_serial := serial_set_irq_sink (pa_serial paula) sink\<rparr>"

definition rigel_paula_set_joydat :: "'m rigel_paula \<Rightarrow> u32 \<Rightarrow> u16 \<Rightarrow> 'm rigel_paula" where
  "rigel_paula_set_joydat paula port v = paula\<lparr>pa_input := input_set_joydat (pa_input paula) port v\<rparr>"

definition rigel_paula_set_pot_button_x :: "'m rigel_paula \<Rightarrow> u32 \<Rightarrow> bool \<Rightarrow> 'm rigel_paula" where
  "rigel_paula_set_pot_button_x paula port pressed =
     paula\<lparr>pa_input := input_set_pot_button_x (pa_input paula) port pressed\<rparr>"

definition rigel_paula_set_pot_button_y :: "'m rigel_paula \<Rightarrow> u32 \<Rightarrow> bool \<Rightarrow> 'm rigel_paula" where
  "rigel_paula_set_pot_button_y paula port pressed =
     paula\<lparr>pa_input := input_set_pot_button_y (pa_input paula) port pressed\<rparr>"

section \<open>Agnus\<close>

definition bitplanes_set_depth :: "nat \<Rightarrow> nat \<Rightarrow> nat" where
  "bitplanes_set_depth state depth = depth"

definition rigel_agnus_reset :: "rigel_agnus \<Rightarrow> rigel_agnus" where
  "rigel_agnus_reset agnus =
     (let raster = raster_reset AGNUS_VIDEO_NTSC
      in agnus\<lparr>
        ag_beamcon0 := 0,
        ag_beam := (rigel_beam_domain_reset (ag_beam agnus))\<lparr>
          beam_line_clocks := raster_line_clocks raster,
          beam_frame_lines := raster_frame_lines raster\<rparr>,
        ag_dma := rigel_dma_domain_reset (ag_dma agnus),
        ag_copper := rigel_copper_domain_reset (ag_copper agnus),
        ag_blitter := rigel_blitter_domain_reset (ag_blitter agnus),
        ag_bitplanes := bitplanes_set_depth (ag_bitplanes agnus) 0,
        ag_bplpt := bplpt_reset,
        ag_fetch := bitplane_fetch_reset,
        ag_sprite_dma := sprite_dma_reset,
        ag_scheduler := agnus_slot_scheduler_init (ag_scheduler agnus),
        ag_raster := raster,
        ag_refresh := refresh_dma_reset\<rparr>)"

definition rigel_agnus_set_chip_rev :: "rigel_agnus \<Rightarrow> agnus_chip_rev \<Rightarrow> rigel_agnus" where
  "rigel_agnus_set_chip_rev agnus r = agnus\<lparr>ag_chip_rev := r\<rparr>"

definition rigel_agnus_set_video_std :: "rigel_agnus \<Rightarrow> agnus_video_std \<Rightarrow> rigel_agnus" where
  "rigel_agnus_set_video_std agnus std =
     (let raster = raster_reset std
      in agnus\<lparr>ag_raster := raster,
           ag_beam := (ag_beam agnus)\<lparr>
             beam_line_clocks := raster_line_clocks raster,
             beam_frame_lines := raster_frame_lines raster,
             beam_visible_y_stop := raster_frame_lines raster - 1\<rparr>\<rparr>)"

definition rigel_agnus_blitter_step_dma ::
    "('m, 'h) rigel_context \<Rightarrow> u32 \<Rightarrow> ('m, 'h) rigel_context" where
  "rigel_agnus_blitter_step_dma ctx dma_slots =
     (if dma_slots = 0 then ctx
      else
        case rigel_blitter_domain_step_dma (ctx_chip_ram ctx) True (ag_blitter (ctx_agnus ctx))
               (rc_ram ctx) dma_slots of (b, m, ms) \<Rightarrow>
          ctx_raise ms ((on_agnus (\<lambda>a. a\<lparr>ag_blitter := b\<rparr>) ctx)\<lparr>rc_ram := m\<rparr>))"

section \<open>Reset\<close>

text \<open>One drive: only DF0 exists by default, and a drive with media stays connected.\<close>

definition chipset_reset_drive :: "nat \<Rightarrow> FloppyDrive \<Rightarrow> FloppyDrive" where
  "chipset_reset_drive i d =
     (let keep = fd_connected d \<and> fd_disk_inserted d
      in floppy_set_connected (floppy_reset d) (keep \<or> i = 0))"

definition rigel_chipset_reset ::
    "'h rigel_env \<Rightarrow> ('m, 'h) rigel_chipset \<times> 'h \<Rightarrow> ('m, 'h) rigel_chipset \<times> 'h" where
  "rigel_chipset_reset env s =
     (let (ch, h) = s;
          (rtc, h) = rtc_reset (env_libc env) (ch_rtc ch, h);
          paula = rigel_paula_set_disk_drive (rigel_paula_reset (ch_paula ch)) (Some 0);
          (a0, irq) = cia_init (pa_interrupts paula) CIA_PORT_A;
          (b0, irq) = cia_init irq CIA_PORT_B;
          (a1, irq) = cia_attach_paula (a0, irq) True;
          (b1, irq) = cia_attach_paula (b0, irq) True
      in (ch\<lparr>ch_cycles := 0, ch_cia_eclock_rem := 0,
            ch_floppy := map (\<lambda>i. chipset_reset_drive i (ch_floppy ch ! i)) [0..<4],
            ch_rtc := rtc,
            ch_agnus := rigel_agnus_reset (ch_agnus ch),
            ch_denise := rigel_denise_reset (ch_denise ch),
            ch_paula := paula\<lparr>pa_interrupts := irq\<rparr>,
            ch_cia := [cia_set_external_pra (a1\<lparr>ddra := 0x03\<rparr>) 0xFF, b1],
            ch_custom_regs := replicate RIGEL_CUSTOM_REG_COUNT 0\<rparr>, h))"

definition rigel_chipset_wire :: "('m, 'h) rigel_context \<Rightarrow> ('m, 'h) rigel_context" where
  "rigel_chipset_wire ctx =
     on_paula (\<lambda>p.
       let p = rigel_paula_set_disk_memory_if p (ctx_chip_ram ctx);
           p = rigel_paula_set_disk_irq_sink p True;
           p = rigel_paula_set_serial_irq_sink p True
       in if cfg_tx_instant (rc_config ctx)
          then p\<lparr>pa_serial := serial_set_tx_instant (pa_serial p) True\<rparr> else p) ctx"

definition rigel_reset :: "'h rigel_env \<Rightarrow> ('m, 'h) rigel_context \<Rightarrow> ('m, 'h) rigel_context" where
  "rigel_reset env ctx =
     (let cfg = rc_config ctx;
          (ch, h) = rigel_chipset_reset env (rc_chipset ctx, rc_host ctx);
          ctx = ctx\<lparr>rc_chipset := ch, rc_host := h\<rparr>;
          r = (if cfg_chipset_model cfg = RIGEL_CHIPSET_ECS then AGNUS_REV_ECS else AGNUS_REV_OCS);
          ctx = on_agnus (\<lambda>a. rigel_agnus_set_chip_rev a r) ctx;
          ctx = on_denise (\<lambda>d. rigel_denise_set_chip_rev d r) ctx;
          ctx = on_agnus (\<lambda>a. rigel_agnus_set_video_std a
                  (if cfg_video_std cfg = RIGEL_VIDEO_PAL then AGNUS_VIDEO_PAL else AGNUS_VIDEO_NTSC)) ctx;
          ctx = on_denise (\<lambda>d. rigel_denise_set_framebuffer_target d (Some (cfg_framebuffer cfg))) ctx;
          ctx = rigel_chipset_wire ctx
      in on_agnus (\<lambda>a. a\<lparr>ag_blitter := (ag_blitter a)\<lparr>blt_cycle_exact := cfg_cycle_exact cfg\<rparr>\<rparr>) ctx)"

text \<open>Creation fails when only one of the two allocator hooks is given, or when the
  allocation fails (\<open>zeroed\<close> is \<^term>\<open>None\<close>); otherwise the zeroed memory becomes a context.\<close>

definition rigel_create ::
    "'h rigel_env \<Rightarrow> ('m, 'h) rigel_config \<Rightarrow> ('m, 'h) rigel_context option \<Rightarrow> ('m, 'h) rigel_context option" where
  "rigel_create env cfg zeroed =
     (if cfg_alloc_fn cfg \<noteq> cfg_free_fn cfg then None
      else case zeroed of
        None \<Rightarrow> None
      | Some ctx \<Rightarrow>
          (let ctx = ctx\<lparr>rc_config := cfg\<rparr>;
               ctx = on_chipset (\<lambda>ch. ch\<lparr>ch_rtc := rtc_set_host (ch_rtc ch) (Some (cfg_rtc_host cfg))\<rparr>) ctx;
               ctx = rigel_chipset_wire (rigel_reset env ctx)
           in if cfg_rtc_model cfg \<noteq> RIGEL_RTC_MODEL_NONE then
                let (rtc, h) = rtc_set_model (env_libc env) (cfg_rtc_model cfg)
                      (ch_rtc (rc_chipset ctx), rc_host ctx);
                    (rtc, h) = (if cfg_rtc_time cfg \<noteq> 0
                                then rtc_set_time (env_libc env) (cfg_rtc_time cfg) (rtc, h)
                                else (rtc, h))
                in Some ((on_chipset (\<lambda>ch. ch\<lparr>ch_rtc := rtc\<rparr>) ctx)\<lparr>rc_host := h\<rparr>)
              else Some ctx))"

end
