(* ===== verification/Mmio.thy ===== *)
theory Mmio
  imports Context
begin

text \<open>
  The register side of the machine: the registers of Agnus (\<^verbatim>\<open>agnus/mmio\<close>), Paula
  (\<^verbatim>\<open>paula/paula.c\<close>) and Denise (\<^verbatim>\<open>denise/denise.c\<close>) as operations on the context,
  the dispatch between them (\<^verbatim>\<open>mmio/custom_regs.c\<close>), the CIA ports with the floppy control
  lines behind them (\<^verbatim>\<open>core/rigel_cia_api.c\<close>), the clock registers, and the decoding of CPU
  accesses (\<^verbatim>\<open>mmio/rigel_mmio.c\<close>).  A read returns the value and the context, since reads of
  some registers have effects.
\<close>

unbundle bit_operations_syntax

section \<open>Register numbers\<close>

abbreviation AGNUS_DMACONR :: u32 where "AGNUS_DMACONR \<equiv> 0x002"
abbreviation AGNUS_VPOSR :: u32 where "AGNUS_VPOSR \<equiv> 0x004"
abbreviation AGNUS_VHPOSR :: u32 where "AGNUS_VHPOSR \<equiv> 0x006"
abbreviation AGNUS_BLTSIZE :: u32 where "AGNUS_BLTSIZE \<equiv> 0x058"
abbreviation AGNUS_BPLMOD1 :: u32 where "AGNUS_BPLMOD1 \<equiv> 0x108"
abbreviation AGNUS_BPLMOD2 :: u32 where "AGNUS_BPLMOD2 \<equiv> 0x10a"
abbreviation AGNUS_SPR0PTH :: u32 where "AGNUS_SPR0PTH \<equiv> 0x120"
abbreviation AGNUS_SPR7PTL :: u32 where "AGNUS_SPR7PTL \<equiv> 0x13e"
abbreviation RIGEL_REG_DDFSTRT :: u32 where "RIGEL_REG_DDFSTRT \<equiv> 0x092"
abbreviation RIGEL_REG_DDFSTOP :: u32 where "RIGEL_REG_DDFSTOP \<equiv> 0x094"
abbreviation RIGEL_REG_BPL1PTH :: u32 where "RIGEL_REG_BPL1PTH \<equiv> 0x0e0"
abbreviation RIGEL_REG_BPL6PTL :: u32 where "RIGEL_REG_BPL6PTL \<equiv> 0x0f6"
abbreviation RIGEL_REG_BEAMCON0 :: u32 where "RIGEL_REG_BEAMCON0 \<equiv> 0x1dc"

abbreviation BLITTER_INTREQ_BLIT :: u16 where "BLITTER_INTREQ_BLIT \<equiv> 0x8040"
abbreviation AGNUS_DMACON_BBUSY :: u16 where "AGNUS_DMACON_BBUSY \<equiv> 0x4000"
abbreviation AGNUS_DMACON_BZERO :: u16 where "AGNUS_DMACON_BZERO \<equiv> 0x2000"

section \<open>Agnus registers\<close>

definition rigel_agnus_mmio_has_reg :: "u32 \<Rightarrow> bool" where
  "rigel_agnus_mmio_has_reg addr \<longleftrightarrow>
     addr \<in> {RIGEL_REG_DMACON, AGNUS_DMACONR, RIGEL_REG_DDFSTRT, RIGEL_REG_DDFSTOP,
             AGNUS_VPOSR, AGNUS_VHPOSR} \<or>
     (addr \<ge> RIGEL_REG_BPL1PTH \<and> addr \<le> RIGEL_REG_BPL6PTL \<and> addr AND 1 = 0) \<or>
     (addr \<ge> AGNUS_SPR0PTH \<and> addr \<le> AGNUS_SPR7PTL \<and> addr AND 1 = 0) \<or>
     addr \<in> {AGNUS_BPLMOD1, AGNUS_BPLMOD2, RIGEL_REG_BEAMCON0} \<or>
     rigel_copper_regs_owns_reg addr \<or> rigel_blitter_domain_owns_reg addr"

definition rigel_agnus_mmio_owns_reg :: "u32 \<Rightarrow> bool" where
  "rigel_agnus_mmio_owns_reg addr = rigel_agnus_mmio_has_reg addr"

definition agnus_dmaconr :: "rigel_agnus \<Rightarrow> u16" where
  "agnus_dmaconr ag =
     (let val = rigel_dma_domain_read_dmacon (ag_dma ag);
          val = (if blitter_is_busy (ag_blitter ag) then val OR AGNUS_DMACON_BBUSY else val)
      in if result_zero (blt_result (ag_blitter ag)) then val OR AGNUS_DMACON_BZERO else val)"

definition rigel_agnus_mmio_read_impl :: "('m, 'h) rigel_context \<Rightarrow> u32 \<Rightarrow> u16" where
  "rigel_agnus_mmio_read_impl ctx addr =
     (let ag = ctx_agnus ctx; beam = ag_beam ag in
      if addr = AGNUS_DMACONR then agnus_dmaconr ag
      else if addr = RIGEL_REG_DMACON then rigel_dma_domain_read_dmacon (ag_dma ag)
      else if rigel_blitter_domain_owns_reg addr then rigel_blitter_domain_read_reg (ag_blitter ag) addr
      else if rigel_copper_regs_owns_reg addr then
        rigel_copper_regs_read (ag_copper ag, ch_custom_regs (rc_chipset ctx)) addr
      else if addr = AGNUS_VPOSR then
        push_bit 15 (ucast (beam_lof beam)) OR
        push_bit 8 (agnus_vposr_chip_id (ag_chip_rev ag) (ag_raster ag)) OR
        (drop_bit 8 (beam_vpos beam) AND 0x7)
      else if addr = AGNUS_VHPOSR then
        push_bit 8 (beam_vpos beam AND 0xff) OR (drop_bit 1 (beam_hpos beam) AND 0xff)
      else if addr = RIGEL_REG_BEAMCON0 then
        (if ag_chip_rev ag = AGNUS_REV_ECS then ag_beamcon0 ag else 0)
      else ctx_read_reg ctx addr)"

definition rigel_agnus_mmio_read :: "('m, 'h) rigel_context \<Rightarrow> u32 \<Rightarrow> u16" where
  "rigel_agnus_mmio_read ctx addr = rigel_agnus_mmio_read_impl ctx addr"

definition agnus_write_bplpt :: "u32 \<Rightarrow> u16 \<Rightarrow> rigel_agnus \<Rightarrow> rigel_agnus" where
  "agnus_write_bplpt addr value ag =
     (if addr \<ge> RIGEL_REG_BPL1PTH \<and> addr \<le> RIGEL_REG_BPL6PTL \<and> addr AND 1 = 0 then
        let plane = unat (addr - RIGEL_REG_BPL1PTH) div 4
        in ag\<lparr>ag_bplpt := (if addr AND 2 = 0 then bplpt_set_hi (ag_bplpt ag) plane value
                           else bplpt_set_lo (ag_bplpt ag) plane value)\<rparr>
      else ag)"

definition agnus_write_sprpt :: "u32 \<Rightarrow> u16 \<Rightarrow> rigel_agnus \<Rightarrow> rigel_agnus" where
  "agnus_write_sprpt addr value ag =
     (if addr \<ge> AGNUS_SPR0PTH \<and> addr \<le> AGNUS_SPR7PTL \<and> addr AND 1 = 0 then
        let sp = unat (addr - AGNUS_SPR0PTH) div 4
        in ag\<lparr>ag_sprite_dma := (if addr AND 2 = 0 then sprite_dma_set_ptr_hi (ag_sprite_dma ag) sp value
                                else sprite_dma_set_ptr_lo (ag_sprite_dma ag) sp value)\<rparr>
      else ag)"

definition agnus_write_dmacon :: "u16 \<Rightarrow> ('m, 'h) rigel_context \<Rightarrow> ('m, 'h) rigel_context" where
  "agnus_write_dmacon value ctx =
     (let ctx = on_agnus (\<lambda>a. a\<lparr>ag_dma := rigel_dma_domain_write_dmacon (ag_dma a) value\<rparr>) ctx;
          dmacon = rigel_dma_domain_read_dmacon (ag_dma (ctx_agnus ctx));
          ctx = ctx_write_reg RIGEL_REG_DMACON dmacon ctx
      in on_agnus (\<lambda>a. a\<lparr>ag_scheduler := agnus_slot_scheduler_invalidate (ag_scheduler a) dmacon\<rparr>) ctx)"

definition agnus_write_ddfstrt :: "u16 \<Rightarrow> ('m, 'h) rigel_context \<Rightarrow> ('m, 'h) rigel_context" where
  "agnus_write_ddfstrt value ctx =
     (let ctx = on_agnus (\<lambda>a. a\<lparr>
            ag_raster := raster_set_ddfstrt (ag_raster a) value,
            ag_scheduler := agnus_slot_scheduler_set_ddf (ag_scheduler a) value
              (ss_ddfstop (ag_scheduler a))\<rparr>) ctx;
          lores = push_bit 1 (ss_ddfstrt (ag_scheduler (ctx_agnus ctx)) AND 0x00fc);
          ctx = on_denise (\<lambda>d. d\<lparr>dn_output := (dn_output d)\<lparr>do_ddfstrt_lores := lores\<rparr>\<rparr>) ctx
      in ctx_write_reg RIGEL_REG_DDFSTRT value ctx)"

definition agnus_write_ddfstop :: "u16 \<Rightarrow> ('m, 'h) rigel_context \<Rightarrow> ('m, 'h) rigel_context" where
  "agnus_write_ddfstop value ctx =
     (let ctx = on_agnus (\<lambda>a. a\<lparr>
            ag_raster := raster_set_ddfstop (ag_raster a) value,
            ag_scheduler := agnus_slot_scheduler_set_ddf (ag_scheduler a)
              (ss_ddfstrt (ag_scheduler a)) value\<rparr>) ctx
      in ctx_write_reg RIGEL_REG_DDFSTOP value ctx)"

definition agnus_write_beamcon0 :: "u16 \<Rightarrow> ('m, 'h) rigel_context \<Rightarrow> ('m, 'h) rigel_context" where
  "agnus_write_beamcon0 value ctx =
     (if ag_chip_rev (ctx_agnus ctx) = AGNUS_REV_ECS then
        let ctx = on_agnus (\<lambda>a. a\<lparr>ag_beamcon0 := value AND 0x0020\<rparr>) ctx;
            ctx = on_agnus (\<lambda>a. rigel_agnus_set_video_std a
                    (if value AND 0x0020 \<noteq> 0 then AGNUS_VIDEO_PAL else AGNUS_VIDEO_NTSC)) ctx
        in ctx_write_reg RIGEL_REG_BEAMCON0 (ag_beamcon0 (ctx_agnus ctx)) ctx
      else ctx)"

definition rigel_agnus_mmio_write_impl ::
    "('m, 'h) rigel_context \<Rightarrow> u32 \<Rightarrow> u16 \<Rightarrow> ('m, 'h) rigel_context" where
  "rigel_agnus_mmio_write_impl ctx addr value =
     (if rigel_blitter_domain_owns_reg addr then
        let ctx = (if addr = AGNUS_BLTSIZE
                   then on_paula (\<lambda>p. rigel_paula_clear_irq p BLITTER_INTREQ_BLIT) ctx else ctx);
            ctx = on_agnus (\<lambda>a. a\<lparr>ag_blitter :=
                    rigel_blitter_domain_write_reg (ag_blitter a) addr value\<rparr>) ctx
        in ctx_write_reg addr value ctx
      else if rigel_copper_regs_owns_reg addr then
        on_chipset (\<lambda>ch.
          case rigel_copper_regs_write (ag_copper (ch_agnus ch), ch_custom_regs ch) addr value of
            (copper, regs) \<Rightarrow>
              ch\<lparr>ch_agnus := (ch_agnus ch)\<lparr>ag_copper := copper\<rparr>, ch_custom_regs := regs\<rparr>) ctx
      else if addr = RIGEL_REG_DMACON then agnus_write_dmacon value ctx
      else if addr = RIGEL_REG_DDFSTRT then agnus_write_ddfstrt value ctx
      else if addr = RIGEL_REG_DDFSTOP then agnus_write_ddfstop value ctx
      else if addr = RIGEL_REG_BEAMCON0 then agnus_write_beamcon0 value ctx
      else ctx_write_reg addr value
             (on_agnus (\<lambda>a. agnus_write_sprpt addr value (agnus_write_bplpt addr value a)) ctx))"

definition rigel_agnus_mmio_write ::
    "('m, 'h) rigel_context \<Rightarrow> u32 \<Rightarrow> u16 \<Rightarrow> ('m, 'h) rigel_context" where
  "rigel_agnus_mmio_write ctx addr value = rigel_agnus_mmio_write_impl ctx addr value"

section \<open>Denise registers\<close>

definition rigel_denise_read_reg ::
    "('m, 'h) rigel_context \<Rightarrow> u32 \<Rightarrow> u16 \<times> ('m, 'h) rigel_context" where
  "rigel_denise_read_reg ctx addr =
     (case rigel_denise_registers_read (ctx_denise ctx) addr of
        (v, d) \<Rightarrow> (v, on_denise (\<lambda>_. d) ctx))"

definition denise_bplcon0_to_agnus :: "u16 \<Rightarrow> rigel_agnus \<Rightarrow> rigel_agnus" where
  "denise_bplcon0_to_agnus value ag =
     (let sched = agnus_slot_scheduler_set_hires (ag_scheduler ag) (value AND 0x8000 \<noteq> 0);
          sched = agnus_slot_scheduler_set_depth sched (drop_bit 12 value AND 0x7);
          beam = (ag_beam ag)\<lparr>beam_lof_toggle := (if value AND 0x0004 \<noteq> 0 then 1 else 0)\<rparr>;
          beam = (if value AND 0x0004 = 0 then beam\<lparr>beam_lof := 0\<rparr> else beam)
      in ag\<lparr>ag_scheduler := sched, ag_beam := beam\<rparr>)"

definition rigel_denise_write_reg ::
    "('m, 'h) rigel_context \<Rightarrow> u32 \<Rightarrow> u16 \<Rightarrow> ('m, 'h) rigel_context" where
  "rigel_denise_write_reg ctx addr value =
     (let ctx = on_denise (\<lambda>d. rigel_denise_registers_write d addr value) ctx;
          ctx = ctx_write_reg addr value ctx;
          ctx = (if addr = RIGEL_REG_BPLCON0 then on_agnus (denise_bplcon0_to_agnus value) ctx else ctx);
          ctx = (if addr = RIGEL_REG_DIWSTRT
                 then on_agnus (\<lambda>a. a\<lparr>ag_raster := raster_set_diwstrt (ag_raster a) value,
                        ag_scheduler := agnus_slot_scheduler_set_vstrt (ag_scheduler a) value\<rparr>) ctx
                 else ctx)
      in if addr = RIGEL_REG_DIWSTOP
         then on_agnus (\<lambda>a. a\<lparr>ag_raster := raster_set_diwstop (ag_raster a) value\<rparr>) ctx
         else ctx)"

section \<open>Paula registers\<close>

definition paula_owns_reg :: "u32 \<Rightarrow> bool" where
  "paula_owns_reg addr \<longleftrightarrow>
     rigel_input_domain_owns_reg addr \<or> rigel_audio_domain_owns_reg addr \<or>
     rigel_disk_domain_owns_reg addr \<or> rigel_serial_domain_owns_reg addr \<or>
     rigel_interrupt_domain_owns_reg addr"

definition paula_read_reg ::
    "('m, 'h) rigel_context \<Rightarrow> u32 \<Rightarrow> u16 \<times> ('m, 'h) rigel_context" where
  "paula_read_reg ctx addr =
     (let p = ctx_paula ctx in
      if rigel_input_domain_owns_reg addr then (rigel_input_domain_read_reg (pa_input p) addr, ctx)
      else if rigel_audio_domain_owns_reg addr then (ctx_read_reg ctx addr, ctx)
      else if rigel_disk_domain_owns_reg addr then
        (case rigel_disk_domain_read_reg (pa_disk p) addr of
           (v, d) \<Rightarrow> (v, on_paula (\<lambda>p. p\<lparr>pa_disk := d\<rparr>) ctx))
      else if rigel_serial_domain_owns_reg addr then
        (case rigel_serial_domain_read_reg (pa_serial p) addr of
           (v, s) \<Rightarrow> (v, on_paula (\<lambda>p. p\<lparr>pa_serial := s\<rparr>) ctx))
      else if rigel_interrupt_domain_owns_reg addr then
        (rigel_interrupt_domain_read_reg (pa_interrupts p) addr, ctx)
      else (ctx_read_reg ctx addr, ctx))"

definition paula_write_disk ::
    "'h rigel_env \<Rightarrow> ('m, 'h) rigel_context \<Rightarrow> u32 \<Rightarrow> u16 \<Rightarrow> ('m, 'h) rigel_context" where
  "paula_write_disk env ctx addr value =
     (case rigel_disk_domain_write_reg (env_dsksyn env) (ch_floppy (rc_chipset ctx))
             (pa_disk (ctx_paula ctx)) addr value of
        (d, ms) \<Rightarrow>
          let ctx = ctx_raise ms (on_paula (\<lambda>p. p\<lparr>pa_disk := d\<rparr>) ctx)
          in ctx_write_reg addr
               (if addr = RIGEL_REG_DSKLEN then dk_dsklen d
                else if addr = RIGEL_REG_ADKCON then dk_adkcon d else value) ctx)"

definition paula_write_serial ::
    "('m, 'h) rigel_context \<Rightarrow> u32 \<Rightarrow> u16 \<Rightarrow> ('m, 'h) rigel_context" where
  "paula_write_serial ctx addr value =
     (case rigel_serial_domain_write_reg (pa_serial (ctx_paula ctx)) addr value of
        (s, ms) \<Rightarrow>
          let ctx = ctx_raise ms (on_paula (\<lambda>p. p\<lparr>pa_serial := s\<rparr>) ctx)
          in ctx_write_reg addr (if addr = RIGEL_REG_SERPER then serper s else value) ctx)"

definition paula_write_reg ::
    "'h rigel_env \<Rightarrow> ('m, 'h) rigel_context \<Rightarrow> u32 \<Rightarrow> u16 \<Rightarrow> ('m, 'h) rigel_context" where
  "paula_write_reg env ctx addr value =
     (if rigel_input_domain_owns_reg addr then
        ctx_write_reg addr value
          (on_paula (\<lambda>p. p\<lparr>pa_input := rigel_input_domain_write_reg (pa_input p) addr value\<rparr>) ctx)
      else if rigel_audio_domain_owns_reg addr then
        ctx_write_reg addr value
          (on_paula (\<lambda>p. p\<lparr>pa_audio := rigel_audio_domain_write_reg (pa_audio p) addr value\<rparr>) ctx)
      else if rigel_disk_domain_owns_reg addr then paula_write_disk env ctx addr value
      else if rigel_serial_domain_owns_reg addr then paula_write_serial ctx addr value
      else if rigel_interrupt_domain_owns_reg addr then
        let ctx = on_paula (\<lambda>p. p\<lparr>pa_interrupts :=
                    rigel_interrupt_domain_write_reg (pa_interrupts p) addr value\<rparr>) ctx
        in ctx_write_reg addr (rigel_interrupt_domain_read_reg (pa_interrupts (ctx_paula ctx)) addr) ctx
      else ctx_write_reg addr value ctx)"

section \<open>Dispatch between the chips\<close>

datatype rigel_custom_domain =
  RIGEL_DOMAIN_UNKNOWN | RIGEL_DOMAIN_AGNUS | RIGEL_DOMAIN_PAULA | RIGEL_DOMAIN_DENISE

definition rigel_custom_domain_for_reg :: "u32 \<Rightarrow> rigel_custom_domain" where
  "rigel_custom_domain_for_reg addr =
     (if \<not> rigel_custom_is_valid_reg addr then RIGEL_DOMAIN_UNKNOWN
      else if addr = RIGEL_REG_DMACON then RIGEL_DOMAIN_AGNUS
      else if addr \<in> {RIGEL_REG_INTENA, RIGEL_REG_DSKDATR, RIGEL_REG_JOY0DAT, RIGEL_REG_JOY1DAT,
        RIGEL_REG_ADKCONR, RIGEL_REG_POT0DAT, RIGEL_REG_POT1DAT, RIGEL_REG_POTGOR,
        RIGEL_REG_SERDATR, RIGEL_REG_DSKBYTR, RIGEL_REG_DSKPTH, RIGEL_REG_DSKPTL,
        RIGEL_REG_DSKLEN, RIGEL_REG_SERDAT, RIGEL_REG_SERPER, RIGEL_REG_POTGO,
        RIGEL_REG_DSKSYNC, RIGEL_REG_ADKCON, RIGEL_REG_INTREQ}
      then RIGEL_DOMAIN_PAULA
      else if addr = RIGEL_REG_COLOR00 then RIGEL_DOMAIN_DENISE
      else if rigel_agnus_mmio_owns_reg addr then RIGEL_DOMAIN_AGNUS
      else if rigel_denise_owns_reg addr then RIGEL_DOMAIN_DENISE
      else if paula_owns_reg addr then RIGEL_DOMAIN_PAULA
      else RIGEL_DOMAIN_UNKNOWN)"

definition custom_regs_read16 ::
    "('m, 'h) rigel_context \<Rightarrow> u32 \<Rightarrow> u16 \<times> ('m, 'h) rigel_context" where
  "custom_regs_read16 ctx addr =
     (if \<not> rigel_custom_is_valid_reg addr then (0, ctx)
      else case rigel_custom_domain_for_reg addr of
        RIGEL_DOMAIN_AGNUS \<Rightarrow> (rigel_agnus_mmio_read ctx addr, ctx)
      | RIGEL_DOMAIN_PAULA \<Rightarrow> paula_read_reg ctx addr
      | RIGEL_DOMAIN_DENISE \<Rightarrow> rigel_denise_read_reg ctx addr
      | RIGEL_DOMAIN_UNKNOWN \<Rightarrow> (ctx_read_reg ctx addr, ctx))"

definition custom_regs_write16 ::
    "'h rigel_env \<Rightarrow> ('m, 'h) rigel_context \<Rightarrow> u32 \<Rightarrow> u16 \<Rightarrow> ('m, 'h) rigel_context" where
  "custom_regs_write16 env ctx addr value =
     (if \<not> rigel_custom_is_valid_reg addr then ctx
      else case rigel_custom_domain_for_reg addr of
        RIGEL_DOMAIN_AGNUS \<Rightarrow> rigel_agnus_mmio_write ctx addr value
      | RIGEL_DOMAIN_PAULA \<Rightarrow> paula_write_reg env ctx addr value
      | RIGEL_DOMAIN_DENISE \<Rightarrow> rigel_denise_write_reg ctx addr value
      | RIGEL_DOMAIN_UNKNOWN \<Rightarrow> ctx_write_reg addr value ctx)"

section \<open>CIA ports and the floppy lines\<close>

text \<open>The drive control signals in port B of the second CIA; all but DIR are active low.\<close>

definition prb_signals :: "u8 \<Rightarrow> bool \<Rightarrow> FloppySignals" where
  "prb_signals p selected =
     \<lparr>sig_selected = selected, sig_motor = selected \<and> p AND 0x80 = 0,
      sig_step = (p AND 0x01 = 0), sig_direction = (drop_bit 1 p AND 1 \<noteq> 0),
      sig_side = (drop_bit 2 p AND 1 = 0)\<rparr>"

definition prb_select :: "u8 \<Rightarrow> nat \<Rightarrow> bool" where
  "prb_select p i \<longleftrightarrow> p AND push_bit (3 + i) 1 = 0"

definition prb_step_drives :: "u8 \<Rightarrow> FloppyDrive list \<Rightarrow> FloppyDrive list" where
  "prb_step_drives p drives =
     map (\<lambda>i. let d = drives ! i in floppy_step d (prb_signals p (fd_connected d \<and> prb_select p i))) [0..<4]"

definition prb_selected :: "u8 \<Rightarrow> FloppyDrive list \<Rightarrow> nat list" where
  "prb_selected p drives = filter (\<lambda>i. prb_select p i \<and> fd_connected (drives ! i)) [0..<4]"

text \<open>The drive status lines in port A of the first CIA, for the one selected drive.\<close>

definition drive_status_pra :: "bool \<Rightarrow> FloppyDrive \<Rightarrow> u8 \<Rightarrow> u8" where
  "drive_status_pra mtr active p =
     (let idmode = \<not> mtr \<and> fd_id_count active \<ge> 0 \<and> fd_id_count active < 32;
          p = (if \<not> floppy_get_dskchg active False then p AND NOT 0x04 else p);
          p = (if \<not> floppy_get_wpro active then p AND NOT 0x08 else p);
          p = (if floppy_get_track0 active then p AND NOT 0x10 else p)
      in if idmode then (if \<not> floppy_get_idbit active then p AND NOT 0x20 else p)
         else if floppy_get_ready active then p AND NOT 0x20 else p)"

definition cia_b_prb_update_floppy :: "('m, 'h) rigel_chipset \<Rightarrow> ('m, 'h) rigel_chipset" where
  "cia_b_prb_update_floppy ch =
     (let p = cia_port_b_value (ch_cia ch ! 1);
          drives = prb_step_drives p (ch_floppy ch);
          sel = prb_selected p drives;
          active = (case sel of [] \<Rightarrow> 0 | i # _ \<Rightarrow> i);
          pra = cia_port_a_value (ch_cia ch ! 0) OR 0x3c;
          pra = (if length sel = 1 then drive_status_pra (p AND 0x80 = 0) (drives ! active) pra else pra)
      in ch\<lparr>ch_floppy := drives,
            ch_paula := rigel_paula_set_disk_drive (ch_paula ch) (Some active),
            ch_cia := (ch_cia ch)[0 := cia_set_external_pra (ch_cia ch ! 0) pra]\<rparr>)"

abbreviation RIGEL_CIA_COUNT :: nat where "RIGEL_CIA_COUNT \<equiv> 2"

definition rigel_cia_read ::
    "('m, 'h) rigel_context \<Rightarrow> u32 \<Rightarrow> u8 \<Rightarrow> u8 \<times> ('m, 'h) rigel_context" where
  "rigel_cia_read ctx cid reg =
     (if unat cid \<ge> RIGEL_CIA_COUNT then (0xff, ctx)
      else case cia_read_reg (ch_cia (rc_chipset ctx) ! unat cid, pa_interrupts (ctx_paula ctx)) reg of
        (v, s) \<Rightarrow> (v, on_chipset (on_cia (unat cid) (\<lambda>_. s)) ctx))"

definition rigel_cia_write ::
    "('m, 'h) rigel_context \<Rightarrow> u32 \<Rightarrow> u8 \<Rightarrow> u8 \<Rightarrow> ('m, 'h) rigel_context" where
  "rigel_cia_write ctx cid reg value =
     (if unat cid \<ge> RIGEL_CIA_COUNT then ctx
      else
        let ctx = on_chipset (on_cia (unat cid) (\<lambda>s. cia_write_reg s reg value)) ctx
        in if cid = 1 \<and> (reg = CIA_REG_PRB \<or> reg = CIA_REG_DDRB)
           then on_chipset cia_b_prb_update_floppy ctx else ctx)"

definition rigel_keyboard_inject ::
    "('m, 'h) rigel_context \<Rightarrow> u8 \<Rightarrow> bool \<Rightarrow> ('m, 'h) rigel_context" where
  "rigel_keyboard_inject ctx amiga_keycode pressed =
     (let sdr_byte = NOT (push_bit 1 amiga_keycode OR (if pressed then 0 else 1))
      in on_chipset (on_cia 0 (\<lambda>s. snd (cia_receive_sdr s sdr_byte))) ctx)"

section \<open>Clock registers\<close>

text \<open>The guard keeps the register number in the range the clock asserts.\<close>

definition rigel_rtc_read_reg ::
    "'h rigel_env \<Rightarrow> ('m, 'h) rigel_context \<Rightarrow> u8 \<Rightarrow> u8 \<times> ('m, 'h) rigel_context" where
  "rigel_rtc_read_reg env ctx reg =
     (if reg \<ge> 16 then (0, ctx)
      else case rtc_read_reg (env_libc env) reg (ch_rtc (rc_chipset ctx), rc_host ctx) of
        None \<Rightarrow> (0, ctx)
      | Some (v, rtc, h) \<Rightarrow> (v, (on_chipset (\<lambda>ch. ch\<lparr>ch_rtc := rtc\<rparr>) ctx)\<lparr>rc_host := h\<rparr>))"

definition rigel_rtc_write_reg ::
    "'h rigel_env \<Rightarrow> ('m, 'h) rigel_context \<Rightarrow> u8 \<Rightarrow> u8 \<Rightarrow> ('m, 'h) rigel_context" where
  "rigel_rtc_write_reg env ctx reg value =
     (if reg \<ge> 16 then ctx
      else case rtc_write_reg (env_libc env) reg value (ch_rtc (rc_chipset ctx), rc_host ctx) of
        None \<Rightarrow> ctx
      | Some (rtc, h) \<Rightarrow> (on_chipset (\<lambda>ch. ch\<lparr>ch_rtc := rtc\<rparr>) ctx)\<lparr>rc_host := h\<rparr>)"

section \<open>CPU accesses\<close>

datatype rigel_mmio_result = RIGEL_MMIO_UNMAPPED | RIGEL_MMIO_HANDLED | RIGEL_MMIO_UNSUPPORTED

abbreviation RIGEL_M68K_ADDRESS_MAX :: u32 where "RIGEL_M68K_ADDRESS_MAX \<equiv> 0x00ffffff"
abbreviation RIGEL_CUSTOM_BASE :: u32 where "RIGEL_CUSTOM_BASE \<equiv> 0x00dff000"
abbreviation RIGEL_CUSTOM_TOP :: u32 where "RIGEL_CUSTOM_TOP \<equiv> 0x00dfffff"
abbreviation RIGEL_CIAB_BASE :: u32 where "RIGEL_CIAB_BASE \<equiv> 0x00bfd000"
abbreviation RIGEL_CIAB_END :: u32 where "RIGEL_CIAB_END \<equiv> 0x00bfdf00"
abbreviation RIGEL_CIA_SHARED_BASE :: u32 where "RIGEL_CIA_SHARED_BASE \<equiv> 0x00bfe000"
abbreviation RIGEL_CIA_SHARED_END :: u32 where "RIGEL_CIA_SHARED_END \<equiv> 0x00bfef01"
abbreviation RIGEL_RTC_BASE :: u32 where "RIGEL_RTC_BASE \<equiv> 0x00dc0000"
abbreviation RIGEL_RTC_END :: u32 where "RIGEL_RTC_END \<equiv> 0x00dcffff"

definition custom_address :: "u32 \<Rightarrow> bool" where
  "custom_address addr \<longleftrightarrow> addr \<ge> RIGEL_CUSTOM_BASE \<and> addr \<le> RIGEL_CUSTOM_TOP"

definition cia_id_for_address :: "u32 \<Rightarrow> int" where
  "cia_id_for_address addr =
     (if addr AND 1 \<noteq> 0 \<and> addr \<ge> RIGEL_CIA_SHARED_BASE \<and> addr \<le> RIGEL_CIA_SHARED_END then 0
      else if addr AND 1 = 0 \<and>
        (addr \<ge> RIGEL_CIAB_BASE \<and> addr \<le> RIGEL_CIAB_END \<or>
         addr \<ge> RIGEL_CIA_SHARED_BASE \<and> addr < RIGEL_CIA_SHARED_END) then 1
      else -1)"

definition rigel_custom_read16 ::
    "('m, 'h) rigel_context \<Rightarrow> u32 \<Rightarrow> u16 \<times> ('m, 'h) rigel_context" where
  "rigel_custom_read16 ctx addr = custom_regs_read16 ctx addr"

definition rigel_custom_write16 ::
    "'h rigel_env \<Rightarrow> ('m, 'h) rigel_context \<Rightarrow> u32 \<Rightarrow> u16 \<Rightarrow> ('m, 'h) rigel_context" where
  "rigel_custom_write16 env ctx addr value = custom_regs_write16 env ctx addr value"

definition custom_read_word ::
    "('m, 'h) rigel_context \<Rightarrow> u32 \<Rightarrow> u16 \<times> ('m, 'h) rigel_context" where
  "custom_read_word ctx addr = rigel_custom_read16 ctx (addr AND 0x1fe)"

definition custom_write_word ::
    "'h rigel_env \<Rightarrow> ('m, 'h) rigel_context \<Rightarrow> u32 \<Rightarrow> u16 \<Rightarrow> ('m, 'h) rigel_context" where
  "custom_write_word env ctx addr value = rigel_custom_write16 env ctx (addr AND 0x1fe) value"

text \<open>A read gives the result code, the value if one was stored, and the context.\<close>

definition rigel_mmio_read ::
    "'h rigel_env \<Rightarrow> ('m, 'h) rigel_context \<Rightarrow> u32 \<Rightarrow> u8 \<Rightarrow>
     rigel_mmio_result \<times> u32 option \<times> ('m, 'h) rigel_context" where
  "rigel_mmio_read env ctx addr size1 =
     (if addr > RIGEL_M68K_ADDRESS_MAX then (RIGEL_MMIO_UNMAPPED, None, ctx)
      else if custom_address addr then
        if (size1 = 2 \<or> size1 = 4) \<and> addr AND 1 \<noteq> 0 then (RIGEL_MMIO_UNSUPPORTED, None, ctx)
        else if size1 = 4 \<and> \<not> custom_address (addr + 3) then (RIGEL_MMIO_UNSUPPORTED, None, ctx)
        else
          let (w, ctx) = custom_read_word ctx addr
          in if size1 = 1 then
               (RIGEL_MMIO_HANDLED,
                Some (if addr AND 1 \<noteq> 0 then ucast (w AND 0xff) else ucast (drop_bit 8 w)), ctx)
             else if size1 = 2 then (RIGEL_MMIO_HANDLED, Some (ucast w), ctx)
             else if size1 = 4 then
               let (w2, ctx) = custom_read_word ctx (addr + 2)
               in (RIGEL_MMIO_HANDLED, Some (push_bit 16 (ucast w) OR ucast w2), ctx)
             else (RIGEL_MMIO_UNSUPPORTED, None, ctx)
      else if cia_id_for_address addr \<ge> 0 then
        if size1 \<noteq> 1 then (RIGEL_MMIO_UNSUPPORTED, None, ctx)
        else
          let (v, ctx) = rigel_cia_read ctx (word_of_int (cia_id_for_address addr))
                           (ucast (drop_bit 8 addr AND 0x0f))
          in (RIGEL_MMIO_HANDLED, Some (ucast v), ctx)
      else if addr \<ge> RIGEL_RTC_BASE \<and> addr \<le> RIGEL_RTC_END then
        if size1 \<noteq> 1 then (RIGEL_MMIO_UNSUPPORTED, None, ctx)
        else
          let (v, ctx) = rigel_rtc_read_reg env ctx (ucast (drop_bit 2 addr AND 0x0f))
          in (RIGEL_MMIO_HANDLED, Some (ucast v), ctx)
      else (RIGEL_MMIO_UNMAPPED, None, ctx))"

definition mmio_custom_write_byte ::
    "'h rigel_env \<Rightarrow> ('m, 'h) rigel_context \<Rightarrow> u32 \<Rightarrow> u32 \<Rightarrow> ('m, 'h) rigel_context" where
  "mmio_custom_write_byte env ctx addr value =
     (let (w, ctx) = custom_read_word ctx addr;
          w = (if addr AND 1 \<noteq> 0 then (w AND 0xff00) OR ucast (value AND 0xff)
               else (w AND 0x00ff) OR ucast (push_bit 8 (value AND 0xff)))
      in custom_write_word env ctx addr w)"

definition rigel_mmio_write ::
    "'h rigel_env \<Rightarrow> ('m, 'h) rigel_context \<Rightarrow> u32 \<Rightarrow> u8 \<Rightarrow> u32 \<Rightarrow>
     rigel_mmio_result \<times> ('m, 'h) rigel_context" where
  "rigel_mmio_write env ctx addr size1 value =
     (if addr > RIGEL_M68K_ADDRESS_MAX then (RIGEL_MMIO_UNMAPPED, ctx)
      else if custom_address addr then
        if (size1 = 2 \<or> size1 = 4) \<and> addr AND 1 \<noteq> 0 then (RIGEL_MMIO_UNSUPPORTED, ctx)
        else if size1 = 4 \<and> \<not> custom_address (addr + 3) then (RIGEL_MMIO_UNSUPPORTED, ctx)
        else if size1 = 1 then (RIGEL_MMIO_HANDLED, mmio_custom_write_byte env ctx addr value)
        else if size1 = 2 then (RIGEL_MMIO_HANDLED, custom_write_word env ctx addr (ucast value))
        else if size1 = 4 then
          let ctx = custom_write_word env ctx addr (ucast (drop_bit 16 value))
          in (RIGEL_MMIO_HANDLED, custom_write_word env ctx (addr + 2) (ucast value))
        else (RIGEL_MMIO_UNSUPPORTED, ctx)
      else if cia_id_for_address addr \<ge> 0 then
        if size1 \<noteq> 1 then (RIGEL_MMIO_UNSUPPORTED, ctx)
        else (RIGEL_MMIO_HANDLED, rigel_cia_write ctx (word_of_int (cia_id_for_address addr))
                (ucast (drop_bit 8 addr AND 0x0f)) (ucast value))
      else if addr \<ge> RIGEL_RTC_BASE \<and> addr \<le> RIGEL_RTC_END then
        if size1 \<noteq> 1 then (RIGEL_MMIO_UNSUPPORTED, ctx)
        else (RIGEL_MMIO_HANDLED, rigel_rtc_write_reg env ctx (ucast (drop_bit 2 addr AND 0x0f))
                (ucast (value AND 0x0f)))
      else (RIGEL_MMIO_UNMAPPED, ctx))"

section \<open>Which accesses succeed\<close>

text \<open>
  The outcome of an access of \<open>sz\<close> bytes at a byte address, as the address map documents it:
  custom registers by byte anywhere, by word and longword at even addresses inside the page;
  the CIAs, at even or odd addresses of their pages, and the clock by byte only.
\<close>

definition in_cia_space :: "nat \<Rightarrow> bool" where
  "in_cia_space a \<longleftrightarrow> odd a \<and> a \<in> {0xbfe001..0xbfef01} \<or>
     even a \<and> (a \<in> {0xbfd000..0xbfdf00} \<or> a \<in> {0xbfe000..0xbfef00})"

definition mmio_outcome :: "nat \<Rightarrow> nat \<Rightarrow> rigel_mmio_result" where
  "mmio_outcome a sz =
     (if a \<in> {0xdff000..0xdfffff} then
        if sz = 1 \<or> even a \<and> (sz = 2 \<or> sz = 4 \<and> a + 3 \<le> 0xdfffff)
        then RIGEL_MMIO_HANDLED else RIGEL_MMIO_UNSUPPORTED
      else if in_cia_space a \<or> a \<in> {0xdc0000..0xdcffff} then
        if sz = 1 then RIGEL_MMIO_HANDLED else RIGEL_MMIO_UNSUPPORTED
      else RIGEL_MMIO_UNMAPPED)"

lemma custom_address_nat: "custom_address addr \<longleftrightarrow> unat addr \<in> {0xdff000..0xdfffff}"
  by (simp add: custom_address_def word_le_nat_alt)

lemma and1_parity: "addr AND 1 = 0 \<longleftrightarrow> even (unat addr)" for addr :: u32
  by (simp add: and_one_eq even_unat flip: even_iff_mod_2_eq_zero)

lemma cia_address_nat: "cia_id_for_address addr \<ge> 0 \<longleftrightarrow> in_cia_space (unat addr)"
proof -
  have "odd a \<Longrightarrow> 0xbfe000 \<le> a \<longleftrightarrow> 0xbfe001 \<le> a" "a < 0xbfef01 \<longleftrightarrow> a \<le> 0xbfef00" for a :: nat
    by presburger auto
  then show ?thesis
    by (auto simp: cia_id_for_address_def in_cia_space_def and1_parity word_le_nat_alt word_less_nat_alt)
qed

lemma custom_address_plus3:
  assumes "custom_address addr" and "even (unat addr)"
  shows "custom_address (addr + 3) \<longleftrightarrow> unat addr + 3 \<le> 0xdfffff"
proof -
  have "unat (addr + 3) = unat addr + 3"
    using assms(1) by (simp add: custom_address_nat unat_word_ariths)
  then show ?thesis using assms by (simp add: custom_address_nat)
qed

lemma address_max_nat: "RIGEL_M68K_ADDRESS_MAX < addr \<longleftrightarrow> 0xffffff < unat addr"
  by (simp add: word_less_nat_alt)

lemma size_nat: "sz = 1 \<longleftrightarrow> unat sz = 1" "sz = 2 \<longleftrightarrow> unat sz = 2" "sz = 4 \<longleftrightarrow> unat sz = 4" for sz :: u8
  by (simp_all add: word_unat_eq_iff)

lemmas mmio_decode = custom_address_nat and1_parity cia_address_nat address_max_nat size_nat

lemma mmio_outcome_regions:
  fixes sz :: u8
  shows "mmio_outcome (unat addr) (unat sz) =
     (if addr > RIGEL_M68K_ADDRESS_MAX then RIGEL_MMIO_UNMAPPED
      else if custom_address addr then
        if (sz = 2 \<or> sz = 4) \<and> addr AND 1 \<noteq> 0 then RIGEL_MMIO_UNSUPPORTED
        else if sz = 4 \<and> \<not> custom_address (addr + 3) then RIGEL_MMIO_UNSUPPORTED
        else if sz = 1 then RIGEL_MMIO_HANDLED
        else if sz = 2 then RIGEL_MMIO_HANDLED
        else if sz = 4 then RIGEL_MMIO_HANDLED
        else RIGEL_MMIO_UNSUPPORTED
      else if cia_id_for_address addr \<ge> 0 then
        if sz \<noteq> 1 then RIGEL_MMIO_UNSUPPORTED else RIGEL_MMIO_HANDLED
      else if addr \<ge> RIGEL_RTC_BASE \<and> addr \<le> RIGEL_RTC_END then
        if sz \<noteq> 1 then RIGEL_MMIO_UNSUPPORTED else RIGEL_MMIO_HANDLED
      else RIGEL_MMIO_UNMAPPED)"
proof (cases "custom_address addr")
  case True
  then have a: "unat addr \<in> {0xdff000..0xdfffff}" and n: "\<not> RIGEL_M68K_ADDRESS_MAX < addr"
    by (simp_all add: mmio_decode)
  show ?thesis
  proof (cases "even (unat addr)")
    case even: True
    show ?thesis
      by (simp only: mmio_outcome_def if_P [OF a] if_P [OF True] if_not_P [OF n] and1_parity even
          custom_address_plus3 [OF True even] size_nat) auto
  next
    case False
    show ?thesis
      by (simp only: mmio_outcome_def if_P [OF a] if_P [OF True] if_not_P [OF n] and1_parity
          False size_nat) auto
  qed
next
  case False
  then have a: "unat addr \<notin> {0xdff000..0xdfffff}" by (simp only: custom_address_nat not_False_eq_True)
  have rtc: "RIGEL_RTC_BASE \<le> addr \<and> addr \<le> RIGEL_RTC_END \<longleftrightarrow> unat addr \<in> {0xdc0000..0xdcffff}"
    by (simp add: word_le_nat_alt)
  have "\<not> in_cia_space (unat addr)" "unat addr \<notin> {0xdc0000..0xdcffff}" if "0xffffff < unat addr"
    using that by (auto simp: in_cia_space_def)
  then show ?thesis
    by (simp only: mmio_outcome_def if_not_P [OF a] if_not_P [OF False] address_max_nat cia_address_nat
        rtc size_nat split: if_split) blast
qed

lemma custom_not_beyond: "custom_address addr \<Longrightarrow> \<not> RIGEL_M68K_ADDRESS_MAX < addr"
  by (simp add: mmio_decode)

lemma write_outcome:
  "fst (rigel_mmio_write env ctx addr sz v) = mmio_outcome (unat addr) (unat sz)"
  "fst (rigel_mmio_write env ctx addr sz v) \<noteq> RIGEL_MMIO_HANDLED \<Longrightarrow>
     snd (rigel_mmio_write env ctx addr sz v) = ctx"
proof -
  show "fst (rigel_mmio_write env ctx addr sz v) = mmio_outcome (unat addr) (unat sz)"
    by (simp only: mmio_outcome_regions rigel_mmio_write_def Let_def if_distrib [of fst] fst_conv)
  show "snd (rigel_mmio_write env ctx addr sz v) = ctx"
    if "fst (rigel_mmio_write env ctx addr sz v) \<noteq> RIGEL_MMIO_HANDLED"
    using that by (auto simp: rigel_mmio_write_def Let_def split: if_splits)
qed

lemma read_outcome:
  "fst (rigel_mmio_read env ctx addr sz) = mmio_outcome (unat addr) (unat sz)"
  "fst (snd (rigel_mmio_read env ctx addr sz)) \<noteq> None \<longleftrightarrow>
     fst (rigel_mmio_read env ctx addr sz) = RIGEL_MMIO_HANDLED"
  "fst (rigel_mmio_read env ctx addr sz) \<noteq> RIGEL_MMIO_HANDLED \<Longrightarrow>
     snd (snd (rigel_mmio_read env ctx addr sz)) =
       (if custom_address addr \<and> sz \<notin> {1, 2, 4} then snd (custom_read_word ctx addr) else ctx)"
proof -
  show "fst (rigel_mmio_read env ctx addr sz) = mmio_outcome (unat addr) (unat sz)"
    by (simp only: mmio_outcome_regions rigel_mmio_read_def Let_def split_beta if_distrib [of fst] fst_conv)
  show "fst (snd (rigel_mmio_read env ctx addr sz)) \<noteq> None \<longleftrightarrow>
     fst (rigel_mmio_read env ctx addr sz) = RIGEL_MMIO_HANDLED"
    by (simp add: rigel_mmio_read_def Let_def split_beta)
  show "snd (snd (rigel_mmio_read env ctx addr sz)) =
       (if custom_address addr \<and> sz \<notin> {1, 2, 4} then snd (custom_read_word ctx addr) else ctx)"
    if "fst (rigel_mmio_read env ctx addr sz) \<noteq> RIGEL_MMIO_HANDLED"
    using that by (auto simp: rigel_mmio_read_def Let_def split_beta custom_not_beyond split: if_splits)
qed

text \<open>
  C6: A CPU access to the chipset is handled exactly when the address map says so: reads and
  writes of every size at every address report the outcome of \<open>mmio_outcome\<close>, a value is
  delivered exactly by a handled read, a refused write leaves the whole machine as it was, and
  so does a refused read, except that a custom register read of an odd size has performed the
  register read, with its side effects, before it is refused.
\<close>

theorem mmio_refused:
  fixes env :: "'h rigel_env" and ctx :: "('m, 'h) rigel_context" and addr :: u32 and sz :: u8
  defines "outcome \<equiv> mmio_outcome (unat addr) (unat sz)"
  shows "fst (rigel_mmio_read env ctx addr sz) = outcome \<and>
    fst (rigel_mmio_write env ctx addr sz v) = outcome \<and>
    (fst (snd (rigel_mmio_read env ctx addr sz)) \<noteq> None \<longleftrightarrow> outcome = RIGEL_MMIO_HANDLED) \<and>
    (outcome \<noteq> RIGEL_MMIO_HANDLED \<longrightarrow>
       snd (rigel_mmio_write env ctx addr sz v) = ctx \<and>
       snd (snd (rigel_mmio_read env ctx addr sz)) =
         (if unat addr \<in> {0xdff000..0xdfffff} \<and> unat sz \<notin> {1, 2, 4}
          then snd (custom_regs_read16 ctx (addr AND 0x1fe)) else ctx))"
proof -
  have "sz \<notin> {1, 2, 4} \<longleftrightarrow> unat sz \<notin> {1, 2, 4}" using size_nat [of sz] by blast
  then show ?thesis
    unfolding outcome_def
    using write_outcome [of env ctx addr sz v] read_outcome [of env ctx addr sz]
    by (simp only: custom_address_nat custom_read_word_def rigel_custom_read16_def) blast
qed

theorem mmio_refused_witness:
  "\<forall>(env :: unit rigel_env) (ctx :: (unit, unit) rigel_context) v.
     rigel_mmio_write env ctx 0xdff097 2 v = (RIGEL_MMIO_UNSUPPORTED, ctx) \<and>
     rigel_mmio_read env ctx 0xbfe001 2 = (RIGEL_MMIO_UNSUPPORTED, None, ctx) \<and>
     rigel_mmio_read env ctx 0xc00000 1 = (RIGEL_MMIO_UNMAPPED, None, ctx)"
proof (intro allI)
  fix env :: "unit rigel_env" and ctx :: "(unit, unit) rigel_context" and v :: u32
  have o: "mmio_outcome 0xdff097 2 = RIGEL_MMIO_UNSUPPORTED"
    "mmio_outcome 0xbfe001 2 = RIGEL_MMIO_UNSUPPORTED"
    "mmio_outcome 0xc00000 (Suc 0) = RIGEL_MMIO_UNMAPPED"
    by (simp_all add: mmio_outcome_def in_cia_space_def)
  show "rigel_mmio_write env ctx 0xdff097 2 v = (RIGEL_MMIO_UNSUPPORTED, ctx) \<and>
     rigel_mmio_read env ctx 0xbfe001 2 = (RIGEL_MMIO_UNSUPPORTED, None, ctx) \<and>
     rigel_mmio_read env ctx 0xc00000 1 = (RIGEL_MMIO_UNMAPPED, None, ctx)"
    using mmio_refused [of env ctx "0xdff097" 2 v] mmio_refused [of env ctx "0xbfe001" 2 v]
      mmio_refused [of env ctx "0xc00000" 1 v]
    by (auto simp: o prod_eq_iff)
qed

end
