(* ===== verification/Machine.thy ===== *)
theory Machine
  imports Mmio
begin

text \<open>
  The running machine: the copper program (\<^verbatim>\<open>agnus/copper/copper_exec.c\<close>,
  \<^verbatim>\<open>copper_service.c\<close>), the dispatch of a colour clock to its bus owner and the slot loop
  (\<^verbatim>\<open>agnus/timing/slot_scheduler.c\<close>), and the chipset step that drives it
  (\<^verbatim>\<open>agnus/agnus.c\<close>, \<^verbatim>\<open>chipset/chipset.c\<close>).  The beam and the audio unit advance by loops
  whose end is a theorem, so the steps give back an option.  Trace output is left out; its
  counters have no effect on the machine.
\<close>

unbundle bit_operations_syntax

section \<open>The copper program\<close>

abbreviation RIGEL_FRAME_COPPER_ACTIVE :: u32 where "RIGEL_FRAME_COPPER_ACTIVE \<equiv> 8"

definition copper_move_blocked :: "u16 \<Rightarrow> u32 \<Rightarrow> bool" where
  "copper_move_blocked con reg \<longleftrightarrow>
     (let cdang = (con AND 0x0002 \<noteq> 0)
      in \<not> cdang \<and> reg < 0x80 \<or> cdang \<and> reg < 0x40)"

definition copper_exec_move ::
    "'h rigel_env \<Rightarrow> ('m, 'h) rigel_context \<Rightarrow> u16 \<Rightarrow> u16 \<Rightarrow> ('m, 'h) rigel_context" where
  "copper_exec_move env ctx ir1 ir2 =
     (let reg = ucast (ir1 AND 0x01fe) :: u32
      in if copper_move_blocked (copcon (ag_copper (ctx_agnus ctx))) reg then
           on_agnus (\<lambda>a. a\<lparr>ag_copper := (ag_copper a)\<lparr>cop_waiting := False, fetch_pending := False,
             stopped_until_vbl := True\<rparr>\<rparr>) ctx
         else
           custom_regs_write16 env
             (on_denise (\<lambda>d. d\<lparr>dn_output := (dn_output d)\<lparr>
                do_pending_flags := do_pending_flags (dn_output d) OR RIGEL_FRAME_COPPER_ACTIVE\<rparr>\<rparr>) ctx)
             reg ir2)"

definition rigel_agnus_copper_fetch16 :: "('m, 'h) rigel_context \<Rightarrow> u32 \<Rightarrow> u16" where
  "rigel_agnus_copper_fetch16 ctx addr =
     (case read16 (ctx_chip_ram ctx) of None \<Rightarrow> 0 | Some rd \<Rightarrow> rd (rc_ram ctx) addr)"

definition on_copper ::
    "(copper_state \<Rightarrow> copper_state) \<Rightarrow> ('m, 'h) rigel_context \<Rightarrow> ('m, 'h) rigel_context" where
  "on_copper f = on_agnus (\<lambda>a. a\<lparr>ag_copper := f (ag_copper a)\<rparr>)"

definition copper_service_move ::
    "'h rigel_env \<Rightarrow> ('m, 'h) rigel_context \<Rightarrow> u16 \<Rightarrow> u16 \<Rightarrow> ('m, 'h) rigel_context" where
  "copper_service_move env ctx ir1 ir2 =
     (let pc_before = program_counter (ag_copper (ctx_agnus ctx));
          ctx = copper_exec_move env ctx ir1 ir2
      in if stopped_until_vbl (ag_copper (ctx_agnus ctx)) then ctx
         else on_copper (\<lambda>c. c\<lparr>
           program_counter := (if program_counter c = pc_before then program_counter c + 4
                               else program_counter c),
           cop_triggered := True, event_latched := True, fetch_pending := True\<rparr>) ctx)"

definition rigel_copper_service_step_program ::
    "'h rigel_env \<Rightarrow> ('m, 'h) rigel_context \<Rightarrow> ('m, 'h) rigel_context" where
  "rigel_copper_service_step_program env ctx =
     (let copper = ag_copper (ctx_agnus ctx); beam = ag_beam (ctx_agnus ctx) in
      if stopped_until_vbl copper then ctx
      else if \<not> cop_enabled copper \<or> \<not> fetch_pending copper then ctx
      else
        let ir1 = rigel_agnus_copper_fetch16 ctx (program_counter copper);
            ir2 = rigel_agnus_copper_fetch16 ctx (program_counter copper + 2);
            ctx = on_copper (\<lambda>c. c\<lparr>fetch_pending := False\<rparr>) ctx
        in if ir1 AND 0x0001 \<noteq> 0 then
             if ir2 AND 0x0001 \<noteq> 0 then
               let skip = copper_exec_skip_test ir1 ir2 (beam_hpos beam) (beam_vpos beam)
               in on_copper (\<lambda>c. c\<lparr>program_counter := program_counter c + (if skip then 8 else 4),
                    fetch_pending := True\<rparr>) ctx
             else on_copper (\<lambda>c. copper_wait_arm c ir1 ir2) ctx
           else copper_service_move env ctx ir1 ir2)"

section \<open>Slot dispatch\<close>

definition on_scheduler ::
    "(agnus_slot_scheduler \<Rightarrow> agnus_slot_scheduler) \<Rightarrow> ('m, 'h) rigel_context \<Rightarrow> ('m, 'h) rigel_context" where
  "on_scheduler f = on_agnus (\<lambda>a. a\<lparr>ag_scheduler := f (ag_scheduler a)\<rparr>)"

definition ctx_scheduler :: "('m, 'h) rigel_context \<Rightarrow> agnus_slot_scheduler" where
  "ctx_scheduler ctx = ag_scheduler (ctx_agnus ctx)"

definition dispatch_disk ::
    "'h rigel_env \<Rightarrow> ('m, 'h) rigel_context \<Rightarrow> ('m, 'h) rigel_context" where
  "dispatch_disk env ctx =
     (case rigel_disk_domain_step_slot (env_dsksyn env) (pa_disk (ctx_paula ctx)) (rc_ram ctx) of
        (d, m, ms) \<Rightarrow> ctx_raise ms ((on_paula (\<lambda>p. p\<lparr>pa_disk := d\<rparr>) ctx)\<lparr>rc_ram := m\<rparr>))"

text \<open>No sink is ever attached to the audio unit, so its list of raised masks is empty.\<close>

definition dispatch_audio :: "nat \<Rightarrow> ('m, 'h) rigel_context \<Rightarrow> ('m, 'h) rigel_context" where
  "dispatch_audio channel ctx =
     (case rigel_audio_domain_step_slot (pa_audio (ctx_paula ctx)) channel (ctx_chip_ram ctx) (rc_ram ctx) of
        (a, ms) \<Rightarrow> ctx_raise ms (on_paula (\<lambda>p. p\<lparr>pa_audio := a\<rparr>) ctx))"

definition dispatch_sprite :: "nat \<Rightarrow> u16 \<Rightarrow> ('m, 'h) rigel_context \<Rightarrow> ('m, 'h) rigel_context" where
  "dispatch_sprite sp hpos ctx =
     (let ag = ctx_agnus ctx; is_b = (hpos AND 2 \<noteq> 0) in
      case sprite_dma_slot (ag_sprite_dma ag) sp (beam_vpos (ag_beam ag)) is_b (ctx_chip_ram ctx) (rc_ram ctx) of
        (s, out) \<Rightarrow>
          let ctx = on_agnus (\<lambda>a. a\<lparr>ag_sprite_dma := s\<rparr>) ctx
          in case out of
               None \<Rightarrow> ctx
             | Some (w0, w1, is_ctrl) \<Rightarrow>
                 on_denise (\<lambda>d. d\<lparr>dn_sprites :=
                   (if is_ctrl then denise_sprite_receive_ctrl (dn_sprites d) sp w0 w1
                    else denise_sprite_receive_data (dn_sprites d) sp w0 w1)\<rparr>) ctx)"

definition bitplane_slot_logical :: "agnus_slot_scheduler \<Rightarrow> u16 \<Rightarrow> u16" where
  "bitplane_slot_logical sched hpos =
     (let logical = (if unat hpos < AGNUS_SLOTS_PER_LINE
                     then ss_bitplane_slot_index sched ! unat hpos else 0xffff)
      in if logical = 0xffff then ss_fetch_plane_index sched else logical)"

definition latch_bitplane_base :: "bitplane_pointers \<Rightarrow> agnus_slot_scheduler \<Rightarrow> agnus_slot_scheduler" where
  "latch_bitplane_base bplpt sched =
     (if \<not> ss_bitplane_line_base_valid sched then
        sched\<lparr>ss_bitplane_line_base := map (\<lambda>p. bplpt ! p AND 0x001ffffe) [0..<BITPLANE_COUNT],
              ss_bitplane_line_depth := ss_depth sched, ss_bitplane_line_base_valid := True\<rparr>
      else sched)"

definition bitplane_slot_done :: "u16 \<Rightarrow> u16 \<Rightarrow> agnus_slot_scheduler \<Rightarrow> agnus_slot_scheduler" where
  "bitplane_slot_done logical widx sched =
     sched\<lparr>ss_bitplane_dma_this_line := True,
           ss_bitplane_words_this_line :=
             (if widx + 1 > ss_bitplane_words_this_line sched then widx + 1
              else ss_bitplane_words_this_line sched),
           ss_fetch_plane_index := logical + 1\<rparr>"

definition dispatch_bitplane :: "u16 \<Rightarrow> ('m, 'h) rigel_context \<Rightarrow> ('m, 'h) rigel_context" where
  "dispatch_bitplane hpos ctx =
     (let depth = unat (ss_depth (ctx_scheduler ctx));
          logical = bitplane_slot_logical (ctx_scheduler ctx) hpos;
          plane = (if depth > 0 then unat logical mod depth else 0);
          widx = (if depth > 0 then of_nat (unat logical div depth) else 0) :: u16
      in if depth > 0 \<and> depth \<le> 6 \<and> plane < depth \<and> unat widx < RIGEL_DENISE_MAX_PLANE_WORDS then
           let ctx = on_scheduler (latch_bitplane_base (ag_bplpt (ctx_agnus ctx))) ctx;
               ctx = on_denise denise_latch_line ctx;
               addr = (ss_bitplane_line_base (ctx_scheduler ctx) ! plane + ucast widx * 2) AND 0x001ffffe;
               v = (case read16 (ctx_chip_ram ctx) of None \<Rightarrow> 0 | Some rd \<Rightarrow> rd (rc_ram ctx) addr);
               ctx = on_agnus (\<lambda>a. a\<lparr>ag_fetch := (ag_fetch a)[plane := v]\<rparr>) ctx;
               ctx = on_denise (denise_store_plane_word plane widx v) ctx
           in on_scheduler (bitplane_slot_done logical widx) ctx
         else ctx)"

definition dispatch_slot ::
    "'h rigel_env \<Rightarrow> agnus_slot_owner \<Rightarrow> ('m, 'h) rigel_context \<Rightarrow> u16 \<Rightarrow> ('m, 'h) rigel_context" where
  "dispatch_slot env owner ctx hpos =
     (case owner of
        AGNUS_SLOT_FREE \<Rightarrow> ctx
      | AGNUS_SLOT_CPU \<Rightarrow> ctx
      | AGNUS_SLOT_REFRESH \<Rightarrow> on_agnus (\<lambda>a. a\<lparr>ag_refresh := refresh_dma_step (ag_refresh a) 1\<rparr>) ctx
      | AGNUS_SLOT_DISK \<Rightarrow> dispatch_disk env ctx
      | AGNUS_SLOT_AUDIO_0 \<Rightarrow> dispatch_audio 0 ctx
      | AGNUS_SLOT_AUDIO_1 \<Rightarrow> dispatch_audio 1 ctx
      | AGNUS_SLOT_AUDIO_2 \<Rightarrow> dispatch_audio 2 ctx
      | AGNUS_SLOT_AUDIO_3 \<Rightarrow> dispatch_audio 3 ctx
      | AGNUS_SLOT_SPRITE_0 \<Rightarrow> dispatch_sprite 0 hpos ctx
      | AGNUS_SLOT_SPRITE_1 \<Rightarrow> dispatch_sprite 1 hpos ctx
      | AGNUS_SLOT_SPRITE_2 \<Rightarrow> dispatch_sprite 2 hpos ctx
      | AGNUS_SLOT_SPRITE_3 \<Rightarrow> dispatch_sprite 3 hpos ctx
      | AGNUS_SLOT_SPRITE_4 \<Rightarrow> dispatch_sprite 4 hpos ctx
      | AGNUS_SLOT_SPRITE_5 \<Rightarrow> dispatch_sprite 5 hpos ctx
      | AGNUS_SLOT_SPRITE_6 \<Rightarrow> dispatch_sprite 6 hpos ctx
      | AGNUS_SLOT_SPRITE_7 \<Rightarrow> dispatch_sprite 7 hpos ctx
      | AGNUS_SLOT_BITPLANE \<Rightarrow> dispatch_bitplane hpos ctx
      | AGNUS_SLOT_COPPER \<Rightarrow> rigel_copper_service_step_program env ctx
      | AGNUS_SLOT_BLITTER \<Rightarrow> rigel_agnus_blitter_step_dma ctx 1)"

section \<open>One colour clock\<close>

text \<open>The dynamic flags of the scheduler, with the copper's WAIT comparison.\<close>

definition slot_sync :: "rigel_agnus \<Rightarrow> rigel_agnus" where
  "slot_sync ag =
     (let live = rigel_dma_domain_read_dmacon (ag_dma ag);
          busy = blitter_is_busy (ag_blitter ag);
          sched = ag_scheduler ag;
          sched = (if ss_dmacon sched \<noteq> live then sched\<lparr>ss_dmacon := live, ss_table_dirty := True\<rparr> else sched);
          sched = sched\<lparr>ss_blitter_active := busy \<and> dmacon_blten (ss_dmacon sched),
                        ss_copper_active := dmacon_copen (ss_dmacon sched)\<rparr>;
          copper = rigel_copper_domain_step (ag_copper ag) (ag_beam ag) (ag_dma ag) busy;
          sched = sched\<lparr>ss_copper_request := ss_copper_active sched \<and> fetch_pending copper,
                        ss_blitter_nasty := (ss_dmacon sched AND DMACON_BLTPRI \<noteq> 0),
                        ss_hpos := beam_hpos (ag_beam ag)\<rparr>
      in ag\<lparr>ag_scheduler := sched, ag_copper := copper\<rparr>)"

definition slot_rebuild :: "rigel_agnus \<Rightarrow> rigel_agnus" where
  "slot_rebuild ag =
     (if ss_table_dirty (ag_scheduler ag)
      then ag\<lparr>ag_scheduler := agnus_slot_scheduler_rebuild (ag_scheduler ag)
                (beam_vpos (ag_beam ag)) (Some (ag_refresh ag))\<rparr>
      else ag)"

definition slot_table_owner :: "agnus_slot_scheduler \<Rightarrow> agnus_slot_owner" where
  "slot_table_owner sched =
     ss_table sched ! (if unat (ss_hpos sched) < AGNUS_SLOTS_PER_LINE then unat (ss_hpos sched) else 0)"

text \<open>An active disk transfer takes any slot but refresh, and switches DSKEN back on.\<close>

definition slot_disk_priority ::
    "'h rigel_env \<Rightarrow> ('m, 'h) rigel_context \<Rightarrow> agnus_slot_owner \<Rightarrow> agnus_slot_owner \<times> ('m, 'h) rigel_context" where
  "slot_disk_priority env ctx owner =
     (if owner \<noteq> AGNUS_SLOT_REFRESH \<and> env_disk_legacy_priority env \<and>
         dmacon_master (ss_dmacon (ctx_scheduler ctx)) \<and>
         rigel_disk_domain_dma_wants_service (pa_disk (ctx_paula ctx))
      then (AGNUS_SLOT_DISK,
            if \<not> dmacon_dsken (ss_dmacon (ctx_scheduler ctx)) then
              let ctx = on_agnus (\<lambda>a. a\<lparr>ag_dma :=
                    rigel_dma_domain_write_dmacon (ag_dma a) (DMACON_SETCLR OR DMACON_DSKEN)\<rparr>) ctx
              in on_scheduler (\<lambda>s. s\<lparr>ss_dmacon := rigel_dma_domain_read_dmacon (ag_dma (ctx_agnus ctx)),
                   ss_table_dirty := True\<rparr>) ctx
            else ctx)
      else (owner, ctx))"

definition slot_line_end :: "('m, 'h) rigel_context \<Rightarrow> ('m, 'h) rigel_context" where
  "slot_line_end ctx =
     (let sched = ctx_scheduler ctx;
          line_depth = unat (ss_bitplane_line_depth sched);
          advance = ucast (ss_bitplane_words_this_line sched) * 2 :: u32;
          reload = (\<lambda>pt. if ss_bitplane_line_base_valid sched
                         then fold (\<lambda>p pt. pt[p := (ss_bitplane_line_base sched ! p + advance) AND 0x001ffffe])
                                [0..<min line_depth BITPLANE_COUNT] pt
                         else pt);
          ctx = (if ss_bitplane_dma_this_line sched
                 then on_agnus (\<lambda>a. a\<lparr>ag_bplpt := bplpt_apply_modulo (reload (ag_bplpt a)) line_depth
                        (ctx_read_reg ctx AGNUS_BPLMOD1) (ctx_read_reg ctx AGNUS_BPLMOD2)\<rparr>) ctx
                 else ctx)
      in on_scheduler (\<lambda>s. s\<lparr>ss_table_dirty := True, ss_fetch_plane_index := 0,
           ss_bitplane_dma_this_line := False, ss_bitplane_words_this_line := 0,
           ss_bitplane_line_depth := 0, ss_bitplane_line_base_valid := False\<rparr>) ctx)"

abbreviation AGNUS_INTB_VERTB :: u16 where "AGNUS_INTB_VERTB \<equiv> 0x0020"

definition agnus_irq_raise_vblank :: "('m, 'h) rigel_context \<Rightarrow> ('m, 'h) rigel_context" where
  "agnus_irq_raise_vblank ctx =
     on_chipset (\<lambda>ch. rigel_chipset_raise_irq_source ch AGNUS_INTB_VERTB) ctx"

definition slot_vertb :: "('m, 'h) rigel_context \<Rightarrow> ('m, 'h) rigel_context" where
  "slot_vertb ctx =
     (let ctx = agnus_irq_raise_vblank ctx;
          ctx = on_agnus (\<lambda>a. a\<lparr>ag_sprite_dma := sprite_dma_frame_start (ag_sprite_dma a)\<rparr>) ctx;
          ctx = on_denise (\<lambda>d. d\<lparr>dn_sprites := denise_sprites_reset\<rparr>) ctx
      in if dmacon_copen (ss_dmacon (ctx_scheduler ctx))
         then on_copper rigel_copper_domain_vbl_reload ctx else ctx)"

definition slot_beam_tail :: "('m, 'h) rigel_context \<Rightarrow> beam_state \<Rightarrow> ('m, 'h) rigel_context" where
  "slot_beam_tail ctx beam =
     (let ctx = on_agnus (\<lambda>a. a\<lparr>ag_beam := beam\<rparr>) ctx;
          ctx = on_scheduler (\<lambda>s. s\<lparr>ss_hpos := beam_hpos beam\<rparr>) ctx;
          (d, stores) = rigel_denise_step (ctx_denise ctx) beam 1;
          ctx = (on_denise (\<lambda>_. d) ctx)\<lparr>rc_stores := rc_stores ctx @ stores\<rparr>;
          ctx = (if beam_hpos beam = 0 then slot_line_end ctx else ctx)
      in if agnus_is_vertb_position (beam_hpos beam) (beam_vpos beam) then slot_vertb ctx else ctx)"

definition slot_dispatch :: "'h rigel_env \<Rightarrow> ('m, 'h) rigel_context \<Rightarrow> ('m, 'h) rigel_context" where
  "slot_dispatch env ctx =
     (let ctx = on_agnus (\<lambda>a. slot_rebuild (slot_sync a)) ctx;
          hpos = ss_hpos (ctx_scheduler ctx);
          (owner, ctx) = slot_disk_priority env ctx (slot_table_owner (ctx_scheduler ctx))
      in dispatch_slot env (slot_override (ctx_scheduler ctx) owner) ctx hpos)"

definition agnus_slot_scheduler_step ::
    "'h rigel_env \<Rightarrow> ('m, 'h) rigel_context \<Rightarrow> ('m, 'h) rigel_context option" where
  "agnus_slot_scheduler_step env ctx =
     (let ctx = slot_dispatch env ctx
      in map_option (slot_beam_tail ctx) (rigel_beam_domain_step (ag_beam (ctx_agnus ctx)) 1))"

text \<open>A scheduler without a context only keeps its table and position.\<close>

definition agnus_slot_scheduler_step_alone :: "agnus_slot_scheduler \<Rightarrow> u16 \<Rightarrow> agnus_slot_scheduler" where
  "agnus_slot_scheduler_step_alone sched line_clocks =
     (let sched = (if ss_table_dirty sched then agnus_slot_scheduler_rebuild sched 0 None else sched);
          hpos = ss_hpos sched + 1
      in if hpos \<ge> line_clocks then sched\<lparr>ss_table_dirty := True, ss_hpos := 0\<rparr>
         else sched\<lparr>ss_hpos := hpos\<rparr>)"

primrec slot_steps ::
    "'h rigel_env \<Rightarrow> nat \<Rightarrow> ('m, 'h) rigel_context \<Rightarrow> ('m, 'h) rigel_context option" where
  "slot_steps env 0 ctx = Some ctx"
| "slot_steps env (Suc n) ctx = Option.bind (agnus_slot_scheduler_step env ctx) (slot_steps env n)"

definition agnus_slot_scheduler_step_until ::
    "'h rigel_env \<Rightarrow> ('m, 'h) rigel_context \<Rightarrow> u32 \<Rightarrow> ('m, 'h) rigel_context option" where
  "agnus_slot_scheduler_step_until env ctx cycles = slot_steps env (unat cycles) ctx"

definition rigel_agnus_step ::
    "'h rigel_env \<Rightarrow> ('m, 'h) rigel_context \<Rightarrow> u32 \<Rightarrow> ('m, 'h) rigel_context option" where
  "rigel_agnus_step env ctx cycles =
     (if cycles = 0 then Some ctx
      else agnus_slot_scheduler_step_until env
             (on_agnus (\<lambda>a. a\<lparr>ag_dma := rigel_dma_domain_sync_dmacon (ag_dma a) (dma_dmacon (ag_dma a))\<rparr>) ctx)
             cycles)"

section \<open>The chipset step\<close>

definition rigel_timing_advance :: "u64 \<Rightarrow> u32 \<Rightarrow> u64" where
  "rigel_timing_advance current delta = current + ucast delta"

abbreviation CIA_CCK_PER_ECLOCK :: u32 where "CIA_CCK_PER_ECLOCK \<equiv> 5"

definition paula_step_ctx :: "('m, 'h) rigel_context \<Rightarrow> u32 \<Rightarrow> ('m, 'h) rigel_context option" where
  "paula_step_ctx ctx cycles =
     map_option (\<lambda>(p, ms). ctx_raise ms (on_paula (\<lambda>_. p) ctx)) (rigel_paula_step (ctx_paula ctx) cycles)"

definition chipset_tod_pulses :: "beam_state \<Rightarrow> ('m, 'h) rigel_context \<Rightarrow> ('m, 'h) rigel_context" where
  "chipset_tod_pulses before ctx =
     (let beam = ag_beam (ctx_agnus ctx);
          ctx = (if \<not> beam_in_vblank before \<and> beam_in_vblank beam
                 then on_chipset (on_cia 0 (\<lambda>s. cia_tod_pulse s 1)) ctx else ctx);
          lines = ucast (beam_frame_lines before) :: u64;
          pulses = (beam_frame_count beam * lines + ucast (beam_vpos beam)) -
                   (beam_frame_count before * lines + ucast (beam_vpos before))
      in if beam_frame_lines before \<noteq> 0 \<and> pulses > 0
         then on_chipset (on_cia 1 (\<lambda>s. cia_tod_pulse s (ucast pulses))) ctx else ctx)"

definition chipset_cia_steps :: "u32 \<Rightarrow> ('m, 'h) rigel_chipset \<Rightarrow> ('m, 'h) rigel_chipset" where
  "chipset_cia_steps cycles ch =
     (let total = ch_cia_eclock_rem ch + cycles;
          ticks = total div CIA_CCK_PER_ECLOCK;
          ch = ch\<lparr>ch_cia_eclock_rem := total mod CIA_CCK_PER_ECLOCK\<rparr>
      in if ticks > 0
         then on_cia 1 (\<lambda>s. cia_step s (ucast ticks)) (on_cia 0 (\<lambda>s. cia_step s (ucast ticks)) ch)
         else ch)"

definition rigel_chipset_step ::
    "'h rigel_env \<Rightarrow> ('m, 'h) rigel_context \<Rightarrow> u32 \<Rightarrow> ('m, 'h) rigel_context option" where
  "rigel_chipset_step env ctx cycles =
     (let ctx = on_chipset (\<lambda>ch. ch\<lparr>ch_cycles := rigel_timing_advance (ch_cycles ch) cycles\<rparr>) ctx;
          before = ag_beam (ctx_agnus ctx);
          ctx = on_paula (\<lambda>p. rigel_paula_set_dmacon p (dma_dmacon (ag_dma (ctx_agnus ctx)))) ctx
      in Option.bind (rigel_agnus_step env ctx cycles) (\<lambda>ctx.
           map_option (\<lambda>ctx. on_chipset (chipset_cia_steps cycles) (chipset_tod_pulses before ctx))
             (paula_step_ctx ctx cycles)))"

record rigel_snapshot =
  snap_cycles :: u64
  snap_intreq :: u16
  snap_intena :: u16

definition rigel_chipset_take_snapshot :: "('m, 'h) rigel_chipset \<Rightarrow> rigel_snapshot" where
  "rigel_chipset_take_snapshot ch =
     \<lparr>snap_cycles = ch_cycles ch, snap_intreq = intreq (pa_interrupts (ch_paula ch)),
      snap_intena = intena (pa_interrupts (ch_paula ch))\<rparr>"

definition rigel_chipset_floppy_drive :: "u32 \<Rightarrow> nat option" where
  "rigel_chipset_floppy_drive drive = (if drive < 4 then Some (unat drive) else None)"

end
