(* ===== verification/Rigel_Api.thy ===== *)
theory Rigel_Api
  imports Machine
begin

text \<open>
  The public interface over the context (\<^verbatim>\<open>src/core/rigel.c\<close>, \<^verbatim>\<open>core/rigel_audio_api.c\<close>,
  \<^verbatim>\<open>core/rigel_serial_api.c\<close>, \<^verbatim>\<open>irq/rigel_irq.c\<close>, \<^verbatim>\<open>runtime\<close>): time, deadlines, stepping
  with its event report, snapshots, input, drives, clock and the view of the bus.
\<close>

unbundle bit_operations_syntax

section \<open>Paula's view of the interrupt controller\<close>

definition rigel_paula_interrupts_read_intena :: "RigelInterruptDomain \<Rightarrow> u16" where
  "rigel_paula_interrupts_read_intena irq = rigel_interrupt_domain_read_intena irq"

definition rigel_paula_interrupts_read_intreq :: "RigelInterruptDomain \<Rightarrow> u16" where
  "rigel_paula_interrupts_read_intreq irq = rigel_interrupt_domain_read_intreq irq"

definition rigel_paula_interrupts_write_intena :: "RigelInterruptDomain \<Rightarrow> u16 \<Rightarrow> RigelInterruptDomain" where
  "rigel_paula_interrupts_write_intena irq v = rigel_interrupt_domain_write_intena irq v"

definition rigel_paula_interrupts_write_intreq :: "RigelInterruptDomain \<Rightarrow> u16 \<Rightarrow> RigelInterruptDomain" where
  "rigel_paula_interrupts_write_intreq irq v = rigel_interrupt_domain_write_intreq irq v"

definition rigel_paula_interrupts_current_ipl :: "RigelInterruptDomain \<Rightarrow> u8" where
  "rigel_paula_interrupts_current_ipl irq = rigel_interrupt_domain_current_ipl irq"

section \<open>Clock rates and geometry\<close>

abbreviation RIGEL_CLOCK_HZ_PAL :: u32 where "RIGEL_CLOCK_HZ_PAL \<equiv> 7093790"
abbreviation RIGEL_CLOCK_HZ_NTSC :: u32 where "RIGEL_CLOCK_HZ_NTSC \<equiv> 7159090"

definition rigel_set_cycle_exact :: "('m, 'h) rigel_context \<Rightarrow> bool \<Rightarrow> ('m, 'h) rigel_context" where
  "rigel_set_cycle_exact ctx on =
     on_agnus (\<lambda>a. a\<lparr>ag_blitter := (ag_blitter a)\<lparr>blt_cycle_exact := on\<rparr>\<rparr>)
       (ctx\<lparr>rc_config := (rc_config ctx)\<lparr>cfg_cycle_exact := on\<rparr>\<rparr>)"

definition rigel_get_cycle_exact :: "('m, 'h) rigel_context \<Rightarrow> bool" where
  "rigel_get_cycle_exact ctx = cfg_cycle_exact (rc_config ctx)"

definition rigel_get_clock_hz :: "('m, 'h) rigel_context \<Rightarrow> u32" where
  "rigel_get_clock_hz ctx =
     (if cfg_clock_hz (rc_config ctx) \<noteq> 0 then cfg_clock_hz (rc_config ctx)
      else if cfg_video_std (rc_config ctx) = RIGEL_VIDEO_PAL then RIGEL_CLOCK_HZ_PAL
      else RIGEL_CLOCK_HZ_NTSC)"

definition rigel_get_line_cycles :: "('m, 'h) rigel_context \<Rightarrow> u32" where
  "rigel_get_line_cycles ctx =
     (let b = ag_beam (ctx_agnus ctx)
      in if beam_line_clocks b = 0 then ucast RIGEL_BEAM_DEFAULT_LINE_CLOCKS
         else ucast (beam_line_clocks b))"

definition rigel_get_frame_cycles :: "('m, 'h) rigel_context \<Rightarrow> u32" where
  "rigel_get_frame_cycles ctx =
     (let b = ag_beam (ctx_agnus ctx);
          frame_lines = (if beam_frame_lines b = 0 then ucast RIGEL_BEAM_DEFAULT_FRAME_LINES
                         else ucast (beam_frame_lines b))
      in rigel_get_line_cycles ctx * frame_lines)"

definition rigel_cycles_to_us :: "u64 \<Rightarrow> u32 \<Rightarrow> u64" where
  "rigel_cycles_to_us cycles clock_hz =
     (let hz = (if clock_hz = 0 then RIGEL_CLOCK_HZ_PAL else clock_hz)
      in (cycles * 1000000) div ucast hz)"

definition rigel_us_to_cycles :: "u64 \<Rightarrow> u32 \<Rightarrow> u64" where
  "rigel_us_to_cycles microseconds clock_hz =
     (let hz = (if clock_hz = 0 then RIGEL_CLOCK_HZ_PAL else clock_hz)
      in (microseconds * ucast hz) div 1000000)"

definition rigel_get_time :: "('m, 'h) rigel_context \<Rightarrow> u64" where
  "rigel_get_time ctx = ch_cycles (rc_chipset ctx)"

section \<open>Deadlines\<close>

definition rigel_get_deadline :: "('m, 'h) rigel_context \<Rightarrow> bool \<Rightarrow> u64" where
  "rigel_get_deadline ctx include_internal_slot =
     (let ag = ctx_agnus ctx; b = ag_beam ag;
          d = agnus_deadlines_reset;
          d = (if blitter_is_busy (ag_blitter ag)
               then d\<lparr>dl_blitter := cycles_remaining (ag_blitter ag)\<rparr> else d);
          line_end = beam_cycles_until_line_end b;
          line_end = (if line_end = 0 then RIGEL_BEAM_DEFAULT_LINE_CLOCKS else line_end);
          d = d\<lparr>dl_beam_line_end := ucast line_end,
                dl_vertb := agnus_cycles_to_vertb b,
                dl_copper_wait := rigel_copper_domain_cycles_to_wait (ag_copper ag) b,
                dl_audio := audio_cycles_to_next_event (pa_audio (ctx_paula ctx)),
                dl_disk := disk_cycles_to_next_event (pa_disk (ctx_paula ctx))\<rparr>;
          d = (if include_internal_slot
               then d\<lparr>dl_slot := agnus_slot_scheduler_next_event (ag_scheduler ag) (beam_line_clocks b)\<rparr>
               else d)
      in ch_cycles (rc_chipset ctx) + ucast (agnus_deadlines_min d))"

definition rigel_get_next_deadline :: "('m, 'h) rigel_context \<Rightarrow> u64" where
  "rigel_get_next_deadline ctx = rigel_get_deadline ctx True"

definition rigel_get_next_observable_deadline :: "('m, 'h) rigel_context \<Rightarrow> u64" where
  "rigel_get_next_observable_deadline ctx = rigel_get_deadline ctx False"

section \<open>Stepping\<close>

abbreviation RIGEL_EVENT_NONE :: u32 where "RIGEL_EVENT_NONE \<equiv> 0"
abbreviation RIGEL_EVENT_IRQ_CHANGED :: u32 where "RIGEL_EVENT_IRQ_CHANGED \<equiv> 0x002"
abbreviation RIGEL_EVENT_FRAME_READY :: u32 where "RIGEL_EVENT_FRAME_READY \<equiv> 0x004"
abbreviation RIGEL_EVENT_AUDIO_READY :: u32 where "RIGEL_EVENT_AUDIO_READY \<equiv> 0x008"
abbreviation RIGEL_EVENT_BLIT_DONE :: u32 where "RIGEL_EVENT_BLIT_DONE \<equiv> 0x040"
abbreviation RIGEL_EVENT_COPPER :: u32 where "RIGEL_EVENT_COPPER \<equiv> 0x080"
abbreviation RIGEL_EVENT_VBLANK :: u32 where "RIGEL_EVENT_VBLANK \<equiv> 0x100"
abbreviation RIGEL_EVENT_HBLANK :: u32 where "RIGEL_EVENT_HBLANK \<equiv> 0x200"

record rigel_step_result =
  sr_time :: u64
  sr_events :: u32

definition event_if :: "bool \<Rightarrow> u32 \<Rightarrow> u32" where
  "event_if c e = (if c then e else 0)"

definition ctx_ipl :: "('m, 'h) rigel_context \<Rightarrow> u8" where
  "ctx_ipl ctx = rigel_paula_interrupts_current_ipl (pa_interrupts (ctx_paula ctx))"

text \<open>What happened between two contexts, as the event mask reports it.\<close>

definition step_events :: "('m, 'h) rigel_context \<Rightarrow> ('m, 'h) rigel_context \<Rightarrow> u32" where
  "step_events old new =
     (let b0 = ag_beam (ctx_agnus old); b1 = ag_beam (ctx_agnus new) in
      event_if (ctx_ipl new \<noteq> ctx_ipl old) RIGEL_EVENT_IRQ_CHANGED OR
      event_if (blitter_is_busy (ag_blitter (ctx_agnus old)) \<and>
                \<not> blitter_is_busy (ag_blitter (ctx_agnus new))) RIGEL_EVENT_BLIT_DONE OR
      event_if (event_latched (ag_copper (ctx_agnus new))) RIGEL_EVENT_COPPER OR
      event_if (beam_frame_count b1 \<noteq> beam_frame_count b0) RIGEL_EVENT_FRAME_READY OR
      event_if (beam_vpos b1 \<noteq> beam_vpos b0 \<or> beam_frame_count b1 \<noteq> beam_frame_count b0)
        RIGEL_EVENT_HBLANK OR
      event_if (\<not> beam_in_vblank b0 \<and> beam_in_vblank b1) RIGEL_EVENT_VBLANK OR
      event_if (au_sample_ready (pa_audio (ctx_paula new))) RIGEL_EVENT_AUDIO_READY)"

definition rigel_step ::
    "'h rigel_env \<Rightarrow> ('m, 'h) rigel_context \<Rightarrow> u64 \<Rightarrow> (rigel_step_result \<times> ('m, 'h) rigel_context) option" where
  "rigel_step env ctx cycles =
     (let old = on_copper (\<lambda>c. c\<lparr>event_latched := False\<rparr>) ctx
      in map_option (\<lambda>new.
           (\<lparr>sr_time = ch_cycles (rc_chipset new), sr_events = step_events old new\<rparr>,
            on_paula (\<lambda>p. p\<lparr>pa_audio := (pa_audio p)\<lparr>au_sample_ready := False\<rparr>\<rparr>) new))
         (rigel_chipset_step env old (ucast cycles)))"

definition rigel_step_until ::
    "'h rigel_env \<Rightarrow> ('m, 'h) rigel_context \<Rightarrow> u64 \<Rightarrow> (rigel_step_result \<times> ('m, 'h) rigel_context) option" where
  "rigel_step_until env ctx target_time =
     (let current = ch_cycles (rc_chipset ctx)
      in if target_time \<le> current then Some (\<lparr>sr_time = current, sr_events = RIGEL_EVENT_NONE\<rparr>, ctx)
         else rigel_step env ctx (target_time - current))"

definition rigel_runtime_run_frame ::
    "'h rigel_env \<Rightarrow> ('m, 'h) rigel_context \<Rightarrow> ('m, 'h) rigel_context option" where
  "rigel_runtime_run_frame env ctx = map_option snd (rigel_step env ctx 1)"

primrec single_thread_pump ::
    "'h rigel_env \<Rightarrow> nat \<Rightarrow> ('m, 'h) rigel_context \<Rightarrow> ('m, 'h) rigel_context option" where
  "single_thread_pump env 0 ctx = Some ctx"
| "single_thread_pump env (Suc n) ctx =
     Option.bind (rigel_runtime_run_frame env ctx) (single_thread_pump env n)"

section \<open>Snapshots\<close>

definition rigel_take_snapshot :: "('m, 'h) rigel_context \<Rightarrow> rigel_snapshot" where
  "rigel_take_snapshot ctx = rigel_chipset_take_snapshot (rc_chipset ctx)"

text \<open>The buffer holds the structure; a buffer that is too short is refused.\<close>

definition rigel_save_state :: "('m, 'h) rigel_context \<Rightarrow> nat \<Rightarrow> nat \<Rightarrow> rigel_snapshot option" where
  "rigel_save_state ctx snapshot_size buffer_size =
     (if buffer_size < snapshot_size then None else Some (rigel_take_snapshot ctx))"

abbreviation RIGEL_PAULA_INT_SETCLR :: u16 where "RIGEL_PAULA_INT_SETCLR \<equiv> 0x8000"

definition rigel_load_state ::
    "('m, 'h) rigel_context \<Rightarrow> rigel_snapshot \<Rightarrow> nat \<Rightarrow> nat \<Rightarrow> ('m, 'h) rigel_context option" where
  "rigel_load_state ctx snapshot snapshot_size buffer_size =
     (if buffer_size < snapshot_size then None
      else
        let ctx = on_chipset (\<lambda>ch. ch\<lparr>ch_cycles := snap_cycles snapshot\<rparr>) ctx;
            ctx = on_paula (\<lambda>p. p\<lparr>pa_interrupts := rigel_paula_interrupts_write_intena (pa_interrupts p)
                    (RIGEL_PAULA_INT_SETCLR OR snap_intena snapshot)\<rparr>) ctx;
            ctx = on_paula (\<lambda>p. p\<lparr>pa_interrupts := rigel_paula_interrupts_write_intreq (pa_interrupts p)
                    (RIGEL_PAULA_INT_SETCLR OR snap_intreq snapshot)\<rparr>) ctx;
            ctx = ctx_write_reg 0x009a (rigel_paula_interrupts_read_intena (pa_interrupts (ctx_paula ctx))) ctx
        in Some (ctx_write_reg 0x009c (rigel_paula_interrupts_read_intreq (pa_interrupts (ctx_paula ctx))) ctx))"

section \<open>Input\<close>

definition rigel_input_set_joydat ::
    "('m, 'h) rigel_context \<Rightarrow> u32 \<Rightarrow> u16 \<Rightarrow> ('m, 'h) rigel_context" where
  "rigel_input_set_joydat ctx port value = on_paula (\<lambda>p. rigel_paula_set_joydat p port value) ctx"

definition rigel_input_set_pot_button_x ::
    "('m, 'h) rigel_context \<Rightarrow> u32 \<Rightarrow> bool \<Rightarrow> ('m, 'h) rigel_context" where
  "rigel_input_set_pot_button_x ctx port pressed =
     on_paula (\<lambda>p. rigel_paula_set_pot_button_x p port pressed) ctx"

definition rigel_input_set_pot_button_y ::
    "('m, 'h) rigel_context \<Rightarrow> u32 \<Rightarrow> bool \<Rightarrow> ('m, 'h) rigel_context" where
  "rigel_input_set_pot_button_y ctx port pressed =
     on_paula (\<lambda>p. rigel_paula_set_pot_button_y p port pressed) ctx"

definition set_cia_a_external_pra :: "u8 \<Rightarrow> ('m, 'h) rigel_chipset \<Rightarrow> ('m, 'h) rigel_chipset" where
  "set_cia_a_external_pra v ch = ch\<lparr>ch_cia := (ch_cia ch)[0 := cia_set_external_pra (ch_cia ch ! 0) v]\<rparr>"

definition rigel_input_set_fire ::
    "('m, 'h) rigel_context \<Rightarrow> u32 \<Rightarrow> bool \<Rightarrow> ('m, 'h) rigel_context" where
  "rigel_input_set_fire ctx port pressed =
     (if port > 1 then ctx
      else
        let p = cia_port_a_value (ch_cia (rc_chipset ctx) ! 0);
            line = (if port = 0 then 0x40 else 0x80)
        in on_chipset (set_cia_a_external_pra (if pressed then p AND NOT line else p OR line)) ctx)"

section \<open>Drives\<close>

datatype rigel_status = RIGEL_STATUS_OK | RIGEL_STATUS_ERROR

definition rigel_sync_floppy_cia_lines :: "('m, 'h) rigel_chipset \<Rightarrow> ('m, 'h) rigel_chipset" where
  "rigel_sync_floppy_cia_lines ch =
     (let p = cia_port_b_value (ch_cia ch ! 1);
          sel = filter (prb_select p) [0..<4];
          active = (case sel of [] \<Rightarrow> 0 | i # _ \<Rightarrow> i);
          ch = ch\<lparr>ch_paula := rigel_paula_set_disk_drive (ch_paula ch) (Some active)\<rparr>;
          v = cia_port_a_value (ch_cia ch ! 0) OR 0x3c;
          v = (if length sel = 1 then drive_status_pra (p AND 0x80 = 0) (ch_floppy ch ! active) v else v)
      in set_cia_a_external_pra v ch)"

text \<open>An image is its bytes (a null pointer is \<^term>\<open>None\<close>) with the size the host states.\<close>

definition rigel_floppy_insert ::
    "('m, 'h) rigel_context \<Rightarrow> u32 \<Rightarrow> u8 list option \<Rightarrow> u32 \<Rightarrow> rigel_status \<times> ('m, 'h) rigel_context" where
  "rigel_floppy_insert ctx drive data sz =
     (if data = None \<or> sz = 0 then (RIGEL_STATUS_ERROR, ctx)
      else case rigel_chipset_floppy_drive drive of
        None \<Rightarrow> (RIGEL_STATUS_ERROR, ctx)
      | Some i \<Rightarrow>
          (RIGEL_STATUS_OK,
           on_chipset (\<lambda>ch. rigel_sync_floppy_cia_lines
             (ch\<lparr>ch_floppy := (ch_floppy ch)[i := floppy_insert (ch_floppy ch ! i) data sz]\<rparr>)) ctx))"

definition rigel_floppy_eject :: "('m, 'h) rigel_context \<Rightarrow> u32 \<Rightarrow> ('m, 'h) rigel_context" where
  "rigel_floppy_eject ctx drive =
     (case rigel_chipset_floppy_drive drive of
        None \<Rightarrow> ctx
      | Some i \<Rightarrow>
          on_chipset (\<lambda>ch. rigel_sync_floppy_cia_lines
            (ch\<lparr>ch_floppy := (ch_floppy ch)[i := floppy_eject (ch_floppy ch ! i)]\<rparr>)) ctx)"

definition rigel_floppy_has_media :: "('m, 'h) rigel_context \<Rightarrow> u32 \<Rightarrow> bool" where
  "rigel_floppy_has_media ctx drive =
     (case rigel_chipset_floppy_drive drive of
        None \<Rightarrow> False | Some i \<Rightarrow> floppy_has_media (ch_floppy (rc_chipset ctx) ! i))"

record rigel_floppy_status =
  fs_has_media :: bool
  fs_selected :: bool
  fs_motor_on :: bool
  fs_ready :: bool
  fs_track0 :: bool
  fs_disk_changed :: bool
  fs_write_protected :: bool
  fs_dma_active :: bool
  fs_cylinder :: u8
  fs_side :: u8

definition rigel_floppy_get_status ::
    "('m, 'h) rigel_context \<Rightarrow> u32 \<Rightarrow> rigel_floppy_status option" where
  "rigel_floppy_get_status ctx drive =
     (case rigel_chipset_floppy_drive drive of
        None \<Rightarrow> None
      | Some i \<Rightarrow>
          (let d = ch_floppy (rc_chipset ctx) ! i;
               p = cia_port_b_value (ch_cia (rc_chipset ctx) ! 1);
               disk = pa_disk (ctx_paula ctx)
           in Some \<lparr>fs_has_media = floppy_has_media d,
                fs_selected = (fd_connected d \<and> p AND push_bit i 0x08 = 0),
                fs_motor_on = fd_motor d, fs_ready = fd_ready d, fs_track0 = fd_track0 d,
                fs_disk_changed = fd_disk_changed d, fs_write_protected = fd_write_protected d,
                fs_dma_active = (dk_drive disk = Some i \<and> dk_dma_active disk),
                fs_cylinder = word_of_int (fd_cylinder d),
                fs_side = (if fd_side d then 1 else 0)\<rparr>))"

section \<open>Clock, audio, serial port and interrupts\<close>

definition rigel_rtc_get_model :: "('m, 'h) rigel_context \<Rightarrow> rigel_rtc_model" where
  "rigel_rtc_get_model ctx = rtc_get_model (ch_rtc (rc_chipset ctx))"

definition ctx_rtc_op ::
    "('h RigelRTC \<times> 'h \<Rightarrow> 'h RigelRTC \<times> 'h) \<Rightarrow> ('m, 'h) rigel_context \<Rightarrow> ('m, 'h) rigel_context" where
  "ctx_rtc_op f ctx =
     (case f (ch_rtc (rc_chipset ctx), rc_host ctx) of
        (rtc, h) \<Rightarrow> (on_chipset (\<lambda>ch. ch\<lparr>ch_rtc := rtc\<rparr>) ctx)\<lparr>rc_host := h\<rparr>)"

definition rigel_rtc_set_model ::
    "'h rigel_env \<Rightarrow> ('m, 'h) rigel_context \<Rightarrow> rigel_rtc_model \<Rightarrow> ('m, 'h) rigel_context" where
  "rigel_rtc_set_model env ctx model = ctx_rtc_op (rtc_set_model (env_libc env) model) ctx"

definition rigel_rtc_get_time ::
    "'h rigel_env \<Rightarrow> ('m, 'h) rigel_context \<Rightarrow> int \<times> ('m, 'h) rigel_context" where
  "rigel_rtc_get_time env ctx =
     (case rtc_get_time (env_libc env) (ch_rtc (rc_chipset ctx)) (rc_host ctx) of
        (t, h) \<Rightarrow> (t, ctx\<lparr>rc_host := h\<rparr>))"

definition rigel_rtc_set_time ::
    "'h rigel_env \<Rightarrow> ('m, 'h) rigel_context \<Rightarrow> int \<Rightarrow> ('m, 'h) rigel_context" where
  "rigel_rtc_set_time env ctx v =
     ctx_rtc_op (\<lambda>s. rtc_update (env_libc env) (rtc_set_time (env_libc env) v s)) ctx"

definition rigel_get_audio_sample :: "('m, 'h) rigel_context \<Rightarrow> i16 \<times> i16" where
  "rigel_get_audio_sample ctx =
     (audio_left (pa_audio (ctx_paula ctx)), audio_right (pa_audio (ctx_paula ctx)))"

definition rigel_serial_receive_byte :: "('m, 'h) rigel_context \<Rightarrow> u8 \<Rightarrow> ('m, 'h) rigel_context" where
  "rigel_serial_receive_byte ctx byte =
     (case serial_receive_byte (pa_serial (ctx_paula ctx)) byte of
        (s, ms) \<Rightarrow> ctx_raise ms (on_paula (\<lambda>p. p\<lparr>pa_serial := s\<rparr>) ctx))"

definition rigel_serial_tx_available :: "('m, 'h) rigel_context \<Rightarrow> bool" where
  "rigel_serial_tx_available ctx = serial_tx_available (pa_serial (ctx_paula ctx))"

definition rigel_serial_pop_tx_byte ::
    "('m, 'h) rigel_context \<Rightarrow> (u8 \<times> ('m, 'h) rigel_context) option" where
  "rigel_serial_pop_tx_byte ctx =
     map_option (\<lambda>(b, s). (b, on_paula (\<lambda>p. p\<lparr>pa_serial := s\<rparr>) ctx))
       (serial_pop_tx_byte (pa_serial (ctx_paula ctx)))"

definition rigel_serial_set_tx_instant :: "('m, 'h) rigel_context \<Rightarrow> bool \<Rightarrow> ('m, 'h) rigel_context" where
  "rigel_serial_set_tx_instant ctx enabled =
     on_paula (\<lambda>p. p\<lparr>pa_serial := serial_set_tx_instant (pa_serial p) enabled\<rparr>) ctx"

definition rigel_get_intreq :: "('m, 'h) rigel_context \<Rightarrow> u16" where
  "rigel_get_intreq ctx = rigel_paula_interrupts_read_intreq (pa_interrupts (ctx_paula ctx))"

definition rigel_get_intena :: "('m, 'h) rigel_context \<Rightarrow> u16" where
  "rigel_get_intena ctx = rigel_paula_interrupts_read_intena (pa_interrupts (ctx_paula ctx))"

definition rigel_get_ipl :: "('m, 'h) rigel_context \<Rightarrow> u8" where
  "rigel_get_ipl ctx = rigel_paula_interrupts_current_ipl (pa_interrupts (ctx_paula ctx))"

section \<open>The bus\<close>

datatype rigel_bus_owner =
    RIGEL_BUS_OWNER_NONE
  | RIGEL_BUS_OWNER_CPU
  | RIGEL_BUS_OWNER_REFRESH
  | RIGEL_BUS_OWNER_BITPLANE
  | RIGEL_BUS_OWNER_SPRITE
  | RIGEL_BUS_OWNER_COPPER
  | RIGEL_BUS_OWNER_BLITTER
  | RIGEL_BUS_OWNER_AUDIO
  | RIGEL_BUS_OWNER_DISK
  | RIGEL_BUS_OWNER_CIA
  | RIGEL_BUS_OWNER_CUSTOM

abbreviation RIGEL_BUS_DMA_BLITTER :: u32 where "RIGEL_BUS_DMA_BLITTER \<equiv> 0x10"

definition slot_to_bus_owner :: "agnus_slot_owner \<Rightarrow> rigel_bus_owner" where
  "slot_to_bus_owner slot =
     (case slot of
        AGNUS_SLOT_REFRESH \<Rightarrow> RIGEL_BUS_OWNER_REFRESH
      | AGNUS_SLOT_DISK \<Rightarrow> RIGEL_BUS_OWNER_DISK
      | AGNUS_SLOT_AUDIO_0 \<Rightarrow> RIGEL_BUS_OWNER_AUDIO
      | AGNUS_SLOT_AUDIO_1 \<Rightarrow> RIGEL_BUS_OWNER_AUDIO
      | AGNUS_SLOT_AUDIO_2 \<Rightarrow> RIGEL_BUS_OWNER_AUDIO
      | AGNUS_SLOT_AUDIO_3 \<Rightarrow> RIGEL_BUS_OWNER_AUDIO
      | AGNUS_SLOT_BITPLANE \<Rightarrow> RIGEL_BUS_OWNER_BITPLANE
      | AGNUS_SLOT_COPPER \<Rightarrow> RIGEL_BUS_OWNER_COPPER
      | AGNUS_SLOT_BLITTER \<Rightarrow> RIGEL_BUS_OWNER_BLITTER
      | AGNUS_SLOT_FREE \<Rightarrow> RIGEL_BUS_OWNER_CPU
      | AGNUS_SLOT_CPU \<Rightarrow> RIGEL_BUS_OWNER_CPU
      | _ \<Rightarrow> RIGEL_BUS_OWNER_SPRITE)"

record rigel_bus_state =
  bs_time :: u64
  bs_owner :: rigel_bus_owner
  bs_active_dma :: u32
  bs_cpu_can_access_chip_ram :: bool
  bs_cpu_can_access_custom :: bool
  bs_cpu_would_stall :: bool
  bs_next_change :: u64

abbreviation RIGEL_DMACON_BLTPRI :: u16 where "RIGEL_DMACON_BLTPRI \<equiv> 0x0400"

definition blitter_holds_bus :: "('m, 'h) rigel_context \<Rightarrow> bool" where
  "blitter_holds_bus ctx = (dma_dmacon (ag_dma (ctx_agnus ctx)) AND RIGEL_DMACON_BLTPRI \<noteq> 0)"

definition rigel_get_bus_state :: "('m, 'h) rigel_context \<Rightarrow> rigel_bus_state" where
  "rigel_get_bus_state ctx =
     (let ag = ctx_agnus ctx; sched = ag_scheduler ag; lc = beam_line_clocks (ag_beam ag);
          now = ch_cycles (rc_chipset ctx) in
      if blitter_is_busy (ag_blitter ag) then
        \<lparr>bs_time = now, bs_owner = RIGEL_BUS_OWNER_BLITTER, bs_active_dma = RIGEL_BUS_DMA_BLITTER,
         bs_cpu_can_access_chip_ram = (\<not> blitter_holds_bus ctx), bs_cpu_can_access_custom = True,
         bs_cpu_would_stall = blitter_holds_bus ctx,
         bs_next_change = now + ucast (cycles_remaining (ag_blitter ag))\<rparr>
      else
        let stall = agnus_slot_scheduler_cpu_stall sched
        in \<lparr>bs_time = now, bs_owner = slot_to_bus_owner (agnus_slot_scheduler_current_owner sched),
            bs_active_dma = 0,
            bs_cpu_can_access_chip_ram = (\<not> stall), bs_cpu_can_access_custom = True,
            bs_cpu_would_stall = stall,
            bs_next_change = now +
              ucast (if stall then agnus_slot_scheduler_cpu_resume_in sched lc
                     else agnus_slot_scheduler_next_event sched lc)\<rparr>)"

definition rigel_get_next_bus_change :: "('m, 'h) rigel_context \<Rightarrow> u64" where
  "rigel_get_next_bus_change ctx = bs_next_change (rigel_get_bus_state ctx)"

definition rigel_cpu_would_stall :: "('m, 'h) rigel_context \<Rightarrow> bool" where
  "rigel_cpu_would_stall ctx \<longleftrightarrow>
     blitter_is_busy (ag_blitter (ctx_agnus ctx)) \<and> blitter_holds_bus ctx \<or>
     agnus_slot_scheduler_cpu_stall (ctx_scheduler ctx)"

definition rigel_cpu_can_access_chip_ram :: "('m, 'h) rigel_context \<Rightarrow> bool" where
  "rigel_cpu_can_access_chip_ram ctx = (\<not> rigel_cpu_would_stall ctx)"

definition rigel_cpu_can_access_custom :: "('m, 'h) rigel_context \<Rightarrow> bool" where
  "rigel_cpu_can_access_custom ctx = True"

definition rigel_get_cpu_resume_time :: "('m, 'h) rigel_context \<Rightarrow> u64" where
  "rigel_get_cpu_resume_time ctx =
     (let state = rigel_get_bus_state ctx
      in if \<not> bs_cpu_would_stall state then bs_time state else bs_next_change state)"

end
