(* ===== verification/Machine_Inv.thy ===== *)
theory Machine_Inv
  imports Rigel_Api
begin

text \<open>
  The invariant of the whole machine at a given time.  \<open>machine_at\<close> puts together what the components need of
  each other: every array of the context has its length, the beam is inside its line, the slot
  table has an owner for every clock, the frame store is well formed, every drive is in a
  possible state, and the interrupt level is the one of the registers.  A part of the context
  is an interface: the locale \<open>machine_part\<close> says how an operation on the part acts on the
  machine, and is interpreted for each chip.
\<close>

unbundle bit_operations_syntax

section \<open>The invariant\<close>

definition sched_inv :: "agnus_slot_scheduler \<Rightarrow> bool" where
  "sched_inv s \<longleftrightarrow> table_ok s \<and> sched_ok s \<and>
     (ss_bitplane_line_base_valid s \<longrightarrow> length (ss_bitplane_line_base s) = BITPLANE_COUNT)"

definition beam_inv :: "beam_state \<Rightarrow> bool" where
  "beam_inv b \<longleftrightarrow> beam_ok b \<and> beam_line_clocks b = 227"

definition agnus_ok :: "rigel_agnus \<Rightarrow> bool" where
  "agnus_ok ag \<longleftrightarrow> beam_inv (ag_beam ag) \<and> sched_inv (ag_scheduler ag) \<and>
     length (ag_bplpt ag) = BITPLANE_COUNT \<and> length (ag_fetch ag) = 6 \<and>
     length (ag_sprite_dma ag) = SPRITE_DMA_CHANNELS"

definition paula_ok :: "'m rigel_paula \<Rightarrow> bool" where
  "paula_ok p \<longleftrightarrow> irq_wf (pa_interrupts p) \<and> length (au_ch (pa_audio p)) = RIGEL_PAULA_AUDIO_CHANNELS"

definition chipset_ok :: "u64 \<Rightarrow> ('m, 'h) rigel_chipset \<Rightarrow> bool" where
  "chipset_ok now ch \<longleftrightarrow> ch_cycles ch = now \<and> agnus_ok (ch_agnus ch) \<and> denise_wf (ch_denise ch) \<and> paula_ok (ch_paula ch) \<and>
     length (ch_cia ch) = RIGEL_CIA_COUNT \<and> length (ch_floppy ch) = 4 \<and>
     list_all floppy_ok (ch_floppy ch) \<and> length (ch_custom_regs ch) = RIGEL_CUSTOM_REG_COUNT"

definition machine_at :: "u64 \<Rightarrow> ('m, 'h) rigel_context \<Rightarrow> bool" where
  "machine_at now ctx \<longleftrightarrow> chipset_ok now (rc_chipset ctx)"

lemmas machine_defs = machine_at_def chipset_ok_def

lemma machine_at_frame [simp]:
  "machine_at now (ctx\<lparr>rc_ram := m\<rparr>) = machine_at now ctx"
  "machine_at now (ctx\<lparr>rc_host := h\<rparr>) = machine_at now ctx"
  "machine_at now (ctx\<lparr>rc_stores := st\<rparr>) = machine_at now ctx"
  "machine_at now (ctx\<lparr>rc_config := cfg\<rparr>) = machine_at now ctx"
  by (simp_all add: machine_at_def)

section \<open>Parts of the machine\<close>

locale machine_part =
  fixes now :: u64
    and part :: "('m, 'h) rigel_context \<Rightarrow> 'p"
    and on :: "('p \<Rightarrow> 'p) \<Rightarrow> ('m, 'h) rigel_context \<Rightarrow> ('m, 'h) rigel_context"
    and ok :: "'p \<Rightarrow> bool"
  assumes part_ok: "machine_at now ctx \<Longrightarrow> ok (part ctx)"
    and on_ok: "machine_at now ctx \<Longrightarrow> ok (f (part ctx)) \<Longrightarrow> machine_at now (on f ctx)"
begin

lemma keep: "machine_at now ctx \<Longrightarrow> (\<And>x. ok x \<Longrightarrow> ok (f x)) \<Longrightarrow> machine_at now (on f ctx)"
  by (rule on_ok) (auto intro: part_ok)

lemma put: "machine_at now ctx \<Longrightarrow> ok x \<Longrightarrow> machine_at now (on (\<lambda>_. x) ctx)"
  by (rule on_ok)

end

lemmas part_defs = ctx_agnus_def ctx_denise_def ctx_paula_def ctx_scheduler_def on_agnus_def
  on_denise_def on_paula_def on_custom_regs_def on_chipset_def on_copper_def on_scheduler_def

interpretation agnus: machine_part now ctx_agnus on_agnus agnus_ok for now
  by unfold_locales (auto simp: part_defs machine_defs)

interpretation denise: machine_part now ctx_denise on_denise denise_wf for now
  by unfold_locales (auto simp: part_defs machine_defs)

interpretation paula: machine_part now ctx_paula on_paula paula_ok for now
  by unfold_locales (auto simp: part_defs machine_defs)

interpretation sched: machine_part now ctx_scheduler on_scheduler sched_inv for now
  by unfold_locales (auto simp: part_defs machine_defs agnus_ok_def)

interpretation copper: machine_part now "\<lambda>ctx. ag_copper (ctx_agnus ctx)" on_copper "\<lambda>_. True" for now
  by unfold_locales (auto simp: part_defs machine_defs agnus_ok_def)

interpretation regs: machine_part now "\<lambda>ctx. ch_custom_regs (rc_chipset ctx)" on_custom_regs
    "\<lambda>r. length r = RIGEL_CUSTOM_REG_COUNT" for now
  by unfold_locales (auto simp: part_defs machine_defs)

interpretation chipset: machine_part now rc_chipset on_chipset "chipset_ok now" for now
  by unfold_locales (auto simp: part_defs machine_defs)

lemma write_reg_ok: "machine_at now ctx \<Longrightarrow> machine_at now (ctx_write_reg addr v ctx)"
  unfolding ctx_write_reg_def by (rule regs.keep) (simp_all add: rigel_context_write_reg_def)

section \<open>Interrupts\<close>

lemma raise_source_ok: "chipset_ok now ch \<Longrightarrow> chipset_ok now (rigel_chipset_raise_irq_source ch m)"
  using irq_wf_raise [of "pa_interrupts (ch_paula ch)" m]
  by (simp add: chipset_ok_def rigel_chipset_raise_irq_source_def Let_def paula_ok_def
      rigel_paula_raise_irq_def paula_irq_raise_def)

lemma raise_ok: "machine_at now ctx \<Longrightarrow> machine_at now (ctx_raise ms ctx)"
  unfolding ctx_raise_def
  by (rule chipset.keep, assumption, rule foldl_invariant [where P = "chipset_ok now"])
    (auto intro: raise_source_ok)

lemma clear_irq_ok: "paula_ok p \<Longrightarrow> paula_ok (rigel_paula_clear_irq p m)"
  using irq_wf_clear [of "pa_interrupts p" m]
  by (simp add: paula_ok_def rigel_paula_clear_irq_def paula_irq_clear_def)

subsection \<open>What the CIAs do to the controller\<close>

text \<open>A CIA reaches the controller only through its interrupt line.\<close>

lemma irq_sync: "irq_wf (snd s) \<Longrightarrow> irq_wf (snd (cia_interrupt_sync_irq_line s))"
  by (cases s) (auto intro: irq_wf_raise irq_wf_clear)

lemma irq_cia_raise: "irq_wf (snd s) \<Longrightarrow> irq_wf (snd (cia_interrupt_raise s m))"
  using irq_sync by (cases s) (simp del: cia_interrupt_sync_irq_line.simps)

lemma irq_timer_a_serial: "irq_wf (snd s) \<Longrightarrow> irq_wf (snd (cia_serial_on_timer_a_underflow s))"
  using irq_cia_raise by (cases s) (auto simp: Let_def split_beta simp del: cia_interrupt_raise.simps)

lemma irq_a_underflowed: "irq_wf (snd s) \<Longrightarrow> irq_wf (snd (cia_timer_a_underflowed s uf))"
proof -
  assume "irq_wf (snd s)"
  then have "irq_wf (snd (cia_timer_apply_underflow_output c r uf, snd (cia_interrupt_raise s CIA_ICR_TA)))"
    for c r
    by (simp add: irq_cia_raise)
  then have "irq_wf (snd ((cia_serial_on_timer_a_underflow ^^ n)
      (cia_timer_apply_underflow_output c r uf, snd (cia_interrupt_raise s CIA_ICR_TA))))" for c r n
    by (rule funpow_invariant [where P = "\<lambda>s. irq_wf (snd s)"]) (rule irq_timer_a_serial)
  then show ?thesis
    using \<open>irq_wf (snd s)\<close>
    by (cases s) (simp add: Let_def split_beta irq_cia_raise del: cia_interrupt_raise.simps)
qed

lemma irq_b_underflowed: "irq_wf (snd s) \<Longrightarrow> irq_wf (snd (cia_timer_b_underflowed s uf))"
  by (cases s) (simp add: Let_def split_beta irq_cia_raise del: cia_interrupt_raise.simps)

lemma irq_timers_step: "irq_wf (snd s) \<Longrightarrow> irq_wf (snd (cia_timers_step s ticks))"
  by (cases s) (simp add: Let_def split_beta irq_a_underflowed irq_b_underflowed
      del: cia_timer_a_underflowed.simps cia_timer_b_underflowed.simps)

lemma irq_tod_once: "irq_wf (snd s) \<Longrightarrow> irq_wf (snd (cia_tod_increment_once s))"
  by (cases s) (simp add: Let_def cia_tod_raise_alarm_def irq_cia_raise del: cia_interrupt_raise.simps)

lemma irq_tod_increment: "irq_wf (snd s) \<Longrightarrow> irq_wf (snd (cia_tod_increment s n))"
  unfolding cia_tod_increment_def
  by (rule funpow_invariant [where P = "\<lambda>s. irq_wf (snd s)"]) (auto intro: irq_tod_once)

lemma irq_tod_step: "irq_wf (snd s) \<Longrightarrow> irq_wf (snd (cia_tod_step s ticks))"
  by (cases s) (simp add: Let_def irq_tod_increment)

lemma irq_cia_step: "irq_wf (snd s) \<Longrightarrow> irq_wf (snd (cia_step s ticks))"
  by (cases s) (simp add: irq_tod_step irq_timers_step del: cia_tod_step.simps cia_timers_step.simps)

lemma irq_tod_pulse: "irq_wf (snd s) \<Longrightarrow> irq_wf (snd (cia_tod_pulse s n))"
  by (simp add: cia_tod_pulse_def irq_tod_increment)

lemma irq_read_icr: "irq_wf (snd s) \<Longrightarrow> irq_wf (snd (snd (cia_interrupt_read_icr s)))"
  by (cases s) (simp add: Let_def irq_sync del: cia_interrupt_sync_irq_line.simps)

lemma irq_write_icr: "irq_wf (snd s) \<Longrightarrow> irq_wf (snd (cia_interrupt_write_icr s v))"
  by (cases s) (simp add: Let_def irq_sync del: cia_interrupt_sync_irq_line.simps)

lemma irq_cia_read: "irq_wf (snd s) \<Longrightarrow> irq_wf (snd (snd (cia_read_reg s reg)))"
  by (cases s) (auto simp: Let_def split_beta irq_read_icr simp del: cia_interrupt_read_icr.simps
      split: option.split)

lemma irq_cia_write: "irq_wf (snd s) \<Longrightarrow> irq_wf (snd (cia_write_reg s reg v))"
  by (cases s) (auto simp: Let_def irq_write_icr simp del: cia_interrupt_write_icr.simps
      split: option.split)

lemma irq_receive: "irq_wf (snd s) \<Longrightarrow> irq_wf (snd (snd (cia_receive_sdr s v)))"
  by (cases s) (auto simp: cia_receive_sdr_def irq_cia_raise simp del: cia_interrupt_raise.simps)

lemma irq_cia_reset: "irq_wf (snd s) \<Longrightarrow> irq_wf (snd (cia_reset s))"
  by (cases s) (simp add: Let_def irq_sync del: cia_interrupt_sync_irq_line.simps)

lemmas irq_cia = irq_cia_step irq_tod_pulse irq_cia_read irq_cia_write irq_receive irq_cia_reset irq_sync

lemma on_cia_ok:
  assumes "chipset_ok now ch" and "\<And>s. irq_wf (snd s) \<Longrightarrow> irq_wf (snd (f s))"
  shows "chipset_ok now (on_cia i f ch)"
  using assms(1) assms(2) [of "(ch_cia ch ! i, pa_interrupts (ch_paula ch))"]
  by (auto simp: on_cia_def chipset_ok_def paula_ok_def split: prod.split)

section \<open>Registers of Agnus\<close>

lemma set_ddf_inv: "sched_inv s \<Longrightarrow> sched_inv (agnus_slot_scheduler_set_ddf s a b)"
proof -
  have "a AND 0xfc \<le> 0xff" for a :: u16
    by (rule order_trans [OF word_and_le1]) simp
  then show "sched_inv s \<Longrightarrow> sched_inv (agnus_slot_scheduler_set_ddf s a b)"
    by (simp add: sched_inv_def table_ok_def sched_ok_def agnus_slot_scheduler_set_ddf_def)
qed

lemma set_depth_inv: "sched_inv s \<Longrightarrow> sched_inv (agnus_slot_scheduler_set_depth s d)"
  using word_and_le1 [of d 7]
  by (simp add: sched_inv_def table_ok_def sched_ok_def agnus_slot_scheduler_set_depth_def Let_def)

lemma sched_inv_setters:
  "sched_inv (agnus_slot_scheduler_invalidate s v) = sched_inv s"
  "sched_inv (agnus_slot_scheduler_set_hires s b) = sched_inv s"
  "sched_inv (agnus_slot_scheduler_set_vstrt s v) = sched_inv s"
  by (simp_all add: sched_inv_def table_ok_def sched_ok_def agnus_slot_scheduler_invalidate_def
      agnus_slot_scheduler_set_hires_def agnus_slot_scheduler_set_vstrt_def Let_def)

lemma beam_inv_video:
  "beam_inv b \<Longrightarrow> 0 < n \<Longrightarrow> beam_inv (b\<lparr>beam_line_clocks := 227, beam_frame_lines := n, beam_visible_y_stop := y\<rparr>)"
  by (auto simp: beam_inv_def beam_ok_def beam_line_hmax_def)

lemma beam_inv_lof:
  "beam_inv (b\<lparr>beam_lof_toggle := t\<rparr>) = beam_inv b" "beam_inv (b\<lparr>beam_lof := l\<rparr>) = beam_inv b"
  by (simp_all add: beam_inv_def beam_ok_def beam_line_hmax_def)

lemma raster_reset_geometry [simp]:
  "raster_line_clocks (raster_reset std) = 227" "0 < raster_frame_lines (raster_reset std)"
  by (cases std; simp add: raster_reset_def)+

lemma set_video_std_ok: "agnus_ok a \<Longrightarrow> agnus_ok (rigel_agnus_set_video_std a std)"
  by (simp add: agnus_ok_def rigel_agnus_set_video_std_def Let_def beam_inv_video)

lemma write_pointers_ok: "agnus_ok a \<Longrightarrow> agnus_ok (agnus_write_sprpt addr v (agnus_write_bplpt addr v a))"
  by (simp add: agnus_ok_def agnus_write_sprpt_def agnus_write_bplpt_def Let_def bplpt_set_hi_def
      bplpt_set_lo_def sprite_dma_set_ptr_hi_def sprite_dma_set_ptr_lo_def)

lemma write_dmacon_ok: "machine_at now ctx \<Longrightarrow> machine_at now (agnus_write_dmacon v ctx)"
  unfolding agnus_write_dmacon_def Let_def
  by (intro agnus.keep write_reg_ok) (simp_all add: agnus_ok_def sched_inv_setters)

lemma write_ddf_ok:
  assumes "machine_at now ctx"
  shows "machine_at now (agnus_write_ddfstrt v ctx)" "machine_at now (agnus_write_ddfstop v ctx)"
  using assms unfolding agnus_write_ddfstrt_def agnus_write_ddfstop_def Let_def
  by (auto intro!: agnus.keep denise.keep write_reg_ok simp: agnus_ok_def set_ddf_inv)
    (simp add: denise_wf_def output_ok_def)

lemma write_beamcon0_ok: "machine_at now ctx \<Longrightarrow> machine_at now (agnus_write_beamcon0 v ctx)"
  unfolding agnus_write_beamcon0_def Let_def
  by (auto intro!: agnus.keep write_reg_ok set_video_std_ok) (simp_all add: agnus_ok_def)

lemma copper_regs_ok:
  "chipset_ok now ch \<Longrightarrow>
   chipset_ok now (case rigel_copper_regs_write (ag_copper (ch_agnus ch), ch_custom_regs ch) addr v of
     (copper, regs) \<Rightarrow> ch\<lparr>ch_agnus := (ch_agnus ch)\<lparr>ag_copper := copper\<rparr>, ch_custom_regs := regs\<rparr>)"
  by (simp add: chipset_ok_def agnus_ok_def rigel_copper_regs_write_def rigel_context_write_reg_def Let_def)

lemma agnus_write_ok: "machine_at now ctx \<Longrightarrow> machine_at now (rigel_agnus_mmio_write_impl ctx addr v)"
proof -
  assume ok: "machine_at now ctx"
  have "machine_at now (on_agnus (\<lambda>a. a\<lparr>ag_blitter := rigel_blitter_domain_write_reg (ag_blitter a) addr v\<rparr>) c)"
    if "machine_at now c" for c
    by (rule agnus.keep [OF that]) (simp add: agnus_ok_def)
  moreover have "machine_at now (on_paula (\<lambda>p. rigel_paula_clear_irq p m) ctx)" for m
    by (rule paula.keep [OF ok]) (rule clear_irq_ok)
  moreover have "machine_at now (on_chipset (\<lambda>ch. case rigel_copper_regs_write
      (ag_copper (ch_agnus ch), ch_custom_regs ch) addr v of (copper, regs) \<Rightarrow>
        ch\<lparr>ch_agnus := (ch_agnus ch)\<lparr>ag_copper := copper\<rparr>, ch_custom_regs := regs\<rparr>) ctx)"
    by (rule chipset.keep [OF ok]) (rule copper_regs_ok)
  moreover have "machine_at now (on_agnus (\<lambda>a. agnus_write_sprpt addr v (agnus_write_bplpt addr v a)) ctx)"
    by (rule agnus.keep [OF ok]) (rule write_pointers_ok)
  ultimately show ?thesis
    using ok unfolding rigel_agnus_mmio_write_impl_def Let_def
    by (auto intro!: write_reg_ok write_dmacon_ok write_ddf_ok write_beamcon0_ok)
qed

section \<open>Registers of Denise\<close>

lemma denise_event_wf: "denise_wf d \<Longrightarrow> denise_event_apply e d = d' \<Longrightarrow> denise_wf d'"
  using event_wf by blast

lemma bplcon0_ok: "agnus_ok a \<Longrightarrow> agnus_ok (denise_bplcon0_to_agnus v a)"
  by (simp add: agnus_ok_def denise_bplcon0_to_agnus_def Let_def sched_inv_setters set_depth_inv beam_inv_lof)

lemma denise_write_ok: "machine_at now ctx \<Longrightarrow> machine_at now (rigel_denise_write_reg ctx addr v)"
proof -
  assume ok: "machine_at now ctx"
  have 1: "machine_at now (ctx_write_reg addr v (on_denise (\<lambda>d. rigel_denise_registers_write d addr v) ctx))"
    by (intro write_reg_ok denise.keep [OF ok]) (rule registers_write_wf)
  have 2: "machine_at now (on_agnus (denise_bplcon0_to_agnus v) c)" if "machine_at now c" for c
    by (rule agnus.keep [OF that]) (rule bplcon0_ok)
  have 3: "machine_at now (on_agnus (\<lambda>a. a\<lparr>ag_raster := f a, ag_scheduler := agnus_slot_scheduler_set_vstrt (ag_scheduler a) v\<rparr>) c)"
    "machine_at now (on_agnus (\<lambda>a. a\<lparr>ag_raster := f a\<rparr>) c)" if "machine_at now c" for c f
    by (intro agnus.keep [OF that]; simp add: agnus_ok_def sched_inv_setters)+
  show ?thesis
    unfolding rigel_denise_write_reg_def Let_def using 1 by (auto intro!: 2 3)
qed

lemma denise_read_ok: "machine_at now ctx \<Longrightarrow> machine_at now (snd (rigel_denise_read_reg ctx addr))"
  using event_wf [OF denise.part_ok, of now ctx "Denise_Read addr"]
  by (auto simp: rigel_denise_read_reg_def split: prod.splits intro!: denise.put)

section \<open>Registers of Paula\<close>

lemma paula_ok_frame [simp]:
  "paula_ok (p\<lparr>pa_disk := d\<rparr>) = paula_ok p" "paula_ok (p\<lparr>pa_serial := s\<rparr>) = paula_ok p"
  "paula_ok (p\<lparr>pa_input := i\<rparr>) = paula_ok p"
  by (simp_all add: paula_ok_def)

lemma length_audio_write [simp]: "length (au_ch (rigel_audio_domain_write_reg a addr v)) = length (au_ch a)"
  by (simp add: rigel_audio_domain_write_reg_def audio_write_lch_def audio_write_lcl_def audio_write_len_def
      audio_write_per_def audio_write_vol_def audio_write_dat_def audio_channel_def split: option.split)

lemma paula_read_ok: "machine_at now ctx \<Longrightarrow> machine_at now (snd (paula_read_reg ctx addr))"
  by (auto simp: paula_read_reg_def Let_def split: prod.split intro!: paula.keep)

lemma paula_disk_ok: "machine_at now ctx \<Longrightarrow> machine_at now (paula_write_disk env ctx addr v)"
  unfolding paula_write_disk_def Let_def
  by (auto split: prod.split intro!: write_reg_ok raise_ok paula.keep)

lemma paula_serial_ok: "machine_at now ctx \<Longrightarrow> machine_at now (paula_write_serial ctx addr v)"
  unfolding paula_write_serial_def Let_def
  by (auto split: prod.split intro!: write_reg_ok raise_ok paula.keep)

lemma paula_write_ok: "machine_at now ctx \<Longrightarrow> machine_at now (paula_write_reg env ctx addr v)"
proof -
  assume ok: "machine_at now ctx"
  have "machine_at now (on_paula (\<lambda>p. p\<lparr>pa_input := f p\<rparr>) ctx)" for f
    by (rule paula.keep [OF ok]) simp
  moreover have "machine_at now (on_paula (\<lambda>p. p\<lparr>pa_audio := rigel_audio_domain_write_reg (pa_audio p) addr v\<rparr>) ctx)"
    by (rule paula.keep [OF ok]) (simp add: paula_ok_def)
  moreover have "machine_at now (on_paula (\<lambda>p. p\<lparr>pa_interrupts :=
      rigel_interrupt_domain_write_reg (pa_interrupts p) addr v\<rparr>) ctx)"
    by (rule paula.keep [OF ok]) (simp add: paula_ok_def irq_wf_write_reg)
  ultimately show ?thesis
    using ok unfolding paula_write_reg_def Let_def
    by (auto intro!: write_reg_ok paula_disk_ok paula_serial_ok)
qed

section \<open>CPU accesses\<close>

lemma custom_read_ok: "machine_at now ctx \<Longrightarrow> machine_at now (snd (custom_regs_read16 ctx addr))"
  by (simp add: custom_regs_read16_def paula_read_ok denise_read_ok split: rigel_custom_domain.split)

lemma custom_write_ok: "machine_at now ctx \<Longrightarrow> machine_at now (custom_regs_write16 env ctx addr v)"
  by (simp add: custom_regs_write16_def rigel_agnus_mmio_write_def agnus_write_ok paula_write_ok
      denise_write_ok write_reg_ok split: rigel_custom_domain.split)

lemma prb_update_ok: "chipset_ok now ch \<Longrightarrow> chipset_ok now (cia_b_prb_update_floppy ch)"
  by (auto simp: chipset_ok_def cia_b_prb_update_floppy_def Let_def rigel_paula_set_disk_drive_def
      prb_step_drives_def list_all_iff intro!: floppy_ok_step)

lemma cia_read_ok: "machine_at now ctx \<Longrightarrow> machine_at now (snd (rigel_cia_read ctx cid reg))"
proof -
  assume ok: "machine_at now ctx"
  then have "irq_wf (pa_interrupts (ctx_paula ctx))"
    using paula.part_ok by (auto simp: paula_ok_def)
  then have "irq_wf (snd (snd (cia_read_reg (c, pa_interrupts (ctx_paula ctx)) reg)))" for c
    by (intro irq_cia_read) simp
  then show ?thesis
    using ok by (auto simp: rigel_cia_read_def split_beta intro!: chipset.on_ok on_cia_ok chipset.part_ok
        simp del: cia_read_reg.simps)
qed

lemma cia_write_ok: "machine_at now ctx \<Longrightarrow> machine_at now (rigel_cia_write ctx cid reg v)"
  unfolding rigel_cia_write_def Let_def
  by (auto intro!: chipset.keep on_cia_ok irq_cia_write prb_update_ok simp del: cia_write_reg.simps)

lemma keyboard_ok: "machine_at now ctx \<Longrightarrow> machine_at now (rigel_keyboard_inject ctx key pressed)"
  unfolding rigel_keyboard_inject_def Let_def
  by (auto intro!: chipset.keep on_cia_ok irq_receive)

lemma rtc_frame_ok: "machine_at now (on_chipset (\<lambda>ch. ch\<lparr>ch_rtc := r\<rparr>) ctx) = machine_at now ctx"
  by (simp add: machine_defs on_chipset_def)

lemma rtc_read_ok: "machine_at now ctx \<Longrightarrow> machine_at now (snd (rigel_rtc_read_reg env ctx reg))"
  by (auto simp: rigel_rtc_read_reg_def rtc_frame_ok split: option.split prod.split)

lemma rtc_write_ok: "machine_at now ctx \<Longrightarrow> machine_at now (rigel_rtc_write_reg env ctx reg v)"
  by (auto simp: rigel_rtc_write_reg_def rtc_frame_ok split: option.split prod.split)

lemma custom_word_ok:
  assumes "machine_at now ctx"
  shows "machine_at now (snd (custom_read_word ctx addr))" "machine_at now (custom_write_word env ctx addr v)"
    "machine_at now (mmio_custom_write_byte env ctx addr w)"
  using assms
  by (simp_all add: custom_read_word_def custom_write_word_def rigel_custom_read16_def
      rigel_custom_write16_def mmio_custom_write_byte_def Let_def split_beta custom_read_ok custom_write_ok)

lemma mmio_read_ok: "machine_at now ctx \<Longrightarrow> machine_at now (snd (snd (rigel_mmio_read env ctx addr sz)))"
  by (simp add: rigel_mmio_read_def Let_def split_beta custom_word_ok cia_read_ok rtc_read_ok)

lemma mmio_write_ok: "machine_at now ctx \<Longrightarrow> machine_at now (snd (rigel_mmio_write env ctx addr sz v))"
  by (simp add: rigel_mmio_write_def Let_def custom_word_ok cia_write_ok rtc_write_ok)

section \<open>One colour clock\<close>

lemma copper_move_ok: "machine_at now ctx \<Longrightarrow> machine_at now (copper_exec_move env ctx ir1 ir2)"
proof -
  assume ok: "machine_at now ctx"
  have "machine_at now (on_denise (\<lambda>d. d\<lparr>dn_output := (dn_output d)\<lparr>do_pending_flags := f d\<rparr>\<rparr>) ctx)" for f
    by (rule denise.keep [OF ok]) (simp add: denise_wf_def output_ok_def)
  moreover have "machine_at now (on_agnus (\<lambda>a. a\<lparr>ag_copper := g a\<rparr>) ctx)" for g
    by (rule agnus.keep [OF ok]) (simp add: agnus_ok_def)
  ultimately show ?thesis
    unfolding copper_exec_move_def Let_def by (auto intro!: custom_write_ok)
qed

lemma copper_program_ok: "machine_at now ctx \<Longrightarrow> machine_at now (rigel_copper_service_step_program env ctx)"
  unfolding rigel_copper_service_step_program_def copper_service_move_def Let_def
  by (auto intro!: copper.keep copper_move_ok)

lemma disk_slot_ok: "machine_at now ctx \<Longrightarrow> machine_at now (dispatch_disk env ctx)"
  unfolding dispatch_disk_def by (auto split: prod.split intro!: raise_ok paula.keep)

lemma length_audio_slot: "length (au_ch (fst (audio_dma_step_slot a c mem m))) = length (au_ch a)"
  by (simp add: audio_dma_step_slot_def Let_def split: option.split)

lemma audio_slot_ok: "machine_at now ctx \<Longrightarrow> machine_at now (dispatch_audio c ctx)"
  using length_audio_slot [of "pa_audio (ctx_paula ctx)" c "ctx_chip_ram ctx" "rc_ram ctx"]
    paula.part_ok [of now ctx]
  unfolding dispatch_audio_def rigel_audio_domain_step_slot_def
  by (auto split: prod.split intro!: raise_ok paula.on_ok simp: paula_ok_def)

lemma sprite_slot_ok: "machine_at now ctx \<Longrightarrow> machine_at now (dispatch_sprite sp hpos ctx)"
proof -
  assume ok: "machine_at now ctx"
  have "length (fst (sprite_dma_slot (ag_sprite_dma (ctx_agnus ctx)) sp v b mem m)) = SPRITE_DMA_CHANNELS"
    for v b and mem :: "'a rigel_chip_ram_if" and m
    using agnus.part_ok [OF ok]
    by (simp add: agnus_ok_def sprite_dma_slot_def Let_def split_beta split: option.split)
  then have "machine_at now (on_agnus (\<lambda>a. a\<lparr>ag_sprite_dma := fst (sprite_dma_slot
      (ag_sprite_dma (ctx_agnus ctx)) sp v b mem m)\<rparr>) ctx)" for v b and mem :: "'a rigel_chip_ram_if" and m
    by (intro agnus.keep [OF ok]) (simp add: agnus_ok_def)
  moreover have "denise_wf d \<Longrightarrow> denise_wf (d\<lparr>dn_sprites := denise_sprite_receive_ctrl (dn_sprites d) sp a c\<rparr>)"
    "denise_wf d \<Longrightarrow> denise_wf (d\<lparr>dn_sprites := denise_sprite_receive_data (dn_sprites d) sp a c\<rparr>)" for d a c
    using event_wf [of d "Denise_Sprite_Ctrl sp a c"] event_wf [of d "Denise_Sprite_Data sp a c"] by simp_all
  ultimately show ?thesis
    unfolding dispatch_sprite_def Let_def split_beta
    by (auto split: option.split intro!: denise.keep)
qed

lemma store_word_wf:
  assumes "denise_wf d" "plane < 6" "unat widx < 64"
  shows "denise_wf (denise_store_plane_word plane widx v d)"
proof -
  have "unat (widx + 1) \<le> 64"
    using assms(3) by (simp add: unat_inc)
  then show ?thesis
    using assms(1,2)
    by (auto simp: denise_store_plane_word_def Let_def denise_wf_def output_ok_def
        dest!: set_update_subset_insert [THEN subsetD])
qed

lemma bitplane_slot_ok: "machine_at now ctx \<Longrightarrow> machine_at now (dispatch_bitplane hpos ctx)"
proof -
  assume ok: "machine_at now ctx"
  have 1: "machine_at now (on_scheduler (latch_bitplane_base bp) c)" if "machine_at now c" for c bp
    by (rule sched.keep [OF that])
      (simp add: sched_inv_def latch_bitplane_base_def table_ok_def sched_ok_def)
  have 2: "machine_at now (on_agnus (\<lambda>a. a\<lparr>ag_fetch := (ag_fetch a)[p := v]\<rparr>) c)" if "machine_at now c" for c p v
    by (rule agnus.keep [OF that]) (simp add: agnus_ok_def)
  have 3: "machine_at now (on_scheduler (bitplane_slot_done l w) c)" if "machine_at now c" for c l w
    by (rule sched.keep [OF that])
      (simp add: sched_inv_def bitplane_slot_done_def table_ok_def sched_ok_def)
  have latch: "machine_at now (on_denise denise_latch_line c)" if "machine_at now c" for c
    by (rule denise.keep [OF that]) (simp add: denise_latch_line_def denise_wf_def output_ok_def)
  have store: "machine_at now (on_denise (denise_store_plane_word p w v) c)"
    if "machine_at now c" "p < 6" "unat w < 64" for c p w v
    by (rule denise.keep [OF that(1)]) (rule store_word_wf [OF _ that(2,3)])
  show ?thesis
    unfolding dispatch_bitplane_def Let_def
    using ok by (auto intro!: 1 2 3 latch store order_less_le_trans [OF mod_less_divisor])
qed

lemma blitter_slot_ok: "machine_at now ctx \<Longrightarrow> machine_at now (rigel_agnus_blitter_step_dma ctx n)"
  unfolding rigel_agnus_blitter_step_dma_def
  by (auto split: prod.split intro!: raise_ok agnus.keep) (simp add: agnus_ok_def)

lemma dispatch_ok: "machine_at now ctx \<Longrightarrow> machine_at now (dispatch_slot env owner ctx hpos)"
  by (cases owner; simp add: dispatch_slot_def disk_slot_ok audio_slot_ok sprite_slot_ok bitplane_slot_ok
      copper_program_ok blitter_slot_ok)
    (auto intro!: agnus.keep, simp add: agnus_ok_def)

lemma sync_ok: "agnus_ok a \<Longrightarrow> agnus_ok (slot_sync a)"
  by (simp add: slot_sync_def Let_def agnus_ok_def sched_inv_def table_ok_def sched_ok_def)

lemma rebuild_inv: "sched_inv s \<Longrightarrow> sched_inv (agnus_slot_scheduler_rebuild s vpos refresh)"
proof -
  assume "sched_inv s"
  let ?t = "agnus_slot_scheduler_rebuild s vpos refresh"
  from \<open>sched_inv s\<close> have ok: "sched_ok s" by (simp add: sched_inv_def)
  note r = rebuild_table [OF ok, of vpos refresh]
  have "sched_ok ?t"
    using same_config_slots(3) [OF r(3)] ok by (simp add: sched_ok_def)
  moreover have "ss_bitplane_line_base_valid ?t = ss_bitplane_line_base_valid s"
    "ss_bitplane_line_base ?t = ss_bitplane_line_base s"
    by (subst r(3) [unfolded same_config_def], simp)+
  ultimately show ?thesis
    using \<open>sched_inv s\<close> by (simp add: sched_inv_def table_ok_def r(1,2))
qed

lemma slot_rebuild_ok: "agnus_ok a \<Longrightarrow> agnus_ok (slot_rebuild a)"
  by (simp add: slot_rebuild_def agnus_ok_def rebuild_inv)

lemma disk_priority_ok:
  assumes "machine_at now ctx"
  shows "machine_at now (snd (slot_disk_priority env ctx owner))"
proof -
  have 1: "machine_at now (on_agnus (\<lambda>a. a\<lparr>ag_dma := f a\<rparr>) ctx)" for f
    by (rule agnus.keep [OF assms]) (simp add: agnus_ok_def)
  have 2: "machine_at now (on_scheduler (\<lambda>s. s\<lparr>ss_dmacon := d, ss_table_dirty := True\<rparr>) c)"
    if "machine_at now c" for c d
    by (rule sched.keep [OF that]) (simp add: sched_inv_def table_ok_def sched_ok_def)
  show ?thesis
    using assms by (auto simp: slot_disk_priority_def Let_def intro!: 1 2)
qed

lemma slot_dispatch_ok: "machine_at now ctx \<Longrightarrow> machine_at now (slot_dispatch env ctx)"
proof -
  assume ok: "machine_at now ctx"
  have "machine_at now (on_agnus (\<lambda>a. slot_rebuild (slot_sync a)) ctx)"
    by (rule agnus.keep [OF ok]) (intro slot_rebuild_ok sync_ok)
  then show ?thesis
    unfolding slot_dispatch_def Let_def split_beta by (intro dispatch_ok disk_priority_ok)
qed

lemma line_end_ok: "machine_at now ctx \<Longrightarrow> machine_at now (slot_line_end ctx)"
proof -
  assume ok: "machine_at now ctx"
  have len: "length (fold (\<lambda>i p. p[i := f i p]) is p) = length p" for f "is" and p :: "u32 list"
    by (induction "is" arbitrary: p) auto
  have 1: "machine_at now (on_agnus (\<lambda>a. a\<lparr>ag_bplpt := bplpt_apply_modulo
      (if c then fold (\<lambda>p pt. pt[p := h p]) is (ag_bplpt a) else ag_bplpt a) n b1 b2\<rparr>) ctx)"
    for c h "is" n b1 b2
    by (rule agnus.keep [OF ok]) (simp add: agnus_ok_def bplpt_apply_modulo_def len)
  show ?thesis
    unfolding slot_line_end_def Let_def
    by (rule sched.keep) (auto intro!: 1 ok simp: sched_inv_def table_ok_def sched_ok_def)
qed

lemma vertb_ok: "machine_at now ctx \<Longrightarrow> machine_at now (slot_vertb ctx)"
proof -
  assume ok: "machine_at now ctx"
  have 1: "machine_at now (agnus_irq_raise_vblank ctx)"
    unfolding agnus_irq_raise_vblank_def by (rule chipset.keep [OF ok]) (rule raise_source_ok)
  have 2: "machine_at now (on_agnus (\<lambda>a. a\<lparr>ag_sprite_dma := sprite_dma_frame_start (ag_sprite_dma a)\<rparr>) c)"
    if "machine_at now c" for c
    by (rule agnus.keep [OF that]) (simp add: agnus_ok_def sprite_dma_frame_start_def)
  have 3: "machine_at now (on_denise (\<lambda>d. d\<lparr>dn_sprites := denise_sprites_reset\<rparr>) c)" if "machine_at now c" for c
    by (rule denise.keep [OF that]) (simp add: denise_wf_def denise_sprites_reset_def)
  show ?thesis
    unfolding slot_vertb_def Let_def by (auto intro!: copper.keep 1 2 3)
qed

lemma beam_tail_ok:
  assumes "machine_at now ctx" and "beam_inv beam"
  shows "machine_at now (slot_beam_tail ctx beam)"
proof -
  have 1: "machine_at now (on_agnus (\<lambda>a. a\<lparr>ag_beam := beam\<rparr>) ctx)"
    by (rule agnus.keep [OF assms(1)]) (simp add: agnus_ok_def assms(2))
  have 2: "machine_at now (on_scheduler (\<lambda>s. s\<lparr>ss_hpos := h\<rparr>) c)" if "machine_at now c" for c h
    by (rule sched.keep [OF that]) (simp add: sched_inv_def table_ok_def sched_ok_def)
  have 3: "machine_at now (on_denise (\<lambda>_. fst (rigel_denise_step (ctx_denise c) beam 1)) c)" if "machine_at now c" for c
    by (rule denise.put [OF that]) (rule step_wf [OF denise.part_ok [OF that]])
  show ?thesis
    unfolding slot_beam_tail_def Let_def split_beta
    by (auto intro!: vertb_ok line_end_ok 1 2 3)
qed

lemma slot_step_ok:
  assumes "machine_at now ctx"
  shows "\<exists>ctx'. agnus_slot_scheduler_step env ctx = Some ctx' \<and> machine_at now ctx'"
proof -
  let ?c = "slot_dispatch env ctx" and ?b = "ag_beam (ctx_agnus (slot_dispatch env ctx))"
  have ok: "machine_at now ?c" by (rule slot_dispatch_ok [OF assms])
  then have b: "beam_inv ?b" using agnus.part_ok by (auto simp: agnus_ok_def)
  then have "beam_step_loop ?b 1 = Some (beam_tick ?b)" "beam_line_clocks ?b \<noteq> 0" "beam_frame_lines ?b \<noteq> 0"
    using beam_step_loop_ticks [of ?b 1] by (auto simp: beam_inv_def beam_ok_def)
  then have "rigel_beam_domain_step ?b 1 = Some (beam_tick ?b)"
    by (simp add: rigel_beam_domain_step_def beam_step_def)
  moreover have "beam_inv (beam_tick ?b)"
    using b beam_ok_tick [of ?b] by (simp add: beam_inv_def beam_tick_def)
  ultimately show ?thesis
    using beam_tail_ok [OF ok] by (simp add: agnus_slot_scheduler_step_def Let_def)
qed

lemma slot_steps_ok: "machine_at now ctx \<Longrightarrow> \<exists>ctx'. slot_steps env n ctx = Some ctx' \<and> machine_at now ctx'"
proof (induction n arbitrary: ctx)
  case (Suc n)
  then obtain c where "agnus_slot_scheduler_step env ctx = Some c" "machine_at now c"
    using slot_step_ok by blast
  then show ?case using Suc.IH [of c] by simp
qed simp

section \<open>Running the machine\<close>

lemma audio_step_total:
  assumes "length (au_ch a) = 4"
  shows "\<exists>a'. audio_step a cycles = Some a' \<and> length (au_ch a') = 4"
proof -
  obtain b e where b: "audio_step_channels a cycles [0..<4] False = Some (b, e)" "length (au_ch b) = 4"
    using audio_step_channels_ticks [of "[0..<4]" a cycles False] assms by (auto simp: atLeast0LessThan)
  have "length (au_ch (audio_mix b)) = 4"
    using b(2) by (simp add: audio_mix_def Let_def)
  then show ?thesis
    by (simp add: audio_step_def b(1) Let_def)
qed

lemma paula_step_ok:
  assumes "machine_at now ctx"
  shows "\<exists>ctx'. paula_step_ctx ctx cycles = Some ctx' \<and> machine_at now ctx'"
proof -
  let ?p = "ctx_paula ctx"
  have p: "irq_wf (pa_interrupts ?p)" "length (au_ch (pa_audio ?p)) = 4"
    using paula.part_ok [OF assms] by (simp_all add: paula_ok_def)
  obtain a where a: "rigel_audio_domain_step (pa_audio ?p) cycles = Some a" "length (au_ch a) = 4"
    using audio_step_total [OF p(2), of cycles] by (auto simp: rigel_audio_domain_step_def)
  obtain d ms1 s ms2 where "rigel_disk_domain_step (pa_disk ?p) cycles = (d, ms1)"
    "rigel_serial_domain_step (pa_serial ?p) cycles = (s, ms2)"
    by (metis surj_pair)
  then have "rigel_paula_step ?p cycles =
      Some (?p\<lparr>pa_audio := a, pa_disk := d, pa_serial := s\<rparr>, ms1 @ ms2)"
    using a(1) by (simp add: rigel_paula_step_def)
  moreover have "paula_ok (?p\<lparr>pa_audio := a, pa_disk := d, pa_serial := s\<rparr>)"
    using p(1) a(2) by (simp add: paula_ok_def)
  ultimately obtain p' ms where "rigel_paula_step ?p cycles = Some (p', ms)" "paula_ok p'"
    by blast
  then show ?thesis
    using assms by (auto simp: paula_step_ctx_def intro!: raise_ok paula.put)
qed

lemma tod_pulses_ok: "machine_at now ctx \<Longrightarrow> machine_at now (chipset_tod_pulses b ctx)"
proof -
  have 1: "machine_at now (on_chipset (on_cia i (\<lambda>s. cia_tod_pulse s n)) c)" if "machine_at now c"
    for c :: "('a, 'b) rigel_context" and i n
    by (rule chipset.keep [OF that]) (intro on_cia_ok irq_tod_pulse)
  show "machine_at now ctx \<Longrightarrow> machine_at now (chipset_tod_pulses b ctx)"
    unfolding chipset_tod_pulses_def Let_def by (auto intro!: 1)
qed

lemma cia_steps_ok: "chipset_ok now ch \<Longrightarrow> chipset_ok now (chipset_cia_steps cycles ch)"
proof -
  assume "chipset_ok now ch"
  then have "chipset_ok now (ch\<lparr>ch_cia_eclock_rem := r\<rparr>)" for r by (simp add: chipset_ok_def)
  then show ?thesis
    unfolding chipset_cia_steps_def Let_def
    by (auto intro!: on_cia_ok irq_cia_step simp del: cia_step.simps)
qed

lemma agnus_step_ok: "machine_at now ctx \<Longrightarrow> \<exists>ctx'. rigel_agnus_step env ctx n = Some ctx' \<and> machine_at now ctx'"
proof -
  assume ok: "machine_at now ctx"
  have "machine_at now (on_agnus (\<lambda>a. a\<lparr>ag_dma := f a\<rparr>) ctx)" for f
    by (rule agnus.keep [OF ok]) (simp add: agnus_ok_def)
  from slot_steps_ok [OF this] show ?thesis
    using ok by (simp add: rigel_agnus_step_def agnus_slot_scheduler_step_until_def)
qed

lemma chipset_step_ok:
  assumes "machine_at now ctx"
  shows "\<exists>ctx'. rigel_chipset_step env ctx cycles = Some ctx' \<and> machine_at (now + ucast cycles) ctx'"
proof -
  let ?c = "on_chipset (\<lambda>ch. ch\<lparr>ch_cycles := rigel_timing_advance (ch_cycles ch) cycles\<rparr>) ctx"
  let ?d = "on_paula (\<lambda>p. rigel_paula_set_dmacon p (dma_dmacon (ag_dma (ctx_agnus ?c)))) ?c"
  have c: "machine_at (now + ucast cycles) ?c"
    using assms by (simp add: machine_defs on_chipset_def rigel_timing_advance_def)
  have "machine_at (now + ucast cycles) ?d"
    by (rule paula.keep [OF c])
      (simp add: paula_ok_def rigel_paula_set_dmacon_def rigel_audio_domain_set_dmacon_def audio_set_dmacon_def)
  then obtain e where e: "rigel_agnus_step env ?d cycles = Some e" "machine_at (now + ucast cycles) e"
    using agnus_step_ok by blast
  then obtain f where f: "paula_step_ctx e cycles = Some f" "machine_at (now + ucast cycles) f"
    using paula_step_ok by blast
  have "machine_at (now + ucast cycles) (on_chipset (chipset_cia_steps cycles) (chipset_tod_pulses (ag_beam (ctx_agnus ?c)) f))"
    by (rule chipset.keep [OF tod_pulses_ok [OF f(2)]]) (rule cia_steps_ok)
  then show ?thesis
    using e(1) f(1) by (simp add: rigel_chipset_step_def Let_def)
qed

lemma machine_step_ok:
  assumes "machine_at now ctx"
  shows "\<exists>r ctx'. rigel_step env ctx cycles = Some (r, ctx') \<and>
    machine_at (now + ucast (ucast cycles :: u32)) ctx' \<and> sr_time r = now + ucast (ucast cycles :: u32)"
proof -
  have "machine_at now (on_copper (\<lambda>c. c\<lparr>event_latched := False\<rparr>) ctx)"
    by (rule copper.keep [OF assms]) simp
  then obtain c where c: "rigel_chipset_step env (on_copper (\<lambda>c. c\<lparr>event_latched := False\<rparr>) ctx) (ucast cycles) = Some c"
    "machine_at (now + ucast (ucast cycles :: u32)) c"
    using chipset_step_ok by blast
  have "machine_at (now + ucast (ucast cycles :: u32)) (on_paula (\<lambda>p. p\<lparr>pa_audio := (pa_audio p)\<lparr>au_sample_ready := False\<rparr>\<rparr>) c)"
    by (rule paula.keep [OF c(2)]) (simp add: paula_ok_def)
  then show ?thesis
    using c by (simp add: rigel_step_def Let_def machine_defs)
qed

section \<open>The rest of the interface\<close>

text \<open>The zeroed memory of a new context: all that matters is that the arrays have their sizes.\<close>

definition fresh_memory :: "('m, 'h) rigel_context \<Rightarrow> bool" where
  "fresh_memory ctx \<longleftrightarrow>
     (let ch = rc_chipset ctx in
      length (dr_color (dn_regs (ch_denise ch))) = 32 \<and>
      length (ss_bitplane_slot_index (ag_scheduler (ch_agnus ch))) = AGNUS_SLOTS_PER_LINE)"

lemma machine_fresh: "machine_at now ctx \<Longrightarrow> fresh_memory ctx"
  by (simp add: machine_defs fresh_memory_def Let_def denise_wf_def agnus_ok_def sched_inv_def table_ok_def)

lemma floppy_ok_reset: "floppy_ok (chipset_reset_drive i d)"
  by (simp add: chipset_reset_drive_def Let_def floppy_ok_def floppy_reset_def floppy_init_def
      floppy_insert_def floppy_set_connected_def)

lemma agnus_reset_ok:
  "length (ss_bitplane_slot_index (ag_scheduler a)) = AGNUS_SLOTS_PER_LINE \<Longrightarrow> agnus_ok (rigel_agnus_reset a)"
  by (simp add: agnus_ok_def rigel_agnus_reset_def Let_def beam_inv_def beam_ok_def beam_line_hmax_def
      rigel_beam_domain_reset_def beam_reset_def sched_inv_def table_ok_def sched_ok_def
      agnus_slot_scheduler_init_def bplpt_reset_def bitplane_fetch_reset_def sprite_dma_reset_def raster_reset_def)

lemma chipset_reset_ok:
  assumes "length (dr_color (dn_regs (ch_denise ch))) = 32"
    and "length (ss_bitplane_slot_index (ag_scheduler (ch_agnus ch))) = AGNUS_SLOTS_PER_LINE"
  shows "chipset_ok 0 (fst (rigel_chipset_reset env (ch, h)))"
proof -
  have "irq_wf (snd (cia_init irq i))" if "irq_wf irq" for irq i
    unfolding cia_init_def by (rule irq_cia_reset) (simp add: that)
  moreover have "irq_wf (snd (cia_attach_paula s b))" if "irq_wf (snd s)" for s b
    using that by (cases s) (simp add: irq_sync del: cia_interrupt_sync_irq_line.simps)
  moreover have "paula_ok (rigel_paula_set_disk_drive (rigel_paula_reset p) d)" for p :: "'a rigel_paula" and d
    by (simp add: paula_ok_def rigel_paula_set_disk_drive_def rigel_paula_reset_def irq_wf_reset
        rigel_audio_domain_reset_def audio_reset_def)
  ultimately show ?thesis
    using assms
    by (simp add: rigel_chipset_reset_def Let_def split_beta chipset_ok_def agnus_reset_ok reset_wf
        list_all_iff floppy_ok_reset paula_ok_def del: cia_attach_paula.simps)
qed

lemma wire_ok: "machine_at now ctx \<Longrightarrow> machine_at now (rigel_chipset_wire ctx)"
  unfolding rigel_chipset_wire_def
  by (rule paula.keep) (auto simp: Let_def rigel_paula_set_disk_memory_if_def
      rigel_paula_set_disk_irq_sink_def rigel_paula_set_serial_irq_sink_def)

lemma reset_machine_ok:
  assumes "fresh_memory ctx"
  shows "machine_at 0 (rigel_reset env ctx)"
proof -
  obtain ch h where r: "rigel_chipset_reset env (rc_chipset ctx, rc_host ctx) = (ch, h)"
    by (cases "rigel_chipset_reset env (rc_chipset ctx, rc_host ctx)")
  have start: "machine_at 0 (ctx\<lparr>rc_chipset := ch, rc_host := h\<rparr>)"
    using chipset_reset_ok [of "rc_chipset ctx" env "rc_host ctx"] assms r
    by (simp add: fresh_memory_def Let_def machine_at_def)
  have ops: "machine_at 0 (on_agnus (\<lambda>a. rigel_agnus_set_chip_rev a v) c)"
    "machine_at 0 (on_agnus (\<lambda>a. a\<lparr>ag_blitter := f a\<rparr>) c)"
    "machine_at 0 (on_denise (\<lambda>d. rigel_denise_set_chip_rev d v) c)"
    "machine_at 0 (on_agnus (\<lambda>a. rigel_agnus_set_video_std a std) c)"
    "machine_at 0 (on_denise (\<lambda>d. rigel_denise_set_framebuffer_target d tg) c)"
    if c: "machine_at 0 c" for c :: "('a, 'b) rigel_context" and v f std tg
    using agnus.keep [OF c] denise.keep [OF c] event_wf [of _ "Denise_Set_Rev v"] event_wf [of _ "Denise_Set_Target tg"]
    by (simp_all add: set_video_std_ok rigel_agnus_set_chip_rev_def) (simp_all add: agnus_ok_def)
  show ?thesis
    unfolding rigel_reset_def Let_def r prod.case by (intro ops wire_ok start)
qed

lemma rtc_op_ok: "machine_at now ctx \<Longrightarrow> machine_at now (ctx_rtc_op f ctx)"
  by (simp add: ctx_rtc_op_def split_beta rtc_frame_ok)

lemma create_ok:
  assumes "rigel_create env cfg (Some mem) = Some ctx" and "fresh_memory mem"
  shows "machine_at 0 ctx"
proof -
  let ?m = "on_chipset (\<lambda>ch. ch\<lparr>ch_rtc := rtc_set_host (ch_rtc ch) (Some (cfg_rtc_host cfg))\<rparr>) (mem\<lparr>rc_config := cfg\<rparr>)"
  have "fresh_memory ?m"
    using assms(2) by (simp add: fresh_memory_def Let_def on_chipset_def)
  then have "machine_at 0 (rigel_chipset_wire (rigel_reset env ?m))"
    by (intro wire_ok reset_machine_ok)
  then show ?thesis
    using assms(1) by (auto simp: rigel_create_def Let_def split_beta rtc_frame_ok split: if_splits)
qed

lemma external_pra_ok: "chipset_ok now ch \<Longrightarrow> chipset_ok now (set_cia_a_external_pra v ch)"
  by (simp add: set_cia_a_external_pra_def chipset_ok_def)

lemma fire_ok: "machine_at now ctx \<Longrightarrow> machine_at now (rigel_input_set_fire ctx port pressed)"
  unfolding rigel_input_set_fire_def Let_def by (auto intro!: chipset.keep external_pra_ok)

lemma joyport_ok:
  assumes "machine_at now ctx"
  shows "machine_at now (rigel_input_set_joydat ctx port v)"
    "machine_at now (rigel_input_set_pot_button_x ctx port b)"
    "machine_at now (rigel_input_set_pot_button_y ctx port b)"
  unfolding rigel_input_set_joydat_def rigel_input_set_pot_button_x_def rigel_input_set_pot_button_y_def
  by (rule paula.keep [OF assms], simp add: rigel_paula_set_joydat_def rigel_paula_set_pot_button_x_def
      rigel_paula_set_pot_button_y_def)+

lemma sync_floppy_ok: "chipset_ok now ch \<Longrightarrow> chipset_ok now (rigel_sync_floppy_cia_lines ch)"
  unfolding rigel_sync_floppy_cia_lines_def Let_def
  by (intro external_pra_ok) (simp add: chipset_ok_def rigel_paula_set_disk_drive_def)

lemma drive_update_ok:
  assumes "chipset_ok now ch" and "\<And>d. floppy_ok d \<Longrightarrow> floppy_ok (f d)" and "i < 4"
  shows "chipset_ok now (ch\<lparr>ch_floppy := (ch_floppy ch)[i := f (ch_floppy ch ! i)]\<rparr>)"
  using assms by (auto simp: chipset_ok_def list_all_iff dest!: set_update_subset_insert [THEN subsetD])

lemma floppy_ok_media: "floppy_ok d \<Longrightarrow> floppy_ok (floppy_insert d adf n)" "floppy_ok d \<Longrightarrow> floppy_ok (floppy_eject d)"
  by (auto simp: floppy_ok_def floppy_insert_def floppy_eject_def)

lemma media_ok:
  assumes "machine_at now ctx"
  shows "machine_at now (snd (rigel_floppy_insert ctx drive adf n))" "machine_at now (rigel_floppy_eject ctx drive)"
proof -
  have i: "i < 4" if "rigel_chipset_floppy_drive drive = Some i" for i
    using that by (auto simp: rigel_chipset_floppy_drive_def word_less_nat_alt split: if_splits)
  show "machine_at now (snd (rigel_floppy_insert ctx drive adf n))" "machine_at now (rigel_floppy_eject ctx drive)"
    unfolding rigel_floppy_insert_def rigel_floppy_eject_def
    using assms i by (auto split: option.split intro!: chipset.keep sync_floppy_ok drive_update_ok floppy_ok_media)
qed

lemma load_state_ok:
  assumes "machine_at now ctx" and "rigel_load_state ctx snap n m = Some ctx'"
  shows "machine_at (snap_cycles snap) ctx'"
proof -
  let ?t = "snap_cycles snap"
  have "machine_at ?t (on_chipset (\<lambda>ch. ch\<lparr>ch_cycles := ?t\<rparr>) ctx)"
    using assms(1) by (simp add: machine_defs on_chipset_def)
  moreover have "machine_at ?t (on_paula (\<lambda>p. p\<lparr>pa_interrupts := rigel_paula_interrupts_write_intena (pa_interrupts p) v\<rparr>) c)"
    "machine_at ?t (on_paula (\<lambda>p. p\<lparr>pa_interrupts := rigel_paula_interrupts_write_intreq (pa_interrupts p) v\<rparr>) c)"
    if "machine_at ?t c" for c :: "('a, 'b) rigel_context" and v
    by (rule paula.keep [OF that],
        use irq_wf_write_reg [of _ RIGEL_REG_INTENA v] irq_wf_write_reg [of _ RIGEL_REG_INTREQ v] in
          \<open>simp add: paula_ok_def rigel_paula_interrupts_write_intena_def
            rigel_paula_interrupts_write_intreq_def rigel_interrupt_domain_write_reg_def\<close>)+
  ultimately show ?thesis
    using assms(2) by (auto simp: rigel_load_state_def Let_def split: if_splits intro!: write_reg_ok)
qed

lemma serial_host_ok:
  assumes "machine_at now ctx"
  shows "machine_at now (rigel_serial_receive_byte ctx b)" "machine_at now (rigel_serial_set_tx_instant ctx on)"
    "rigel_serial_pop_tx_byte ctx = Some (x, ctx') \<Longrightarrow> machine_at now ctx'"
proof -
  have s: "machine_at now (on_paula (\<lambda>p. p\<lparr>pa_serial := f p\<rparr>) ctx)" for f
    by (rule paula.keep [OF assms]) simp
  show "machine_at now (rigel_serial_receive_byte ctx b)" "machine_at now (rigel_serial_set_tx_instant ctx on)"
    "rigel_serial_pop_tx_byte ctx = Some (x, ctx') \<Longrightarrow> machine_at now ctx'"
    unfolding rigel_serial_receive_byte_def rigel_serial_set_tx_instant_def rigel_serial_pop_tx_byte_def
    using s by (auto split: prod.split intro!: raise_ok)
qed

lemma cycle_exact_ok: "machine_at now ctx \<Longrightarrow> machine_at now (rigel_set_cycle_exact ctx on)"
  unfolding rigel_set_cycle_exact_def by (rule agnus.keep) (simp_all add: agnus_ok_def)

section \<open>Every run of the machine\<close>

text \<open>
  The contexts a host can bring about: a new context, and the result of any call of the
  interface on one, including the writes of the CPU to chip RAM and whatever the host's clock
  does meanwhile.
\<close>

inductive machine_reachable :: "'h rigel_env \<Rightarrow> ('m, 'h) rigel_context \<Rightarrow> bool" for env where
  create: "rigel_create env cfg (Some mem) = Some ctx \<Longrightarrow> fresh_memory mem \<Longrightarrow> machine_reachable env ctx"
| reset: "machine_reachable env ctx \<Longrightarrow> machine_reachable env (rigel_reset env ctx)"
| step: "machine_reachable env ctx \<Longrightarrow> rigel_step env ctx n = Some (r, ctx') \<Longrightarrow> machine_reachable env ctx'"
| mmio_read: "machine_reachable env ctx \<Longrightarrow> machine_reachable env (snd (snd (rigel_mmio_read env ctx addr sz)))"
| mmio_write: "machine_reachable env ctx \<Longrightarrow> machine_reachable env (snd (rigel_mmio_write env ctx addr sz v))"
| custom_read: "machine_reachable env ctx \<Longrightarrow> machine_reachable env (snd (rigel_custom_read16 ctx addr))"
| custom_write: "machine_reachable env ctx \<Longrightarrow> machine_reachable env (rigel_custom_write16 env ctx addr w)"
| cia_read: "machine_reachable env ctx \<Longrightarrow> machine_reachable env (snd (rigel_cia_read ctx cid reg))"
| cia_write: "machine_reachable env ctx \<Longrightarrow> machine_reachable env (rigel_cia_write ctx cid reg b)"
| rtc_read: "machine_reachable env ctx \<Longrightarrow> machine_reachable env (snd (rigel_rtc_read_reg env ctx reg))"
| rtc_write: "machine_reachable env ctx \<Longrightarrow> machine_reachable env (rigel_rtc_write_reg env ctx reg b)"
| rtc_model: "machine_reachable env ctx \<Longrightarrow> machine_reachable env (rigel_rtc_set_model env ctx model)"
| rtc_time: "machine_reachable env ctx \<Longrightarrow> machine_reachable env (rigel_rtc_set_time env ctx t)"
| keyboard: "machine_reachable env ctx \<Longrightarrow> machine_reachable env (rigel_keyboard_inject ctx key p)"
| joydat: "machine_reachable env ctx \<Longrightarrow> machine_reachable env (rigel_input_set_joydat ctx port w)"
| pot_x: "machine_reachable env ctx \<Longrightarrow> machine_reachable env (rigel_input_set_pot_button_x ctx port p)"
| pot_y: "machine_reachable env ctx \<Longrightarrow> machine_reachable env (rigel_input_set_pot_button_y ctx port p)"
| fire: "machine_reachable env ctx \<Longrightarrow> machine_reachable env (rigel_input_set_fire ctx port p)"
| insert: "machine_reachable env ctx \<Longrightarrow> machine_reachable env (snd (rigel_floppy_insert ctx drive adf k))"
| eject: "machine_reachable env ctx \<Longrightarrow> machine_reachable env (rigel_floppy_eject ctx drive)"
| load: "machine_reachable env ctx \<Longrightarrow> rigel_load_state ctx snap need avail = Some ctx' \<Longrightarrow> machine_reachable env ctx'"
| receive: "machine_reachable env ctx \<Longrightarrow> machine_reachable env (rigel_serial_receive_byte ctx b)"
| transmit: "machine_reachable env ctx \<Longrightarrow> rigel_serial_pop_tx_byte ctx = Some (b, ctx') \<Longrightarrow> machine_reachable env ctx'"
| tx_instant: "machine_reachable env ctx \<Longrightarrow> machine_reachable env (rigel_serial_set_tx_instant ctx p)"
| cycle_exact: "machine_reachable env ctx \<Longrightarrow> machine_reachable env (rigel_set_cycle_exact ctx p)"
| memory: "machine_reachable env ctx \<Longrightarrow> machine_reachable env (ctx\<lparr>rc_ram := m, rc_host := h\<rparr>)"

lemma reachable_ok: "machine_reachable env ctx \<Longrightarrow> \<exists>now. machine_at now ctx"
proof (induction rule: machine_reachable.induct)
  case (create cfg mem ctx)
  then show ?case using create_ok by blast
next
  case (reset ctx)
  then show ?case using reset_machine_ok machine_fresh by blast
next
  case (step ctx n r ctx')
  then obtain now where "machine_at now ctx" by blast
  from machine_step_ok [OF this, of env n] step(2) show ?case by auto
next
  case (load ctx snap need avail ctx')
  then show ?case using load_state_ok by blast
next
  case (transmit ctx b ctx')
  then show ?case using serial_host_ok(3) by blast
qed (auto simp: rigel_custom_read16_def rigel_custom_write16_def rigel_rtc_set_model_def rigel_rtc_set_time_def
    dest: mmio_read_ok mmio_write_ok custom_read_ok custom_write_ok cia_read_ok cia_write_ok rtc_read_ok
      rtc_write_ok rtc_op_ok keyboard_ok joyport_ok fire_ok media_ok serial_host_ok(1,2) cycle_exact_ok)

text \<open>
  C5: Whatever calls a host makes on a context, in any order and with any arguments, the next
  step of any length returns; it advances the time by exactly the requested cycles, of which
  only the low 32 bits count.  In every such state each array of the context has its size, the
  beam is inside its line, every drive is in a possible state, and the level presented to the
  CPU is the highest one among the requested and enabled interrupts.
\<close>

theorem machine_never_stuck:
  fixes ctx :: "('m, 'h) rigel_context"
  assumes "machine_reachable env ctx"
  shows "(\<exists>r ctx'. rigel_step env ctx cycles = Some (r, ctx') \<and>
      rigel_get_time ctx' = rigel_get_time ctx + ucast (ucast cycles :: u32) \<and>
      sr_time r = rigel_get_time ctx') \<and>
    chipset_ok (rigel_get_time ctx) (rc_chipset ctx) \<and>
    unat (rigel_get_ipl ctx) = ipl_spec (pa_interrupts (ctx_paula ctx))"
proof -
  obtain now where ok: "machine_at now ctx" using reachable_ok [OF assms] by blast
  have t: "rigel_get_time c = n" if "machine_at n c" for c :: "('m, 'h) rigel_context" and n
    using that by (simp add: rigel_get_time_def machine_defs)
  have "irq_wf (pa_interrupts (ctx_paula ctx))"
    using paula.part_ok [OF ok] by (simp add: paula_ok_def)
  then have "unat (rigel_get_ipl ctx) = ipl_spec (pa_interrupts (ctx_paula ctx))"
    by (simp add: rigel_get_ipl_def rigel_paula_interrupts_current_ipl_def
        rigel_interrupt_domain_current_ipl_def irq_wf_def compute_ipl_spec)
  then show ?thesis
    using machine_step_ok [OF ok, of env cycles] ok t by (auto simp: machine_at_def)
qed

text \<open>A machine with the memory of the harness, fresh from the allocator.\<close>

definition demo_config :: "(harness_ram, unit) rigel_config" where
  "demo_config = \<lparr>cfg_alloc_fn = False, cfg_free_fn = False, cfg_clock_hz = 0, cfg_chip_ram_size = 0,
     cfg_chip_ram = harness_chip_ram, cfg_tx_instant = False, cfg_rtc_model = RIGEL_RTC_MODEL_NONE,
     cfg_rtc_time = 0, cfg_rtc_host = rtc_null_host, cfg_video_std = RIGEL_VIDEO_PAL,
     cfg_chipset_model = RIGEL_CHIPSET_OCS, cfg_pixel_format = RIGEL_PIXEL_RGBA8888,
     cfg_framebuffer = framebuffer_target_zero, cfg_cycle_exact = False\<rparr>"

definition demo_memory :: "(harness_ram, unit) rigel_context" where
  "demo_memory =
     \<lparr>rc_config = demo_config,
      rc_chipset =
        \<lparr>ch_cycles = 0,
         ch_agnus = \<lparr>ag_chip_rev = AGNUS_REV_OCS, ag_beamcon0 = 0, ag_beam = beam_zero,
           ag_dma = \<lparr>dma_dmacon = 0, dma_enabled = False, dma_blitter_enabled = False\<rparr>,
           ag_copper = copper_zero, ag_bitplanes = 0, ag_bplpt = replicate 6 0, ag_fetch = replicate 6 0,
           ag_blitter = \<lparr>blt_regs = zero_regs, blt_cmd = zero_command, blt_result = zero_result,
             exec_state = BLITTER_EXEC_IDLE, command_valid = False, blt_busy = False, cycles_remaining = 0,
             dma_slots_consumed = 0, debug_trace = False, blt_cycle_exact = False,
             line_state = zero_line_state\<rparr>,
           ag_sprite_dma = sprite_dma_reset, ag_scheduler = sched_zero,
           ag_raster = raster_reset AGNUS_VIDEO_NTSC, ag_refresh = refresh_dma_reset\<rparr>,
         ch_denise = denise_zero,
         ch_paula = \<lparr>pa_interrupts = \<lparr>intena = 0, intreq = 0, ipl = 0\<rparr>,
           pa_audio = \<lparr>au_ch = replicate 4 audio_channel_zero, au_mixed_left = 0, au_mixed_right = 0,
             au_sample_ready = False, au_dmacon = 0, au_irq = False\<rparr>,
           pa_disk = disk_zero harness_chip_ram,
           pa_input = rigel_input_domain_reset, pa_serial = serial_zero\<rparr>,
         ch_cia = replicate 2 cia_zero, ch_cia_eclock_rem = 0,
         ch_rtc = \<lparr>rtc_model = RIGEL_RTC_MODEL_NONE, rtc_reg = [], rtc_time_offset = 0, rtc_host = rtc_null_host\<rparr>,
         ch_floppy = replicate 4 floppy_init, ch_custom_regs = replicate RIGEL_CUSTOM_REG_COUNT 0\<rparr>,
      rc_ram = replicate 1024 0, rc_host = (), rc_stores = []\<rparr>"

definition demo_env :: "unit rigel_env" where
  "demo_env = \<lparr>env_dsksyn = True, env_disk_legacy_priority = True, env_libc = None\<rparr>"

definition demo_machine :: "(harness_ram, unit) rigel_context" where
  "demo_machine = the (rigel_create demo_env demo_config (Some demo_memory))"

theorem machine_never_stuck_witness:
  "\<exists>r ctx'. rigel_step demo_env (rigel_custom_write16 demo_env demo_machine 0x096 0x8200) 100000 = Some (r, ctx') \<and>
     sr_time r = 100000"
proof -
  let ?ctx = "rigel_custom_write16 demo_env demo_machine 0x096 0x8200"
  have fresh: "fresh_memory demo_memory"
    by (simp add: fresh_memory_def demo_memory_def denise_zero_def sched_zero_def)
  have create: "rigel_create demo_env demo_config (Some demo_memory) = Some demo_machine"
    by (simp add: demo_machine_def rigel_create_def demo_config_def Let_def)
  have "machine_at 0 ?ctx"
    using create_ok [OF create fresh] by (simp add: rigel_custom_write16_def custom_write_ok)
  then have "rigel_get_time ?ctx = 0"
    by (simp add: machine_defs rigel_get_time_def)
  moreover have "machine_reachable demo_env ?ctx"
    by (intro machine_reachable.custom_write machine_reachable.create [OF create fresh])
  ultimately show ?thesis
    using machine_never_stuck [of demo_env ?ctx 100000] by fastforce
qed

end
