(* ===== verification/Host_Bytes.thy ===== *)
theory Host_Bytes
  imports Chip_Ram
begin

text \<open>
  The parts of the C library that the expansion boards use: copying a block of bytes into a
  buffer, and reading and writing a regular file at a position (\<^verbatim>\<open>fseeko\<close> with \<^verbatim>\<open>fread\<close> and
  \<^verbatim>\<open>fwrite\<close>).  A read past the end of the file is short; a write past the end extends the file,
  with zeros in a gap.  Device errors of the host are not modelled.
\<close>

section \<open>Blocks of bytes\<close>

definition mem_put :: "nat \<Rightarrow> 'a list \<Rightarrow> 'a list \<Rightarrow> 'a list" where
  "mem_put off xs buf = take off buf @ xs @ drop (off + length xs) buf"

lemma length_mem_put [simp]:
  "off + length xs \<le> length buf \<Longrightarrow> length (mem_put off xs buf) = length buf"
  by (simp add: mem_put_def)

lemma mem_put_get [simp]:
  "off \<le> length buf \<Longrightarrow> take (length xs) (drop off (mem_put off xs buf)) = xs"
  by (simp add: mem_put_def)

lemma mem_put_before [simp]:
  "a + n \<le> off \<Longrightarrow> off \<le> length buf \<Longrightarrow> take n (drop a (mem_put off xs buf)) = take n (drop a buf)"
proof -
  assume a: "a + n \<le> off" "off \<le> length buf"
  have "take n (drop a (mem_put off xs buf)) = take n (drop a (take off buf))"
    using a by (simp add: mem_put_def)
  also have "\<dots> = take n (drop a buf)" using a by (simp add: drop_take)
  finally show ?thesis .
qed

lemma mem_put_after [simp]:
  assumes "off + length xs \<le> a" "off \<le> length buf"
  shows "take n (drop a (mem_put off xs buf)) = take n (drop a buf)"
proof -
  have "a - off - length xs + (off + length xs) = a" using assms by simp
  then show ?thesis using assms by (simp add: mem_put_def)
qed

lemma take_mem_put_0 [simp]: "take (length xs) (mem_put 0 xs buf) = xs"
  by (simp add: mem_put_def)

section \<open>Regular files\<close>

definition file_read :: "nat \<Rightarrow> nat \<Rightarrow> 'a list \<Rightarrow> 'a list" where
  "file_read off want data = take want (drop off data)"

definition file_write :: "nat \<Rightarrow> u8 list \<Rightarrow> u8 list \<Rightarrow> u8 list" where
  "file_write off xs data = mem_put off xs (data @ replicate (off - length data) 0)"

lemma file_write_length [simp]:
  "off + length xs \<le> length data \<Longrightarrow> length (file_write off xs data) = length data"
  by (simp add: file_write_def)

lemma file_read_write_same [simp]: "file_read off (length xs) (file_write off xs data) = xs"
  by (simp add: file_write_def file_read_def)

lemma file_read_write_other:
  assumes "a + n \<le> off \<or> off + length xs \<le> a" "off \<le> length data"
  shows "file_read a n (file_write off xs data) = file_read a n data"
  using assms by (auto simp: file_read_def file_write_def)

lemma length_file_read [simp]: "length (file_read off want data) = min want (length data - off)"
  by (simp add: file_read_def)

section \<open>Big-endian words\<close>

definition be16_join :: "u8 \<Rightarrow> u8 \<Rightarrow> u16" where
  "be16_join a b = or (push_bit 8 (ucast a)) (ucast b)"

definition be16_bytes :: "u16 \<Rightarrow> u8 list" where
  "be16_bytes w = [ucast (drop_bit 8 w), ucast (and w 0xff)]"

fun words_of :: "u8 list \<Rightarrow> u16 list" where
  "words_of (a # b # bs) = be16_join a b # words_of bs"
| "words_of _ = []"

definition bytes_of :: "u16 list \<Rightarrow> u8 list" where
  "bytes_of ws = concat (map be16_bytes ws)"

lemma bytes_of_simps [simp]:
  "bytes_of [] = []" "bytes_of (w # ws) = ucast (drop_bit 8 w) # ucast (and w 0xff) # bytes_of ws"
  by (simp_all add: bytes_of_def be16_bytes_def)

lemma length_bytes_of [simp]: "length (bytes_of ws) = 2 * length ws"
  by (induction ws) simp_all

lemma words_of_bytes_of [simp]: "words_of (bytes_of ws) = ws"
  by (induction ws) (simp_all add: be16_join_def join_bytes)

lemma words_of_take_drop:
  assumes "i + 1 < length buf"
  shows "words_of (take (2 * Suc n) (drop i buf)) =
    be16_join (buf ! i) (buf ! (i + 1)) # words_of (take (2 * n) (drop (i + 2) buf))"
proof -
  have "drop i buf = buf ! i # buf ! (i + 1) # drop (i + 2) buf"
    using assms by (simp add: Cons_nth_drop_Suc)
  then show ?thesis by simp
qed

lemma mem_put_pair: "i + 1 < length buf \<Longrightarrow> buf[i := a, i + 1 := b] = mem_put i [a, b] buf"
proof -
  assume i: "i + 1 < length buf"
  then have "buf = take i buf @ buf ! i # buf ! (i + 1) # drop (i + 2) buf"
    by (simp add: Cons_nth_drop_Suc)
  then obtain pre x y post where b: "buf = pre @ x # y # post" "length pre = i"
    using i by (metis length_take min.absorb2 less_imp_le_nat add_lessD1)
  show "buf[i := a, i + 1 := b] = mem_put i [a, b] buf"
    by (simp add: b(1) b(2) [symmetric] mem_put_def list_update_append)
qed

lemma mem_put_append:
  assumes "i + length xs + length ys \<le> length buf"
  shows "mem_put (i + length xs) ys (mem_put i xs buf) = mem_put i (xs @ ys) buf"
  using assms by (cases xs) (auto simp: mem_put_def min_def add.commute add.left_commute)

section \<open>Big-endian longwords\<close>

definition be32_bytes :: "u32 \<Rightarrow> u8 list" where
  "be32_bytes v = [ucast (drop_bit 24 v), ucast (drop_bit 16 v), ucast (drop_bit 8 v), ucast v]"

definition be32_join :: "u8 \<Rightarrow> u8 \<Rightarrow> u8 \<Rightarrow> u8 \<Rightarrow> u32" where
  "be32_join a b c d =
     or (push_bit 24 (ucast a)) (or (push_bit 16 (ucast b)) (or (push_bit 8 (ucast c)) (ucast d)))"

lemma be32_join_split [simp]:
  "be32_join (ucast (drop_bit 24 v)) (ucast (drop_bit 16 v)) (ucast (drop_bit 8 v)) (ucast v) = v"
proof (rule bit_word_eqI)
  fix n assume "n < LENGTH(32)"
  then consider "n < 8" | "8 \<le> n" "n < 16" | "16 \<le> n" "n < 24" | "24 \<le> n" "n < 32"
    by force
  then show "bit (be32_join (ucast (drop_bit 24 v)) (ucast (drop_bit 16 v)) (ucast (drop_bit 8 v))
      (ucast v)) n = bit v n"
    by cases (auto simp: be32_join_def bit_simps)
qed

end
