(* ===== verification/Ata_Ide.thy ===== *)
theory Ata_Ide
  imports Host_Bytes
begin

text \<open>
  The ATA channel of the disk controller board (\<^verbatim>\<open>harness/expansions/ata_ide.c\<close>): the task file
  registers, the command decoder of a bus with a hard disk as master and an ATAPI drive as
  slave, and the transfer of sector data, identification data and packets through the 16-bit
  data port.  The disk and the ATAPI layer are reached by function pointers with a context;
  they are optional fields here and work on a context of any type.  The transfer buffer is a
  list of bytes.  Trace output is left out.
\<close>

unbundle bit_operations_syntax

section \<open>Constants\<close>

abbreviation ATA_XFER_BUF_SECTORS :: nat where "ATA_XFER_BUF_SECTORS \<equiv> 256"
abbreviation ATA_XFER_BUF_SIZE :: nat where "ATA_XFER_BUF_SIZE \<equiv> 524288"

abbreviation ATA_STATUS_RDY :: u8 where "ATA_STATUS_RDY \<equiv> 0x40"
abbreviation ATA_STATUS_DRQ :: u8 where "ATA_STATUS_DRQ \<equiv> 0x08"
abbreviation ATA_STATUS_ERR :: u8 where "ATA_STATUS_ERR \<equiv> 0x01"
abbreviation ATA_ERR_ABRT :: u8 where "ATA_ERR_ABRT \<equiv> 0x04"
abbreviation IR_COD :: u8 where "IR_COD \<equiv> 0x01"
abbreviation IR_IO :: u8 where "IR_IO \<equiv> 0x02"
abbreviation ATAPI_SIG_LBA_MID :: u8 where "ATAPI_SIG_LBA_MID \<equiv> 0x14"
abbreviation ATAPI_SIG_LBA_HIGH :: u8 where "ATAPI_SIG_LBA_HIGH \<equiv> 0xeb"

abbreviation ATA_CMD_IDENTIFY_DEVICE :: u8 where "ATA_CMD_IDENTIFY_DEVICE \<equiv> 0xec"
abbreviation ATA_CMD_IDENTIFY_PACKET :: u8 where "ATA_CMD_IDENTIFY_PACKET \<equiv> 0xa1"
abbreviation ATA_CMD_PACKET :: u8 where "ATA_CMD_PACKET \<equiv> 0xa0"
abbreviation ATA_CMD_DEVICE_RESET :: u8 where "ATA_CMD_DEVICE_RESET \<equiv> 0x08"
abbreviation ATA_CMD_READ_SECTORS :: u8 where "ATA_CMD_READ_SECTORS \<equiv> 0x20"
abbreviation ATA_CMD_WRITE_SECTORS :: u8 where "ATA_CMD_WRITE_SECTORS \<equiv> 0x30"
abbreviation ATA_CMD_SET_FEATURES :: u8 where "ATA_CMD_SET_FEATURES \<equiv> 0xef"

abbreviation ATA_DEV_SLAVE_BIT :: u8 where "ATA_DEV_SLAVE_BIT \<equiv> 0x10"
abbreviation ATA_SECTOR_SIZE :: u32 where "ATA_SECTOR_SIZE \<equiv> 512"
abbreviation RIPPLE_CS1_OFFSET :: u32 where "RIPPLE_CS1_OFFSET \<equiv> 0x1000"
abbreviation RIPPLE_NEXT_REG :: u32 where "RIPPLE_NEXT_REG \<equiv> 0x0200"

section \<open>State\<close>

datatype AtaRegState =
  ATA_IDLE | ATA_IDENTIFY | ATA_ATAPI_CMD | ATA_ATAPI_DATA_IN | ATA_ATAPI_DATA_OUT
| ATA_ATAPI_STATUS | ATA_DATA_IN | ATA_DATA_OUT

text \<open>
  \<open>ide_atapi_exec ctx pkt pkt_len buf buf_max\<close> gives back the return code, the number of data
  bytes, the buffer and the context; \<open>ide_disk_read ctx lba count buf\<close> the return code, the
  buffer and the context.
\<close>

record ('a, 'd) AtaIdeChannel =
  ide_features :: u8
  ide_sector_count :: u8
  ide_lba_low :: u8
  ide_lba_mid :: u8
  ide_lba_high :: u8
  ide_dev_head :: u8
  ide_error :: u8
  ide_status :: u8
  ide_state :: AtaRegState
  ide_xfer_buf :: "u8 list"
  ide_xfer_len :: nat
  ide_xfer_pos :: nat
  ide_atapi_pkt :: "u8 list"
  ide_atapi_pkt_pos :: nat
  ide_atapi_ctx :: 'a
  ide_atapi_exec :: "('a \<Rightarrow> u8 list \<Rightarrow> nat \<Rightarrow> u8 list \<Rightarrow> nat \<Rightarrow> int \<times> nat \<times> u8 list \<times> 'a) option"
  ide_atapi_reset :: "('a \<Rightarrow> 'a) option"
  ide_disk_ctx :: 'd
  ide_disk_read :: "('d \<Rightarrow> u32 \<Rightarrow> u32 \<Rightarrow> u8 list \<Rightarrow> int \<times> u8 list \<times> 'd) option"
  ide_disk_write :: "('d \<Rightarrow> u32 \<Rightarrow> u32 \<Rightarrow> u8 list \<Rightarrow> int \<times> 'd) option"
  ide_disk_sectors :: u32
  ide_disk_wr_lba :: u32
  ide_disk_wr_count :: u32

section \<open>Identification data\<close>

text \<open>A 16-bit word stored low byte first at word index \<open>i\<close>, and a string with its pairs swapped.\<close>

definition WORD_LE :: "nat \<Rightarrow> u16 \<Rightarrow> u8 list \<Rightarrow> u8 list" where
  "WORD_LE i w buf = buf[i * 2 := ucast (w AND 0xff), i * 2 + 1 := ucast (drop_bit 8 w)]"

definition identify_string :: "nat \<Rightarrow> nat \<Rightarrow> string \<Rightarrow> u8 list \<Rightarrow> u8 list" where
  "identify_string base n s buf =
     fold (\<lambda>i buf. buf[(base + i) * 2 := of_char (s ! (i * 2 + 1)),
                       (base + i) * 2 + 1 := of_char (s ! (i * 2))]) [0..<n] buf"

definition build_identify :: "('a, 'd) AtaIdeChannel \<Rightarrow> ('a, 'd) AtaIdeChannel" where
  "build_identify ch =
     (let buf = mem_put 0 (replicate 512 0) (ide_xfer_buf ch);
          buf = WORD_LE 0 0x85c0 buf;
          buf = WORD_LE 1 0x0000 buf;
          buf = WORD_LE 2 0xc837 buf;
          buf = WORD_LE 49 0x0200 buf;
          buf = WORD_LE 51 0x0200 buf;
          buf = WORD_LE 53 0x0006 buf;
          buf = WORD_LE 63 0x0007 buf;
          buf = WORD_LE 64 0x0001 buf;
          buf = identify_string 10 10 ''00000000000000000001'' buf;
          buf = identify_string 23 4 ''1.00    '' buf;
          buf = identify_string 27 20 ''BELLATRIX VIRTUAL CD-ROM                '' buf;
          buf = WORD_LE 47 0x8001 buf;
          buf = WORD_LE 80 0x00f0 buf;
          buf = WORD_LE 81 0x0022 buf
      in ch\<lparr>ide_xfer_buf := buf, ide_xfer_len := 512, ide_xfer_pos := 0\<rparr>)"

definition ata_disk_present :: "('a, 'd) AtaIdeChannel \<Rightarrow> bool" where
  "ata_disk_present ch \<longleftrightarrow> ide_disk_read ch \<noteq> None"

definition ata_selected_dev :: "('a, 'd) AtaIdeChannel \<Rightarrow> nat" where
  "ata_selected_dev ch = (if ide_dev_head ch AND ATA_DEV_SLAVE_BIT \<noteq> 0 then 1 else 0)"

definition build_identify_disk :: "('a, 'd) AtaIdeChannel \<Rightarrow> ('a, 'd) AtaIdeChannel" where
  "build_identify_disk ch =
     (let total = ide_disk_sectors ch;
          heads = 16 :: u16;
          spt = 63 :: u16;
          buf = mem_put 0 (replicate 512 0) (ide_xfer_buf ch);
          c = total div (ucast heads * ucast spt);
          cyl = (if c > 65535 then 65535 else ucast c) :: u16;
          buf = WORD_LE 0 0x0040 buf;
          buf = WORD_LE 1 cyl buf;
          buf = WORD_LE 3 heads buf;
          buf = WORD_LE 6 spt buf;
          buf = WORD_LE 47 0x8000 buf;
          buf = WORD_LE 49 0x0200 buf;
          buf = WORD_LE 53 0x0006 buf;
          buf = WORD_LE 60 (ucast (total AND 0xffff)) buf;
          buf = WORD_LE 61 (ucast (drop_bit 16 total)) buf;
          buf = WORD_LE 64 0x0001 buf;
          buf = WORD_LE 80 0x00f0 buf;
          buf = WORD_LE 83 0x4000 buf;
          buf = identify_string 10 10 ''00000000000000000002'' buf;
          buf = identify_string 23 4 ''1.00    '' buf;
          buf = identify_string 27 20 ''BELLATRIX VIRTUAL HARDDISK              '' buf
      in ch\<lparr>ide_xfer_buf := buf, ide_xfer_len := 512, ide_xfer_pos := 0\<rparr>)"

section \<open>Life cycle\<close>

text \<open>Whether the host's allocation succeeds is an argument; a null buffer is the empty list.\<close>

definition ata_ide_channel_alloc ::
    "bool \<Rightarrow> ('a, 'd) AtaIdeChannel \<Rightarrow> int \<times> ('a, 'd) AtaIdeChannel" where
  "ata_ide_channel_alloc avail ch =
     (if avail then (0, ch\<lparr>ide_xfer_buf := replicate ATA_XFER_BUF_SIZE 0\<rparr>)
      else (- 1, ch\<lparr>ide_xfer_buf := []\<rparr>))"

definition ata_ide_channel_free :: "('a, 'd) AtaIdeChannel \<Rightarrow> ('a, 'd) AtaIdeChannel" where
  "ata_ide_channel_free ch = ch\<lparr>ide_xfer_buf := []\<rparr>"

definition ata_ide_channel_reset :: "('a, 'd) AtaIdeChannel \<Rightarrow> ('a, 'd) AtaIdeChannel" where
  "ata_ide_channel_reset ch =
     ch\<lparr>ide_error := 0x01,
        ide_status := ATA_STATUS_RDY,
        ide_lba_mid := ATAPI_SIG_LBA_MID,
        ide_lba_high := ATAPI_SIG_LBA_HIGH,
        ide_dev_head := 0x00,
        ide_features := 0,
        ide_sector_count := 0,
        ide_lba_low := 0,
        ide_state := ATA_IDLE,
        ide_xfer_len := 0,
        ide_xfer_pos := 0,
        ide_atapi_pkt_pos := 0\<rparr>"

text \<open>
  The zeroed channel around a saved buffer; the contexts that the null pointers stand for are
  arguments.
\<close>

definition ata_ide_channel_init ::
    "'a \<Rightarrow> 'd \<Rightarrow> ('a, 'd) AtaIdeChannel \<Rightarrow> ('a, 'd) AtaIdeChannel" where
  "ata_ide_channel_init actx dctx ch =
     (let saved_buf = ide_xfer_buf ch
      in ata_ide_channel_reset
           \<lparr>ide_features = 0, ide_sector_count = 0, ide_lba_low = 0, ide_lba_mid = 0,
            ide_lba_high = 0, ide_dev_head = 0, ide_error = 0, ide_status = 0,
            ide_state = ATA_IDLE, ide_xfer_buf = saved_buf, ide_xfer_len = 0, ide_xfer_pos = 0,
            ide_atapi_pkt = replicate 12 0, ide_atapi_pkt_pos = 0, ide_atapi_ctx = actx,
            ide_atapi_exec = None, ide_atapi_reset = None, ide_disk_ctx = dctx,
            ide_disk_read = None, ide_disk_write = None, ide_disk_sectors = 0,
            ide_disk_wr_lba = 0, ide_disk_wr_count = 0\<rparr>)"

text \<open>The register number of a board offset, or -1.\<close>

definition ata_ide_offset_to_reg :: "u32 \<Rightarrow> int" where
  "ata_ide_offset_to_reg board_offset =
     (if board_offset < RIPPLE_CS1_OFFSET then - 1
      else if board_offset \<ge> RIPPLE_CS1_OFFSET + 8 * RIPPLE_NEXT_REG + 2 then - 1
      else
        let rel = board_offset - RIPPLE_CS1_OFFSET;
            reg = rel div RIPPLE_NEXT_REG
        in if reg \<ge> 8 then (if rel \<le> 1 then 0 else - 1) else uint reg)"

section \<open>Commands\<close>

definition ata_abort :: "('a, 'd) AtaIdeChannel \<Rightarrow> ('a, 'd) AtaIdeChannel" where
  "ata_abort ch = ch\<lparr>ide_error := ATA_ERR_ABRT, ide_status := ATA_STATUS_RDY OR ATA_STATUS_ERR\<rparr>"

definition ata_disk_lba :: "('a, 'd) AtaIdeChannel \<Rightarrow> u32" where
  "ata_disk_lba ch =
     push_bit 24 (ucast (ide_dev_head ch AND 0x0f)) OR push_bit 16 (ucast (ide_lba_high ch)) OR
     push_bit 8 (ucast (ide_lba_mid ch)) OR ucast (ide_lba_low ch)"

definition ata_disk_count :: "('a, 'd) AtaIdeChannel \<Rightarrow> u32" where
  "ata_disk_count ch = (if ide_sector_count ch \<noteq> 0 then ucast (ide_sector_count ch) else 256)"

text \<open>The sector commands of the disk; \<open>write\<close> tells them apart.\<close>

definition ata_disk_transfer :: "bool \<Rightarrow> ('a, 'd) AtaIdeChannel \<Rightarrow> ('a, 'd) AtaIdeChannel" where
  "ata_disk_transfer write ch =
     (let lba = ata_disk_lba ch; count = ata_disk_count ch
      in if lba + count > ide_disk_sectors ch \<or>
            count * ATA_SECTOR_SIZE > of_nat ATA_XFER_BUF_SIZE then ata_abort ch
         else if \<not> write then
           (case ide_disk_read ch of
              None \<Rightarrow> ch
            | Some rd \<Rightarrow>
                let (rc, buf, ctx) = rd (ide_disk_ctx ch) lba count (ide_xfer_buf ch);
                    ch = ch\<lparr>ide_xfer_buf := buf, ide_disk_ctx := ctx\<rparr>
                in if rc \<noteq> 0 then ata_abort ch
                   else ch\<lparr>ide_xfer_len := unat count * unat ATA_SECTOR_SIZE, ide_xfer_pos := 0,
                           ide_state := ATA_DATA_IN,
                           ide_status := ATA_STATUS_RDY OR ATA_STATUS_DRQ, ide_error := 0\<rparr>)
         else if ide_disk_write ch = None then ata_abort ch
         else ch\<lparr>ide_disk_wr_lba := lba, ide_disk_wr_count := count,
                 ide_xfer_len := unat count * unat ATA_SECTOR_SIZE, ide_xfer_pos := 0,
                 ide_state := ATA_DATA_OUT,
                 ide_status := ATA_STATUS_RDY OR ATA_STATUS_DRQ, ide_error := 0\<rparr>)"

text \<open>The disk commands run only when \<^verbatim>\<open>disk_read\<close> is set (\<^verbatim>\<open>execute_command\<close> tests it).\<close>

definition execute_disk_command :: "('a, 'd) AtaIdeChannel \<Rightarrow> u8 \<Rightarrow> ('a, 'd) AtaIdeChannel" where
  "execute_disk_command ch cmd =
     (if cmd = ATA_CMD_DEVICE_RESET then
        let dev = ide_dev_head ch AND ATA_DEV_SLAVE_BIT;
            ch = ata_ide_channel_reset ch
        in ch\<lparr>ide_dev_head := dev, ide_lba_mid := 0, ide_lba_high := 0\<rparr>
      else if cmd = ATA_CMD_IDENTIFY_DEVICE then
        (build_identify_disk ch)\<lparr>ide_state := ATA_DATA_IN,
           ide_status := ATA_STATUS_RDY OR ATA_STATUS_DRQ, ide_error := 0\<rparr>
      else if cmd = ATA_CMD_SET_FEATURES then ch\<lparr>ide_status := ATA_STATUS_RDY, ide_error := 0\<rparr>
      else if cmd = ATA_CMD_READ_SECTORS \<or> cmd = ATA_CMD_WRITE_SECTORS then
        ata_disk_transfer (cmd = ATA_CMD_WRITE_SECTORS) ch
      else ata_abort ch)"

definition execute_command :: "('a, 'd) AtaIdeChannel \<Rightarrow> u8 \<Rightarrow> ('a, 'd) AtaIdeChannel" where
  "execute_command ch cmd =
     (if ata_selected_dev ch = 0 then
        if ata_disk_present ch then execute_disk_command ch cmd
        else ata_abort (ch\<lparr>ide_lba_mid := 0, ide_lba_high := 0\<rparr>)
      else if cmd = ATA_CMD_DEVICE_RESET then
        let dev = ide_dev_head ch AND ATA_DEV_SLAVE_BIT;
            ch = (case ide_atapi_reset ch of None \<Rightarrow> ch
                  | Some f \<Rightarrow> ch\<lparr>ide_atapi_ctx := f (ide_atapi_ctx ch)\<rparr>);
            ch = ata_ide_channel_reset ch
        in ch\<lparr>ide_dev_head := dev\<rparr>
      else if cmd = ATA_CMD_IDENTIFY_DEVICE then
        ata_abort (ch\<lparr>ide_lba_mid := ATAPI_SIG_LBA_MID, ide_lba_high := ATAPI_SIG_LBA_HIGH\<rparr>)
      else if cmd = ATA_CMD_IDENTIFY_PACKET then
        (build_identify ch)\<lparr>ide_state := ATA_IDENTIFY,
           ide_status := ATA_STATUS_RDY OR ATA_STATUS_DRQ, ide_error := 0,
           ide_lba_mid := 0, ide_lba_high := 2\<rparr>
      else if cmd = ATA_CMD_PACKET then
        ch\<lparr>ide_state := ATA_ATAPI_CMD, ide_atapi_pkt_pos := 0,
           ide_status := ATA_STATUS_RDY OR ATA_STATUS_DRQ, ide_error := 0,
           ide_sector_count := IR_COD\<rparr>
      else ata_abort ch)"

definition execute_atapi_packet :: "('a, 'd) AtaIdeChannel \<Rightarrow> ('a, 'd) AtaIdeChannel" where
  "execute_atapi_packet ch =
     (case ide_atapi_exec ch of
        None \<Rightarrow> ata_abort ch
      | Some f \<Rightarrow>
          let (rc, data_len, buf, ctx) =
                f (ide_atapi_ctx ch) (ide_atapi_pkt ch) 12 (ide_xfer_buf ch) ATA_XFER_BUF_SIZE;
              ch = ch\<lparr>ide_xfer_buf := buf, ide_atapi_ctx := ctx\<rparr>
          in if rc \<noteq> 0 \<or> data_len = 0 then
               ch\<lparr>ide_state := ATA_IDLE,
                  ide_status := ATA_STATUS_RDY OR (if rc \<noteq> 0 then ATA_STATUS_ERR else 0),
                  ide_error := (if rc \<noteq> 0 then ATA_ERR_ABRT else ide_error ch),
                  ide_sector_count := IR_IO OR IR_COD\<rparr>
             else
               let bc = (if data_len > 0xfffe then 0xfffe else of_nat data_len) :: u16
               in ch\<lparr>ide_xfer_len := data_len, ide_xfer_pos := 0,
                     ide_state := ATA_ATAPI_DATA_IN,
                     ide_status := ATA_STATUS_RDY OR ATA_STATUS_DRQ, ide_error := 0,
                     ide_lba_mid := ucast (bc AND 0xff), ide_lba_high := ucast (drop_bit 8 bc),
                     ide_sector_count := IR_IO\<rparr>)"

section \<open>Register access\<close>

definition ata_ide_read8 :: "('a, 'd) AtaIdeChannel \<Rightarrow> u8 \<Rightarrow> u8" where
  "ata_ide_read8 ch reg =
     (if reg = 0 then 0xff
      else if reg = 1 then ide_error ch
      else if reg = 2 then ide_sector_count ch
      else if reg = 3 then ide_lba_low ch
      else if reg = 4 then ide_lba_mid ch
      else if reg = 5 then ide_lba_high ch
      else if reg = 6 then ide_dev_head ch OR 0xa0
      else if reg = 7 then ide_status ch
      else 0xff)"

text \<open>The end of a data-in transfer, once the last word is taken.\<close>

definition ata_data_in_done :: "('a, 'd) AtaIdeChannel \<Rightarrow> ('a, 'd) AtaIdeChannel" where
  "ata_data_in_done ch =
     (if ide_xfer_pos ch \<ge> ide_xfer_len ch then
        (if ide_state ch = ATA_ATAPI_DATA_IN
         then ch\<lparr>ide_state := ATA_IDLE, ide_status := ATA_STATUS_RDY,
                 ide_sector_count := IR_IO OR IR_COD\<rparr>
         else ch\<lparr>ide_state := ATA_IDLE, ide_status := ATA_STATUS_RDY\<rparr>)
        \<lparr>ide_xfer_len := 0, ide_xfer_pos := 0\<rparr>
      else ch)"

definition ata_ide_read16 ::
    "('a, 'd) AtaIdeChannel \<Rightarrow> u8 \<Rightarrow> u16 \<times> ('a, 'd) AtaIdeChannel" where
  "ata_ide_read16 ch reg =
     (if reg \<noteq> 0 then (ucast (ata_ide_read8 ch reg), ch)
      else if (ide_state ch = ATA_IDENTIFY \<or> ide_state ch = ATA_ATAPI_DATA_IN \<or>
               ide_state ch = ATA_DATA_IN) \<and> ide_xfer_pos ch + 1 < ide_xfer_len ch then
        let lo = ide_xfer_buf ch ! ide_xfer_pos ch;
            hi = ide_xfer_buf ch ! (ide_xfer_pos ch + 1);
            ch = ch\<lparr>ide_xfer_pos := ide_xfer_pos ch + 2\<rparr>
        in (push_bit 8 (ucast lo) OR ucast hi, ata_data_in_done ch)
      else (0xffff, ch))"

definition ata_ide_write8 ::
    "('a, 'd) AtaIdeChannel \<Rightarrow> u8 \<Rightarrow> u8 \<Rightarrow> ('a, 'd) AtaIdeChannel" where
  "ata_ide_write8 ch reg value =
     (if reg = 0 then ch
      else if reg = 1 then ch\<lparr>ide_features := value\<rparr>
      else if reg = 2 then ch\<lparr>ide_sector_count := value\<rparr>
      else if reg = 3 then ch\<lparr>ide_lba_low := value\<rparr>
      else if reg = 4 then ch\<lparr>ide_lba_mid := value\<rparr>
      else if reg = 5 then ch\<lparr>ide_lba_high := value\<rparr>
      else if reg = 6 then ch\<lparr>ide_dev_head := value\<rparr>
      else if reg = 7 then execute_command ch value
      else ch)"

text \<open>
  The last word of a disk write flushes the buffer.  A null \<^verbatim>\<open>disk_write\<close> cannot be reached
  there: the write command is refused without it.
\<close>

definition ata_disk_flush :: "('a, 'd) AtaIdeChannel \<Rightarrow> ('a, 'd) AtaIdeChannel" where
  "ata_disk_flush ch =
     (case ide_disk_write ch of
        None \<Rightarrow> ch
      | Some wr \<Rightarrow>
          let (rc, ctx) = wr (ide_disk_ctx ch) (ide_disk_wr_lba ch) (ide_disk_wr_count ch)
                            (ide_xfer_buf ch)
          in ch\<lparr>ide_disk_ctx := ctx, ide_state := ATA_IDLE, ide_xfer_len := 0, ide_xfer_pos := 0,
                ide_status := ATA_STATUS_RDY OR (if rc \<noteq> 0 then ATA_STATUS_ERR else 0),
                ide_error := (if rc \<noteq> 0 then ATA_ERR_ABRT else 0)\<rparr>)"

definition ata_ide_write16 ::
    "('a, 'd) AtaIdeChannel \<Rightarrow> u8 \<Rightarrow> u16 \<Rightarrow> ('a, 'd) AtaIdeChannel" where
  "ata_ide_write16 ch reg value =
     (let lo = ucast (value AND 0xff) :: u8;
          hi = ucast (drop_bit 8 value) :: u8
      in if reg \<noteq> 0 then ata_ide_write8 ch reg lo
         else if ide_state ch = ATA_DATA_OUT then
           if ide_xfer_pos ch + 1 < ide_xfer_len ch then
             let ch = ch\<lparr>ide_xfer_buf := (ide_xfer_buf ch)
                          [ide_xfer_pos ch := hi, ide_xfer_pos ch + 1 := lo],
                         ide_xfer_pos := ide_xfer_pos ch + 2\<rparr>
             in if ide_xfer_pos ch \<ge> ide_xfer_len ch then ata_disk_flush ch else ch
           else ch
         else if ide_state ch = ATA_ATAPI_CMD \<and> ide_atapi_pkt_pos ch < 12 then
           let ch = ch\<lparr>ide_atapi_pkt := (ide_atapi_pkt ch)[ide_atapi_pkt_pos ch := hi],
                       ide_atapi_pkt_pos := ide_atapi_pkt_pos ch + 1\<rparr>;
               ch = (if ide_atapi_pkt_pos ch < 12
                     then ch\<lparr>ide_atapi_pkt := (ide_atapi_pkt ch)[ide_atapi_pkt_pos ch := lo],
                             ide_atapi_pkt_pos := ide_atapi_pkt_pos ch + 1\<rparr>
                     else ch)
           in if ide_atapi_pkt_pos ch \<ge> 12 then execute_atapi_packet ch else ch
         else ch)"

end
