(* ===== verification/Atapi_Cdrom.thy ===== *)
theory Atapi_Cdrom
  imports Host_Bytes
begin

text \<open>
  The ATAPI CD-ROM (\<^verbatim>\<open>harness/expansions/atapi_cdrom.c\<close>): the packet commands, the sense data
  and the medium behind three callbacks.  Commands that return data write it into a buffer of
  a given capacity.  The environment variable that turns on the patch of the volume descriptor
  is the argument \<open>bootable\<close>; trace output is left out.
\<close>

unbundle bit_operations_syntax

section \<open>Constants\<close>

abbreviation ATAPI_SECTOR_SIZE :: nat where "ATAPI_SECTOR_SIZE \<equiv> 2048"

abbreviation ISO9660_PVD_LBA :: u32 where "ISO9660_PVD_LBA \<equiv> 16"
abbreviation ISO9660_SYSID_OFF :: nat where "ISO9660_SYSID_OFF \<equiv> 8"
abbreviation ISO9660_SYSID_LEN :: nat where "ISO9660_SYSID_LEN \<equiv> 32"

abbreviation CMD_TEST_UNIT_READY :: u8 where "CMD_TEST_UNIT_READY \<equiv> 0x00"
abbreviation CMD_REQUEST_SENSE :: u8 where "CMD_REQUEST_SENSE \<equiv> 0x03"
abbreviation CMD_INQUIRY :: u8 where "CMD_INQUIRY \<equiv> 0x12"
abbreviation CMD_START_STOP :: u8 where "CMD_START_STOP \<equiv> 0x1b"
abbreviation CMD_READ_CAPACITY :: u8 where "CMD_READ_CAPACITY \<equiv> 0x25"
abbreviation CMD_READ_10 :: u8 where "CMD_READ_10 \<equiv> 0x28"
abbreviation CMD_READ_TOC :: u8 where "CMD_READ_TOC \<equiv> 0x43"
abbreviation CMD_MODE_SENSE_10 :: u8 where "CMD_MODE_SENSE_10 \<equiv> 0x5a"

abbreviation SK_NO_SENSE :: u8 where "SK_NO_SENSE \<equiv> 0x00"
abbreviation SK_NOT_READY :: u8 where "SK_NOT_READY \<equiv> 0x02"
abbreviation SK_ILLEGAL_REQUEST :: u8 where "SK_ILLEGAL_REQUEST \<equiv> 0x05"
abbreviation SK_UNIT_ATTENTION :: u8 where "SK_UNIT_ATTENTION \<equiv> 0x06"

abbreviation ASC_MEDIUM_NOT_PRESENT :: u8 where "ASC_MEDIUM_NOT_PRESENT \<equiv> 0x3a"
abbreviation ASC_MEDIUM_CHANGED :: u8 where "ASC_MEDIUM_CHANGED \<equiv> 0x28"
abbreviation ASC_INVALID_COMMAND :: u8 where "ASC_INVALID_COMMAND \<equiv> 0x20"
abbreviation ASC_INVALID_FIELD_IN_CDB :: u8 where "ASC_INVALID_FIELD_IN_CDB \<equiv> 0x24"
abbreviation ASC_LBA_OUT_OF_RANGE :: u8 where "ASC_LBA_OUT_OF_RANGE \<equiv> 0x21"

section \<open>State\<close>

text \<open>\<open>am_read_sectors ctx lba count buf\<close> gives back the return code and the buffer.\<close>

record 'o AtapiMediaOps =
  am_present :: "'o \<Rightarrow> bool"
  am_read_sectors :: "'o \<Rightarrow> u32 \<Rightarrow> u32 \<Rightarrow> u8 list \<Rightarrow> int \<times> u8 list"
  am_sector_count :: "'o \<Rightarrow> u32"

record 'o AtapiCdromState =
  cd_ops :: "'o AtapiMediaOps"
  cd_ops_ctx :: 'o
  cd_sense_key :: u8
  cd_asc :: u8
  cd_ascq :: u8
  cd_unit_attention :: bool

definition cd_present :: "'o AtapiCdromState \<Rightarrow> bool" where
  "cd_present s \<longleftrightarrow> am_present (cd_ops s) (cd_ops_ctx s)"

definition set_sense :: "'o AtapiCdromState \<Rightarrow> u8 \<Rightarrow> u8 \<Rightarrow> u8 \<Rightarrow> 'o AtapiCdromState" where
  "set_sense s key asc ascq = s\<lparr>cd_sense_key := key, cd_asc := asc, cd_ascq := ascq\<rparr>"

definition atapi_cdrom_init :: "'o AtapiMediaOps \<Rightarrow> 'o \<Rightarrow> 'o AtapiCdromState" where
  "atapi_cdrom_init ops ctx =
     \<lparr>cd_ops = ops, cd_ops_ctx = ctx, cd_sense_key = 0, cd_asc = 0, cd_ascq = 0,
      cd_unit_attention = False\<rparr>"

definition atapi_cdrom_reset :: "'o AtapiCdromState \<Rightarrow> 'o AtapiCdromState" where
  "atapi_cdrom_reset s =
     (let had_media = cd_present s
      in s\<lparr>cd_sense_key := 0, cd_asc := 0, cd_ascq := 0, cd_unit_attention := had_media\<rparr>)"

definition atapi_cdrom_insert :: "'o AtapiCdromState \<Rightarrow> 'o AtapiCdromState" where
  "atapi_cdrom_insert s = s\<lparr>cd_unit_attention := True\<rparr>"

definition atapi_cdrom_eject :: "'o AtapiCdromState \<Rightarrow> 'o AtapiCdromState" where
  "atapi_cdrom_eject s = s\<lparr>cd_unit_attention := False\<rparr>"

section \<open>Commands\<close>

text \<open>The volume descriptor in the sector at offset \<open>o\<close> of the buffer.\<close>

definition patch_pvd_sysid :: "bool \<Rightarrow> nat \<Rightarrow> u8 list \<Rightarrow> u8 list" where
  "patch_pvd_sysid bootable off buf =
     (if \<not> bootable then buf
      else if buf ! off \<noteq> 0x01 then buf
      else if take 5 (drop (off + 1) buf) \<noteq> map of_char ''CD001'' then buf
      else if take 4 (drop (off + ISO9660_SYSID_OFF) buf) = map of_char ''CDTV'' \<or>
              take 10 (drop (off + ISO9660_SYSID_OFF) buf) = map of_char ''AMIGA BOOT'' then buf
      else mem_put (off + ISO9660_SYSID_OFF) (map of_char ''AMIGA BOOT'')
             (mem_put (off + ISO9660_SYSID_OFF) (replicate ISO9660_SYSID_LEN (of_char (CHR '' ''))) buf))"

text \<open>
  A command gives back its return code, the number of data bytes, the buffer and the state.
\<close>

type_synonym 'o command_result = "int \<times> nat \<times> u8 list \<times> 'o AtapiCdromState"

definition cmd_test_unit_ready :: "'o AtapiCdromState \<Rightarrow> u8 list \<Rightarrow> 'o command_result" where
  "cmd_test_unit_ready s out =
     (if \<not> cd_present s then
        (- 1, 0, out, set_sense s SK_NOT_READY ASC_MEDIUM_NOT_PRESENT 0x00)
      else if cd_unit_attention s then
        (- 1, 0, out,
         set_sense (s\<lparr>cd_unit_attention := False\<rparr>) SK_UNIT_ATTENTION ASC_MEDIUM_CHANGED 0x00)
      else (0, 0, out, set_sense s SK_NO_SENSE 0 0))"

definition cmd_request_sense ::
    "'o AtapiCdromState \<Rightarrow> u8 list \<Rightarrow> nat \<Rightarrow> 'o command_result" where
  "cmd_request_sense s out mx =
     (if mx < 18 then (- 1, 0, out, s)
      else
        let out = mem_put 0 (replicate 18 0) out;
            out = out[0 := 0x70, 2 := cd_sense_key s AND 0x0f, 7 := 10, 12 := cd_asc s,
                      13 := cd_ascq s]
        in (0, 18, out, set_sense s SK_NO_SENSE 0 0))"

definition cmd_inquiry :: "'o AtapiCdromState \<Rightarrow> u8 list \<Rightarrow> nat \<Rightarrow> 'o command_result" where
  "cmd_inquiry s out mx =
     (if mx < 36 then (- 1, 0, out, s)
      else
        let out = mem_put 0 (replicate 36 0) out;
            out = out[0 := 0x05, 1 := 0x80, 2 := 0x02, 3 := 0x32, 4 := 31];
            out = mem_put 8 (map of_char ''BELLA   '') out;
            out = mem_put 16 (map of_char ''VIRTUAL CDROM   '') out;
            out = mem_put 32 (map of_char ''1.00'') out
        in (0, 36, out, s))"

definition cmd_read_capacity ::
    "'o AtapiCdromState \<Rightarrow> u8 list \<Rightarrow> nat \<Rightarrow> 'o command_result" where
  "cmd_read_capacity s out mx =
     (if mx < 8 then (- 1, 0, out, s)
      else if \<not> cd_present s then
        (- 1, 0, out, set_sense s SK_NOT_READY ASC_MEDIUM_NOT_PRESENT 0)
      else
        let sectors = am_sector_count (cd_ops s) (cd_ops_ctx s);
            sectors = (if sectors = 0 then 1 else sectors);
            last = sectors - 1
        in (0, 8, mem_put 0 (be32_bytes last @ [0x00, 0x00, 0x08, 0x00]) out, s))"

definition cmd_read_toc :: "'o AtapiCdromState \<Rightarrow> u8 list \<Rightarrow> nat \<Rightarrow> 'o command_result" where
  "cmd_read_toc s out mx =
     (if mx < 20 then (- 1, 0, out, s)
      else if \<not> cd_present s then
        (- 1, 0, out, set_sense s SK_NOT_READY ASC_MEDIUM_NOT_PRESENT 0)
      else
        let sectors = am_sector_count (cd_ops s) (cd_ops_ctx s);
            toc_len = 18 :: u16
        in (0, 20, mem_put 0 ([ucast (drop_bit 8 toc_len), ucast toc_len, 1, 1,
                               0, 0x14, 1, 0, 0, 0, 0, 0,
                               0, 0x14, 0xaa, 0] @ be32_bytes sectors) out, s))"

definition cmd_mode_sense_10 ::
    "'o AtapiCdromState \<Rightarrow> u8 list \<Rightarrow> nat \<Rightarrow> 'o command_result" where
  "cmd_mode_sense_10 s out mx =
     (if mx < 8 then (- 1, 0, out, s)
      else (0, 8, (mem_put 0 (replicate 8 0) out)[0 := 0, 1 := 6], s))"

definition read_10_lba :: "u8 list \<Rightarrow> u32" where
  "read_10_lba pkt = be32_join (pkt ! 2) (pkt ! 3) (pkt ! 4) (pkt ! 5)"

definition read_10_count :: "u8 list \<Rightarrow> u16" where
  "read_10_count pkt = push_bit 8 (ucast (pkt ! 7)) OR ucast (pkt ! 8)"

definition cmd_read_10 ::
    "bool \<Rightarrow> 'o AtapiCdromState \<Rightarrow> u8 list \<Rightarrow> u8 list \<Rightarrow> nat \<Rightarrow> 'o command_result" where
  "cmd_read_10 bootable s pkt out mx =
     (if \<not> cd_present s then
        (- 1, 0, out, set_sense s SK_NOT_READY ASC_MEDIUM_NOT_PRESENT 0)
      else
        let lba = read_10_lba pkt; count = read_10_count pkt
        in if count = 0 then (0, 0, out, s)
           else
             let needed = unat count * ATAPI_SECTOR_SIZE
             in if needed > mx then
                  (- 1, 0, out, set_sense s SK_ILLEGAL_REQUEST ASC_INVALID_FIELD_IN_CDB 0)
                else
                  let (rc, out) = am_read_sectors (cd_ops s) (cd_ops_ctx s) lba (ucast count) out
                  in if rc \<noteq> 0 then
                       (- 1, 0, out, set_sense s SK_ILLEGAL_REQUEST ASC_LBA_OUT_OF_RANGE 0)
                     else
                       let out = (if lba \<le> ISO9660_PVD_LBA \<and> lba + ucast count > ISO9660_PVD_LBA
                                  then patch_pvd_sysid bootable
                                         (unat (ISO9660_PVD_LBA - lba) * ATAPI_SECTOR_SIZE) out
                                  else out)
                       in (0, needed, out, set_sense s SK_NO_SENSE 0 0))"

definition atapi_cdrom_exec ::
    "bool \<Rightarrow> 'o AtapiCdromState \<Rightarrow> u8 list \<Rightarrow> nat \<Rightarrow> u8 list \<Rightarrow> nat \<Rightarrow> 'o command_result" where
  "atapi_cdrom_exec bootable s pkt pkt_len out mx =
     (let cmd = pkt ! 0
      in if cmd = CMD_TEST_UNIT_READY then cmd_test_unit_ready s out
         else if cmd = CMD_REQUEST_SENSE then cmd_request_sense s out mx
         else if cmd = CMD_INQUIRY then cmd_inquiry s out mx
         else if cmd = CMD_READ_CAPACITY then cmd_read_capacity s out mx
         else if cmd = CMD_READ_TOC then cmd_read_toc s out mx
         else if cmd = CMD_MODE_SENSE_10 then cmd_mode_sense_10 s out mx
         else if cmd = CMD_READ_10 then cmd_read_10 bootable s pkt out mx
         else if cmd = CMD_START_STOP then (0, 0, out, s)
         else (- 1, 0, out, set_sense s SK_ILLEGAL_REQUEST ASC_INVALID_COMMAND 0))"

section \<open>The contract of a packet device\<close>

text \<open>
  What the ATA channel needs of the device behind its packet command: the buffer keeps its
  length, the data fits into the capacity, and it is a whole number of words.
\<close>

locale packet_device =
  fixes exec :: "'a \<Rightarrow> u8 list \<Rightarrow> nat \<Rightarrow> u8 list \<Rightarrow> nat \<Rightarrow> int \<times> nat \<times> u8 list \<times> 'a"
    and reset :: "'a \<Rightarrow> 'a"
    and good :: "'a \<Rightarrow> bool"
  assumes exec_good: "good c \<Longrightarrow> mx \<le> length buf \<Longrightarrow> exec c pkt n buf mx = (rc, len, buf', c') \<Longrightarrow>
      length buf' = length buf \<and> len \<le> mx \<and> even len \<and> good c'"
    and reset_good: "good c \<Longrightarrow> good (reset c)"

text \<open>A medium whose reads keep the length of the buffer.\<close>

definition media_ok :: "'o AtapiMediaOps \<Rightarrow> bool" where
  "media_ok ops \<longleftrightarrow> (\<forall>ctx lba count buf. unat count * ATAPI_SECTOR_SIZE \<le> length buf \<longrightarrow>
     length (snd (am_read_sectors ops ctx lba count buf)) = length buf)"

definition cdrom_ok :: "'o AtapiCdromState \<Rightarrow> bool" where
  "cdrom_ok s \<longleftrightarrow> media_ok (cd_ops s)"

lemma cdrom_ok_sense [simp]: "cdrom_ok (set_sense s a b c) = cdrom_ok s"
  by (simp add: cdrom_ok_def set_sense_def)

lemma cdrom_ok_attention [simp]: "cdrom_ok (s\<lparr>cd_unit_attention := a\<rparr>) = cdrom_ok s"
  by (simp add: cdrom_ok_def)

lemma cd_ops_sense [simp]: "cd_ops (set_sense s a b c) = cd_ops s"
  "cd_ops_ctx (set_sense s a b c) = cd_ops_ctx s"
  by (simp_all add: set_sense_def)

lemma length_be32_bytes [simp]: "length (be32_bytes v) = 4"
  by (simp add: be32_bytes_def)

lemma length_patch:
  "off + 40 \<le> length buf \<Longrightarrow> length (patch_pvd_sysid bootable off buf) = length buf"
  by (simp add: patch_pvd_sysid_def)

lemma read_10_ok:
  assumes ok: "cdrom_ok s" and cap: "mx \<le> length buf"
    and r: "cmd_read_10 bootable s pkt buf mx = (rc, len, buf', s')"
  shows "length buf' = length buf \<and> len \<le> mx \<and> even len \<and> cdrom_ok s'"
proof -
  let ?lba = "read_10_lba pkt" and ?count = "read_10_count pkt"
  obtain rc1 out where rd: "am_read_sectors (cd_ops s) (cd_ops_ctx s) ?lba (ucast ?count) buf = (rc1, out)"
    by fastforce
  have len: "length out = length buf" if "unat ?count * 2048 \<le> mx"
  proof -
    have "unat (ucast ?count :: u32) * 2048 \<le> length buf" using that cap by (simp)
    then show ?thesis using ok rd unfolding cdrom_ok_def media_ok_def by (metis snd_conv)
  qed
  have pvd: "length (patch_pvd_sysid bootable (unat (ISO9660_PVD_LBA - ?lba) * 2048) out) = length out"
    if "?lba \<le> 16" "?lba + ucast ?count > 16" "unat ?count * 2048 \<le> mx"
  proof -
    have "unat ?lba \<le> 16" using that(1) by (simp add: word_le_nat_alt)
    moreover have "unat ?count < 2 ^ 16" by (rule unsigned_less [THEN order_less_le_trans]) simp
    ultimately have "unat (?lba + ucast ?count) = unat ?lba + unat ?count"
      by (simp add: unat_word_ariths)
    then have "unat ?lba + unat ?count > 16" using that(2) by (simp add: word_less_nat_alt)
    moreover have "unat (ISO9660_PVD_LBA - ?lba) = 16 - unat ?lba"
      using that(1) by (simp add: unat_sub)
    ultimately have "unat (ISO9660_PVD_LBA - ?lba) < unat ?count" using \<open>unat ?lba \<le> 16\<close> by simp
    then have "unat (ISO9660_PVD_LBA - ?lba) * 2048 + 40 \<le> unat ?count * 2048" by simp
    then show ?thesis using that(3) cap len by (intro length_patch) simp
  qed
  show ?thesis
    using r ok len pvd
    unfolding cmd_read_10_def Let_def rd prod.case
    by (auto split: if_splits)
qed

interpretation cdrom: packet_device "atapi_cdrom_exec bootable" atapi_cdrom_reset cdrom_ok
proof
  fix c :: "'o AtapiCdromState" and mx n len :: nat and buf buf' pkt :: "u8 list" and rc c'
  assume a: "cdrom_ok c" "mx \<le> length buf" "atapi_cdrom_exec bootable c pkt n buf mx = (rc, len, buf', c')"
  show "length buf' = length buf \<and> len \<le> mx \<and> even len \<and> cdrom_ok c'"
  proof (cases "pkt ! 0 = CMD_READ_10")
    case True
    then show ?thesis using a read_10_ok [OF a(1,2)] by (simp add: atapi_cdrom_exec_def)
  next
    case False
    then show ?thesis
      using a unfolding atapi_cdrom_exec_def Let_def
      by (auto simp: cmd_test_unit_ready_def cmd_request_sense_def cmd_inquiry_def
          cmd_read_capacity_def cmd_read_toc_def cmd_mode_sense_10_def Let_def split: if_splits)
  qed
next
  fix c :: "'o AtapiCdromState"
  assume "cdrom_ok c" then show "cdrom_ok (atapi_cdrom_reset c)"
    by (simp add: cdrom_ok_def atapi_cdrom_reset_def Let_def)
qed

section \<open>Error reports\<close>

text \<open>
  The reference: which error a command ends with on a given device, as sense key and
  additional code, and \<^term>\<open>None\<close> for success.
\<close>

definition cd_fault :: "'o AtapiCdromState \<Rightarrow> u8 list \<Rightarrow> u8 list \<Rightarrow> nat \<Rightarrow> (u8 \<times> u8) option" where
  "cd_fault s pkt buf mx =
     (let cmd = pkt ! 0 in
      if cmd \<in> {CMD_REQUEST_SENSE, CMD_INQUIRY, CMD_MODE_SENSE_10, CMD_START_STOP} then None
      else if cmd \<notin> {CMD_TEST_UNIT_READY, CMD_READ_CAPACITY, CMD_READ_TOC, CMD_READ_10} then
        Some (SK_ILLEGAL_REQUEST, ASC_INVALID_COMMAND)
      else if \<not> cd_present s then Some (SK_NOT_READY, ASC_MEDIUM_NOT_PRESENT)
      else if cmd = CMD_TEST_UNIT_READY \<and> cd_unit_attention s then
        Some (SK_UNIT_ATTENTION, ASC_MEDIUM_CHANGED)
      else if cmd = CMD_READ_10 \<and> read_10_count pkt \<noteq> 0 then
        if unat (read_10_count pkt) * ATAPI_SECTOR_SIZE > mx then
          Some (SK_ILLEGAL_REQUEST, ASC_INVALID_FIELD_IN_CDB)
        else if fst (am_read_sectors (cd_ops s) (cd_ops_ctx s) (read_10_lba pkt)
                       (ucast (read_10_count pkt)) buf) \<noteq> 0 then
          Some (SK_ILLEGAL_REQUEST, ASC_LBA_OUT_OF_RANGE)
        else None
      else None)"

lemma exec_fault:
  assumes "36 \<le> mx" and "atapi_cdrom_exec bootable s pkt n buf mx = (rc, len, buf', s')"
  shows "(rc \<noteq> 0) = (cd_fault s pkt buf mx \<noteq> None)" (is "?A")
    and "cd_fault s pkt buf mx = Some (k, a) \<Longrightarrow>
      len = 0 \<and> cd_sense_key s' = k \<and> cd_asc s' = a \<and> cd_ascq s' = 0" (is "_ \<Longrightarrow> ?B")
proof -
  have "(rc \<noteq> 0) = (cd_fault s pkt buf mx \<noteq> None) \<and> (cd_fault s pkt buf mx = Some (k, a) \<longrightarrow>
      len = 0 \<and> cd_sense_key s' = k \<and> cd_asc s' = a \<and> cd_ascq s' = 0)"
  proof (cases "pkt ! 0 = CMD_READ_10")
    case True
    then show ?thesis using assms(2)
      by (auto simp: atapi_cdrom_exec_def cd_fault_def cmd_read_10_def set_sense_def Let_def
          split: if_splits prod.splits)
  next
    case False
    then show ?thesis using assms
      by (auto simp: atapi_cdrom_exec_def cd_fault_def cmd_test_unit_ready_def cmd_request_sense_def
          cmd_inquiry_def cmd_read_capacity_def cmd_read_toc_def cmd_mode_sense_10_def Let_def
          set_sense_def split: if_splits)
  qed
  then show ?A "cd_fault s pkt buf mx = Some (k, a) \<Longrightarrow> ?B" by blast+
qed

lemma sense_data: "(mem_put 0 (replicate 18 0) out)[0 := a :: u8, 2 := b, 7 := c, 12 := d, 13 := e] =
    [a, 0, b, 0, 0, 0, 0, c, 0, 0, 0, 0, d, e, 0, 0, 0, 0] @ drop 18 out"
  by (simp add: mem_put_def eval_nat_numeral)

lemma request_sense_bytes:
  assumes "18 \<le> mx" "mx \<le> length buf" "pkt ! 0 = CMD_REQUEST_SENSE"
  shows "atapi_cdrom_exec bootable s pkt n buf mx =
    (0, 18, [0x70, 0, cd_sense_key s AND 0x0f, 0, 0, 0, 0, 10, 0, 0, 0, 0, cd_asc s, cd_ascq s,
             0, 0, 0, 0] @ drop 18 buf, set_sense s SK_NO_SENSE 0 0)"
  using assms by (simp add: atapi_cdrom_exec_def cmd_request_sense_def Let_def sense_data)

text \<open>
  C15: A packet command fails exactly when the reference names an error for it, and then the
  next REQUEST SENSE reports that error in fixed format, key in byte 2 and code in byte 12;
  the report clears it, so a second one says that there is nothing to report.
\<close>

theorem sense_reports_fault:
  assumes "36 \<le> mx" and "mx \<le> length buf" and "cdrom_ok s" and "rs ! 0 = CMD_REQUEST_SENSE"
    and "atapi_cdrom_exec bootable s pkt 12 buf mx = (rc, len, buf', s')"
    and "atapi_cdrom_exec bootable s' rs 12 buf' mx = (rc1, len1, buf1, s1)"
    and "atapi_cdrom_exec bootable s1 rs 12 buf1 mx = (rc2, len2, buf2, s2)"
  shows "(rc = 0 \<longleftrightarrow> cd_fault s pkt buf mx = None) \<and>
    (\<forall>key code. cd_fault s pkt buf mx = Some (key, code) \<longrightarrow>
       len = 0 \<and> rc1 = 0 \<and> take len1 buf1 =
         [0x70, 0, key, 0, 0, 0, 0, 10, 0, 0, 0, 0, code, 0, 0, 0, 0, 0]) \<and>
    rc2 = 0 \<and> take len2 buf2 = [0x70, 0, 0, 0, 0, 0, 0, 10, 0, 0, 0, 0, 0, 0, 0, 0, 0, 0]"
proof -
  have b: "length buf' = length buf" "cdrom_ok s'"
    using cdrom.exec_good [OF assms(3,2,5)] by simp_all
  then have r1: "rc1 = 0" "len1 = 18" "s1 = set_sense s' SK_NO_SENSE 0 0" "buf1 =
      [0x70, 0, cd_sense_key s' AND 0x0f, 0, 0, 0, 0, 10, 0, 0, 0, 0, cd_asc s', cd_ascq s',
       0, 0, 0, 0] @ drop 18 buf'"
    using assms(6) request_sense_bytes [of mx buf' rs bootable s' 12] assms(1,2,4) by simp_all
  then have "length buf1 = length buf" using b assms(1,2) by simp
  then have r2: "rc2 = 0" "len2 = 18" "buf2 =
      [0x70, 0, cd_sense_key s1 AND 0x0f, 0, 0, 0, 0, 10, 0, 0, 0, 0, cd_asc s1, cd_ascq s1,
       0, 0, 0, 0] @ drop 18 buf1"
    using assms(7) request_sense_bytes [of mx buf1 rs bootable s1 12] assms(1,2,4) by simp_all
  have key: "k AND 0x0f = k" if "cd_fault s pkt buf mx = Some (k, a)" for k a
    using that by (auto simp: cd_fault_def Let_def split: if_splits)
  show ?thesis
    using exec_fault [OF assms(1,5)] r1 r2 key by (auto simp: set_sense_def)
qed

text \<open>An empty drive, asked whether it is ready.\<close>

definition empty_drive :: "unit AtapiCdromState" where
  "empty_drive = atapi_cdrom_init
     \<lparr>am_present = \<lambda>_. False, am_read_sectors = \<lambda>_ _ _ buf. (- 1, buf), am_sector_count = \<lambda>_. 0\<rparr> ()"

theorem sense_reports_fault_witness:
  "(let buf = replicate 64 0;
        (rc, len, buf', s') = atapi_cdrom_exec False empty_drive (replicate 12 CMD_TEST_UNIT_READY) 12 buf 64;
        (rc1, len1, buf1, s1) = atapi_cdrom_exec False s' (CMD_REQUEST_SENSE # replicate 11 0) 12 buf' 64
    in rc \<noteq> 0 \<and> take len1 buf1 =
         [0x70, 0, SK_NOT_READY, 0, 0, 0, 0, 10, 0, 0, 0, 0, ASC_MEDIUM_NOT_PRESENT, 0, 0, 0, 0, 0])"
proof -
  let ?buf = "replicate 64 0 :: u8 list" and ?rs = "CMD_REQUEST_SENSE # replicate 11 (0 :: u8)"
  let ?pkt = "replicate 12 (CMD_TEST_UNIT_READY :: u8)"
  obtain rc len buf' s' where e: "atapi_cdrom_exec False empty_drive ?pkt 12 ?buf 64 = (rc, len, buf', s')"
    by (metis surj_pair)
  obtain rc1 len1 buf1 s1 where e1: "atapi_cdrom_exec False s' ?rs 12 buf' 64 = (rc1, len1, buf1, s1)"
    by (metis surj_pair)
  obtain rc2 len2 buf2 s2 where e2: "atapi_cdrom_exec False s1 ?rs 12 buf1 64 = (rc2, len2, buf2, s2)"
    by (metis surj_pair)
  have ok: "cdrom_ok empty_drive"
    by (simp add: cdrom_ok_def media_ok_def empty_drive_def atapi_cdrom_init_def)
  have f: "cd_fault empty_drive ?pkt ?buf 64 = Some (SK_NOT_READY, ASC_MEDIUM_NOT_PRESENT)"
    by (simp add: cd_fault_def empty_drive_def atapi_cdrom_init_def cd_present_def)
  show ?thesis
    using sense_reports_fault [OF _ _ ok _ e e1 e2] by (simp add: f e e1)
qed

end
