(* ===== verification/Ata_Channel.thy ===== *)
theory Ata_Channel
  imports Ata_Ide Atapi_Cdrom
begin

text \<open>
  Properties of the ATA channel over any disk and any packet device that keep their contracts:
  the locales \<open>ata_disk\<close> and \<open>packet_device\<close>, put together in \<open>ata_channel\<close>.  The invariant
  says that every access to the transfer buffer is inside it and that DRQ is only ever shown
  when the data port has a word to give or to take.  The transfer lemmas say what a run of
  words through the port does.
\<close>

unbundle bit_operations_syntax

section \<open>The invariant\<close>

definition ata_data_in :: "('a, 'd) AtaIdeChannel \<Rightarrow> bool" where
  "ata_data_in ch \<longleftrightarrow> ide_state ch = ATA_IDENTIFY \<or> ide_state ch = ATA_ATAPI_DATA_IN \<or> ide_state ch = ATA_DATA_IN"

definition ata_data_ready :: "('a, 'd) AtaIdeChannel \<Rightarrow> bool" where
  "ata_data_ready ch \<longleftrightarrow>
     (ata_data_in ch \<or> ide_state ch = ATA_DATA_OUT) \<and> ide_xfer_pos ch + 1 < ide_xfer_len ch \<or>
     ide_state ch = ATA_ATAPI_CMD \<and> ide_atapi_pkt_pos ch < 12"

definition ata_ok :: "('a, 'd) AtaIdeChannel \<Rightarrow> bool" where
  "ata_ok ch \<longleftrightarrow>
     length (ide_xfer_buf ch) = ATA_XFER_BUF_SIZE \<and>
     length (ide_atapi_pkt ch) = 12 \<and> ide_atapi_pkt_pos ch \<le> 12 \<and> even (ide_atapi_pkt_pos ch) \<and>
     ide_xfer_pos ch \<le> ide_xfer_len ch \<and> ide_xfer_len ch \<le> ATA_XFER_BUF_SIZE \<and>
     even (ide_xfer_len ch) \<and> even (ide_xfer_pos ch) \<and>
     (ide_state ch = ATA_DATA_OUT \<longrightarrow> ide_disk_write ch \<noteq> None) \<and>
     (bit (ide_status ch) 3 \<longrightarrow> ata_data_ready ch)"

lemma ata_ok_reset: "ata_ok ch \<Longrightarrow> ata_ok (ata_ide_channel_reset ch)"
  by (simp add: ata_ok_def ata_ide_channel_reset_def)

lemma length_WORD_LE [simp]: "length (WORD_LE i w buf) = length buf"
  by (simp add: WORD_LE_def)

lemma length_identify_string [simp]: "length (identify_string base n s buf) = length buf"
proof -
  have "length (fold (\<lambda>i b. b[f i := g i, h i := k i]) xs buf) = length buf"
    for f h :: "nat \<Rightarrow> nat" and g k and xs :: "nat list"
    by (induction xs arbitrary: buf) simp_all
  then show ?thesis by (simp add: identify_string_def)
qed

lemma identify_fields:
  assumes "length (ide_xfer_buf ch) = ATA_XFER_BUF_SIZE" and "ch' = build_identify ch \<or> ch' = build_identify_disk ch"
  shows "length (ide_xfer_buf ch') = ATA_XFER_BUF_SIZE" "ide_xfer_len ch' = 512" "ide_xfer_pos ch' = 0"
    "ide_atapi_pkt ch' = ide_atapi_pkt ch" "ide_atapi_pkt_pos ch' = ide_atapi_pkt_pos ch"
  using assms by (auto simp: build_identify_def build_identify_disk_def Let_def)

lemma ata_ok_identify:
  assumes "ata_ok ch"
  shows "ata_ok ((build_identify ch)\<lparr>ide_state := ATA_IDENTIFY, ide_status := s, ide_error := e,
      ide_lba_mid := a, ide_lba_high := b\<rparr>)"
    and "ata_ok ((build_identify_disk ch)\<lparr>ide_state := ATA_DATA_IN, ide_status := s, ide_error := e\<rparr>)"
  using assms identify_fields [of ch "build_identify ch"] identify_fields [of ch "build_identify_disk ch"]
  by (auto simp: ata_ok_def ata_data_ready_def ata_data_in_def)

lemma ata_ok_abort: "ata_ok ch \<Longrightarrow> ata_ok (ata_abort ch)"
  by (simp add: ata_ok_def ata_abort_def)

section \<open>One word written to the data port\<close>

definition ata_put_word :: "('a, 'd) AtaIdeChannel \<Rightarrow> u16 \<Rightarrow> ('a, 'd) AtaIdeChannel" where
  "ata_put_word ch v =
     ch\<lparr>ide_xfer_buf := (ide_xfer_buf ch)[ide_xfer_pos ch := ucast (drop_bit 8 v),
                                        ide_xfer_pos ch + 1 := ucast (v AND 0xff)],
        ide_xfer_pos := ide_xfer_pos ch + 2\<rparr>"

definition ata_put_packet :: "('a, 'd) AtaIdeChannel \<Rightarrow> u16 \<Rightarrow> ('a, 'd) AtaIdeChannel" where
  "ata_put_packet ch v =
     ch\<lparr>ide_atapi_pkt := (ide_atapi_pkt ch)[ide_atapi_pkt_pos ch := ucast (drop_bit 8 v),
                                          ide_atapi_pkt_pos ch + 1 := ucast (v AND 0xff)],
        ide_atapi_pkt_pos := ide_atapi_pkt_pos ch + 2\<rparr>"

lemma ata_write16_out:
  assumes "ide_state ch = ATA_DATA_OUT" "ide_xfer_pos ch + 1 < ide_xfer_len ch"
  shows "ata_ide_write16 ch 0 v = (if ide_xfer_pos ch + 2 \<ge> ide_xfer_len ch
    then ata_disk_flush (ata_put_word ch v) else ata_put_word ch v)"
  using assms by (simp add: ata_ide_write16_def ata_put_word_def Let_def)

lemma ata_write16_packet:
  assumes "ide_state ch = ATA_ATAPI_CMD" "ide_atapi_pkt_pos ch + 1 < 12"
  shows "ata_ide_write16 ch 0 v = (if ide_atapi_pkt_pos ch + 2 \<ge> 12
    then execute_atapi_packet (ata_put_packet ch v) else ata_put_packet ch v)"
  using assms by (simp add: ata_ide_write16_def ata_put_packet_def Let_def)

lemma ata_write16_ignored:
  assumes "\<not> (ide_state ch = ATA_DATA_OUT \<and> ide_xfer_pos ch + 1 < ide_xfer_len ch)"
    and "\<not> (ide_state ch = ATA_ATAPI_CMD \<and> ide_atapi_pkt_pos ch < 12)"
  shows "ata_ide_write16 ch 0 v = ch"
  using assms by (cases "ide_state ch") (simp_all add: ata_ide_write16_def Let_def)

section \<open>The contract of a disk\<close>

locale ata_disk =
  fixes rd :: "'d \<Rightarrow> u32 \<Rightarrow> u32 \<Rightarrow> u8 list \<Rightarrow> int \<times> u8 list \<times> 'd"
    and wr :: "'d \<Rightarrow> u32 \<Rightarrow> u32 \<Rightarrow> u8 list \<Rightarrow> int \<times> 'd"
    and sectors :: "'d \<Rightarrow> nat"
    and live :: "'d \<Rightarrow> bool"
  assumes rd_buf: "unat count * 512 \<le> length buf \<Longrightarrow> length (fst (snd (rd d lba count buf))) = length buf"
    and rd_keeps: "snd (snd (rd d lba count buf)) = d"
    and wr_sectors: "sectors d \<le> sectors (snd (wr d lba count buf))"
    and wr_live: "live (snd (wr d lba count buf)) \<Longrightarrow> live d"
    and wr_ok: "unat lba + unat count \<le> sectors d \<Longrightarrow> 0 < count \<Longrightarrow> unat count * 512 \<le> length buf \<Longrightarrow>
      fst (wr d lba count buf) = 0"
    and rd_ok: "unat lba + unat count \<le> sectors d \<Longrightarrow> 0 < count \<Longrightarrow> fst (rd d lba count buf) = 0"
    and rd_data: "unat lba + unat count \<le> sectors d \<Longrightarrow> unat count * 512 \<le> length buf \<Longrightarrow>
      unat count * 512 \<le> length buf' \<Longrightarrow>
      take (unat count * 512) (fst (snd (rd d lba count buf))) =
      take (unat count * 512) (fst (snd (rd d lba count buf')))"
    and rd_wr_same: "unat lba + unat count \<le> sectors d \<Longrightarrow> 0 < count \<Longrightarrow> unat count * 512 \<le> length buf \<Longrightarrow>
      unat count * 512 \<le> length buf' \<Longrightarrow>
      take (unat count * 512) (fst (snd (rd (snd (wr d lba count buf)) lba count buf'))) =
      take (unat count * 512) buf"
    and rd_wr_other: "unat lba + unat count \<le> sectors d \<Longrightarrow> unat l + unat n \<le> sectors d \<Longrightarrow>
      unat lba + unat count \<le> unat l \<or> unat l + unat n \<le> unat lba \<Longrightarrow> unat count * 512 \<le> length buf \<Longrightarrow>
      rd (snd (wr d lba count buf)) l n buf' = (let (rc, b, _) = rd d l n buf' in (rc, b, snd (wr d lba count buf)))"

section \<open>The channel\<close>

text \<open>The callbacks of a channel are the given ones; the disk is optional.\<close>

definition ata_wired where
  "ata_wired exec reset rd wr ch \<longleftrightarrow>
     ide_atapi_exec ch = Some exec \<and> ide_atapi_reset ch = Some reset \<and>
     (ide_disk_read ch = None \<and> ide_disk_write ch = None \<or>
      ide_disk_read ch = Some rd \<and> ide_disk_write ch = Some wr)"

locale ata_channel = packet_device exec reset good + ata_disk rd wr sectors live
  for exec :: "'a \<Rightarrow> u8 list \<Rightarrow> nat \<Rightarrow> u8 list \<Rightarrow> nat \<Rightarrow> int \<times> nat \<times> u8 list \<times> 'a" and reset good
    and rd :: "'d \<Rightarrow> u32 \<Rightarrow> u32 \<Rightarrow> u8 list \<Rightarrow> int \<times> u8 list \<times> 'd" and wr sectors live
begin

abbreviation inv :: "('a, 'd) AtaIdeChannel \<Rightarrow> bool" where
  "inv ch \<equiv> ata_wired exec reset rd wr ch \<and> good (ide_atapi_ctx ch) \<and> ata_ok ch \<and>
     (live (ide_disk_ctx ch) \<longrightarrow> unat (ide_disk_sectors ch) \<le> sectors (ide_disk_ctx ch))"

lemma inv_reset: "inv ch \<Longrightarrow> inv (ata_ide_channel_reset ch)"
  using ata_ok_reset [of ch] by (simp add: ata_wired_def ata_ide_channel_reset_def)

lemma inv_ctx: "inv ch \<Longrightarrow> good a \<Longrightarrow> inv (ch\<lparr>ide_atapi_ctx := a\<rparr>)"
  by (simp add: ata_wired_def ata_ok_def ata_data_ready_def ata_data_in_def)

lemma inv_disk_closed: "inv ch \<Longrightarrow> \<not> live d \<Longrightarrow> inv (ch\<lparr>ide_disk_ctx := d\<rparr>)"
  by (simp add: ata_wired_def ata_ok_def ata_data_ready_def ata_data_in_def)

lemma inv_abort: "inv ch \<Longrightarrow> inv (ata_abort ch)"
  using ata_ok_abort [of ch] by (simp add: ata_wired_def ata_abort_def)

lemma inv_regs:
  assumes "inv ch"
  shows "inv (ch\<lparr>ide_dev_head := a\<rparr>)" "inv (ch\<lparr>ide_features := a\<rparr>)" "inv (ch\<lparr>ide_sector_count := a\<rparr>)"
    "inv (ch\<lparr>ide_lba_low := a\<rparr>)" "inv (ch\<lparr>ide_lba_mid := a\<rparr>)" "inv (ch\<lparr>ide_lba_high := a\<rparr>)"
    "inv (ch\<lparr>ide_status := ATA_STATUS_RDY, ide_error := a\<rparr>)"
  using assms by (auto simp: ata_wired_def ata_ok_def ata_data_ready_def ata_data_in_def)

lemma count_fits: "unat (ata_disk_count ch) * 512 \<le> ATA_XFER_BUF_SIZE" "0 < ata_disk_count ch"
proof -
  have "unat (ide_sector_count ch) \<le> 256" using unsigned_less [of "ide_sector_count ch", where ?'a = nat] by simp
  then have "unat (ata_disk_count ch) \<le> 256" by (simp add: ata_disk_count_def)
  then show "unat (ata_disk_count ch) * 512 \<le> ATA_XFER_BUF_SIZE" by simp
  have "unat (ucast (ide_sector_count ch) :: u32) = unat (ide_sector_count ch)" by simp
  then show "0 < ata_disk_count ch"
    by (auto simp: ata_disk_count_def word_less_nat_alt simp flip: unat_gt_0)
qed

lemma inv_start_in:
  assumes "inv ch" "length buf = ATA_XFER_BUF_SIZE"
  shows "inv (ch\<lparr>ide_xfer_buf := buf, ide_disk_ctx := ide_disk_ctx ch,
      ide_xfer_len := unat (ata_disk_count ch) * 512, ide_xfer_pos := 0, ide_state := ATA_DATA_IN,
      ide_status := s, ide_error := e\<rparr>)"
  using assms count_fits [of ch]
  by (auto simp: ata_wired_def ata_ok_def ata_data_ready_def ata_data_in_def word_less_nat_alt)

lemma inv_start_out:
  assumes "inv ch" "ide_disk_write ch \<noteq> None"
  shows "inv (ch\<lparr>ide_disk_wr_lba := l, ide_disk_wr_count := c,
      ide_xfer_len := unat (ata_disk_count ch) * 512, ide_xfer_pos := 0, ide_state := ATA_DATA_OUT,
      ide_status := s, ide_error := e\<rparr>)"
  using assms count_fits [of ch]
  by (auto simp: ata_wired_def ata_ok_def ata_data_ready_def ata_data_in_def word_less_nat_alt)

lemma inv_buffer:
  assumes "inv ch" "length buf = ATA_XFER_BUF_SIZE"
  shows "inv (ch\<lparr>ide_xfer_buf := buf, ide_disk_ctx := ide_disk_ctx ch\<rparr>)"
  using assms by (simp add: ata_wired_def ata_ok_def ata_data_ready_def ata_data_in_def)

lemma inv_transfer:
  assumes "inv ch" shows "inv (ata_disk_transfer write ch)"
proof (cases "ide_disk_read ch")
  case None
  then show ?thesis
    using assms inv_abort [OF assms] inv_start_out [OF assms]
    by (simp add: ata_disk_transfer_def Let_def)
next
  case (Some rd')
  then have rd': "ide_disk_read ch = Some rd" using assms by (auto simp: ata_wired_def)
  obtain rc buf d where r: "rd (ide_disk_ctx ch) (ata_disk_lba ch) (ata_disk_count ch) (ide_xfer_buf ch) = (rc, buf, d)"
    by (metis surj_pair)
  have d: "d = ide_disk_ctx ch"
    using rd_keeps [of "ide_disk_ctx ch" "ata_disk_lba ch" "ata_disk_count ch" "ide_xfer_buf ch"] r by simp
  have len: "length buf = ATA_XFER_BUF_SIZE"
    using rd_buf [of "ata_disk_count ch" "ide_xfer_buf ch" "ide_disk_ctx ch" "ata_disk_lba ch"]
      r assms count_fits [of ch] by (simp add: ata_ok_def)
  show ?thesis
    using inv_abort [OF assms] inv_start_out [OF assms] inv_start_in [OF assms len]
      inv_abort [OF inv_buffer [OF assms len]]
    by (simp add: ata_disk_transfer_def Let_def rd' r d)
qed

lemma inv_identify:
  assumes "inv ch"
  shows "inv ((build_identify ch)\<lparr>ide_state := ATA_IDENTIFY, ide_status := s, ide_error := e,
      ide_lba_mid := a, ide_lba_high := b\<rparr>)"
    and "inv ((build_identify_disk ch)\<lparr>ide_state := ATA_DATA_IN, ide_status := s, ide_error := e\<rparr>)"
proof -
  have "ide_atapi_exec ch' = ide_atapi_exec ch" "ide_atapi_reset ch' = ide_atapi_reset ch"
    "ide_disk_read ch' = ide_disk_read ch" "ide_disk_write ch' = ide_disk_write ch"
    "ide_atapi_ctx ch' = ide_atapi_ctx ch" "ide_disk_ctx ch' = ide_disk_ctx ch"
    "ide_disk_sectors ch' = ide_disk_sectors ch" if "ch' = build_identify ch \<or> ch' = build_identify_disk ch" for ch'
    using that by (auto simp: build_identify_def build_identify_disk_def Let_def)
  then have w: "ata_wired exec reset rd wr (build_identify ch)" "ata_wired exec reset rd wr (build_identify_disk ch)"
    "good (ide_atapi_ctx (build_identify ch))" "good (ide_atapi_ctx (build_identify_disk ch))"
    "ide_disk_ctx (build_identify ch) = ide_disk_ctx ch" "ide_disk_ctx (build_identify_disk ch) = ide_disk_ctx ch"
    "ide_disk_sectors (build_identify ch) = ide_disk_sectors ch"
    "ide_disk_sectors (build_identify_disk ch) = ide_disk_sectors ch"
    using assms by (simp_all add: ata_wired_def)
  show "inv ((build_identify ch)\<lparr>ide_state := ATA_IDENTIFY, ide_status := s, ide_error := e,
      ide_lba_mid := a, ide_lba_high := b\<rparr>)"
    using w(1,3,5,7) ata_ok_identify(1) [of ch] assms by (simp add: ata_wired_def)
  show "inv ((build_identify_disk ch)\<lparr>ide_state := ATA_DATA_IN, ide_status := s, ide_error := e\<rparr>)"
    using w(2,4,6,8) ata_ok_identify(2) [of ch] assms by (simp add: ata_wired_def)
qed

lemma inv_disk_command:
  assumes "inv ch" shows "inv (execute_disk_command ch cmd)"
proof -
  have "inv (let dev = ide_dev_head ch AND ATA_DEV_SLAVE_BIT; ch = ata_ide_channel_reset ch
      in ch\<lparr>ide_dev_head := dev, ide_lba_mid := 0, ide_lba_high := 0\<rparr>)"
    unfolding Let_def by (intro inv_regs inv_reset assms)
  then show ?thesis
    unfolding execute_disk_command_def
    using inv_identify(2) [OF assms] inv_regs(7) [OF assms] inv_transfer [OF assms] inv_abort [OF assms]
    by presburger
qed

lemma inv_packet_start:
  "inv ch \<Longrightarrow> inv (ch\<lparr>ide_state := ATA_ATAPI_CMD, ide_atapi_pkt_pos := 0, ide_status := s,
     ide_error := e, ide_sector_count := c\<rparr>)"
  by (simp add: ata_wired_def ata_ok_def ata_data_ready_def ata_data_in_def)

lemma inv_command:
  assumes "inv ch" shows "inv (execute_command ch cmd)"
proof -
  let ?ch1 = "case ide_atapi_reset ch of None \<Rightarrow> ch | Some f \<Rightarrow> ch\<lparr>ide_atapi_ctx := f (ide_atapi_ctx ch)\<rparr>"
  have "inv ?ch1"
    using assms reset_good [of "ide_atapi_ctx ch"]
    by (simp add: ata_wired_def ata_ok_def ata_data_ready_def ata_data_in_def)
  then have "inv (let dev = ide_dev_head ch AND ATA_DEV_SLAVE_BIT; ch = ?ch1;
      ch = ata_ide_channel_reset ch in ch\<lparr>ide_dev_head := dev\<rparr>)"
    unfolding Let_def by (intro inv_regs inv_reset)
  moreover have "inv (ata_abort (ch\<lparr>ide_lba_mid := a, ide_lba_high := b\<rparr>))" for a b
    by (intro inv_abort inv_regs assms)
  ultimately show ?thesis
    unfolding execute_command_def
    using inv_disk_command [OF assms] inv_identify(1) [OF assms] inv_packet_start [OF assms]
      inv_abort [OF assms]
    by presburger
qed

end

section \<open>The data port keeps the invariant\<close>

context ata_channel
begin

lemma inv_packet:
  assumes "inv (ch\<lparr>ide_status := 0\<rparr>)" shows "inv (execute_atapi_packet ch)"
proof -
  obtain rc len buf c where e: "exec (ide_atapi_ctx ch) (ide_atapi_pkt ch) 12 (ide_xfer_buf ch)
      ATA_XFER_BUF_SIZE = (rc, len, buf, c)"
    by (metis surj_pair)
  have i: "good (ide_atapi_ctx ch)" "length (ide_xfer_buf ch) = ATA_XFER_BUF_SIZE"
    "ide_atapi_exec ch = Some exec"
    using assms by (simp_all add: ata_ok_def ata_wired_def)
  have "length buf = ATA_XFER_BUF_SIZE" "len \<le> ATA_XFER_BUF_SIZE" "even len" "good c"
    using exec_good [OF i(1) _ e] i(2) by simp_all
  moreover have "0 < len \<Longrightarrow> even len \<Longrightarrow> Suc 0 < len" by presburger
  ultimately show ?thesis
    using assms unfolding execute_atapi_packet_def i(3) option.case Let_def e prod.case
    by (simp add: ata_wired_def ata_ok_def ata_data_ready_def ata_data_in_def)
qed

lemma inv_read16:
  assumes "inv ch" shows "inv (snd (ata_ide_read16 ch r))"
proof -
  have "inv (ata_data_in_done (ch\<lparr>ide_xfer_pos := ide_xfer_pos ch + 2\<rparr>))"
    if "ide_xfer_pos ch + 1 < ide_xfer_len ch" "ata_data_in ch"
  proof -
    have e: "even (ide_xfer_pos ch)" "even (ide_xfer_len ch)" using assms by (simp_all add: ata_ok_def)
    then have "ide_xfer_pos ch + 2 \<le> ide_xfer_len ch" using that(1) by simp
    moreover have "ide_xfer_pos ch + 3 \<noteq> ide_xfer_len ch" using e by presburger
    ultimately show ?thesis
      using assms that e
      by (auto simp: ata_data_in_done_def ata_wired_def ata_ok_def ata_data_ready_def ata_data_in_def)
  qed
  then show ?thesis
    using assms by (simp add: ata_ide_read16_def Let_def ata_data_in_def)
qed

lemma inv_write8:
  assumes "inv ch" shows "inv (ata_ide_write8 ch r v)"
  unfolding ata_ide_write8_def using inv_regs [OF assms] inv_command [OF assms] assms by presburger

lemma inv_flush:
  assumes "inv (ch\<lparr>ide_status := 0\<rparr>)" "ide_disk_write ch \<noteq> None"
  shows "inv (ata_disk_flush ch)"
proof -
  obtain rc d where w: "wr (ide_disk_ctx ch) (ide_disk_wr_lba ch) (ide_disk_wr_count ch)
      (ide_xfer_buf ch) = (rc, d)"
    by (metis surj_pair)
  have "live d \<longrightarrow> unat (ide_disk_sectors ch) \<le> sectors d"
    using assms(1) w wr_live [of "ide_disk_ctx ch" "ide_disk_wr_lba ch" "ide_disk_wr_count ch" "ide_xfer_buf ch"]
      wr_sectors [of "ide_disk_ctx ch" "ide_disk_wr_lba ch" "ide_disk_wr_count ch" "ide_xfer_buf ch"]
    by auto
  note d = this
  have "ide_disk_write ch = Some wr" using assms by (auto simp: ata_wired_def)
  then show ?thesis
    using assms w d by (simp add: ata_disk_flush_def Let_def ata_wired_def ata_ok_def
        ata_data_ready_def ata_data_in_def)
qed

lemma inv_put_word:
  assumes "inv ch" "ide_state ch = ATA_DATA_OUT" "ide_xfer_pos ch + 1 < ide_xfer_len ch"
  shows "inv (if ide_xfer_pos ch + 2 \<ge> ide_xfer_len ch then ata_disk_flush (ata_put_word ch v)
    else ata_put_word ch v)"
proof -
  have o: "even (ide_xfer_pos ch)" "even (ide_xfer_len ch)" "ide_disk_write ch \<noteq> None"
    using assms by (simp_all add: ata_ok_def)
  have "inv (ata_put_word ch v\<lparr>ide_status := 0\<rparr>)" "ide_disk_write (ata_put_word ch v) \<noteq> None"
    using assms o by (simp_all add: ata_put_word_def ata_wired_def ata_ok_def)
  moreover have "inv (ata_put_word ch v)" if "\<not> ide_xfer_pos ch + 2 \<ge> ide_xfer_len ch"
  proof -
    have "ide_xfer_pos ch + 3 \<noteq> ide_xfer_len ch" using o by presburger
    then show ?thesis
      using assms that by (simp add: ata_put_word_def ata_wired_def ata_ok_def ata_data_ready_def ata_data_in_def)
  qed
  ultimately show ?thesis using inv_flush by presburger
qed

lemma inv_put_packet:
  assumes "inv ch" "ide_state ch = ATA_ATAPI_CMD" "ide_atapi_pkt_pos ch + 1 < 12"
  shows "inv (if ide_atapi_pkt_pos ch + 2 \<ge> 12 then execute_atapi_packet (ata_put_packet ch v)
    else ata_put_packet ch v)"
proof -
  have "inv (ata_put_packet ch v\<lparr>ide_status := 0\<rparr>)"
    using assms by (simp add: ata_put_packet_def ata_wired_def ata_ok_def)
  moreover have "inv (ata_put_packet ch v)" if "\<not> ide_atapi_pkt_pos ch + 2 \<ge> 12"
    using assms that by (simp add: ata_put_packet_def ata_wired_def ata_ok_def ata_data_ready_def ata_data_in_def)
  ultimately show ?thesis using inv_packet by presburger
qed

lemma inv_write16:
  assumes "inv ch" shows "inv (ata_ide_write16 ch r v)"
proof (cases "r = 0")
  case True
  have "even (ide_atapi_pkt_pos ch)" using assms by (simp add: ata_ok_def)
  then have p: "ide_atapi_pkt_pos ch < 12 \<Longrightarrow> ide_atapi_pkt_pos ch + 1 < 12" by presburger
  consider (out) "ide_state ch = ATA_DATA_OUT" "ide_xfer_pos ch + 1 < ide_xfer_len ch"
    | (pkt) "ide_state ch = ATA_ATAPI_CMD" "ide_atapi_pkt_pos ch < 12"
    | (no) "\<not> (ide_state ch = ATA_DATA_OUT \<and> ide_xfer_pos ch + 1 < ide_xfer_len ch)"
        "\<not> (ide_state ch = ATA_ATAPI_CMD \<and> ide_atapi_pkt_pos ch < 12)"
    by blast
  then show ?thesis
  proof cases
    case out then show ?thesis unfolding True ata_write16_out [OF out] by (rule inv_put_word [OF assms])
  next
    case pkt then show ?thesis
      unfolding True ata_write16_packet [OF pkt(1) p [OF pkt(2)]] using p by (intro inv_put_packet [OF assms])
  next
    case no then show ?thesis unfolding True ata_write16_ignored [OF no] using assms by blast
  qed
next
  case False
  then show ?thesis using inv_write8 [OF assms] by (simp add: ata_ide_write16_def Let_def)
qed

end

end
