(* ===== verification/Ata_Transfer.thy ===== *)
theory Ata_Transfer
  imports Ata_Channel
begin

text \<open>
  Whole transfers through the data port: what a run of word reads returns, what a run of word
  writes leaves in the buffer, and the sector commands built from them, over any disk that
  keeps its contract.
\<close>

unbundle bit_operations_syntax

section \<open>Reading a buffer\<close>

fun ata_read_words :: "nat \<Rightarrow> ('a, 'd) AtaIdeChannel \<Rightarrow> u16 list \<times> ('a, 'd) AtaIdeChannel" where
  "ata_read_words 0 ch = ([], ch)"
| "ata_read_words (Suc n) ch =
     (let (w, ch) = ata_ide_read16 ch 0; (ws, ch) = ata_read_words n ch in (w # ws, ch))"

lemma ata_read16_word:
  assumes "ata_data_in ch" "ide_xfer_pos ch + 1 < ide_xfer_len ch"
  shows "ata_ide_read16 ch 0 =
    (be16_join (ide_xfer_buf ch ! ide_xfer_pos ch) (ide_xfer_buf ch ! (ide_xfer_pos ch + 1)),
     ata_data_in_done (ch\<lparr>ide_xfer_pos := ide_xfer_pos ch + 2\<rparr>))"
  using assms by (auto simp: ata_ide_read16_def ata_data_in_def be16_join_def Let_def)

lemma ata_read_words_run:
  assumes "ata_data_in ch" "ide_xfer_pos ch + 2 * n \<le> ide_xfer_len ch"
    and "ide_xfer_len ch \<le> length (ide_xfer_buf ch)" "ide_xfer_pos ch < ide_xfer_len ch"
  shows "ata_read_words n ch =
    (words_of (take (2 * n) (drop (ide_xfer_pos ch) (ide_xfer_buf ch))),
     ata_data_in_done (ch\<lparr>ide_xfer_pos := ide_xfer_pos ch + 2 * n\<rparr>))"
  using assms
proof (induction n arbitrary: ch)
  case 0
  then show ?case by (simp add: ata_data_in_done_def)
next
  case (Suc n)
  let ?ch = "ch\<lparr>ide_xfer_pos := ide_xfer_pos ch + 2\<rparr>"
  have r: "ata_ide_read16 ch 0 =
    (be16_join (ide_xfer_buf ch ! ide_xfer_pos ch) (ide_xfer_buf ch ! (ide_xfer_pos ch + 1)),
     ata_data_in_done ?ch)"
    using Suc.prems by (intro ata_read16_word) simp_all
  have b: "ide_xfer_pos ch + 1 < length (ide_xfer_buf ch)" using Suc.prems by simp
  show ?case
  proof (cases n)
    case 0
    show ?thesis unfolding 0 words_of_take_drop [OF b] by (simp add: r Let_def)
  next
    case (Suc m)
    have d: "ata_data_in_done ?ch = ?ch" using Suc Suc.prems by (simp add: ata_data_in_done_def)
    have "ata_read_words n ?ch = (words_of (take (2 * n) (drop (ide_xfer_pos ch + 2) (ide_xfer_buf ch))),
        ata_data_in_done (?ch\<lparr>ide_xfer_pos := ide_xfer_pos ch + 2 + 2 * n\<rparr>))"
      using Suc.IH [of ?ch] Suc Suc.prems by (simp add: ata_data_in_def)
    then show ?thesis
      unfolding words_of_take_drop [OF b] by (simp add: r d [simplified] Let_def)
  qed
qed

section \<open>Writing a buffer\<close>

definition ata_write_words :: "u16 list \<Rightarrow> ('a, 'd) AtaIdeChannel \<Rightarrow> ('a, 'd) AtaIdeChannel" where
  "ata_write_words ws ch = fold (\<lambda>w ch. ata_ide_write16 ch 0 w) ws ch"

lemma ata_write_words_run:
  assumes "ide_state ch = ATA_DATA_OUT" "ide_xfer_pos ch + 2 * length ws = ide_xfer_len ch"
    and "ide_xfer_len ch \<le> length (ide_xfer_buf ch)" "ws \<noteq> []"
  shows "ata_write_words ws ch = ata_disk_flush (ch\<lparr>ide_xfer_buf :=
    mem_put (ide_xfer_pos ch) (bytes_of ws) (ide_xfer_buf ch), ide_xfer_pos := ide_xfer_len ch\<rparr>)"
  using assms
proof (induction ws arbitrary: ch)
  case (Cons w ws)
  let ?p = "ide_xfer_pos ch" and ?b = "ide_xfer_buf ch"
  have put: "ata_put_word ch w =
      ch\<lparr>ide_xfer_buf := mem_put ?p (bytes_of [w]) ?b, ide_xfer_pos := ?p + 2\<rparr>"
    using Cons.prems mem_put_pair [of ?p ?b] by (simp add: ata_put_word_def)
  have w: "ata_ide_write16 ch 0 w = (if ?p + 2 \<ge> ide_xfer_len ch
      then ata_disk_flush (ata_put_word ch w) else ata_put_word ch w)"
    using Cons.prems by (intro ata_write16_out) simp_all
  show ?case
  proof (cases "ws = []")
    case True
    then have "?p + 2 = ide_xfer_len ch" using Cons.prems(2) by simp
    then show ?thesis using True by (simp add: ata_write_words_def w put)
  next
    case False
    then have n: "\<not> ?p + 2 \<ge> ide_xfer_len ch" using Cons.prems(2) by (cases ws) simp_all
    have app: "mem_put (?p + 2) (bytes_of ws) (mem_put ?p (bytes_of [w]) ?b) = mem_put ?p (bytes_of (w # ws)) ?b"
      using mem_put_append [of ?p "bytes_of [w]" "bytes_of ws" ?b] Cons.prems by simp
    have "ata_write_words ws (ata_put_word ch w) = ata_disk_flush (ata_put_word ch w
        \<lparr>ide_xfer_buf := mem_put (?p + 2) (bytes_of ws) (mem_put ?p (bytes_of [w]) ?b),
         ide_xfer_pos := ide_xfer_len ch\<rparr>)"
      using Cons.IH [of "ata_put_word ch w"] Cons.prems False by (simp add: put)
    then show ?thesis
      using n by (simp add: ata_write_words_def w put app [simplified])
  qed
qed simp

lemma ata_write_packet_run:
  assumes "ide_state ch = ATA_ATAPI_CMD" "ide_atapi_pkt_pos ch + 2 * length ws = 12"
    and "length (ide_atapi_pkt ch) = 12" "ws \<noteq> []"
  shows "ata_write_words ws ch = execute_atapi_packet (ch\<lparr>ide_atapi_pkt :=
    mem_put (ide_atapi_pkt_pos ch) (bytes_of ws) (ide_atapi_pkt ch), ide_atapi_pkt_pos := 12\<rparr>)"
  using assms
proof (induction ws arbitrary: ch)
  case (Cons w ws)
  let ?p = "ide_atapi_pkt_pos ch" and ?b = "ide_atapi_pkt ch"
  have put: "ata_put_packet ch w =
      ch\<lparr>ide_atapi_pkt := mem_put ?p (bytes_of [w]) ?b, ide_atapi_pkt_pos := ?p + 2\<rparr>"
    using Cons.prems mem_put_pair [of ?p ?b] by (simp add: ata_put_packet_def)
  have w: "ata_ide_write16 ch 0 w = (if ?p + 2 \<ge> 12
      then execute_atapi_packet (ata_put_packet ch w) else ata_put_packet ch w)"
    using Cons.prems by (intro ata_write16_packet) simp_all
  show ?case
  proof (cases "ws = []")
    case True
    then have "?p = 10" using Cons.prems(2) by simp
    then show ?thesis using True by (simp add: ata_write_words_def w put)
  next
    case False
    then have n: "\<not> ?p + 2 \<ge> 12" using Cons.prems(2) by (cases ws) simp_all
    have app: "mem_put (?p + 2) (bytes_of ws) (mem_put ?p (bytes_of [w]) ?b) = mem_put ?p (bytes_of (w # ws)) ?b"
      using mem_put_append [of ?p "bytes_of [w]" "bytes_of ws" ?b] Cons.prems by simp
    have "ata_write_words ws (ata_put_packet ch w) = execute_atapi_packet (ata_put_packet ch w
        \<lparr>ide_atapi_pkt := mem_put (?p + 2) (bytes_of ws) (mem_put ?p (bytes_of [w]) ?b),
         ide_atapi_pkt_pos := 12\<rparr>)"
      using Cons.IH [of "ata_put_packet ch w"] Cons.prems False by (simp add: put)
    then show ?thesis
      using n by (simp add: ata_write_words_def w put app [simplified])
  qed
qed simp

section \<open>Sector commands\<close>

text \<open>How a driver issues a sector command to the master: the address in the LBA registers.\<close>

definition ata_command_regs :: "u8 \<Rightarrow> u32 \<Rightarrow> u32 \<Rightarrow> (u8 \<times> u8) list" where
  "ata_command_regs cmd lba count =
     [(6, 0x40 OR (ucast (drop_bit 24 lba) AND 0x0f)), (2, ucast count), (3, ucast lba),
      (4, ucast (drop_bit 8 lba)), (5, ucast (drop_bit 16 lba)), (7, cmd)]"

definition ata_write_regs :: "(u8 \<times> u8) list \<Rightarrow> ('a, 'd) AtaIdeChannel \<Rightarrow> ('a, 'd) AtaIdeChannel" where
  "ata_write_regs rs ch = fold (\<lambda>(r, v) ch. ata_ide_write8 ch r v) rs ch"

definition ata_addressed :: "u32 \<Rightarrow> u32 \<Rightarrow> ('a, 'd) AtaIdeChannel \<Rightarrow> ('a, 'd) AtaIdeChannel" where
  "ata_addressed lba count ch =
     ch\<lparr>ide_dev_head := 0x40 OR (ucast (drop_bit 24 lba) AND 0x0f), ide_sector_count := ucast count,
        ide_lba_low := ucast lba, ide_lba_mid := ucast (drop_bit 8 lba),
        ide_lba_high := ucast (drop_bit 16 lba)\<rparr>"

lemma ata_write_command: "ata_write_regs (ata_command_regs cmd lba count) ch =
    execute_command (ata_addressed lba count ch) cmd"
  by (simp add: ata_write_regs_def ata_command_regs_def ata_addressed_def ata_ide_write8_def)

lemma ata_addressed_lba:
  assumes "unat lba < 2 ^ 28" shows "ata_disk_lba (ata_addressed lba count ch) = lba"
proof (rule bit_word_eqI)
  fix n assume n: "n < LENGTH(32)"
  have high: "\<not> bit lba n" if "28 \<le> n"
  proof -
    have "take_bit 28 (unat lba) = unat lba" using assms by (simp add: take_bit_nat_eq_self)
    then have "bit (unat lba) n \<longleftrightarrow> bit (take_bit 28 (unat lba)) n" by simp
    then show ?thesis using that by (simp only: bit_take_bit_iff bit_unsigned_iff) simp
  qed
  have d: "ata_disk_lba (ata_addressed lba count ch) =
      push_bit 24 (ucast ((0x40 OR (ucast (drop_bit 24 lba) AND 0x0f)) AND 0x0f :: u8)) OR
      push_bit 16 (ucast (ucast (drop_bit 16 lba) :: u8)) OR
      push_bit 8 (ucast (ucast (drop_bit 8 lba) :: u8)) OR ucast (ucast lba :: u8)"
    by (simp add: ata_disk_lba_def ata_addressed_def)
  have h: "(0x40 OR (w AND 0x0f)) AND 0x0f = w AND (0x0f :: u8)" for w
    by (simp add: bit.conj_disj_distrib2 and.assoc)
  consider "n < 8" | "8 \<le> n" "n < 16" | "16 \<le> n" "n < 24" | "n = 24" | "n = 25" | "n = 26" | "n = 27" | "28 \<le> n"
    by force
  then show "bit (ata_disk_lba (ata_addressed lba count ch)) n = bit lba n"
    using n high unfolding d h by cases (auto simp: bit_simps)
qed

lemma ata_addressed_count:
  assumes "0 < count" "unat count \<le> 256"
  shows "ata_disk_count (ata_addressed lba count ch) = count"
proof (cases "unat count = 256")
  case True
  then have "count = 256" by (simp add: word_unat_eq_iff)
  then show ?thesis by (simp add: ata_disk_count_def ata_addressed_def)
next
  case False
  then have l: "unat count < 2 ^ 8" using assms(2) by simp
  then have u: "unat (ucast count :: u8) = unat count" by (simp add: unat_ucast_small)
  then have "ucast count \<noteq> (0 :: u8)" using assms(1) by (metis unat_0 unat_gt_0 word_greater_zero_iff)
  moreover have "ucast (ucast count :: u8) = count" using u by (simp add: word_unat_eq_iff)
  ultimately show ?thesis by (simp add: ata_disk_count_def ata_addressed_def)
qed

lemma ata_addressed_dev: "ata_selected_dev (ata_addressed lba count ch) = 0"
proof -
  have "(0x40 OR (w AND 0x0f)) AND 0x10 = (0 :: u8)" for w
    by (simp add: bit.conj_disj_distrib2 and.assoc)
  then show ?thesis by (simp add: ata_selected_dev_def ata_addressed_def)
qed

context ata_channel
begin

lemma inv_write_regs: "inv c \<Longrightarrow> inv (ata_write_regs rs c)"
  by (induction rs arbitrary: c) (auto simp: ata_write_regs_def intro!: inv_write8)

lemma inv_words: "inv c \<Longrightarrow> inv (ata_write_words vs c)"
  by (induction vs arbitrary: c) (auto simp: ata_write_words_def intro!: inv_write16)

lemma inv_read_words: "inv c \<Longrightarrow> inv (snd (ata_read_words n c))"
proof (induction n arbitrary: c)
  case (Suc n)
  then show ?case
    using inv_read16 [OF Suc.prems, of 0] by (simp add: Let_def split: prod.split) (metis snd_conv)
qed simp

lemma range_no_overflow:
  fixes lba count total :: u32
  assumes "unat lba + unat count \<le> unat total" "unat lba < 2 ^ 28" "unat count \<le> 256"
  shows "\<not> lba + count > total" "\<not> count * 512 > 524288"
proof -
  have "unat (lba + count) = unat lba + unat count" using assms(2,3) by (simp add: unat_word_ariths)
  moreover have "unat (count * 512) = unat count * 512" using assms(3) by (simp add: unat_word_ariths)
  ultimately show "\<not> lba + count > total" "\<not> count * 512 > 524288"
    using assms by (simp_all add: word_less_nat_alt)
qed

lemma disk_write_command:
  assumes "inv ch" "ide_disk_read ch = Some rd" "unat lba + unat count \<le> unat (ide_disk_sectors ch)"
    and "unat lba < 2 ^ 28" "0 < count" "unat count \<le> 256" "length ws = unat count * 256"
  shows "ata_write_words ws (ata_write_regs (ata_command_regs ATA_CMD_WRITE_SECTORS lba count) ch) =
    ata_disk_flush ((ata_addressed lba count ch)\<lparr>ide_disk_wr_lba := lba, ide_disk_wr_count := count,
      ide_xfer_len := unat count * 512, ide_state := ATA_DATA_OUT,
      ide_status := ATA_STATUS_RDY OR ATA_STATUS_DRQ, ide_error := 0,
      ide_xfer_buf := mem_put 0 (bytes_of ws) (ide_xfer_buf ch),
      ide_xfer_pos := unat count * 512\<rparr>)"
proof -
  let ?ch = "ata_addressed lba count ch"
  let ?out = "?ch\<lparr>ide_disk_wr_lba := lba, ide_disk_wr_count := count,
      ide_xfer_len := unat count * 512, ide_xfer_pos := 0, ide_state := ATA_DATA_OUT,
      ide_status := ATA_STATUS_RDY OR ATA_STATUS_DRQ, ide_error := 0\<rparr>"
  have f: "ide_disk_sectors ?ch = ide_disk_sectors ch" "ide_disk_write ?ch = Some wr" "ide_disk_read ?ch = Some rd"
    using assms(1,2) by (auto simp: ata_addressed_def ata_wired_def)
  note range_no_overflow [OF assms(3,4,6)]
  then have "execute_command ?ch ATA_CMD_WRITE_SECTORS = ?out"
    by (simp add: execute_command_def ata_addressed_dev ata_disk_present_def f execute_disk_command_def
        ata_disk_transfer_def ata_addressed_lba [OF assms(4)] ata_addressed_count [OF assms(5,6)] Let_def)
  moreover have "ata_write_words ws ?out = ata_disk_flush (?out\<lparr>ide_xfer_buf :=
      mem_put 0 (bytes_of ws) (ide_xfer_buf ch), ide_xfer_pos := unat count * 512\<rparr>)"
  proof -
    have "ws \<noteq> []" using assms(5,7) by (auto simp: word_less_nat_alt)
    moreover have "length (ide_xfer_buf ch) = ATA_XFER_BUF_SIZE" using assms(1) by (simp add: ata_ok_def)
    ultimately show ?thesis
      using ata_write_words_run [of ?out ws] assms(6,7) by (simp add: ata_addressed_def)
  qed
  ultimately show ?thesis by (simp add: ata_write_command)
qed

text \<open>Writing whole sectors: the disk holds the words, and the channel is idle again.\<close>

lemma disk_write_done:
  assumes "inv ch" "ide_disk_read ch = Some rd" "unat lba + unat count \<le> unat (ide_disk_sectors ch)"
    and "unat lba < 2 ^ 28" "0 < count" "unat count \<le> 256" "length ws = unat count * 256"
    and "unat (ide_disk_sectors ch) \<le> sectors (ide_disk_ctx ch)"
  defines "ch' \<equiv> ata_write_words ws (ata_write_regs (ata_command_regs ATA_CMD_WRITE_SECTORS lba count) ch)"
  shows "ide_disk_ctx ch' = snd (wr (ide_disk_ctx ch) lba count (mem_put 0 (bytes_of ws) (ide_xfer_buf ch)))"
    and "ide_status ch' = ATA_STATUS_RDY" and "ide_error ch' = 0"
    and "ide_disk_read ch' = Some rd" and "ide_disk_sectors ch' = ide_disk_sectors ch" and "inv ch'"
proof -
  let ?buf = "mem_put 0 (bytes_of ws) (ide_xfer_buf ch)"
  have len: "length (ide_xfer_buf ch) = ATA_XFER_BUF_SIZE" using assms(1) by (simp add: ata_ok_def)
  obtain rc d where w: "wr (ide_disk_ctx ch) lba count ?buf = (rc, d)" by fastforce
  have wired: "ide_disk_write ch = Some wr" using assms(1,2) by (auto simp: ata_wired_def)
  have "rc = 0"
    using wr_ok [of lba count "ide_disk_ctx ch" ?buf] assms(3,5,6,7,8) len w by simp
  then show "ide_disk_ctx ch' = snd (wr (ide_disk_ctx ch) lba count ?buf)"
    "ide_status ch' = ATA_STATUS_RDY" "ide_error ch' = 0"
    "ide_disk_read ch' = Some rd" "ide_disk_sectors ch' = ide_disk_sectors ch"
    unfolding ch'_def disk_write_command [OF assms(1-7)]
    using wired w assms(2) by (simp_all add: ata_disk_flush_def ata_addressed_def)
  show "inv ch'" unfolding ch'_def by (intro inv_words inv_write_regs assms(1))
qed

text \<open>Reading whole sectors: the words are the bytes that the disk gives.\<close>

lemma disk_read_done:
  assumes "inv ch" "ide_disk_read ch = Some rd" "unat lba + unat count \<le> unat (ide_disk_sectors ch)"
    and "unat lba < 2 ^ 28" "0 < count" "unat count \<le> 256"
    and "unat (ide_disk_sectors ch) \<le> sectors (ide_disk_ctx ch)"
    and r: "ata_read_words (unat count * 256)
      (ata_write_regs (ata_command_regs ATA_CMD_READ_SECTORS lba count) ch) = (ws, ch')"
  shows "ws = words_of (take (unat count * 512) (fst (snd (rd (ide_disk_ctx ch) lba count (ide_xfer_buf ch)))))"
    and "ide_disk_ctx ch' = ide_disk_ctx ch" and "ide_status ch' = ATA_STATUS_RDY" and "ide_error ch' = 0"
proof -
  let ?ch = "ata_addressed lba count ch"
  have len: "length (ide_xfer_buf ch) = ATA_XFER_BUF_SIZE" using assms(1) by (simp add: ata_ok_def)
  obtain rc buf d where rd: "rd (ide_disk_ctx ch) lba count (ide_xfer_buf ch) = (rc, buf, d)"
    by (metis surj_pair)
  have d: "d = ide_disk_ctx ch" using rd_keeps [of "ide_disk_ctx ch" lba count "ide_xfer_buf ch"] rd by simp
  have rc: "rc = 0"
    using rd_ok [of lba count "ide_disk_ctx ch" "ide_xfer_buf ch"] assms(3,5,7) rd by simp
  have lb: "length buf = ATA_XFER_BUF_SIZE"
    using rd_buf [of count "ide_xfer_buf ch" "ide_disk_ctx ch" lba] len assms(6) rd by simp
  let ?in = "?ch\<lparr>ide_xfer_buf := buf, ide_disk_ctx := d, ide_xfer_len := unat count * 512, ide_xfer_pos := 0,
      ide_state := ATA_DATA_IN, ide_status := ATA_STATUS_RDY OR ATA_STATUS_DRQ, ide_error := 0\<rparr>"
  have f: "ide_disk_sectors ?ch = ide_disk_sectors ch" "ide_disk_read ?ch = Some rd"
    "ide_xfer_buf ?ch = ide_xfer_buf ch" "ide_disk_ctx ?ch = ide_disk_ctx ch"
    using assms(2) by (simp_all add: ata_addressed_def)
  note range_no_overflow [OF assms(3,4,6)]
  then have "execute_command ?ch ATA_CMD_READ_SECTORS = ?in"
    by (simp add: execute_command_def ata_addressed_dev ata_disk_present_def f execute_disk_command_def
        ata_disk_transfer_def ata_addressed_lba [OF assms(4)] ata_addressed_count [OF assms(5,6)]
        rd rc Let_def)
  moreover have "0 < unat count" using assms(5) by (simp add: word_less_nat_alt)
  then have "ata_read_words (unat count * 256) ?in = (words_of (take (unat count * 512) buf),
      ata_data_in_done (?in\<lparr>ide_xfer_pos := unat count * 512\<rparr>))"
    using ata_read_words_run [of ?in "unat count * 256"] lb assms(6) by (simp add: ata_data_in_def mult.commute)
  ultimately have "(ws, ch') = (words_of (take (unat count * 512) buf),
      ata_data_in_done (?in\<lparr>ide_xfer_pos := unat count * 512\<rparr>))"
    using r by (simp add: ata_write_command)
  then show "ws = words_of (take (unat count * 512) (fst (snd (rd (ide_disk_ctx ch) lba count (ide_xfer_buf ch)))))"
    "ide_disk_ctx ch' = ide_disk_ctx ch" "ide_status ch' = ATA_STATUS_RDY" "ide_error ch' = 0"
    using rd d by (simp_all add: ata_data_in_done_def ata_addressed_def)
qed

text \<open>
  The two together: what was written is read back, and every sector outside the range reads as
  before.
\<close>

lemma sector_roundtrip:
  assumes inv: "inv ch" and disk: "ide_disk_read ch = Some rd" and open_disk: "live (ide_disk_ctx ch)"
    and range: "unat lba + unat count \<le> unat (ide_disk_sectors ch)" "unat lba < 2 ^ 28" "0 < count"
      "unat count \<le> 256"
    and ws: "length ws = unat count * 256"
    and w: "ata_write_words ws (ata_write_regs (ata_command_regs ATA_CMD_WRITE_SECTORS lba count) ch) = ch1"
  shows "ide_status ch1 = ATA_STATUS_RDY" and "ide_error ch1 = 0"
    and "fst (ata_read_words (unat count * 256)
      (ata_write_regs (ata_command_regs ATA_CMD_READ_SECTORS lba count) ch1)) = ws"
    and "unat l + unat n \<le> unat (ide_disk_sectors ch) \<Longrightarrow> unat l < 2 ^ 28 \<Longrightarrow> 0 < n \<Longrightarrow> unat n \<le> 256 \<Longrightarrow>
      unat lba + unat count \<le> unat l \<or> unat l + unat n \<le> unat lba \<Longrightarrow>
      fst (ata_read_words (unat n * 256)
        (ata_write_regs (ata_command_regs ATA_CMD_READ_SECTORS l n) ch1)) =
      fst (ata_read_words (unat n * 256)
        (ata_write_regs (ata_command_regs ATA_CMD_READ_SECTORS l n) ch))"
proof -
  have cap: "unat (ide_disk_sectors ch) \<le> sectors (ide_disk_ctx ch)" using inv open_disk by blast
  note done1 = disk_write_done [OF inv disk range ws cap, unfolded w]
  let ?buf = "mem_put 0 (bytes_of ws) (ide_xfer_buf ch)" and ?d = "ide_disk_ctx ch"
  have len: "length (ide_xfer_buf ch) = ATA_XFER_BUF_SIZE" "length (ide_xfer_buf ch1) = ATA_XFER_BUF_SIZE"
    using inv done1(6) by (simp_all add: ata_ok_def)
  have lw: "length (bytes_of ws) = unat count * 512" using ws by simp
  have lb: "length ?buf = ATA_XFER_BUF_SIZE" using len lw range(4) by simp
  have tb: "take (unat count * 512) ?buf = bytes_of ws"
    using take_mem_put_0 [of "bytes_of ws" "ide_xfer_buf ch"] unfolding lw .
  have cap1: "unat (ide_disk_sectors ch1) \<le> sectors (ide_disk_ctx ch1)"
    using cap wr_sectors [of ?d lba count ?buf] by (simp add: done1)
  show "ide_status ch1 = ATA_STATUS_RDY" "ide_error ch1 = 0" by (rule done1)+
  have fits: "unat lba + unat count \<le> sectors ?d" using range(1) cap by simp
  obtain vs ch2 where r: "ata_read_words (unat count * 256)
      (ata_write_regs (ata_command_regs ATA_CMD_READ_SECTORS lba count) ch1) = (vs, ch2)"
    by fastforce
  have "vs = words_of (take (unat count * 512) (fst (snd (rd (ide_disk_ctx ch1) lba count (ide_xfer_buf ch1)))))"
    using range(1) by (intro disk_read_done(1) [OF done1(6) done1(4) _ range(2-4) cap1 r]) (simp add: done1)
  also have "\<dots> = words_of (bytes_of ws)"
    using rd_wr_same [OF fits range(3), of ?buf "ide_xfer_buf ch1"] range(4) len lb tb by (simp add: done1)
  finally show "fst (ata_read_words (unat count * 256)
      (ata_write_regs (ata_command_regs ATA_CMD_READ_SECTORS lba count) ch1)) = ws"
    using r by simp
  show "fst (ata_read_words (unat n * 256) (ata_write_regs (ata_command_regs ATA_CMD_READ_SECTORS l n) ch1)) =
      fst (ata_read_words (unat n * 256) (ata_write_regs (ata_command_regs ATA_CMD_READ_SECTORS l n) ch))"
    if o: "unat l + unat n \<le> unat (ide_disk_sectors ch)" "unat l < 2 ^ 28" "0 < n" "unat n \<le> 256"
      "unat lba + unat count \<le> unat l \<or> unat l + unat n \<le> unat lba"
  proof -
    have fits': "unat l + unat n \<le> sectors ?d" using o(1) cap by simp
    obtain v0 c0 where r0: "ata_read_words (unat n * 256)
        (ata_write_regs (ata_command_regs ATA_CMD_READ_SECTORS l n) ch) = (v0, c0)" by fastforce
    obtain v1 c1 where r1: "ata_read_words (unat n * 256)
        (ata_write_regs (ata_command_regs ATA_CMD_READ_SECTORS l n) ch1) = (v1, c1)" by fastforce
    have v0: "v0 = words_of (take (unat n * 512) (fst (snd (rd ?d l n (ide_xfer_buf ch)))))"
      by (rule disk_read_done(1) [OF inv disk o(1-4) cap r0])
    have v1: "v1 = words_of (take (unat n * 512) (fst (snd (rd (ide_disk_ctx ch1) l n (ide_xfer_buf ch1)))))"
      using o(1) by (intro disk_read_done(1) [OF done1(6) done1(4) _ o(2-4) cap1 r1]) (simp add: done1)
    have "fst (snd (rd (ide_disk_ctx ch1) l n (ide_xfer_buf ch1))) = fst (snd (rd ?d l n (ide_xfer_buf ch1)))"
      using rd_wr_other [OF fits fits' o(5), of ?buf "ide_xfer_buf ch1"] range(4) lb
      by (simp add: done1 Let_def split_beta)
    then show ?thesis
      using rd_data [OF fits', of "ide_xfer_buf ch" "ide_xfer_buf ch1"] o(4) len r0 r1 v0 v1 by simp
  qed
qed

text \<open>A device-to-host transfer that shows DRQ ends after the words that are left.\<close>

lemma data_in_ends:
  assumes "inv ch" "ata_data_in ch" "bit (ide_status ch) 3"
  defines "n \<equiv> (ide_xfer_len ch - ide_xfer_pos ch) div 2"
  shows "0 < n" "n \<le> 262144" "ide_status (snd (ata_read_words n ch)) = ATA_STATUS_RDY"
proof -
  have o: "ata_data_ready ch" "even (ide_xfer_len ch)" "even (ide_xfer_pos ch)"
    "ide_xfer_len ch \<le> ATA_XFER_BUF_SIZE" "length (ide_xfer_buf ch) = ATA_XFER_BUF_SIZE"
    using assms by (simp_all add: ata_ok_def)
  then have l: "ide_xfer_pos ch + 1 < ide_xfer_len ch"
    using assms(2) by (auto simp: ata_data_ready_def ata_data_in_def)
  then have n: "ide_xfer_pos ch + 2 * n = ide_xfer_len ch" using o(2,3) unfolding n_def by simp
  then show "0 < n" "n \<le> 262144" using l o(4) by simp_all
  have "ata_read_words n ch = (words_of (take (2 * n) (drop (ide_xfer_pos ch) (ide_xfer_buf ch))),
      ata_data_in_done (ch\<lparr>ide_xfer_pos := ide_xfer_pos ch + 2 * n\<rparr>))"
    using n l o by (intro ata_read_words_run [OF assms(2)]) simp_all
  then show "ide_status (snd (ata_read_words n ch)) = ATA_STATUS_RDY"
    using n by (simp add: ata_data_in_done_def)
qed

text \<open>A packet command of the slave whose device answers with data.\<close>

lemma packet_data:
  assumes "inv ch" "length ws = 6" "0 < len"
    and e: "exec (ide_atapi_ctx ch) (bytes_of ws) 12 (ide_xfer_buf ch) ATA_XFER_BUF_SIZE = (0, len, buf, c)"
  shows "ata_read_words (len div 2) (ata_write_words ws (ata_write_regs [(6, ATA_DEV_SLAVE_BIT), (7, ATA_CMD_PACKET)] ch)) = (ws', ch') \<Longrightarrow>
    ws' = words_of (take len buf) \<and> ide_status ch' = ATA_STATUS_RDY \<and> ide_atapi_ctx ch' = c"
proof -
  let ?ch = "ch\<lparr>ide_dev_head := ATA_DEV_SLAVE_BIT, ide_state := ATA_ATAPI_CMD, ide_atapi_pkt_pos := 0,
    ide_status := ATA_STATUS_RDY OR ATA_STATUS_DRQ, ide_error := 0, ide_sector_count := IR_COD\<rparr>"
  have o: "length (ide_xfer_buf ch) = ATA_XFER_BUF_SIZE" "length (ide_atapi_pkt ch) = 12"
    "good (ide_atapi_ctx ch)" "ide_atapi_exec ch = Some exec"
    using assms(1) by (simp_all add: ata_ok_def ata_wired_def)
  have g: "length buf = ATA_XFER_BUF_SIZE" "len \<le> ATA_XFER_BUF_SIZE" "even len"
    using exec_good [OF o(3) _ e] o(1) by simp_all
  have cmd: "ata_write_regs [(6, ATA_DEV_SLAVE_BIT), (7, ATA_CMD_PACKET)] ch = ?ch"
    by (simp add: ata_write_regs_def ata_ide_write8_def execute_command_def ata_selected_dev_def)
  let ?pk = "?ch\<lparr>ide_atapi_pkt := bytes_of ws, ide_atapi_pkt_pos := 12\<rparr>"
  have "mem_put 0 (bytes_of ws) (ide_atapi_pkt ch) = bytes_of ws"
    using assms(2) o(2) by (simp add: mem_put_def)
  moreover have "ws \<noteq> []" using assms(2) by auto
  ultimately have pk: "ata_write_words ws ?ch = execute_atapi_packet ?pk"
    using ata_write_packet_run [of ?ch ws] assms(2) o(2) by simp
  let ?in = "execute_atapi_packet ?pk"
  have i: "ata_data_in ?in" "ide_xfer_pos ?in = 0" "ide_xfer_len ?in = len" "ide_xfer_buf ?in = buf"
    "ide_atapi_ctx ?in = c"
    using e assms(3) o(4) by (simp_all add: execute_atapi_packet_def ata_data_in_def Let_def)
  have n: "2 * (len div 2) = len" using g(3) by simp
  show "ws' = words_of (take len buf) \<and> ide_status ch' = ATA_STATUS_RDY \<and> ide_atapi_ctx ch' = c"
    if "ata_read_words (len div 2) (ata_write_words ws
      (ata_write_regs [(6, ATA_DEV_SLAVE_BIT), (7, ATA_CMD_PACKET)] ch)) = (ws', ch')"
  proof -
    have "ata_read_words (len div 2) ?in = (words_of (take len buf),
        ata_data_in_done (?in\<lparr>ide_xfer_pos := len\<rparr>))"
      using ata_read_words_run [of ?in "len div 2"] i g(1,2) n assms(3) by simp
    then have "ws' = words_of (take len buf)" "ch' = ata_data_in_done (?in\<lparr>ide_xfer_pos := len\<rparr>)"
      using that unfolding cmd pk by simp_all
    then show ?thesis using i by (simp add: ata_data_in_done_def)
  qed
qed

end

end
