(* ===== verification/Zorro.thy ===== *)
theory Zorro
  imports Host_Bytes
begin

text \<open>
  Zorro II expansion: the nibble-wide configuration image (\<^verbatim>\<open>harness/expansions/zorro.c\<close>) and
  the memory board (\<^verbatim>\<open>harness/expansions/fastram.c\<close>).  Messages to the console are left out.
\<close>

unbundle bit_operations_syntax

section \<open>The configuration image\<close>

abbreviation ZORRO_AC_BASE :: u32 where "ZORRO_AC_BASE \<equiv> 0xe80000"
abbreviation ZORRO_AC_WINDOW :: u32 where "ZORRO_AC_WINDOW \<equiv> 0x010000"
abbreviation ZORRO_AC_ROM_BYTES :: nat where "ZORRO_AC_ROM_BYTES \<equiv> 16"
abbreviation ZORRO_AC_DATA_SIZE :: nat where "ZORRO_AC_DATA_SIZE \<equiv> 64"
abbreviation ZORRO_AC_OFF_BASE_HI :: u32 where "ZORRO_AC_OFF_BASE_HI \<equiv> 0x48"
abbreviation ZORRO_AC_OFF_SHUTUP :: u32 where "ZORRO_AC_OFF_SHUTUP \<equiv> 0x4c"

definition zorro_autoconfig_byte :: "u8 list \<Rightarrow> nat \<Rightarrow> u8 list \<Rightarrow> u8 list" where
  "zorro_autoconfig_byte bytes i out =
     (let b = (if i = 0 then bytes ! i else NOT (bytes ! i))
      in out[i * 4 := b AND 0xf0, i * 4 + 2 := push_bit 4 (b AND 0x0f)])"

definition zorro_autoconfig_build :: "u8 list \<Rightarrow> u8 list" where
  "zorro_autoconfig_build bytes =
     fold (zorro_autoconfig_byte bytes) [0..<ZORRO_AC_ROM_BYTES] (replicate ZORRO_AC_DATA_SIZE 0)"

text \<open>
  How the guest reads field \<open>i\<close>: the upper nibbles of two bytes of the window, and the
  complement for every field but the first.
\<close>

definition autoconfig_field :: "(nat \<Rightarrow> u8) \<Rightarrow> nat \<Rightarrow> u8" where
  "autoconfig_field rd i =
     (let b = (rd (i * 4) AND 0xf0) OR drop_bit 4 (rd (i * 4 + 2))
      in if i = 0 then b else NOT b)"

lemma length_autoconfig_byte [simp]: "length (zorro_autoconfig_byte bytes i out) = length out"
  by (simp add: zorro_autoconfig_byte_def Let_def)

lemma autoconfig_build_prefix:
  fixes bytes :: "u8 list"
  assumes "n \<le> 16" "i < 16"
  defines "out \<equiv> fold (zorro_autoconfig_byte bytes) [0..<n] (replicate ZORRO_AC_DATA_SIZE 0)"
  shows "length out = 64 \<and> (i < n \<longrightarrow>
    out ! (i * 4) = (if i = 0 then bytes ! i else NOT (bytes ! i)) AND 0xf0 \<and>
    out ! (i * 4 + 2) = push_bit 4 ((if i = 0 then bytes ! i else NOT (bytes ! i)) AND 0x0f))"
  using assms(1) unfolding out_def
proof (induction n)
  case (Suc n)
  define out where "out = fold (zorro_autoconfig_byte bytes) [0..<n] (replicate ZORRO_AC_DATA_SIZE 0)"
  have len: "length out = 64" and IH: "i < n \<Longrightarrow>
    out ! (i * 4) = (if i = 0 then bytes ! i else NOT (bytes ! i)) AND 0xf0 \<and>
    out ! (i * 4 + 2) = push_bit 4 ((if i = 0 then bytes ! i else NOT (bytes ! i)) AND 0x0f)"
    using Suc unfolding out_def by simp_all
  have step: "fold (zorro_autoconfig_byte bytes) [0..<Suc n] (replicate ZORRO_AC_DATA_SIZE 0) =
      zorro_autoconfig_byte bytes n out"
    by (simp add: out_def)
  have ne: "i \<noteq> n \<Longrightarrow> n * 4 \<noteq> i * 4 \<and> n * 4 + 2 \<noteq> i * 4 \<and> n * 4 \<noteq> i * 4 + 2 \<and> n * 4 + 2 \<noteq> i * 4 + 2"
    by presburger
  have b: "i * 4 < 64" "i * 4 + 2 < 64" using assms(2) by simp_all
  show ?case
  proof (cases "i = n")
    case True
    then show ?thesis unfolding step using len b by (simp add: zorro_autoconfig_byte_def Let_def)
  next
    case False
    have "zorro_autoconfig_byte bytes n out ! (i * 4) = out ! (i * 4)"
      "zorro_autoconfig_byte bytes n out ! (i * 4 + 2) = out ! (i * 4 + 2)"
      using ne [OF False] by (simp_all only: zorro_autoconfig_byte_def Let_def nth_list_update_neq simp_thms)
    then show ?thesis unfolding step using len IH False by simp
  qed
qed simp

lemma nibbles_join: "(b AND 0xf0 AND 0xf0) OR drop_bit 4 (push_bit 4 (b AND 0x0f)) = b" for b :: u8
proof (rule bit_word_eqI)
  fix n assume "n < LENGTH(8)"
  then consider "n = 0" | "n = 1" | "n = 2" | "n = 3" | "n = 4" | "n = 5" | "n = 6" | "n = 7" by force
  then show "bit ((b AND 0xf0 AND 0xf0) OR drop_bit 4 (push_bit 4 (b AND 0x0f))) n = bit b n"
    by cases (simp_all add: bit_simps)
qed

lemma autoconfig_field_build:
  assumes "i < 16" shows "autoconfig_field (\<lambda>k. zorro_autoconfig_build bytes ! k) i = bytes ! i"
  using autoconfig_build_prefix [of 16 i bytes] assms nibbles_join
  by (simp add: autoconfig_field_def zorro_autoconfig_build_def Let_def)

section \<open>The memory board\<close>

abbreviation AC_TYPE_Z2 :: u8 where "AC_TYPE_Z2 \<equiv> 0xc0"
abbreviation AC_TYPE_MEMLIST :: u8 where "AC_TYPE_MEMLIST \<equiv> 0x20"

record fastram_board =
  fr_config :: "u8 list"
  fr_configured :: bool
  fr_shutup :: bool
  fr_base :: u32
  fr_ram :: "u8 list"
  fr_size :: u32

definition size_code :: "u32 \<Rightarrow> u8" where
  "size_code bytes =
     (if bytes \<ge> 8 * 1024 * 1024 then 0x00
      else if bytes \<ge> 4 * 1024 * 1024 then 0x07
      else if bytes \<ge> 2 * 1024 * 1024 then 0x06
      else 0x05)"

text \<open>Whether the host has the memory is an argument.\<close>

definition fastram_create :: "bool \<Rightarrow> u32 \<Rightarrow> fastram_board option" where
  "fastram_create avail megabytes =
     (if megabytes \<noteq> 1 \<and> megabytes \<noteq> 2 \<and> megabytes \<noteq> 4 \<and> megabytes \<noteq> 8 then None
      else if \<not> avail then None
      else
        let size1 = megabytes * 1024 * 1024;
            raw = (replicate ZORRO_AC_ROM_BYTES 0)
                    [0 := AC_TYPE_Z2 OR AC_TYPE_MEMLIST OR size_code size1, 1 := 0x01,
                     4 := 0x07, 5 := 0xdb, 9 := 0x01]
        in Some \<lparr>fr_config = zorro_autoconfig_build raw, fr_configured = False, fr_shutup = False,
                 fr_base = 0, fr_ram = replicate (unat size1) 0, fr_size = size1\<rparr>)"

definition fastram_pending :: "fastram_board \<Rightarrow> bool" where
  "fastram_pending b \<longleftrightarrow> \<not> fr_configured b \<and> \<not> fr_shutup b"

definition fastram_ac_read :: "fastram_board \<Rightarrow> u32 \<Rightarrow> u8" where
  "fastram_ac_read b off =
     (if unat off \<ge> ZORRO_AC_DATA_SIZE then 0xff else fr_config b ! unat off)"

definition fastram_ac_write :: "fastram_board \<Rightarrow> u32 \<Rightarrow> u8 \<Rightarrow> fastram_board" where
  "fastram_ac_write b off value =
     (if off = ZORRO_AC_OFF_BASE_HI then
        b\<lparr>fr_base := push_bit 16 (ucast (value AND 0xff)), fr_configured := True\<rparr>
      else if off = ZORRO_AC_OFF_SHUTUP then b\<lparr>fr_shutup := True\<rparr>
      else b)"

definition fastram_force_configure :: "fastram_board \<Rightarrow> u32 \<Rightarrow> fastram_board" where
  "fastram_force_configure b base =
     (if fr_configured b then b else b\<lparr>fr_base := base, fr_configured := True\<rparr>)"

definition fastram_owns :: "fastram_board \<Rightarrow> u32 \<Rightarrow> bool" where
  "fastram_owns b addr \<longleftrightarrow>
     fr_configured b \<and> addr \<ge> fr_base b \<and> addr < fr_base b + fr_size b"

definition fastram_read :: "fastram_board \<Rightarrow> u32 \<Rightarrow> nat \<Rightarrow> u32" where
  "fastram_read b addr size1 =
     (let off = addr - fr_base b; ram = fr_ram b
      in if size1 = 1 then ucast (ram ! unat off)
         else if off + 1 \<ge> fr_size b then 0xffffffff
         else if size1 = 2 then
           push_bit 8 (ucast (ram ! unat off)) OR ucast (ram ! unat (off + 1))
         else if off + 3 \<ge> fr_size b then 0xffffffff
         else be32_join (ram ! unat off) (ram ! unat (off + 1)) (ram ! unat (off + 2))
                (ram ! unat (off + 3)))"

definition fastram_write :: "fastram_board \<Rightarrow> u32 \<Rightarrow> u32 \<Rightarrow> nat \<Rightarrow> fastram_board" where
  "fastram_write b addr value size1 =
     (let off = addr - fr_base b; ram = fr_ram b
      in if size1 = 1 then b\<lparr>fr_ram := ram[unat off := ucast value]\<rparr>
         else if off + 1 \<ge> fr_size b then b
         else if size1 = 2 then
           b\<lparr>fr_ram := ram[unat off := ucast (drop_bit 8 value), unat (off + 1) := ucast value]\<rparr>
         else if off + 3 \<ge> fr_size b then b
         else b\<lparr>fr_ram := ram[unat off := ucast (drop_bit 24 value),
                               unat (off + 1) := ucast (drop_bit 16 value),
                               unat (off + 2) := ucast (drop_bit 8 value),
                               unat (off + 3) := ucast value]\<rparr>)"

section \<open>The board as a word memory\<close>

definition fast_rd :: "fastram_board \<Rightarrow> u32 \<Rightarrow> u16" where
  "fast_rd b a = ucast (fastram_read b a 2)"

definition fast_wr :: "fastram_board \<Rightarrow> u32 \<Rightarrow> u16 \<Rightarrow> fastram_board" where
  "fast_wr b a v = fastram_write b a (ucast v) 2"

definition fast_mapped :: "fastram_board \<Rightarrow> u32 \<Rightarrow> bool" where
  "fast_mapped b a \<longleftrightarrow> a - fr_base b + 1 < fr_size b \<and>
     unat (a - fr_base b) < length (fr_ram b) \<and> unat (a - fr_base b + 1) < length (fr_ram b)"

lemma fast_word_join: "ucast (push_bit 8 (ucast a) OR ucast b :: u32) = be16_join a b" for a b :: u8
  unfolding be16_join_def by (rule bit_word_eqI) (auto simp: bit_simps)

lemma fast_word_split: "be16_join (ucast (drop_bit 8 (ucast v :: u32))) (ucast (ucast v :: u32)) = v"
  unfolding be16_join_def by (rule bit_word_eqI) (auto simp: bit_simps)

lemma even_neighbours: "even a \<Longrightarrow> even b \<Longrightarrow> a \<noteq> b + 1" for a b :: u32
  by (metis even_plus_one_iff)

interpretation fast_mem: chip_memory fast_rd fast_wr fast_mapped
proof
  fix m :: fastram_board and a b :: u32 and v :: u16
  let ?o = "\<lambda>a. a - fr_base m"
  have ne1: "unat (?o a) \<noteq> unat (?o a + 1)" for a :: u32 by (simp add: word_unat_eq_iff [symmetric])
  show "fast_rd (fast_wr m a v) a = v" if "fast_mapped m a" "even a"
  proof -
    have "\<not> fr_size m \<le> ?o a + 1" using that(1) unfolding fast_mapped_def linorder_not_le by blast
    then show ?thesis
      using that ne1 [of a]
      by (simp add: fast_mapped_def fast_rd_def fast_wr_def fastram_read_def fastram_write_def Let_def
          fast_word_join fast_word_split)
  qed
  show "fast_rd (fast_wr m a v) b = fast_rd m b" if e: "even a" "even b" "a \<noteq> b"
  proof -
    have "a \<noteq> b + 1" "b \<noteq> a + 1" using e even_neighbours by blast+
    then have "unat (?o a) \<noteq> unat (?o b)" "unat (?o a + 1) \<noteq> unat (?o b + 1)"
      "unat (?o a) \<noteq> unat (?o b + 1)" "unat (?o a + 1) \<noteq> unat (?o b)"
      using e(3) by (simp_all add: word_unat_eq_iff [symmetric] algebra_simps)
    then show ?thesis
      by (simp add: fast_rd_def fast_wr_def fastram_read_def fastram_write_def Let_def)
  qed
  show "fast_mapped (fast_wr m a v) b = fast_mapped m b"
    by (simp add: fast_mapped_def fast_wr_def fastram_write_def Let_def)
qed

end
