(* ===== verification/Lide.thy ===== *)
theory Lide
  imports Ata_Transfer Zorro
begin

text \<open>
  The disk controller board (\<^verbatim>\<open>harness/expansions/lide.c\<close>): its media files, autoconfig
  registers, ROM windows and the decoding of bus accesses to the ATA channel.  The hard disk
  file is the context of the channel's disk callbacks and the CD image that of the ATAPI
  device, as the C pointers have it.  A host file is its content; the optional content given
  to an attach operation is \<^term>\<open>None\<close> when the file cannot be opened.  Access counters and
  messages are left out.
\<close>

unbundle bit_operations_syntax

section \<open>Media files\<close>

record media_file =
  mf_data :: "u8 list option"
  mf_sectors :: u32
  mf_present :: bool

definition media_none :: media_file where
  "media_none = \<lparr>mf_data = None, mf_sectors = 0, mf_present = False\<rparr>"

definition media_open :: "media_file \<Rightarrow> u8 list option \<Rightarrow> nat \<Rightarrow> bool \<times> media_file" where
  "media_open m file sector_size =
     (case file of
        None \<Rightarrow> (False, m\<lparr>mf_data := None\<rparr>)
      | Some data \<Rightarrow>
          if length data = 0 then (False, m\<lparr>mf_data := None\<rparr>)
          else (True, m\<lparr>mf_data := Some data,
                        mf_sectors := of_nat (length data div sector_size), mf_present := True\<rparr>))"

text \<open>A short read has already overwritten the front of the buffer.\<close>

definition media_read :: "media_file \<Rightarrow> nat \<Rightarrow> u32 \<Rightarrow> u32 \<Rightarrow> u8 list \<Rightarrow> int \<times> u8 list" where
  "media_read m sector_size lba count buf =
     (case mf_data m of
        None \<Rightarrow> (- 1, buf)
      | Some data \<Rightarrow>
          if \<not> mf_present m then (- 1, buf)
          else
            let want = unat count * sector_size;
                got = file_read (unat lba * sector_size) want data
            in (if length got \<noteq> want then - 1 else 0, mem_put 0 got buf))"

definition iso_present :: "media_file \<Rightarrow> bool" where
  "iso_present m \<longleftrightarrow> mf_present m"

definition iso_read_sectors :: "media_file \<Rightarrow> u32 \<Rightarrow> u32 \<Rightarrow> u8 list \<Rightarrow> int \<times> u8 list" where
  "iso_read_sectors m lba count buf = media_read m ATAPI_SECTOR_SIZE lba count buf"

definition iso_sector_count :: "media_file \<Rightarrow> u32" where
  "iso_sector_count m = mf_sectors m"

definition g_iso_ops :: "media_file AtapiMediaOps" where
  "g_iso_ops = \<lparr>am_present = iso_present, am_read_sectors = iso_read_sectors,
                am_sector_count = iso_sector_count\<rparr>"

definition hdf_read :: "media_file \<Rightarrow> u32 \<Rightarrow> u32 \<Rightarrow> u8 list \<Rightarrow> int \<times> u8 list \<times> media_file" where
  "hdf_read m lba count buf = (let (rc, buf) = media_read m 512 lba count buf in (rc, buf, m))"

definition hdf_write :: "media_file \<Rightarrow> u32 \<Rightarrow> u32 \<Rightarrow> u8 list \<Rightarrow> int \<times> media_file" where
  "hdf_write m lba count buf =
     (case mf_data m of
        None \<Rightarrow> (- 1, m)
      | Some data \<Rightarrow>
          if \<not> mf_present m then (- 1, m)
          else
            let want = unat count * 512
            in (0, m\<lparr>mf_data := Some (file_write (unat lba * 512) (take want buf) data)\<rparr>))"

section \<open>The board\<close>

abbreviation LIDE_WINDOW_SIZE :: u32 where "LIDE_WINDOW_SIZE \<equiv> 0x020000"
abbreviation ROM_HDR_END :: u32 where "ROM_HDR_END \<equiv> 0x0004"
abbreviation ROM_NIBBLE_END :: u32 where "ROM_NIBBLE_END \<equiv> 0x1000"
abbreviation ROM_DEVICE_BOARD :: u32 where "ROM_DEVICE_BOARD \<equiv> 0x2000"
abbreviation ROM_DEVICE_FILE :: u32 where "ROM_DEVICE_FILE \<equiv> 0x1000"
abbreviation ODFS_BANK_BASE :: u32 where "ODFS_BANK_BASE \<equiv> 0x10000"
abbreviation ODFS_BANK_END :: u32 where "ODFS_BANK_END \<equiv> 0x20000"
abbreviation RIPPLE_MFR_HI :: u8 where "RIPPLE_MFR_HI \<equiv> 0x14"
abbreviation RIPPLE_MFR_LO :: u8 where "RIPPLE_MFR_LO \<equiv> 0x4a"
abbreviation RIPPLE_PROD :: u8 where "RIPPLE_PROD \<equiv> 0x07"
abbreviation AC_TYPE_DIAGVALID :: u8 where "AC_TYPE_DIAGVALID \<equiv> 0x10"
abbreviation AC_SIZE_128KB :: u8 where "AC_SIZE_128KB \<equiv> 0x02"

record lide_board =
  lb_ide :: "(media_file AtapiCdromState, media_file) AtaIdeChannel"
  lb_config :: "u8 list"
  lb_configured :: bool
  lb_shutup :: bool
  lb_base :: u32
  lb_rom :: "u8 list"
  lb_odfs :: "u8 list option"

definition lide_ac_bytes :: "u8 list" where
  "lide_ac_bytes =
     [AC_TYPE_Z2 OR AC_TYPE_DIAGVALID OR AC_SIZE_128KB, RIPPLE_PROD, 0x00, 0x00,
      RIPPLE_MFR_HI, RIPPLE_MFR_LO, 0x00, 0x00, 0x00, 0x01, 0x00, 0x04, 0x00, 0x00, 0x00, 0x00]"

text \<open>
  \<open>avail\<close> says whether the host has the memory, \<open>old\<close> is the channel in the zeroed board, and
  \<open>bootable\<close> the environment variable of the ATAPI layer.
\<close>

definition lide_create ::
    "bool \<Rightarrow> bool \<Rightarrow> (media_file AtapiCdromState, media_file) AtaIdeChannel \<Rightarrow> u8 list option \<Rightarrow>
     lide_board option" where
  "lide_create bootable avail old rom_file =
     (case rom_file of
        None \<Rightarrow> None
      | Some rom \<Rightarrow>
          if length rom = 0 \<or> \<not> avail then None
          else
            let ide = snd (ata_ide_channel_alloc avail old);
                atapi = atapi_cdrom_init g_iso_ops media_none;
                ide = ata_ide_channel_init atapi media_none ide;
                ide = ide\<lparr>ide_atapi_ctx := atapi,
                          ide_atapi_exec := Some (atapi_cdrom_exec bootable),
                          ide_atapi_reset := Some atapi_cdrom_reset\<rparr>
            in Some \<lparr>lb_ide = ide, lb_config = zorro_autoconfig_build lide_ac_bytes,
                     lb_configured = False, lb_shutup = False, lb_base = 0,
                     lb_rom = rom, lb_odfs = None\<rparr>)"

definition lide_attach_hdf :: "lide_board \<Rightarrow> u8 list option \<Rightarrow> bool \<times> lide_board" where
  "lide_attach_hdf b file =
     (let ide = lb_ide b;
          (ok, hdf) = media_open (ide_disk_ctx ide) file 512;
          ide = ide\<lparr>ide_disk_ctx := hdf\<rparr>
      in if \<not> ok then (False, b\<lparr>lb_ide := ide\<rparr>)
         else
           let ide = ide\<lparr>ide_disk_read := Some hdf_read, ide_disk_write := Some hdf_write,
                         ide_disk_sectors := mf_sectors hdf\<rparr>
           in (True, b\<lparr>lb_ide := ata_ide_channel_reset ide\<rparr>))"

definition lide_attach_iso :: "lide_board \<Rightarrow> u8 list option \<Rightarrow> bool \<times> lide_board" where
  "lide_attach_iso b file =
     (let ide = lb_ide b;
          atapi = ide_atapi_ctx ide;
          (ok, iso) = media_open (cd_ops_ctx atapi) file ATAPI_SECTOR_SIZE;
          atapi = atapi\<lparr>cd_ops_ctx := iso\<rparr>
      in if \<not> ok then (False, b\<lparr>lb_ide := ide\<lparr>ide_atapi_ctx := atapi\<rparr>\<rparr>)
         else
           let ide = ide\<lparr>ide_atapi_ctx := atapi_cdrom_insert atapi\<rparr>
           in (True, b\<lparr>lb_ide := ata_ide_channel_reset ide\<rparr>))"

definition lide_load_odfs :: "bool \<Rightarrow> lide_board \<Rightarrow> u8 list option \<Rightarrow> bool \<times> lide_board" where
  "lide_load_odfs avail b file =
     (case file of
        None \<Rightarrow> (False, b)
      | Some data \<Rightarrow>
          if length data = 0 then (False, b)
          else if \<not> avail then (False, b\<lparr>lb_odfs := None\<rparr>)
          else (True, b\<lparr>lb_odfs := Some data\<rparr>))"

definition lide_reset :: "lide_board \<Rightarrow> lide_board" where
  "lide_reset b =
     (let ide = ata_ide_channel_reset (lb_ide b);
          ide = ide\<lparr>ide_atapi_ctx := atapi_cdrom_reset (ide_atapi_ctx ide)\<rparr>
      in b\<lparr>lb_configured := False, lb_shutup := False, lb_base := 0, lb_ide := ide\<rparr>)"

definition lide_owns :: "lide_board \<Rightarrow> u32 \<Rightarrow> bool" where
  "lide_owns b addr \<longleftrightarrow>
     lb_configured b \<and> addr \<ge> lb_base b \<and> addr < lb_base b + LIDE_WINDOW_SIZE"

definition lide_pending :: "lide_board \<Rightarrow> bool" where
  "lide_pending b \<longleftrightarrow> \<not> lb_configured b \<and> \<not> lb_shutup b"

definition lide_ac_read :: "lide_board \<Rightarrow> u32 \<Rightarrow> u8" where
  "lide_ac_read b off = (if unat off \<ge> ZORRO_AC_DATA_SIZE then 0xff else lb_config b ! unat off)"

definition lide_ac_write :: "lide_board \<Rightarrow> u32 \<Rightarrow> u8 \<Rightarrow> lide_board" where
  "lide_ac_write b off value =
     (if off = ZORRO_AC_OFF_BASE_HI then
        b\<lparr>lb_base := push_bit 16 (ucast (value AND 0xff)), lb_configured := True\<rparr>
      else if off = ZORRO_AC_OFF_SHUTUP then b\<lparr>lb_shutup := True\<rparr>
      else b)"

section \<open>ROM windows\<close>

definition rom_at :: "u8 list \<Rightarrow> u32 \<Rightarrow> u8" where
  "rom_at rom idx = (if unat idx < length rom then rom ! unat idx else 0xff)"

definition rom_byte :: "lide_board \<Rightarrow> u32 \<Rightarrow> u8" where
  "rom_byte b off =
     (if off < ROM_HDR_END then rom_at (lb_rom b) off
      else if off < ROM_NIBBLE_END then
        let rel = off - ROM_HDR_END;
            phase = rel AND 3;
            nidx = drop_bit 2 rel
        in if phase = 0 then rom_at (lb_rom b) (ROM_HDR_END + nidx * 2)
           else if phase = 2 then rom_at (lb_rom b) (ROM_HDR_END + nidx * 2 + 1)
           else 0xff
      else if off < ROM_DEVICE_BOARD then 0xff
      else if off AND 1 \<noteq> 0 then 0xff
      else rom_at (lb_rom b) (ROM_DEVICE_FILE + drop_bit 1 (off - ROM_DEVICE_BOARD)))"

definition odfs_byte :: "u8 list \<Rightarrow> u32 \<Rightarrow> u8" where
  "odfs_byte odfs off =
     (let rel = off - ODFS_BANK_BASE
      in if rel AND 1 \<noteq> 0 then 0xff else rom_at odfs (drop_bit 1 rel))"

section \<open>Bus accesses\<close>

definition lide_read_rom :: "lide_board \<Rightarrow> u32 \<Rightarrow> nat \<Rightarrow> u32" where
  "lide_read_rom b off size1 =
     (if size1 = 1 then ucast (rom_byte b off)
      else if size1 = 2 then push_bit 8 (ucast (rom_byte b off)) OR ucast (rom_byte b (off + 1))
      else 0xffffffff)"

definition lide_read_odfs :: "u8 list \<Rightarrow> u32 \<Rightarrow> nat \<Rightarrow> u32" where
  "lide_read_odfs odfs off size1 =
     (if size1 = 1 then ucast (odfs_byte odfs off)
      else if size1 = 2 then push_bit 8 (ucast (odfs_byte odfs off)) OR ucast (odfs_byte odfs (off + 1))
      else 0xffffffff)"

definition lide_read :: "lide_board \<Rightarrow> u32 \<Rightarrow> nat \<Rightarrow> u32 \<times> lide_board" where
  "lide_read b addr size1 =
     (if \<not> lb_configured b then (0xffffffff, b)
      else
        let off = addr - lb_base b;
            reg = ata_ide_offset_to_reg off
        in if reg = 0 \<and> size1 = 4 then
             let (hi, ide) = ata_ide_read16 (lb_ide b) 0;
                 (lo, ide) = ata_ide_read16 ide 0
             in (push_bit 16 (ucast hi) OR ucast lo, b\<lparr>lb_ide := ide\<rparr>)
           else if reg = 0 \<and> size1 = 2 then
             let (w, ide) = ata_ide_read16 (lb_ide b) 0 in (ucast w, b\<lparr>lb_ide := ide\<rparr>)
           else if reg \<ge> 0 then (ucast (ata_ide_read8 (lb_ide b) (of_int reg)), b)
           else
             case lb_odfs b of
               Some odfs \<Rightarrow>
                 if off \<ge> ODFS_BANK_BASE \<and> off < ODFS_BANK_END
                 then (lide_read_odfs odfs off size1, b)
                 else (lide_read_rom b off size1, b)
             | None \<Rightarrow> (lide_read_rom b off size1, b))"

definition lide_write :: "lide_board \<Rightarrow> u32 \<Rightarrow> u32 \<Rightarrow> nat \<Rightarrow> lide_board" where
  "lide_write b addr value size1 =
     (if \<not> lb_configured b then b
      else
        let off = addr - lb_base b;
            reg = ata_ide_offset_to_reg off
        in if reg = 0 \<and> size1 = 4 then
             let ide = ata_ide_write16 (lb_ide b) 0 (ucast (drop_bit 16 value))
             in b\<lparr>lb_ide := ata_ide_write16 ide 0 (ucast (value AND 0xffff))\<rparr>
           else if reg = 0 \<and> size1 = 2 then
             b\<lparr>lb_ide := ata_ide_write16 (lb_ide b) 0 (ucast value)\<rparr>
           else if reg \<ge> 0 then
             b\<lparr>lb_ide := ata_ide_write8 (lb_ide b) (of_int reg) (ucast value)\<rparr>
           else b)"

end
