(* ===== verification/Lide_Behaviour.thy ===== *)
theory Lide_Behaviour
  imports Lide
begin

text \<open>
  What the disk controller board promises its driver: the media keep the contracts of the
  channel, every reachable board keeps the channel's invariant, sectors written through the
  data port are read back, and a CD read returns the sectors of the image.
\<close>

unbundle bit_operations_syntax

section \<open>The media keep their contracts\<close>

definition hdf_sectors :: "media_file \<Rightarrow> nat" where
  "hdf_sectors m = (case mf_data m of None \<Rightarrow> 0
                    | Some data \<Rightarrow> if mf_present m then length data div 512 else 0)"

lemma length_media_read:
  "unat count * n \<le> length buf \<Longrightarrow> length (snd (media_read m n lba count buf)) = length buf"
  by (simp add: media_read_def Let_def split: option.split)

lemma iso_media_ok [simp]: "media_ok g_iso_ops"
  using length_media_read by (simp add: media_ok_def g_iso_ops_def iso_read_sectors_def)

lemma media_read_data:
  assumes "mf_data m = Some data" "mf_present m" "(unat lba + unat count) * n \<le> length data"
  shows "media_read m n lba count buf =
    (0, mem_put 0 (file_read (unat lba * n) (unat count * n) data) buf)"
proof -
  have "unat lba * n + unat count * n \<le> length data" using assms(3) by (simp add: distrib_right)
  then have "min (unat count * n) (length data - unat lba * n) = unat count * n" by simp
  then show ?thesis using assms(1,2) by (simp add: media_read_def Let_def)
qed

lemma sectors_bytes: "n \<le> length data div 512 \<Longrightarrow> n * 512 \<le> length (data :: u8 list)"
  using times_div_less_eq_dividend [of 512 "length data"] by simp

lemma hdf_sectorsE:
  assumes "unat lba + unat count \<le> hdf_sectors m" "0 < unat lba + unat count"
  obtains data where "mf_data m = Some data" "mf_present m" "(unat lba + unat count) * 512 \<le> length data"
  using assms sectors_bytes by (auto simp: hdf_sectors_def split: option.splits if_splits)

lemma length_mem_put_ge: "length buf \<le> length (mem_put off xs buf)"
  by (simp add: mem_put_def)

definition hdf_open :: "media_file \<Rightarrow> bool" where
  "hdf_open m \<longleftrightarrow> mf_data m \<noteq> None"

interpretation hdf: ata_disk hdf_read hdf_write hdf_sectors hdf_open
proof
  fix d :: media_file and lba count l n :: u32 and buf buf' :: "u8 list"
  show "length (fst (snd (hdf_read d lba count buf))) = length buf" if "unat count * 512 \<le> length buf"
    using that length_media_read by (simp add: hdf_read_def split_beta Let_def)
  show "snd (snd (hdf_read d lba count buf)) = d" by (simp add: hdf_read_def split_beta Let_def)
  show "hdf_sectors d \<le> hdf_sectors (snd (hdf_write d lba count buf))"
  proof (cases "mf_data d")
    case (Some data)
    have "length data \<le> length (file_write (unat lba * 512) (take (unat count * 512) buf) data)"
      unfolding file_write_def by (rule le_trans [OF _ length_mem_put_ge]) simp
    then show ?thesis using Some by (simp add: hdf_sectors_def hdf_write_def Let_def div_le_mono)
  qed (simp add: hdf_write_def)
  show "hdf_open d" if "hdf_open (snd (hdf_write d lba count buf))"
    using that by (cases "mf_data d") (simp_all add: hdf_open_def hdf_write_def)
  show "take (unat count * 512) (fst (snd (hdf_read d lba count buf))) =
      take (unat count * 512) (fst (snd (hdf_read d lba count buf')))"
    if a: "unat lba + unat count \<le> hdf_sectors d"
  proof (cases "unat count = 0")
    case False
    then obtain data where d: "mf_data d = Some data" "mf_present d" "(unat lba + unat count) * 512 \<le> length data"
      using hdf_sectorsE [OF a] by auto
    then have l: "length (file_read (unat lba * 512) (unat count * 512) data) = unat count * 512"
      by (simp add: algebra_simps min_def)
    show ?thesis
      using d take_mem_put_0 [of "file_read (unat lba * 512) (unat count * 512) data"]
      unfolding l by (simp add: hdf_read_def media_read_data)
  qed simp
  show "fst (hdf_write d lba count buf) = 0"
    if "unat lba + unat count \<le> hdf_sectors d" "0 < count" "unat count * 512 \<le> length buf"
    using that by (auto simp: hdf_write_def Let_def hdf_sectors_def word_less_nat_alt split: option.splits if_splits)
  show "fst (hdf_read d lba count buf) = 0"
    if a: "unat lba + unat count \<le> hdf_sectors d" "0 < count"
  proof -
    have "0 < unat count" using a(2) by (simp add: word_less_nat_alt)
    then obtain data where "mf_data d = Some data" "mf_present d" "(unat lba + unat count) * 512 \<le> length data"
      using hdf_sectorsE [OF a(1)] by auto
    then show ?thesis by (simp add: hdf_read_def media_read_data)
  qed
  show "take (unat count * 512) (fst (snd (hdf_read (snd (hdf_write d lba count buf)) lba count buf'))) =
      take (unat count * 512) buf"
    if a: "unat lba + unat count \<le> hdf_sectors d" "0 < count" "unat count * 512 \<le> length buf"
      "unat count * 512 \<le> length buf'"
  proof -
    have "0 < unat count" using a(2) by (simp add: word_less_nat_alt)
    then obtain data where d: "mf_data d = Some data" "mf_present d" "(unat lba + unat count) * 512 \<le> length data"
      using hdf_sectorsE [OF a(1)] by auto
    let ?xs = "take (unat count * 512) buf"
    have l: "length ?xs = unat count * 512" using a(3) by simp
    have w: "hdf_write d lba count buf = (0, d\<lparr>mf_data := Some (file_write (unat lba * 512) ?xs data)\<rparr>)"
      using d by (simp add: hdf_write_def Let_def)
    have "length (file_write (unat lba * 512) ?xs data) = length data"
      using d(3) l by (intro file_write_length) (simp add: algebra_simps)
    then have "hdf_read (snd (hdf_write d lba count buf)) lba count buf' =
        (0, mem_put 0 (file_read (unat lba * 512) (unat count * 512) (file_write (unat lba * 512) ?xs data)) buf',
         snd (hdf_write d lba count buf))"
      using d unfolding w by (simp add: hdf_read_def media_read_data)
    moreover have "file_read (unat lba * 512) (unat count * 512) (file_write (unat lba * 512) ?xs data) = ?xs"
      using file_read_write_same [of "unat lba * 512" ?xs data] unfolding l .
    moreover have "take (unat count * 512) (mem_put 0 ?xs buf') = ?xs"
      using take_mem_put_0 [of ?xs buf'] unfolding l .
    ultimately show ?thesis by (simp only: fst_conv snd_conv)
  qed
  show "hdf_read (snd (hdf_write d lba count buf)) l n buf' =
      (let (rc, b, _) = hdf_read d l n buf' in (rc, b, snd (hdf_write d lba count buf)))"
    if a: "unat lba + unat count \<le> hdf_sectors d" "unat l + unat n \<le> hdf_sectors d"
      "unat lba + unat count \<le> unat l \<or> unat l + unat n \<le> unat lba" "unat count * 512 \<le> length buf"
  proof (cases "mf_data d")
    case (Some data)
    show ?thesis
    proof (cases "mf_present d")
      case True
      let ?xs = "take (unat count * 512) buf"
      have l: "length ?xs = unat count * 512" using a(4) by simp
      have s: "(unat lba + unat count) * 512 \<le> length data" "(unat l + unat n) * 512 \<le> length data"
        using a(1,2) Some True sectors_bytes by (simp_all add: hdf_sectors_def)
      have len: "length (file_write (unat lba * 512) ?xs data) = length data"
        using s(1) l by (intro file_write_length) (simp add: algebra_simps)
      have "file_read (unat l * 512) (unat n * 512) (file_write (unat lba * 512) ?xs data) =
          file_read (unat l * 512) (unat n * 512) data"
      proof (rule file_read_write_other)
        have "unat lba * 512 + unat count * 512 \<le> unat l * 512 \<or> unat l * 512 + unat n * 512 \<le> unat lba * 512"
          using a(3) by linarith
        then show "unat l * 512 + unat n * 512 \<le> unat lba * 512 \<or> unat lba * 512 + length ?xs \<le> unat l * 512"
          unfolding l by blast
        show "unat lba * 512 \<le> length data" using s(1) by simp
      qed
      moreover have "hdf_read d l n buf' = (0, mem_put 0 (file_read (unat l * 512) (unat n * 512) data) buf', d)"
        using Some True s(2) by (simp add: hdf_read_def media_read_data)
      moreover have w: "snd (hdf_write d lba count buf) =
          d\<lparr>mf_data := Some (file_write (unat lba * 512) ?xs data)\<rparr>"
        using Some True by (simp add: hdf_write_def Let_def)
      moreover have "hdf_read (snd (hdf_write d lba count buf)) l n buf' =
          (0, mem_put 0 (file_read (unat l * 512) (unat n * 512) (file_write (unat lba * 512) ?xs data)) buf',
           snd (hdf_write d lba count buf))"
        using True s(2) len unfolding w by (simp add: hdf_read_def media_read_data)
      ultimately show ?thesis by (simp only: Let_def prod.case)
    qed (simp add: hdf_read_def hdf_write_def media_read_def Some Let_def)
  qed (simp add: hdf_read_def hdf_write_def media_read_def)
qed

lemma exec_ops:
  "cd_ops (snd (snd (snd (atapi_cdrom_exec bootable s pkt n buf mx)))) = cd_ops s"
  "cd_ops_ctx (snd (snd (snd (atapi_cdrom_exec bootable s pkt n buf mx)))) = cd_ops_ctx s"
  by (simp_all add: atapi_cdrom_exec_def cmd_test_unit_ready_def cmd_request_sense_def cmd_inquiry_def
      cmd_read_capacity_def cmd_read_toc_def cmd_mode_sense_10_def cmd_read_10_def set_sense_def Let_def
      split: prod.split)

definition iso_drive :: "media_file AtapiCdromState \<Rightarrow> bool" where
  "iso_drive s \<longleftrightarrow> cd_ops s = g_iso_ops"

interpretation iso: packet_device "atapi_cdrom_exec bootable" atapi_cdrom_reset iso_drive
proof
  fix c :: "media_file AtapiCdromState" and mx n len :: nat and buf buf' pkt :: "u8 list" and rc c'
  assume a: "iso_drive c" "mx \<le> length buf" "atapi_cdrom_exec bootable c pkt n buf mx = (rc, len, buf', c')"
  have "cdrom_ok c" using a(1) by (simp add: cdrom_ok_def iso_drive_def)
  then show "length buf' = length buf \<and> len \<le> mx \<and> even len \<and> iso_drive c'"
    using cdrom.exec_good [OF _ a(2,3)] exec_ops(1) [of bootable c pkt n buf mx] a by (simp add: iso_drive_def)
next
  show "iso_drive (atapi_cdrom_reset c)" if "iso_drive c" for c
    using that by (simp add: iso_drive_def atapi_cdrom_reset_def Let_def)
qed

interpretation board: ata_channel "atapi_cdrom_exec bootable" atapi_cdrom_reset iso_drive
    hdf_read hdf_write hdf_sectors hdf_open
  by unfold_locales

end
