(* ===== verification/Lide_Driver.thy ===== *)
theory Lide_Driver
  imports Lide_Behaviour
begin

text \<open>
  The board under its driver: reachable boards, and the register and data-port accesses of a
  driver as bus accesses at the board's base address.
\<close>

unbundle bit_operations_syntax

section \<open>Reachable boards\<close>

inductive lide_reachable :: "bool \<Rightarrow> lide_board \<Rightarrow> bool" for bootable where
  lr_create: "lide_create bootable avail old rom = Some b \<Longrightarrow> lide_reachable bootable b"
| lr_read: "lide_reachable bootable b \<Longrightarrow> lide_reachable bootable (snd (lide_read b addr n))"
| lr_write: "lide_reachable bootable b \<Longrightarrow> lide_reachable bootable (lide_write b addr v n)"
| lr_ac_write: "lide_reachable bootable b \<Longrightarrow> lide_reachable bootable (lide_ac_write b off v8)"
| lr_reset: "lide_reachable bootable b \<Longrightarrow> lide_reachable bootable (lide_reset b)"
| lr_hdf: "lide_reachable bootable b \<Longrightarrow> lide_reachable bootable (snd (lide_attach_hdf b img))"
| lr_iso: "lide_reachable bootable b \<Longrightarrow> lide_reachable bootable (snd (lide_attach_iso b img))"
| lr_odfs: "lide_reachable bootable b \<Longrightarrow> lide_reachable bootable (snd (lide_load_odfs avail b img))"

abbreviation board_inv :: "bool \<Rightarrow> lide_board \<Rightarrow> bool" where
  "board_inv bootable b \<equiv>
     ata_wired (atapi_cdrom_exec bootable) atapi_cdrom_reset hdf_read hdf_write (lb_ide b) \<and>
     iso_drive (ide_atapi_ctx (lb_ide b)) \<and> ata_ok (lb_ide b) \<and>
     (hdf_open (ide_disk_ctx (lb_ide b)) \<longrightarrow>
        unat (ide_disk_sectors (lb_ide b)) \<le> hdf_sectors (ide_disk_ctx (lb_ide b)))"

lemma board_inv_create:
  "lide_create bootable avail old rom = Some b \<Longrightarrow> board_inv bootable b"
  by (auto simp: lide_create_def ata_ide_channel_alloc_def ata_ide_channel_init_def
      ata_ide_channel_reset_def ata_wired_def ata_ok_def iso_drive_def atapi_cdrom_init_def
      hdf_open_def media_none_def Let_def split: option.splits if_splits)

lemma board_inv_read:
  assumes "board_inv bootable b" shows "board_inv bootable (snd (lide_read b addr n))"
proof -
  have r: "board_inv bootable (b\<lparr>lb_ide := snd (ata_ide_read16 (lb_ide b) 0)\<rparr>)"
    using board.inv_read16 [OF assms] by simp
  have r2: "board_inv bootable (b\<lparr>lb_ide := snd (ata_ide_read16 (snd (ata_ide_read16 (lb_ide b) 0)) 0)\<rparr>)"
    using board.inv_read16 [of bootable "snd (ata_ide_read16 (lb_ide b) 0)" 0] r by simp
  have "snd (lide_read b addr n) \<in> {b, b\<lparr>lb_ide := snd (ata_ide_read16 (lb_ide b) 0)\<rparr>,
      b\<lparr>lb_ide := snd (ata_ide_read16 (snd (ata_ide_read16 (lb_ide b) 0)) 0)\<rparr>}"
    by (simp add: lide_read_def Let_def split_beta split: option.split)
  then show ?thesis using assms r r2 by auto
qed

lemma board_inv_write:
  assumes "board_inv bootable b" shows "board_inv bootable (lide_write b addr v n)"
proof -
  let ?w = "\<lambda>r v. ata_ide_write16 (lb_ide b) r v"
  have i: "board_inv bootable (b\<lparr>lb_ide := ata_ide_write8 (lb_ide b) r x\<rparr>)"
    "board_inv bootable (b\<lparr>lb_ide := ?w 0 y\<rparr>)"
    "board_inv bootable (b\<lparr>lb_ide := ata_ide_write16 (?w 0 y) 0 z\<rparr>)" for r x y z
    using board.inv_write8 [OF assms, of r x] board.inv_write16 [OF assms, of 0 y]
      board.inv_write16 [OF board.inv_write16 [OF assms, of 0 y], of 0 z] by simp_all
  show ?thesis
    unfolding lide_write_def Let_def using assms i by presburger
qed

lemma board_inv_hdf:
  assumes "board_inv bootable b" shows "board_inv bootable (snd (lide_attach_hdf b img))"
proof (cases "img = None \<or> img = Some []")
  case True
  let ?d = "(ide_disk_ctx (lb_ide b))\<lparr>mf_data := None\<rparr>"
  have "snd (lide_attach_hdf b img) = b\<lparr>lb_ide := (lb_ide b)\<lparr>ide_disk_ctx := ?d\<rparr>\<rparr>"
    using True by (auto simp: lide_attach_hdf_def media_open_def Let_def)
  moreover have "\<not> hdf_open ?d" by (simp add: hdf_open_def)
  ultimately show ?thesis using board.inv_disk_closed [OF assms] by simp
next
  case False
  then obtain data where f: "img = Some data" "data \<noteq> []" by (metis not_None_eq)
  let ?m = "\<lparr>mf_data = Some data, mf_sectors = of_nat (length data div 512), mf_present = True\<rparr>"
  let ?ide = "(lb_ide b)\<lparr>ide_disk_ctx := ?m, ide_disk_read := Some hdf_read,
      ide_disk_write := Some hdf_write, ide_disk_sectors := mf_sectors ?m\<rparr>"
  have m: "media_open (ide_disk_ctx (lb_ide b)) img 512 = (True, ?m)"
    using f by (simp add: media_open_def)
  have "unat (word_of_nat (length data div 512) :: u32) \<le> length data div 512"
    by (simp add: unat_of_nat)
  then have "board_inv bootable (b\<lparr>lb_ide := ?ide\<rparr>)"
    using assms by (simp add: ata_wired_def ata_ok_def ata_data_ready_def ata_data_in_def hdf_sectors_def)
  then have "board_inv bootable (b\<lparr>lb_ide := ata_ide_channel_reset ?ide\<rparr>)"
    using board.inv_reset [of bootable ?ide] by simp
  then show ?thesis using m by (simp add: lide_attach_hdf_def Let_def)
qed

lemma board_inv_iso:
  assumes "board_inv bootable b" shows "board_inv bootable (snd (lide_attach_iso b img))"
proof -
  obtain ok m where m: "media_open (cd_ops_ctx (ide_atapi_ctx (lb_ide b))) img ATAPI_SECTOR_SIZE = (ok, m)"
    by fastforce
  have i: "board_inv bootable (b\<lparr>lb_ide := (lb_ide b)\<lparr>ide_atapi_ctx := a\<rparr>\<rparr>)" if "iso_drive a" for a
    using board.inv_ctx [OF assms that] by simp
  have d: "iso_drive ((ide_atapi_ctx (lb_ide b))\<lparr>cd_ops_ctx := m\<rparr>)"
    "iso_drive (atapi_cdrom_insert ((ide_atapi_ctx (lb_ide b))\<lparr>cd_ops_ctx := m\<rparr>))"
    using assms by (simp_all add: iso_drive_def atapi_cdrom_insert_def)
  show ?thesis
    using i [OF d(1)] board.inv_reset [of bootable "(lb_ide b)\<lparr>ide_atapi_ctx :=
      atapi_cdrom_insert ((ide_atapi_ctx (lb_ide b))\<lparr>cd_ops_ctx := m\<rparr>)\<rparr>"] i [OF d(2)]
    by (simp add: lide_attach_iso_def m Let_def)
qed

lemma lide_reachable_inv: "lide_reachable bootable b \<Longrightarrow> board_inv bootable b"
proof (induction rule: lide_reachable.induct)
  case (lr_create avail old rom b)
  then show ?case by (rule board_inv_create)
next
  case (lr_read b addr n)
  then show ?case using board_inv_read by blast
next
  case (lr_write b addr v n)
  then show ?case using board_inv_write by blast
next
  case (lr_ac_write b off v)
  then show ?case by (simp add: lide_ac_write_def)
next
  case (lr_reset b)
  let ?ide = "ata_ide_channel_reset (lb_ide b)"
  note i = board.inv_reset [OF lr_reset.IH]
  have "iso_drive (atapi_cdrom_reset (ide_atapi_ctx ?ide))" using i iso.reset_good by blast
  from board.inv_ctx [OF i this] show ?case by (simp add: lide_reset_def Let_def)
next
  case (lr_hdf b f0)
  then show ?case using board_inv_hdf by blast
next
  case (lr_iso b f0)
  then show ?case using board_inv_iso by blast
next
  case (lr_odfs b avail f0)
  then show ?case by (simp add: lide_load_odfs_def split: option.split)
qed

section \<open>Driver accesses\<close>

text \<open>
  A driver writes byte registers and moves words through the data port of the window at the
  board's base address.
\<close>

definition board_reg :: "lide_board \<Rightarrow> u8 \<Rightarrow> u32" where
  "board_reg b r = lb_base b + (RIPPLE_CS1_OFFSET + RIPPLE_NEXT_REG * ucast r)"

definition board_out :: "(u8 \<times> u8) list \<Rightarrow> lide_board \<Rightarrow> lide_board" where
  "board_out rs b = fold (\<lambda>(r, v) b. lide_write b (board_reg b r) (ucast v) 1) rs b"

definition board_put :: "u16 list \<Rightarrow> lide_board \<Rightarrow> lide_board" where
  "board_put ws b = fold (\<lambda>w b. lide_write b (board_reg b 0) (ucast w) 2) ws b"

fun board_get :: "nat \<Rightarrow> lide_board \<Rightarrow> u16 list \<times> lide_board" where
  "board_get 0 b = ([], b)"
| "board_get (Suc n) b =
     (let (w, b) = lide_read b (board_reg b 0) 2; (ws, b) = board_get n b in (ucast w # ws, b))"

definition board_in :: "u8 \<Rightarrow> lide_board \<Rightarrow> u8" where
  "board_in r b = ucast (fst (lide_read b (board_reg b r) 1))"

lemma reg_decode:
  fixes r :: u8
  assumes "r < 8" shows "ata_ide_offset_to_reg (RIPPLE_CS1_OFFSET + RIPPLE_NEXT_REG * ucast r) = uint r"
proof -
  have "unat r < 8" using assms by (simp add: word_less_nat_alt)
  then consider "unat r = 0" | "unat r = 1" | "unat r = 2" | "unat r = 3" | "unat r = 4" | "unat r = 5"
    | "unat r = 6" | "unat r = 7" by linarith
  then have "r \<in> {0, 1, 2, 3, 4, 5, 6, 7}" by cases (simp_all add: word_unat_eq_iff)
  then show ?thesis by (auto simp: ata_ide_offset_to_reg_def word_le_nat_alt)
qed

lemma board_reg_decode:
  "r < 8 \<Longrightarrow> ata_ide_offset_to_reg (board_reg b r - lb_base b) = uint r"
  using reg_decode by (simp add: board_reg_def)

lemma lide_write_reg:
  assumes "lb_configured b" "r < 8"
  shows "lide_write b (board_reg b r) (ucast v) 1 = b\<lparr>lb_ide := ata_ide_write8 (lb_ide b) r v\<rparr>"
proof -
  have "ucast (ucast v :: u32) = v" by (rule bit_word_eqI) (simp add: bit_simps)
  then show ?thesis using assms by (simp add: lide_write_def board_reg_decode Let_def)
qed

lemma data_port_decode: "ata_ide_offset_to_reg (board_reg b 0 - lb_base b) = 0"
  using board_reg_decode [of 0 b] by simp

lemma ucast_word_back [simp]: "ucast (ucast (w :: u16) :: u32) = w"
  by (rule bit_word_eqI) (simp add: bit_simps)

lemma lide_write_data:
  assumes "lb_configured b"
  shows "lide_write b (board_reg b 0) (ucast w) 2 = b\<lparr>lb_ide := ata_ide_write16 (lb_ide b) 0 w\<rparr>"
  using assms data_port_decode [of b] by (simp add: lide_write_def Let_def)

lemma lide_read_data:
  assumes "lb_configured b"
  shows "lide_read b (board_reg b 0) 2 =
    (ucast (fst (ata_ide_read16 (lb_ide b) 0)), b\<lparr>lb_ide := snd (ata_ide_read16 (lb_ide b) 0)\<rparr>)"
  using assms data_port_decode [of b] by (simp add: lide_read_def split_beta Let_def)

lemma board_out_regs:
  "lb_configured b \<Longrightarrow> \<forall>(r, v) \<in> set rs. r < 8 \<Longrightarrow> board_out rs b = b\<lparr>lb_ide := ata_write_regs rs (lb_ide b)\<rparr>"
proof (induction rs arbitrary: b)
  case (Cons x rs)
  obtain r v where x: "x = (r, v)" by (cases x)
  have "board_out (x # rs) b = board_out rs (b\<lparr>lb_ide := ata_ide_write8 (lb_ide b) r v\<rparr>)"
    using Cons.prems lide_write_reg [of b r v] by (simp add: board_out_def x)
  also have "\<dots> = b\<lparr>lb_ide := ata_write_regs rs (ata_ide_write8 (lb_ide b) r v)\<rparr>"
    using Cons.IH [of "b\<lparr>lb_ide := ata_ide_write8 (lb_ide b) r v\<rparr>"] Cons.prems by simp
  finally show ?case by (simp add: x ata_write_regs_def)
qed (simp add: board_out_def ata_write_regs_def)

lemma board_put_words: "lb_configured b \<Longrightarrow> board_put ws b = b\<lparr>lb_ide := ata_write_words ws (lb_ide b)\<rparr>"
proof (induction ws arbitrary: b)
  case (Cons w ws)
  then show ?case
    using Cons.IH [of "b\<lparr>lb_ide := ata_ide_write16 (lb_ide b) 0 w\<rparr>"]
    by (simp add: board_put_def ata_write_words_def lide_write_data)
qed (simp add: board_put_def ata_write_words_def)

lemma board_get_words: "lb_configured b \<Longrightarrow> board_get n b =
    (fst (ata_read_words n (lb_ide b)), b\<lparr>lb_ide := snd (ata_read_words n (lb_ide b))\<rparr>)"
proof (induction n arbitrary: b)
  case (Suc n)
  then show ?case
    using Suc.IH [of "b\<lparr>lb_ide := snd (ata_ide_read16 (lb_ide b) 0)\<rparr>"]
    by (simp add: lide_read_data split_beta Let_def)
qed simp

lemma board_in_reg:
  assumes "lb_configured b" "r < 8" shows "board_in r b = ata_ide_read8 (lb_ide b) r"
proof -
  have "ucast (ucast v :: u32) = (v :: u8)" for v by (rule bit_word_eqI) (simp add: bit_simps)
  then show ?thesis using assms by (simp add: board_in_def lide_read_def board_reg_decode Let_def)
qed

lemma command_regs_small: "\<forall>(r, v) \<in> set (ata_command_regs cmd lba count). r < 8"
  by (simp add: ata_command_regs_def)

section \<open>Concrete boards\<close>

text \<open>A board at 0xE90000 with a hard disk of four sectors, and one with a CD of two.\<close>

definition bare_board where
  "bare_board old = the (lide_create False True old (Some [0]))"

definition disk_board where
  "disk_board old =
     lide_ac_write (snd (lide_attach_hdf (bare_board old) (Some (replicate 2048 0)))) 0x48 0xe9"

definition cd_board where
  "cd_board old =
     lide_ac_write (snd (lide_attach_iso (bare_board old) (Some (replicate 4096 7)))) 0x48 0xe9"

lemma bare_board_reachable: "lide_reachable False (bare_board old)"
  by (rule lr_create [of _ True old "Some [0]"]) (simp add: bare_board_def lide_create_def Let_def)

lemma disk_board_reachable: "lide_reachable False (disk_board old)"
  unfolding disk_board_def by (intro lr_ac_write lr_hdf bare_board_reachable)

lemma cd_board_reachable: "lide_reachable False (cd_board old)"
  unfolding cd_board_def by (intro lr_ac_write lr_iso bare_board_reachable)

lemma disk_board_fields:
  "lb_configured (disk_board old)" "ide_disk_read (lb_ide (disk_board old)) = Some hdf_read"
  "hdf_open (ide_disk_ctx (lb_ide (disk_board old)))" "ide_disk_sectors (lb_ide (disk_board old)) = 4"
  "ide_dev_head (lb_ide (disk_board old)) = 0"
  by (simp_all add: disk_board_def lide_ac_write_def lide_attach_hdf_def media_open_def hdf_open_def
      ata_ide_channel_reset_def Let_def)

lemma cd_board_fields:
  "lb_configured (cd_board old)"
  "cd_ops_ctx (ide_atapi_ctx (lb_ide (cd_board old))) =
    \<lparr>mf_data = Some (replicate 4096 7), mf_sectors = 2, mf_present = True\<rparr>"
  by (simp_all add: cd_board_def lide_ac_write_def lide_attach_iso_def media_open_def
      atapi_cdrom_insert_def ata_ide_channel_reset_def Let_def)

section \<open>The data port never stalls\<close>

text \<open>
  C13: On every reachable board the transfer buffer bounds hold, and DRQ in the status register
  means that the data port is ready.  When the board has data to give, reading the words that
  are left clears DRQ; otherwise it waits for a word of a packet or of a sector.
\<close>

theorem board_drq_sound:
  assumes "lide_reachable bootable b" and "lb_configured b"
  defines "ide \<equiv> lb_ide b"
  shows "ide_xfer_pos ide \<le> ide_xfer_len ide \<and> ide_xfer_len ide \<le> length (ide_xfer_buf ide) \<and>
    (bit (board_in 7 b) 3 \<longrightarrow>
       (\<exists>n. 0 < n \<and> n \<le> 262144 \<and> board_in 7 (snd (board_get n b)) = ATA_STATUS_RDY) \<or>
       ide_state ide = ATA_ATAPI_CMD \<and> ide_atapi_pkt_pos ide + 1 < 12 \<or>
       ide_state ide = ATA_DATA_OUT \<and> ide_disk_write ide \<noteq> None \<and> ide_xfer_pos ide + 1 < ide_xfer_len ide)"
proof -
  have inv: "board_inv bootable b" by (rule lide_reachable_inv [OF assms(1)])
  then have ok: "ata_ok ide" by (simp add: ide_def)
  have st: "board_in 7 b = ide_status ide"
    using board_in_reg [OF assms(2), of 7] by (simp add: ata_ide_read8_def ide_def)
  have "\<exists>n. 0 < n \<and> n \<le> 262144 \<and> board_in 7 (snd (board_get n b)) = ATA_STATUS_RDY"
    if "bit (board_in 7 b) 3" "ata_data_in ide"
  proof -
    let ?n = "(ide_xfer_len ide - ide_xfer_pos ide) div 2"
    note e = board.data_in_ends [OF inv that(2) [unfolded ide_def] that(1) [unfolded st ide_def], folded ide_def]
    have "board_in 7 (snd (board_get ?n b)) = ATA_STATUS_RDY"
      using e(3) assms(2) board_in_reg [of "snd (board_get ?n b)" 7]
      by (simp add: board_get_words ata_ide_read8_def ide_def)
    then show ?thesis using e(1,2) by blast
  qed
  moreover have "even (ide_atapi_pkt_pos ide)" using ok by (simp add: ata_ok_def)
  then have "ide_atapi_pkt_pos ide < 12 \<Longrightarrow> ide_atapi_pkt_pos ide + 1 < 12" by presburger
  ultimately show ?thesis
    using ok st by (auto simp: ata_ok_def ata_data_ready_def)
qed

theorem board_drq_sound_witness:
  "\<forall>old. \<exists>n. 0 < n \<and> n \<le> 262144 \<and>
     board_in 7 (snd (board_get n (board_out [(7, ATA_CMD_IDENTIFY_DEVICE)] (disk_board old)))) = ATA_STATUS_RDY"
proof
  fix old
  let ?dk = "disk_board old"
  let ?b = "board_out [(7, ATA_CMD_IDENTIFY_DEVICE)] ?dk"
  have b: "?b = ?dk\<lparr>lb_ide := execute_command (lb_ide ?dk) ATA_CMD_IDENTIFY_DEVICE\<rparr>"
    using board_out_regs [of ?dk "[(7, ATA_CMD_IDENTIFY_DEVICE)]"] disk_board_fields
    by (simp add: ata_write_regs_def ata_ide_write8_def)
  have c: "execute_command (lb_ide ?dk) ATA_CMD_IDENTIFY_DEVICE =
      (build_identify_disk (lb_ide ?dk))\<lparr>ide_state := ATA_DATA_IN,
         ide_status := ATA_STATUS_RDY OR ATA_STATUS_DRQ, ide_error := 0\<rparr>"
    using disk_board_fields
    by (simp add: execute_command_def execute_disk_command_def ata_selected_dev_def ata_disk_present_def)
  have r: "lide_reachable False ?b"
    unfolding board_out_def by (simp add: lr_write disk_board_reachable)
  have conf: "lb_configured ?b" using b disk_board_fields by simp
  have st: "ide_state (lb_ide ?b) = ATA_DATA_IN" "bit (board_in 7 ?b) 3"
    using board_in_reg [OF conf, of 7] by (simp_all add: b c ata_ide_read8_def bit_simps)
  show "\<exists>n. 0 < n \<and> n \<le> 262144 \<and> board_in 7 (snd (board_get n ?b)) = ATA_STATUS_RDY"
    using board_drq_sound [OF r conf] st by simp
qed

section \<open>Sectors of the hard disk\<close>

text \<open>
  C12: Sectors written through the data port are read back as written, and every other sector
  of the disk still reads as before, for every range of up to 256 sectors inside the disk.
\<close>

theorem board_sector_roundtrip:
  assumes "lide_reachable bootable b" and "lb_configured b"
    and "ide_disk_read (lb_ide b) \<noteq> None" and "hdf_open (ide_disk_ctx (lb_ide b))"
    and "unat lba + unat n \<le> unat (ide_disk_sectors (lb_ide b))" and "unat lba < 2 ^ 28"
    and "0 < n" and "unat n \<le> 256" and "length ws = unat n * 256"
  defines "b1 \<equiv> board_put ws (board_out (ata_command_regs ATA_CMD_WRITE_SECTORS lba n) b)"
    and "reads \<equiv> \<lambda>b l m. fst (board_get (unat m * 256) (board_out (ata_command_regs ATA_CMD_READ_SECTORS l m) b))"
  shows "board_in 7 b1 = ATA_STATUS_RDY \<and> reads b1 lba n = ws \<and>
    (\<forall>l m. unat l + unat m \<le> unat (ide_disk_sectors (lb_ide b)) \<longrightarrow> unat l < 2 ^ 28 \<longrightarrow> 0 < m \<longrightarrow>
       unat m \<le> 256 \<longrightarrow> unat lba + unat n \<le> unat l \<or> unat l + unat m \<le> unat lba \<longrightarrow>
       reads b1 l m = reads b l m)"
proof -
  have inv: "board_inv bootable b" by (rule lide_reachable_inv [OF assms(1)])
  then have rd: "ide_disk_read (lb_ide b) = Some hdf_read" using assms(3) by (auto simp: ata_wired_def)
  let ?ch = "ata_write_words ws (ata_write_regs (ata_command_regs ATA_CMD_WRITE_SECTORS lba n) (lb_ide b))"
  have b1: "b1 = b\<lparr>lb_ide := ?ch\<rparr>"
    using assms(2) by (simp add: b1_def board_out_regs [OF _ command_regs_small] board_put_words)
  have reads: "reads c l m = fst (ata_read_words (unat m * 256)
      (ata_write_regs (ata_command_regs ATA_CMD_READ_SECTORS l m) (lb_ide c)))" if "lb_configured c" for c l m
    using that by (simp add: reads_def board_out_regs [OF _ command_regs_small] board_get_words)
  note rt = board.sector_roundtrip [OF inv rd assms(4-9) refl]
  have "board_in 7 b1 = ATA_STATUS_RDY"
    using rt(1) board_in_reg [of b1 7] assms(2) by (simp add: b1 ata_ide_read8_def)
  moreover have "reads b1 lba n = ws" using rt(3) reads [of b1] assms(2) by (simp add: b1)
  ultimately show ?thesis
    using rt(4) reads [OF assms(2)] reads [of b1] assms(2) by (simp add: b1)
qed

theorem board_sector_roundtrip_witness:
  "\<forall>old. let b1 = board_put (replicate 256 0xabcd)
                    (board_out (ata_command_regs ATA_CMD_WRITE_SECTORS 1 1) (disk_board old))
    in board_in 7 b1 = ATA_STATUS_RDY \<and>
       fst (board_get 256 (board_out (ata_command_regs ATA_CMD_READ_SECTORS 1 1) b1)) = replicate 256 0xabcd"
proof
  fix old
  have n: "(0 :: u32) < 1" "unat (1 :: u32) \<le> 256" "unat (1 :: u32) < 2 ^ 28" by simp_all
  show "let b1 = board_put (replicate 256 0xabcd)
                    (board_out (ata_command_regs ATA_CMD_WRITE_SECTORS 1 1) (disk_board old))
    in board_in 7 b1 = ATA_STATUS_RDY \<and>
       fst (board_get 256 (board_out (ata_command_regs ATA_CMD_READ_SECTORS 1 1) b1)) = replicate 256 0xabcd"
    using board_sector_roundtrip [OF disk_board_reachable [of old] disk_board_fields(1) [of old] _ _ _ n(3,1,2),
        of "replicate 256 0xabcd"] disk_board_fields [of old]
    by (simp add: Let_def)
qed

section \<open>Sectors of the CD\<close>

text \<open>The words of a READ(10) packet, and the driver's use of it.\<close>

definition read_10_packet :: "u32 \<Rightarrow> u16 \<Rightarrow> u16 list" where
  "read_10_packet lba count =
     [be16_join CMD_READ_10 0, ucast (drop_bit 16 lba), ucast lba,
      ucast (drop_bit 8 count), push_bit 8 count, 0]"

definition board_read_cd :: "u32 \<Rightarrow> u16 \<Rightarrow> lide_board \<Rightarrow> u16 list \<times> lide_board" where
  "board_read_cd lba count b =
     board_get (unat count * 1024)
       (board_put (read_10_packet lba count)
          (board_out [(6, ATA_DEV_SLAVE_BIT), (7, ATA_CMD_PACKET)] b))"

lemma read_10_packet_bytes:
  "bytes_of (read_10_packet lba count) ! 0 = CMD_READ_10"
  "read_10_lba (bytes_of (read_10_packet lba count)) = lba"
  "read_10_count (bytes_of (read_10_packet lba count)) = count"
proof -
  show "bytes_of (read_10_packet lba count) ! 0 = CMD_READ_10"
    by (simp add: read_10_packet_def be16_join_def)
  show "read_10_lba (bytes_of (read_10_packet lba count)) = lba"
  proof (rule bit_word_eqI)
    fix n assume "n < LENGTH(32)"
    then consider "n < 8" | "8 \<le> n" "n < 16" | "16 \<le> n" "n < 24" | "24 \<le> n" "n < 32" by force
    then show "bit (read_10_lba (bytes_of (read_10_packet lba count))) n = bit lba n"
      by cases (auto simp: read_10_packet_def read_10_lba_def be32_join_def bit_simps)
  qed
  show "read_10_count (bytes_of (read_10_packet lba count)) = count"
    by (rule bit_word_eqI) (auto simp: read_10_packet_def read_10_count_def bit_simps)
qed

text \<open>
  C14: On a reachable, configured board with a disc whose volume descriptor is not patched
  (\<^verbatim>\<open>HARNESS_CD_BOOTABLE\<close> unset), a READ(10) packet for 1 to 256 sectors that lie on the disc
  delivers through the data port exactly the bytes of the addressed sectors of the image, in
  big-endian words, whatever the unit attention says, and leaves the drive ready with no sense to
  report.  More than 256 sectors do not fit the transfer buffer and are refused.
\<close>

theorem board_cd_read:
  assumes "lide_reachable False b" and "lb_configured b" and "0 < count" and "unat count \<le> 256"
    and "cd_ops_ctx (ide_atapi_ctx (lb_ide b)) = \<lparr>mf_data = Some disc, mf_sectors = s, mf_present = True\<rparr>"
    and "(unat lba + unat count) * 2048 \<le> length disc"
    and "board_read_cd lba count b = (ws, b')"
  shows "ws = words_of (file_read (unat lba * 2048) (unat count * 2048) disc) \<and>
    board_in 7 b' = ATA_STATUS_RDY \<and> cd_sense_key (ide_atapi_ctx (lb_ide b')) = SK_NO_SENSE"
proof -
  have inv: "board_inv False b" by (rule lide_reachable_inv [OF assms(1)])
  let ?a = "ide_atapi_ctx (lb_ide b)" and ?buf = "ide_xfer_buf (lb_ide b)" and ?ws = "read_10_packet lba count"
  let ?got = "file_read (unat lba * 2048) (unat count * 2048) disc"
  have len: "length ?buf = ATA_XFER_BUF_SIZE" using inv by (simp add: ata_ok_def)
  have lg: "length ?got = unat count * 2048"
    using assms(6) by (simp add: algebra_simps min_def)
  have ops: "cd_ops ?a = g_iso_ops" using inv by (simp add: iso_drive_def)
  have rd: "am_read_sectors (cd_ops ?a) (cd_ops_ctx ?a) lba (ucast count) ?buf = (0, mem_put 0 ?got ?buf)"
    using assms(5,6) by (simp add: ops g_iso_ops_def iso_read_sectors_def media_read_data)
  have pres: "cd_present ?a" using assms(5) by (simp add: cd_present_def ops g_iso_ops_def iso_present_def)
  have "patch_pvd_sysid False off bs = bs" for off bs by (simp add: patch_pvd_sysid_def)
  moreover have "count \<noteq> 0" using assms(3) by auto
  ultimately have e: "atapi_cdrom_exec False ?a (bytes_of ?ws) 12 ?buf ATA_XFER_BUF_SIZE =
      (0, unat count * 2048, mem_put 0 ?got ?buf, set_sense ?a SK_NO_SENSE 0 0)"
    using rd pres assms(4) by (simp add: atapi_cdrom_exec_def read_10_packet_bytes cmd_read_10_def Let_def)
  have cnt: "0 < unat count * 2048" using assms(3) by (simp add: word_less_nat_alt)
  have "length ?ws = 6" by (simp add: read_10_packet_def)
  let ?ch = "ata_write_words ?ws (ata_write_regs [(6, ATA_DEV_SLAVE_BIT), (7, ATA_CMD_PACKET)] (lb_ide b))"
  have w: "board_read_cd lba count b = (fst (ata_read_words (unat count * 1024) ?ch),
      b\<lparr>lb_ide := snd (ata_read_words (unat count * 1024) ?ch)\<rparr>)"
    using assms(2) by (simp add: board_read_cd_def board_out_regs board_put_words board_get_words)
  obtain vs ch' where r: "ata_read_words (unat count * 1024) ?ch = (vs, ch')" by fastforce
  have half: "unat count * 2048 div 2 = unat count * 1024" by simp
  have "vs = words_of (take (unat count * 2048) (mem_put 0 ?got ?buf)) \<and>
      ide_status ch' = ATA_STATUS_RDY \<and> ide_atapi_ctx ch' = set_sense ?a SK_NO_SENSE 0 0"
    by (rule board.packet_data [OF inv \<open>length ?ws = 6\<close> cnt e, unfolded half, OF r])
  moreover have "take (unat count * 2048) (mem_put 0 ?got ?buf) = ?got"
    using take_mem_put_0 [of ?got ?buf] unfolding lg .
  moreover have "ws = vs" "b' = b\<lparr>lb_ide := ch'\<rparr>" using assms(7) w r by simp_all
  ultimately show ?thesis
    using board_in_reg [of b' 7] assms(2) by (simp add: ata_ide_read8_def set_sense_def)
qed

theorem board_cd_read_witness:
  "\<forall>old. fst (board_read_cd 1 1 (cd_board old)) = words_of (file_read 2048 2048 (replicate 4096 7))"
proof
  fix old
  obtain ws b' where r: "board_read_cd 1 1 (cd_board old) = (ws, b')" by fastforce
  show "fst (board_read_cd 1 1 (cd_board old)) = words_of (file_read 2048 2048 (replicate 4096 7))"
    using board_cd_read [OF cd_board_reachable cd_board_fields(1) _ _ cd_board_fields(2) _ r] r by simp
qed

end
