(* ===== verification/Harness_Bus.thy ===== *)
theory Harness_Bus
  imports Machine_Inv Lide "HOL-Library.Monad_Syntax"
begin

text \<open>
  The host of the repository: \<^verbatim>\<open>harness/harness.c\<close>, which puts a 68000 core, the chipset and the
  expansion boards on one bus.  The core is not part of the repository; it is a value of a type
  of its own behind two calls, the cycles it has run in the time slice and the interrupt level it is
  given.  The memory of the chip RAM callbacks is the one of the Rigel context.  A sink of the
  host is the list of what it has been given, or absent.  An access advances the chipset, which
  gives an option; \<^term>\<open>None\<close> is an access that does not return.
\<close>

unbundle bit_operations_syntax

section \<open>State\<close>

abbreviation HARNESS_HALT_STEPS :: u32 where "HARNESS_HALT_STEPS \<equiv> 4096"
abbreviation HARNESS_ROM_SIZE :: u32 where "HARNESS_ROM_SIZE \<equiv> 512 * 1024"
abbreviation HARNESS_ROM_MAX :: u32 where "HARNESS_ROM_MAX \<equiv> 1024 * 1024"
abbreviation HARNESS_ROM_BASE :: u32 where "HARNESS_ROM_BASE \<equiv> 0xf80000"
abbreviation HARNESS_ROM_EXT_BASE :: u32 where "HARNESS_ROM_EXT_BASE \<equiv> 0xe00000"
abbreviation HARNESS_SLOW_RAM_BASE :: u32 where "HARNESS_SLOW_RAM_BASE \<equiv> 0xc00000"
abbreviation HARNESS_EXEC_EXIT_ADDR :: u32 where "HARNESS_EXEC_EXIT_ADDR \<equiv> 0x800"

text \<open>The calls of the core that the bus makes, and those that only reset and stepping make.\<close>

record 'c m68k_core =
  m68k_cycles_run :: "'c \<Rightarrow> int"
  m68k_set_irq :: "'c \<Rightarrow> u8 \<Rightarrow> 'c"

record ('c, 'h) harness =
  hn_rigel :: "(harness_ram, 'h) rigel_context"
  hn_cpu :: 'c
  hn_chip_ram_size :: u32
  hn_slow_ram :: "u8 list"
  hn_slow_ram_size :: u32
  hn_rom :: "u8 list"
  hn_rom_size :: u32
  hn_std_off :: u32
  hn_std_size :: u32
  hn_std_mask :: u32
  hn_ext_off :: u32
  hn_ext_size :: u32
  hn_ext_mask :: u32
  hn_ovl_off :: u32
  hn_ovl_mask :: u32
  hn_cpu_cycles_total :: u64
  hn_cck_rem :: u32
  hn_cycles_flushed :: int
  hn_pending_events :: u32
  hn_last_pc :: u32
  hn_pc_stall_steps :: u32
  hn_last_ipl :: u8
  hn_exec_mode :: bool
  hn_exec_fb :: u32
  hn_exec_fb_w :: u32
  hn_exec_fb_h :: u32
  hn_exec_fb_pitch :: u32
  hn_exec_exit :: u32
  hn_serial :: "u8 list option"
  hn_mmio :: "(u32 \<times> u16 \<times> bool) list option"
  hn_audio :: "(i16 \<times> i16) list option"
  hn_audio_rate :: u32
  hn_audio_step_q16 :: u32
  hn_audio_accum_q16 :: u32
  hn_lide :: "lide_board option"
  hn_fastram :: "fastram_board option"

definition hn_chip_ram :: "('c, 'h) harness \<Rightarrow> harness_ram" where
  "hn_chip_ram h = rc_ram (hn_rigel h)"

definition hn_set_chip_ram :: "harness_ram \<Rightarrow> ('c, 'h) harness \<Rightarrow> ('c, 'h) harness" where
  "hn_set_chip_ram ram h = h\<lparr>hn_rigel := (hn_rigel h)\<lparr>rc_ram := ram\<rparr>\<rparr>"

section \<open>The clock integrator\<close>

definition harness_sync_ipl :: "'c m68k_core \<Rightarrow> ('c, 'h) harness \<Rightarrow> ('c, 'h) harness" where
  "harness_sync_ipl core h =
     (let ipl = rigel_get_ipl (hn_rigel h)
      in if ipl = hn_last_ipl h then h
         else h\<lparr>hn_last_ipl := ipl, hn_cpu := m68k_set_irq core (hn_cpu h) ipl\<rparr>)"

definition serial_waiting :: "(harness_ram, 'h) rigel_context \<Rightarrow> nat" where
  "serial_waiting ctx = unat (tx_fifo_count (pa_serial (ctx_paula ctx)))"

lemma pop_waiting: "rigel_serial_pop_tx_byte ctx = Some (b, ctx') \<Longrightarrow> serial_waiting ctx = Suc (serial_waiting ctx')"
  by (auto simp: rigel_serial_pop_tx_byte_def serial_pop_tx_byte_def serial_waiting_def ctx_paula_def on_paula_def
      on_chipset_def Let_def unat_minus_one word_gt_0 unat_gt_0 split: if_splits)

function drain_serial ::
    "(harness_ram, 'h) rigel_context \<Rightarrow> u8 list \<Rightarrow> (harness_ram, 'h) rigel_context \<times> u8 list" where
  "drain_serial ctx sent =
     (if rigel_serial_tx_available ctx then
        (case rigel_serial_pop_tx_byte ctx of
           None \<Rightarrow> (ctx, sent)
         | Some (b, ctx) \<Rightarrow> drain_serial ctx (sent @ [b]))
      else (ctx, sent))"
  by pat_completeness auto

termination
  by (relation "measure (\<lambda>(ctx, sent). serial_waiting ctx)") (auto dest!: pop_waiting)

declare drain_serial.simps [simp del]

definition harness_drain_serial :: "('c, 'h) harness \<Rightarrow> ('c, 'h) harness" where
  "harness_drain_serial h =
     (case hn_serial h of
        None \<Rightarrow> h
      | Some sent \<Rightarrow>
          (case drain_serial (hn_rigel h) sent of
             (ctx, sent) \<Rightarrow> h\<lparr>hn_rigel := ctx, hn_serial := Some sent\<rparr>))"

text \<open>One output sample per \<open>step\<close> of the accumulator; the caller has made sure that \<open>step\<close> is not zero.\<close>

function audio_emit :: "u32 \<Rightarrow> i16 \<times> i16 \<Rightarrow> u32 \<Rightarrow> (i16 \<times> i16) list \<Rightarrow> u32 \<times> (i16 \<times> i16) list" where
  "audio_emit step s accum out =
     (if step = 0 then (accum, out)
      else if accum \<ge> step then audio_emit step s (accum - step) (out @ [s])
      else (accum, out))"
  by pat_completeness auto

termination
proof (relation "measure (\<lambda>(step, s, accum, out). unat accum)")
  fix step accum :: u32
  assume "step \<noteq> 0" "step \<le> accum"
  moreover from this have "unat (accum - step) = unat accum - unat step" by (intro unat_sub)
  moreover have "unat step > 0" using \<open>step \<noteq> 0\<close> by (simp add: unat_gt_0)
  ultimately show "((step, s, accum - step, out @ [s]), step, s, accum, out)
      \<in> measure (\<lambda>(step, s, accum, out). unat accum)" for s :: "i16 \<times> i16" and out
    by (simp add: word_le_nat_alt)
qed simp

declare audio_emit.simps [simp del]

definition harness_advance_audio :: "('c, 'h) harness \<Rightarrow> u64 \<Rightarrow> ('c, 'h) harness" where
  "harness_advance_audio h cck =
     (case hn_audio h of
        None \<Rightarrow> h
      | Some out \<Rightarrow>
          if hn_audio_step_q16 h = 0 then h
          else
            let h = h\<lparr>hn_audio_accum_q16 := hn_audio_accum_q16 h + ucast (push_bit 16 cck)\<rparr>
            in if hn_audio_accum_q16 h < hn_audio_step_q16 h then h
               else
                 (case audio_emit (hn_audio_step_q16 h) (rigel_get_audio_sample (hn_rigel h))
                         (hn_audio_accum_q16 h) out of
                    (accum, out) \<Rightarrow> h\<lparr>hn_audio_accum_q16 := accum, hn_audio := Some out\<rparr>))"

definition harness_absorb :: "'c m68k_core \<Rightarrow> ('c, 'h) harness \<Rightarrow> rigel_step_result \<Rightarrow> ('c, 'h) harness" where
  "harness_absorb core h r =
     harness_drain_serial (harness_sync_ipl core (h\<lparr>hn_pending_events := hn_pending_events h OR sr_events r\<rparr>))"

text \<open>The cycles that the core has run are given to the chipset, two to a colour clock.\<close>

definition harness_advance ::
    "'h rigel_env \<Rightarrow> 'c m68k_core \<Rightarrow> int \<Rightarrow> ('c, 'h) harness \<Rightarrow> ('c, 'h) harness option" where
  "harness_advance env core delta h =
     (let scaled = ucast (hn_cck_rem h) + (of_int delta :: u64);
          cck = scaled div 2;
          h = h\<lparr>hn_cck_rem := ucast (scaled AND 1)\<rparr>
      in if cck \<noteq> 0 then
           map_option (\<lambda>(r, ctx). harness_advance_audio (harness_absorb core (h\<lparr>hn_rigel := ctx\<rparr>) r) cck)
             (rigel_step env (hn_rigel h) cck)
         else Some h)"

definition harness_flush ::
    "'h rigel_env \<Rightarrow> 'c m68k_core \<Rightarrow> ('c, 'h) harness \<Rightarrow> ('c, 'h) harness option" where
  "harness_flush env core h =
     (let run = m68k_cycles_run core (hn_cpu h);
          delta = run - hn_cycles_flushed h
      in if delta \<le> 0 then Some h
         else harness_advance env core delta (h\<lparr>hn_cycles_flushed := run\<rparr>))"

section \<open>Address decode\<close>

text \<open>\<^verbatim>\<open>OVL\<close> is bit 0 of port A of the first CIA; reading it is an access to that CIA.\<close>

definition harness_overlay :: "('c, 'h) harness \<Rightarrow> bool \<times> ('c, 'h) harness" where
  "harness_overlay h =
     (if hn_exec_mode h then (False, h)
      else if hn_rom_size h = 0 then (False, h)
      else
        let (ddra, ctx) = rigel_cia_read (hn_rigel h) 0 2;
            h = h\<lparr>hn_rigel := ctx\<rparr>
        in if ddra AND 1 = 0 then (True, h)
           else
             let (pra, ctx) = rigel_cia_read (hn_rigel h) 0 0
             in (pra AND 1 \<noteq> 0, h\<lparr>hn_rigel := ctx\<rparr>))"

definition harness_overlay_read8 :: "('c, 'h) harness \<Rightarrow> u32 \<Rightarrow> u8" where
  "harness_overlay_read8 h addr = hn_rom h ! unat (hn_ovl_off h + (addr AND hn_ovl_mask h))"

definition harness_rom_read8 :: "('c, 'h) harness \<Rightarrow> u32 \<Rightarrow> u8" where
  "harness_rom_read8 h addr =
     (if addr \<ge> HARNESS_ROM_BASE \<and> hn_std_size h \<noteq> 0 then
        hn_rom h ! unat (hn_std_off h + (addr AND hn_std_mask h))
      else if hn_ext_size h \<noteq> 0 \<and> addr \<ge> HARNESS_ROM_EXT_BASE \<and>
              addr < HARNESS_ROM_EXT_BASE + hn_ext_size h then
        hn_rom h ! unat (hn_ext_off h + (addr AND hn_ext_mask h))
      else 0xff)"

text \<open>The boards may be absent.\<close>

definition hn_fastram_owns :: "('c, 'h) harness \<Rightarrow> u32 \<Rightarrow> bool" where
  "hn_fastram_owns h addr = (case hn_fastram h of None \<Rightarrow> False | Some b \<Rightarrow> fastram_owns b addr)"

definition hn_fastram_pending :: "('c, 'h) harness \<Rightarrow> bool" where
  "hn_fastram_pending h = (case hn_fastram h of None \<Rightarrow> False | Some b \<Rightarrow> fastram_pending b)"

definition hn_lide_owns :: "('c, 'h) harness \<Rightarrow> u32 \<Rightarrow> bool" where
  "hn_lide_owns h addr = (case hn_lide h of None \<Rightarrow> False | Some b \<Rightarrow> lide_owns b addr)"

definition hn_lide_pending :: "('c, 'h) harness \<Rightarrow> bool" where
  "hn_lide_pending h = (case hn_lide h of None \<Rightarrow> False | Some b \<Rightarrow> lide_pending b)"

definition hn_fastram_read :: "('c, 'h) harness \<Rightarrow> u32 \<Rightarrow> nat \<Rightarrow> u32" where
  "hn_fastram_read h addr n = (case hn_fastram h of None \<Rightarrow> 0xffffffff | Some b \<Rightarrow> fastram_read b addr n)"

definition hn_fastram_write :: "('c, 'h) harness \<Rightarrow> u32 \<Rightarrow> u32 \<Rightarrow> nat \<Rightarrow> ('c, 'h) harness" where
  "hn_fastram_write h addr v n = h\<lparr>hn_fastram := map_option (\<lambda>b. fastram_write b addr v n) (hn_fastram h)\<rparr>"

definition hn_lide_read :: "('c, 'h) harness \<Rightarrow> u32 \<Rightarrow> nat \<Rightarrow> u32 \<times> ('c, 'h) harness" where
  "hn_lide_read h addr n =
     (case hn_lide h of
        None \<Rightarrow> (0xffffffff, h)
      | Some b \<Rightarrow> (case lide_read b addr n of (v, b) \<Rightarrow> (v, h\<lparr>hn_lide := Some b\<rparr>)))"

definition hn_lide_write :: "('c, 'h) harness \<Rightarrow> u32 \<Rightarrow> u32 \<Rightarrow> nat \<Rightarrow> ('c, 'h) harness" where
  "hn_lide_write h addr v n = h\<lparr>hn_lide := map_option (\<lambda>b. lide_write b addr v n) (hn_lide h)\<rparr>"

definition addr_in_autoconfig :: "u32 \<Rightarrow> bool" where
  "addr_in_autoconfig a \<longleftrightarrow> a \<ge> ZORRO_AC_BASE \<and> a < ZORRO_AC_BASE + ZORRO_AC_WINDOW"

definition harness_autoconfig_read :: "('c, 'h) harness \<Rightarrow> u32 \<Rightarrow> u8" where
  "harness_autoconfig_read h addr =
     (let off = addr - ZORRO_AC_BASE
      in if hn_fastram_pending h then fastram_ac_read (the (hn_fastram h)) off
         else if hn_lide_pending h then lide_ac_read (the (hn_lide h)) off
         else 0xff)"

definition harness_autoconfig_write :: "('c, 'h) harness \<Rightarrow> u32 \<Rightarrow> u8 \<Rightarrow> ('c, 'h) harness" where
  "harness_autoconfig_write h addr value =
     (let off = addr - ZORRO_AC_BASE
      in if hn_fastram_pending h then h\<lparr>hn_fastram := map_option (\<lambda>b. fastram_ac_write b off value) (hn_fastram h)\<rparr>
         else if hn_lide_pending h then h\<lparr>hn_lide := map_option (\<lambda>b. lide_ac_write b off value) (hn_lide h)\<rparr>
         else h)"

definition harness_autoconfig_active :: "('c, 'h) harness \<Rightarrow> bool" where
  "harness_autoconfig_active h \<longleftrightarrow> hn_fastram_pending h \<or> hn_lide_pending h"

definition addr_in_custom :: "u32 \<Rightarrow> bool" where
  "addr_in_custom a \<longleftrightarrow> a \<ge> 0xdf0000 \<and> a < 0xe00000"

definition addr_in_cia :: "u32 \<Rightarrow> bool" where
  "addr_in_cia a \<longleftrightarrow> a \<ge> 0xa00000 \<and> a < 0xc00000"

definition addr_in_slow :: "('c, 'h) harness \<Rightarrow> u32 \<Rightarrow> bool" where
  "addr_in_slow h a \<longleftrightarrow> hn_slow_ram_size h \<noteq> 0 \<and> a \<ge> HARNESS_SLOW_RAM_BASE \<and>
     a < HARNESS_SLOW_RAM_BASE + hn_slow_ram_size h"

section \<open>CIA and custom registers\<close>

definition harness_cia_read8 ::
    "'h rigel_env \<Rightarrow> 'c m68k_core \<Rightarrow> ('c, 'h) harness \<Rightarrow> u32 \<Rightarrow> (u8 \<times> ('c, 'h) harness) option" where
  "harness_cia_read8 env core h addr =
     (let reg = ucast (drop_bit 8 addr AND 0x0f)
      in do {
        h \<leftarrow> harness_flush env core h;
        Some
          (if addr AND 0x1000 = 0 \<and> addr AND 1 \<noteq> 0 then
             let (v, ctx) = rigel_cia_read (hn_rigel h) 0 reg
             in (v, harness_sync_ipl core (h\<lparr>hn_rigel := ctx\<rparr>))
           else if addr AND 0x2000 = 0 \<and> addr AND 1 = 0 then
             let (v, ctx) = rigel_cia_read (hn_rigel h) 1 reg
             in (v, harness_sync_ipl core (h\<lparr>hn_rigel := ctx\<rparr>))
           else (0xff, h))
      })"

definition harness_cia_write8 ::
    "'h rigel_env \<Rightarrow> 'c m68k_core \<Rightarrow> ('c, 'h) harness \<Rightarrow> u32 \<Rightarrow> u8 \<Rightarrow> ('c, 'h) harness option" where
  "harness_cia_write8 env core h addr value =
     (let reg = ucast (drop_bit 8 addr AND 0x0f)
      in do {
        h \<leftarrow> harness_flush env core h;
        Some (harness_sync_ipl core
          (if addr AND 0x1000 = 0 \<and> addr AND 1 \<noteq> 0 then
             h\<lparr>hn_rigel := rigel_cia_write (hn_rigel h) 0 reg value\<rparr>
           else if addr AND 0x2000 = 0 \<and> addr AND 1 = 0 then
             h\<lparr>hn_rigel := rigel_cia_write (hn_rigel h) 1 reg value\<rparr>
           else h))
      })"

definition harness_observe :: "u32 \<Rightarrow> u16 \<Rightarrow> bool \<Rightarrow> ('c, 'h) harness \<Rightarrow> ('c, 'h) harness" where
  "harness_observe reg value write h = h\<lparr>hn_mmio := map_option (\<lambda>l. l @ [(reg, value, write)]) (hn_mmio h)\<rparr>"

definition harness_custom_read ::
    "'h rigel_env \<Rightarrow> 'c m68k_core \<Rightarrow> ('c, 'h) harness \<Rightarrow> u32 \<Rightarrow> (u16 \<times> ('c, 'h) harness) option" where
  "harness_custom_read env core h reg =
     do {
       h \<leftarrow> harness_flush env core h;
       let (value, ctx) = rigel_custom_read16 (hn_rigel h) reg;
       Some (value, harness_observe reg value False (h\<lparr>hn_rigel := ctx\<rparr>))
     }"

definition harness_custom_write ::
    "'h rigel_env \<Rightarrow> 'c m68k_core \<Rightarrow> ('c, 'h) harness \<Rightarrow> u32 \<Rightarrow> u16 \<Rightarrow> ('c, 'h) harness option" where
  "harness_custom_write env core h reg value =
     do {
       h \<leftarrow> harness_flush env core h;
       Some (harness_sync_ipl core (harness_observe reg value True
         (h\<lparr>hn_rigel := rigel_custom_write16 env (hn_rigel h) reg value\<rparr>)))
     }"

section \<open>Bytes and words on the bus\<close>

text \<open>
  The low 24 bits of an address count.  Where C leaves the order of two accesses of one
  expression open, the one of the higher byte or word comes first here.
\<close>

abbreviation bus_address :: "u32 \<Rightarrow> u32" where "bus_address addr \<equiv> addr AND 0x00ffffff"

definition harness_read8 ::
    "'h rigel_env \<Rightarrow> 'c m68k_core \<Rightarrow> ('c, 'h) harness \<Rightarrow> u32 \<Rightarrow> (u8 \<times> ('c, 'h) harness) option" where
  "harness_read8 env core h a =
     (let addr = bus_address a
      in if addr < hn_chip_ram_size h then
           let (ovl, h) = harness_overlay h
           in Some (if ovl then harness_overlay_read8 h addr else hn_chip_ram h ! unat addr, h)
         else if hn_fastram_owns h addr then Some (ucast (hn_fastram_read h addr 1), h)
         else if hn_lide_owns h addr then
           let (v, h) = hn_lide_read h addr 1 in Some (ucast v, h)
         else if addr_in_autoconfig addr \<and> harness_autoconfig_active h then
           Some (harness_autoconfig_read h addr, h)
         else if addr_in_cia addr then harness_cia_read8 env core h addr
         else if addr_in_slow h addr then
           Some (hn_slow_ram h ! unat (addr - HARNESS_SLOW_RAM_BASE), h)
         else if addr_in_custom addr then
           do {
             (w, h) \<leftarrow> harness_custom_read env core h (addr AND 0x1fe);
             Some (if addr AND 1 \<noteq> 0 then ucast (w AND 0xff) else ucast (drop_bit 8 w), h)
           }
         else Some (harness_rom_read8 h addr, h))"

definition harness_write8 ::
    "'h rigel_env \<Rightarrow> 'c m68k_core \<Rightarrow> ('c, 'h) harness \<Rightarrow> u32 \<Rightarrow> u8 \<Rightarrow> ('c, 'h) harness option" where
  "harness_write8 env core h a value =
     (let addr = bus_address a
      in if addr < hn_chip_ram_size h then
           Some (hn_set_chip_ram ((hn_chip_ram h)[unat addr := value]) h)
         else if hn_fastram_owns h addr then Some (hn_fastram_write h addr (ucast value) 1)
         else if hn_lide_owns h addr then Some (hn_lide_write h addr (ucast value) 1)
         else if addr_in_autoconfig addr \<and> harness_autoconfig_active h then
           Some (harness_autoconfig_write h addr value)
         else if addr_in_cia addr then harness_cia_write8 env core h addr value
         else if addr_in_slow h addr then
           Some (h\<lparr>hn_slow_ram := (hn_slow_ram h)[unat (addr - HARNESS_SLOW_RAM_BASE) := value]\<rparr>)
         else if addr_in_custom addr then
           do {
             (cur, h) \<leftarrow> harness_custom_read env core h (addr AND 0x1fe);
             harness_custom_write env core h (addr AND 0x1fe)
               (if addr AND 1 \<noteq> 0 then (cur AND 0xff00) OR ucast value
                else (cur AND 0x00ff) OR push_bit 8 (ucast value))
           }
         else Some h)"

definition harness_read16 ::
    "'h rigel_env \<Rightarrow> 'c m68k_core \<Rightarrow> ('c, 'h) harness \<Rightarrow> u32 \<Rightarrow> (u16 \<times> ('c, 'h) harness) option" where
  "harness_read16 env core h a =
     (let addr = bus_address a
      in if addr_in_custom addr then harness_custom_read env core h (addr AND 0x1fe)
         else if addr + 1 < hn_chip_ram_size h then
           let (ovl, h) = harness_overlay h
           in Some (if ovl
                    then push_bit 8 (ucast (harness_overlay_read8 h addr)) OR
                         ucast (harness_overlay_read8 h (addr + 1))
                    else push_bit 8 (ucast (hn_chip_ram h ! unat addr)) OR
                         ucast (hn_chip_ram h ! unat (addr + 1)), h)
         else if hn_fastram_owns h addr then Some (ucast (hn_fastram_read h addr 2), h)
         else if hn_lide_owns h addr then
           let (v, h) = hn_lide_read h addr 2 in Some (ucast v, h)
         else do {
           (hi, h) \<leftarrow> harness_read8 env core h addr;
           (lo, h) \<leftarrow> harness_read8 env core h (addr + 1);
           Some (push_bit 8 (ucast hi) OR ucast lo, h)
         })"

definition harness_write16 ::
    "'h rigel_env \<Rightarrow> 'c m68k_core \<Rightarrow> ('c, 'h) harness \<Rightarrow> u32 \<Rightarrow> u16 \<Rightarrow> ('c, 'h) harness option" where
  "harness_write16 env core h a value =
     (let addr = bus_address a
      in if addr_in_custom addr then harness_custom_write env core h (addr AND 0x1fe) value
         else if addr + 1 < hn_chip_ram_size h then
           Some (hn_set_chip_ram ((hn_chip_ram h)[unat addr := ucast (drop_bit 8 value),
                                                  unat (addr + 1) := ucast (value AND 0xff)]) h)
         else if hn_fastram_owns h addr then Some (hn_fastram_write h addr (ucast value) 2)
         else if hn_lide_owns h addr then Some (hn_lide_write h addr (ucast value) 2)
         else do {
           h \<leftarrow> harness_write8 env core h addr (ucast (drop_bit 8 value));
           harness_write8 env core h (addr + 1) (ucast (value AND 0xff))
         })"

text \<open>The core's long accesses.\<close>

definition m68k_read_memory_32 ::
    "'h rigel_env \<Rightarrow> 'c m68k_core \<Rightarrow> ('c, 'h) harness \<Rightarrow> u32 \<Rightarrow> (u32 \<times> ('c, 'h) harness) option" where
  "m68k_read_memory_32 env core h address =
     do {
       (hi, h) \<leftarrow> harness_read16 env core h address;
       (lo, h) \<leftarrow> harness_read16 env core h (address + 2);
       Some (push_bit 16 (ucast hi) OR ucast lo, h)
     }"

definition m68k_write_memory_32 ::
    "'h rigel_env \<Rightarrow> 'c m68k_core \<Rightarrow> ('c, 'h) harness \<Rightarrow> u32 \<Rightarrow> u32 \<Rightarrow> ('c, 'h) harness option" where
  "m68k_write_memory_32 env core h address value =
     do {
       h \<leftarrow> harness_write16 env core h address (ucast (drop_bit 16 value));
       harness_write16 env core h (address + 2) (ucast value)
     }"

section \<open>Looking without touching\<close>

definition harness_peek16 :: "('c, 'h) harness \<Rightarrow> u32 \<Rightarrow> u16 \<times> ('c, 'h) harness" where
  "harness_peek16 h a =
     (let addr = bus_address a
      in if addr + 1 < hn_chip_ram_size h then
           let (ovl, h) = harness_overlay h
           in (if ovl
               then push_bit 8 (ucast (harness_overlay_read8 h addr)) OR
                    ucast (harness_overlay_read8 h (addr + 1))
               else push_bit 8 (ucast (hn_chip_ram h ! unat addr)) OR
                    ucast (hn_chip_ram h ! unat (addr + 1)), h)
         else if hn_slow_ram_size h \<noteq> 0 \<and> addr \<ge> HARNESS_SLOW_RAM_BASE \<and>
                 addr + 1 < HARNESS_SLOW_RAM_BASE + hn_slow_ram_size h then
           let off = addr - HARNESS_SLOW_RAM_BASE
           in (push_bit 8 (ucast (hn_slow_ram h ! unat off)) OR ucast (hn_slow_ram h ! unat (off + 1)), h)
         else if hn_fastram_owns h addr \<and> hn_fastram_owns h (addr + 1) then
           (ucast (hn_fastram_read h addr 2), h)
         else if addr_in_cia addr \<or> addr_in_custom addr then (0, h)
         else if hn_lide_owns h addr then (0, h)
         else (push_bit 8 (ucast (harness_rom_read8 h addr)) OR
               ucast (harness_rom_read8 h (addr + 1)), h))"

definition harness_peek8 :: "('c, 'h) harness \<Rightarrow> u32 \<Rightarrow> u8 \<times> ('c, 'h) harness" where
  "harness_peek8 h addr =
     (let (w, h) = harness_peek16 h (addr AND NOT 1)
      in (if addr AND 1 \<noteq> 0 then ucast (w AND 0xff) else ucast (drop_bit 8 w), h))"

fun harness_peek :: "('c, 'h) harness \<Rightarrow> u32 \<Rightarrow> nat \<Rightarrow> u8 list \<times> ('c, 'h) harness" where
  "harness_peek h addr 0 = ([], h)"
| "harness_peek h addr (Suc n) =
     (let (b, h) = harness_peek8 h addr;
          (bs, h) = harness_peek h (addr + 1) n
      in (b # bs, h))"

definition m68k_read_disassembler_32 :: "('c, 'h) harness \<Rightarrow> u32 \<Rightarrow> u32 \<times> ('c, 'h) harness" where
  "m68k_read_disassembler_32 h address =
     (let (hi, h) = harness_peek16 h address;
          (lo, h) = harness_peek16 h (address + 2)
      in (push_bit 16 (ucast hi) OR ucast lo, h))"

section \<open>The timer of the guest programs\<close>

definition rigel_m68k_timer_freq :: "('c, 'h) harness \<Rightarrow> u32" where
  "rigel_m68k_timer_freq h = rigel_get_clock_hz (hn_rigel h)"

definition rigel_m68k_timer_ticks :: "'c m68k_core \<Rightarrow> ('c, 'h) harness \<Rightarrow> u32" where
  "rigel_m68k_timer_ticks core h =
     ucast (hn_cpu_cycles_total h + of_int (m68k_cycles_run core (hn_cpu h)))"

end
