(* ===== verification/Hunk.thy ===== *)
theory Hunk
  imports Host_Bytes "HOL-Library.Monad_Syntax"
begin

text \<open>
  The loader of AmigaOS executables (\<^verbatim>\<open>harness/hunk.c\<close>).  The file is read through a cursor of
  32 bits; what lies beyond the array, which a wrapped cursor can reach, is part of the
  reader.  Guest memory is a value of any type behind a byte read and a byte write.  The loops
  over relocation groups, symbols and blocks depend on the cursor, which may move backwards;
  they give back an option, with \<^term>\<open>None\<close> for a loader that does not return.
\<close>

unbundle bit_operations_syntax

section \<open>Constants and state\<close>

abbreviation HUNK_HEADER :: u32 where "HUNK_HEADER \<equiv> 0x3f3"
abbreviation HUNK_CODE :: u32 where "HUNK_CODE \<equiv> 0x3e9"
abbreviation HUNK_DATA :: u32 where "HUNK_DATA \<equiv> 0x3ea"
abbreviation HUNK_BSS :: u32 where "HUNK_BSS \<equiv> 0x3eb"
abbreviation HUNK_RELOC32 :: u32 where "HUNK_RELOC32 \<equiv> 0x3ec"
abbreviation HUNK_SYMBOL :: u32 where "HUNK_SYMBOL \<equiv> 0x3f0"
abbreviation HUNK_DEBUG :: u32 where "HUNK_DEBUG \<equiv> 0x3f1"
abbreviation HUNK_END :: u32 where "HUNK_END \<equiv> 0x3f2"
abbreviation MAX_HUNKS :: u32 where "MAX_HUNKS \<equiv> 64"
abbreviation SEG_HEADER :: u32 where "SEG_HEADER \<equiv> 8"

text \<open>The messages of the loader, with their arguments.\<close>

datatype hunk_error =
  No_image
| Not_a_hunk_file
| Truncated_name_list
| Truncated_header
| Bad_hunk_range u32 u32
| Too_many_hunks u32
| No_room u32 u32 u32 u32
| Truncated_size_table
| Truncated_hunk u32
| Hunk_too_big u32 u32 u32
| Bad_relocation_target u32
| Truncated_relocations
| Relocation_past_hunk u32 u32

record hunk_image =
  hi_entry :: u32
  hi_base :: u32
  hi_end :: u32
  hi_hunk_count :: u32

record reader =
  rr_data :: "u32 \<Rightarrow> u8"
  rr_size :: u32
  rr_pos :: u32
  rr_overrun :: bool

record 'm hunk_mem =
  hm_write8 :: "'m \<Rightarrow> u32 \<Rightarrow> u8 \<Rightarrow> 'm"
  hm_read8 :: "'m \<Rightarrow> u32 \<Rightarrow> u8 \<times> 'm"

section \<open>Longwords\<close>

definition rd32 :: "reader \<Rightarrow> u32 \<times> reader" where
  "rd32 r =
     (let p = rr_pos r
      in if p + 4 > rr_size r then (0, r\<lparr>rr_overrun := True\<rparr>)
         else (be32_join (rr_data r p) (rr_data r (p + 1)) (rr_data r (p + 2)) (rr_data r (p + 3)),
               r\<lparr>rr_pos := p + 4\<rparr>))"

definition put32 :: "'m hunk_mem \<Rightarrow> 'm \<Rightarrow> u32 \<Rightarrow> u32 \<Rightarrow> 'm" where
  "put32 k m addr v =
     (let m = hm_write8 k m addr (ucast (drop_bit 24 v));
          m = hm_write8 k m (addr + 1) (ucast (drop_bit 16 v));
          m = hm_write8 k m (addr + 2) (ucast (drop_bit 8 v))
      in hm_write8 k m (addr + 3) (ucast v))"

definition get32 :: "'m hunk_mem \<Rightarrow> 'm \<Rightarrow> u32 \<Rightarrow> u32 \<times> 'm" where
  "get32 k m addr =
     (let (a, m) = hm_read8 k m addr;
          (b, m) = hm_read8 k m (addr + 1);
          (c, m) = hm_read8 k m (addr + 2);
          (d, m) = hm_read8 k m (addr + 3)
      in (be32_join a b c d, m))"

section \<open>The header\<close>

text \<open>The resident library names: longwords up to a zero, which an overrun also is.\<close>

partial_function (option) hunk_names :: "reader \<Rightarrow> (hunk_error + reader) option" where
  "hunk_names r =
     (if fst (rd32 r) = 0 then Some (Inr (snd (rd32 r)))
      else if rr_overrun (snd (rd32 r)) then Some (Inl Truncated_name_list)
      else hunk_names (snd (rd32 r)))"

definition hunk_header :: "reader \<Rightarrow> (hunk_error + reader \<times> u32) option" where
  "hunk_header r =
     (let (magic, r) = rd32 r
      in if magic \<noteq> HUNK_HEADER then Some (Inl Not_a_hunk_file)
         else do {
           names \<leftarrow> hunk_names r;
           Some (case names of
             Inl e \<Rightarrow> Inl e
           | Inr r \<Rightarrow>
               let (_, r) = rd32 r;
                   (first, r) = rd32 r;
                   (last, r) = rd32 r;
                   count = last - first + 1
               in if rr_overrun r then Inl Truncated_header
                  else if last < first then Inl (Bad_hunk_range first last)
                  else if count > MAX_HUNKS then Inl (Too_many_hunks count)
                  else Inr (r, count))
         })"

section \<open>Reserving the segments\<close>

definition zero_segment :: "'m hunk_mem \<Rightarrow> 'm \<Rightarrow> u32 \<Rightarrow> u32 \<Rightarrow> 'm" where
  "zero_segment k m addr bytes =
     fold (\<lambda>b m. hm_write8 k m (addr + of_nat b) 0) [0..<unat bytes] m"

record hunk_segs =
  hs_data :: "u32 list"
  hs_size :: "u32 list"

text \<open>\<open>n\<close> segments are left, and \<open>i\<close> is the number of the next one.\<close>

fun hunk_reserve ::
    "'m hunk_mem \<Rightarrow> u32 \<Rightarrow> nat \<Rightarrow> u32 \<Rightarrow> reader \<Rightarrow> u32 \<Rightarrow> hunk_segs \<Rightarrow> 'm \<Rightarrow>
     (hunk_error + reader \<times> u32 \<times> hunk_segs) \<times> 'm" where
  "hunk_reserve k limit 0 i r cursor segs m = (Inr (r, cursor, segs), m)"
| "hunk_reserve k limit (Suc n) i r cursor segs m =
     (let (v, r) = rd32 r;
          longs = v AND 0x3fffffff;
          bytes = longs * 4
      in if cursor + SEG_HEADER + bytes > limit then
           (Inl (No_room i bytes (if limit > cursor then limit - cursor else 0) cursor), m)
         else
           let m = put32 k m cursor bytes;
               m = put32 k m (cursor + 4) 0;
               segs = \<lparr>hs_data = hs_data segs @ [cursor + SEG_HEADER], hs_size = hs_size segs @ [bytes]\<rparr>;
               m = zero_segment k m (cursor + SEG_HEADER) bytes
           in hunk_reserve k limit n (i + 1) r
                ((cursor + SEG_HEADER + bytes + 31) AND NOT 31) segs m)"

definition hunk_chain :: "'m hunk_mem \<Rightarrow> hunk_segs \<Rightarrow> nat \<Rightarrow> 'm \<Rightarrow> 'm" where
  "hunk_chain k segs count m =
     fold (\<lambda>i m. put32 k m (hs_data segs ! i - 4) (hs_data segs ! (i + 1) - 4)) [0..<count - 1] m"

section \<open>Placing the data\<close>

fun hunk_relocate ::
    "'m hunk_mem \<Rightarrow> hunk_segs \<Rightarrow> nat \<Rightarrow> nat \<Rightarrow> nat \<Rightarrow> reader \<Rightarrow> 'm \<Rightarrow> hunk_error option \<times> reader \<times> 'm" where
  "hunk_relocate k segs block target 0 r m = (None, r, m)"
| "hunk_relocate k segs block target (Suc n) r m =
     (let (off, r) = rd32 r
      in if rr_overrun r then (Some Truncated_relocations, r, m)
         else if off + 4 > hs_size segs ! block then
           (Some (Relocation_past_hunk off (of_nat block)), r, m)
         else
           let (v, m) = get32 k m (hs_data segs ! block + off);
               m = put32 k m (hs_data segs ! block + off) (v + hs_data segs ! target)
           in hunk_relocate k segs block target n r m)"

text \<open>One group of relocations: the count is not zero and was read as \<open>n\<close>.\<close>

definition hunk_reloc_group ::
    "'m hunk_mem \<Rightarrow> hunk_segs \<Rightarrow> nat \<Rightarrow> nat \<Rightarrow> u32 \<Rightarrow> reader \<Rightarrow> 'm \<Rightarrow> hunk_error option \<times> reader \<times> 'm" where
  "hunk_reloc_group k segs count block n r m =
     (let (target, r) = rd32 r
      in if unat target \<ge> count then (Some (Bad_relocation_target target), r, m)
         else hunk_relocate k segs block (unat target) (unat n) r m)"

partial_function (option) hunk_relocs ::
    "'m hunk_mem \<Rightarrow> hunk_segs \<Rightarrow> nat \<Rightarrow> nat \<Rightarrow> reader \<Rightarrow> 'm \<Rightarrow> (hunk_error option \<times> reader \<times> 'm) option" where
  "hunk_relocs k segs count block r m =
     (if fst (rd32 r) = 0 \<or> rr_overrun (snd (rd32 r)) then Some (None, snd (rd32 r), m)
      else if fst (hunk_reloc_group k segs count block (fst (rd32 r)) (snd (rd32 r)) m) \<noteq> None
      then Some (hunk_reloc_group k segs count block (fst (rd32 r)) (snd (rd32 r)) m)
      else hunk_relocs k segs count block
             (fst (snd (hunk_reloc_group k segs count block (fst (rd32 r)) (snd (rd32 r)) m)))
             (snd (snd (hunk_reloc_group k segs count block (fst (rd32 r)) (snd (rd32 r)) m))))"

partial_function (option) hunk_symbols :: "reader \<Rightarrow> reader option" where
  "hunk_symbols r =
     (if fst (rd32 r) = 0 \<or> rr_overrun (snd (rd32 r)) then Some (snd (rd32 r))
      else hunk_symbols ((snd (rd32 r))\<lparr>rr_pos := rr_pos (snd (rd32 r)) + (fst (rd32 r) * 4 + 4)\<rparr>))"

text \<open>A code or data hunk, its type longword already read.\<close>

definition hunk_place ::
    "'m hunk_mem \<Rightarrow> hunk_segs \<Rightarrow> nat \<Rightarrow> reader \<Rightarrow> 'm \<Rightarrow> hunk_error option \<times> reader \<times> 'm" where
  "hunk_place k segs block r m =
     (let (longs, r) = rd32 r;
          bytes = longs * 4
      in if rr_pos r + bytes > rr_size r then (Some (Truncated_hunk (of_nat block)), r, m)
         else if bytes > hs_size segs ! block then
           (Some (Hunk_too_big (of_nat block) bytes (hs_size segs ! block)), r, m)
         else
           let m = fold (\<lambda>b m. hm_write8 k m (hs_data segs ! block + of_nat b) (rr_data r (rr_pos r + of_nat b)))
                     [0..<unat bytes] m
           in (None, r\<lparr>rr_pos := rr_pos r + bytes\<rparr>, m))"

text \<open>One block of the file with type \<open>type\<close>: the error, the reader, the number of the next block.\<close>

definition hunk_block ::
    "'m hunk_mem \<Rightarrow> hunk_segs \<Rightarrow> nat \<Rightarrow> nat \<Rightarrow> u32 \<Rightarrow> reader \<Rightarrow> 'm \<Rightarrow>
     ((hunk_error option \<times> reader \<times> 'm) \<times> nat) option" where
  "hunk_block k segs count block type r m =
     (if type = HUNK_CODE \<or> type = HUNK_DATA then Some (hunk_place k segs block r m, block)
      else if type = HUNK_BSS then Some ((None, snd (rd32 r), m), block)
      else if type = HUNK_RELOC32 then map_option (\<lambda>x. (x, block)) (hunk_relocs k segs count block r m)
      else if type = HUNK_END then Some ((None, r, m), block + 1)
      else if type = HUNK_SYMBOL then map_option (\<lambda>r. ((None, r, m), block)) (hunk_symbols r)
      else if type = HUNK_DEBUG then
        let (longs, r) = rd32 r in Some ((None, r\<lparr>rr_pos := rr_pos r + longs * 4\<rparr>, m), block)
      else Some ((None, r\<lparr>rr_pos := rr_size r\<rparr>, m), block))"

partial_function (option) hunk_blocks ::
    "'m hunk_mem \<Rightarrow> hunk_segs \<Rightarrow> nat \<Rightarrow> nat \<Rightarrow> reader \<Rightarrow> 'm \<Rightarrow> (hunk_error option \<times> 'm) option" where
  "hunk_blocks k segs count block r m =
     (if \<not> (rr_pos r < rr_size r \<and> block < count) then Some (None, m)
      else if rr_overrun (snd (rd32 r)) then Some (None, m)
      else do {
        ((e, r, m), block) \<leftarrow> hunk_block k segs count block (fst (rd32 r) AND 0x3fffffff) (snd (rd32 r)) m;
        (if e \<noteq> None then Some (e, m) else hunk_blocks k segs count block r m)
      })"

section \<open>The loader\<close>

text \<open>\<open>beyond\<close> is the memory after the file; a null file is \<^term>\<open>None\<close>.\<close>

definition hunk_reader :: "u8 list \<Rightarrow> (u32 \<Rightarrow> u8) \<Rightarrow> reader" where
  "hunk_reader file beyond =
     \<lparr>rr_data = \<lambda>i. if unat i < length file then file ! unat i else beyond i,
      rr_size = of_nat (length file), rr_pos = 0, rr_overrun = False\<rparr>"

definition hunk_load ::
    "'m hunk_mem \<Rightarrow> u8 list option \<Rightarrow> (u32 \<Rightarrow> u8) \<Rightarrow> u32 \<Rightarrow> u32 \<Rightarrow> 'm \<Rightarrow> ((hunk_error + hunk_image) \<times> 'm) option" where
  "hunk_load k bin beyond load_addr limit m =
     (case bin of
        None \<Rightarrow> Some (Inl No_image, m)
      | Some data \<Rightarrow> do {
          header \<leftarrow> hunk_header (hunk_reader data beyond);
          (case header of
             Inl e \<Rightarrow> Some (Inl e, m)
           | Inr (r, count) \<Rightarrow>
               (case hunk_reserve k limit (unat count) 0 r load_addr \<lparr>hs_data = [], hs_size = []\<rparr> m of
                  (Inl e, m) \<Rightarrow> Some (Inl e, m)
                | (Inr (r, cursor, segs), m) \<Rightarrow>
                    if rr_overrun r then Some (Inl Truncated_size_table, m)
                    else do {
                      (e, m) \<leftarrow> hunk_blocks k segs (unat count) 0 r (hunk_chain k segs (unat count) m);
                      Some (case e of
                              Some e \<Rightarrow> (Inl e, m)
                            | None \<Rightarrow> (Inr \<lparr>hi_entry = hs_data segs ! 0, hi_base = load_addr,
                                            hi_end = cursor, hi_hunk_count = count\<rparr>, m))
                    }))
        })"

section \<open>Confinement\<close>

lemma round_up_32:
  fixes e :: u32
  assumes "unat e + 31 < 2 ^ 32"
  shows "unat e \<le> unat ((e + 31) AND NOT 31) \<and> unat ((e + 31) AND NOT 31) \<le> unat e + 31"
proof -
  let ?y = "e + 31"
  have y: "unat ?y = unat e + 31" using assms by (simp add: unat_word_ariths)
  have "(?y AND 31) + (?y AND NOT 31) = (?y AND 31) OR (?y AND NOT 31)"
    by (rule disjunctive_add_eq_or) (simp add: bit_eq_iff bit_simps)
  also have "\<dots> = ?y" by (rule bit_word_eqI) (auto simp: bit_simps)
  finally have s: "?y = (?y AND 31) + (?y AND NOT 31)" by (rule sym)
  have m: "unat (?y AND 31) \<le> 31" using word_and_le1 [of ?y 31] by (simp add: word_le_nat_alt)
  have n: "unat (?y AND NOT 31) \<le> unat ?y" using word_and_le2 [of ?y "NOT 31"] by (simp add: word_le_nat_alt)
  have sum: "unat y = (if unat a + unat b < 2 ^ 32 then unat a + unat b else unat a + unat b - 2 ^ 32)"
    if "y = a + b" for a b y :: u32
    by (simp add: that unat_plus_if')
  from sum [OF s]
  have "unat ?y = unat (?y AND 31) + unat (?y AND NOT 31)" using n m y assms by (simp split: if_splits)
  then show ?thesis using m n y by linarith
qed

text \<open>The words that the next \<open>n\<close> reads give.\<close>

fun rd_words :: "nat \<Rightarrow> reader \<Rightarrow> u32 list" where
  "rd_words 0 r = []"
| "rd_words (Suc n) r = fst (rd32 r) # rd_words n (snd (rd32 r))"

text \<open>
  A guest memory with a part of it that the loader may touch: \<open>ok\<close> is kept by byte accesses at
  addresses from \<open>lo\<close> up to \<open>hi\<close>.
\<close>

locale loader_window =
  fixes k :: "'m hunk_mem" and ok :: "'m \<Rightarrow> bool" and lo hi :: u32
  assumes write_ok: "lo \<le> a \<Longrightarrow> a < hi \<Longrightarrow> ok m \<Longrightarrow> ok (hm_write8 k m a v)"
    and read_ok: "lo \<le> a \<Longrightarrow> a < hi \<Longrightarrow> ok m \<Longrightarrow> ok (snd (hm_read8 k m a))"
    and window: "unat hi \<le> 2 ^ 28"
begin

lemma put32_ok:
  assumes "\<And>j. j < 4 \<Longrightarrow> unat lo \<le> unat (a + of_nat j) \<and> unat (a + of_nat j) < unat hi" and "ok m"
  shows "ok (put32 k m a v)"
  using assms(1) [of 0] assms(1) [of 1] assms(1) [of 2] assms(1) [of 3] assms(2)
  by (simp add: put32_def Let_def write_ok word_le_nat_alt word_less_nat_alt)

lemma get32_ok:
  assumes "\<And>j. j < 4 \<Longrightarrow> unat lo \<le> unat (a + of_nat j) \<and> unat (a + of_nat j) < unat hi" and "ok m"
  shows "ok (snd (get32 k m a))"
proof -
  have w: "lo \<le> a" "a < hi" "lo \<le> a + 1" "a + 1 < hi" "lo \<le> a + 2" "a + 2 < hi" "lo \<le> a + 3" "a + 3 < hi"
    using assms(1) [of 0] assms(1) [of 1] assms(1) [of 2] assms(1) [of 3]
    by (simp_all add: word_le_nat_alt word_less_nat_alt)
  have "ok (snd (hm_read8 k (snd (hm_read8 k (snd (hm_read8 k (snd (hm_read8 k m a)) (a + 1))) (a + 2))) (a + 3)))"
    by (intro read_ok w assms(2))
  then show ?thesis by (simp add: get32_def Let_def split_beta)
qed

lemma bytes_ok:
  assumes "unat lo \<le> unat a" "unat a + n \<le> unat hi" "ok m"
  shows "ok (fold (\<lambda>b m. hm_write8 k m (a + of_nat b) (f b)) [0..<n] m)"
  using assms(2)
proof (induction n)
  case (Suc n)
  have "unat (a + of_nat n) = unat a + n"
    using Suc.prems window by (simp add: unat_word_ariths unat_of_nat)
  then have "lo \<le> a + of_nat n" "a + of_nat n < hi"
    using Suc.prems assms(1) by (simp_all add: word_le_nat_alt word_less_nat_alt)
  then show ?case using Suc by (simp add: write_ok)
qed (simp add: assms(3))

text \<open>Segments inside the window, with room for the header in front.\<close>

definition segs_in :: "hunk_segs \<Rightarrow> bool" where
  "segs_in segs \<longleftrightarrow> length (hs_size segs) = length (hs_data segs) \<and>
     (\<forall>i < length (hs_data segs). unat lo + 8 \<le> unat (hs_data segs ! i) \<and>
        unat (hs_data segs ! i) + unat (hs_size segs ! i) \<le> unat hi)"

text \<open>An offset that passes the test may still be up to four below zero, never more.\<close>

lemma near_segment:
  fixes d off s :: u32
  assumes "unat lo + 8 \<le> unat d" "unat d + unat s \<le> unat hi" "\<not> off + 4 > s" "j < 4"
  shows "unat lo \<le> unat (d + off + of_nat j) \<and> unat (d + off + of_nat j) < unat hi"
proof -
  have o: "unat (off + 4) \<le> unat s" using assms(3) unfolding linorder_not_less word_le_nat_alt .
  have e: "unat (d + (off + 4)) = unat d + unat (off + 4)"
    using o assms(2) window by (simp add: unat_word_ariths)
  have j: "unat (of_nat (4 - j) :: u32) = 4 - j" by (simp add: unat_of_nat)
  have eq: "d + off + of_nat j = d + (off + 4) - of_nat (4 - j)"
    using assms(4) by (simp add: of_nat_diff algebra_simps)
  have "unat (d + (off + 4) - of_nat (4 - j)) = unat (d + (off + 4)) - unat (of_nat (4 - j) :: u32)"
    using e j assms(1) by (intro unat_sub) (simp add: word_le_nat_alt)
  then have "unat (d + off + of_nat j) = unat d + unat (off + 4) - (4 - j)" unfolding eq e j .
  then show ?thesis using o assms(1,2,4) by linarith
qed

lemma segs_bytes:
  assumes "segs_in segs" "i < length (hs_data segs)"
  shows "unat lo + 8 \<le> unat (hs_data segs ! i)"
    "unat (hs_data segs ! i) + unat (hs_size segs ! i) \<le> unat hi"
  using assms by (simp_all add: segs_in_def)

lemma relocate_ok:
  assumes "segs_in segs" "block < length (hs_data segs)" "ok m"
    and "hunk_relocate k segs block target n r m = (e, r', m')"
  shows "ok m'"
  using assms(3,4)
proof (induction n arbitrary: r m)
  case (Suc n)
  let ?off = "fst (rd32 r)" and ?r = "snd (rd32 r)"
  let ?a = "hs_data segs ! block + ?off"
  show ?case
  proof (cases "rr_overrun ?r \<or> ?off + 4 > hs_size segs ! block")
    case True
    then show ?thesis using Suc.prems by (auto simp: split_beta Let_def split: if_splits)
  next
    case False
    then have f: "\<not> rr_overrun ?r" "\<not> ?off + 4 > hs_size segs ! block" by blast+
    note near = near_segment [OF segs_bytes [OF assms(1,2)] f(2)]
    have "ok (snd (get32 k m ?a))" by (intro get32_ok near Suc.prems(1))
    then have "ok (put32 k (snd (get32 k m ?a)) ?a (fst (get32 k m ?a) + hs_data segs ! target))"
      by (intro put32_ok near)
    moreover have "hunk_relocate k segs block target n ?r
        (put32 k (snd (get32 k m ?a)) ?a (fst (get32 k m ?a) + hs_data segs ! target)) = (e, r', m')"
      using Suc.prems(2) f by (simp add: split_beta Let_def)
    ultimately show ?thesis by (rule Suc.IH)
  qed
qed simp

lemma reloc_group_ok:
  assumes "segs_in segs" "block < length (hs_data segs)" "ok m"
  shows "ok (snd (snd (hunk_reloc_group k segs count block n r m)))"
proof -
  obtain e r' m' where h: "hunk_relocate k segs block (unat (fst (rd32 r))) (unat n) (snd (rd32 r)) m = (e, r', m')"
    by (metis surj_pair)
  show ?thesis
    using assms(3) relocate_ok [OF assms h] h by (simp add: hunk_reloc_group_def split_beta Let_def)
qed

lemma relocs_ok:
  assumes "hunk_relocs k segs count block r m = Some x" "segs_in segs" "block < length (hs_data segs)" "ok m"
  shows "ok (snd (snd x))"
proof -
  have "k = k \<longrightarrow> segs_in segs \<longrightarrow> block < length (hs_data segs) \<longrightarrow> ok m \<longrightarrow> ok (snd (snd x))"
  proof (rule hunk_relocs.raw_induct [OF _ assms(1), where P = "\<lambda>k' segs count block r m x.
      k' = k \<longrightarrow> segs_in segs \<longrightarrow> block < length (hs_data segs) \<longrightarrow> ok m \<longrightarrow> ok (snd (snd x))"],
      intro impI, goal_cases)
    case (1 f k' segs count block r m x)
    let ?g = "hunk_reloc_group k segs count block (fst (rd32 r)) (snd (rd32 r)) m"
    have g: "ok (snd (snd ?g))" by (rule reloc_group_ok [OF 1(4-6)])
    show ?case
    proof (cases "fst (rd32 r) = 0 \<or> rr_overrun (snd (rd32 r)) \<or> fst ?g \<noteq> None")
      case True
      then show ?thesis using 1(2,3,6) g by (auto split: if_splits)
    next
      case False
      then have "f k segs count block (fst (snd ?g)) (snd (snd ?g)) = Some x" using 1(2,3) by simp
      then show ?thesis using 1(1) 1(4,5) g by blast
    qed
  qed
  then show ?thesis using assms by simp
qed

lemma place_ok:
  assumes "segs_in segs" "block < length (hs_data segs)" "ok m"
  shows "ok (snd (snd (hunk_place k segs block r m)))"
proof -
  note b = segs_bytes [OF assms(1,2)]
  have "ok (fold (\<lambda>b m. hm_write8 k m (hs_data segs ! block + of_nat b) (g b)) [0..<unat n] m)"
    if "\<not> n > hs_size segs ! block" for n g
  proof (rule bytes_ok)
    have "unat n \<le> unat (hs_size segs ! block)" using that unfolding linorder_not_less word_le_nat_alt .
    then show "unat (hs_data segs ! block) + unat n \<le> unat hi" using b(2) by simp
  qed (use b(1) assms(3) in simp_all)
  then show ?thesis using assms(3) by (simp add: hunk_place_def split_beta Let_def)
qed

lemma block_ok:
  assumes "hunk_block k segs count block type r m = Some ((e, r', m'), block')"
    and "segs_in segs" "block < length (hs_data segs)" "ok m"
  shows "ok m'"
proof -
  have "ok m'" if "hunk_relocs k segs count block r m = Some (e, r', m')"
    using relocs_ok [OF that assms(2-4)] by simp
  then show ?thesis
    using assms(1,4) place_ok [OF assms(2-4), of r]
    by (auto simp: hunk_block_def split_beta Let_def split: if_splits)
qed

lemma blocks_ok:
  assumes "hunk_blocks k segs count block r m = Some x" "segs_in segs" "count = length (hs_data segs)" "ok m"
  shows "ok (snd x)"
proof -
  have "k = k \<longrightarrow> segs_in segs \<longrightarrow> count = length (hs_data segs) \<longrightarrow> ok m \<longrightarrow> ok (snd x)"
  proof (rule hunk_blocks.raw_induct [OF _ assms(1), where P = "\<lambda>k' segs count block r m x.
      k' = k \<longrightarrow> segs_in segs \<longrightarrow> count = length (hs_data segs) \<longrightarrow> ok m \<longrightarrow> ok (snd x)"],
      intro impI, goal_cases)
    case (1 f k' segs count block r m x)
    show ?case
    proof (cases "rr_pos r < rr_size r \<and> block < count \<and> \<not> rr_overrun (snd (rd32 r))")
      case False
      then show ?thesis using 1(2,6) by (auto split: if_splits)
    next
      case True
      let ?b = "hunk_block k segs count block (fst (rd32 r) AND 0x3fffffff) (snd (rd32 r)) m"
      obtain e r' m' block' where b: "?b = Some ((e, r', m'), block')"
        and rest: "(if e \<noteq> None then Some (e, m') else f k segs count block' r' m') = Some x"
        using 1(2,3) True by (auto split: bind_splits)
      have "ok m'" using block_ok [OF b 1(4) _ 1(6)] True 1(5) by simp
      then show ?thesis using rest 1(1) 1(4,5) by (auto split: if_splits)
    qed
  qed
  then show ?thesis using assms by simp
qed

text \<open>The size table: up to 2 \<open>GiB\<close> no sum wraps, and a segment that is reserved lies inside.\<close>

lemma reserve_step:
  assumes w: "unat (w AND 0x3fffffff) \<le> 2 ^ 28" and c: "unat lo \<le> unat cursor" "unat cursor \<le> 2 ^ 28 + 31"
    and f: "\<not> cursor + 8 + (w AND 0x3fffffff) * 4 > hi"
  shows "unat cursor + 8 + unat ((w AND 0x3fffffff) * 4) \<le> unat hi"
    "unat (cursor + 8) = unat cursor + 8"
    "unat lo \<le> unat ((cursor + 8 + (w AND 0x3fffffff) * 4 + 31) AND NOT 31)"
    "unat ((cursor + 8 + (w AND 0x3fffffff) * 4 + 31) AND NOT 31) \<le> 2 ^ 28 + 31"
proof -
  let ?b = "(w AND 0x3fffffff) * 4"
  let ?e = "cursor + 8 + ?b"
  have b: "unat ?b = 4 * unat (w AND 0x3fffffff)" using w by (simp add: unat_word_ariths)
  show c8: "unat (cursor + 8) = unat cursor + 8" using c by (simp add: unat_word_ariths)
  have e: "unat ?e = unat cursor + 8 + unat ?b"
    using c w unfolding unat_word_ariths(1) [of "cursor + 8"] c8 b by simp
  have l: "unat ?e \<le> unat hi" using f unfolding linorder_not_less word_le_nat_alt .
  then show "unat cursor + 8 + unat ?b \<le> unat hi" using e by simp
  show "unat lo \<le> unat ((?e + 31) AND NOT 31)"
    using round_up_32 [of ?e] l window c(1) e by simp
  show "unat ((?e + 31) AND NOT 31) \<le> 2 ^ 28 + 31"
    using round_up_32 [of ?e] l window by simp
qed

lemma reserve_ok:
  assumes "\<forall>w \<in> set (rd_words n r). unat (w AND 0x3fffffff) \<le> 2 ^ 28"
    and "unat lo \<le> unat cursor" "unat cursor \<le> 2 ^ 28 + 31" "segs_in segs" "ok m"
    and "hunk_reserve k hi n i r cursor segs m = (x, m')"
  shows "ok m' \<and> (\<forall>r' c segs'. x = Inr (r', c, segs') \<longrightarrow> segs_in segs' \<and>
    (\<exists>ds. length ds = n \<and> hs_data segs' = hs_data segs @ ds \<and> (n > 0 \<longrightarrow> hd ds = cursor + 8)))"
  using assms
proof (induction n arbitrary: i r cursor segs m)
  case (Suc n)
  let ?w = "fst (rd32 r)"
  let ?b = "(?w AND 0x3fffffff) * 4"
  show ?case
  proof (cases "cursor + 8 + ?b > hi")
    case True
    then show ?thesis using Suc.prems by (auto simp: split_beta Let_def)
  next
    case False
    have w: "unat (?w AND 0x3fffffff) \<le> 2 ^ 28" using Suc.prems(1) by simp
    note step = reserve_step [OF w Suc.prems(2,3) False]
    let ?segs = "\<lparr>hs_data = hs_data segs @ [cursor + 8], hs_size = hs_size segs @ [?b]\<rparr>"
    let ?c = "(cursor + 8 + ?b + 31) AND NOT 31"
    let ?m = "zero_segment k (put32 k (put32 k m cursor ?b) (cursor + 4) 0) (cursor + 8) ?b"
    have near: "unat lo \<le> unat (cursor + of_nat j) \<and> unat (cursor + of_nat j) < unat hi" if "j < 8" for j
    proof -
      have "unat (cursor + of_nat j) = unat cursor + j"
        using that Suc.prems(3) by (simp add: unat_word_ariths unat_of_nat)
      then show ?thesis using that step(1) Suc.prems(2) by linarith
    qed
    have near4: "unat lo \<le> unat (cursor + 4 + of_nat j) \<and> unat (cursor + 4 + of_nat j) < unat hi" if "j < 4" for j
      using near [of "j + 4"] that by (simp add: add.commute add.left_commute)
    have "ok (put32 k m cursor ?b)" using near by (intro put32_ok Suc.prems(5)) simp
    then have "ok (put32 k (put32 k m cursor ?b) (cursor + 4) 0)" using put32_ok [OF near4] by simp
    then have ok: "ok ?m"
      unfolding zero_segment_def using step(1,2) Suc.prems(2) by (intro bytes_ok) simp_all
    have segs: "segs_in ?segs"
      using Suc.prems(2,4) step(1,2) by (auto simp: segs_in_def nth_append less_Suc_eq)
    have rest: "hunk_reserve k hi n (i + 1) (snd (rd32 r)) ?c ?segs ?m = (x, m')"
      using Suc.prems(6) False by (simp add: split_beta Let_def)
    have "ok m' \<and> (\<forall>r' c segs'. x = Inr (r', c, segs') \<longrightarrow> segs_in segs' \<and>
      (\<exists>ds. length ds = n \<and> hs_data segs' = hs_data ?segs @ ds \<and> (n > 0 \<longrightarrow> hd ds = ?c + 8)))"
      by (rule Suc.IH [OF _ step(3,4) segs ok rest]) (use Suc.prems(1) in simp)
    then show ?thesis by (fastforce intro: exI [of _ "(cursor + 8) # ds" for ds])
  qed
qed auto

lemma chain_ok:
  assumes "segs_in segs" "n \<le> length (hs_data segs)" "ok m"
  shows "ok (hunk_chain k segs n m)"
proof -
  have near: "unat lo \<le> unat (hs_data segs ! i - 4 + of_nat j) \<and> unat (hs_data segs ! i - 4 + of_nat j) < unat hi"
    if "i < length (hs_data segs)" "j < 4" for i j
  proof -
    let ?d = "hs_data segs ! i"
    note b = segs_bytes [OF assms(1) that(1)]
    have "unat (of_nat (4 - j) :: u32) = 4 - j" by (simp add: unat_of_nat)
    then have "unat (?d - of_nat (4 - j)) = unat ?d - (4 - j)"
      using b that(2) by (subst unat_sub) (simp_all add: word_le_nat_alt)
    moreover have "?d - 4 + of_nat j = ?d - of_nat (4 - j)"
      using that(2) by (simp add: of_nat_diff algebra_simps)
    ultimately have "unat (?d - 4 + of_nat j) = unat ?d - (4 - j)" by (simp only:)
    then show ?thesis using b that(2) by linarith
  qed
  have "ok (fold (\<lambda>i m. put32 k m (hs_data segs ! i - 4) (v i)) [0..<l] m)" if "l < n \<or> l = 0" for l v
    using that
  proof (induction l)
    case (Suc l)
    then have "ok (fold (\<lambda>i m. put32 k m (hs_data segs ! i - 4) (v i)) [0..<l] m)" by simp
    then have "ok (put32 k (fold (\<lambda>i m. put32 k m (hs_data segs ! i - 4) (v i)) [0..<l] m) (hs_data segs ! l - 4) (v l))"
      using Suc.prems assms(2) by (intro put32_ok near) simp_all
    then show ?case by simp
  qed (simp add: assms(3))
  then show ?thesis by (cases "n = 0") (simp_all add: hunk_chain_def)
qed

text \<open>
  A load from \<open>lo\<close> with the limit \<open>hi\<close> leaves the rest of memory alone, whatever the file, and
  enters the first segment.
\<close>

lemma load_ok:
  assumes "hunk_load k (Some data) beyond lo hi m = Some (x, m')" "ok m" "unat lo \<le> unat hi"
    and "\<And>r count. hunk_header (hunk_reader data beyond) = Some (Inr (r, count)) \<Longrightarrow>
      \<forall>w \<in> set (rd_words (unat count) r). unat (w AND 0x3fffffff) \<le> 2 ^ 28"
  shows "ok m'"
proof -
  obtain h where h: "hunk_header (hunk_reader data beyond) = Some h"
    using assms(1) by (auto simp: hunk_load_def split: bind_splits)
  show ?thesis
  proof (cases h)
    case (Inl e)
    then show ?thesis using assms(1,2) h by (simp add: hunk_load_def)
  next
    case (Inr rc)
    then obtain r count where rc: "h = Inr (r, count)" by (cases rc) simp
    obtain y m1 where res: "hunk_reserve k hi (unat count) 0 r lo \<lparr>hs_data = [], hs_size = []\<rparr> m = (y, m1)"
      by (metis surj_pair)
    have lo: "unat lo \<le> 2 ^ 28 + 31" using assms(3) window by simp
    have segs0: "segs_in \<lparr>hs_data = [], hs_size = []\<rparr>" by (simp add: segs_in_def)
    have words: "\<forall>w \<in> set (rd_words (unat count) r). unat (w AND 0x3fffffff) \<le> 2 ^ 28"
      by (rule assms(4)) (simp add: h rc)
    note R = reserve_ok [OF words order_refl lo segs0 assms(2) res]
    show ?thesis
    proof (cases y)
      case (Inl e)
      then show ?thesis using assms(1) h rc res R by (simp add: hunk_load_def)
    next
      case (Inr z)
      obtain r' c segs where y: "y = Inr (r', c, segs)" using Inr by (cases z) auto
      then have s: "segs_in segs" and l: "unat count = length (hs_data segs)" using R by auto
      have m1: "ok m1" using R by blast
      have ch: "ok (hunk_chain k segs (unat count) m1)" using l by (intro chain_ok s m1) simp
      show ?thesis
      proof (cases "rr_overrun r'")
        case True
        then show ?thesis using assms(1) h rc res y m1 by (simp add: hunk_load_def)
      next
        case False
        then obtain b where b: "hunk_blocks k segs (unat count) 0 r' (hunk_chain k segs (unat count) m1) = Some b"
          and "m' = snd b"
          using assms(1) h rc res y by (auto simp: hunk_load_def split: bind_splits option.splits)
        then show ?thesis using blocks_ok [OF b s l ch] by simp
      qed
    qed
  qed
qed

end

end
