(* ===== verification/Harness_Run.thy ===== *)
theory Harness_Run
  imports Harness_Bus Hunk
begin

text \<open>
  The life of the host's machine (\<^verbatim>\<open>harness/harness.c\<close>): putting it together, loading a ROM or an
  executable, and running it in time slices.  The core's reset and execution are functions of
  the whole machine, since they make bus accesses.  What \<^verbatim>\<open>calloc\<close> gives is an argument, and so is
  the address of the frame store.
\<close>

unbundle bit_operations_syntax

section \<open>The core\<close>

datatype m68k_reg = M68K_REG_D0 | M68K_REG_D1 | M68K_REG_D2 | M68K_REG_A0

record ('c, 'h) m68k_cpu =
  mc_core :: "'c m68k_core"
  mc_power :: "u32 \<Rightarrow> 'c"
  mc_pulse_reset :: "('c, 'h) harness \<Rightarrow> ('c, 'h) harness option"
  mc_execute :: "('c, 'h) harness \<Rightarrow> int \<Rightarrow> (int \<times> ('c, 'h) harness) option"
  mc_pc :: "'c \<Rightarrow> u32"
  mc_set_reg :: "'c \<Rightarrow> m68k_reg \<Rightarrow> u32 \<Rightarrow> 'c"

abbreviation M68K_CPU_TYPE_68000 :: u32 where "M68K_CPU_TYPE_68000 \<equiv> 1"

section \<open>Creation\<close>

record harness_config =
  hc_chip_ram_size :: u32
  hc_slow_ram_size :: u32
  hc_cpu_type :: u32
  hc_video_std :: rigel_video_std
  hc_chipset_model :: rigel_chipset_model
  hc_cycle_exact :: bool
  hc_want_framebuffer :: bool
  hc_serial_slow :: bool

definition harness_config_zero :: harness_config where
  "harness_config_zero =
     \<lparr>hc_chip_ram_size = 0, hc_slow_ram_size = 0, hc_cpu_type = 0, hc_video_std = RIGEL_VIDEO_NTSC,
      hc_chipset_model = RIGEL_CHIPSET_OCS, hc_cycle_exact = False, hc_want_framebuffer = False,
      hc_serial_slow = False\<rparr>"

abbreviation HARNESS_CHIP_RAM_SIZE :: u32 where "HARNESS_CHIP_RAM_SIZE \<equiv> 512 * 1024"
abbreviation HARNESS_MAX_WIDTH :: u32 where "HARNESS_MAX_WIDTH \<equiv> 1024"
abbreviation HARNESS_MAX_HEIGHT :: u32 where "HARNESS_MAX_HEIGHT \<equiv> 312"

definition harness_rigel_config ::
    "harness_config \<Rightarrow> u32 \<Rightarrow> u64 \<Rightarrow> 'h rigel_rtc_host \<Rightarrow> (harness_ram, 'h) rigel_config" where
  "harness_rigel_config cfg chip_size pixels rtc =
     \<lparr>cfg_alloc_fn = False, cfg_free_fn = False, cfg_clock_hz = 0, cfg_chip_ram_size = chip_size,
      cfg_chip_ram = harness_chip_ram, cfg_tx_instant = \<not> hc_serial_slow cfg,
      cfg_rtc_model = RIGEL_RTC_MODEL_NONE, cfg_rtc_time = 0, cfg_rtc_host = rtc,
      cfg_video_std = hc_video_std cfg, cfg_chipset_model = hc_chipset_model cfg,
      cfg_pixel_format = (if hc_want_framebuffer cfg then RIGEL_PIXEL_RGBA8888 else 0),
      cfg_framebuffer =
        (if hc_want_framebuffer cfg
         then \<lparr>ft_pixels = Some pixels, ft_width = HARNESS_MAX_WIDTH, ft_height = HARNESS_MAX_HEIGHT,
               ft_pitch = HARNESS_MAX_WIDTH * 4, ft_format = RIGEL_PIXEL_RGBA8888, ft_little_endian = True\<rparr>
         else \<lparr>ft_pixels = None, ft_width = 0, ft_height = 0, ft_pitch = 0, ft_format = 0,
               ft_little_endian = False\<rparr>),
      cfg_cycle_exact = hc_cycle_exact cfg\<rparr>"

definition put_be32 :: "nat \<Rightarrow> u32 \<Rightarrow> u8 list \<Rightarrow> u8 list" where
  "put_be32 off v bs =
     bs[off := ucast (drop_bit 24 v), off + 1 := ucast (drop_bit 16 v),
        off + 2 := ucast (drop_bit 8 v), off + 3 := ucast v]"

definition harness_synth_reset_vector :: "('c, 'h) harness \<Rightarrow> ('c, 'h) harness" where
  "harness_synth_reset_vector h =
     h\<lparr>hn_rom := put_be32 4 (HARNESS_ROM_BASE + 8) (put_be32 0 (hn_chip_ram_size h) (hn_rom h))\<rparr>"

text \<open>\<open>avail\<close> stands for the memories and \<open>pixels\<close> for the frame store, whose allocation may fail.\<close>

definition harness_create_ex ::
    "'h rigel_env \<Rightarrow> ('c, 'h) m68k_cpu \<Rightarrow> bool \<Rightarrow> u64 option \<Rightarrow> (harness_ram, 'h) rigel_context option \<Rightarrow>
     harness_config option \<Rightarrow> ('c, 'h) harness option" where
  "harness_create_ex env cpu avail pixels zeroed cfg0 =
     (let cfg = (case cfg0 of None \<Rightarrow> harness_config_zero | Some c \<Rightarrow> c);
          chip = (if hc_chip_ram_size cfg \<noteq> 0 then hc_chip_ram_size cfg else HARNESS_CHIP_RAM_SIZE)
      in if \<not> avail \<or> hc_want_framebuffer cfg \<and> pixels = None then None
         else do {
           ctx \<leftarrow> rigel_create env (harness_rigel_config cfg chip (case pixels of None \<Rightarrow> 0 | Some p \<Rightarrow> p) rtc_null_host)
                   (map_option (\<lambda>ctx. ctx\<lparr>rc_ram := replicate (unat chip) 0\<rparr>) zeroed);
           let h =
             \<lparr>hn_rigel = ctx,
              hn_cpu = mc_power cpu (if hc_cpu_type cfg \<noteq> 0 then hc_cpu_type cfg else M68K_CPU_TYPE_68000),
              hn_chip_ram_size = chip,
              hn_slow_ram = replicate (unat (hc_slow_ram_size cfg)) 0, hn_slow_ram_size = hc_slow_ram_size cfg,
              hn_rom = replicate (unat HARNESS_ROM_MAX) 0, hn_rom_size = HARNESS_ROM_SIZE,
              hn_std_off = 0, hn_std_size = HARNESS_ROM_SIZE, hn_std_mask = HARNESS_ROM_SIZE - 1,
              hn_ext_off = 0, hn_ext_size = 0, hn_ext_mask = 0,
              hn_ovl_off = 0, hn_ovl_mask = HARNESS_ROM_SIZE - 1,
              hn_cpu_cycles_total = 0, hn_cck_rem = 0, hn_cycles_flushed = 0, hn_pending_events = 0,
              hn_last_pc = 0, hn_pc_stall_steps = 0, hn_last_ipl = 0, hn_exec_mode = False,
              hn_exec_fb = 0, hn_exec_fb_w = 0, hn_exec_fb_h = 0, hn_exec_fb_pitch = 0, hn_exec_exit = 0,
              hn_serial = None, hn_mmio = None, hn_audio = None, hn_audio_rate = 0,
              hn_audio_step_q16 = 0, hn_audio_accum_q16 = 0, hn_lide = None, hn_fastram = None\<rparr>;
           h \<leftarrow> mc_pulse_reset cpu (harness_synth_reset_vector h);
           Some (h\<lparr>hn_last_pc := mc_pc cpu (hn_cpu h)\<rparr>)
         })"

section \<open>Boards and media\<close>

definition harness_attach_fastram :: "bool \<Rightarrow> ('c, 'h) harness \<Rightarrow> u32 \<Rightarrow> bool \<times> ('c, 'h) harness" where
  "harness_attach_fastram avail h megabytes =
     (if hn_fastram h \<noteq> None then (False, h)
      else let b = fastram_create avail megabytes in (b \<noteq> None, h\<lparr>hn_fastram := b\<rparr>))"

text \<open>\<open>board\<close> is what \<^verbatim>\<open>lide_create\<close> gives for the path.\<close>

definition harness_attach_lide :: "lide_board option \<Rightarrow> ('c, 'h) harness \<Rightarrow> bool \<times> ('c, 'h) harness" where
  "harness_attach_lide board h =
     (if hn_lide h \<noteq> None then (True, h) else (board \<noteq> None, h\<lparr>hn_lide := board\<rparr>))"

definition hn_on_lide :: "(lide_board \<Rightarrow> bool \<times> lide_board) \<Rightarrow> ('c, 'h) harness \<Rightarrow> bool \<times> ('c, 'h) harness" where
  "hn_on_lide f h =
     (case hn_lide h of
        None \<Rightarrow> (False, h)
      | Some b \<Rightarrow> (case f b of (ok, b) \<Rightarrow> (ok, h\<lparr>hn_lide := Some b\<rparr>)))"

definition harness_attach_hdf :: "('c, 'h) harness \<Rightarrow> u8 list option \<Rightarrow> bool \<times> ('c, 'h) harness" where
  "harness_attach_hdf h data = hn_on_lide (\<lambda>b. lide_attach_hdf b data) h"

definition harness_attach_iso :: "('c, 'h) harness \<Rightarrow> u8 list option \<Rightarrow> bool \<times> ('c, 'h) harness" where
  "harness_attach_iso h data = hn_on_lide (\<lambda>b. lide_attach_iso b data) h"

definition harness_load_odfs :: "bool \<Rightarrow> ('c, 'h) harness \<Rightarrow> u8 list option \<Rightarrow> bool \<times> ('c, 'h) harness" where
  "harness_load_odfs avail h data = hn_on_lide (\<lambda>b. lide_load_odfs avail b data) h"

definition harness_insert_adf :: "bool \<Rightarrow> ('c, 'h) harness \<Rightarrow> u32 \<Rightarrow> u8 list option \<Rightarrow> u32 \<Rightarrow> bool \<times> ('c, 'h) harness" where
  "harness_insert_adf avail h drive data sz =
     (if data = None \<or> sz = 0 then (False, h)
      else if drive \<ge> 4 then (False, h)
      else if \<not> avail then (False, h)
      else case rigel_floppy_insert (hn_rigel h) drive (map_option (take (unat sz)) data) sz of
        (status, ctx) \<Rightarrow>
          if status \<noteq> RIGEL_STATUS_OK then (False, h\<lparr>hn_rigel := ctx\<rparr>) else (True, h\<lparr>hn_rigel := ctx\<rparr>))"

section \<open>ROM images\<close>

definition harness_load_rom :: "('c, 'h) harness \<Rightarrow> u8 list option \<Rightarrow> ('c, 'h) harness" where
  "harness_load_rom h bin =
     (case bin of
        None \<Rightarrow> h
      | Some data \<Rightarrow>
          h\<lparr>hn_rom := mem_put 8 (take (unat (HARNESS_ROM_SIZE - 8)) data) (hn_rom h)\<rparr>)"

definition harness_load_kickstart ::
    "('c, 'h) m68k_cpu \<Rightarrow> ('c, 'h) harness \<Rightarrow> u8 list option \<Rightarrow> (bool \<times> ('c, 'h) harness) option" where
  "harness_load_kickstart cpu h bin =
     (case bin of
        None \<Rightarrow> Some (False, h)
      | Some data \<Rightarrow>
          let sz = of_nat (length data) :: u32
          in if sz \<noteq> 256 * 1024 \<and> sz \<noteq> 512 * 1024 \<and> sz \<noteq> 1024 * 1024 then Some (False, h)
             else
               let h = h\<lparr>hn_rom := mem_put 0 data (replicate (unat HARNESS_ROM_MAX) 0), hn_rom_size := sz\<rparr>;
                   h = (if sz = HARNESS_ROM_MAX then
                          let half = sz div 2
                          in h\<lparr>hn_ext_off := 0, hn_ext_size := half, hn_ext_mask := half - 1,
                               hn_std_off := half, hn_std_size := half, hn_std_mask := half - 1,
                               hn_ovl_off := 0, hn_ovl_mask := half - 1\<rparr>
                        else
                          h\<lparr>hn_ext_off := 0, hn_ext_size := 0, hn_ext_mask := 0,
                            hn_std_off := 0, hn_std_size := sz, hn_std_mask := sz - 1,
                            hn_ovl_off := 0, hn_ovl_mask := sz - 1\<rparr>)
               in map_option (\<lambda>h. (True, h\<lparr>hn_last_pc := mc_pc cpu (hn_cpu h), hn_pc_stall_steps := 0\<rparr>))
                    (mc_pulse_reset cpu h))"

section \<open>Executables\<close>

text \<open>The memory of the hunk loader: the machine, as long as its accesses return.\<close>

definition harness_hunk_mem ::
    "'h rigel_env \<Rightarrow> 'c m68k_core \<Rightarrow> ('c, 'h) harness option hunk_mem" where
  "harness_hunk_mem env core =
     \<lparr>hm_write8 = \<lambda>m addr v. Option.bind m (\<lambda>h. harness_write8 env core h addr v),
      hm_read8 = \<lambda>m addr. (case Option.bind m (\<lambda>h. harness_read8 env core h addr) of
                             None \<Rightarrow> (0, None) | Some (v, h) \<Rightarrow> (v, Some h))\<rparr>"

datatype load_error =
  Load_no_file
| Load_hunk_error hunk_error
| Load_no_framebuffer u32 u32 u32 u32 u32

text \<open>Where an executable goes: the memory board, configured if need be, or chip RAM.\<close>

definition harness_load_window :: "('c, 'h) harness \<Rightarrow> (u32 \<times> u32) \<times> ('c, 'h) harness" where
  "harness_load_window h =
     (case hn_fastram h of
        Some b \<Rightarrow>
          let b = fastram_force_configure b 0x200000
          in ((fr_base b, fr_base b + fr_size b), h\<lparr>hn_fastram := Some b\<rparr>)
      | None \<Rightarrow> ((0x1000, hn_chip_ram_size h), h))"

text \<open>The entry point is called: its return address, and the reset vector.\<close>

definition exec_vectors :: "u32 \<Rightarrow> u32 \<Rightarrow> harness_ram \<Rightarrow> harness_ram" where
  "exec_vectors sp entry ram =
     (let ram = ram[unat HARNESS_EXEC_EXIT_ADDR := 0x60, unat (HARNESS_EXEC_EXIT_ADDR + 1) := 0xfe];
          ram = put_be32 (unat sp) HARNESS_EXEC_EXIT_ADDR ram
      in put_be32 4 entry (put_be32 0 sp ram))"

definition harness_clear ::
    "'h rigel_env \<Rightarrow> 'c m68k_core \<Rightarrow> u32 \<Rightarrow> nat \<Rightarrow> ('c, 'h) harness option \<Rightarrow> ('c, 'h) harness option" where
  "harness_clear env core fb n m =
     fold (\<lambda>i m. Option.bind m (\<lambda>h. harness_write8 env core h (fb + of_nat i) 0)) [0..<n] m"

definition harness_load_hunk ::
    "'h rigel_env \<Rightarrow> ('c, 'h) m68k_cpu \<Rightarrow> (u32 \<Rightarrow> u8) \<Rightarrow> ('c, 'h) harness \<Rightarrow> u8 list option \<Rightarrow>
     u32 \<Rightarrow> u32 \<Rightarrow> (load_error option \<times> ('c, 'h) harness) option" where
  "harness_load_hunk env cpu beyond h data fb_width fb_height =
     (if data = None then Some (Some Load_no_file, h)
      else
        let ((load_addr, limit), h) = harness_load_window h
        in do {
          (res, m) \<leftarrow> hunk_load (harness_hunk_mem env (mc_core cpu)) data beyond load_addr limit (Some h);
          h \<leftarrow> m;
          (case res of
             Inl e \<Rightarrow> Some (Some (Load_hunk_error e), h)
           | Inr img \<Rightarrow>
               let sp = hn_chip_ram_size h - 4;
                   h = hn_set_chip_ram (exec_vectors sp (hi_entry img) (hn_chip_ram h))
                         (h\<lparr>hn_exec_mode := True, hn_exec_exit := HARNESS_EXEC_EXIT_ADDR\<rparr>);
                   pitch = fb_width * 2;
                   fb_bytes = pitch * fb_height;
                   fb = (hi_end img + 0x10000 + 31) AND NOT 31
               in if fb + fb_bytes > limit then
                    Some (Some (Load_no_framebuffer fb_width fb_height fb_bytes fb limit), h)
                  else do {
                    h \<leftarrow> harness_clear env (mc_core cpu) fb (unat fb_bytes) (Some h);
                    h \<leftarrow> mc_pulse_reset cpu (h\<lparr>hn_exec_fb := fb, hn_exec_fb_w := fb_width,
                           hn_exec_fb_h := fb_height, hn_exec_fb_pitch := pitch\<rparr>);
                    let c = mc_set_reg cpu (hn_cpu h) M68K_REG_D0 pitch;
                    let c = mc_set_reg cpu c M68K_REG_A0 fb;
                    let c = mc_set_reg cpu c M68K_REG_D1 fb_width;
                    let c = mc_set_reg cpu c M68K_REG_D2 fb_height;
                    Some (None, h\<lparr>hn_cpu := c, hn_last_pc := mc_pc cpu c, hn_pc_stall_steps := 0\<rparr>)
                  })
        })"

definition harness_exec_framebuffer :: "('c, 'h) harness \<Rightarrow> (u32 \<times> u32 \<times> u32 \<times> u32) option" where
  "harness_exec_framebuffer h =
     (if \<not> hn_exec_mode h \<or> hn_exec_fb h = 0 then None
      else Some (hn_exec_fb h, hn_exec_fb_w h, hn_exec_fb_h h, hn_exec_fb_pitch h))"

section \<open>Stepping\<close>

definition harness_quantum_cpu_cycles :: "('c, 'h) harness \<Rightarrow> u32 \<Rightarrow> u32" where
  "harness_quantum_cpu_cycles h max_cpu_cycles =
     (let now = rigel_get_time (hn_rigel h);
          deadline = rigel_get_next_observable_deadline (hn_rigel h);
          cck = (if deadline > now then deadline - now else 1);
          cpu = cck * 2;
          cpu = (if hn_cck_rem h \<noteq> 0 \<and> cpu > 1 then cpu - 1 else cpu);
          cpu = (if max_cpu_cycles \<noteq> 0 \<and> cpu > ucast max_cpu_cycles then ucast max_cpu_cycles else cpu)
      in if cpu \<noteq> 0 then ucast cpu else 1)"

text \<open>The watch for a core that has stopped.\<close>

definition harness_stall :: "u32 \<Rightarrow> ('c, 'h) harness \<Rightarrow> ('c, 'h) harness" where
  "harness_stall pc h =
     (if pc = hn_last_pc h \<and> hn_pending_events h AND RIGEL_EVENT_IRQ_CHANGED = 0 then
        if hn_pc_stall_steps h < HARNESS_HALT_STEPS
        then h\<lparr>hn_pc_stall_steps := hn_pc_stall_steps h + 1\<rparr> else h
      else h\<lparr>hn_pc_stall_steps := 0, hn_last_pc := pc\<rparr>)"

definition harness_settle ::
    "'h rigel_env \<Rightarrow> ('c, 'h) m68k_cpu \<Rightarrow> int \<Rightarrow> ('c, 'h) harness \<Rightarrow> ('c, 'h) harness option" where
  "harness_settle env cpu consumed h =
     (let leftover = consumed - hn_cycles_flushed h
      in if leftover > 0 then harness_advance env (mc_core cpu) leftover h else Some h)"

definition harness_step ::
    "'h rigel_env \<Rightarrow> ('c, 'h) m68k_cpu \<Rightarrow> ('c, 'h) harness \<Rightarrow> u32 \<Rightarrow> (u32 \<times> ('c, 'h) harness) option" where
  "harness_step env cpu h max_cpu_cycles =
     (let h = h\<lparr>hn_pending_events := 0\<rparr>;
          budget = harness_quantum_cpu_cycles h max_cpu_cycles
      in do {
        (consumed, h) \<leftarrow> mc_execute cpu (h\<lparr>hn_cycles_flushed := 0\<rparr>) (sint budget);
        let consumed = (if consumed < 0 then 0 else consumed);
        h \<leftarrow> harness_settle env cpu consumed h;
        let h = harness_stall (mc_pc cpu (hn_cpu h))
                  (h\<lparr>hn_cpu_cycles_total := hn_cpu_cycles_total h + of_int consumed\<rparr>);
        Some (hn_pending_events h, h\<lparr>hn_pending_events := 0\<rparr>)
      })"

partial_function (option) harness_run ::
    "'h rigel_env \<Rightarrow> ('c, 'h) m68k_cpu \<Rightarrow> (('c, 'h) harness \<Rightarrow> bool) \<Rightarrow> u64 \<Rightarrow> ('c, 'h) harness \<Rightarrow>
     ('c, 'h) harness option" where
  "harness_run env cpu finished max_cycles h =
     (if \<not> finished h \<and> hn_cpu_cycles_total h < max_cycles then
        Option.bind (harness_step env cpu h 0) (\<lambda>(_, h). harness_run env cpu finished max_cycles h)
      else Some h)"

section \<open>Sinks\<close>

definition harness_set_mmio_sink :: "('c, 'h) harness \<Rightarrow> bool \<Rightarrow> ('c, 'h) harness" where
  "harness_set_mmio_sink h on = h\<lparr>hn_mmio := (if on then Some [] else None)\<rparr>"

definition harness_set_serial_sink :: "('c, 'h) harness \<Rightarrow> bool \<Rightarrow> ('c, 'h) harness" where
  "harness_set_serial_sink h on = h\<lparr>hn_serial := (if on then Some [] else None)\<rparr>"

definition harness_set_audio_sink :: "('c, 'h) harness \<Rightarrow> bool \<Rightarrow> u32 \<Rightarrow> ('c, 'h) harness" where
  "harness_set_audio_sink h on rate_hz =
     (if rate_hz = 0 then h
      else
        let cck_hz = rigel_get_clock_hz (hn_rigel h) div 2
        in h\<lparr>hn_audio := (if on then Some [] else None), hn_audio_rate := rate_hz, hn_audio_accum_q16 := 0,
             hn_audio_step_q16 := ucast (push_bit 16 (ucast cck_hz :: u64) div ucast rate_hz)\<rparr>)"

definition harness_serial_send :: "('c, 'h) harness \<Rightarrow> u8 \<Rightarrow> ('c, 'h) harness" where
  "harness_serial_send h byte = h\<lparr>hn_rigel := rigel_serial_receive_byte (hn_rigel h) byte\<rparr>"

definition harness_cpu_halted :: "('c, 'h) harness \<Rightarrow> bool" where
  "harness_cpu_halted h \<longleftrightarrow> hn_pc_stall_steps h \<ge> HARNESS_HALT_STEPS"

end
