(* ===== verification/Harness_Clock.thy ===== *)
theory Harness_Clock
  imports Harness_Run
begin

text \<open>
  The two clocks of the host.  \<open>bus_inv\<close> is the invariant that every access of the core
  keeps: the chipset is well formed, the interrupt level that the core is given is the one of the
  chipset, and twice the colour clocks plus the odd cycle are, up to the cycles given to
  the chipset in this time slice, a constant.  With it a time slice of any core that acts through the bus
  advances the chipset by exactly the cycles that the core has consumed.
\<close>

unbundle bit_operations_syntax

section \<open>The invariant of the bus\<close>

definition harness_clock :: "('c, 'h) harness \<Rightarrow> u64" where
  "harness_clock h = 2 * rigel_get_time (hn_rigel h) + ucast (hn_cck_rem h)"

definition ipl_given :: "('c, 'h) harness \<Rightarrow> bool" where
  "ipl_given h \<longleftrightarrow> hn_last_ipl h = rigel_get_ipl (hn_rigel h)"

definition harness_wf :: "('c, 'h) harness \<Rightarrow> bool" where
  "harness_wf h \<longleftrightarrow> (\<exists>now. machine_at now (hn_rigel h)) \<and> hn_cck_rem h < 2 \<and> ipl_given h"

definition bus_inv :: "u64 \<Rightarrow> u64 \<Rightarrow> ('c, 'h) harness \<Rightarrow> bool" where
  "bus_inv k t h \<longleftrightarrow> harness_wf h \<and> harness_clock h - of_int (hn_cycles_flushed h) = k \<and>
     hn_cpu_cycles_total h = t \<and> 0 \<le> hn_cycles_flushed h \<and> hn_cycles_flushed h < 2 ^ 31"

lemmas bus_defs = bus_inv_def harness_wf_def harness_clock_def ipl_given_def

text \<open>A context may be replaced by one of the same time and interrupt level.\<close>

definition ctx_same :: "(harness_ram, 'h) rigel_context \<Rightarrow> (harness_ram, 'h) rigel_context \<Rightarrow> bool" where
  "ctx_same a b \<longleftrightarrow> (\<forall>now. machine_at now a \<longrightarrow> machine_at now b)"

lemma machine_time: "machine_at now ctx \<Longrightarrow> rigel_get_time ctx = now"
  by (simp add: rigel_get_time_def machine_defs)

lemma ctx_same_time: "machine_at now a \<Longrightarrow> ctx_same a b \<Longrightarrow> rigel_get_time b = rigel_get_time a"
  by (simp add: ctx_same_def machine_time)

lemma bus_inv_ctx:
  assumes "bus_inv k t h" "ctx_same (hn_rigel h) ctx" "rigel_get_ipl ctx = rigel_get_ipl (hn_rigel h)"
  shows "bus_inv k t (h\<lparr>hn_rigel := ctx\<rparr>)"
proof -
  obtain now where now: "machine_at now (hn_rigel h)" using assms(1) by (auto simp: bus_defs)
  then have "machine_at now ctx" using assms(2) by (simp add: ctx_same_def)
  then show ?thesis using assms(1,3) ctx_same_time [OF now assms(2)] by (auto simp: bus_defs)
qed

lemma sync_ipl_fields [simp]:
  "hn_rigel (harness_sync_ipl core h) = hn_rigel h"
  "hn_cck_rem (harness_sync_ipl core h) = hn_cck_rem h"
  "hn_cycles_flushed (harness_sync_ipl core h) = hn_cycles_flushed h"
  "hn_cpu_cycles_total (harness_sync_ipl core h) = hn_cpu_cycles_total h"
  "hn_last_ipl (harness_sync_ipl core h) = rigel_get_ipl (hn_rigel h)"
  by (simp_all add: harness_sync_ipl_def Let_def)

text \<open>After a change that moves the level, the level is given again.\<close>

lemma bus_inv_sync:
  assumes "bus_inv k t h" "ctx_same (hn_rigel h) ctx"
  shows "bus_inv k t (harness_sync_ipl core (h\<lparr>hn_rigel := ctx\<rparr>))"
proof -
  obtain now where now: "machine_at now (hn_rigel h)" using assms(1) by (auto simp: bus_defs)
  then have "machine_at now ctx" using assms(2) by (simp add: ctx_same_def)
  then show ?thesis using assms(1) ctx_same_time [OF now assms(2)] by (auto simp: bus_defs)
qed

section \<open>The chipset's side of an access\<close>

lemma same_rigel_ops:
  "ctx_same ctx (snd (rigel_cia_read ctx cid reg))"
  "ctx_same ctx (rigel_cia_write ctx cid reg v)"
  "ctx_same ctx (snd (rigel_custom_read16 ctx addr))"
  "ctx_same ctx (rigel_custom_write16 env ctx addr w)"
  "ctx_same ctx (ctx\<lparr>rc_ram := m\<rparr>)"
  by (simp_all add: ctx_same_def cia_read_ok cia_write_ok custom_read_ok custom_write_ok
      rigel_custom_read16_def rigel_custom_write16_def)

lemma ipl_of_parts [simp]:
  "rigel_get_ipl (on_paula (\<lambda>p. p\<lparr>pa_disk := d\<rparr>) ctx) = rigel_get_ipl ctx"
  "rigel_get_ipl (on_paula (\<lambda>p. p\<lparr>pa_serial := s\<rparr>) ctx) = rigel_get_ipl ctx"
  "rigel_get_ipl (on_denise f ctx) = rigel_get_ipl ctx"
  "rigel_get_ipl (ctx\<lparr>rc_ram := m\<rparr>) = rigel_get_ipl ctx"
  by (simp_all add: rigel_get_ipl_def ctx_paula_def on_paula_def on_denise_def on_chipset_def)

lemma ipl_custom_read: "rigel_get_ipl (snd (rigel_custom_read16 ctx addr)) = rigel_get_ipl ctx"
  by (auto simp: rigel_custom_read16_def custom_regs_read16_def paula_read_reg_def rigel_denise_read_reg_def
      Let_def split: rigel_custom_domain.split prod.split)

lemma port_a_reg:
  "snd (cia_read_reg (cia, irq) 0) = (cia, irq)" "snd (cia_read_reg (cia, irq) 2) = (cia, irq)"
  by (simp_all split: option.split)

lemma on_cia_same:
  "on_chipset (on_cia 0 (\<lambda>_. (ch_cia (rc_chipset ctx) ! 0, pa_interrupts (ctx_paula ctx)))) ctx = ctx"
  by (simp add: on_cia_def on_chipset_def ctx_paula_def Let_def)

lemma port_a_read: "snd (rigel_cia_read ctx 0 0) = ctx" "snd (rigel_cia_read ctx 0 2) = ctx"
  by (simp_all add: rigel_cia_read_def split_beta port_a_reg on_cia_same del: cia_read_reg.simps)

lemma overlay_pure [simp]: "snd (harness_overlay h) = h"
  by (simp add: harness_overlay_def Let_def split_beta port_a_read)

section \<open>Advancing\<close>

lemma drain_same:
  assumes "machine_at now ctx"
  shows "machine_at now (fst (drain_serial ctx sent)) \<and>
    rigel_get_ipl (fst (drain_serial ctx sent)) = rigel_get_ipl ctx"
  using assms
proof (induction ctx sent rule: drain_serial.induct)
  case (1 ctx sent)
  show ?case
  proof (cases "rigel_serial_tx_available ctx")
    case True
    show ?thesis
    proof (cases "rigel_serial_pop_tx_byte ctx")
      case None
      then show ?thesis using 1(2) by (simp add: drain_serial.simps [of ctx])
    next
      case (Some x)
      obtain b ctx' where x: "x = (b, ctx')" by (cases x)
      have pop: "rigel_serial_pop_tx_byte ctx = Some (b, ctx')" using Some x by simp
      have "machine_at now ctx'" using serial_host_ok(3) [OF 1(2) pop] .
      moreover have "rigel_get_ipl ctx' = rigel_get_ipl ctx"
        using pop by (auto simp: rigel_serial_pop_tx_byte_def)
      ultimately show ?thesis using 1(1) [OF True pop refl] True pop by (simp add: drain_serial.simps [of ctx])
    qed
  next
    case False
    then show ?thesis using 1(2) by (simp add: drain_serial.simps [of ctx])
  qed
qed

lemma bus_inv_sinks [simp]:
  "bus_inv k t (h\<lparr>hn_serial := a\<rparr>) = bus_inv k t h"
  "bus_inv k t (h\<lparr>hn_mmio := b\<rparr>) = bus_inv k t h"
  "bus_inv k t (h\<lparr>hn_audio := c\<rparr>) = bus_inv k t h"
  "bus_inv k t (h\<lparr>hn_audio_accum_q16 := d\<rparr>) = bus_inv k t h"
  "bus_inv k t (h\<lparr>hn_lide := e\<rparr>) = bus_inv k t h"
  "bus_inv k t (h\<lparr>hn_fastram := f\<rparr>) = bus_inv k t h"
  "bus_inv k t (h\<lparr>hn_slow_ram := g\<rparr>) = bus_inv k t h"
  "bus_inv k t (h\<lparr>hn_cpu := i\<rparr>) = bus_inv k t h"
  "bus_inv k t (h\<lparr>hn_pending_events := j\<rparr>) = bus_inv k t h"
  by (simp_all add: bus_defs)

lemma drain_inv: "bus_inv k t h \<Longrightarrow> bus_inv k t (harness_drain_serial h)"
proof -
  assume inv: "bus_inv k t h"
  have "bus_inv k t (h\<lparr>hn_rigel := fst (drain_serial (hn_rigel h) sent)\<rparr>)" for sent
  proof (rule bus_inv_ctx [OF inv])
    show "ctx_same (hn_rigel h) (fst (drain_serial (hn_rigel h) sent))"
      by (simp add: ctx_same_def drain_same)
    obtain now where "machine_at now (hn_rigel h)" using inv by (auto simp: bus_defs)
    then show "rigel_get_ipl (fst (drain_serial (hn_rigel h) sent)) = rigel_get_ipl (hn_rigel h)"
      using drain_same by blast
  qed
  then show ?thesis using inv by (simp add: harness_drain_serial_def split_beta split: option.split)
qed

lemma audio_inv: "bus_inv k t h \<Longrightarrow> bus_inv k t (harness_advance_audio h cck)"
  by (simp add: harness_advance_audio_def Let_def split_beta split: option.split)

lemma absorb_inv:
  assumes "bus_inv k t (harness_sync_ipl core h)"
  shows "bus_inv k t (harness_absorb core h r)"
  unfolding harness_absorb_def
  by (rule drain_inv) (use assms in \<open>simp add: bus_defs\<close>)

text \<open>Two cycles make a colour clock, and the odd one is kept.\<close>

lemma split_cycles:
  fixes rem :: u32
  assumes "rem < 2" "0 \<le> delta" "delta < 2 ^ 31"
  defines "scaled \<equiv> ucast rem + (of_int delta :: u64)"
  shows "ucast (ucast (scaled div 2) :: u32) = scaled div 2"
    "2 * (scaled div 2) + ucast (ucast (scaled AND 1) :: u32) = scaled"
    "(ucast (scaled AND 1) :: u32) < 2"
proof -
  have r: "unat rem < 2" using assms(1) by (simp add: word_less_nat_alt)
  obtain n where n: "delta = int n" using assms(2) nonneg_int_cases by blast
  have d: "unat (of_int delta :: u64) = nat delta" using assms(3) by (simp add: n unat_of_nat)
  have s: "unat scaled = unat rem + nat delta"
    using r d assms(3) by (simp add: scaled_def unat_word_ariths)
  then have "unat (scaled div 2) < 2 ^ 32" using r assms(2,3) by (simp add: unat_div)
  then have q: "unat (ucast (scaled div 2) :: u32) = unat (scaled div 2)" by (intro unat_ucast_small) simp
  show "ucast (ucast (scaled div 2) :: u32) = scaled div 2"
    by (simp add: word_unat_eq_iff q)
  have one: "scaled AND 1 = scaled mod 2" by (simp add: and_one_eq)
  have m: "unat (scaled AND 1) < 2" by (simp add: one unat_mod)
  then have u: "ucast (ucast (scaled AND 1) :: u32) = scaled AND 1"
    by (simp add: word_unat_eq_iff unat_ucast_up unat_ucast_small)
  show "2 * (scaled div 2) + ucast (ucast (scaled AND 1) :: u32) = scaled"
    unfolding u unfolding one by (rule mult_div_mod_eq)
  show "(ucast (scaled AND 1) :: u32) < 2"
    using m by (simp add: word_less_nat_alt unat_ucast_small)
qed

lemma clock_sum:
  fixes q x r d now f :: u64
  assumes "2 * q + x = r + d"
  shows "2 * (now + q) + x - f = 2 * now + r - f + d"
proof -
  have "2 * (now + q) + x - f = 2 * now + (2 * q + x) - f" by (simp add: distrib_left)
  then show ?thesis unfolding assms by simp
qed

lemma bus_invI:
  assumes "machine_at now (hn_rigel h)" "hn_cck_rem h < 2" "hn_last_ipl h = rigel_get_ipl (hn_rigel h)"
    and "2 * now + ucast (hn_cck_rem h) - of_int (hn_cycles_flushed h) = k"
    and "hn_cpu_cycles_total h = t" "0 \<le> hn_cycles_flushed h" "hn_cycles_flushed h < 2 ^ 31"
  shows "bus_inv k t h"
  using assms machine_time [OF assms(1)] by (auto simp: bus_defs)

lemma advance_flushed [simp]:
  "hn_cycles_flushed (harness_drain_serial h) = hn_cycles_flushed h"
  "hn_cycles_flushed (harness_advance_audio h cck) = hn_cycles_flushed h"
  by (simp_all add: harness_drain_serial_def harness_advance_audio_def Let_def split: option.split prod.split)

text \<open>
  Advancing by the cycles that the core has run gives them all to the chipset.
\<close>

lemma advance_inv:
  assumes inv: "bus_inv k t h" and d: "0 < delta" "delta < 2 ^ 31"
  shows "\<exists>h'. harness_advance env core delta h = Some h' \<and> bus_inv (k + of_int delta) t h' \<and>
    hn_cycles_flushed h' = hn_cycles_flushed h"
proof -
  obtain now where now: "machine_at now (hn_rigel h)" using inv by (auto simp: bus_defs)
  have rem: "hn_cck_rem h < 2" using inv by (simp add: bus_defs)
  define scaled where "scaled = ucast (hn_cck_rem h) + (of_int delta :: u64)"
  define h1 where "h1 = h\<lparr>hn_cck_rem := ucast (scaled AND 1)\<rparr>"
  note split = split_cycles [OF rem less_imp_le [OF d(1)] d(2), folded scaled_def]
  have t: "rigel_get_time (hn_rigel h) = now" by (rule machine_time [OF now])
  have k: "k = 2 * now + ucast (hn_cck_rem h) - of_int (hn_cycles_flushed h)"
    using inv t by (simp add: bus_defs)
  have keep: "2 * (now + scaled div 2) + ucast (ucast (scaled AND 1) :: u32) - of_int (hn_cycles_flushed h) =
      k + of_int delta"
    unfolding k by (rule clock_sum) (use split(2) in \<open>simp only: scaled_def\<close>)
  show ?thesis
  proof (cases "scaled div 2 = 0")
    case True
    have "bus_inv (k + of_int delta) t h1"
      by (rule bus_invI [of now]) (use inv keep True now split(3) in \<open>simp_all add: bus_defs h1_def\<close>)
    moreover have "harness_advance env core delta h = Some h1"
      using True by (simp add: harness_advance_def h1_def flip: scaled_def)
    ultimately show ?thesis by (simp add: h1_def)
  next
    case False
    obtain r ctx where step: "rigel_step env (hn_rigel h) (scaled div 2) = Some (r, ctx)"
      and ctx: "machine_at (now + scaled div 2) ctx"
      using machine_step_ok [OF now, of env "scaled div 2"] split(1) by auto
    let ?h = "harness_absorb core (h1\<lparr>hn_rigel := ctx\<rparr>) r"
    have "bus_inv (k + of_int delta) t (harness_sync_ipl core (h1\<lparr>hn_rigel := ctx\<rparr>))"
      by (rule bus_invI [of "now + scaled div 2"]) (use inv keep ctx split(3) in \<open>simp_all add: bus_defs h1_def\<close>)
    then have "bus_inv (k + of_int delta) t (harness_advance_audio ?h (scaled div 2))"
      by (intro audio_inv absorb_inv)
    moreover have "harness_advance env core delta h = Some (harness_advance_audio ?h (scaled div 2))"
      using False step by (simp add: harness_advance_def Let_def h1_def flip: scaled_def)
    ultimately show ?thesis by (simp add: h1_def harness_absorb_def)
  qed
qed

section \<open>Accesses of the core\<close>

text \<open>What the core documents of its cycle count.\<close>

definition cycles_bounded :: "'c m68k_core \<Rightarrow> bool" where
  "cycles_bounded core \<longleftrightarrow> (\<forall>c. 0 \<le> m68k_cycles_run core c \<and> m68k_cycles_run core c < 2 ^ 31)"

definition returns_inv :: "u64 \<Rightarrow> u64 \<Rightarrow> ('a \<times> ('c, 'h) harness) option \<Rightarrow> bool" where
  "returns_inv k t x \<longleftrightarrow> (\<exists>v h. x = Some (v, h) \<and> bus_inv k t h)"

definition ends_inv :: "u64 \<Rightarrow> u64 \<Rightarrow> ('c, 'h) harness option \<Rightarrow> bool" where
  "ends_inv k t x \<longleftrightarrow> (\<exists>h. x = Some h \<and> bus_inv k t h)"

lemma returns_inv_Some [simp]: "returns_inv k t (Some (v, h)) = bus_inv k t h"
  by (simp add: returns_inv_def)

lemma ends_inv_Some [simp]: "ends_inv k t (Some h) = bus_inv k t h"
  by (simp add: ends_inv_def)

lemma returns_bind:
  "returns_inv k t x \<Longrightarrow> (\<And>v h. bus_inv k t h \<Longrightarrow> returns_inv k t (f v h)) \<Longrightarrow> returns_inv k t (x \<bind> (\<lambda>(v, h). f v h))"
  "returns_inv k t x \<Longrightarrow> (\<And>v h. bus_inv k t h \<Longrightarrow> ends_inv k t (g v h)) \<Longrightarrow> ends_inv k t (x \<bind> (\<lambda>(v, h). g v h))"
  by (auto simp: returns_inv_def)

lemma ends_bind:
  "ends_inv k t y \<Longrightarrow> (\<And>h. bus_inv k t h \<Longrightarrow> returns_inv k t (f' h)) \<Longrightarrow> returns_inv k t (y \<bind> f')"
  "ends_inv k t y \<Longrightarrow> (\<And>h. bus_inv k t h \<Longrightarrow> ends_inv k t (g' h)) \<Longrightarrow> ends_inv k t (y \<bind> g')"
  by (auto simp: ends_inv_def)

lemma flush_inv:
  assumes bounded: "cycles_bounded core" and inv: "bus_inv k t h"
  shows "ends_inv k t (harness_flush env core h)"
proof (cases "m68k_cycles_run core (hn_cpu h) - hn_cycles_flushed h \<le> 0")
  case True
  then show ?thesis using inv by (simp add: harness_flush_def)
next
  case False
  let ?run = "m68k_cycles_run core (hn_cpu h)"
  let ?delta = "?run - hn_cycles_flushed h"
  have run: "0 \<le> ?run" "?run < 2 ^ 31" using bounded by (simp_all add: cycles_bounded_def)
  have d: "0 < ?delta" "?delta < 2 ^ 31" using False run inv by (simp_all add: bus_defs)
  have "bus_inv (k - of_int ?delta) t (h\<lparr>hn_cycles_flushed := ?run\<rparr>)"
    using inv run by (simp add: bus_defs algebra_simps)
  from advance_inv [OF this d, of env core]
  show ?thesis using False by (auto simp: harness_flush_def ends_inv_def Let_def)
qed

lemma observe_inv [simp]: "bus_inv k t (harness_observe reg v w h) = bus_inv k t h"
  by (simp add: harness_observe_def)

lemma sync_observe:
  "bus_inv k t (harness_sync_ipl core (h\<lparr>hn_mmio := m\<rparr>)) = bus_inv k t (harness_sync_ipl core h)"
  by (simp add: bus_defs)

lemma cia_access_inv:
  fixes core :: "'c m68k_core" and env :: "'h rigel_env"
  assumes "cycles_bounded core" "bus_inv k t h"
  shows "returns_inv k t (harness_cia_read8 env core h addr)" "ends_inv k t (harness_cia_write8 env core h addr v)"
proof -
  note f = flush_inv [OF assms, of env]
  have "bus_inv k t (harness_sync_ipl core h)" if "bus_inv k t h" for h :: "('c, 'h) harness"
    using bus_inv_sync [OF that, of "hn_rigel h"] by (simp add: ctx_same_def)
  note sync = this bus_inv_sync [OF _ same_rigel_ops(1)] bus_inv_sync [OF _ same_rigel_ops(2)]
  show "returns_inv k t (harness_cia_read8 env core h addr)"
    unfolding harness_cia_read8_def Let_def
    by (rule ends_bind(1) [OF f]) (simp add: split_beta sync)
  show "ends_inv k t (harness_cia_write8 env core h addr v)"
    unfolding harness_cia_write8_def Let_def
    by (rule ends_bind(2) [OF f]) (simp add: sync)
qed

lemma custom_access_inv:
  fixes core :: "'c m68k_core" and env :: "'h rigel_env"
  assumes "cycles_bounded core" "bus_inv k t h"
  shows "returns_inv k t (harness_custom_read env core h reg)" "ends_inv k t (harness_custom_write env core h reg v)"
proof -
  note f = flush_inv [OF assms, of env]
  show "returns_inv k t (harness_custom_read env core h reg)"
    unfolding harness_custom_read_def
    by (rule ends_bind(1) [OF f])
      (simp add: split_beta Let_def bus_inv_ctx [OF _ same_rigel_ops(3)] ipl_custom_read)
  have "bus_inv k t (harness_sync_ipl core (harness_observe reg v True
      (h\<lparr>hn_rigel := rigel_custom_write16 env (hn_rigel h) reg v\<rparr>)))" if "bus_inv k t h" for h :: "('c, 'h) harness"
    using bus_inv_sync [OF that same_rigel_ops(4)] by (simp add: harness_observe_def sync_observe)
  then show "ends_inv k t (harness_custom_write env core h reg v)"
    unfolding harness_custom_write_def by (intro ends_bind(2) [OF f]) simp
qed

lemma board_access_inv:
  assumes "bus_inv k t h"
  shows "bus_inv k t (snd (hn_lide_read h addr n))" "bus_inv k t (hn_lide_write h addr v n)"
    "bus_inv k t (hn_fastram_write h addr v n)" "bus_inv k t (harness_autoconfig_write h addr b)"
    "bus_inv k t (hn_set_chip_ram ram h)"
  using assms bus_inv_ctx [OF assms same_rigel_ops(5) [of _ ram]]
  by (simp_all add: hn_lide_read_def hn_lide_write_def hn_fastram_write_def harness_autoconfig_write_def
      hn_set_chip_ram_def Let_def split_beta split: option.split)

lemma read8_inv:
  assumes "cycles_bounded core" "bus_inv k t h"
  shows "returns_inv k t (harness_read8 env core h a)"
proof -
  have "returns_inv k t (harness_custom_read env core h r \<bind> (\<lambda>(w, h). Some (g w, h)))"
    for r and g :: "u16 \<Rightarrow> u8"
    by (rule returns_bind(1) [OF custom_access_inv(1) [OF assms]]) simp
  then show ?thesis
    unfolding harness_read8_def Let_def
    using assms(2) cia_access_inv(1) [OF assms] board_access_inv(1) [OF assms(2)]
    by (simp add: split_beta)
qed

lemma write8_inv:
  assumes "cycles_bounded core" "bus_inv k t h"
  shows "ends_inv k t (harness_write8 env core h a v)"
proof -
  have "ends_inv k t (harness_custom_read env core h r \<bind> (\<lambda>(w, h). harness_custom_write env core h r (g w)))"
    for r and g :: "u16 \<Rightarrow> u16"
    by (intro returns_bind(2) [OF custom_access_inv(1) [OF assms]] custom_access_inv(2) [OF assms(1)])
  then show ?thesis
    unfolding harness_write8_def Let_def
    using assms(2) cia_access_inv(2) [OF assms] board_access_inv [OF assms(2)]
    by simp
qed

lemma read16_inv:
  assumes "cycles_bounded core" "bus_inv k t h"
  shows "returns_inv k t (harness_read16 env core h a)"
proof -
  have "returns_inv k t (harness_read8 env core h x \<bind>
      (\<lambda>(hi, h). harness_read8 env core h y \<bind> (\<lambda>(lo, h). Some (g hi lo, h))))"
    for x y and g :: "u8 \<Rightarrow> u8 \<Rightarrow> u16"
    by (rule returns_bind(1) [OF read8_inv [OF assms]], rule returns_bind(1) [OF read8_inv [OF assms(1)]])
      simp_all
  then show ?thesis
    unfolding harness_read16_def Let_def
    using assms(2) custom_access_inv(1) [OF assms] board_access_inv(1) [OF assms(2)]
    by (simp add: split_beta)
qed

lemma write16_inv:
  assumes "cycles_bounded core" "bus_inv k t h"
  shows "ends_inv k t (harness_write16 env core h a v)"
proof -
  have "ends_inv k t (harness_write8 env core h x p \<bind> (\<lambda>h. harness_write8 env core h y q))" for x y p q
    by (intro ends_bind(2) [OF write8_inv [OF assms]] write8_inv [OF assms(1)])
  then show ?thesis
    unfolding harness_write16_def Let_def
    using assms(2) custom_access_inv(2) [OF assms] board_access_inv [OF assms(2)]
    by simp
qed

section \<open>Time slices\<close>

text \<open>What a core may do: change its own state and access the bus, in any order.\<close>

inductive bus_run :: "'h rigel_env \<Rightarrow> 'c m68k_core \<Rightarrow> ('c, 'h) harness \<Rightarrow> ('c, 'h) harness \<Rightarrow> bool"
  for env core h where
  start: "bus_run env core h h"
| core: "bus_run env core h h' \<Longrightarrow> bus_run env core h (h'\<lparr>hn_cpu := c\<rparr>)"
| read8: "bus_run env core h h' \<Longrightarrow> harness_read8 env core h' a = Some (b, h'') \<Longrightarrow> bus_run env core h h''"
| read16: "bus_run env core h h' \<Longrightarrow> harness_read16 env core h' a = Some (w, h'') \<Longrightarrow> bus_run env core h h''"
| write8: "bus_run env core h h' \<Longrightarrow> harness_write8 env core h' a b = Some h'' \<Longrightarrow> bus_run env core h h''"
| write16: "bus_run env core h h' \<Longrightarrow> harness_write16 env core h' a w = Some h'' \<Longrightarrow> bus_run env core h h''"

lemma bus_run_inv:
  assumes "bus_run env core h h'" "cycles_bounded core" "bus_inv k t h"
  shows "bus_inv k t h'"
  using assms(1)
proof (induction rule: bus_run.induct)
  case (read8 h' a b h'')
  then show ?case using read8_inv [OF assms(2), of k t h' env a] by (simp add: returns_inv_def)
next
  case (read16 h' a w h'')
  then show ?case using read16_inv [OF assms(2), of k t h' env a] by (simp add: returns_inv_def)
next
  case (write8 h' a b h'')
  then show ?case using write8_inv [OF assms(2), of k t h' env a b] by (simp add: ends_inv_def)
next
  case (write16 h' a w h'')
  then show ?case using write16_inv [OF assms(2), of k t h' env a w] by (simp add: ends_inv_def)
qed (use assms(3) in simp_all)

text \<open>
  A core that does what the host relies on: its cycle count is a positive \<^verbatim>\<open>int\<close>, and a time slice
  of it comes back after some accesses, having consumed at least one cycle and at least what it had run at the last
  access.
\<close>

definition m68k_lawful :: "'h rigel_env \<Rightarrow> ('c, 'h) m68k_cpu \<Rightarrow> bool" where
  "m68k_lawful env cpu \<longleftrightarrow> cycles_bounded (mc_core cpu) \<and>
     (\<forall>h n. harness_wf h \<and> hn_cycles_flushed h = 0 \<longrightarrow>
       (\<exists>consumed h'. mc_execute cpu h n = Some (consumed, h') \<and> bus_run env (mc_core cpu) h h' \<and>
          0 < consumed \<and> consumed < 2 ^ 31 \<and> hn_cycles_flushed h' \<le> consumed))"

lemma stall_inv: "bus_inv k t h \<Longrightarrow> bus_inv k t (harness_stall pc h)"
  by (simp add: harness_stall_def bus_defs)

lemma stall_fields [simp]:
  "hn_cpu_cycles_total (harness_stall pc h) = hn_cpu_cycles_total h"
  "hn_cycles_flushed (harness_stall pc h) = hn_cycles_flushed h"
  "hn_rigel (harness_stall pc h) = hn_rigel h" "hn_cck_rem (harness_stall pc h) = hn_cck_rem h"
  "hn_last_ipl (harness_stall pc h) = hn_last_ipl h"
  by (simp_all add: harness_stall_def)

lemma settle_inv:
  assumes inv: "bus_inv k t h" and c: "hn_cycles_flushed h \<le> consumed" "consumed < 2 ^ 31"
  shows "\<exists>h'. harness_settle env cpu consumed h = Some h' \<and>
    bus_inv (k + of_int (consumed - hn_cycles_flushed h)) t h' \<and> hn_cycles_flushed h' = hn_cycles_flushed h"
proof (cases "consumed = hn_cycles_flushed h")
  case True
  then show ?thesis using inv by (simp add: harness_settle_def)
next
  case False
  have d: "0 < consumed - hn_cycles_flushed h" "consumed - hn_cycles_flushed h < 2 ^ 31"
    using False c inv by (simp_all add: bus_inv_def)
  from advance_inv [OF inv d, of env "mc_core cpu"] d(1) show ?thesis by (auto simp: harness_settle_def)
qed

text \<open>A time slice: both clocks advance by the cycles that the core has consumed.\<close>

lemma step_exact:
  assumes "m68k_lawful env cpu" "harness_wf h"
  shows "\<exists>consumed ev h'. harness_step env cpu h limit = Some (ev, h') \<and> harness_wf h' \<and>
    0 < consumed \<and> consumed < 2 ^ 31 \<and>
    hn_cpu_cycles_total h' = hn_cpu_cycles_total h + of_int consumed \<and>
    harness_clock h' = harness_clock h + of_int consumed"
proof -
  let ?h0 = "h\<lparr>hn_pending_events := 0\<rparr>"
  let ?n = "sint (harness_quantum_cpu_cycles ?h0 limit)"
  let ?h1 = "?h0\<lparr>hn_cycles_flushed := 0\<rparr>"
  have inv1: "bus_inv (harness_clock h) (hn_cpu_cycles_total h) ?h1"
    using assms(2) by (auto simp: bus_defs)
  then have wf1: "harness_wf ?h1" by (simp add: bus_inv_def)
  have cb: "cycles_bounded (mc_core cpu)" using assms(1) by (simp add: m68k_lawful_def)
  obtain c h2 where ex: "mc_execute cpu ?h1 ?n = Some (c, h2)" "bus_run env (mc_core cpu) ?h1 h2"
      "0 < c" "c < 2 ^ 31" "hn_cycles_flushed h2 \<le> c"
  proof -
    have "hn_cycles_flushed ?h1 = 0" by simp
    then show thesis using assms(1) wf1 that unfolding m68k_lawful_def by blast
  qed
  have inv2: "bus_inv (harness_clock h) (hn_cpu_cycles_total h) h2"
    by (rule bus_run_inv [OF ex(2) cb inv1])
  obtain h3 where h3: "harness_settle env cpu c h2 = Some h3"
      "bus_inv (harness_clock h + of_int (c - hn_cycles_flushed h2)) (hn_cpu_cycles_total h) h3"
      "hn_cycles_flushed h3 = hn_cycles_flushed h2"
    using settle_inv [OF inv2 ex(5,4)] by blast
  let ?h4 = "harness_stall (mc_pc cpu (hn_cpu h3)) (h3\<lparr>hn_cpu_cycles_total := hn_cpu_cycles_total h3 + of_int c\<rparr>)"
  let ?h5 = "?h4\<lparr>hn_pending_events := 0\<rparr>"
  have step: "harness_step env cpu h limit = Some (hn_pending_events ?h4, ?h5)"
    using ex(1,3) h3(1) by (simp add: harness_step_def Let_def)
  have clock: "harness_clock h3 = harness_clock h + of_int c"
    using h3(2,3) by (simp add: bus_inv_def algebra_simps)
  have "harness_wf ?h5" using h3(2) by (simp add: bus_defs)
  moreover have "hn_cpu_cycles_total ?h5 = hn_cpu_cycles_total h + of_int c" using h3(2) by (simp add: bus_inv_def)
  moreover have "harness_clock ?h5 = harness_clock h + of_int c" using clock by (simp add: harness_clock_def)
  ultimately show ?thesis using step ex(3,4) by blast
qed

text \<open>
  C7: The host's main loop always comes to an end, and the two clocks never drift apart.  For
  every core that acts on the machine through the bus, \<^verbatim>\<open>harness_run\<close> returns once the given number of CPU cycles
  is reached or the host's condition holds; on the way the chipset has advanced by exactly half the
  CPU cycles that were consumed, the odd cycle being carried, wherever the accesses of the core
  fell, and the interrupt level given to the core is the one of the chipset.
\<close>

theorem harness_run_exact:
  fixes h :: "('c, 'h) harness"
  assumes "m68k_lawful env cpu" "harness_wf h" "max_cycles \<le> 2 ^ 63"
  shows "\<exists>h'. harness_run env cpu finished max_cycles h = Some h' \<and> harness_wf h' \<and>
    (finished h' \<or> max_cycles \<le> hn_cpu_cycles_total h') \<and>
    2 * rigel_get_time (hn_rigel h') + ucast (hn_cck_rem h') - hn_cpu_cycles_total h' =
    2 * rigel_get_time (hn_rigel h) + ucast (hn_cck_rem h) - hn_cpu_cycles_total h"
proof -
  have max: "unat max_cycles \<le> 2 ^ 63" using assms(3) by (simp add: word_le_nat_alt)
  have "\<exists>h'. harness_run env cpu finished max_cycles h = Some h' \<and> harness_wf h' \<and>
      (finished h' \<or> max_cycles \<le> hn_cpu_cycles_total h') \<and>
      harness_clock h' - hn_cpu_cycles_total h' = harness_clock h - hn_cpu_cycles_total h"
    using assms(2)
  proof (induction "unat max_cycles - unat (hn_cpu_cycles_total h)" arbitrary: h rule: less_induct)
    case less
    show ?case
    proof (cases "\<not> finished h \<and> hn_cpu_cycles_total h < max_cycles")
      case False
      then show ?thesis using less.prems by (auto simp: harness_run.simps [of env cpu finished max_cycles h])
    next
      case True
      obtain c ev h1 where s: "harness_step env cpu h 0 = Some (ev, h1)" "harness_wf h1" "0 < c" "c < 2 ^ 31"
        "hn_cpu_cycles_total h1 = hn_cpu_cycles_total h + of_int c"
        "harness_clock h1 = harness_clock h + of_int c"
        using step_exact [OF assms(1) less.prems, of 0] by blast
      have lt: "unat (hn_cpu_cycles_total h) < unat max_cycles" using True by (simp add: word_less_nat_alt)
      obtain n where n: "c = int n" using s(3) zero_less_imp_eq_int by blast
      have "unat (hn_cpu_cycles_total h1) = unat (hn_cpu_cycles_total h) + n"
        using s(3-5) lt max by (simp add: n unat_word_ariths unat_of_nat)
      then have "unat max_cycles - unat (hn_cpu_cycles_total h1) < unat max_cycles - unat (hn_cpu_cycles_total h)"
        using lt s(3) n by linarith
      from less.hyps [OF this s(2)] show ?thesis
        using True s(1,5,6) by (auto simp: harness_run.simps [of env cpu finished max_cycles h])
    qed
  qed
  then show ?thesis by (simp add: harness_clock_def)
qed

text \<open>A core that turns DMA on again and again, on the machine of the earlier example.\<close>

definition demo_cpu :: "(unit, unit) m68k_cpu" where
  "demo_cpu =
     (let core = \<lparr>m68k_cycles_run = \<lambda>_. 2, m68k_set_irq = \<lambda>c _. c\<rparr>
      in \<lparr>mc_core = core, mc_power = \<lambda>_. (), mc_pulse_reset = Some,
          mc_execute = \<lambda>h _. map_option (Pair 5) (harness_write16 demo_env core h 0xdff096 0x8200),
          mc_pc = \<lambda>_. 0, mc_set_reg = \<lambda>c _ _. c\<rparr>)"

definition demo_harness :: "(unit, unit) harness" where
  "demo_harness =
     \<lparr>hn_rigel = demo_machine, hn_cpu = (), hn_chip_ram_size = 1024, hn_slow_ram = [], hn_slow_ram_size = 0,
      hn_rom = [], hn_rom_size = 0, hn_std_off = 0, hn_std_size = 0, hn_std_mask = 0,
      hn_ext_off = 0, hn_ext_size = 0, hn_ext_mask = 0, hn_ovl_off = 0, hn_ovl_mask = 0,
      hn_cpu_cycles_total = 0, hn_cck_rem = 0, hn_cycles_flushed = 0, hn_pending_events = 0,
      hn_last_pc = 0, hn_pc_stall_steps = 0, hn_last_ipl = rigel_get_ipl demo_machine, hn_exec_mode = False,
      hn_exec_fb = 0, hn_exec_fb_w = 0, hn_exec_fb_h = 0, hn_exec_fb_pitch = 0, hn_exec_exit = 0,
      hn_serial = Some [], hn_mmio = Some [], hn_audio = None, hn_audio_rate = 0,
      hn_audio_step_q16 = 0, hn_audio_accum_q16 = 0, hn_lide = None, hn_fastram = None\<rparr>"

lemma demo_machine_ok: "\<exists>now. machine_at now demo_machine"
proof -
  have "fresh_memory demo_memory"
    by (simp add: fresh_memory_def demo_memory_def denise_zero_def sched_zero_def)
  moreover have "rigel_create demo_env demo_config (Some demo_memory) = Some demo_machine"
    by (simp add: demo_machine_def rigel_create_def demo_config_def Let_def)
  ultimately show ?thesis using machine_reachable.create reachable_ok by blast
qed

lemma flush_flushed:
  "harness_flush env core h = Some h' \<Longrightarrow> hn_cycles_flushed h' = max (hn_cycles_flushed h) (m68k_cycles_run core (hn_cpu h))"
  by (auto simp: harness_flush_def harness_advance_def harness_absorb_def Let_def split: if_splits)

lemma demo_cpu_lawful: "m68k_lawful demo_env demo_cpu"
proof -
  let ?core = "mc_core demo_cpu"
  have cb: "cycles_bounded ?core" by (simp add: cycles_bounded_def demo_cpu_def Let_def)
  have "\<exists>consumed h'. mc_execute demo_cpu h n = Some (consumed, h') \<and> bus_run demo_env ?core h h' \<and>
      0 < consumed \<and> consumed < 2 ^ 31 \<and> hn_cycles_flushed h' \<le> consumed"
    if wf: "harness_wf h" "hn_cycles_flushed h = 0" for h n
  proof -
    have "bus_inv (harness_clock h) (hn_cpu_cycles_total h) h" using wf by (simp add: bus_inv_def)
    from write16_inv [OF cb this, where env = demo_env and a = "0xdff096" and v = "0x8200"] obtain h' where w: "harness_write16 demo_env ?core h 0xdff096 0x8200 = Some h'"
      by (auto simp: ends_inv_def)
    then have "harness_custom_write demo_env ?core h 0x96 0x8200 = Some h'"
      by (simp add: harness_write16_def addr_in_custom_def)
    then have "hn_cycles_flushed h' = 2"
      using wf(2) by (auto simp: harness_custom_write_def harness_observe_def demo_cpu_def Let_def split: bind_splits dest!: flush_flushed)
    moreover have "bus_run demo_env ?core h h'" by (rule bus_run.write16 [OF bus_run.start w])
    ultimately show ?thesis using w by (simp add: demo_cpu_def Let_def)
  qed
  then show ?thesis using cb by (simp add: m68k_lawful_def)
qed

theorem harness_run_exact_witness:
  "\<exists>h'. harness_run demo_env demo_cpu (\<lambda>_. False) 1000 demo_harness = Some h' \<and> 1000 \<le> hn_cpu_cycles_total h'"
proof -
  have "harness_wf demo_harness"
    using demo_machine_ok by (simp add: harness_wf_def ipl_given_def demo_harness_def)
  from harness_run_exact [OF demo_cpu_lawful this, of 1000 "\<lambda>_. False"] show ?thesis by auto
qed

end
