(* ===== verification/Harness_Load.thy ===== *)
theory Harness_Load
  imports Harness_Clock
begin

text \<open>
  Loading an executable into the host's machine: the bus of \<^verbatim>\<open>harness.c\<close> is the guest memory of the
  hunk loader.  The window of the loader is the memory board, or the chip RAM above the first
  4 KB when there is no board.
\<close>

unbundle bit_operations_syntax

section \<open>The memory board as the loader's window\<close>

definition board_limit :: "fastram_board \<Rightarrow> u32" where
  "board_limit b = (if unat (fr_base b) + unat (fr_size b) \<le> 2 ^ 24 then fr_base b + fr_size b else 0)"

text \<open>A machine that differs from \<open>h\<close> in nothing but the contents of the board.\<close>

definition board_only :: "('c, 'h) harness \<Rightarrow> fastram_board \<Rightarrow> ('c, 'h) harness option \<Rightarrow> bool" where
  "board_only h b m \<longleftrightarrow> hn_chip_ram_size h \<le> fr_base b \<and> fr_configured b \<and>
     (\<exists>ram. length ram = length (fr_ram b) \<and> m = Some (h\<lparr>hn_fastram := Some (b\<lparr>fr_ram := ram\<rparr>)\<rparr>))"

lemma bus_address_small: "unat a < 2 ^ 24 \<Longrightarrow> bus_address a = a"
proof -
  assume "unat a < 2 ^ 24"
  moreover have "bus_address a = take_bit 24 a" by (simp add: take_bit_eq_mask mask_eq_exp_minus_1)
  ultimately show ?thesis by (simp add: word_unat_eq_iff unsigned_take_bit_eq take_bit_nat_eq_self)
qed

lemma board_address:
  assumes "fr_base b \<le> a" "a < board_limit b" "hn_chip_ram_size h \<le> fr_base b" "fr_configured b"
  shows "bus_address a = a" "\<not> a < hn_chip_ram_size h" "fastram_owns (b\<lparr>fr_ram := r\<rparr>) a"
proof -
  have lim: "unat (fr_base b) + unat (fr_size b) \<le> 2 ^ 24" "a < fr_base b + fr_size b"
    using assms(2) by (auto simp: board_limit_def split: if_splits)
  then have "unat (fr_base b + fr_size b) = unat (fr_base b) + unat (fr_size b)"
    by (simp add: unat_word_ariths)
  then show "bus_address a = a" using lim by (intro bus_address_small) (simp add: word_less_nat_alt)
  show "\<not> a < hn_chip_ram_size h" using assms(1,3) by simp
  show "fastram_owns (b\<lparr>fr_ram := r\<rparr>) a" using assms(1,4) lim by (simp add: fastram_owns_def)
qed

interpretation board_window:
  loader_window "harness_hunk_mem env core" "board_only h b" "fr_base b" "board_limit b"
proof
  fix a :: u32 and m :: "('b, 'a) harness option" and v :: u8
  assume a: "fr_base b \<le> a" "a < board_limit b" and m: "board_only h b m"
  obtain ram where ram: "length ram = length (fr_ram b)" "m = Some (h\<lparr>hn_fastram := Some (b\<lparr>fr_ram := ram\<rparr>)\<rparr>)"
    and h: "hn_chip_ram_size h \<le> fr_base b" "fr_configured b"
    using m by (auto simp: board_only_def)
  note at = board_address [OF a h]
  have "hm_write8 (harness_hunk_mem env core) m a v =
      Some (h\<lparr>hn_fastram := Some (b\<lparr>fr_ram := ram[unat (a - fr_base b) := ucast (ucast v :: u32)]\<rparr>)\<rparr>)"
    using ram at by (simp add: harness_hunk_mem_def harness_write8_def hn_fastram_owns_def
        hn_fastram_write_def fastram_write_def Let_def)
  then show "board_only h b (hm_write8 (harness_hunk_mem env core) m a v)"
    using ram h unfolding board_only_def by (metis length_list_update)
  show "board_only h b (snd (hm_read8 (harness_hunk_mem env core) m a))"
    using ram at h m by (simp add: harness_hunk_mem_def harness_read8_def hn_fastram_owns_def)
next
  show "unat (board_limit b) \<le> 2 ^ 28"
    by (simp add: board_limit_def unat_word_ariths)
qed

section \<open>Chip RAM as the loader's window\<close>

definition chip_limit :: "('c, 'h) harness \<Rightarrow> u32" where
  "chip_limit h = (if unat (hn_chip_ram_size h) \<le> 2 ^ 24 then hn_chip_ram_size h else 0)"

text \<open>A machine that differs from \<open>h\<close> in nothing but the chip RAM above the vectors.\<close>

definition chip_only :: "('c, 'h) harness \<Rightarrow> ('c, 'h) harness option \<Rightarrow> bool" where
  "chip_only h m \<longleftrightarrow>
     (\<exists>ram. length ram = length (hn_chip_ram h) \<and> take 0x1000 ram = take 0x1000 (hn_chip_ram h) \<and>
        m = Some (hn_set_chip_ram ram h))"

lemma chip_ram_set [simp]:
  "hn_chip_ram (hn_set_chip_ram ram h) = ram"
  "hn_set_chip_ram r (hn_set_chip_ram ram h) = hn_set_chip_ram r h"
  "hn_chip_ram_size (hn_set_chip_ram ram h) = hn_chip_ram_size h"
  "hn_set_chip_ram (hn_chip_ram h) h = h"
  by (simp_all add: hn_chip_ram_def hn_set_chip_ram_def)

interpretation chip_window:
  loader_window "harness_hunk_mem env core" "chip_only h" "0x1000" "chip_limit h"
proof
  fix a :: u32 and m :: "('b, 'a) harness option" and v :: u8
  assume a: "0x1000 \<le> a" "a < chip_limit h" and m: "chip_only h m"
  obtain ram where ram: "length ram = length (hn_chip_ram h)" "take 0x1000 ram = take 0x1000 (hn_chip_ram h)"
    "m = Some (hn_set_chip_ram ram h)"
    using m by (auto simp: chip_only_def)
  have lt: "a < hn_chip_ram_size h" "unat a < 2 ^ 24"
    using a(2) by (auto simp: chip_limit_def word_less_nat_alt split: if_splits)
  then have at: "bus_address a = a" by (intro bus_address_small)
  have "0x1000 \<le> unat a" using a(1) by (simp add: word_le_nat_alt)
  moreover have "hm_write8 (harness_hunk_mem env core) m a v = Some (hn_set_chip_ram (ram[unat a := v]) h)"
    using ram(3) at lt by (simp add: harness_hunk_mem_def harness_write8_def Let_def)
  ultimately show "chip_only h (hm_write8 (harness_hunk_mem env core) m a v)"
    unfolding chip_only_def using ram(1,2) by (metis length_list_update take_update_cancel)
  have "snd (hm_read8 (harness_hunk_mem env core) m a) = m"
    using ram(3) at lt by (simp add: harness_hunk_mem_def harness_read8_def Let_def split_beta)
  then show "chip_only h (snd (hm_read8 (harness_hunk_mem env core) m a))" using m by simp
next
  show "unat (chip_limit h) \<le> 2 ^ 28" by (simp add: chip_limit_def)
qed

section \<open>Confinement\<close>

text \<open>Every size in the table of the file is at most a gigabyte.\<close>

definition sizes_small :: "u8 list \<Rightarrow> (u32 \<Rightarrow> u8) \<Rightarrow> bool" where
  "sizes_small data beyond \<longleftrightarrow>
     (\<forall>r count. hunk_header (hunk_reader data beyond) = Some (Inr (r, count)) \<longrightarrow>
        (\<forall>w \<in> set (rd_words (unat count) r). unat (w AND 0x3fffffff) \<le> 2 ^ 28))"

lemma load_chip_confined:
  assumes "hunk_load (harness_hunk_mem env core) (Some data) beyond 0x1000 (hn_chip_ram_size h) (Some h) = Some (res, m)"
    and "0x1000 \<le> hn_chip_ram_size h" "unat (hn_chip_ram_size h) \<le> 2 ^ 24" "sizes_small data beyond"
  shows "chip_only h m"
proof (rule chip_window.load_ok)
  show "hunk_load (harness_hunk_mem env core) (Some data) beyond 0x1000 (chip_limit h) (Some h) = Some (res, m)"
    using assms(1,3) by (simp add: chip_limit_def)
  show "chip_only h (Some h)"
    unfolding chip_only_def by (rule exI [of _ "hn_chip_ram h"]) simp
  show "unat (0x1000 :: u32) \<le> unat (chip_limit h)"
    using assms(2,3) by (simp add: chip_limit_def word_le_nat_alt)
qed (use assms(4) in \<open>auto simp: sizes_small_def\<close>)

text \<open>
  C8: Loading an executable into the memory board touches nothing but the board.  For every
  file, well formed or not, whose size table has no entry above 2^28 longwords, a load that
  returns has left every other part of the machine as it was, the board's configuration, the
  registers and chip RAM included, and has not run the clock: a relocation, a size or a hunk that
  does not fit cannot reach outside the board's window.  Larger sizes are excluded because the
  check of the code wraps for them; that a malformed file is ever done with is not claimed.
  The board is configured, lies above chip RAM and inside the 16 MB of the bus.
\<close>

theorem load_board_confined:
  fixes h :: "('c, 'h) harness"
  assumes "hunk_load (harness_hunk_mem env core) (Some data) beyond (fr_base b) (fr_base b + fr_size b) (Some h) =
      Some (res, m)"
    and "hn_fastram h = Some b" "fr_configured b" "hn_chip_ram_size h \<le> fr_base b"
    and "unat (fr_base b) + unat (fr_size b) \<le> 2 ^ 24" "sizes_small data beyond"
  shows "\<exists>ram. length ram = length (fr_ram b) \<and> m = Some (h\<lparr>hn_fastram := Some (b\<lparr>fr_ram := ram\<rparr>)\<rparr>)"
proof -
  have lim: "board_limit b = fr_base b + fr_size b" using assms(5) by (simp add: board_limit_def)
  have "board_only h b m"
  proof (rule board_window.load_ok)
    show "hunk_load (harness_hunk_mem env core) (Some data) beyond (fr_base b) (board_limit b) (Some h) = Some (res, m)"
      using assms(1) by (simp add: lim)
    show "board_only h b (Some h)"
      unfolding board_only_def using assms(2-4) by (auto intro!: exI [of _ "fr_ram b"])
    show "unat (fr_base b) \<le> unat (board_limit b)" using assms(5) by (simp add: lim unat_word_ariths)
  qed (use assms(6) in \<open>auto simp: sizes_small_def\<close>)
  then show ?thesis by (simp add: board_only_def)
qed

text \<open>An executable of one hunk of two longwords, the second of them relocated.\<close>

definition demo_hunk :: "u8 list" where
  "demo_hunk =
     [0,0,3,0xf3, 0,0,0,0, 0,0,0,1, 0,0,0,0, 0,0,0,0, 0,0,0,2,
      0,0,3,0xe9, 0,0,0,2, 0x11,0x22,0x33,0x44, 0,0,0,4,
      0,0,3,0xec, 0,0,0,1, 0,0,0,0, 0,0,0,4, 0,0,0,0, 0,0,3,0xf2]"

definition demo_reader :: "nat \<Rightarrow> reader" where
  "demo_reader p = (hunk_reader demo_hunk (\<lambda>_. 0))\<lparr>rr_pos := of_nat p\<rparr>"

lemma demo_rd32:
  "rd32 (demo_reader 0) = (0x3f3, demo_reader 4)"
  "rd32 (demo_reader 4) = (0, demo_reader 8)"
  "rd32 (demo_reader 8) = (1, demo_reader 12)"
  "rd32 (demo_reader 12) = (0, demo_reader 16)"
  "rd32 (demo_reader 16) = (0, demo_reader 20)"
  "rd32 (demo_reader 20) = (2, demo_reader 24)"
  "rd32 (demo_reader 24) = (0x3e9, demo_reader 28)"
  "rd32 (demo_reader 28) = (2, demo_reader 32)"
  "rd32 (demo_reader 40) = (0x3ec, demo_reader 44)"
  "rd32 (demo_reader 44) = (1, demo_reader 48)"
  "rd32 (demo_reader 48) = (0, demo_reader 52)"
  "rd32 (demo_reader 52) = (4, demo_reader 56)"
  "rd32 (demo_reader 56) = (0, demo_reader 60)"
  "rd32 (demo_reader 60) = (0x3f2, demo_reader 64)"
  by (simp_all add: rd32_def demo_reader_def hunk_reader_def demo_hunk_def be32_join_def)


lemma demo_header: "hunk_header (hunk_reader demo_hunk (\<lambda>_. 0)) = Some (Inr (demo_reader 20, 1))"
proof -
  have over: "\<not> rr_overrun (demo_reader p)" for p by (simp add: demo_reader_def hunk_reader_def)
  have "hunk_reader demo_hunk (\<lambda>_. 0) = demo_reader 0" by (simp add: demo_reader_def hunk_reader_def)
  moreover have "hunk_names (demo_reader 4) = Some (Inr (demo_reader 8))"
    by (simp add: hunk_names.simps [of "demo_reader 4"] demo_rd32)
  ultimately show ?thesis by (simp add: hunk_header_def demo_rd32 over)
qed

lemma demo_reader_simps [simp]:
  "\<not> rr_overrun (demo_reader p)" "rr_pos (demo_reader p) = of_nat p" "rr_size (demo_reader p) = 64"
  "(demo_reader p)\<lparr>rr_pos := of_nat q\<rparr> = demo_reader q"
  by (simp_all add: demo_reader_def hunk_reader_def demo_hunk_def)

lemma demo_place: "fst (hunk_place k \<lparr>hs_data = [d], hs_size = [8]\<rparr> 0 (demo_reader 28) m) = None \<and>
   fst (snd (hunk_place k \<lparr>hs_data = [d], hs_size = [8]\<rparr> 0 (demo_reader 28) m)) = demo_reader 40"
  using demo_reader_simps(4) [of 40 32]
  by (simp add: hunk_place_def demo_rd32)

lemma demo_relocs: "\<exists>m'. hunk_relocs k \<lparr>hs_data = [d], hs_size = [8]\<rparr> 1 0 (demo_reader 44) m = Some (None, demo_reader 60, m')"
proof -
  obtain m1 where g: "hunk_reloc_group k \<lparr>hs_data = [d], hs_size = [8]\<rparr> 1 0 1 (demo_reader 48) m = (None, demo_reader 56, m1)"
    by (simp add: hunk_reloc_group_def demo_rd32 split_beta)
  show ?thesis
    using g by (simp add: hunk_relocs.simps [of k _ _ _ "demo_reader 44"] hunk_relocs.simps [of k _ _ _ "demo_reader 56"]
        demo_rd32)
qed

lemma demo_blocks: "\<exists>m'. hunk_blocks k \<lparr>hs_data = [d], hs_size = [8]\<rparr> 1 0 (demo_reader 24) m = Some (None, m')"
proof -
  let ?s = "\<lparr>hs_data = [d], hs_size = [8]\<rparr>"
  have e: "hunk_blocks k ?s 1 1 r m = Some (None, m)" for r m
    by (simp add: hunk_blocks.simps [of k _ _ _ r])
  have d: "hunk_blocks k ?s 1 0 (demo_reader 60) m = Some (None, m)" for m
    using e by (simp add: hunk_blocks.simps [of k _ _ _ "demo_reader 60"] demo_rd32 hunk_block_def)
  have c: "\<exists>m'. hunk_blocks k ?s 1 0 (demo_reader 40) m = Some (None, m')" for m
    using demo_relocs [of k d m] d
    by (auto simp: hunk_blocks.simps [of k _ _ _ "demo_reader 40"] demo_rd32 hunk_block_def)
  obtain m1 where "hunk_place k ?s 0 (demo_reader 28) m = (None, demo_reader 40, m1)"
    using demo_place [of k d m] by (metis prod.collapse)
  then show ?thesis
    using c [of m1] by (simp add: hunk_blocks.simps [of k _ _ _ "demo_reader 24"] demo_rd32 hunk_block_def)
qed

lemma demo_load:
  "\<exists>img m'. hunk_load k (Some demo_hunk) (\<lambda>_. 0) 0x200000 0x200040 m = Some (Inr img, m') \<and>
     hi_entry img = 0x200008 \<and> hi_end img = 0x200020"
proof -
  let ?segs = "\<lparr>hs_data = [0x200008], hs_size = [8]\<rparr>"
  obtain m1 where r: "hunk_reserve k 0x200040 1 0 (demo_reader 20) 0x200000 \<lparr>hs_data = [], hs_size = []\<rparr> m =
      (Inr (demo_reader 24, 0x200020, ?segs), m1)"
    by (simp add: demo_rd32 Let_def)
  obtain m2 where "hunk_blocks k ?segs 1 0 (demo_reader 24) (hunk_chain k ?segs 1 m1) = Some (None, m2)"
    using demo_blocks [of k "0x200008" "hunk_chain k ?segs 1 m1"] by blast
  then show ?thesis
    using r by (simp add: hunk_load_def demo_header del: hunk_reserve.simps)
qed


definition demo_board :: fastram_board where
  "demo_board = \<lparr>fr_config = [], fr_configured = True, fr_shutup = False, fr_base = 0x200000,
     fr_ram = replicate 64 0, fr_size = 64\<rparr>"

theorem load_board_confined_witness:
  "let h = demo_harness\<lparr>hn_fastram := Some demo_board\<rparr>
   in \<exists>img m. hunk_load (harness_hunk_mem demo_env (mc_core demo_cpu)) (Some demo_hunk) (\<lambda>_. 0)
          0x200000 0x200040 (Some h) = Some (Inr img, m) \<and> hi_entry img = 0x200008 \<and>
        (\<exists>ram. length ram = 64 \<and> m = Some (h\<lparr>hn_fastram := Some (demo_board\<lparr>fr_ram := ram\<rparr>)\<rparr>))"
proof -
  let ?h = "demo_harness\<lparr>hn_fastram := Some demo_board\<rparr>"
  let ?k = "harness_hunk_mem demo_env (mc_core demo_cpu)"
  obtain img m where l: "hunk_load ?k (Some demo_hunk) (\<lambda>_. 0) 0x200000 0x200040 (Some ?h) = Some (Inr img, m)"
    and e: "hi_entry img = 0x200008"
    using demo_load [of ?k "Some ?h"] by blast
  have w: "hunk_load ?k (Some demo_hunk) (\<lambda>_. 0) (fr_base demo_board) (fr_base demo_board + fr_size demo_board) (Some ?h) =
      Some (Inr img, m)"
    using l by (simp add: demo_board_def)
  have s: "sizes_small demo_hunk (\<lambda>_. 0)"
    by (auto simp: sizes_small_def demo_header demo_rd32)
  have "\<exists>ram. length ram = length (fr_ram demo_board) \<and> m = Some (?h\<lparr>hn_fastram := Some (demo_board\<lparr>fr_ram := ram\<rparr>)\<rparr>)"
    by (rule load_board_confined [OF w _ _ _ _ s])
      (simp_all add: demo_board_def demo_harness_def)
  moreover have "length (fr_ram demo_board) = 64" by (simp add: demo_board_def)
  ultimately show ?thesis using l e by (auto simp: Let_def)
qed

end
