(* ===== verification/Harness_Memory.thy ===== *)
theory Harness_Memory
  imports Harness_Clock
begin

text \<open>
  What the bus of the host is to a program: the addresses behind which there is memory, and the
  autoconfiguration of the boards, one after the other, at one and the same address.
\<close>

unbundle bit_operations_syntax

section \<open>Memory\<close>

text \<open>The arrays have the sizes that the decode goes by.\<close>

definition bus_sizes :: "('c, 'h) harness \<Rightarrow> bool" where
  "bus_sizes h \<longleftrightarrow> length (hn_chip_ram h) = unat (hn_chip_ram_size h) \<and>
     length (hn_slow_ram h) = unat (hn_slow_ram_size h) \<and>
     (\<forall>b. hn_fastram h = Some b \<longrightarrow>
        length (fr_ram b) = unat (fr_size b) \<and> unat (fr_base b) + unat (fr_size b) \<le> 2 ^ 24) \<and>
     unat (hn_slow_ram_size h) \<le> 2 ^ 22"

text \<open>The addresses of memory, in the order of the decode; \<open>a\<close> has 24 bits.\<close>

definition fast_at :: "('c, 'h) harness \<Rightarrow> u32 \<Rightarrow> bool" where
  "fast_at h a \<longleftrightarrow> \<not> a < hn_chip_ram_size h \<and> hn_fastram_owns h a"

definition slow_at :: "('c, 'h) harness \<Rightarrow> u32 \<Rightarrow> bool" where
  "slow_at h a \<longleftrightarrow> \<not> a < hn_chip_ram_size h \<and> \<not> hn_fastram_owns h a \<and> \<not> hn_lide_owns h a \<and>
     \<not> addr_in_autoconfig a \<and> \<not> addr_in_cia a \<and> addr_in_slow h a"

definition bus_ram :: "('c, 'h) harness \<Rightarrow> u32 \<Rightarrow> bool" where
  "bus_ram h a \<longleftrightarrow>
     bus_address a < hn_chip_ram_size h \<or> fast_at h (bus_address a) \<or> slow_at h (bus_address a)"

text \<open>The byte there.\<close>

definition ram_byte :: "('c, 'h) harness \<Rightarrow> u32 \<Rightarrow> u8" where
  "ram_byte h a =
     (let a = bus_address a
      in if a < hn_chip_ram_size h then hn_chip_ram h ! unat a
         else if hn_fastram_owns h a then fr_ram (the (hn_fastram h)) ! unat (a - fr_base (the (hn_fastram h)))
         else hn_slow_ram h ! unat (a - HARNESS_SLOW_RAM_BASE))"

definition set_ram_byte :: "u32 \<Rightarrow> u8 \<Rightarrow> ('c, 'h) harness \<Rightarrow> ('c, 'h) harness" where
  "set_ram_byte a v h =
     (let a = bus_address a
      in if a < hn_chip_ram_size h then hn_set_chip_ram ((hn_chip_ram h)[unat a := v]) h
         else if hn_fastram_owns h a then
           h\<lparr>hn_fastram := map_option (\<lambda>b. b\<lparr>fr_ram := (fr_ram b)[unat (a - fr_base b) := v]\<rparr>) (hn_fastram h)\<rparr>
         else h\<lparr>hn_slow_ram := (hn_slow_ram h)[unat (a - HARNESS_SLOW_RAM_BASE) := v]\<rparr>)"

lemma fastram_byte [simp]: "ucast (ucast (x :: u8) :: u32) = x"
  by (rule bit_word_eqI) (simp add: bit_simps)

lemma write8_ram: "bus_ram h a \<Longrightarrow> harness_write8 env core h a v = Some (set_ram_byte a v h)"
  by (auto simp: bus_ram_def fast_at_def slow_at_def harness_write8_def set_ram_byte_def Let_def
      hn_fastram_write_def fastram_write_def)

lemma read8_ram:
  "bus_ram h a \<Longrightarrow> \<not> fst (harness_overlay h) \<Longrightarrow> harness_read8 env core h a = Some (ram_byte h a, h)"
  by (auto simp: bus_ram_def fast_at_def slow_at_def harness_read8_def ram_byte_def Let_def split_beta
      hn_fastram_owns_def hn_fastram_read_def fastram_read_def split: option.splits)

lemma set_ram_byte_fields [simp]:
  "hn_chip_ram_size (set_ram_byte a v h) = hn_chip_ram_size h"
  "hn_slow_ram_size (set_ram_byte a v h) = hn_slow_ram_size h"
  "hn_lide (set_ram_byte a v h) = hn_lide h"
  "hn_fastram_owns (set_ram_byte a v h) b = hn_fastram_owns h b"
  "hn_lide_owns (set_ram_byte a v h) b = hn_lide_owns h b"
  "addr_in_slow (set_ram_byte a v h) b = addr_in_slow h b"
  by (simp_all add: set_ram_byte_def hn_set_chip_ram_def hn_fastram_owns_def hn_lide_owns_def addr_in_slow_def
      fastram_owns_def Let_def split: option.split)

lemma bus_ram_set [simp]: "bus_ram (set_ram_byte a v h) b = bus_ram h b"
  by (simp add: bus_ram_def fast_at_def slow_at_def)

lemma cia_value_ram:
  "fst (rigel_cia_read (ctx\<lparr>rc_ram := m\<rparr>) cid reg) = fst (rigel_cia_read ctx cid reg)"
  by (simp add: rigel_cia_read_def split_beta ctx_paula_def del: cia_read_reg.simps)

lemma overlay_set [simp]: "fst (harness_overlay (set_ram_byte a v h)) = fst (harness_overlay h)"
  by (simp add: harness_overlay_def set_ram_byte_def hn_set_chip_ram_def split_beta Let_def port_a_read cia_value_ram)

text \<open>Two addresses of the same memory have different offsets.\<close>

lemma offset_inj: "unat (a - c) = unat (b - c) \<longleftrightarrow> a = b" for a b c :: u32
  by (simp add: word_unat_eq_iff [symmetric])

lemma board_offset:
  assumes "hn_fastram h = Some b" "hn_fastram_owns h a" "bus_sizes h"
  shows "unat (a - fr_base b) < length (fr_ram b)"
proof -
  have o: "fr_base b \<le> a" "a < fr_base b + fr_size b" using assms(1,2) by (simp_all add: hn_fastram_owns_def fastram_owns_def)
  have s: "length (fr_ram b) = unat (fr_size b)" "unat (fr_base b) + unat (fr_size b) \<le> 2 ^ 24"
    using assms(1,3) by (simp_all add: bus_sizes_def)
  have "unat (a - fr_base b) = unat a - unat (fr_base b)" using o(1) by (rule unat_sub)
  moreover have "unat a < unat (fr_base b) + unat (fr_size b)"
    using o(2) s(2) by (simp add: word_less_nat_alt unat_word_ariths)
  moreover have "unat (fr_base b) \<le> unat a" using o(1) by (simp add: word_le_nat_alt)
  ultimately show ?thesis using s(1) by linarith
qed

lemma slow_offset:
  assumes "addr_in_slow h a" "bus_sizes h"
  shows "unat (a - HARNESS_SLOW_RAM_BASE) < length (hn_slow_ram h)"
proof -
  have o: "HARNESS_SLOW_RAM_BASE \<le> a" "a < HARNESS_SLOW_RAM_BASE + hn_slow_ram_size h"
    using assms(1) by (simp_all add: addr_in_slow_def)
  have s: "length (hn_slow_ram h) = unat (hn_slow_ram_size h)" "unat (hn_slow_ram_size h) \<le> 2 ^ 22"
    using assms(2) by (simp_all add: bus_sizes_def)
  have "unat (a - HARNESS_SLOW_RAM_BASE) = unat a - 0xc00000" using unat_sub [OF o(1)] by simp
  moreover have "unat a < 0xc00000 + unat (hn_slow_ram_size h)"
    using o(2) s(2) by (simp add: word_less_nat_alt unat_word_ariths)
  moreover have "0xc00000 \<le> unat a" using o(1) by (simp add: word_le_nat_alt)
  ultimately show ?thesis using s(1) by linarith
qed

lemma slow_owns: "hn_fastram_owns (h\<lparr>hn_slow_ram := r\<rparr>) c = hn_fastram_owns h c"
  by (simp add: hn_fastram_owns_def)

lemma ram_byte_set:
  assumes "bus_sizes h" "bus_ram h a" "bus_ram h b"
  shows "ram_byte (set_ram_byte a v h) b = (if bus_address a = bus_address b then v else ram_byte h b)"
proof (cases "bus_address a < hn_chip_ram_size h")
  case True
  moreover have "unat (bus_address a) < length (hn_chip_ram h)"
    using True assms(1) by (simp add: bus_sizes_def word_less_nat_alt)
  ultimately show ?thesis
    by (auto simp: ram_byte_def set_ram_byte_def Let_def nth_list_update word_unat_eq_iff [symmetric]
        hn_fastram_owns_def hn_chip_ram_def hn_set_chip_ram_def)
next
  case chip: False
  show ?thesis
  proof (cases "hn_fastram_owns h (bus_address a)")
    case True
    then obtain fb where fb: "hn_fastram h = Some fb" by (auto simp: hn_fastram_owns_def split: option.splits)
    note at = board_offset [OF fb True assms(1)]
    have "hn_fastram_owns (h\<lparr>hn_fastram := Some (fb\<lparr>fr_ram := r\<rparr>)\<rparr>) c = hn_fastram_owns h c" for r c
      by (simp add: fb hn_fastram_owns_def fastram_owns_def)
    then show ?thesis
      using chip True fb at by (auto simp: ram_byte_def set_ram_byte_def Let_def nth_list_update offset_inj hn_chip_ram_def)
  next
    case False
    then have "slow_at h (bus_address a)" using chip assms(2) by (auto simp: bus_ram_def fast_at_def)
    then have at: "unat (bus_address a - HARNESS_SLOW_RAM_BASE) < length (hn_slow_ram h)"
      using slow_offset [OF _ assms(1)] by (simp add: slow_at_def)
    then show ?thesis
      using chip False by (auto simp: ram_byte_def set_ram_byte_def Let_def nth_list_update offset_inj hn_chip_ram_def
          slow_owns)
  qed
qed

lemma bus_sizes_set: "bus_sizes h \<Longrightarrow> bus_sizes (set_ram_byte a v h)"
  by (auto simp: bus_sizes_def set_ram_byte_def hn_set_chip_ram_def hn_chip_ram_def Let_def)

text \<open>
  C9: While the overlay of the ROM is off, the memory map is one memory.  At every address with chip,
  fast or slow RAM behind it, a byte that the CPU writes is the one it reads back, every other
  address of RAM keeps its byte whichever memory it lies in, and what is memory stays so and the
  overlay stays off; the address is taken modulo 16 MB.  (With the overlay on, as after a reset,
  reads of low chip RAM come from the ROM and writes still go to the RAM.)
\<close>

theorem bus_memory:
  assumes "bus_sizes h" "bus_ram h a" "\<not> fst (harness_overlay h)"
  shows "\<exists>h'. harness_write8 env core h a v = Some h' \<and> bus_sizes h' \<and> \<not> fst (harness_overlay h') \<and>
    harness_read8 env core h' a = Some (v, h') \<and>
    (\<forall>b. bus_ram h' b = bus_ram h b) \<and>
    (\<forall>b. bus_ram h b \<and> bus_address b \<noteq> bus_address a \<longrightarrow>
       map_option fst (harness_read8 env core h' b) = map_option fst (harness_read8 env core h b))"
proof (rule exI [of _ "set_ram_byte a v h"], intro conjI allI impI)
  show "harness_read8 env core (set_ram_byte a v h) a = Some (v, set_ram_byte a v h)"
    using assms read8_ram [of "set_ram_byte a v h" a] ram_byte_set [OF assms(1,2,2)] by simp
  show "map_option fst (harness_read8 env core (set_ram_byte a v h) b) = map_option fst (harness_read8 env core h b)"
    if b: "bus_ram h b \<and> bus_address b \<noteq> bus_address a" for b
    using assms b read8_ram [of "set_ram_byte a v h" b] read8_ram [of h b] ram_byte_set [OF assms(1,2), of b] by auto
qed (use assms write8_ram bus_sizes_set in simp_all)

definition demo_bus :: "(unit, unit) harness" where
  "demo_bus = demo_harness\<lparr>hn_rigel := demo_machine\<lparr>rc_ram := replicate 1024 0\<rparr>,
     hn_slow_ram := replicate 16 0, hn_slow_ram_size := 16,
     hn_fastram := Some \<lparr>fr_config = [], fr_configured = True, fr_shutup = False, fr_base = 0x200000,
       fr_ram = replicate 64 7, fr_size = 64\<rparr>\<rparr>"

theorem bus_memory_witness:
  "\<exists>h'. harness_write8 demo_env (mc_core demo_cpu) demo_bus 0xff200003 0x5a = Some h' \<and>
     harness_read8 demo_env (mc_core demo_cpu) h' 0xff200003 = Some (0x5a, h') \<and>
     map_option fst (harness_read8 demo_env (mc_core demo_cpu) h' 0x200004) = Some 7"
proof -
  have s: "bus_sizes demo_bus"
    by (simp add: bus_sizes_def demo_bus_def hn_chip_ram_def demo_harness_def)
  have r: "bus_ram demo_bus 0xff200003" "bus_ram demo_bus 0x200004"
    by (simp_all add: bus_ram_def fast_at_def demo_bus_def demo_harness_def hn_fastram_owns_def fastram_owns_def)
  have o: "\<not> fst (harness_overlay demo_bus)"
    by (simp add: harness_overlay_def demo_bus_def demo_harness_def)
  have seven: "ram_byte demo_bus 0x200004 = 7"
    by (simp add: ram_byte_def demo_bus_def demo_harness_def hn_fastram_owns_def fastram_owns_def)
  have "map_option fst (harness_read8 demo_env (mc_core demo_cpu) demo_bus 0x200004) = Some 7"
    using read8_ram [OF r(2) o] seven by simp
  then show ?thesis
    using bus_memory [OF s r(1) o, of demo_env "mc_core demo_cpu" "0x5a"] r(2) by fastforce
qed

end
