(* ===== verification/Harness_Autoconfig.thy ===== *)
theory Harness_Autoconfig
  imports Harness_Memory
begin

text \<open>
  The autoconfiguration of the two boards through the bus: one window, one board at a time.
\<close>

unbundle bit_operations_syntax

section \<open>The window\<close>

abbreviation ac_addr :: "nat \<Rightarrow> u32" where "ac_addr off \<equiv> ZORRO_AC_BASE + of_nat off"

text \<open>Nothing else answers in the window.\<close>

definition ac_clear :: "('c, 'h) harness \<Rightarrow> bool" where
  "ac_clear h \<longleftrightarrow> hn_chip_ram_size h \<le> ZORRO_AC_BASE \<and>
     (\<forall>off < 256. \<not> hn_fastram_owns h (ac_addr off) \<and> \<not> hn_lide_owns h (ac_addr off))"

definition bus_byte :: "'h rigel_env \<Rightarrow> 'c m68k_core \<Rightarrow> ('c, 'h) harness \<Rightarrow> u32 \<Rightarrow> u8" where
  "bus_byte env core h a = fst (the (harness_read8 env core h a))"

lemma ac_addr_unat: "off < 256 \<Longrightarrow> unat (ac_addr off) = 0xe80000 + off"
  by (simp add: unat_word_ariths unat_of_nat)

lemma ac_addr_facts:
  assumes "off < 256" "ac_clear h"
  shows "bus_address (ac_addr off) = ac_addr off" "\<not> ac_addr off < hn_chip_ram_size h"
    "addr_in_autoconfig (ac_addr off)" "ac_addr off - ZORRO_AC_BASE = of_nat off"
    "\<not> hn_fastram_owns h (ac_addr off)" "\<not> hn_lide_owns h (ac_addr off)"
proof -
  note u = ac_addr_unat [OF assms(1)]
  have "take_bit 24 (ac_addr off) = ac_addr off"
    using u assms(1) by (simp add: word_unat_eq_iff unsigned_take_bit_eq take_bit_nat_eq_self)
  then show "bus_address (ac_addr off) = ac_addr off" by (simp add: take_bit_eq_mask mask_eq_exp_minus_1)
  have "unat (hn_chip_ram_size h) \<le> 0xe80000" using assms(2) by (simp add: ac_clear_def word_le_nat_alt)
  then show "\<not> ac_addr off < hn_chip_ram_size h" using u by (simp add: word_less_nat_alt)
  show "addr_in_autoconfig (ac_addr off)"
    using u assms(1) unfolding addr_in_autoconfig_def word_le_nat_alt word_less_nat_alt by simp
  show "\<not> hn_fastram_owns h (ac_addr off)" "\<not> hn_lide_owns h (ac_addr off)"
    using assms by (simp_all add: ac_clear_def)
qed simp

lemma ac_read:
  assumes "off < 256" "ac_clear h" "harness_autoconfig_active h"
  shows "harness_read8 env core h (ac_addr off) = Some (harness_autoconfig_read h (ac_addr off), h)"
  using ac_addr_facts [OF assms(1,2)] assms(3) by (simp add: harness_read8_def Let_def)

lemma ac_write:
  assumes "off < 256" "ac_clear h" "harness_autoconfig_active h"
  shows "harness_write8 env core h (ac_addr off) v = Some (harness_autoconfig_write h (ac_addr off) v)"
  using ac_addr_facts [OF assms(1,2)] assms(3) by (simp add: harness_write8_def Let_def)

text \<open>What the guest reads is the identification that went into the board.\<close>

lemma ac_fields:
  assumes "ac_clear h" "harness_autoconfig_active h" "i < 16"
    and "\<And>off. off < 64 \<Longrightarrow> harness_autoconfig_read h (ac_addr off) = zorro_autoconfig_build raw ! off"
  shows "autoconfig_field (\<lambda>off. bus_byte env core h (ac_addr off)) i = raw ! i"
proof -
  have "bus_byte env core h (ac_addr off) = zorro_autoconfig_build raw ! off" if "off < 64" for off
    using ac_read [OF _ assms(1,2), where off = off and env = env and core = core] assms(4) [OF that] that by (simp add: bus_byte_def)
  note e = this
  have "i * 4 < 64" "i * 4 + 2 < 64" using assms(3) by simp_all
  then have "autoconfig_field (\<lambda>off. bus_byte env core h (ac_addr off)) i =
      autoconfig_field (\<lambda>off. zorro_autoconfig_build raw ! off) i"
    unfolding autoconfig_field_def by (simp only: e)
  then show ?thesis using autoconfig_field_build [OF assms(3)] by simp
qed

text \<open>The window stays clear when a board is given a base whose range keeps away from it.\<close>

definition base_clear :: "u8 \<Rightarrow> u32 \<Rightarrow> bool" where
  "base_clear v len \<longleftrightarrow> (\<forall>off < 256. \<not> (push_bit 16 (ucast v) \<le> ac_addr off \<and> ac_addr off < push_bit 16 (ucast v) + len))"

text \<open>
  C10: The boards are configured one after the other through the same 64 bytes.  While the memory
  board waits, the CPU reads its identification at 0xE80000; writing a base to register 0x48
  places the memory there, and from then on the same reads give the identification of the disk board, which takes the next
  base written; the memory board keeps its own.  Then the window is empty, and both
  boards answer exactly at the bases they were given.
\<close>

theorem autoconfig_chain:
  fixes h :: "('c, 'h) harness"
  assumes "hn_fastram h = Some b" "fastram_pending b" "fr_config b = zorro_autoconfig_build raw_b"
    and "hn_lide h = Some l" "lide_pending l" "lb_config l = zorro_autoconfig_build raw_l"
    and "ac_clear h" "base_clear v (fr_size b)" "base_clear w LIDE_WINDOW_SIZE"
  shows "(\<forall>i. i < 16 \<longrightarrow> autoconfig_field (\<lambda>off. bus_byte env core h (ac_addr off)) i = raw_b ! i) \<and>
    (\<exists>h1 h2. harness_write8 env core h (ac_addr 0x48) v = Some h1 \<and>
       (\<forall>i. i < 16 \<longrightarrow> autoconfig_field (\<lambda>off. bus_byte env core h1 (ac_addr off)) i = raw_l ! i) \<and>
       harness_write8 env core h1 (ac_addr 0x48) w = Some h2 \<and> \<not> harness_autoconfig_active h2 \<and>
       h2 = h\<lparr>hn_fastram := Some (b\<lparr>fr_base := push_bit 16 (ucast v), fr_configured := True\<rparr>),
              hn_lide := Some (l\<lparr>lb_base := push_bit 16 (ucast w), lb_configured := True\<rparr>)\<rparr> \<and>
       (\<forall>a. hn_fastram_owns h2 a \<longleftrightarrow> push_bit 16 (ucast v) \<le> a \<and> a < push_bit 16 (ucast v) + fr_size b) \<and>
       (\<forall>a. hn_lide_owns h2 a \<longleftrightarrow> push_bit 16 (ucast w) \<le> a \<and> a < push_bit 16 (ucast w) + LIDE_WINDOW_SIZE))"
proof -
  let ?b = "b\<lparr>fr_base := push_bit 16 (ucast v), fr_configured := True\<rparr>"
  let ?l = "l\<lparr>lb_base := push_bit 16 (ucast w), lb_configured := True\<rparr>"
  let ?h1 = "h\<lparr>hn_fastram := Some ?b\<rparr>" and ?h2 = "h\<lparr>hn_fastram := Some ?b, hn_lide := Some ?l\<rparr>"
  have and_ff: "x AND 0xff = x" for x :: u8 by (rule bit_word_eqI) (simp add: bit_simps mask_simps)
  have act: "harness_autoconfig_active h" "harness_autoconfig_active ?h1"
    using assms(1,2,4,5) by (simp_all add: harness_autoconfig_active_def hn_fastram_pending_def hn_lide_pending_def)
  have lo: "\<not> lide_owns l a" for a using assms(5) by (simp add: lide_owns_def lide_pending_def)
  have clear1: "ac_clear ?h1"
    using assms(4,7,8) lo by (simp add: ac_clear_def base_clear_def hn_fastram_owns_def hn_lide_owns_def fastram_owns_def)
  have r0: "harness_autoconfig_read h (ac_addr off) = zorro_autoconfig_build raw_b ! off" if "off < 64" for off
    using that assms(1-3) by (simp add: harness_autoconfig_read_def hn_fastram_pending_def fastram_ac_read_def unat_of_nat)
  have r1: "harness_autoconfig_read ?h1 (ac_addr off) = zorro_autoconfig_build raw_l ! off" if "off < 64" for off
    using that assms(4-6) by (simp add: harness_autoconfig_read_def hn_fastram_pending_def hn_lide_pending_def
        fastram_pending_def lide_ac_read_def unat_of_nat)
  have w1: "harness_write8 env core h (ac_addr 0x48) v = Some ?h1"
    using ac_write [OF _ assms(7) act(1), where off = "0x48" and env = env and core = core and v = v] assms(1,2)
    by (simp add: harness_autoconfig_write_def hn_fastram_pending_def fastram_ac_write_def and_ff)
  have w2: "harness_write8 env core ?h1 (ac_addr 0x48) w = Some ?h2"
    using ac_write [OF _ clear1 act(2), where off = "0x48" and env = env and core = core and v = w] assms(4,5)
    by (simp add: harness_autoconfig_write_def hn_fastram_pending_def hn_lide_pending_def fastram_pending_def
        lide_ac_write_def and_ff)
  have f0: "\<forall>i. i < 16 \<longrightarrow> autoconfig_field (\<lambda>off. bus_byte env core h (ac_addr off)) i = raw_b ! i"
    using ac_fields [OF assms(7) act(1) _ r0] by blast
  have f1: "\<forall>i. i < 16 \<longrightarrow> autoconfig_field (\<lambda>off. bus_byte env core ?h1 (ac_addr off)) i = raw_l ! i"
    using ac_fields [OF clear1 act(2) _ r1] by blast
  have off: "\<not> harness_autoconfig_active ?h2"
    by (simp add: harness_autoconfig_active_def hn_fastram_pending_def hn_lide_pending_def fastram_pending_def lide_pending_def)
  have own: "hn_fastram_owns ?h2 a \<longleftrightarrow> push_bit 16 (ucast v) \<le> a \<and> a < push_bit 16 (ucast v) + fr_size b"
    "hn_lide_owns ?h2 a \<longleftrightarrow> push_bit 16 (ucast w) \<le> a \<and> a < push_bit 16 (ucast w) + LIDE_WINDOW_SIZE" for a
    by (simp_all add: hn_fastram_owns_def hn_lide_owns_def fastram_owns_def lide_owns_def)
  show ?thesis using f0 w1 f1 w2 off own by blast
qed

lemma base_clear_examples: "base_clear 0x20 0x800000" "base_clear 0xea 0x20000"
  using ac_addr_unat by (auto simp: base_clear_def word_le_nat_alt word_less_nat_alt)

theorem autoconfig_chain_witness:
  "\<forall>old. let core = mc_core demo_cpu;
             h = demo_harness\<lparr>hn_fastram := fastram_create True 8, hn_lide := lide_create False True old (Some [1])\<rparr>
    in autoconfig_field (\<lambda>off. bus_byte demo_env core h (ac_addr off)) 5 = 0xdb \<and>
       (\<exists>h1 h2. harness_write8 demo_env core h (ac_addr 0x48) 0x20 = Some h1 \<and>
          autoconfig_field (\<lambda>off. bus_byte demo_env core h1 (ac_addr off)) 5 = RIPPLE_MFR_LO \<and>
          harness_write8 demo_env core h1 (ac_addr 0x48) 0xea = Some h2 \<and>
          hn_fastram_owns h2 0x2fffff \<and> hn_lide_owns h2 0xea1000)"
proof
  fix old :: "(media_file AtapiCdromState, media_file) AtaIdeChannel"
  let ?core = "mc_core demo_cpu"
  obtain b where b: "fastram_create True 8 = Some b" by (simp add: fastram_create_def Let_def)
  obtain l where l: "lide_create False True old (Some [1]) = Some l" by (simp add: lide_create_def Let_def)
  let ?h = "demo_harness\<lparr>hn_fastram := Some b, hn_lide := Some l\<rparr>"
  define raw where "raw = (replicate ZORRO_AC_ROM_BYTES 0)
      [0 := AC_TYPE_Z2 OR AC_TYPE_MEMLIST OR size_code (8 * 1024 * 1024), 1 := 0x01, 4 := 0x07, 5 := 0xdb, 9 := 0x01]"
  have fb: "fastram_pending b" "fr_config b = zorro_autoconfig_build raw" "fr_size b = 0x800000" "\<not> fr_configured b"
    using b by (auto simp: fastram_create_def Let_def fastram_pending_def raw_def)
  have fl: "lide_pending l" "lb_config l = zorro_autoconfig_build lide_ac_bytes" "\<not> lb_configured l"
    using l by (auto simp: lide_create_def Let_def lide_pending_def)
  have clear: "ac_clear ?h"
    using fb(4) fl(3) by (simp add: ac_clear_def hn_fastram_owns_def hn_lide_owns_def fastram_owns_def lide_owns_def demo_harness_def)
  have raws: "raw ! 5 = 0xdb" "lide_ac_bytes ! 5 = RIPPLE_MFR_LO" by (simp_all add: raw_def lide_ac_bytes_def)
  have five: "(5 :: nat) < 16" by simp
  have size1: "base_clear 0x20 (fr_size b)" using base_clear_examples fb(3) by simp
  have h: "hn_fastram ?h = Some b" "hn_lide ?h = Some l" by simp_all
  from autoconfig_chain [OF h(1) fb(1,2) h(2) fl(1,2) clear size1 base_clear_examples(2), where env = demo_env and core = ?core]
  obtain h1 h2 where c: "autoconfig_field (\<lambda>off. bus_byte demo_env ?core ?h (ac_addr off)) 5 = 0xdb"
      "harness_write8 demo_env ?core ?h (ac_addr 0x48) 0x20 = Some h1"
      "autoconfig_field (\<lambda>off. bus_byte demo_env ?core h1 (ac_addr off)) 5 = RIPPLE_MFR_LO"
      "harness_write8 demo_env ?core h1 (ac_addr 0x48) 0xea = Some h2"
      "\<forall>a. hn_fastram_owns h2 a \<longleftrightarrow> push_bit 16 (ucast (0x20 :: u8)) \<le> a \<and> a < push_bit 16 (ucast (0x20 :: u8)) + fr_size b"
      "\<forall>a. hn_lide_owns h2 a \<longleftrightarrow> push_bit 16 (ucast (0xea :: u8)) \<le> a \<and> a < push_bit 16 (ucast (0xea :: u8)) + LIDE_WINDOW_SIZE"
    using five raws by metis
  have "hn_fastram_owns h2 0x2fffff" "hn_lide_owns h2 0xea1000" using c(5,6) fb(3) by simp_all
  then show "let core = mc_core demo_cpu;
             h = demo_harness\<lparr>hn_fastram := fastram_create True 8, hn_lide := lide_create False True old (Some [1])\<rparr>
    in autoconfig_field (\<lambda>off. bus_byte demo_env core h (ac_addr off)) 5 = 0xdb \<and>
       (\<exists>h1 h2. harness_write8 demo_env core h (ac_addr 0x48) 0x20 = Some h1 \<and>
          autoconfig_field (\<lambda>off. bus_byte demo_env core h1 (ac_addr off)) 5 = RIPPLE_MFR_LO \<and>
          harness_write8 demo_env core h1 (ac_addr 0x48) 0xea = Some h2 \<and>
          hn_fastram_owns h2 0x2fffff \<and> hn_lide_owns h2 0xea1000)"
    unfolding Let_def b l using c(1-4) by blast
qed

end
