(* ===== verification/Host_Video.thy ===== *)
theory Host_Video
  imports Harness_Bus Paula_Serial
begin

text \<open>
  The window of the host (\<^verbatim>\<open>harness/harness_video.c\<close>): the keyboard map, mouse and keyboard events and the ring of
  sound samples between the emulation and the sound card.  SDL is not part of the repository; an
  event of it is a value of a datatype, a scancode the name of its constant, and drawing is left
  out.  The sound callback and the push run one after the other here; the program has no lock
  between the two threads.
\<close>

unbundle bit_operations_syntax

section \<open>Keyboard\<close>

text \<open>A key by the name of its constant, without the prefix \<^verbatim>\<open>SDL_SCANCODE_\<close>.\<close>

type_synonym scancode = string

definition rawkeys :: "(scancode \<times> u8) list" where
  "rawkeys =
     [(''A'', 0x20), (''B'', 0x35), (''C'', 0x33), (''D'', 0x22),
      (''E'', 0x12), (''F'', 0x23), (''G'', 0x24), (''H'', 0x25),
      (''I'', 0x17), (''J'', 0x26), (''K'', 0x27), (''L'', 0x28),
      (''M'', 0x37), (''N'', 0x36), (''O'', 0x18), (''P'', 0x19),
      (''Q'', 0x10), (''R'', 0x13), (''S'', 0x21), (''T'', 0x14),
      (''U'', 0x16), (''V'', 0x34), (''W'', 0x11), (''X'', 0x32),
      (''Y'', 0x15), (''Z'', 0x31), (''1'', 0x01), (''2'', 0x02),
      (''3'', 0x03), (''4'', 0x04), (''5'', 0x05), (''6'', 0x06),
      (''7'', 0x07), (''8'', 0x08), (''9'', 0x09), (''0'', 0x0a),
      (''MINUS'', 0x0b), (''EQUALS'', 0x0c), (''BACKSLASH'', 0x0d), (''LEFTBRACKET'', 0x1a),
      (''RIGHTBRACKET'', 0x1b), (''SEMICOLON'', 0x29), (''APOSTROPHE'', 0x2a), (''GRAVE'', 0x00),
      (''COMMA'', 0x38), (''PERIOD'', 0x39), (''SLASH'', 0x3a), (''SPACE'', 0x40),
      (''BACKSPACE'', 0x41), (''TAB'', 0x42), (''RETURN'', 0x44), (''ESCAPE'', 0x45),
      (''DELETE'', 0x46), (''CAPSLOCK'', 0x62), (''LCTRL'', 0x63), (''LSHIFT'', 0x60),
      (''RSHIFT'', 0x61), (''LALT'', 0x64), (''RALT'', 0x65), (''LGUI'', 0x66),
      (''RGUI'', 0x67), (''HELP'', 0x5f), (''UP'', 0x4c), (''DOWN'', 0x4d),
      (''RIGHT'', 0x4e), (''LEFT'', 0x4f), (''F1'', 0x50), (''F2'', 0x51),
      (''F3'', 0x52), (''F4'', 0x53), (''F5'', 0x54), (''F6'', 0x55),
      (''F7'', 0x56), (''F8'', 0x57), (''F9'', 0x58), (''F10'', 0x59),
      (''KP_0'', 0x0f), (''KP_1'', 0x1d), (''KP_2'', 0x1e), (''KP_3'', 0x1f),
      (''KP_4'', 0x2d), (''KP_5'', 0x2e), (''KP_6'', 0x2f), (''KP_7'', 0x3d),
      (''KP_8'', 0x3e), (''KP_9'', 0x3f), (''KP_PERIOD'', 0x3c), (''KP_ENTER'', 0x43),
      (''KP_MINUS'', 0x4a), (''KP_DIVIDE'', 0x5c), (''KP_MULTIPLY'', 0x5d), (''KP_PLUS'', 0x5e)]"

definition map_scancode :: "scancode \<Rightarrow> u8 option" where
  "map_scancode sc = map_of rawkeys sc"

section \<open>Events\<close>

datatype SDL_Button = SDL_BUTTON_LEFT | SDL_BUTTON_RIGHT | SDL_BUTTON_MIDDLE | SDL_BUTTON_OTHER

text \<open>The relative motion is a C \<^verbatim>\<open>int\<close>.\<close>

datatype SDL_Event =
  SDL_QUIT
| SDL_KEY bool bool scancode
| SDL_MOUSEMOTION "32 word" "32 word"
| SDL_MOUSEBUTTON bool SDL_Button
| SDL_OTHER

record harness_video =
  hv_mouse_x :: u8
  hv_mouse_y :: u8
  hv_mouse_grabbed :: bool
  hv_quit :: bool

definition set_grab :: "harness_video \<Rightarrow> bool \<Rightarrow> harness_video" where
  "set_grab v on = (if hv_mouse_grabbed v = on then v else v\<lparr>hv_mouse_grabbed := on\<rparr>)"

text \<open>A key event is \<open>SDL_KEY down repeat key\<close>.\<close>

fun video_event ::
    "SDL_Event \<Rightarrow> harness_video \<times> ('m, 'h) rigel_context \<Rightarrow> harness_video \<times> ('m, 'h) rigel_context" where
  "video_event SDL_QUIT (v, ctx) = (v\<lparr>hv_quit := True\<rparr>, ctx)"
| "video_event (SDL_KEY down again key) (v, ctx) =
     (if again then (v, ctx)
      else if down \<and> key = ''F12'' then (set_grab v (\<not> hv_mouse_grabbed v), ctx)
      else if down \<and> key = ''ESCAPE'' \<and> hv_mouse_grabbed v then (set_grab v False, ctx)
      else case map_scancode key of
             None \<Rightarrow> (v, ctx)
           | Some rawkey \<Rightarrow> (v, rigel_keyboard_inject ctx rawkey down))"
| "video_event (SDL_MOUSEMOTION xrel yrel) (v, ctx) =
     (if \<not> hv_mouse_grabbed v then (v, ctx)
      else
        let v = v\<lparr>hv_mouse_x := hv_mouse_x v + ucast xrel, hv_mouse_y := hv_mouse_y v + ucast yrel\<rparr>
        in (v, rigel_input_set_joydat ctx 0 (push_bit 8 (ucast (hv_mouse_y v)) OR ucast (hv_mouse_x v))))"
| "video_event (SDL_MOUSEBUTTON down button) (v, ctx) =
     (case button of
        SDL_BUTTON_LEFT \<Rightarrow>
          if down \<and> \<not> hv_mouse_grabbed v then (set_grab v True, ctx)
          else (v, rigel_input_set_fire ctx 0 down)
      | SDL_BUTTON_RIGHT \<Rightarrow> (v, rigel_input_set_pot_button_x ctx 0 down)
      | SDL_BUTTON_MIDDLE \<Rightarrow> (v, rigel_input_set_pot_button_y ctx 0 down)
      | SDL_BUTTON_OTHER \<Rightarrow> (v, ctx))"
| "video_event SDL_OTHER (v, ctx) = (v, ctx)"

definition harness_video_pump ::
    "SDL_Event list \<Rightarrow> harness_video \<times> ('m, 'h) rigel_context \<Rightarrow>
     bool \<times> harness_video \<times> ('m, 'h) rigel_context" where
  "harness_video_pump events s = (let (v, ctx) = fold video_event events s in (\<not> hv_quit v, v, ctx))"

text \<open>No two keys of the host are the same key of the guest, and every code leaves room for the up bit.\<close>

lemma rawkeys_distinct: "distinct (map fst rawkeys)" "distinct (map snd rawkeys)"
  by (simp_all add: rawkeys_def)

lemma map_scancode_inj: "map_scancode a = Some k \<Longrightarrow> map_scancode b = Some k \<Longrightarrow> a = b"
  using rawkeys_distinct by (metis map_scancode_def distinct_map eq_key_imp_eq_value inj_onD map_of_SomeD snd_conv prod.inject)

lemma rawkey_range: "map_scancode a = Some k \<Longrightarrow> k < 0x68"
proof -
  assume "map_scancode a = Some k"
  then have "(a, k) \<in> set rawkeys" by (simp add: map_scancode_def map_of_SomeD)
  then have "k \<in> snd ` set rawkeys" by force
  then show ?thesis by (auto simp: rawkeys_def)
qed

section \<open>The ring of samples\<close>

abbreviation AUDIO_RING_FRAMES :: u32 where "AUDIO_RING_FRAMES \<equiv> 16384"

record audio_ring =
  ar_buf :: "i16 list"
  ar_head :: u32
  ar_tail :: u32
  ar_underruns :: u64
  ar_last_l :: i16
  ar_last_r :: i16

definition audio_ring_zero :: audio_ring where
  "audio_ring_zero = \<lparr>ar_buf = replicate 32768 0, ar_head = 0, ar_tail = 0, ar_underruns = 0,
     ar_last_l = 0, ar_last_r = 0\<rparr>"

definition harness_audio_push :: "audio_ring \<Rightarrow> i16 \<times> i16 \<Rightarrow> audio_ring" where
  "harness_audio_push a s =
     (let next1 = (ar_head a + 1) mod AUDIO_RING_FRAMES
      in if next1 = ar_tail a then a
         else a\<lparr>ar_buf := (ar_buf a)[unat (ar_head a) * 2 := fst s, unat (ar_head a) * 2 + 1 := snd s],
                ar_head := next1\<rparr>)"

text \<open>What one round of the callback takes out of the ring.\<close>

definition audio_take :: "audio_ring \<Rightarrow> ((i16 \<times> i16) \<times> audio_ring) option" where
  "audio_take a =
     (let tail = ar_tail a
      in if tail = ar_head a then None
         else
           let l = ar_buf a ! (unat tail * 2); r = ar_buf a ! (unat tail * 2 + 1)
           in Some ((l, r), a\<lparr>ar_last_l := l, ar_last_r := r, ar_tail := (tail + 1) mod AUDIO_RING_FRAMES\<rparr>))"

fun audio_callback :: "nat \<Rightarrow> audio_ring \<Rightarrow> (i16 \<times> i16) list \<times> audio_ring" where
  "audio_callback 0 a = ([], a)"
| "audio_callback (Suc frames) a =
     (case audio_take a of
        None \<Rightarrow>
          let (out, a') = audio_callback frames (a\<lparr>ar_underruns := ar_underruns a + 1\<rparr>)
          in ((ar_last_l a, ar_last_r a) # out, a')
      | Some (s, a) \<Rightarrow> let (out, a') = audio_callback frames a in (s # out, a'))"

text \<open>The frames in the ring, the oldest first.\<close>

definition ring_size :: "audio_ring \<Rightarrow> nat" where
  "ring_size a = (unat (ar_head a) + 16384 - unat (ar_tail a)) mod 16384"

definition ring_frame :: "audio_ring \<Rightarrow> nat \<Rightarrow> i16 \<times> i16" where
  "ring_frame a i = (let k = (unat (ar_tail a) + i) mod 16384 in (ar_buf a ! (k * 2), ar_buf a ! (k * 2 + 1)))"

definition ring_content :: "audio_ring \<Rightarrow> (i16 \<times> i16) list" where
  "ring_content a = map (ring_frame a) [0..<ring_size a]"

definition ring_ok :: "audio_ring \<Rightarrow> bool" where
  "ring_ok a \<longleftrightarrow> length (ar_buf a) = 32768 \<and> ar_head a < 16384 \<and> ar_tail a < 16384"

lemma frame_next: "unat ((i + 1) mod AUDIO_RING_FRAMES) = Suc (unat i) mod 16384" if "i < 16384" for i :: u32
proof -
  have "unat i < 16384" using that by (simp add: word_less_nat_alt)
  then have "unat (i + 1) = Suc (unat i)" by (simp add: unat_word_ariths)
  then show ?thesis by (simp add: unat_mod)
qed

lemma ring_frame_upd [simp]:
  "ring_frame (a\<lparr>ar_head := h\<rparr>) i = ring_frame a i" "ring_frame (a\<lparr>ar_underruns := u\<rparr>) i = ring_frame a i"
  "ring_size (a\<lparr>ar_underruns := u\<rparr>) = ring_size a" "ring_ok (a\<lparr>ar_underruns := u\<rparr>) = ring_ok a"
  "ring_content (a\<lparr>ar_underruns := u\<rparr>) = ring_content a"
  by (simp_all add: ring_frame_def ring_size_def ring_ok_def ring_content_def)

lemma mod_wrap: "a < 2 * N \<Longrightarrow> a mod N = (if a < N then a else a - N)" for a N :: nat
  by (simp add: le_mod_geq)

lemma ring_arith:
  fixes h t sz :: nat
  assumes "h < 16384" "t < 16384" and sz: "sz = (h + 16384 - t) mod 16384"
  shows "Suc h mod 16384 = t \<longleftrightarrow> \<not> sz < 16383"
    "sz < 16383 \<Longrightarrow> (Suc h mod 16384 + 16384 - t) mod 16384 = Suc sz"
    "i < sz \<Longrightarrow> (t + i) mod 16384 \<noteq> h" "(t + sz) mod 16384 = h"
proof -
  have s: "sz = (if t \<le> h then h - t else h + 16384 - t)"
    using assms mod_wrap [of "h + 16384 - t" 16384] by auto
  have m: "Suc h mod 16384 = (if Suc h < 16384 then Suc h else 0)"
    using assms(1) mod_wrap [of "Suc h" 16384] by auto
  show cap: "Suc h mod 16384 = t \<longleftrightarrow> \<not> sz < 16383"
    using assms(1,2) unfolding m s by (auto split: if_splits)
  have w: "(Suc h mod 16384 + 16384 - t) mod 16384 =
      (if Suc h mod 16384 + 16384 - t < 16384 then Suc h mod 16384 + 16384 - t else Suc h mod 16384 + 16384 - t - 16384)"
    using assms(1,2) by (intro mod_wrap) (auto simp: m)
  show "sz < 16383 \<Longrightarrow> (Suc h mod 16384 + 16384 - t) mod 16384 = Suc sz"
    using assms(1,2) unfolding w unfolding m s by (auto split: if_splits)
  have r: "(t + i) mod 16384 = (if t + i < 16384 then t + i else t + i - 16384)" if "i < 16384" for i
    using assms(2) that by (intro mod_wrap) simp
  show "i < sz \<Longrightarrow> (t + i) mod 16384 \<noteq> h"
    using assms(1,2) r [of i] unfolding s by (auto split: if_splits)
  have "sz < 16384" using sz by simp
  then show "(t + sz) mod 16384 = h"
    using assms(1,2) r [of sz] unfolding s by (auto split: if_splits)
qed

lemma push_ring:
  assumes "ring_ok a"
  shows "ring_ok (harness_audio_push a s)"
    "ring_content (harness_audio_push a s) =
      (if length (ring_content a) < 16383 then ring_content a @ [s] else ring_content a)"
proof -
  define h t where "h = unat (ar_head a)" and "t = unat (ar_tail a)"
  have ok: "length (ar_buf a) = 32768" "h < 16384" "t < 16384" "ar_head a < 16384"
    using assms by (simp_all add: ring_ok_def h_def t_def word_less_nat_alt)
  have nx: "unat ((ar_head a + 1) mod AUDIO_RING_FRAMES) = Suc h mod 16384"
    using frame_next [OF ok(4)] by (simp add: h_def)
  have full: "(ar_head a + 1) mod AUDIO_RING_FRAMES = ar_tail a \<longleftrightarrow> Suc h mod 16384 = t"
    unfolding word_unat_eq_iff nx t_def ..
  have size: "ring_size a = (h + 16384 - t) mod 16384" by (simp add: ring_size_def h_def t_def)
  note cap = ring_arith(1) [OF ok(2,3) size]
  let ?a = "harness_audio_push a s"
  show "ring_ok ?a"
    using assms nx by (auto simp: harness_audio_push_def Let_def ring_ok_def word_less_nat_alt)
  show "ring_content ?a = (if length (ring_content a) < 16383 then ring_content a @ [s] else ring_content a)"
  proof (cases "Suc h mod 16384 = t")
    case True
    then have "?a = a" using full by (simp add: harness_audio_push_def)
    then show ?thesis using True cap by (simp add: ring_content_def)
  next
    case False
    then have a: "?a = a\<lparr>ar_buf := (ar_buf a)[h * 2 := fst s, h * 2 + 1 := snd s],
        ar_head := (ar_head a + 1) mod AUDIO_RING_FRAMES\<rparr>"
      using full by (simp add: harness_audio_push_def Let_def h_def)
    have "ring_size a < 16383" using False cap by simp
    then have sz: "ring_size ?a = Suc (ring_size a)"
      using ring_arith(2) [OF ok(2,3) size] by (simp add: a ring_size_def nx t_def [symmetric])
    have old: "ring_frame ?a i = ring_frame a i" if "i < ring_size a" for i
    proof -
      have "(t + i) mod 16384 \<noteq> h" by (rule ring_arith(3) [OF ok(2,3) size that])
      moreover have "2 * k \<noteq> Suc (2 * j)" for k j :: nat by presburger
      ultimately show ?thesis
        by (auto simp: a ring_frame_def Let_def t_def [symmetric] nth_list_update mult.commute)
    qed
    have new: "ring_frame ?a (ring_size a) = s"
    proof -
      have "(t + ring_size a) mod 16384 = h" by (rule ring_arith(4) [OF ok(2,3) size])
      then show ?thesis
        using ok(1,2) by (simp add: a ring_frame_def Let_def t_def [symmetric])
    qed
    have "ring_content ?a = map (ring_frame a) [0..<ring_size a] @ [s]"
      using old by (simp add: ring_content_def sz new)
    then show ?thesis using False cap by (simp add: ring_content_def)
  qed
qed

lemma take_ring:
  assumes "ring_ok a"
  shows "audio_take a = None \<longleftrightarrow> ring_content a = []"
    "audio_take a = Some (s, a') \<Longrightarrow> ring_ok a' \<and> ring_content a = s # ring_content a' \<and>
       (ar_last_l a', ar_last_r a') = s"
proof -
  define h t where "h = unat (ar_head a)" and "t = unat (ar_tail a)"
  have ok: "h < 16384" "t < 16384" "ar_tail a < 16384"
    using assms by (simp_all add: ring_ok_def h_def t_def word_less_nat_alt)
  have nx: "unat ((ar_tail a + 1) mod AUDIO_RING_FRAMES) = Suc t mod 16384"
    using frame_next [OF ok(3)] by (simp add: t_def)
  have m: "Suc t mod 16384 = (if Suc t < 16384 then Suc t else 0)"
    using ok(2) mod_wrap [of "Suc t" 16384] by auto
  have size: "ring_size a = (if t \<le> h then h - t else h + 16384 - t)"
    using ok mod_wrap [of "h + 16384 - t" 16384] by (auto simp: ring_size_def h_def t_def)
  have eq: "ar_tail a = ar_head a \<longleftrightarrow> t = h" by (simp add: h_def t_def word_unat_eq_iff)
  then show "audio_take a = None \<longleftrightarrow> ring_content a = []"
    using size ok by (auto simp: audio_take_def ring_content_def Let_def)
  assume some: "audio_take a = Some (s, a')"
  then have ne: "t \<noteq> h" using eq by (auto simp: audio_take_def)
  have s: "s = (ar_buf a ! (t * 2), ar_buf a ! (t * 2 + 1))" and a': "a' = a\<lparr>ar_last_l := fst s, ar_last_r := snd s,
      ar_tail := (ar_tail a + 1) mod AUDIO_RING_FRAMES\<rparr>"
    using some ne eq by (auto simp: audio_take_def Let_def t_def)
  have w: "(h + 16384 - Suc t mod 16384) mod 16384 =
      (if h + 16384 - Suc t mod 16384 < 16384 then h + 16384 - Suc t mod 16384 else h + 16384 - Suc t mod 16384 - 16384)"
    using ok(1,2) by (intro mod_wrap) (auto simp: m)
  have "ring_size a' = (h + 16384 - Suc t mod 16384) mod 16384"
    by (simp add: a' ring_size_def nx h_def)
  then have sz: "ring_size a = Suc (ring_size a')"
    using ok(1,2) ne unfolding w unfolding m size by (auto split: if_splits)
  have fr: "ring_frame a' i = ring_frame a (Suc i)" for i
  proof -
    have "(Suc t mod 16384 + i) mod 16384 = (t + Suc i) mod 16384" by (simp add: mod_simps)
    then show ?thesis by (simp add: a' ring_frame_def nx t_def [symmetric])
  qed
  have "[0..<ring_size a] = 0 # map Suc [0..<ring_size a']" by (simp add: sz map_Suc_upt upt_conv_Cons)
  moreover have "ring_frame a 0 = s" using ok(2) by (simp add: ring_frame_def s t_def [symmetric])
  ultimately have "ring_content a = s # ring_content a'" by (simp add: ring_content_def fr)
  moreover have "ring_ok a'" using assms nx by (simp add: a' ring_ok_def word_less_nat_alt)
  ultimately show "ring_ok a' \<and> ring_content a = s # ring_content a' \<and> (ar_last_l a', ar_last_r a') = s"
    by (simp add: a')
qed

interpretation sample_ring: bounded_fifo harness_audio_push audio_take ring_content "\<lambda>s. s" ring_ok 16383
proof
  fix a s a' and x :: "i16 \<times> i16"
  assume ok: "ring_ok a"
  show "ring_ok (harness_audio_push a x)" by (rule push_ring(1) [OF ok])
  show "ring_content (harness_audio_push a x) =
      (if length (ring_content a) < 16383 then ring_content a @ [x] else ring_content a)"
    by (rule push_ring(2) [OF ok])
  show "(audio_take a = None) = (ring_content a = [])" by (rule take_ring(1) [OF ok])
  show "audio_take a = Some (s, a') \<Longrightarrow> ring_ok a' \<and> ring_content a = s # ring_content a'"
    using take_ring(2) [OF ok] by blast
  have "(unat (ar_head a) + 16384 - unat (ar_tail a)) mod 16384 < 16384" by simp
  then show "length (ring_content a) \<le> 16383" unfolding ring_content_def ring_size_def by (simp del: mod_less_divisor)
qed

text \<open>What the sound card gets: the queued frames, then the last one again.\<close>

definition ring_last :: "audio_ring \<Rightarrow> i16 \<times> i16" where
  "ring_last a = (ar_last_l a, ar_last_r a)"

lemma callback_exact:
  assumes "ring_ok a" "audio_callback n a = (out, a')"
  shows "ring_ok a'" "ring_content a' = drop n (ring_content a)"
    "out = take n (ring_content a) @ replicate (n - length (ring_content a)) (last (ring_last a # take n (ring_content a)))"
    "ring_last a' = last (ring_last a # take n (ring_content a))"
proof -
  have "ring_ok a' \<and> ring_content a' = drop n (ring_content a) \<and>
      out = take n (ring_content a) @ replicate (n - length (ring_content a)) (last (ring_last a # take n (ring_content a))) \<and>
      ring_last a' = last (ring_last a # take n (ring_content a))"
    using assms
  proof (induction n arbitrary: a out)
    case (Suc n)
    show ?case
    proof (cases "audio_take a")
      case None
      let ?u = "a\<lparr>ar_underruns := ar_underruns a + 1\<rparr>"
      obtain o1 where c: "audio_callback n ?u = (o1, a')" "out = ring_last a # o1"
        using Suc.prems(2) None by (auto simp: ring_last_def split: prod.splits)
      have "ring_content a = []" using take_ring(1) [OF Suc.prems(1)] None by blast
      moreover have "ring_last ?u = ring_last a" by (simp add: ring_last_def)
      ultimately show ?thesis using Suc.IH [of ?u o1] Suc.prems(1) c by simp
    next
      case (Some x)
      obtain s b where x: "audio_take a = Some (s, b)" using Some by (cases x) auto
      obtain o1 where c: "audio_callback n b = (o1, a')" "out = s # o1"
        using Suc.prems(2) x by (auto split: prod.splits)
      note t = take_ring(2) [OF Suc.prems(1) x]
      have "ring_last b = s" using t by (simp add: ring_last_def)
      then show ?thesis using Suc.IH [of b o1] t c by simp
    qed
  qed simp
  then show "ring_ok a'" "ring_content a' = drop n (ring_content a)"
    "out = take n (ring_content a) @ replicate (n - length (ring_content a)) (last (ring_last a # take n (ring_content a)))"
    "ring_last a' = last (ring_last a # take n (ring_content a))" by blast+
qed

section \<open>The stream of sound\<close>

text \<open>
  Pushes and callbacks in any order, with a record of what was pushed and what the sound card
  got.  A pushed frame is marked when the ring held fewer than 16383 frames at that moment; a
  frame of the card is marked when the ring still had one for it, that is, when it is not an
  underrun.  The marks are read off the queue that the ring stands for, not off what the
  operations did.
\<close>

datatype audio_op = PUSH "i16 \<times> i16" | CALLBACK nat

record audio_run =
  run_ring :: audio_ring
  run_pushed :: "((i16 \<times> i16) \<times> bool) list"
  run_heard :: "((i16 \<times> i16) \<times> bool) list"

fun audio_do :: "audio_op \<Rightarrow> audio_run \<Rightarrow> audio_run" where
  "audio_do (PUSH s) r =
     r\<lparr>run_ring := harness_audio_push (run_ring r) s,
       run_pushed := run_pushed r @ [(s, length (ring_content (run_ring r)) < 16383)]\<rparr>"
| "audio_do (CALLBACK n) r =
     (let (out, a) = audio_callback n (run_ring r);
          fresh = min n (length (ring_content (run_ring r)))
      in r\<lparr>run_ring := a,
           run_heard := run_heard r @ zip out (replicate fresh True @ replicate (n - fresh) False)\<rparr>)"

definition audio_start :: audio_run where
  "audio_start = \<lparr>run_ring = audio_ring_zero, run_pushed = [], run_heard = []\<rparr>"

text \<open>A frame that is not marked is the one before it.\<close>

fun held :: "i16 \<times> i16 \<Rightarrow> ((i16 \<times> i16) \<times> bool) list \<Rightarrow> bool" where
  "held p [] = True"
| "held p ((x, fresh) # r) = ((fresh \<or> x = p) \<and> held x r)"

lemma held_append: "held p (xs @ ys) \<longleftrightarrow> held p xs \<and> held (last (p # map fst xs)) ys"
  by (induction xs arbitrary: p) auto

lemma held_fresh: "held p (zip xs (replicate (length xs) True))"
  by (induction xs arbitrary: p) auto

lemma held_same: "held p (zip (replicate n p) (replicate n False))"
  by (induction n) auto

definition marked_frames :: "((i16 \<times> i16) \<times> bool) list \<Rightarrow> (i16 \<times> i16) list" where
  "marked_frames l = map fst (filter snd l)"

lemma marked_append [simp]: "marked_frames (xs @ ys) = marked_frames xs @ marked_frames ys"
  by (simp add: marked_frames_def)

lemma marked_single [simp]: "marked_frames [(s, m)] = (if m then [s] else [])"
  by (simp add: marked_frames_def)

lemma marked_all [simp]: "marked_frames (zip xs (replicate (length xs) True)) = xs"
  by (induction xs) (simp_all add: marked_frames_def)

lemma marked_none [simp]: "marked_frames (zip ys (replicate n False)) = []"
  by (auto simp: marked_frames_def filter_empty_conv dest: set_zip_rightD)

definition stream_ok :: "audio_run \<Rightarrow> bool" where
  "stream_ok r \<longleftrightarrow> ring_ok (run_ring r) \<and> held (0, 0) (run_heard r) \<and>
     ring_last (run_ring r) = last ((0, 0) # map fst (run_heard r)) \<and>
     marked_frames (run_heard r) @ ring_content (run_ring r) = marked_frames (run_pushed r)"

lemma callback_heard:
  fixes a :: audio_ring
  assumes "ring_ok a" "audio_callback n a = (out, a')"
  defines "k \<equiv> min n (length (ring_content a))"
  defines "marked \<equiv> zip out (replicate k True @ replicate (n - k) False)"
  shows "held (ring_last a) marked" "marked_frames marked = take n (ring_content a)"
    "last (p # map fst marked) = (if marked = [] then p else ring_last a')"
    "length marked = n"
proof -
  let ?q = "take n (ring_content a)" and ?l = "last (ring_last a # take n (ring_content a))"
  have len: "length ?q = k" by (simp add: k_def min.commute)
  have nk: "n - length (ring_content a) = n - k" by (auto simp: k_def)
  have out: "out = ?q @ replicate (n - k) ?l" using callback_exact(3) [OF assms(1,2)] unfolding nk .
  have m: "marked = zip ?q (replicate (length ?q) True) @ zip (replicate (n - k) ?l) (replicate (n - k) False)"
    unfolding marked_def out by (subst zip_append) (simp_all only: len length_replicate)
  have f: "map fst (zip ?q (replicate (length ?q) True)) = ?q" by (simp add: map_fst_zip)
  show "held (ring_last a) marked" unfolding m held_append f by (rule conjI [OF held_fresh held_same])
  show "marked_frames marked = take n (ring_content a)"
    unfolding m by (simp only: marked_append marked_all marked_none append_Nil2)
  show "length marked = n" unfolding m using len by (simp add: k_def)
  have fst: "map fst marked = out" using out len unfolding marked_def by (simp add: map_fst_zip k_def)
  have last: "ring_last a' = ?l" by (rule callback_exact(4) [OF assms(1,2)])
  have "last (p # out) = ?l" if "n \<noteq> 0"
  proof (cases "n - k = 0")
    case True
    then have "?q \<noteq> []" using that len by auto
    then show ?thesis using True by (simp add: out)
  next
    case False
    then show ?thesis by (simp add: out)
  qed
  then show "last (p # map fst marked) = (if marked = [] then p else ring_last a')"
    using \<open>length marked = n\<close> fst last by auto
qed

lemma stream_do: "stream_ok r \<Longrightarrow> stream_ok (audio_do op r)"
proof (cases op)
  case (PUSH s)
  assume ok: "stream_ok r"
  let ?a = "run_ring r"
  have rok: "ring_ok ?a" using ok by (simp add: stream_ok_def)
  have "ring_last (harness_audio_push ?a s) = ring_last ?a"
    by (simp add: harness_audio_push_def ring_last_def Let_def)
  then show ?thesis
    using ok push_ring [OF rok, of s] PUSH by (auto simp: stream_ok_def simp flip: append_assoc)
next
  case (CALLBACK n)
  assume ok: "stream_ok r"
  obtain out a' where c: "audio_callback n (run_ring r) = (out, a')" by fastforce
  have rok: "ring_ok (run_ring r)" using ok by (simp add: stream_ok_def)
  note e = callback_exact [OF rok c] and m = callback_heard [OF rok c]
  let ?k = "min n (length (ring_content (run_ring r)))"
  let ?m = "zip out (replicate ?k True @ replicate (n - ?k) False)"
  have do: "audio_do op r = r\<lparr>run_ring := a', run_heard := run_heard r @ ?m\<rparr>"
    by (simp add: CALLBACK c Let_def)
  have "marked_frames (run_heard r @ ?m) @ ring_content a' = marked_frames (run_heard r) @ ring_content (run_ring r)"
    using m(2) e(2) by simp
  moreover have "held (0, 0) (run_heard r @ ?m)" using ok m(1) by (simp add: held_append stream_ok_def)
  moreover have "ring_last a' = last ((0, 0) # map fst (run_heard r @ ?m))"
  proof (cases "?m = []")
    case True
    then have "n = 0" using m(4) by auto
    then have "a' = run_ring r" using c by simp
    then show ?thesis using True ok by (simp add: stream_ok_def)
  next
    case False
    have "last ((0, 0) # map fst (xs @ ys)) = last ((0, 0) # map fst ys)" if "ys \<noteq> []"
      for xs ys :: "((i16 \<times> i16) \<times> bool) list"
      using that by simp
    note this [OF False, of "run_heard r"]
    then show ?thesis using m(3) [of "(0, 0)"] False by metis
  qed
  ultimately show ?thesis using ok e(1) unfolding do stream_ok_def by simp
qed

text \<open>
  C11: Sound reaches the card in order and is dropped only at a full ring.  However the
  emulation's pushes and the card's callbacks follow each other, the fresh frames that the
  card has got, followed by those in the ring, are exactly the pushed frames that found fewer than
  16383 frames in the ring, in order and without repetition; and every frame that is not fresh
  repeats the one before it, so an underrun freezes the output instead of dropping it to silence.
  A callback always gets as many frames as it asks for, fresh ones as long as the ring has any.
\<close>

theorem audio_stream:
  "let r = fold audio_do ops audio_start
   in marked_frames (run_heard r) @ ring_content (run_ring r) = marked_frames (run_pushed r) \<and>
      held (0, 0) (run_heard r) \<and> length (ring_content (run_ring r)) \<le> 16383 \<and>
      length (fst (audio_callback n (run_ring r))) = n"
proof -
  have start: "stream_ok audio_start"
    by (simp add: stream_ok_def audio_start_def audio_ring_zero_def ring_ok_def ring_last_def ring_content_def
        ring_size_def marked_frames_def)
  have "stream_ok (fold audio_do ops r)" if "stream_ok r" for r
    using that by (induction ops arbitrary: r) (simp_all add: stream_do)
  note ok = this [OF start]
  let ?r = "fold audio_do ops audio_start"
  have rok: "ring_ok (run_ring ?r)" using ok by (simp add: stream_ok_def)
  have "length (fst (audio_callback n (run_ring ?r))) = n"
    using callback_exact(3) [OF rok, of n "fst (audio_callback n (run_ring ?r))" "snd (audio_callback n (run_ring ?r))"] by simp
  then show ?thesis using ok sample_ring.content_cap [OF rok] by (auto simp: stream_ok_def Let_def)
qed

end
