(* ===== verification/Spec2Isabelle.thy ===== *)
theory Spec2Isabelle
  imports Cia_Behaviour Blitter_Slots Floppy_Mfm Copper Paula_Serial Rtc Slot_Scheduler Paula_Disk Paula_Audio Machine_Inv Lide_Driver Harness_Load Harness_Autoconfig Host_Video
begin

text \<open>
  Verification of Rigel, an emulator of the Amiga's custom chips written in C.

  \<^bold>\<open>The program.\<close>  A context (\<^verbatim>\<open>RigelContext\<close>, \<^verbatim>\<open>src/core\<close>) owns the chipset: Agnus (the beam, the DMA
  channels, the copper, the blitter and the scheduler that gives each colour clock of the bus
  to one of them), Denise (bitplanes, sprites, palette, the composed picture), Paula
  (interrupts, audio, disk, serial port, game ports), two CIA 8520 (timers, time of day,
  serial port, parallel ports), four floppy drives and a battery-backed clock.  The host owns
  the memory and the processor: it passes callbacks for chip RAM, reads and writes registers
  through \<^verbatim>\<open>src/mmio\<close>, and advances time with \<^verbatim>\<open>rigel_step\<close>, which runs the slot scheduler
  clock by clock, lets Paula and the CIAs follow and reports the events of the step.
  \<^verbatim>\<open>src/harness\<close> is such a host, around an external 68000 core; its bus has two Zorro
  boards, memory and disk controller, and it loads AmigaOS executables.

  \<^bold>\<open>Correspondence.\<close>  A C struct is a record with one field for each C field, an enum a datatype or a group
  of abbreviations, an unsigned integer of width w a word of that width (wrap-around is the
  word's), an array a list of fixed length updated by index, a C function a definition of the
  same name.  A bool result with out-parameters is an option; a void function on a struct
  gives the struct back; a callback is a parameter or an optional field; a raised interrupt is
  the mask, given back in a list and delivered to Paula by the caller.  Environment variables
  that the C code consults are fields of \<^verbatim>\<open>rigel_env\<close> or boolean arguments.  Pointers into the
  context are the component itself; a null context is not represented.

    \<^item> \<^verbatim>\<open>Rigel_Prelude\<close>: integer types, mask tests, byte and word halves, the SETCLR protocol as
      the locale \<^verbatim>\<open>setclr_register\<close>.
    \<^item> \<^verbatim>\<open>Chip_Ram\<close>, \<^verbatim>\<open>Custom_Space\<close>: the host's memory callbacks (locale \<^verbatim>\<open>chip_memory\<close>, with the
      harness's byte array as its interpretation), the mirrored view of the context (locale
      \<^verbatim>\<open>mirrored_memory\<close>) and the shadow registers (\<^verbatim>\<open>core/rigel_context.c\<close>).
    \<^item> \<^verbatim>\<open>Interrupts\<close>: \<^verbatim>\<open>domains/interrupt\<close>, \<^verbatim>\<open>irq\<close>, \<^verbatim>\<open>paula_interrupts.c\<close>; locale \<^verbatim>\<open>irq_controller\<close>.
    \<^item> \<^verbatim>\<open>Cia_Core\<close>, \<^verbatim>\<open>Cia_Timers\<close>, \<^verbatim>\<open>Cia\<close>, \<^verbatim>\<open>Cia_Behaviour\<close>: \<^verbatim>\<open>src/cia\<close>.
    \<^item> \<^verbatim>\<open>Blitter_Regs\<close>, \<^verbatim>\<open>Blitter_Exec\<close>, \<^verbatim>\<open>Blitter_Line\<close>, \<^verbatim>\<open>Blitter_Dma\<close>, \<^verbatim>\<open>Blitter_Slots\<close>:
      \<^verbatim>\<open>agnus/blitter\<close>; the locale \<^verbatim>\<open>slot_engine\<close> is what both kinds of blit promise to the slots.
    \<^item> \<^verbatim>\<open>Beam\<close>, \<^verbatim>\<open>Agnus_Dma\<close>, \<^verbatim>\<open>Copper\<close>, \<^verbatim>\<open>Slot_Scheduler\<close>: the rest of \<^verbatim>\<open>agnus\<close>.
    \<^item> \<^verbatim>\<open>Denise_Pixel\<close>, \<^verbatim>\<open>Denise_State\<close>, \<^verbatim>\<open>Denise_Compose\<close>, \<^verbatim>\<open>Denise_Line\<close>, \<^verbatim>\<open>Denise\<close>:
      \<^verbatim>\<open>chipset/denise\<close>; the locale \<^verbatim>\<open>line_pass\<close> is the contract of a drawing pass.
    \<^item> \<^verbatim>\<open>Paula_Serial\<close>, \<^verbatim>\<open>Paula_Disk\<close>, \<^verbatim>\<open>Paula_Audio\<close>: \<^verbatim>\<open>chipset/paula\<close>; the locale
      \<^verbatim>\<open>bounded_fifo\<close> is the contract of the transmit ring.
    \<^item> \<^verbatim>\<open>Floppy_Drive\<close>, \<^verbatim>\<open>Floppy_Mfm\<close>: \<^verbatim>\<open>src/floppy\<close>.  \<^verbatim>\<open>Rtc\<close>: \<^verbatim>\<open>src/rtc\<close>.
    \<^item> \<^verbatim>\<open>Context\<close>, \<^verbatim>\<open>Mmio\<close>, \<^verbatim>\<open>Machine\<close>, \<^verbatim>\<open>Rigel_Api\<close>, \<^verbatim>\<open>Machine_Inv\<close>: the machine put together: its
      record, its registers, its clock, its public interface (\<^verbatim>\<open>core/rigel.c\<close>) and its invariant
      (locale \<^verbatim>\<open>machine_part\<close>: what an update of one part leaves alone).
    \<^item> \<^verbatim>\<open>Host_Bytes\<close>, \<^verbatim>\<open>Ata_Ide\<close>, \<^verbatim>\<open>Atapi_Cdrom\<close>, \<^verbatim>\<open>Ata_Channel\<close>, \<^verbatim>\<open>Ata_Transfer\<close>, \<^verbatim>\<open>Zorro\<close>,
      \<^verbatim>\<open>Lide\<close>, \<^verbatim>\<open>Lide_Behaviour\<close>, \<^verbatim>\<open>Lide_Driver\<close>: \<^verbatim>\<open>harness/expansions\<close>.  The locale
      \<^verbatim>\<open>ata_channel\<close> joins \<^verbatim>\<open>ata_disk\<close> and \<^verbatim>\<open>packet_device\<close>, what the channel relies on; they are
      interpreted on hard disk and CD images.  The fast RAM board is one more \<^verbatim>\<open>chip_memory\<close>.
    \<^item> \<^verbatim>\<open>Hunk\<close>, \<^verbatim>\<open>Harness_Load\<close>: \<^verbatim>\<open>harness/hunk.c\<close>; the locale \<^verbatim>\<open>loader_window\<close>, the memory that may be
      loaded into, is interpreted on the harness's bus, for the board and for chip RAM.
    \<^item> \<^verbatim>\<open>Harness_Bus\<close>, \<^verbatim>\<open>Harness_Run\<close>, \<^verbatim>\<open>Harness_Clock\<close>, \<^verbatim>\<open>Harness_Memory\<close>, \<^verbatim>\<open>Harness_Autoconfig\<close>:
      \<^verbatim>\<open>harness/harness.c\<close>.  \<^verbatim>\<open>Host_Video\<close>: \<^verbatim>\<open>harness/harness_video.c\<close>, with
      \<^verbatim>\<open>bounded_fifo\<close> again as the contract of its ring of samples.

  \<^bold>\<open>What is shown.\<close> Interrupts: the level is the one the priority table gives, on
  every reachable state. CIA: the closed form of the timers agrees with single ticks; the time of day
  counts, is read atomically and fires its alarm; bytes pass the serial port in order; every operation
  keeps the invariant. Blitter: the incremental line engine draws the reference line; a blit (line
  blits of height 0 apart) ends after exactly the slots of its cost model; minterms and fill agree
  with their definition. Agnus: the slot table gives every clock its owner, each bitplane word with a
  place on the line is fetched once, a slot table is never stale unmarked, the predictions of the bus
  and of the beam name the clock that comes, sprites are fetched in their window, a copper WAIT for a
  position the beam reaches is released where its deadline says. Denise: a composed line shows at
  every pixel what the playfields and sprites say, both single-playfield loops agree, the host reads
  inside the frame store, a finished line appears in the next front buffer. Paula: the serial queue
  delivers bytes in order, audio blocks loop from wherever a channel stands, disk reads move the words
  of the track. Floppy: head, identification and MFM encoding, which decodes to the sector it came
  from. Clock: calendar and registers agree. The machine: from creation on, under register accesses,
  input and steps, \<^verbatim>\<open>rigel_step\<close> always returns, and every index it uses is
  inside its array; a refused access changes nothing (a custom register read of an unsupported size
  apart, which has read the register). The disk board: on every reachable board sectors
  written are read back, a CD read of up to 256 sectors delivers the bytes of the image if the volume
  descriptor is not patched, the data port stays in its buffer, and the sense data name the fault. The
  host: its main loop returns and keeps chipset and processor time equal to the colour clock; with the
  ROM overlay off memory reads back what was written; a load that returns changes nothing outside its
  window, if no size of the file is so large that the check of the code wraps; the boards are
  configured one after the other; sound reaches the card in order and is dropped only at a full ring.

  \<^bold>\<open>Bounds and loops.\<close> A loop whose end depends on the data is a
  \<^verbatim>\<open>partial_function\<close> into option, and that it returns is proved: the beam
  loop for every beam whose line is not empty, the audio period loop for every nonzero period, the
  host's main loop for every lawful core. Reading a malformed executable can fail to end in the C
  code, so the loader is a partial function with no claim that it returns. Where a C loop is bounded
  by a counter the recursion is on that counter; no fuel is used anywhere.
  \<^verbatim>\<open>machine_at\<close> states the bounds of all indices: plane words below
  \<^verbatim>\<open>RIGEL_DENISE_MAX_PLANE_WORDS\<close>, queue indices below the queue sizes, beam
  inside line and frame.

  \<^bold>\<open>Not modelled.\<close>  Log, trace and dump output (\<^verbatim>\<open>src/debug\<close>, \<^verbatim>\<open>agnus/debug\<close>, \<^verbatim>\<open>denise/debug\<close>,
  \<^verbatim>\<open>blitter_debug.c\<close>), because it has no effect on the machine; the NEON and SSE variants
  (\<^verbatim>\<open>src/simd\<close>), whose scalar fallback is modelled where it is used; sources outside the build
  (\<^verbatim>\<open>blitter_fill.c\<close>, \<^verbatim>\<open>denise/video\<close> but for the display window, the bus stubs); of the host, its
  main program, diagnostics and drawing, which print or call SDL; the tests and tools.  The
  68000 core is an empty submodule: it is a parameter (record \<^verbatim>\<open>m68k_core\<close>), and the theorem on
  the main loop asks of it (\<^verbatim>\<open>m68k_lawful\<close>) only that it returns, acts on the machine through
  the bus and counts its cycles.  Host files are lists of bytes; their devices do not fail.
\<close>

end
